(* ===== verification/Prelude.thy ===== *)
theory Prelude
  imports Main "HOL-Library.Word" "HOL-Library.Char_ord" "HOL-Library.List_Lexorder"
    "HOL-Library.Product_Lexorder"
begin

text \<open>
  What every component shares: Rust's \<open>Result\<close> as a sum with the chaining of its \<open>?\<close>
  operator, the checked and saturating operations on \<open>u64\<close>, small facts on lists, and
  the collections of lemmas the component proofs use.
\<close>

named_theorems result_simps \<open>equations and inversions of result chains\<close>
named_theorems u64_simps \<open>bounds of the saturating and checked operations\<close>

subsection \<open>Results\<close>

text \<open>
  \<open>Result<T, E>\<close> is the sum \<open>'e + 't\<close>, the error on the left. \<open>and_then m f\<close> is
  \<open>f(m?)\<close>: an error of \<open>m\<close> is returned at once. \<open>ensure b e\<close> is the guard
  \<open>if !b { return Err(e) }\<close>.
\<close>

fun and_then :: "'e + 'a \<Rightarrow> ('a \<Rightarrow> 'e + 'b) \<Rightarrow> 'e + 'b" where
  "and_then (Inl e) f = Inl e"
| "and_then (Inr x) f = f x"

definition ensure :: "bool \<Rightarrow> 'e \<Rightarrow> 'e + unit" where
  "ensure b e = (if b then Inr () else Inl e)"

definition ok_or :: "'a option \<Rightarrow> 'e \<Rightarrow> 'e + 'a" where
  "ok_or m e = (case m of Some x \<Rightarrow> Inr x | None \<Rightarrow> Inl e)"

fun map_err :: "('e \<Rightarrow> 'f) \<Rightarrow> 'e + 'a \<Rightarrow> 'f + 'a" where
  "map_err g (Inl e) = Inl (g e)"
| "map_err g (Inr x) = Inr x"

lemma and_then_Inr_iff [result_simps]:
  "and_then m f = Inr y \<longleftrightarrow> (\<exists>x. m = Inr x \<and> f x = Inr y)"
  by (cases m) auto

lemma and_then_Inl_iff [result_simps]:
  "and_then m f = Inl e \<longleftrightarrow> m = Inl e \<or> (\<exists>x. m = Inr x \<and> f x = Inl e)"
  by (cases m) auto

lemma and_then_InrE [elim]:
  assumes "and_then m f = Inr y"
  obtains x where "m = Inr x" and "f x = Inr y"
  using assms by (cases m) auto

lemma ensure_Inr_iff [result_simps, simp]: "ensure b e = Inr u \<longleftrightarrow> b"
  by (simp add: ensure_def)

lemma ensure_Inl_iff [result_simps, simp]: "ensure b e = Inl e' \<longleftrightarrow> \<not> b \<and> e = e'"
  by (simp add: ensure_def)

lemma ok_or_Inr_iff [result_simps, simp]: "ok_or m e = Inr x \<longleftrightarrow> m = Some x"
  by (simp add: ok_or_def split: option.splits)

lemma ok_or_Inl_iff [result_simps, simp]: "ok_or m e = Inl e' \<longleftrightarrow> m = None \<and> e = e'"
  by (auto simp add: ok_or_def split: option.splits)

lemma ok_or_simps [simp]: "ok_or (Some x) e = Inr x" "ok_or None e = Inl e"
  by (simp_all add: ok_or_def)

lemma ensure_simps [simp]: "ensure True e = Inr ()" "ensure False e = Inl e"
  by (simp_all add: ensure_def)

lemma map_err_Inr_iff [result_simps, simp]: "map_err g m = Inr x \<longleftrightarrow> m = Inr x"
  by (cases m) auto

lemma map_err_Inl_iff [result_simps]: "map_err g m = Inl e \<longleftrightarrow> (\<exists>e'. m = Inl e' \<and> e = g e')"
  by (cases m) auto

lemma never_Inr: "(\<And>x. m \<noteq> Inr x) \<Longrightarrow> \<exists>e. m = Inl e"
  by (cases m) auto

text \<open>\<open>iter().map(f).collect::<Result<Vec<_>, _>>()\<close>, and loops that push one result.\<close>

fun collect_results :: "('a \<Rightarrow> 'e + 'b) \<Rightarrow> 'a list \<Rightarrow> 'e + 'b list" where
  "collect_results f [] = Inr []"
| "collect_results f (x # xs) =
     and_then (f x) (\<lambda>y. and_then (collect_results f xs) (\<lambda>ys. Inr (y # ys)))"

lemma collect_results_Inr_iff:
  "collect_results f xs = Inr ys \<longleftrightarrow> list_all2 (\<lambda>x y. f x = Inr y) xs ys"
proof (induction xs arbitrary: ys)
  case Nil
  then show ?case by auto
next
  case (Cons x xs)
  then show ?case by (cases ys) (auto simp: result_simps)
qed

subsection \<open>Unsigned machine integers\<close>

type_synonym u64 = "64 word"
type_synonym u32 = "32 word"

definition u64_max :: u64 where
  "u64_max = 18446744073709551615"

text \<open>\<open>u64::saturating_add\<close>, \<open>u64::checked_add\<close> and \<open>u64::saturating_mul\<close>.\<close>

definition sat_add :: "u64 \<Rightarrow> u64 \<Rightarrow> u64" where
  "sat_add a b = (if unat a + unat b < 2 ^ 64 then a + b else u64_max)"

definition sat_mul :: "u64 \<Rightarrow> u64 \<Rightarrow> u64" where
  "sat_mul a b = (if unat a * unat b < 2 ^ 64 then a * b else u64_max)"

definition checked_add :: "u64 \<Rightarrow> u64 \<Rightarrow> u64 option" where
  "checked_add a b = (if unat a + unat b < 2 ^ 64 then Some (a + b) else None)"

lemma unat_lt_64: "unat (a :: u64) < 2 ^ 64"
  using unsigned_less [of a] by simp

lemma unat_u64_max [simp]: "unat u64_max = 2 ^ 64 - 1"
  by (simp add: u64_max_def)

lemma unat_sat_add [u64_simps]: "unat (sat_add a b) = min (unat a + unat b) (2 ^ 64 - 1)"
  using unat_lt_64 [of a] unat_lt_64 [of b]
  by (auto simp: sat_add_def unat_word_ariths)

lemma unat_sat_mul [u64_simps]: "unat (sat_mul a b) = min (unat a * unat b) (2 ^ 64 - 1)"
  by (auto simp: sat_mul_def unat_word_ariths)

lemma unat_sat_exact:
  "unat a + unat b < 2 ^ 64 \<Longrightarrow> unat (sat_add a b) = unat a + unat b"
  "unat a * unat b < 2 ^ 64 \<Longrightarrow> unat (sat_mul a b) = unat a * unat b"
  by (simp_all add: unat_sat_add unat_sat_mul)

lemma checked_add_Some [u64_simps]:
  "checked_add a b = Some c \<longleftrightarrow> unat a + unat b < 2 ^ 64 \<and> unat c = unat a + unat b"
  by (auto simp: checked_add_def unat_word_ariths word_unat_eq_iff)

lemma sat_add_ge [simp]: "a \<le> sat_add a b"
  using unat_lt_64 [of a] by (simp add: word_le_nat_alt unat_sat_add)

lemma sat_inc_gt: "a \<noteq> u64_max \<Longrightarrow> a < sat_add a 1"
  using unat_lt_64 [of a]
  by (auto simp: word_less_nat_alt unat_sat_add word_unat_eq_iff)

lemma sat_inc_pos [simp]: "0 < sat_add a 1"
  by (simp add: word_less_nat_alt unat_sat_add)

lemma sat_inc_eq: "a \<noteq> u64_max \<Longrightarrow> sat_add a 1 = a + 1"
  using unat_lt_64 [of a] by (auto simp: sat_add_def word_unat_eq_iff)

lemma less_u64_max: "a < u64_max \<longleftrightarrow> a \<noteq> u64_max"
  using unat_lt_64 [of a] by (auto simp: word_less_nat_alt word_unat_eq_iff)

lemma le_u64_max [simp]: "a \<le> u64_max"
  using less_u64_max [of a] by (cases "a = u64_max") auto

lemma sat_add_max [simp]: "sat_add u64_max b = u64_max"
  by (simp add: word_unat_eq_iff unat_sat_add)

lemma sat_inc_less_maxD: "sat_add a 1 \<noteq> u64_max \<Longrightarrow> a \<noteq> u64_max"
  by auto

subsection \<open>Lists\<close>

lemma find_Some_mem: "List.find P xs = Some x \<Longrightarrow> x \<in> set xs \<and> P x"
  by (auto simp: find_Some_iff)

lemma find_None_conv: "List.find P xs = None \<longleftrightarrow> (\<forall>x\<in>set xs. \<not> P x)"
  by (auto simp: find_None_iff)

end
