(* ===== verification/Rust_Text.thy ===== *)
theory Rust_Text
  imports Prelude
begin

text \<open>
  The parts of Rust's \<open>str\<close>, \<open>char\<close> and integer parsing that the sources use. A byte is
  a HOL \<open>char\<close> (exactly eight bits), so both \<open>&[u8]\<close> and \<open>str\<close> (its UTF-8 bytes) are
  \<open>string\<close>, and \<open>len()\<close> is \<open>length\<close>. \<open>chars()\<close> is the list of code points, as
  decoded by the well-formedness table of the Unicode standard that
  \<open>str::from_utf8\<close> implements.
\<close>

type_synonym bytes = string

abbreviation bv :: "char \<Rightarrow> nat" where
  "bv c \<equiv> of_char c"

subsection \<open>ASCII classes\<close>

definition ascii_digit :: "nat \<Rightarrow> bool" where
  "ascii_digit n \<longleftrightarrow> 48 \<le> n \<and> n \<le> 57"

definition ascii_upper :: "nat \<Rightarrow> bool" where
  "ascii_upper n \<longleftrightarrow> 65 \<le> n \<and> n \<le> 90"

definition ascii_lower :: "nat \<Rightarrow> bool" where
  "ascii_lower n \<longleftrightarrow> 97 \<le> n \<and> n \<le> 122"

definition ascii_alphanumeric :: "nat \<Rightarrow> bool" where
  "ascii_alphanumeric n \<longleftrightarrow> ascii_digit n \<or> ascii_upper n \<or> ascii_lower n"

definition ascii_hexdigit :: "nat \<Rightarrow> bool" where
  "ascii_hexdigit n \<longleftrightarrow> ascii_digit n \<or> 65 \<le> n \<and> n \<le> 70 \<or> 97 \<le> n \<and> n \<le> 102"

definition ascii_whitespace :: "nat \<Rightarrow> bool" where
  "ascii_whitespace n \<longleftrightarrow> n = 32 \<or> n = 9 \<or> n = 10 \<or> n = 12 \<or> n = 13"

text \<open>\<open>char::is_control\<close>: the code points of general category Cc.\<close>

definition is_control :: "nat \<Rightarrow> bool" where
  "is_control n \<longleftrightarrow> n < 32 \<or> 127 \<le> n \<and> n < 160"

lemmas ascii_defs = ascii_digit_def ascii_upper_def ascii_lower_def ascii_alphanumeric_def
  ascii_hexdigit_def ascii_whitespace_def

subsection \<open>UTF-8\<close>

definition cont_byte :: "nat \<Rightarrow> bool" where
  "cont_byte b \<longleftrightarrow> 128 \<le> b \<and> b < 192"

text \<open>The second byte of a three- or four-byte sequence is narrowed by the first.\<close>

definition second_of_three :: "nat \<Rightarrow> nat \<Rightarrow> bool" where
  "second_of_three b0 b1 \<longleftrightarrow>
     (if b0 = 224 then 160 \<le> b1 \<and> b1 < 192
      else if b0 = 237 then 128 \<le> b1 \<and> b1 < 160
      else cont_byte b1)"

definition second_of_four :: "nat \<Rightarrow> nat \<Rightarrow> bool" where
  "second_of_four b0 b1 \<longleftrightarrow>
     (if b0 = 240 then 144 \<le> b1 \<and> b1 < 192
      else if b0 = 244 then 128 \<le> b1 \<and> b1 < 144
      else cont_byte b1)"

fun utf8_decode :: "nat list \<Rightarrow> nat list option" where
  "utf8_decode [] = Some []"
| "utf8_decode (b0 # r) =
     (if b0 < 128 then map_option ((#) b0) (utf8_decode r)
      else if 194 \<le> b0 \<and> b0 < 224 then
        (case r of
           b1 # r1 \<Rightarrow>
             if cont_byte b1
             then map_option ((#) ((b0 - 192) * 64 + (b1 - 128))) (utf8_decode r1) else None
         | _ \<Rightarrow> None)
      else if 224 \<le> b0 \<and> b0 < 240 then
        (case r of
           b1 # b2 # r2 \<Rightarrow>
             if second_of_three b0 b1 \<and> cont_byte b2
             then map_option ((#) ((b0 - 224) * 4096 + (b1 - 128) * 64 + (b2 - 128)))
                    (utf8_decode r2) else None
         | _ \<Rightarrow> None)
      else if 240 \<le> b0 \<and> b0 < 245 then
        (case r of
           b1 # b2 # b3 # r3 \<Rightarrow>
             if second_of_four b0 b1 \<and> cont_byte b2 \<and> cont_byte b3
             then map_option ((#) ((b0 - 240) * 262144 + (b1 - 128) * 4096
                                   + (b2 - 128) * 64 + (b3 - 128))) (utf8_decode r3) else None
         | _ \<Rightarrow> None)
      else None)"

definition scalar_value :: "nat \<Rightarrow> bool" where
  "scalar_value c \<longleftrightarrow> c < 55296 \<or> 57344 \<le> c \<and> c < 1114112"

definition utf8_encode :: "nat \<Rightarrow> nat list" where
  "utf8_encode c =
     (if c < 128 then [c]
      else if c < 2048 then [192 + c div 64, 128 + c mod 64]
      else if c < 65536 then [224 + c div 4096, 128 + c div 64 mod 64, 128 + c mod 64]
      else [240 + c div 262144, 128 + c div 4096 mod 64, 128 + c div 64 mod 64, 128 + c mod 64])"

text \<open>\<open>char::encode_utf8\<close> as bytes, \<open>str::from_utf8\<close> and \<open>str::chars\<close>.\<close>

definition encode_char :: "nat \<Rightarrow> bytes" where
  "encode_char c = map char_of (utf8_encode c)"

definition is_utf8 :: "bytes \<Rightarrow> bool" where
  "is_utf8 s \<longleftrightarrow> utf8_decode (map of_char s) \<noteq> None"

definition chars :: "string \<Rightarrow> nat list" where
  "chars s = (case utf8_decode (map of_char s) of Some cs \<Rightarrow> cs | None \<Rightarrow> [])"

text \<open>One equation per length of the encoding replaces the conditional one.\<close>

lemma utf8_decode_1 [simp]:
  "b0 < 128 \<Longrightarrow> utf8_decode (b0 # r) = map_option ((#) b0) (utf8_decode r)"
  by simp

lemma utf8_decode_2 [simp]:
  "194 \<le> b0 \<Longrightarrow> b0 < 224 \<Longrightarrow> cont_byte b1 \<Longrightarrow>
   utf8_decode (b0 # b1 # r) = map_option ((#) ((b0 - 192) * 64 + (b1 - 128))) (utf8_decode r)"
  by simp

lemma utf8_decode_3 [simp]:
  "224 \<le> b0 \<Longrightarrow> b0 < 240 \<Longrightarrow> second_of_three b0 b1 \<Longrightarrow> cont_byte b2 \<Longrightarrow>
   utf8_decode (b0 # b1 # b2 # r) =
     map_option ((#) ((b0 - 224) * 4096 + (b1 - 128) * 64 + (b2 - 128))) (utf8_decode r)"
  by simp

lemma utf8_decode_4 [simp]:
  "240 \<le> b0 \<Longrightarrow> b0 < 245 \<Longrightarrow> second_of_four b0 b1 \<Longrightarrow> cont_byte b2 \<Longrightarrow> cont_byte b3 \<Longrightarrow>
   utf8_decode (b0 # b1 # b2 # b3 # r) =
     map_option ((#) ((b0 - 240) * 262144 + (b1 - 128) * 4096 + (b2 - 128) * 64 + (b3 - 128)))
       (utf8_decode r)"
  by simp

declare utf8_decode.simps(2) [simp del]

lemma utf8_decode_ascii_append:
  "\<forall>b\<in>set bs. b < 128 \<Longrightarrow> utf8_decode (bs @ r) = map_option ((@) bs) (utf8_decode r)"
proof (induction bs)
  case Nil
  show ?case by (cases "utf8_decode r") auto
next
  case (Cons b bs)
  then show ?case by (cases "utf8_decode r") auto
qed

lemma utf8_decode_ascii: "\<forall>b\<in>set bs. b < 128 \<Longrightarrow> utf8_decode bs = Some bs"
  using utf8_decode_ascii_append [of bs "[]"] by simp

lemma base64_digits:
  obtains x y where "c = x * 64 + y" "y < (64::nat)" "c div 64 = x" "c mod 64 = y"
proof
  show "c = c div 64 * 64 + c mod 64" by simp
qed auto

lemma utf8_decode_encode:
  assumes "scalar_value c"
  shows "utf8_decode (utf8_encode c @ r) = map_option ((#) c) (utf8_decode r)"
proof -
  obtain x y where c1: "c = x * 64 + y" "y < 64" "c div 64 = x" "c mod 64 = y"
    by (rule base64_digits)
  obtain x2 y2 where c2: "x = x2 * 64 + y2" "y2 < 64" "x div 64 = x2" "x mod 64 = y2"
    by (rule base64_digits)
  obtain x3 y3 where c3: "x2 = x3 * 64 + y3" "y3 < 64" "x2 div 64 = x3" "x2 mod 64 = y3"
    by (rule base64_digits)
  have d: "c div 4096 = x2" "c div 262144 = x3"
    using div_mult2_eq [of c 64 64] div_mult2_eq [of c 4096 64] c1(3) c2(3) c3(3) by simp_all
  consider "c < 128" | "128 \<le> c" "c < 2048" | "2048 \<le> c" "c < 65536" | "65536 \<le> c"
    by linarith
  then show ?thesis
  proof cases
    case 1
    then show ?thesis by (simp add: utf8_encode_def)
  next
    case 2
    then have e: "utf8_encode c = [192 + x, 128 + y]" by (simp add: utf8_encode_def c1(3,4))
    have "2 \<le> x" "x < 32" using 2 c1(1,2) by linarith+
    then show ?thesis unfolding e using c1(1,2) by (simp add: cont_byte_def)
  next
    case 3
    then have e: "utf8_encode c = [224 + x2, 128 + y2, 128 + y]"
      by (simp add: utf8_encode_def c1(3,4) c2(4) d)
    have v: "c = x2 * 4096 + y2 * 64 + y" using c1(1) c2(1) by simp
    have s: "c < 55296 \<or> 57344 \<le> c" using assms 3 by (auto simp: scalar_value_def)
    have "x2 < 16" "x2 = 0 \<longrightarrow> 32 \<le> y2" "x2 = 13 \<longrightarrow> y2 < 32"
      using 3 s v c1(2) c2(2) by linarith+
    then show ?thesis unfolding e unfolding v using c1(2) c2(2)
      by (simp add: cont_byte_def second_of_three_def)
  next
    case 4
    then have e: "utf8_encode c = [240 + x3, 128 + y3, 128 + y2, 128 + y]"
      by (simp add: utf8_encode_def c1(3,4) c2(4) c3(4) d)
    have v: "c = x3 * 262144 + y3 * 4096 + y2 * 64 + y" using c1(1) c2(1) c3(1) by simp
    have s: "c < 1114112" using assms 4 by (auto simp: scalar_value_def)
    have "x3 < 5" "x3 = 0 \<longrightarrow> 16 \<le> y3" "x3 = 4 \<longrightarrow> y3 < 16"
      using 4 s v c1(2) c2(2) c3(2) by linarith+
    then show ?thesis unfolding e unfolding v using c1(2) c2(2) c3(2)
      by (simp add: cont_byte_def second_of_four_def)
  qed
qed


lemma of_char_encode_char:
  assumes "scalar_value c"
  shows "map of_char (encode_char c) = utf8_encode c"
proof -
  have "\<forall>b\<in>set (utf8_encode c). b < 256"
    using assms by (auto simp: utf8_encode_def scalar_value_def)
  then show ?thesis by (simp add: encode_char_def map_idI)
qed

lemma is_utf8_encode_char [simp]:
  assumes "scalar_value c"
  shows "is_utf8 (encode_char c @ s) = is_utf8 s"
  using utf8_decode_encode [OF assms] by (simp add: is_utf8_def of_char_encode_char [OF assms])

lemma chars_encode_char:
  assumes "scalar_value c" and "is_utf8 s"
  shows "chars (encode_char c @ s) = c # chars s"
  using assms utf8_decode_encode [OF assms(1)]
  by (auto simp: chars_def is_utf8_def of_char_encode_char)

definition ascii_string :: "string \<Rightarrow> bool" where
  "ascii_string s \<longleftrightarrow> list_all (\<lambda>c. bv c < 128) s"

lemma is_utf8_ascii: "ascii_string s \<Longrightarrow> is_utf8 s"
  by (simp add: is_utf8_def ascii_string_def list_all_iff utf8_decode_ascii)

lemma chars_ascii: "ascii_string s \<Longrightarrow> chars s = map of_char s"
  by (simp add: chars_def ascii_string_def list_all_iff utf8_decode_ascii)

text \<open>
  A code point below 128 comes from the byte of the same value: a decoded string whose code
  points are all ASCII is that list of bytes.
\<close>

lemma utf8_decode_Cons_cases:
  assumes "utf8_decode (b0 # r) = Some cs"
  obtains (one) cs' where "b0 < 128" "cs = b0 # cs'" "utf8_decode r = Some cs'"
  | (more) c cs' where "128 \<le> b0" "128 \<le> c" "cs = c # cs'"
proof (cases "b0 < 128")
  case True
  then show ?thesis using assms one by auto
next
  case False
  have two: "128 \<le> (b0 - 192) * 64 + k" if "194 \<le> b0" for k using that by simp
  have three: "128 \<le> (b0 - 224) * 4096 + (b1 - 128) * 64 + k"
    if "second_of_three b0 b1" "224 \<le> b0" for b1 k
    using that by (cases "b0 = 224") (auto simp: second_of_three_def)
  have four: "128 \<le> (b0 - 240) * 262144 + (b1 - 128) * 4096 + k + j"
    if "second_of_four b0 b1" "240 \<le> b0" for b1 k j
    using that by (cases "b0 = 240") (auto simp: second_of_four_def)
  have "\<exists>c cs'. 128 \<le> c \<and> cs = c # cs'"
    using assms False two three four
    by (auto simp: utf8_decode.simps(2) split: if_splits list.splits)
  then show ?thesis using False more by auto
qed

lemma utf8_decode_ascii_inv:
  "utf8_decode bs = Some cs \<Longrightarrow> \<forall>c\<in>set cs. c < 128 \<Longrightarrow> bs = cs"
proof (induction bs arbitrary: cs)
  case Nil
  then show ?case by simp
next
  case (Cons b0 r)
  from Cons.prems(1) show ?case
    by (cases rule: utf8_decode_Cons_cases) (use Cons in auto)
qed

subsection \<open>Decimal numbers\<close>

text \<open>\<open>{n}\<close> of the formatting macros, and \<open>{n:0w}\<close>.\<close>

definition digit_char :: "nat \<Rightarrow> char" where
  "digit_char d = char_of (48 + d)"

fun dec :: "nat \<Rightarrow> string" where
  "dec n = (if n < 10 then [digit_char n] else dec (n div 10) @ [digit_char (n mod 10)])"

declare dec.simps [simp del]

definition zero_pad :: "nat \<Rightarrow> string \<Rightarrow> string" where
  "zero_pad w s = replicate (w - length s) (CHR ''0'') @ s"

definition all_digits :: "string \<Rightarrow> bool" where
  "all_digits s \<longleftrightarrow> list_all (\<lambda>c. ascii_digit (bv c)) s"

definition digits_value :: "string \<Rightarrow> nat" where
  "digits_value s = foldl (\<lambda>a c. a * 10 + (bv c - 48)) 0 s"

text \<open>
  \<open>str::parse\<close> for unsigned and signed integers: an optional sign, at least one digit, no
  other character, and a value in range.
\<close>

definition parse_u64 :: "string \<Rightarrow> u64 option" where
  "parse_u64 s =
     (let t = (case s of c # r \<Rightarrow> if c = CHR ''+'' then r else s | [] \<Rightarrow> s)
      in if t \<noteq> [] \<and> all_digits t \<and> digits_value t < 2 ^ 64
         then Some (of_nat (digits_value t)) else None)"

definition parse_i64 :: "string \<Rightarrow> int option" where
  "parse_i64 s =
     (let neg = (s \<noteq> [] \<and> hd s = CHR ''-'');
          t = (case s of c # r \<Rightarrow> if c = CHR ''+'' \<or> c = CHR ''-'' then r else s | [] \<Rightarrow> s);
          v = (if neg then - int (digits_value t) else int (digits_value t))
      in if t \<noteq> [] \<and> all_digits t \<and> - (2 ^ 63) \<le> v \<and> v < 2 ^ 63 then Some v else None)"

lemma digit_char_simps:
  "digit_char 0 = CHR ''0''" "digit_char (Suc 0) = CHR ''1''" "digit_char 2 = CHR ''2''"
  "digit_char 3 = CHR ''3''" "digit_char 4 = CHR ''4''" "digit_char 5 = CHR ''5''"
  "digit_char 6 = CHR ''6''" "digit_char 7 = CHR ''7''" "digit_char 8 = CHR ''8''"
  "digit_char 9 = CHR ''9''"
  by code_simp+

lemma bv_digit_char: "d < 10 \<Longrightarrow> bv (digit_char d) = 48 + d"
  by (simp add: digit_char_def)

lemma ascii_digit_digit_char: "d < 10 \<Longrightarrow> ascii_digit (bv (digit_char d))"
  by (simp add: bv_digit_char ascii_digit_def)

lemma digits_value_snoc: "digits_value (s @ [c]) = digits_value s * 10 + (bv c - 48)"
  by (simp add: digits_value_def)

lemma all_digits_append [simp]: "all_digits (s @ t) \<longleftrightarrow> all_digits s \<and> all_digits t"
  by (simp add: all_digits_def)

lemma all_digits_Cons [simp]: "all_digits (c # t) \<longleftrightarrow> ascii_digit (bv c) \<and> all_digits t"
  by (simp add: all_digits_def)

lemma all_digits_Nil [simp]: "all_digits []"
  by (simp add: all_digits_def)

lemma dec_nonempty [simp]: "dec n \<noteq> []"
  by (subst dec.simps) simp

lemma dec_digits [simp]: "all_digits (dec n)"
proof (induction n rule: dec.induct)
  case (1 n)
  then show ?case by (subst dec.simps) (simp add: ascii_digit_digit_char)
qed

lemma digits_value_dec [simp]: "digits_value (dec n) = n"
proof (induction n rule: dec.induct)
  case (1 n)
  show ?case
  proof (cases "n < 10")
    case True
    then show ?thesis by (subst dec.simps) (simp add: digits_value_def bv_digit_char)
  next
    case False
    with 1 show ?thesis by (subst dec.simps) (simp add: digits_value_snoc bv_digit_char)
  qed
qed

lemma dec_inject [simp]: "dec m = dec n \<longleftrightarrow> m = n"
  by (metis digits_value_dec)

lemma digits_value_zeros [simp]: "digits_value (replicate k (CHR ''0'') @ s) = digits_value s"
  by (induction k) (simp_all add: digits_value_def)

lemma zero_pad_digits [simp]: "all_digits (zero_pad w s) \<longleftrightarrow> all_digits s"
proof -
  have "all_digits (replicate k (CHR ''0''))" for k
    by (induction k) (simp_all add: ascii_digit_def)
  then show ?thesis by (simp add: zero_pad_def)
qed

lemma zero_pad_value [simp]: "digits_value (zero_pad w s) = digits_value s"
  by (simp add: zero_pad_def)

lemma zero_pad_nonempty [simp]: "zero_pad w s = [] \<longleftrightarrow> w = 0 \<and> s = []"
  by (auto simp: zero_pad_def)

lemma digit_not_sign:
  assumes "all_digits s" "s \<noteq> []"
  shows "hd s \<noteq> CHR ''+''" "hd s \<noteq> CHR ''-''"
  using assms by (cases s; auto simp: ascii_digit_def)+

lemma parse_u64_digits:
  assumes "all_digits s" "s \<noteq> []" "digits_value s < 2 ^ 64"
  shows "parse_u64 s = Some (of_nat (digits_value s))"
  using assms digit_not_sign [OF assms(1,2)]
  by (cases s) (auto simp: parse_u64_def Let_def)

lemma parse_i64_digits:
  assumes "all_digits s" "s \<noteq> []" "digits_value s < 2 ^ 63"
  shows "parse_i64 s = Some (int (digits_value s))"
  using assms digit_not_sign [OF assms(1,2)]
  by (cases s) (auto simp: parse_i64_def Let_def)

lemma parse_u64_dec: "n < 2 ^ 64 \<Longrightarrow> parse_u64 (dec n) = Some (of_nat n)"
  by (simp add: parse_u64_digits)

subsection \<open>Hexadecimal\<close>

text \<open>\<open>{byte:02x}\<close>, and the rendering of a digest.\<close>

definition hex_digit :: "nat \<Rightarrow> char" where
  "hex_digit d = (if d < 10 then char_of (48 + d) else char_of (87 + d))"

definition hex2 :: "char \<Rightarrow> string" where
  "hex2 b = [hex_digit (bv b div 16), hex_digit (bv b mod 16)]"

definition hex_bytes :: "bytes \<Rightarrow> string" where
  "hex_bytes bs = concat (map hex2 bs)"

definition lower_hex :: "string \<Rightarrow> bool" where
  "lower_hex s \<longleftrightarrow> list_all (\<lambda>c. ascii_hexdigit (bv c) \<and> \<not> ascii_upper (bv c)) s"

lemma lower_hex_digit: "d < 16 \<Longrightarrow> ascii_hexdigit (bv (hex_digit d)) \<and> \<not> ascii_upper (bv (hex_digit d))"
  by (auto simp: hex_digit_def ascii_defs)

lemma length_hex_bytes [simp]: "length (hex_bytes bs) = 2 * length bs"
  by (induction bs) (simp_all add: hex_bytes_def hex2_def)

lemma lower_hex_hex_bytes [simp]: "lower_hex (hex_bytes bs)"
  by (induction bs) (auto simp: hex_bytes_def hex2_def lower_hex_def lower_hex_digit
      less_mult_imp_div_less)

lemma hex_digit_inject: "d < 16 \<Longrightarrow> e < 16 \<Longrightarrow> hex_digit d = hex_digit e \<Longrightarrow> d = e"
proof -
  assume "d < 16" "e < 16" "hex_digit d = hex_digit e"
  then have "bv (hex_digit d) = bv (hex_digit e)" by simp
  then show "d = e" using \<open>d < 16\<close> \<open>e < 16\<close> by (auto simp: hex_digit_def split: if_splits)
qed

lemma hex2_inject [simp]: "hex2 a = hex2 b \<longleftrightarrow> a = b"
proof
  assume "hex2 a = hex2 b"
  moreover have "bv c div 16 < 16" for c :: char by (rule less_mult_imp_div_less) simp
  ultimately have "bv a div 16 = bv b div 16" "bv a mod 16 = bv b mod 16"
    using hex_digit_inject [of "bv a div 16" "bv b div 16"]
      hex_digit_inject [of "bv a mod 16" "bv b mod 16"]
    by (simp_all add: hex2_def)
  then have "bv a = bv b" by (metis div_mult_mod_eq)
  then show "a = b" by simp
qed simp

lemma hex_bytes_inject: "hex_bytes a = hex_bytes b \<Longrightarrow> a = b"
proof (induction a arbitrary: b)
  case Nil
  then show ?case by (cases b) (simp_all add: hex_bytes_def hex2_def)
next
  case (Cons x a)
  then obtain y b' where b: "b = y # b'"
    by (cases b) (simp_all add: hex_bytes_def hex2_def)
  with Cons.prems have "hex2 x = hex2 y" "hex_bytes a = hex_bytes b'"
    by (simp_all add: hex_bytes_def hex2_def)
  with Cons.IH b show ?case by simp
qed

subsection \<open>Splitting\<close>

text \<open>\<open>split_once(c)\<close>, \<open>split(c)\<close>, \<open>strip_prefix\<close> and \<open>strip_suffix\<close>.\<close>

fun split_once :: "char \<Rightarrow> string \<Rightarrow> (string \<times> string) option" where
  "split_once c [] = None"
| "split_once c (x # xs) =
     (if x = c then Some ([], xs)
      else map_option (\<lambda>(a, b). (x # a, b)) (split_once c xs))"

fun split_on :: "char \<Rightarrow> string \<Rightarrow> string list" where
  "split_on c [] = [[]]"
| "split_on c (x # xs) =
     (if x = c then [] # split_on c xs
      else (case split_on c xs of a # r \<Rightarrow> (x # a) # r | [] \<Rightarrow> [[x]]))"

definition strip_prefix :: "string \<Rightarrow> string \<Rightarrow> string option" where
  "strip_prefix p s =
     (if take (length p) s = p then Some (drop (length p) s) else None)"

definition strip_suffix_char :: "char \<Rightarrow> string \<Rightarrow> string option" where
  "strip_suffix_char c s = (if s \<noteq> [] \<and> last s = c then Some (butlast s) else None)"

lemma split_once_append: "c \<notin> set a \<Longrightarrow> split_once c (a @ c # b) = Some (a, b)"
  by (induction a) auto

lemma split_on_append: "c \<notin> set a \<Longrightarrow> split_on c (a @ c # b) = a # split_on c b"
  by (induction a) auto

lemma split_on_none: "c \<notin> set a \<Longrightarrow> split_on c a = [a]"
  by (induction a) auto

lemma strip_prefix_append [simp]: "strip_prefix p (p @ s) = Some s"
  by (simp add: strip_prefix_def)

lemma strip_suffix_char_append [simp]: "strip_suffix_char c (s @ [c]) = Some s"
  by (simp add: strip_suffix_char_def)

lemma digits_avoid: "all_digits s \<Longrightarrow> \<not> ascii_digit (bv c) \<Longrightarrow> c \<notin> set s"
  by (auto simp: all_digits_def list_all_iff)

end
