(* ===== verification/Json_Parser.thy ===== *)
theory Json_Parser
  imports Rust_Text
begin

text \<open>
  The bounded JSON parser of the context reader (\<open>json/parser.rs\<close>, \<open>json/value.rs\<close>,
  \<open>json/error.rs\<close>). The parser's \<open>index\<close> into \<open>input\<close> is represented by the bytes that
  are left, \<open>rest = input[index..]\<close>; \<open>depth\<close> and \<open>items\<close> are the counters of the source.
  The loop of \<open>string\<close> and the mutual recursion of \<open>value\<close>, \<open>array\<close> and \<open>object\<close> carry a fuel argument;
  \<open>NoFuel\<close> is the value of a run that spends it, and \<open>json_run_fuel\<close> below shows that the
  fuel given by \<open>json_parse\<close> is never spent.
\<close>

datatype json_error = Unexpected | InvalidUtf8 | InvalidEscape | InvalidNumber | DuplicateKey
  | TooDeep | TooManyItems | TrailingBytes

datatype json = JNull | JBool bool | JNumber u64 | JString string | JArray "json list"
  | JObject "(string \<times> json) list"

type_synonym json_object = "(string \<times> json) list"

fun as_object :: "json \<Rightarrow> json_object option" where
  "as_object (JObject kvs) = Some kvs"
| "as_object _ = None"

fun as_array :: "json \<Rightarrow> json list option" where
  "as_array (JArray vs) = Some vs"
| "as_array _ = None"

fun as_string :: "json \<Rightarrow> string option" where
  "as_string (JString s) = Some s"
| "as_string _ = None"

fun as_number :: "json \<Rightarrow> u64 option" where
  "as_number (JNumber n) = Some n"
| "as_number _ = None"

fun as_boolean :: "json \<Rightarrow> bool option" where
  "as_boolean (JBool b) = Some b"
| "as_boolean _ = None"

fun is_null :: "json \<Rightarrow> bool" where
  "is_null JNull = True"
| "is_null _ = False"

definition MAX_DEPTH :: nat where "MAX_DEPTH = 32"
definition JSON_MAX_ITEMS :: nat where "JSON_MAX_ITEMS = 512"

record parser =
  rest :: bytes
  depth :: nat
  items :: nat

text \<open>A step of the parser: its value with the parser after it, an error, or no fuel.\<close>

datatype 'a step = NoFuel | Fail json_error | Done 'a parser

fun step_bind :: "'a step \<Rightarrow> ('a \<Rightarrow> parser \<Rightarrow> 'b step) \<Rightarrow> 'b step" where
  "step_bind NoFuel f = NoFuel"
| "step_bind (Fail e) f = Fail e"
| "step_bind (Done x p) f = f x p"

lemma step_bind_Done_iff:
  "step_bind m f = Done y q \<longleftrightarrow> (\<exists>x p. m = Done x p \<and> f x p = Done y q)"
  by (cases m) auto

lemma step_bind_NoFuel_iff:
  "step_bind m f = NoFuel \<longleftrightarrow> m = NoFuel \<or> (\<exists>x p. m = Done x p \<and> f x p = NoFuel)"
  by (cases m) auto

subsection \<open>Cursor, counters, literals\<close>

definition json_space :: "char \<Rightarrow> bool" where
  "json_space c \<longleftrightarrow> c = CHR '' '' \<or> c = CHR 0x0A \<or> c = CHR 0x0D \<or> c = CHR 0x09"

definition whitespace :: "parser \<Rightarrow> parser" where
  "whitespace p = p\<lparr>rest := dropWhile json_space (rest p)\<rparr>"

definition take_byte :: "char \<Rightarrow> parser \<Rightarrow> bool \<times> parser" where
  "take_byte expected p =
     (case rest p of
        c # r \<Rightarrow> if c = expected then (True, p\<lparr>rest := r\<rparr>) else (False, p)
      | [] \<Rightarrow> (False, p))"

definition enter :: "parser \<Rightarrow> unit step" where
  "enter p =
     (let p' = p\<lparr>depth := depth p + 1\<rparr>
      in if depth p' > MAX_DEPTH then Fail TooDeep else Done () p')"

definition leave :: "parser \<Rightarrow> parser" where
  "leave p = p\<lparr>depth := depth p - 1\<rparr>"

definition count_item :: "parser \<Rightarrow> unit step" where
  "count_item p =
     (let p' = p\<lparr>items := items p + 1\<rparr>
      in if items p' > JSON_MAX_ITEMS then Fail TooManyItems else Done () p')"

definition literal :: "bytes \<Rightarrow> json \<Rightarrow> parser \<Rightarrow> json step" where
  "literal expected v p =
     (if take (length expected) (rest p) = expected
      then Done v (p\<lparr>rest := drop (length expected) (rest p)\<rparr>)
      else Fail Unexpected)"

subsection \<open>Numbers\<close>

text \<open>The digits are ASCII, so \<open>from_utf8\<close> of the slice cannot fail.\<close>

definition number :: "parser \<Rightarrow> u64 step" where
  "number p =
     (let ds = takeWhile (\<lambda>c. ascii_digit (bv c)) (rest p);
          r = dropWhile (\<lambda>c. ascii_digit (bv c)) (rest p)
      in if ds = [] then Fail InvalidNumber
         else if r \<noteq> [] \<and> hd r \<in> set ''.eE-+'' then Fail InvalidNumber
         else (case parse_u64 ds of
                 Some n \<Rightarrow> Done n (p\<lparr>rest := r\<rparr>)
               | None \<Rightarrow> Fail InvalidNumber))"

subsection \<open>Strings\<close>

text \<open>
  \<open>hex_value\<close> gives \<open>u32::MAX\<close> for a byte that is no hex digit; \<open>hex_quad\<close> relies on the
  checked arithmetic on \<open>u32\<close>, and on \<open>char::from_u32\<close> after it, to refuse it.
\<close>

definition hex_value :: "char \<Rightarrow> u32" where
  "hex_value c =
     (let b = bv c
      in if 48 \<le> b \<and> b \<le> 57 then of_nat (b - 48)
         else if 97 \<le> b \<and> b \<le> 102 then of_nat (b - 97 + 10)
         else if 65 \<le> b \<and> b \<le> 70 then of_nat (b - 65 + 10)
         else 4294967295)"

definition hex_push :: "u32 \<Rightarrow> char \<Rightarrow> u32 option" where
  "hex_push v c =
     (if unat v * 16 < 2 ^ 32 \<and> unat (v * 16) + unat (hex_value c) < 2 ^ 32
      then Some (v * 16 + hex_value c) else None)"

fun hex_digits :: "nat \<Rightarrow> u32 \<Rightarrow> bytes \<Rightarrow> (u32 \<times> bytes) option" where
  "hex_digits 0 v r = Some (v, r)"
| "hex_digits (Suc n) v [] = None"
| "hex_digits (Suc n) v (c # r) =
     (case hex_push v c of Some v' \<Rightarrow> hex_digits n v' r | None \<Rightarrow> None)"

definition hex_quad :: "parser \<Rightarrow> u32 step" where
  "hex_quad p =
     (case hex_digits 4 0 (rest p) of
        Some (v, r) \<Rightarrow> Done v (p\<lparr>rest := r\<rparr>)
      | None \<Rightarrow> Fail InvalidEscape)"

definition escape :: "parser \<Rightarrow> bytes step" where
  "escape p =
     (case rest p of
        [] \<Rightarrow> Fail InvalidEscape
      | e # r \<Rightarrow>
          (let p' = p\<lparr>rest := r\<rparr>
           in if e = CHR 0x22 \<or> e = CHR 0x5C \<or> e = CHR ''/'' then Done [e] p'
              else if e = CHR ''b'' then Done [CHR 0x08] p'
              else if e = CHR ''f'' then Done [CHR 0x0C] p'
              else if e = CHR ''n'' then Done [CHR 0x0A] p'
              else if e = CHR ''r'' then Done [CHR 0x0D] p'
              else if e = CHR ''t'' then Done [CHR 0x09] p'
              else if e = CHR ''u'' then
                step_bind (hex_quad p') (\<lambda>code q.
                  if scalar_value (unat code) then Done (encode_char (unat code)) q
                  else Fail InvalidEscape)
              else Fail InvalidEscape))"

text \<open>
  The loop of \<open>string\<close>: every turn consumes a byte, so the fuel is one more than the bytes left.
\<close>

fun string_loop :: "nat \<Rightarrow> bytes \<Rightarrow> parser \<Rightarrow> string step" where
  "string_loop 0 acc p = NoFuel"
| "string_loop (Suc n) acc p =
     (case rest p of
        [] \<Rightarrow> Fail Unexpected
      | c # r \<Rightarrow>
          (let p' = p\<lparr>rest := r\<rparr>
           in if c = CHR 0x22 then
                (if is_utf8 acc then Done acc p' else Fail InvalidUtf8)
              else if c = CHR 0x5C then
                step_bind (escape p') (\<lambda>bs q. string_loop n (acc @ bs) q)
              else if bv c \<le> 31 then Fail Unexpected
              else string_loop n (acc @ [c]) p'))"

definition string_token :: "parser \<Rightarrow> string step" where
  "string_token p =
     (case rest p of
        c # r \<Rightarrow>
          if c = CHR 0x22 then string_loop (Suc (length r)) [] (p\<lparr>rest := r\<rparr>) else Fail Unexpected
      | [] \<Rightarrow> Fail Unexpected)"

subsection \<open>Values, arrays, objects\<close>

fun p_value :: "nat \<Rightarrow> parser \<Rightarrow> json step"
  and p_array :: "nat \<Rightarrow> json list \<Rightarrow> parser \<Rightarrow> json step"
  and p_object :: "nat \<Rightarrow> json_object \<Rightarrow> parser \<Rightarrow> json step" where
  "p_value 0 p = NoFuel"
| "p_value (Suc n) p0 =
     (let p = whitespace p0
      in case rest p of
        [] \<Rightarrow> Fail Unexpected
      | c # r \<Rightarrow>
          if c = CHR ''n'' then literal ''null'' JNull p
          else if c = CHR ''t'' then literal ''true'' (JBool True) p
          else if c = CHR ''f'' then literal ''false'' (JBool False) p
          else if c = CHR 0x22 then step_bind (string_token p) (\<lambda>s. Done (JString s))
          else if c = CHR ''['' then
            step_bind (enter p) (\<lambda>_ q.
              let (closed, q1) = take_byte (CHR '']'') (whitespace (q\<lparr>rest := r\<rparr>))
              in if closed then Done (JArray []) (leave q1) else p_array n [] q1)
          else if c = CHR ''{'' then
            step_bind (enter p) (\<lambda>_ q.
              let (closed, q1) = take_byte (CHR ''}'') (whitespace (q\<lparr>rest := r\<rparr>))
              in if closed then Done (JObject []) (leave q1) else p_object n [] q1)
          else if ascii_digit (bv c) then step_bind (number p) (\<lambda>k. Done (JNumber k))
          else Fail Unexpected)"
| "p_array 0 vs p = NoFuel"
| "p_array (Suc n) vs p =
     step_bind (count_item (whitespace p)) (\<lambda>_ p1.
     step_bind (p_value n p1) (\<lambda>v p2.
       let vs' = vs @ [v]; (closed, p3) = take_byte (CHR '']'') (whitespace p2)
       in if closed then Done (JArray vs') (leave p3)
          else let (comma, p4) = take_byte (CHR '','') p3
               in if comma then p_array n vs' p4 else Fail Unexpected))"
| "p_object 0 kvs p = NoFuel"
| "p_object (Suc n) kvs p =
     step_bind (count_item (whitespace p)) (\<lambda>_ p1.
     step_bind (string_token p1) (\<lambda>key p2.
       if list_ex (\<lambda>(existing, _). existing = key) kvs then Fail DuplicateKey
       else let (colon, p3) = take_byte (CHR '':'') (whitespace p2)
            in if \<not> colon then Fail Unexpected
               else step_bind (p_value n p3) (\<lambda>v p4.
                 let kvs' = kvs @ [(key, v)];
                     (closed, p5) = take_byte (CHR ''}'') (whitespace p4)
                 in if closed then Done (JObject kvs') (leave p5)
                    else let (comma, p6) = take_byte (CHR '','') p5
                         in if comma then p_object n kvs' p6 else Fail Unexpected)))"

definition json_fuel :: "bytes \<Rightarrow> nat" where
  "json_fuel input = 2 * length input + 1"

definition json_parse_step :: "bytes \<Rightarrow> json step" where
  "json_parse_step input =
     step_bind (p_value (json_fuel input) \<lparr>rest = input, depth = 0, items = 0\<rparr>)
       (\<lambda>v p. let q = whitespace p in if rest q = [] then Done v q else Fail TrailingBytes)"

definition json_parse :: "bytes \<Rightarrow> json_error + json" where
  "json_parse input =
     (case json_parse_step input of
        Done v _ \<Rightarrow> Inr v
      | Fail e \<Rightarrow> Inl e
      | NoFuel \<Rightarrow> Inl Unexpected)"

subsection \<open>What one step leaves\<close>

text \<open>\<open>shorter p q\<close>: the parser \<open>q\<close> is \<open>p\<close> with some input consumed.\<close>

definition shorter :: "parser \<Rightarrow> parser \<Rightarrow> bool" where
  "shorter p q \<longleftrightarrow> length (rest q) < length (rest p) \<and> depth q = depth p \<and> items q = items p"

lemma whitespace_sel [simp]:
  "depth (whitespace p) = depth p" "items (whitespace p) = items p"
  by (simp_all add: whitespace_def)

lemma whitespace_rest_le: "length (rest (whitespace p)) \<le> length (rest p)"
  by (simp add: whitespace_def length_dropWhile_le)

lemma leave_sel [simp]:
  "depth (leave p) = depth p - 1" "items (leave p) = items p" "rest (leave p) = rest p"
  by (simp_all add: leave_def)

lemma take_byte_cases:
  obtains (took) r where "rest p = c # r" "take_byte c p = (True, p\<lparr>rest := r\<rparr>)"
  | (left) "take_byte c p = (False, p)"
  by (cases "rest p"; cases "rest p \<noteq> [] \<and> hd (rest p) = c") (auto simp: take_byte_def)

lemma take_byte_TrueD: "take_byte c p = (True, q) \<Longrightarrow> shorter p q"
  by (rule take_byte_cases [of p c]) (auto simp: shorter_def)

lemma take_byte_FalseD: "take_byte c p = (False, q) \<Longrightarrow> q = p"
  by (rule take_byte_cases [of p c]) auto

lemma enter_Done_iff: "enter p = Done u q \<longleftrightarrow> depth p < MAX_DEPTH \<and> q = p\<lparr>depth := depth p + 1\<rparr>"
  by (auto simp: enter_def Let_def)

lemma count_item_Done_iff:
  "count_item p = Done u q \<longleftrightarrow> items p < JSON_MAX_ITEMS \<and> q = p\<lparr>items := items p + 1\<rparr>"
  by (auto simp: count_item_def Let_def)

lemma literal_DoneD: "literal e v p = Done w q \<Longrightarrow> e \<noteq> [] \<Longrightarrow> w = v \<and> shorter p q"
  by (cases "rest p") (auto simp: literal_def shorter_def split: if_splits)

lemma number_DoneD:
  assumes "number p = Done k q"
  shows "shorter p q"
proof -
  let ?P = "\<lambda>c. ascii_digit (bv c)"
  have "takeWhile ?P (rest p) \<noteq> []" and q: "q = p\<lparr>rest := dropWhile ?P (rest p)\<rparr>"
    using assms by (auto simp: number_def Let_def split: if_splits option.splits)
  then obtain c r where "rest p = c # r" "?P c"
    by (cases "rest p") (auto split: if_splits)
  then show ?thesis using q length_dropWhile_le [of ?P r] by (simp add: shorter_def)
qed

lemma hex_digits_length: "hex_digits n v r = Some (v', r') \<Longrightarrow> length r = length r' + n"
  by (induction n v r rule: hex_digits.induct) (auto split: option.splits)

lemma hex_quad_DoneD: "hex_quad p = Done v q \<Longrightarrow> shorter p q"
  by (auto simp: hex_quad_def shorter_def dest: hex_digits_length split: option.splits)

lemma escape_DoneD: "escape p = Done bs q \<Longrightarrow> shorter p q"
  by (auto simp: escape_def Let_def step_bind_Done_iff shorter_def
      dest: hex_quad_DoneD split: list.splits if_splits)

lemma escape_no_fuel [simp]: "escape p \<noteq> NoFuel"
  by (auto simp: escape_def Let_def step_bind_NoFuel_iff hex_quad_def
      split: list.splits if_splits option.splits)

lemma string_loop_DoneD:
  "string_loop n acc p = Done s q \<Longrightarrow> shorter p q \<and> is_utf8 s"
proof (induction n acc p rule: string_loop.induct)
  case (1 acc p)
  then show ?case by simp
next
  case (2 n acc p)
  then obtain c r where r: "rest p = c # r" by (cases "rest p") auto
  consider "c = CHR 0x22" | "c = CHR 0x5C" | "c \<noteq> CHR 0x22" "c \<noteq> CHR 0x5C" by blast
  then show ?case
  proof cases
    case 1
    with 2 r show ?thesis by (auto simp: shorter_def Let_def split: if_splits)
  next
    case 2
    with "2.prems" r obtain bs q' where
      e: "escape (p\<lparr>rest := r\<rparr>) = Done bs q'" and l: "string_loop n (acc @ bs) q' = Done s q"
      by (auto simp: Let_def step_bind_Done_iff)
    from "2.IH"(1) [OF r refl _ _ l] 2 have "shorter q' q \<and> is_utf8 s" by simp
    with escape_DoneD [OF e] r show ?thesis by (auto simp: shorter_def)
  next
    case 3
    with "2.prems" r have l: "string_loop n (acc @ [c]) (p\<lparr>rest := r\<rparr>) = Done s q"
      and "\<not> bv c \<le> 31" by (auto simp: Let_def split: if_splits)
    with "2.IH"(2) [OF r refl _ _ _ l] 3 have "shorter (p\<lparr>rest := r\<rparr>) q \<and> is_utf8 s" by simp
    with r show ?thesis by (auto simp: shorter_def)
  qed
qed

lemma string_loop_fuel: "length (rest p) < n \<Longrightarrow> string_loop n acc p \<noteq> NoFuel"
proof (induction n acc p rule: string_loop.induct)
  case (2 n acc p)
  show ?case
  proof (cases "rest p")
    case (Cons c r)
    have "string_loop n (acc @ bs) q \<noteq> NoFuel"
      if "c \<noteq> CHR 0x22" "c = CHR 0x5C" "escape (p\<lparr>rest := r\<rparr>) = Done bs q" for bs q
      using "2.IH"(1) [OF Cons refl that(1,2)] escape_DoneD [OF that(3)] "2.prems" Cons
      by (simp add: shorter_def)
    moreover have "string_loop n (acc @ [c]) (p\<lparr>rest := r\<rparr>) \<noteq> NoFuel"
      if "c \<noteq> CHR 0x22" "c \<noteq> CHR 0x5C" "\<not> bv c \<le> 31"
      using "2.IH"(2) [OF Cons refl that] "2.prems" Cons by simp
    ultimately show ?thesis using Cons by (auto simp: Let_def step_bind_NoFuel_iff)
  qed simp
qed simp

lemma string_token_DoneD: "string_token p = Done s q \<Longrightarrow> shorter p q \<and> is_utf8 s"
  by (fastforce simp: string_token_def shorter_def simp del: string_loop.simps
      dest: string_loop_DoneD split: list.splits if_splits)

lemma string_token_no_fuel [simp]: "string_token p \<noteq> NoFuel"
  using string_loop_fuel [of "p\<lparr>rest := r\<rparr>" "Suc (length r)" "[]" for r]
  by (auto simp: string_token_def simp del: string_loop.simps split: list.splits)

lemma leaf_no_fuel [simp]:
  "literal e v p \<noteq> NoFuel" "number p \<noteq> NoFuel" "enter p \<noteq> NoFuel" "count_item p \<noteq> NoFuel"
  by (auto simp: literal_def number_def enter_def count_item_def Let_def split: option.splits)

subsection \<open>Accepted values are bounded and well formed\<close>

fun json_wf :: "json \<Rightarrow> bool" where
  "json_wf (JString s) = is_utf8 s"
| "json_wf (JArray vs) = list_all json_wf vs"
| "json_wf (JObject kvs) =
     (distinct (map fst kvs) \<and> list_all (\<lambda>(k, v). is_utf8 k \<and> json_wf v) kvs)"
| "json_wf _ = True"

text \<open>\<open>json_within d v\<close>: arrays and objects nest at most \<open>d\<close> deep in \<open>v\<close>.\<close>

fun json_within :: "nat \<Rightarrow> json \<Rightarrow> bool" where
  "json_within d (JArray vs) = (0 < d \<and> list_all (json_within (d - 1)) vs)"
| "json_within d (JObject kvs) = (0 < d \<and> list_all (\<lambda>(k, v). json_within (d - 1) v) kvs)"
| "json_within d _ = True"

text \<open>The elements of all arrays and the fields of all objects in a value.\<close>

fun json_items :: "json \<Rightarrow> nat" where
  "json_items (JArray vs) = length vs + sum_list (map json_items vs)"
| "json_items (JObject kvs) = length kvs + sum_list (map (\<lambda>(k, v). json_items v) kvs)"
| "json_items _ = 0"

definition value_post :: "parser \<Rightarrow> json \<Rightarrow> parser \<Rightarrow> bool" where
  "value_post p v q \<longleftrightarrow>
     length (rest q) < length (rest p) \<and> depth q = depth p \<and>
     items q = items p + json_items v \<and> items q \<le> JSON_MAX_ITEMS \<and>
     json_wf v \<and> json_within (MAX_DEPTH - depth p) v"

definition array_post :: "json list \<Rightarrow> parser \<Rightarrow> json \<Rightarrow> parser \<Rightarrow> bool" where
  "array_post vs p v q \<longleftrightarrow>
     (\<exists>ws. v = JArray (vs @ ws) \<and>
       length (rest q) < length (rest p) \<and> depth q = depth p - 1 \<and>
       items q = items p + length ws + sum_list (map json_items ws) \<and> items q \<le> JSON_MAX_ITEMS \<and>
       list_all json_wf ws \<and> list_all (json_within (MAX_DEPTH - depth p)) ws)"

definition object_post :: "json_object \<Rightarrow> parser \<Rightarrow> json \<Rightarrow> parser \<Rightarrow> bool" where
  "object_post kvs p v q \<longleftrightarrow>
     (\<exists>ws. v = JObject (kvs @ ws) \<and>
       length (rest q) < length (rest p) \<and> depth q = depth p - 1 \<and>
       items q = items p + length ws + sum_list (map (\<lambda>(k, v). json_items v) ws) \<and>
       items q \<le> JSON_MAX_ITEMS \<and> distinct (map fst (kvs @ ws)) \<and>
       list_all (\<lambda>(k, v). is_utf8 k \<and> json_wf v) ws \<and>
       list_all (\<lambda>(k, v). json_within (MAX_DEPTH - depth p) v) ws)"

lemma leaf_post:
  "shorter p q \<Longrightarrow> items p \<le> JSON_MAX_ITEMS \<Longrightarrow> json_items v = 0 \<Longrightarrow> json_wf v \<Longrightarrow>
   (\<And>d. json_within d v) \<Longrightarrow> value_post p v q"
  by (simp add: value_post_def shorter_def)

lemma value_post_whitespace: "value_post (whitespace p) v q \<Longrightarrow> value_post p v q"
  using whitespace_rest_le [of p] by (auto simp: value_post_def)

lemma array_post_last:
  assumes "value_post (p\<lparr>items := items p + 1\<rparr>) v p2" "shorter (whitespace p2) q"
  shows "array_post vs p (JArray (vs @ [v])) (leave q)"
  using assms whitespace_rest_le [of p2]
  by (auto simp: value_post_def array_post_def shorter_def)

lemma array_post_more:
  assumes "value_post (p\<lparr>items := items p + 1\<rparr>) v p2" "shorter (whitespace p2) p3"
    "array_post (vs @ [v]) p3 w q"
  shows "array_post vs p w q"
proof -
  from assms(3) obtain ws where ws: "w = JArray (vs @ [v] @ ws)"
    "length (rest q) < length (rest p3)" "depth q = depth p3 - 1"
    "items q = items p3 + length ws + sum_list (map json_items ws)" "items q \<le> JSON_MAX_ITEMS"
    "list_all json_wf ws" "list_all (json_within (MAX_DEPTH - depth p3)) ws"
    by (auto simp: array_post_def)
  with assms(1,2) whitespace_rest_le [of p2] show ?thesis
    unfolding array_post_def
    by (intro exI [of _ "v # ws"]) (auto simp: value_post_def shorter_def)
qed

lemma object_post_last:
  assumes "shorter (p\<lparr>items := items p + 1\<rparr>) p2" "is_utf8 k" "k \<notin> fst ` set kvs"
    "distinct (map fst kvs)" "shorter (whitespace p2) p3" "value_post p3 v p4"
    "shorter (whitespace p4) q"
  shows "object_post kvs p (JObject (kvs @ [(k, v)])) (leave q)"
  using assms whitespace_rest_le [of p2] whitespace_rest_le [of p4]
  by (auto simp: value_post_def object_post_def shorter_def)

lemma object_post_more:
  assumes "shorter (p\<lparr>items := items p + 1\<rparr>) p2" "is_utf8 k" "shorter (whitespace p2) p3"
    "value_post p3 v p4" "shorter (whitespace p4) p5" "object_post (kvs @ [(k, v)]) p5 w q"
  shows "object_post kvs p w q"
proof -
  from assms(6) obtain ws where ws: "w = JObject (kvs @ [(k, v)] @ ws)"
    "length (rest q) < length (rest p5)" "depth q = depth p5 - 1"
    "items q = items p5 + length ws + sum_list (map (\<lambda>(k, v). json_items v) ws)"
    "items q \<le> JSON_MAX_ITEMS" "distinct (map fst (kvs @ [(k, v)] @ ws))"
    "list_all (\<lambda>(k, v). is_utf8 k \<and> json_wf v) ws"
    "list_all (\<lambda>(k, v). json_within (MAX_DEPTH - depth p5) v) ws"
    by (auto simp: object_post_def)
  with assms(1-5) whitespace_rest_le [of p2] whitespace_rest_le [of p4] show ?thesis
    unfolding object_post_def
    by (intro exI [of _ "(k, v) # ws"]) (auto simp: value_post_def shorter_def)
qed

lemma container_post_array:
  assumes "depth p < MAX_DEPTH" "rest p = c # r"
    "array_post [] p' v q" "length (rest p') \<le> length r" "depth p' = depth p + 1"
    "items p' = items p"
  shows "value_post p v q"
  using assms by (auto simp: array_post_def value_post_def)

lemma container_post_object:
  assumes "depth p < MAX_DEPTH" "rest p = c # r"
    "object_post [] p' v q" "length (rest p') \<le> length r" "depth p' = depth p + 1"
    "items p' = items p"
  shows "value_post p v q"
  using assms by (auto simp: object_post_def value_post_def)

text \<open>
  The three mutually recursive functions, one unfolding each, with the facts about the calls
  of the next fuel level as premises; \<open>p_post\<close> closes the induction.
\<close>

definition opened :: "parser \<Rightarrow> bytes \<Rightarrow> parser" where
  "opened p r = whitespace (p\<lparr>depth := depth p + 1, rest := r\<rparr>)"

lemma opened_sel:
  "depth (opened p r) = depth p + 1" "items (opened p r) = items p"
  "length (rest (opened p r)) \<le> length r"
  using whitespace_rest_le [of "p\<lparr>depth := depth p + 1, rest := r\<rparr>"]
  by (simp_all add: opened_def)

lemma p_value_array:
  assumes "rest (whitespace p0) = CHR ''['' # r" and "p_value (Suc n) p0 = Done v q"
  shows "depth p0 < MAX_DEPTH \<and>
    (v = JArray [] \<and> (\<exists>p1. shorter (opened (whitespace p0) r) p1 \<and> q = leave p1) \<or>
     p_array n [] (opened (whitespace p0) r) = Done v q)"
  using assms
  by (auto simp: step_bind_Done_iff enter_Done_iff opened_def Let_def
      split: prod.splits if_splits dest: take_byte_TrueD take_byte_FalseD)

lemma p_value_object:
  assumes "rest (whitespace p0) = CHR ''{'' # r" and "p_value (Suc n) p0 = Done v q"
  shows "depth p0 < MAX_DEPTH \<and>
    (v = JObject [] \<and> (\<exists>p1. shorter (opened (whitespace p0) r) p1 \<and> q = leave p1) \<or>
     p_object n [] (opened (whitespace p0) r) = Done v q)"
  using assms
  by (auto simp: step_bind_Done_iff enter_Done_iff opened_def Let_def
      split: prod.splits if_splits dest: take_byte_TrueD take_byte_FalseD)

lemma p_value_leaf:
  assumes "rest (whitespace p0) = c # r" "c \<noteq> CHR ''[''" "c \<noteq> CHR ''{''"
    and "p_value (Suc n) p0 = Done v q" and "items p0 \<le> JSON_MAX_ITEMS"
  shows "value_post (whitespace p0) v q"
  using assms
  by (auto simp: step_bind_Done_iff Let_def split: if_splits intro!: leaf_post
      dest!: literal_DoneD string_token_DoneD number_DoneD)

lemma closed_post:
  assumes "depth p < MAX_DEPTH" "items p \<le> JSON_MAX_ITEMS" "rest p = c # r"
    and "shorter (opened p r) p1" and "v = JArray [] \<or> v = JObject []"
  shows "value_post p v (leave p1)"
  using assms opened_sel [of p r] by (auto simp: value_post_def shorter_def)

lemma p_value_step:
  assumes A: "\<And>p v q. p_array n [] p = Done v q \<Longrightarrow> 0 < depth p \<Longrightarrow> depth p \<le> MAX_DEPTH \<Longrightarrow>
      array_post [] p v q"
    and O: "\<And>p v q. p_object n [] p = Done v q \<Longrightarrow> 0 < depth p \<Longrightarrow> depth p \<le> MAX_DEPTH \<Longrightarrow>
      object_post [] p v q"
    and run: "p_value (Suc n) p0 = Done v q" and b: "items p0 \<le> JSON_MAX_ITEMS"
  shows "value_post p0 v q"
proof -
  let ?p = "whitespace p0"
  from run obtain c r where r: "rest ?p = c # r" by (cases "rest ?p") (auto simp: Let_def)
  note o = opened_sel [of ?p r]
  consider "c = CHR ''[''" | "c = CHR ''{''" | "c \<noteq> CHR ''[''" "c \<noteq> CHR ''{''" by blast
  then have "value_post ?p v q"
  proof cases
    case 1
    note d = p_value_array [OF r [unfolded 1] run]
    show ?thesis
    proof (cases "p_array n [] (opened ?p r) = Done v q")
      case True
      with A [OF True] o d show ?thesis by (auto intro: container_post_array [OF _ r])
    next
      case False
      with d b r show ?thesis by (auto intro: closed_post)
    qed
  next
    case 2
    note d = p_value_object [OF r [unfolded 2] run]
    show ?thesis
    proof (cases "p_object n [] (opened ?p r) = Done v q")
      case True
      with O [OF True] o d show ?thesis by (auto intro: container_post_object [OF _ r])
    next
      case False
      with d b r show ?thesis by (auto intro: closed_post)
    qed
  next
    case 3
    then show ?thesis by (rule p_value_leaf [OF r _ _ run b])
  qed
  then show ?thesis by (rule value_post_whitespace)
qed

lemma array_post_whitespace: "array_post vs (whitespace p) v q \<Longrightarrow> array_post vs p v q"
  using whitespace_rest_le [of p] by (fastforce simp: array_post_def)

lemma object_post_whitespace: "object_post kvs (whitespace p) v q \<Longrightarrow> object_post kvs p v q"
  using whitespace_rest_le [of p] by (fastforce simp: object_post_def)

text \<open>The continuation of \<open>array\<close>'s loop body, named for the proofs.\<close>

definition array_close :: "nat \<Rightarrow> json list \<Rightarrow> parser \<Rightarrow> json step" where
  "array_close n vs p =
     (let (closed, p3) = take_byte (CHR '']'') (whitespace p)
      in if closed then Done (JArray vs) (leave p3)
         else let (comma, p4) = take_byte (CHR '','') p3
              in if comma then p_array n vs p4 else Fail Unexpected)"

lemma p_array_Suc:
  "p_array (Suc n) vs p =
     step_bind (count_item (whitespace p)) (\<lambda>_ p1.
     step_bind (p_value n p1) (\<lambda>v. array_close n (vs @ [v])))"
  unfolding p_array.simps array_close_def [abs_def] Let_def ..

lemma array_close_cases:
  obtains (closed) p3 where "shorter (whitespace p) p3"
      "array_close n vs p = Done (JArray vs) (leave p3)"
  | (more) p4 where "shorter (whitespace p) p4" "array_close n vs p = p_array n vs p4"
  | (stuck) "array_close n vs p = Fail Unexpected"
proof (rule take_byte_cases [of "whitespace p" "CHR '']''"], goal_cases)
  case (1 r)
  then show ?case by (intro closed) (auto simp: array_close_def dest: take_byte_TrueD)
next
  case 2
  then show ?case
    by (rule_tac take_byte_cases [of "whitespace p" "CHR '',''"])
       (auto simp: array_close_def intro: more stuck dest: take_byte_TrueD)
qed

lemma p_array_step:
  assumes V: "\<And>p v q. p_value n p = Done v q \<Longrightarrow> depth p \<le> MAX_DEPTH \<Longrightarrow> items p \<le> JSON_MAX_ITEMS \<Longrightarrow>
      value_post p v q"
    and A: "\<And>vs p v q. p_array n vs p = Done v q \<Longrightarrow> 0 < depth p \<Longrightarrow> depth p \<le> MAX_DEPTH \<Longrightarrow>
      array_post vs p v q"
    and run: "p_array (Suc n) vs p0 = Done v q" and d: "0 < depth p0" "depth p0 \<le> MAX_DEPTH"
  shows "array_post vs p0 v q"
proof -
  let ?p = "whitespace p0"
  from run obtain w p2 where i: "items ?p < JSON_MAX_ITEMS"
    and w: "p_value n (?p\<lparr>items := items ?p + 1\<rparr>) = Done w p2"
    and k: "array_close n (vs @ [w]) p2 = Done v q"
    unfolding p_array_Suc by (auto simp: step_bind_Done_iff count_item_Done_iff)
  have post: "value_post (?p\<lparr>items := items ?p + 1\<rparr>) w p2"
    using V [OF w] d i by simp
  then have d2: "depth p2 = depth p0" by (simp add: value_post_def)
  have "array_post vs ?p v q"
  proof (cases rule: array_close_cases [of p2 n "vs @ [w]"])
    case (closed p3)
    with k show ?thesis using array_post_last [OF post closed(1)] by auto
  next
    case (more p4)
    with k have a: "p_array n (vs @ [w]) p4 = Done v q" by simp
    have "array_post (vs @ [w]) p4 v q"
      by (rule A [OF a]) (use more(1) d d2 in \<open>auto simp: shorter_def\<close>)
    then show ?thesis by (rule array_post_more [OF post more(1)])
  next
    case stuck
    with k show ?thesis by simp
  qed
  then show ?thesis by (rule array_post_whitespace)
qed

text \<open>The two continuations of \<open>object\<close>'s loop body, named for the proofs.\<close>

definition object_close :: "nat \<Rightarrow> json_object \<Rightarrow> parser \<Rightarrow> json step" where
  "object_close n kvs p =
     (let (closed, p5) = take_byte (CHR ''}'') (whitespace p)
      in if closed then Done (JObject kvs) (leave p5)
         else let (comma, p6) = take_byte (CHR '','') p5
              in if comma then p_object n kvs p6 else Fail Unexpected)"

definition object_field :: "nat \<Rightarrow> json_object \<Rightarrow> string \<Rightarrow> parser \<Rightarrow> json step" where
  "object_field n kvs key p2 =
     (if list_ex (\<lambda>(existing, _). existing = key) kvs then Fail DuplicateKey
      else let (colon, p3) = take_byte (CHR '':'') (whitespace p2)
           in if \<not> colon then Fail Unexpected
              else step_bind (p_value n p3) (\<lambda>v. object_close n (kvs @ [(key, v)])))"

lemma p_object_Suc:
  "p_object (Suc n) kvs p =
     step_bind (count_item (whitespace p)) (\<lambda>_ p1.
     step_bind (string_token p1) (object_field n kvs))"
  unfolding p_object.simps object_field_def [abs_def] object_close_def [abs_def] Let_def ..

lemma object_close_cases:
  obtains (closed) p5 where "shorter (whitespace p) p5"
      "object_close n kvs p = Done (JObject kvs) (leave p5)"
  | (more) p6 where "shorter (whitespace p) p6" "object_close n kvs p = p_object n kvs p6"
  | (stuck) "object_close n kvs p = Fail Unexpected"
proof (rule take_byte_cases [of "whitespace p" "CHR ''}''"], goal_cases)
  case (1 r)
  then show ?case by (intro closed) (auto simp: object_close_def dest: take_byte_TrueD)
next
  case 2
  then show ?case
    by (rule_tac take_byte_cases [of "whitespace p" "CHR '',''"])
       (auto simp: object_close_def intro: more stuck dest: take_byte_TrueD)
qed

lemma object_field_cases:
  obtains (field) p3 where "key \<notin> fst ` set kvs" "shorter (whitespace p2) p3"
      "object_field n kvs key p2 =
         step_bind (p_value n p3) (\<lambda>v. object_close n (kvs @ [(key, v)]))"
  | (stuck) e where "object_field n kvs key p2 = Fail e"
proof (cases "key \<in> fst ` set kvs")
  case True
  then show ?thesis by (intro stuck) (auto simp: object_field_def list_ex_iff)
next
  case False
  then have f: "\<not> list_ex (\<lambda>(existing, _). existing = key) kvs" by (force simp: list_ex_iff)
  show ?thesis
  proof (rule take_byte_cases [of "whitespace p2" "CHR '':''"], goal_cases)
    case (1 r)
    then show ?case
      by (intro field [OF False take_byte_TrueD]) (use f in \<open>auto simp: object_field_def\<close>)
  next
    case 2
    then show ?case by (intro stuck) (use f in \<open>auto simp: object_field_def\<close>)
  qed
qed

lemma p_object_step:
  assumes V: "\<And>p v q. p_value n p = Done v q \<Longrightarrow> depth p \<le> MAX_DEPTH \<Longrightarrow> items p \<le> JSON_MAX_ITEMS \<Longrightarrow>
      value_post p v q"
    and O: "\<And>kvs p v q. p_object n kvs p = Done v q \<Longrightarrow> 0 < depth p \<Longrightarrow> depth p \<le> MAX_DEPTH \<Longrightarrow>
      distinct (map fst kvs) \<Longrightarrow> object_post kvs p v q"
    and run: "p_object (Suc n) kvs p0 = Done v q" and d: "0 < depth p0" "depth p0 \<le> MAX_DEPTH"
    and k: "distinct (map fst kvs)"
  shows "object_post kvs p0 v q"
proof -
  let ?p = "whitespace p0"
  from run obtain key p2 where i: "items ?p < JSON_MAX_ITEMS"
    and key: "string_token (?p\<lparr>items := items ?p + 1\<rparr>) = Done key p2"
    and fld: "object_field n kvs key p2 = Done v q"
    unfolding p_object_Suc by (auto simp: step_bind_Done_iff count_item_Done_iff)
  from fld obtain p3 w p4 where fresh: "key \<notin> fst ` set kvs" and s3: "shorter (whitespace p2) p3"
    and w: "p_value n p3 = Done w p4" and r: "object_close n (kvs @ [(key, w)]) p4 = Done v q"
    by (cases rule: object_field_cases [of key kvs p2 n]) (auto simp: step_bind_Done_iff)
  note s2 = string_token_DoneD [OF key]
  have d3: "depth p3 = depth p0" "items p3 \<le> JSON_MAX_ITEMS" using s2 s3 i by (auto simp: shorter_def)
  have post: "value_post p3 w p4" using V [OF w] d d3 by simp
  then have d4: "depth p4 = depth p0" by (simp add: value_post_def d3)
  have "object_post kvs ?p v q"
  proof (cases rule: object_close_cases [of p4 n "kvs @ [(key, w)]"])
    case (closed p5)
    with r s2 show ?thesis using object_post_last [OF _ _ fresh k s3 post closed(1)] by auto
  next
    case (more p6)
    with r have o: "p_object n (kvs @ [(key, w)]) p6 = Done v q" by simp
    have "object_post (kvs @ [(key, w)]) p6 v q"
      by (rule O [OF o]) (use more(1) d d4 k fresh in \<open>auto simp: shorter_def\<close>)
    then show ?thesis using object_post_more [OF _ _ s3 post more(1)] s2 by blast
  next
    case stuck
    with r show ?thesis by simp
  qed
  then show ?thesis by (rule object_post_whitespace)
qed

lemma p_post:
  shows p_value_post: "p_value n p = Done v q \<Longrightarrow> depth p \<le> MAX_DEPTH \<Longrightarrow> items p \<le> JSON_MAX_ITEMS \<Longrightarrow>
      value_post p v q"
    and p_array_post: "p_array n vs p = Done v q \<Longrightarrow> 0 < depth p \<Longrightarrow> depth p \<le> MAX_DEPTH \<Longrightarrow>
      array_post vs p v q"
    and p_object_post: "p_object n kvs p = Done v q \<Longrightarrow> 0 < depth p \<Longrightarrow> depth p \<le> MAX_DEPTH \<Longrightarrow>
      distinct (map fst kvs) \<Longrightarrow> object_post kvs p v q"
proof (induction n arbitrary: p v q vs kvs)
  case (Suc n)
  {
    case 1
    show ?case by (rule p_value_step [OF Suc.IH(2) Suc.IH(3) 1(1) 1(3)]) auto
  next
    case 2
    show ?case by (rule p_array_step [OF Suc.IH(1) Suc.IH(2) 2])
  next
    case 3
    show ?case by (rule p_object_step [OF Suc.IH(1) Suc.IH(3) 3])
  }
qed simp_all

subsection \<open>The fuel is never spent\<close>

lemma opened_measure:
  assumes "rest (whitespace p0) = c # r"
  shows "length (rest (opened (whitespace p0) r)) < length (rest p0)"
  using assms opened_sel(3) [of "whitespace p0" r] whitespace_rest_le [of p0] by simp

lemma p_fuel:
  shows "2 * length (rest p) + 1 \<le> n \<Longrightarrow> depth p \<le> MAX_DEPTH \<Longrightarrow> items p \<le> JSON_MAX_ITEMS \<Longrightarrow>
      p_value n p \<noteq> NoFuel"
    and "2 * length (rest p) + 2 \<le> n \<Longrightarrow> depth p \<le> MAX_DEPTH \<Longrightarrow> p_array n vs p \<noteq> NoFuel"
    and "2 * length (rest p) + 2 \<le> n \<Longrightarrow> depth p \<le> MAX_DEPTH \<Longrightarrow> p_object n kvs p \<noteq> NoFuel"
proof (induction n arbitrary: p vs kvs)
  case (Suc n)
  {
    case 1
    show ?case
    proof
      assume nf: "p_value (Suc n) p = NoFuel"
      then obtain c r where r: "rest (whitespace p) = c # r"
        by (cases "rest (whitespace p)") (auto simp: Let_def)
      let ?o = "opened (whitespace p) r"
      from nf r have "depth p < MAX_DEPTH \<and> (p_array n [] ?o = NoFuel \<or> p_object n [] ?o = NoFuel)"
        by (auto simp: Let_def step_bind_NoFuel_iff enter_Done_iff opened_def
            split: if_splits prod.splits dest!: take_byte_FalseD)
      moreover have "2 * length (rest ?o) + 2 \<le> n" using opened_measure [OF r] 1 by simp
      ultimately show False using Suc.IH(2,3) [of ?o] opened_sel(1) [of "whitespace p" r] by auto
    qed
  next
    case 2
    show ?case
    proof
      let ?p = "whitespace p\<lparr>items := items p + 1\<rparr>"
      assume "p_array (Suc n) vs p = NoFuel"
      then have i: "items p < JSON_MAX_ITEMS"
        and c: "step_bind (p_value n ?p) (\<lambda>v. array_close n (vs @ [v])) = NoFuel"
        unfolding p_array_Suc by (auto simp: step_bind_NoFuel_iff count_item_Done_iff)
      have "p_value n ?p \<noteq> NoFuel"
        by (rule Suc.IH(1)) (use 2 i whitespace_rest_le [of p] in auto)
      with c obtain w p2 where w: "p_value n ?p = Done w p2"
        and nf: "array_close n (vs @ [w]) p2 = NoFuel" by (auto simp: step_bind_NoFuel_iff)
      have post: "value_post ?p w p2" by (rule p_value_post [OF w]) (use 2 i in auto)
      from nf obtain p4 where "shorter (whitespace p2) p4" "p_array n (vs @ [w]) p4 = NoFuel"
        by (cases rule: array_close_cases [of p2 n "vs @ [w]"]) auto
      with post Suc.IH(2) [of p4 "vs @ [w]"] 2 whitespace_rest_le [of p2] whitespace_rest_le [of p]
      show False by (auto simp: value_post_def shorter_def)
    qed
  next
    case 3
    show ?case
    proof
      let ?p = "whitespace p\<lparr>items := items p + 1\<rparr>"
      assume "p_object (Suc n) kvs p = NoFuel"
      then obtain key p2 where i: "items p < JSON_MAX_ITEMS" and key: "string_token ?p = Done key p2"
        and f: "object_field n kvs key p2 = NoFuel"
        unfolding p_object_Suc by (auto simp: step_bind_NoFuel_iff count_item_Done_iff)
      then obtain p3 where s3: "shorter (whitespace p2) p3"
        and c: "step_bind (p_value n p3) (\<lambda>v. object_close n (kvs @ [(key, v)])) = NoFuel"
        by (cases rule: object_field_cases [of key kvs p2 n]) auto
      have d3: "depth p3 = depth p" "items p3 \<le> JSON_MAX_ITEMS" "length (rest p3) + 1 < length (rest p)"
        using string_token_DoneD [OF key] s3 i whitespace_rest_le [of p2] whitespace_rest_le [of p]
        by (auto simp: shorter_def)
      have "p_value n p3 \<noteq> NoFuel" by (rule Suc.IH(1)) (use 3 d3 in auto)
      with c obtain w p4 where w: "p_value n p3 = Done w p4"
        and nf: "object_close n (kvs @ [(key, w)]) p4 = NoFuel"
        by (auto simp: step_bind_NoFuel_iff)
      have post: "value_post p3 w p4" by (rule p_value_post [OF w]) (use 3 d3 in auto)
      from nf obtain p6 where "shorter (whitespace p4) p6" "p_object n (kvs @ [(key, w)]) p6 = NoFuel"
        by (cases rule: object_close_cases [of p4 n "kvs @ [(key, w)]"]) auto
      with post Suc.IH(3) [of p6 "kvs @ [(key, w)]"] 3 d3 whitespace_rest_le [of p4]
      show False by (auto simp: value_post_def shorter_def)
    qed
  }
qed simp_all

lemma json_run_fuel: "json_parse_step input \<noteq> NoFuel"
  using p_fuel(1) [of "\<lparr>rest = input, depth = 0, items = 0\<rparr>" "json_fuel input"]
  by (auto simp: json_parse_step_def step_bind_NoFuel_iff json_fuel_def Let_def)

lemma json_parse_InrD:
  assumes "json_parse input = Inr v"
  shows "json_wf v \<and> json_within MAX_DEPTH v \<and> json_items v \<le> JSON_MAX_ITEMS"
proof -
  from assms obtain q where
    "p_value (json_fuel input) \<lparr>rest = input, depth = 0, items = 0\<rparr> = Done v q"
    by (auto simp: json_parse_def json_parse_step_def step_bind_Done_iff Let_def
        split: step.splits if_splits)
  from p_value_post [OF this] show ?thesis by (simp add: value_post_def)
qed

end
