(* ===== verification/Json_Access.thy ===== *)
theory Json_Access
  imports Json_Parser
begin

text \<open>
  Typed access to the fields of a parsed object (\<open>json/access.rs\<close>). The trait
  \<open>AccessError\<close> gives each reader its own error type; here the constructor
  \<open>E::invalid\<close> is the argument \<open>bad\<close>.
\<close>

definition MAX_SAFE_INTEGER :: u64 where "MAX_SAFE_INTEGER = 9007199254740991"

definition field :: "json_object \<Rightarrow> string \<Rightarrow> json option" where
  "field o' name = map_of o' name"

definition keys :: "(string \<Rightarrow> 'e) \<Rightarrow> json_object \<Rightarrow> string list \<Rightarrow> 'e + unit" where
  "keys bad o' names =
     (if list_ex (\<lambda>name. field o' name = None) names
       \<or> list_ex (\<lambda>(key, _). key \<notin> set names) o'
      then Inl (bad ''unknown or missing field'') else Inr ())"

definition val :: "(string \<Rightarrow> 'e) \<Rightarrow> json_object \<Rightarrow> string \<Rightarrow> 'e + json" where
  "val bad o' name = ok_or (field o' name) (bad name)"

definition obj :: "(string \<Rightarrow> 'e) \<Rightarrow> json_object \<Rightarrow> string \<Rightarrow> 'e + json_object" where
  "obj bad o' name = and_then (val bad o' name) (\<lambda>v. ok_or (as_object v) (bad name))"

definition strv :: "(string \<Rightarrow> 'e) \<Rightarrow> json_object \<Rightarrow> string \<Rightarrow> 'e + string" where
  "strv bad o' name = and_then (val bad o' name) (\<lambda>v. ok_or (as_string v) (bad name))"

text \<open>The condition of \<open>bounded\<close>, shared with the optional strings of the readers.\<close>

definition bounded_text :: "string \<Rightarrow> nat \<Rightarrow> bool" where
  "bounded_text s m \<longleftrightarrow> s \<noteq> [] \<and> length s \<le> m \<and> \<not> list_ex is_control (chars s)"

definition bounded :: "(string \<Rightarrow> 'e) \<Rightarrow> json_object \<Rightarrow> string \<Rightarrow> nat \<Rightarrow> 'e + string" where
  "bounded bad o' name m =
     and_then (strv bad o' name) (\<lambda>s. if bounded_text s m then Inr s else Inl (bad name))"

text \<open>\<open>"._:-".contains(character)\<close>\<close>

definition id_char :: "nat \<Rightarrow> nat \<Rightarrow> bool" where
  "id_char i c \<longleftrightarrow> ascii_alphanumeric c \<or> 0 < i \<and> c \<in> {46, 95, 58, 45}"

definition is_identifier :: "string \<Rightarrow> bool" where
  "is_identifier s \<longleftrightarrow>
     s \<noteq> [] \<and> length s \<le> 128 \<and> list_all (\<lambda>(i, c). id_char i c) (enumerate 0 (chars s))"

definition id_field :: "(string \<Rightarrow> 'e) \<Rightarrow> json_object \<Rightarrow> string \<Rightarrow> 'e + string" where
  "id_field bad o' name =
     and_then (bounded bad o' name 128) (\<lambda>s. if is_identifier s then Inr s else Inl (bad name))"

definition optional_id :: "(string \<Rightarrow> 'e) \<Rightarrow> json_object \<Rightarrow> string \<Rightarrow> 'e + string option" where
  "optional_id bad o' name =
     (case field o' name of
        Some JNull \<Rightarrow> Inr None
      | Some (JString s) \<Rightarrow> if is_identifier s then Inr (Some s) else Inl (bad name)
      | Some _ \<Rightarrow> Inl (bad name)
      | None \<Rightarrow> Inr None)"

definition number_field :: "(string \<Rightarrow> 'e) \<Rightarrow> json_object \<Rightarrow> string \<Rightarrow> 'e + u64" where
  "number_field bad o' name =
     and_then (val bad o' name) (\<lambda>v.
     and_then (ok_or (as_number v) (bad name)) (\<lambda>n.
       if n > MAX_SAFE_INTEGER then Inl (bad name) else Inr n))"

definition optional_number :: "(string \<Rightarrow> 'e) \<Rightarrow> json_object \<Rightarrow> string \<Rightarrow> 'e + u64 option" where
  "optional_number bad o' name =
     and_then (val bad o' name) (\<lambda>v.
       if is_null v then Inr None
       else and_then (ok_or (as_number v) (bad name)) (\<lambda>n.
         if n > MAX_SAFE_INTEGER then Inl (bad name) else Inr (Some n)))"

subsection \<open>Timestamps\<close>

text \<open>\<open>slice s a b\<close> is \<open>&bytes[a..b]\<close>, used within the length only.\<close>

definition slice :: "'a list \<Rightarrow> nat \<Rightarrow> nat \<Rightarrow> 'a list" where
  "slice s a b = take (b - a) (drop a s)"

definition zulu :: "char \<Rightarrow> bool" where
  "zulu c \<longleftrightarrow> c = CHR ''Z'' \<or> c = CHR ''z''"

text \<open>The zone that follows the seconds, after an optional fraction.\<close>

definition rfc3339_zone :: "bytes \<Rightarrow> bytes option" where
  "rfc3339_zone r =
     (if r \<noteq> [] \<and> hd r = CHR ''.'' then
        (let zone_start = length (takeWhile (\<lambda>c. \<not> zulu c) r)
         in if zone_start = length r then None
            else if zone_start = 1 \<or> \<not> all_digits (slice r 1 zone_start) then None
            else Some (drop zone_start r))
      else Some r)"

definition is_rfc3339 :: "string \<Rightarrow> bool" where
  "is_rfc3339 s \<longleftrightarrow>
     20 \<le> length s \<and> s ! 4 = CHR ''-'' \<and> s ! 7 = CHR ''-'' \<and> s ! 10 = CHR ''T''
     \<and> s ! 13 = CHR '':'' \<and> s ! 16 = CHR '':''
     \<and> list_all (\<lambda>(a, b). all_digits (slice s a b))
         [(0, 4), (5, 7), (8, 10), (11, 13), (14, 16), (17, 19)]
     \<and> (case rfc3339_zone (drop 19 s) of
          None \<Rightarrow> False
        | Some zone \<Rightarrow>
            zone = ''Z'' \<or> zone = ''z''
            \<or> (length zone = 6 \<and> (zone ! 0 = CHR ''+'' \<or> zone ! 0 = CHR ''-'') \<and> zone ! 3 = CHR '':''
               \<and> all_digits (slice zone 1 3) \<and> all_digits (slice zone 4 6)))"

subsection \<open>Inversion of the accessors\<close>

named_theorems access_simps \<open>what a successful accessor returns\<close>

lemma field_mem: "field o' name = Some v \<Longrightarrow> (name, v) \<in> set o'"
  by (simp add: field_def map_of_SomeD)

lemma keys_Inr_iff [access_simps]:
  "keys bad o' names = Inr u \<longleftrightarrow>
     (\<forall>name\<in>set names. field o' name \<noteq> None) \<and> fst ` set o' \<subseteq> set names"
  by (auto simp: keys_def list_ex_iff)

lemma keys_exact: "keys bad o' names = Inr u \<Longrightarrow> fst ` set o' = set names"
  by (force simp: keys_Inr_iff field_def map_of_eq_None_iff)

lemma as_iff [access_simps]:
  "as_object v = Some o' \<longleftrightarrow> v = JObject o'"
  "as_array v = Some vs \<longleftrightarrow> v = JArray vs"
  "as_string v = Some s \<longleftrightarrow> v = JString s"
  "as_number v = Some n \<longleftrightarrow> v = JNumber n"
  "as_boolean v = Some b \<longleftrightarrow> v = JBool b"
  "is_null v \<longleftrightarrow> v = JNull"
  by (cases v; auto)+

lemma val_Inr_iff [access_simps]: "val bad o' name = Inr v \<longleftrightarrow> field o' name = Some v"
  by (simp add: val_def)

lemma obj_Inr_iff [access_simps]: "obj bad o' name = Inr kvs \<longleftrightarrow> field o' name = Some (JObject kvs)"
  by (auto simp: obj_def result_simps access_simps)

lemma strv_Inr_iff [access_simps]: "strv bad o' name = Inr s \<longleftrightarrow> field o' name = Some (JString s)"
  by (auto simp: strv_def result_simps access_simps)

lemma bounded_Inr_iff [access_simps]:
  "bounded bad o' name m = Inr s \<longleftrightarrow> field o' name = Some (JString s) \<and> bounded_text s m"
  by (auto simp: bounded_def result_simps access_simps split: if_splits)

lemma id_field_Inr_iff [access_simps]:
  "id_field bad o' name = Inr s \<longleftrightarrow>
     field o' name = Some (JString s) \<and> bounded_text s 128 \<and> is_identifier s"
  by (auto simp: id_field_def result_simps access_simps split: if_splits)

lemma optional_id_InrD: "optional_id bad o' name = Inr (Some s) \<Longrightarrow> is_identifier s"
  by (auto simp: optional_id_def split: option.splits json.splits if_splits)

lemma number_field_Inr_iff [access_simps]:
  "number_field bad o' name = Inr n \<longleftrightarrow>
     field o' name = Some (JNumber n) \<and> n \<le> MAX_SAFE_INTEGER"
  by (auto simp: number_field_def result_simps access_simps not_less split: if_splits)

lemma optional_number_InrD:
  "optional_number bad o' name = Inr (Some n) \<Longrightarrow> n \<le> MAX_SAFE_INTEGER"
  by (auto simp: optional_number_def result_simps access_simps split: if_splits)

subsection \<open>Identifiers\<close>

text \<open>
  The language of the identifiers, spelled out letter by letter and apart from the tests of the
  code: a letter or a digit, and at most 127 more of these and of \<open>._:-\<close>.
\<close>

definition id_alphabet :: string where
  "id_alphabet = ''ABCDEFGHIJKLMNOPQRSTUVWXYZabcdefghijklmnopqrstuvwxyz0123456789''"

fun id_bytes :: "string \<Rightarrow> bool" where
  "id_bytes [] = False"
| "id_bytes (c # cs) \<longleftrightarrow>
     c \<in> set id_alphabet \<and> set cs \<subseteq> set (id_alphabet @ ''._:-'') \<and> length cs < 128"

lemma id_alphabet_codes: "id_alphabet = map char_of ([65..<91] @ [97..<123] @ [48..<58 :: nat])"
  by (simp add: id_alphabet_def char_of_def bit_Suc_0_iff)

lemma mem_map_char_of:
  assumes "set ns \<subseteq> {..<256 :: nat}"
  shows "c \<in> set (map char_of ns) \<longleftrightarrow> bv c \<in> set ns"
  using assms by (force simp: image_iff of_char_of)

lemma ascii_alphanumeric_iff: "ascii_alphanumeric (bv c) \<longleftrightarrow> c \<in> set id_alphabet"
  unfolding id_alphabet_codes
  by (subst mem_map_char_of)
     (auto simp only: ascii_defs set_append set_upt Un_iff atLeastLessThan_iff lessThan_iff)

lemma id_punctuation_iff: "bv c \<in> {46, 95, 58, 45} \<longleftrightarrow> c \<in> set ''._:-''"
proof -
  have codes: "''._:-'' = map char_of [46, 95, 58, 45 :: nat]"
    by (simp add: char_of_def bit_Suc_0_iff)
  have "set [46, 95, 58, 45 :: nat] \<subseteq> {..<256}" by simp
  from mem_map_char_of [OF this, of c, folded codes] show ?thesis by simp
qed

lemma id_scan_tail:
  "0 < n \<Longrightarrow> list_all (\<lambda>(i, c). id_char i (bv c)) (enumerate n s) \<longleftrightarrow>
     set s \<subseteq> set (id_alphabet @ ''._:-'')"
proof (induction s arbitrary: n)
  case (Cons c s)
  have "id_char n (bv c) \<longleftrightarrow> c \<in> set (id_alphabet @ ''._:-'')"
    using Cons.prems by (simp only: id_char_def ascii_alphanumeric_iff id_punctuation_iff set_append Un_iff simp_thms)
  with Cons.IH [of "Suc n"] show ?case by simp
qed simp

lemma id_bytes_scan:
  "id_bytes s \<longleftrightarrow>
     s \<noteq> [] \<and> length s \<le> 128 \<and> list_all (\<lambda>(i, c). id_char i (bv c)) (enumerate 0 s)"
proof (cases s)
  case (Cons c cs)
  then show ?thesis
    using id_scan_tail [of "Suc 0" cs]
    by (auto simp: id_char_def ascii_alphanumeric_iff simp del: set_append)
qed simp

text \<open>Identifiers are ASCII, so reading them by characters or by bytes is the same.\<close>

lemma id_char_ascii: "id_char i c \<Longrightarrow> c < 128"
  by (auto simp: id_char_def ascii_defs)

lemma enumerate_map: "enumerate n (map f xs) = map (\<lambda>(i, x). (i, f x)) (enumerate n xs)"
  by (induction xs arbitrary: n) auto

lemma list_all_enumerate_ascii:
  "list_all (\<lambda>(i, c). id_char i c) (enumerate n cs) \<Longrightarrow> \<forall>c\<in>set cs. c < 128"
  by (induction cs arbitrary: n) (auto dest: id_char_ascii)

lemma enumerate_bytes:
  "list_all (\<lambda>(i, c). id_char i (bv c)) (enumerate n s) \<longleftrightarrow>
   list_all (\<lambda>(i, c). id_char i c) (enumerate n (map of_char s))"
  by (simp add: enumerate_map list_all_iff split_beta)

lemma identifier_bytes:
  assumes "is_utf8 s"
  shows "is_identifier s \<longleftrightarrow> id_bytes s"
proof -
  obtain cs where cs: "utf8_decode (map of_char s) = Some cs"
    using assms by (auto simp: is_utf8_def)
  then have ch: "chars s = cs" by (simp add: chars_def)
  have "list_all (\<lambda>(i, c). id_char i c) (enumerate 0 cs) \<longleftrightarrow>
      list_all (\<lambda>(i, c). id_char i (bv c)) (enumerate 0 s)"
  proof
    assume a: "list_all (\<lambda>(i, c). id_char i c) (enumerate 0 cs)"
    then have "map of_char s = cs"
      using utf8_decode_ascii_inv [OF cs] list_all_enumerate_ascii by blast
    with a show "list_all (\<lambda>(i, c). id_char i (bv c)) (enumerate 0 s)"
      by (simp add: enumerate_bytes)
  next
    assume a: "list_all (\<lambda>(i, c). id_char i (bv c)) (enumerate 0 s)"
    then have "list_all (\<lambda>(i, c). id_char i c) (enumerate 0 (map of_char s))"
      by (simp add: enumerate_bytes)
    moreover from this have "cs = map of_char s"
      using cs utf8_decode_ascii [of "map of_char s"] list_all_enumerate_ascii by fastforce
    ultimately show "list_all (\<lambda>(i, c). id_char i c) (enumerate 0 cs)" by simp
  qed
  then show ?thesis by (simp add: is_identifier_def id_bytes_scan ch)
qed

lemma id_bytes_ascii: "id_bytes s \<Longrightarrow> ascii_string s"
  using list_all_enumerate_ascii [of 0 "map of_char s"]
  by (simp add: id_bytes_scan enumerate_bytes ascii_string_def) (simp add: list_all_iff)

end
