(* ===== verification/Snapshot_Reader.thy ===== *)
theory Snapshot_Reader
  imports Json_Access
begin

text \<open>
  The snapshot manifest reader of \<open>context-reader/src/snapshot\<close>: its types, the readers of
  measurements, components, reasons and mappings, \<open>Snapshot::parse\<close>, and what every
  accepted snapshot satisfies. Record fields carry a prefix per struct
  (\<open>m_\<close> measurement, \<open>c_\<close> component, \<open>id_\<close> identity, \<open>pr_\<close> producer,
  \<open>mp_\<close> mapping, \<open>sp_\<close> projection, \<open>sn_\<close> snapshot).
\<close>

datatype capture_mode = Metadata | Memory | Private

datatype component_status = Complete | MetadataOnly | Redacted | Partial | Unavailable | Expired

fun capture_mode_as_str :: "capture_mode \<Rightarrow> string" where
  "capture_mode_as_str Metadata = ''metadata''"
| "capture_mode_as_str Memory = ''memory''"
| "capture_mode_as_str Private = ''private''"

fun component_status_as_str :: "component_status \<Rightarrow> string" where
  "component_status_as_str Complete = ''complete''"
| "component_status_as_str MetadataOnly = ''metadata_only''"
| "component_status_as_str Redacted = ''redacted''"
| "component_status_as_str Partial = ''partial''"
| "component_status_as_str Unavailable = ''unavailable''"
| "component_status_as_str Expired = ''expired''"

record identity =
  id_run_id :: string
  id_episode_id :: string
  id_agent_id :: string
  id_model_execution_id :: string
  id_provider_attempt_id :: string

record producer =
  pr_repository :: string
  pr_revision :: string
  pr_adapter_revision :: string
  pr_evidence :: string

record measurement =
  m_metric :: string
  m_value :: "u64 option"
  m_source :: string
  m_scope :: string
  m_measurement_revision :: "string option"
  m_provider_turn_ref :: "string option"

record component =
  c_component_id :: string
  c_ordinal :: u64
  c_kind :: string
  c_role :: "string option"
  c_media_type :: string
  c_observed_bytes :: u64
  c_content_status :: component_status
  c_content_ref :: "string option"
  c_sha256 :: "string option"
  c_origin :: string
  c_measurement :: measurement

record mapping_entry =
  mp_upstream_field :: string
  mp_transformation :: string
  mp_component_ids :: "string list"

record projection =
  sp_snapshot_id :: string
  sp_identity :: identity
  sp_producer :: producer
  sp_boundary :: string
  sp_capture_mode :: capture_mode
  sp_provider_name :: string
  sp_provider_model :: string
  sp_recorded_at :: string
  sp_application_capture_complete :: bool
  sp_incomplete_reasons :: "string list"
  sp_parent_snapshot_id :: "string option"
  sp_input_measurement :: measurement
  sp_model_context_limit_tokens :: "u64 option"
  sp_model_limit_source :: string
  sp_component_count :: nat

record snapshot =
  sn_raw_len :: nat
  sn_projection :: projection
  sn_components :: "component list"
  sn_mapping :: "mapping_entry list"

datatype snapshot_error = SnapEmpty | SnapTooLarge | SnapJson | SnapInvalid string

definition MAX_SNAPSHOT_BYTES :: nat where "MAX_SNAPSHOT_BYTES = 1048576"
definition MAX_COMPONENTS :: nat where "MAX_COMPONENTS = 128"
definition MAX_REASONS :: nat where "MAX_REASONS = 16"
definition MAX_MAPPINGS :: nat where "MAX_MAPPINGS = 128"

subsection \<open>Optional text and digests\<close>

definition optional_string :: "json_object \<Rightarrow> string \<Rightarrow> nat \<Rightarrow> snapshot_error + string option" where
  "optional_string o' name m =
     and_then (val SnapInvalid o' name) (\<lambda>v.
       if is_null v then Inr None
       else and_then (ok_or (as_string v) (SnapInvalid name)) (\<lambda>s.
         if bounded_text s m then Inr (Some s) else Inl (SnapInvalid name)))"

definition digest_text :: "string \<Rightarrow> bool" where
  "digest_text s \<longleftrightarrow> length s = 64 \<and> lower_hex s"

definition digest_field :: "json_object \<Rightarrow> string \<Rightarrow> snapshot_error + string option" where
  "digest_field o' name =
     and_then (val SnapInvalid o' name) (\<lambda>v.
       if is_null v then Inr None
       else and_then (ok_or (as_string v) (SnapInvalid name)) (\<lambda>s.
         if digest_text s then Inr (Some s) else Inl (SnapInvalid name)))"

subsection \<open>Measurements\<close>

definition metric_names :: "string list" where
  "metric_names = [''input_tokens'', ''output_tokens'', ''cached_input_tokens'',
     ''cache_write_input_tokens'', ''reasoning_output_tokens'']"

definition source_names :: "string list" where
  "source_names = [''unavailable'', ''provider_reported'', ''local_tokenizer'', ''heuristic'']"

definition scope_names :: "string list" where
  "scope_names = [''component'', ''prepared_input'', ''provider_turn'', ''episode_cumulative'']"

definition measurement_keys :: "string list" where
  "measurement_keys = [''metric'', ''value'', ''source'', ''scope'', ''measurement_revision'',
     ''provider_turn_ref'']"

definition measurement_value :: "json \<Rightarrow> snapshot_error + u64 option" where
  "measurement_value v =
     (if is_null v then Inr None
      else and_then (ok_or (as_number v) (SnapInvalid ''measurement.value'')) (\<lambda>n.
        if n > MAX_SAFE_INTEGER then Inl (SnapInvalid ''measurement.value'') else Inr (Some n)))"

definition read_measurement :: "json_object \<Rightarrow> snapshot_error + measurement" where
  "read_measurement o' =
     and_then (keys SnapInvalid o' measurement_keys) (\<lambda>_.
     and_then (bounded SnapInvalid o' ''metric'' 64) (\<lambda>metric.
     and_then (ensure (metric \<in> set metric_names) (SnapInvalid ''measurement.metric'')) (\<lambda>_.
     and_then (bounded SnapInvalid o' ''source'' 64) (\<lambda>source.
     and_then (ensure (source \<in> set source_names) (SnapInvalid ''measurement.source'')) (\<lambda>_.
     and_then (val SnapInvalid o' ''value'') (\<lambda>v.
     and_then (measurement_value v) (\<lambda>value.
     and_then (optional_string o' ''measurement_revision'' 128) (\<lambda>revision.
     and_then (optional_string o' ''provider_turn_ref'' 128) (\<lambda>turn_ref.
     and_then (ensure (\<not> (source = ''unavailable'' \<and>
         (value \<noteq> None \<or> revision \<noteq> None \<or> turn_ref \<noteq> None)))
       (SnapInvalid ''measurement.unavailable'')) (\<lambda>_.
     and_then (ensure (\<not> (source \<noteq> ''unavailable'' \<and> value = None))
       (SnapInvalid ''measurement.value'')) (\<lambda>_.
     and_then (ensure (\<not> (source \<in> {''heuristic'', ''local_tokenizer''} \<and> revision = None))
       (SnapInvalid ''measurement.measurement_revision'')) (\<lambda>_.
     and_then (ensure (\<not> (source = ''provider_reported'' \<and> turn_ref = None))
       (SnapInvalid ''measurement.provider_turn_ref'')) (\<lambda>_.
     and_then (bounded SnapInvalid o' ''scope'' 64) (\<lambda>scope.
     and_then (ensure (scope \<in> set scope_names) (SnapInvalid ''measurement.scope'')) (\<lambda>_.
     Inr \<lparr>m_metric = metric, m_value = value, m_source = source, m_scope = scope,
          m_measurement_revision = revision, m_provider_turn_ref = turn_ref\<rparr>)))))))))))))))"

subsection \<open>Components\<close>

definition read_status :: "string \<Rightarrow> snapshot_error + component_status" where
  "read_status s =
     (if s = ''complete'' then Inr Complete
      else if s = ''metadata_only'' then Inr MetadataOnly
      else if s = ''redacted'' then Inr Redacted
      else if s = ''partial'' then Inr Partial
      else if s = ''unavailable'' then Inr Unavailable
      else if s = ''expired'' then Inr Expired
      else Inl (SnapInvalid ''component.content_status''))"

definition component_keys :: "string list" where
  "component_keys = [''component_id'', ''ordinal'', ''kind'', ''role'', ''media_type'',
     ''observed_bytes'', ''content_status'', ''content_ref'', ''sha256'', ''origin'',
     ''measurement'']"

definition kind_names :: "string list" where
  "kind_names = [''harness_request'', ''stdin'', ''serialized_http_body'', ''system_message'',
     ''user_message'', ''output_schema'', ''configuration'', ''attachment'', ''opaque'']"

definition role_names :: "string list" where
  "role_names = [''system'', ''developer'', ''user'', ''assistant'', ''tool'']"

definition origin_names :: "string list" where
  "origin_names = [''harness'', ''adapter'', ''artifact'', ''operator_fixture'',
     ''t02_synthetic_fixture'']"

definition content_required :: "component_status \<Rightarrow> bool" where
  "content_required st \<longleftrightarrow> st = Complete \<or> st = Redacted \<or> st = Partial"

definition content_forbidden :: "component_status \<Rightarrow> bool" where
  "content_forbidden st \<longleftrightarrow> st = MetadataOnly \<or> st = Unavailable \<or> st = Expired"

text \<open>The fields of one component, in the order the source reads them.\<close>

definition read_component :: "json_object \<Rightarrow> snapshot_error + component" where
  "read_component o' =
     and_then (keys SnapInvalid o' component_keys) (\<lambda>_.
     and_then (strv SnapInvalid o' ''content_status'') (\<lambda>st.
     and_then (read_status st) (\<lambda>content_status.
     and_then (bounded SnapInvalid o' ''kind'' 64) (\<lambda>kind.
     and_then (ensure (kind \<in> set kind_names) (SnapInvalid ''component.kind'')) (\<lambda>_.
     and_then (optional_string o' ''role'' 128) (\<lambda>role.
     and_then (ensure (case role of Some r \<Rightarrow> r \<in> set role_names | None \<Rightarrow> True)
       (SnapInvalid ''component.role'')) (\<lambda>_.
     and_then (bounded SnapInvalid o' ''origin'' 128) (\<lambda>origin.
     and_then (ensure (origin \<in> set origin_names) (SnapInvalid ''component.origin'')) (\<lambda>_.
     and_then (id_field SnapInvalid o' ''component_id'') (\<lambda>component_id.
     and_then (number_field SnapInvalid o' ''ordinal'') (\<lambda>ordinal.
     and_then (bounded SnapInvalid o' ''media_type'' 128) (\<lambda>media_type.
     and_then (number_field SnapInvalid o' ''observed_bytes'') (\<lambda>observed_bytes.
     and_then (optional_id SnapInvalid o' ''content_ref'') (\<lambda>content_ref.
     and_then (digest_field o' ''sha256'') (\<lambda>sha256.
     and_then (obj SnapInvalid o' ''measurement'') (\<lambda>mo.
     and_then (read_measurement mo) (\<lambda>m.
     Inr \<lparr>c_component_id = component_id, c_ordinal = ordinal, c_kind = kind, c_role = role,
          c_media_type = media_type, c_observed_bytes = observed_bytes,
          c_content_status = content_status, c_content_ref = content_ref, c_sha256 = sha256,
          c_origin = origin, c_measurement = m\<rparr>)))))))))))))))))"

text \<open>The condition that refuses a component after its fields are read.\<close>

definition component_refused :: "component list \<Rightarrow> component \<Rightarrow> bool" where
  "component_refused result c \<longleftrightarrow>
     (let content_present = c_content_ref c \<noteq> None \<or> c_sha256 c \<noteq> None
      in (content_required (c_content_status c) \<and>
            (\<not> content_present \<or> c_content_ref c = None \<or> c_sha256 c = None))
         \<or> (content_forbidden (c_content_status c) \<and> content_present)
         \<or> list_ex (\<lambda>old. c_component_id old = c_component_id c \<or> c_ordinal old = c_ordinal c)
             result)"

fun components_loop :: "component list \<Rightarrow> json list \<Rightarrow> snapshot_error + component list" where
  "components_loop result [] = Inr result"
| "components_loop result (item # remaining) =
     and_then (ok_or (as_object item) (SnapInvalid ''component'')) (\<lambda>o'.
     and_then (read_component o') (\<lambda>c.
       if component_refused result c then Inl (SnapInvalid ''components'')
       else components_loop (result @ [c]) remaining))"

definition read_components :: "json \<Rightarrow> snapshot_error + component list" where
  "read_components v =
     and_then (ok_or (as_array v) (SnapInvalid ''components'')) (\<lambda>values.
     if values = [] \<or> length values > MAX_COMPONENTS then Inl (SnapInvalid ''components'')
     else and_then (components_loop [] values) (\<lambda>result.
       if list_ex (\<lambda>(index, c). c_ordinal c \<noteq> of_nat index) (enumerate 0 result)
       then Inl (SnapInvalid ''components.ordinal'') else Inr result))"

subsection \<open>Reasons and mappings\<close>

definition reason_names :: "string list" where
  "reason_names = [''content_excluded'', ''component_missing'', ''unsupported_attachment'',
     ''capture_limit'', ''redacted'', ''partial_write_capture'', ''producer_unknown'',
     ''metadata_only'']"

fun reasons_loop :: "string list \<Rightarrow> json list \<Rightarrow> snapshot_error + string list" where
  "reasons_loop result [] = Inr result"
| "reasons_loop result (item # remaining) =
     and_then (ok_or (as_string item) (SnapInvalid ''incomplete_reasons'')) (\<lambda>reason.
       if reason \<notin> set reason_names \<or> reason \<in> set result
       then Inl (SnapInvalid ''incomplete_reasons'')
       else reasons_loop (result @ [reason]) remaining)"

definition read_reasons :: "json \<Rightarrow> snapshot_error + string list" where
  "read_reasons v =
     and_then (ok_or (as_array v) (SnapInvalid ''incomplete_reasons'')) (\<lambda>values.
       if length values > MAX_REASONS then Inl (SnapInvalid ''incomplete_reasons'')
       else reasons_loop [] values)"

definition transformation_names :: "string list" where
  "transformation_names = [''forwarded'', ''rendered_as_text'', ''mapped_to_schema'',
     ''mapped_to_configuration'', ''omitted'', ''unsupported'']"

fun mapping_ids_loop :: "string list \<Rightarrow> json list \<Rightarrow> snapshot_error + string list" where
  "mapping_ids_loop ids [] = Inr ids"
| "mapping_ids_loop ids (item # remaining) =
     and_then (ok_or (as_string item) (SnapInvalid ''mapping.component_ids'')) (\<lambda>s.
       if \<not> is_identifier s then Inl (SnapInvalid ''mapping.component_ids'')
       else if s \<in> set ids then Inl (SnapInvalid ''mapping.component_ids'')
       else mapping_ids_loop (ids @ [s]) remaining)"

definition read_mapping :: "json \<Rightarrow> snapshot_error + mapping_entry" where
  "read_mapping item =
     and_then (ok_or (as_object item) (SnapInvalid ''mapping'')) (\<lambda>o'.
     and_then (keys SnapInvalid o' [''upstream_field'', ''transformation'', ''component_ids'']) (\<lambda>_.
     and_then (strv SnapInvalid o' ''transformation'') (\<lambda>transformation.
     and_then (ensure (transformation \<in> set transformation_names)
       (SnapInvalid ''mapping.transformation'')) (\<lambda>_.
     and_then (val SnapInvalid o' ''component_ids'') (\<lambda>v.
     and_then (ok_or (as_array v) (SnapInvalid ''mapping.component_ids'')) (\<lambda>values.
     and_then (mapping_ids_loop [] values) (\<lambda>ids.
     and_then (id_field SnapInvalid o' ''upstream_field'') (\<lambda>upstream.
     Inr \<lparr>mp_upstream_field = upstream, mp_transformation = transformation,
          mp_component_ids = ids\<rparr>))))))))"

definition read_mappings :: "json \<Rightarrow> snapshot_error + mapping_entry list" where
  "read_mappings v =
     and_then (ok_or (as_array v) (SnapInvalid ''mapping'')) (\<lambda>values.
       if length values > MAX_MAPPINGS then Inl (SnapInvalid ''mapping'')
       else collect_results read_mapping values)"

subsection \<open>The snapshot\<close>

definition snapshot_keys :: "string list" where
  "snapshot_keys = [''schema'', ''snapshot_id'', ''identity'', ''producer'', ''boundary'',
     ''capture_mode'', ''provider'', ''recorded_at'', ''application_capture_complete'',
     ''incomplete_reasons'', ''parent_snapshot_id'', ''components'', ''mapping'',
     ''input_measurement'', ''model_context_limit_tokens'', ''model_limit_source'']"

definition boundary_names :: "string list" where
  "boundary_names = [''harness.request'', ''adapter.cli_input'', ''adapter.http_body'']"

definition parse_identity :: "json_object \<Rightarrow> snapshot_error + identity" where
  "parse_identity o' =
     and_then (keys SnapInvalid o' [''run_id'', ''episode_id'', ''agent_id'',
       ''model_execution_id'', ''provider_attempt_id'']) (\<lambda>_.
     and_then (id_field SnapInvalid o' ''run_id'') (\<lambda>run_id.
     and_then (id_field SnapInvalid o' ''episode_id'') (\<lambda>episode_id.
     and_then (id_field SnapInvalid o' ''agent_id'') (\<lambda>agent_id.
     and_then (id_field SnapInvalid o' ''model_execution_id'') (\<lambda>model_execution_id.
     and_then (id_field SnapInvalid o' ''provider_attempt_id'') (\<lambda>provider_attempt_id.
     Inr \<lparr>id_run_id = run_id, id_episode_id = episode_id, id_agent_id = agent_id,
          id_model_execution_id = model_execution_id,
          id_provider_attempt_id = provider_attempt_id\<rparr>))))))"

definition parse_producer :: "json_object \<Rightarrow> snapshot_error + producer" where
  "parse_producer o' =
     and_then (keys SnapInvalid o' [''repository'', ''revision'', ''adapter_revision'',
       ''evidence'']) (\<lambda>_.
     and_then (strv SnapInvalid o' ''revision'') (\<lambda>revision.
     and_then (ensure (length revision = 40 \<and> lower_hex revision)
       (SnapInvalid ''producer.revision'')) (\<lambda>_.
     and_then (strv SnapInvalid o' ''evidence'') (\<lambda>evidence.
     and_then (ensure (evidence \<in> {''synthetic'', ''source-derived'', ''native-application-boundary''})
       (SnapInvalid ''producer.evidence'')) (\<lambda>_.
     and_then (bounded SnapInvalid o' ''repository'' 256) (\<lambda>repository.
     and_then (id_field SnapInvalid o' ''adapter_revision'') (\<lambda>adapter_revision.
     Inr \<lparr>pr_repository = repository, pr_revision = revision,
          pr_adapter_revision = adapter_revision, pr_evidence = evidence\<rparr>)))))))"

definition capture :: "string \<Rightarrow> snapshot_error + capture_mode" where
  "capture s =
     (if s = ''metadata'' then Inr Metadata
      else if s = ''memory'' then Inr Memory
      else if s = ''private'' then Inr Private
      else Inl (SnapInvalid ''capture_mode''))"

definition has_kind :: "component list \<Rightarrow> string \<Rightarrow> bool" where
  "has_kind cs kind \<longleftrightarrow> list_ex (\<lambda>c. c_kind c = kind) cs"

definition mapping_dangling :: "mapping_entry list \<Rightarrow> component list \<Rightarrow> bool" where
  "mapping_dangling ms cs \<longleftrightarrow>
     list_ex (\<lambda>cid. \<not> list_ex (\<lambda>c. c_component_id c = cid) cs) (concat (map mp_component_ids ms))"

text \<open>The checks between fields that close \<open>Snapshot::parse\<close>.\<close>

definition snapshot_checks ::
  "bool \<Rightarrow> string list \<Rightarrow> component list \<Rightarrow> capture_mode \<Rightarrow> string \<Rightarrow> snapshot_error + unit" where
  "snapshot_checks complete reasons cs mode boundary =
     and_then (ensure (\<not> (complete \<and> (reasons \<noteq> [] \<or>
         list_ex (\<lambda>c. c_content_status c \<noteq> Complete) cs)))
       (SnapInvalid ''application_capture_complete'')) (\<lambda>_.
     and_then (ensure (\<not> (\<not> complete \<and> reasons = [])) (SnapInvalid ''incomplete_reasons'')) (\<lambda>_.
     and_then (ensure (\<not> (mode = Metadata \<and>
         list_ex (\<lambda>c. c_content_ref c \<noteq> None \<or> c_sha256 c \<noteq> None
           \<or> content_required (c_content_status c)) cs))
       (SnapInvalid ''metadata_content'')) (\<lambda>_.
     ensure (\<not> (complete \<and> boundary = ''adapter.cli_input'' \<and>
         (\<not> has_kind cs ''stdin'' \<or> \<not> has_kind cs ''output_schema'' \<or> \<not> has_kind cs ''configuration'')))
       (SnapInvalid ''components.cli_boundary''))))"

definition snapshot_fields :: "nat \<Rightarrow> json_object \<Rightarrow> snapshot_error + snapshot" where
  "snapshot_fields raw_len root =
     and_then (keys SnapInvalid root snapshot_keys) (\<lambda>_.
     and_then (strv SnapInvalid root ''schema'') (\<lambda>schema.
     and_then (ensure (schema = ''ascension.context-snapshot.v1'') (SnapInvalid ''schema'')) (\<lambda>_.
     and_then (id_field SnapInvalid root ''snapshot_id'') (\<lambda>snapshot_id.
     and_then (obj SnapInvalid root ''identity'') (\<lambda>ido.
     and_then (parse_identity ido) (\<lambda>ident.
     and_then (obj SnapInvalid root ''producer'') (\<lambda>pro.
     and_then (parse_producer pro) (\<lambda>prod.
     and_then (bounded SnapInvalid root ''boundary'' 64) (\<lambda>boundary.
     and_then (ensure (boundary \<in> set boundary_names) (SnapInvalid ''boundary'')) (\<lambda>_.
     and_then (strv SnapInvalid root ''capture_mode'') (\<lambda>mode_name.
     and_then (capture mode_name) (\<lambda>mode.
     and_then (obj SnapInvalid root ''provider'') (\<lambda>provider.
     and_then (keys SnapInvalid provider [''name'', ''model'', ''additional_context'']) (\<lambda>_.
     and_then (id_field SnapInvalid provider ''name'') (\<lambda>provider_name.
     and_then (id_field SnapInvalid provider ''model'') (\<lambda>provider_model.
     and_then (strv SnapInvalid provider ''additional_context'') (\<lambda>additional.
     and_then (ensure (additional = ''not_exposed'')
       (SnapInvalid ''provider.additional_context'')) (\<lambda>_.
     and_then (bounded SnapInvalid root ''recorded_at'' 128) (\<lambda>recorded_at.
     and_then (ensure (is_rfc3339 recorded_at) (SnapInvalid ''recorded_at'')) (\<lambda>_.
     and_then (val SnapInvalid root ''application_capture_complete'') (\<lambda>complete_v.
     and_then (ok_or (as_boolean complete_v)
       (SnapInvalid ''application_capture_complete'')) (\<lambda>complete.
     and_then (val SnapInvalid root ''incomplete_reasons'') (\<lambda>reasons_v.
     and_then (read_reasons reasons_v) (\<lambda>reasons.
     and_then (optional_id SnapInvalid root ''parent_snapshot_id'') (\<lambda>parent.
     and_then (val SnapInvalid root ''components'') (\<lambda>components_v.
     and_then (read_components components_v) (\<lambda>cs.
     and_then (val SnapInvalid root ''mapping'') (\<lambda>mapping_v.
     and_then (read_mappings mapping_v) (\<lambda>ms.
     and_then (ensure (\<not> mapping_dangling ms cs) (SnapInvalid ''mapping.component_ids'')) (\<lambda>_.
     and_then (obj SnapInvalid root ''input_measurement'') (\<lambda>imo.
     and_then (read_measurement imo) (\<lambda>im.
     and_then (optional_number SnapInvalid root ''model_context_limit_tokens'') (\<lambda>limit.
     and_then (bounded SnapInvalid root ''model_limit_source'' 32) (\<lambda>limit_source.
     and_then (ensure (limit_source \<in> {''unavailable'', ''verified_configuration''})
       (SnapInvalid ''model_limit_source'')) (\<lambda>_.
     and_then (snapshot_checks complete reasons cs mode boundary) (\<lambda>_.
     Inr \<lparr>sn_raw_len = raw_len,
          sn_projection =
            \<lparr>sp_snapshot_id = snapshot_id, sp_identity = ident, sp_producer = prod,
             sp_boundary = boundary, sp_capture_mode = mode, sp_provider_name = provider_name,
             sp_provider_model = provider_model, sp_recorded_at = recorded_at,
             sp_application_capture_complete = complete, sp_incomplete_reasons = reasons,
             sp_parent_snapshot_id = parent, sp_input_measurement = im,
             sp_model_context_limit_tokens = limit, sp_model_limit_source = limit_source,
             sp_component_count = length cs\<rparr>,
          sn_components = cs,
          sn_mapping = ms\<rparr>))))))))))))))))))))))))))))))))))))"

definition snapshot_parse :: "bytes \<Rightarrow> snapshot_error + snapshot" where
  "snapshot_parse input =
     (if input = [] then Inl SnapEmpty
      else if length input > MAX_SNAPSHOT_BYTES then Inl SnapTooLarge
      else and_then (map_err (\<lambda>_. SnapJson) (json_parse input)) (\<lambda>root.
        and_then (ok_or (as_object root) (SnapInvalid ''object''))
          (snapshot_fields (length input))))"

subsection \<open>What an accepted snapshot satisfies\<close>

text \<open>
  \<open>snapshot_wf\<close> is the contract the store and the read API rest on: bounded and
  consistently numbered components, content references exactly where the status asks for
  them, mappings into the snapshot's own components, and the agreement of the completeness
  flag, the reasons and the capture mode.
\<close>

definition measurement_wf :: "measurement \<Rightarrow> bool" where
  "measurement_wf m \<longleftrightarrow>
     m_metric m \<in> set metric_names \<and> m_source m \<in> set source_names \<and> m_scope m \<in> set scope_names
     \<and> (m_source m = ''unavailable'' \<longleftrightarrow> m_value m = None)
     \<and> (m_value m = None \<longrightarrow> m_measurement_revision m = None \<and> m_provider_turn_ref m = None)
     \<and> (m_source m \<in> {''heuristic'', ''local_tokenizer''} \<longrightarrow> m_measurement_revision m \<noteq> None)
     \<and> (m_source m = ''provider_reported'' \<longrightarrow> m_provider_turn_ref m \<noteq> None)
     \<and> (\<forall>n. m_value m = Some n \<longrightarrow> n \<le> MAX_SAFE_INTEGER)"

definition component_wf :: "component \<Rightarrow> bool" where
  "component_wf c \<longleftrightarrow>
     is_identifier (c_component_id c) \<and> c_kind c \<in> set kind_names \<and> c_origin c \<in> set origin_names
     \<and> (\<forall>r. c_role c = Some r \<longrightarrow> r \<in> set role_names)
     \<and> c_observed_bytes c \<le> MAX_SAFE_INTEGER
     \<and> (if content_required (c_content_status c)
        then c_content_ref c \<noteq> None \<and> c_sha256 c \<noteq> None
        else c_content_ref c = None \<and> c_sha256 c = None)
     \<and> (\<forall>r. c_content_ref c = Some r \<longrightarrow> is_identifier r)
     \<and> (\<forall>d. c_sha256 c = Some d \<longrightarrow> digest_text d)
     \<and> measurement_wf (c_measurement c)"

definition components_wf :: "component list \<Rightarrow> bool" where
  "components_wf cs \<longleftrightarrow>
     cs \<noteq> [] \<and> length cs \<le> MAX_COMPONENTS \<and> (\<forall>c\<in>set cs. component_wf c)
     \<and> distinct (map c_component_id cs)
     \<and> (\<forall>i<length cs. c_ordinal (cs ! i) = of_nat i)"

definition mapping_wf :: "component list \<Rightarrow> mapping_entry \<Rightarrow> bool" where
  "mapping_wf cs e \<longleftrightarrow>
     is_identifier (mp_upstream_field e) \<and> mp_transformation e \<in> set transformation_names
     \<and> distinct (mp_component_ids e)
     \<and> set (mp_component_ids e) \<subseteq> c_component_id ` set cs"

definition snapshot_wf :: "snapshot \<Rightarrow> bool" where
  "snapshot_wf s \<longleftrightarrow>
     (let p = sn_projection s; cs = sn_components s
      in is_identifier (sp_snapshot_id p) \<and> sp_boundary p \<in> set boundary_names
       \<and> components_wf cs \<and> sp_component_count p = length cs
       \<and> length (sn_mapping s) \<le> MAX_MAPPINGS \<and> (\<forall>e\<in>set (sn_mapping s). mapping_wf cs e)
       \<and> measurement_wf (sp_input_measurement p)
       \<and> distinct (sp_incomplete_reasons p) \<and> set (sp_incomplete_reasons p) \<subseteq> set reason_names
       \<and> (sp_application_capture_complete p \<longleftrightarrow> sp_incomplete_reasons p = [])
       \<and> (sp_application_capture_complete p \<longrightarrow> (\<forall>c\<in>set cs. c_content_status c = Complete))
       \<and> (sp_capture_mode p = Metadata \<longrightarrow>
            (\<forall>c\<in>set cs. c_content_ref c = None \<and> c_sha256 c = None))
       \<and> (sp_application_capture_complete p \<and> sp_boundary p = ''adapter.cli_input'' \<longrightarrow>
            {''stdin'', ''output_schema'', ''configuration''} \<subseteq> c_kind ` set cs))"

lemma optional_string_InrD:
  "optional_string o' name m = Inr (Some s) \<Longrightarrow> bounded_text s m"
  by (auto simp: optional_string_def result_simps split: if_splits)

lemma digest_field_InrD: "digest_field o' name = Inr (Some s) \<Longrightarrow> digest_text s"
  by (auto simp: digest_field_def result_simps split: if_splits)

lemma measurement_value_InrD: "measurement_value v = Inr (Some n) \<Longrightarrow> n \<le> MAX_SAFE_INTEGER"
  by (auto simp: measurement_value_def result_simps split: if_splits)

lemma unavailable_rules:
  assumes "\<not> (u \<and> (v \<noteq> None \<or> r \<noteq> None \<or> t \<noteq> None))" and "\<not> (\<not> u \<and> v = None)"
  shows "u \<longleftrightarrow> v = None" "v = None \<longrightarrow> r = None \<and> t = None"
  using assms by blast+

lemma present_rule: "\<not> (b \<and> r = None) \<Longrightarrow> b \<longrightarrow> r \<noteq> None"
  by simp

lemma read_measurement_wf: "read_measurement o' = Inr m \<Longrightarrow> measurement_wf m"
  unfolding read_measurement_def measurement_wf_def
  apply (elim and_then_InrE)
  apply (simp only: ensure_Inr_iff sum.inject)
  apply hypsubst
  apply (simp only: measurement.simps simp_thms)
  apply (intro conjI)
  apply (erule (1) unavailable_rules)
  apply (erule (1) unavailable_rules)
  apply (erule present_rule)
  apply (erule present_rule)
  apply (intro allI impI, hypsubst, erule measurement_value_InrD)
  done

lemma required_or_forbidden: "content_forbidden st \<longleftrightarrow> \<not> content_required st"
  by (cases st) (simp_all add: content_forbidden_def content_required_def)

lemma read_component_wf:
  assumes "read_component o' = Inr c" "\<not> component_refused result c"
  shows "component_wf c"
  using assms unfolding read_component_def component_wf_def component_refused_def
  apply (elim and_then_InrE)
  apply (simp only: ensure_Inr_iff sum.inject access_simps)
  apply (drule sym [of "_ :: component"])
  apply (simp only: component.simps required_or_forbidden Let_def)
  apply (intro conjI)
  apply ((auto dest: optional_id_InrD digest_field_InrD read_measurement_wf split: option.splits)[1])+
  done

lemma components_loop_inv:
  assumes "components_loop result vs = Inr cs"
    and "\<forall>c\<in>set result. component_wf c" "distinct (map c_component_id result)"
  shows "(\<forall>c\<in>set cs. component_wf c) \<and> distinct (map c_component_id cs)
    \<and> length cs = length result + length vs"
  using assms
proof (induction result vs rule: components_loop.induct)
  case (2 result item remaining)
  then obtain o' c where c: "read_component o' = Inr c" "\<not> component_refused result c"
    and l: "components_loop (result @ [c]) remaining = Inr cs"
    by (auto simp: result_simps split: if_splits)
  have "c_component_id c \<notin> c_component_id ` set result"
    using c(2) by (auto simp: component_refused_def list_ex_iff)
  with "2.IH" [OF c(2) l] "2.prems" read_component_wf [OF c] show ?case by auto
qed simp

lemma read_components_wf: "read_components v = Inr cs \<Longrightarrow> components_wf cs"
  unfolding read_components_def components_wf_def
  by (auto simp: result_simps list_ex_iff in_set_enumerate_eq split: if_splits
      dest!: components_loop_inv)

lemma reasons_loop_inv:
  "reasons_loop result vs = Inr rs \<Longrightarrow> distinct result \<Longrightarrow> set result \<subseteq> set reason_names \<Longrightarrow>
   distinct rs \<and> set rs \<subseteq> set reason_names"
  by (induction result vs rule: reasons_loop.induct)
     (auto simp: result_simps simp del: ok_or_Inr_iff split: if_splits)

lemma read_reasons_wf: "read_reasons v = Inr rs \<Longrightarrow> distinct rs \<and> set rs \<subseteq> set reason_names"
  by (auto simp: read_reasons_def result_simps split: if_splits dest: reasons_loop_inv)

lemma mapping_ids_loop_inv:
  "mapping_ids_loop ids vs = Inr rs \<Longrightarrow> distinct ids \<Longrightarrow> distinct rs"
  by (induction ids vs rule: mapping_ids_loop.induct)
     (auto simp: result_simps simp del: ok_or_Inr_iff split: if_splits)

lemma read_mapping_wf:
  assumes "read_mapping item = Inr e" "set (mp_component_ids e) \<subseteq> c_component_id ` set cs"
  shows "mapping_wf cs e"
  using assms unfolding read_mapping_def mapping_wf_def
  by (auto simp: result_simps access_simps dest: mapping_ids_loop_inv)

lemma read_mappings_wf:
  assumes "read_mappings v = Inr ms" "\<not> mapping_dangling ms cs"
  shows "length ms \<le> MAX_MAPPINGS \<and> (\<forall>e\<in>set ms. mapping_wf cs e)"
proof -
  from assms(1) obtain vs where vs: "list_all2 (\<lambda>x y. read_mapping x = Inr y) vs ms"
    "length vs \<le> MAX_MAPPINGS"
    by (auto simp: read_mappings_def result_simps collect_results_Inr_iff split: if_splits)
  have "mapping_wf cs e" if "e \<in> set ms" for e
  proof -
    from vs(1) that obtain x where "read_mapping x = Inr e"
      by (auto simp: list_all2_conv_all_nth in_set_conv_nth)
    moreover have "set (mp_component_ids e) \<subseteq> c_component_id ` set cs"
      using assms(2) that by (force simp: mapping_dangling_def list_ex_iff)
    ultimately show ?thesis by (rule read_mapping_wf)
  qed
  with vs show ?thesis by (auto dest: list_all2_lengthD)
qed

lemma snapshot_checks_Inr_iff:
  "snapshot_checks complete reasons cs mode boundary = Inr u \<longleftrightarrow>
     (complete \<longrightarrow> reasons = [] \<and> (\<forall>c\<in>set cs. c_content_status c = Complete)) \<and>
     (\<not> complete \<longrightarrow> reasons \<noteq> []) \<and>
     (mode = Metadata \<longrightarrow> (\<forall>c\<in>set cs. c_content_ref c = None \<and> c_sha256 c = None
        \<and> \<not> content_required (c_content_status c))) \<and>
     (complete \<and> boundary = ''adapter.cli_input'' \<longrightarrow>
        {''stdin'', ''output_schema'', ''configuration''} \<subseteq> c_kind ` set cs)"
proof -
  have k: "has_kind cs k \<longleftrightarrow> k \<in> c_kind ` set cs" for k
    by (auto simp: has_kind_def list_ex_iff)
  show ?thesis unfolding snapshot_checks_def
    by (simp add: result_simps list_ex_iff k) blast
qed

lemma snapshot_fields_wf:
  "snapshot_fields n root = Inr s \<Longrightarrow> snapshot_wf s \<and> sn_raw_len s = n"
  unfolding snapshot_fields_def snapshot_wf_def
  apply (elim and_then_InrE)
  apply (simp only: ensure_Inr_iff sum.inject snapshot_checks_Inr_iff id_field_Inr_iff)
  apply hypsubst
  apply (drule read_components_wf, drule read_measurement_wf, drule read_reasons_wf,
      drule (1) read_mappings_wf)
  apply (simp only: snapshot.simps projection.simps Let_def)
  apply (elim conjE)
  apply (intro conjI; (assumption | simp only: simp_thms | blast))
  done

lemma snapshot_parse_wf:
  assumes "snapshot_parse input = Inr s"
  shows "snapshot_wf s \<and> sn_raw_len s = length input \<and> length input \<le> MAX_SNAPSHOT_BYTES"
  using assms by (auto simp: snapshot_parse_def result_simps split: if_splits
      dest: snapshot_fields_wf)

end
