(* ===== verification/Event_Reader.thy ===== *)
theory Event_Reader
  imports Snapshot_Reader
begin

text \<open>
  The capture event reader of \<open>context-reader/src/event\<close>: one event, the details each
  event type requires, and the newline separated journal. Field prefixes: \<open>d_\<close> details,
  \<open>ev_\<close> capture event.
\<close>

datatype event_type =
  SnapshotPrepared | InputWriteCompleted | InputWriteFailed | ProviderReceiptReported
  | UsageReported | DecisionReference | ActionReference | ContentExpired | CaptureGap
  | AttemptInterrupted

fun event_type_as_str :: "event_type \<Rightarrow> string" where
  "event_type_as_str SnapshotPrepared = ''snapshot.prepared''"
| "event_type_as_str InputWriteCompleted = ''input.write_completed''"
| "event_type_as_str InputWriteFailed = ''input.write_failed''"
| "event_type_as_str ProviderReceiptReported = ''provider.receipt_reported''"
| "event_type_as_str UsageReported = ''usage.reported''"
| "event_type_as_str DecisionReference = ''decision.reference''"
| "event_type_as_str ActionReference = ''action.reference''"
| "event_type_as_str ContentExpired = ''content.expired''"
| "event_type_as_str CaptureGap = ''capture.gap''"
| "event_type_as_str AttemptInterrupted = ''attempt.interrupted''"

record event_details =
  d_code :: "string option"
  d_component_id :: "string option"
  d_provider_request_ref :: "string option"
  d_model_execution_id :: "string option"
  d_action_id :: "string option"
  d_plan_id :: "string option"
  d_usage :: "measurement option"
  d_dropped_entries :: "u64 option"

record capture_event =
  ev_event_id :: string
  ev_producer_id :: string
  ev_sequence :: u64
  ev_snapshot_id :: "string option"
  ev_provider_attempt_id :: "string option"
  ev_observed_at :: string
  ev_event_type :: event_type
  ev_details :: event_details

datatype event_error = EventEmpty | EventTooLarge | EventJson | EventInvalid string

definition MAX_EVENT_BYTES :: nat where "MAX_EVENT_BYTES = 65536"
definition MAX_EVENT_LINES :: nat where "MAX_EVENT_LINES = 256"

definition read_event_type :: "string \<Rightarrow> event_error + event_type" where
  "read_event_type value =
     (if value = ''snapshot.prepared'' then Inr SnapshotPrepared
      else if value = ''input.write_completed'' then Inr InputWriteCompleted
      else if value = ''input.write_failed'' then Inr InputWriteFailed
      else if value = ''provider.receipt_reported'' then Inr ProviderReceiptReported
      else if value = ''usage.reported'' then Inr UsageReported
      else if value = ''decision.reference'' then Inr DecisionReference
      else if value = ''action.reference'' then Inr ActionReference
      else if value = ''content.expired'' then Inr ContentExpired
      else if value = ''capture.gap'' then Inr CaptureGap
      else if value = ''attempt.interrupted'' then Inr AttemptInterrupted
      else Inl (EventInvalid ''event_type''))"

subsection \<open>Details\<close>

text \<open>
  A number field of the details: the source matches \<open>Null\<close>, a number within
  \<open>MAX_SAFE_INTEGER\<close>, and everything else as the error of that field.
\<close>

definition safe_number :: "string \<Rightarrow> json \<Rightarrow> event_error + u64 option" where
  "safe_number name v =
     (case v of
        JNull \<Rightarrow> Inr None
      | JNumber n \<Rightarrow> if n \<le> MAX_SAFE_INTEGER then Inr (Some n) else Inl (EventInvalid name)
      | _ \<Rightarrow> Inl (EventInvalid name))"

definition event_measurement :: "json_object \<Rightarrow> event_error + measurement" where
  "event_measurement o' =
     and_then (keys EventInvalid o' measurement_keys) (\<lambda>_.
     and_then (bounded EventInvalid o' ''metric'' 64) (\<lambda>metric.
     and_then (ensure (metric \<in> set metric_names) (EventInvalid ''usage.metric'')) (\<lambda>_.
     and_then (bounded EventInvalid o' ''source'' 64) (\<lambda>source.
     and_then (ensure (source \<in> set source_names) (EventInvalid ''usage.source'')) (\<lambda>_.
     and_then (val EventInvalid o' ''value'') (\<lambda>v.
     and_then (safe_number ''usage.value'' v) (\<lambda>value.
     and_then (optional_id EventInvalid o' ''measurement_revision'') (\<lambda>revision.
     and_then (optional_id EventInvalid o' ''provider_turn_ref'') (\<lambda>turn_ref.
     and_then (ensure (\<not> (source = ''unavailable'' \<and>
         (value \<noteq> None \<or> revision \<noteq> None \<or> turn_ref \<noteq> None)))
       (EventInvalid ''usage.unavailable'')) (\<lambda>_.
     and_then (ensure (\<not> (source \<noteq> ''unavailable'' \<and> value = None))
       (EventInvalid ''usage.value'')) (\<lambda>_.
     and_then (ensure (\<not> (source \<in> {''heuristic'', ''local_tokenizer''} \<and> revision = None))
       (EventInvalid ''usage.measurement_revision'')) (\<lambda>_.
     and_then (ensure (\<not> (source = ''provider_reported'' \<and> turn_ref = None))
       (EventInvalid ''usage.provider_turn_ref'')) (\<lambda>_.
     and_then (bounded EventInvalid o' ''scope'' 64) (\<lambda>scope.
     and_then (ensure (scope \<in> set scope_names) (EventInvalid ''usage.scope'')) (\<lambda>_.
     Inr \<lparr>m_metric = metric, m_value = value, m_source = source, m_scope = scope,
          m_measurement_revision = revision, m_provider_turn_ref = turn_ref\<rparr>)))))))))))))))"

definition detail_keys :: "string list" where
  "detail_keys = [''code'', ''component_id'', ''provider_request_ref'', ''model_execution_id'',
     ''action_id'', ''plan_id'', ''usage'', ''dropped_entries'']"

definition usage_field :: "json_object \<Rightarrow> event_error + measurement option" where
  "usage_field o' =
     (case field o' ''usage'' of
        Some (JObject _) \<Rightarrow>
          and_then (obj EventInvalid o' ''usage'') (\<lambda>uo.
          and_then (event_measurement uo) (\<lambda>m. Inr (Some m)))
      | Some JNull \<Rightarrow> Inr None
      | None \<Rightarrow> Inr None
      | Some _ \<Rightarrow> Inl (EventInvalid ''details.usage''))"

definition dropped_field :: "json_object \<Rightarrow> event_error + u64 option" where
  "dropped_field o' =
     (case field o' ''dropped_entries'' of
        None \<Rightarrow> Inr None
      | Some v \<Rightarrow> safe_number ''details.dropped_entries'' v)"

definition read_details :: "json_object \<Rightarrow> event_error + event_details" where
  "read_details o' =
     (if length o' > 8 then Inl (EventInvalid ''details'')
      else if list_ex (\<lambda>(key, _). key \<notin> set detail_keys) o' then Inl (EventInvalid ''details'')
      else
        and_then (optional_id EventInvalid o' ''code'') (\<lambda>code.
        and_then (optional_id EventInvalid o' ''component_id'') (\<lambda>component_id.
        and_then (optional_id EventInvalid o' ''provider_request_ref'') (\<lambda>request_ref.
        and_then (optional_id EventInvalid o' ''model_execution_id'') (\<lambda>execution_id.
        and_then (optional_id EventInvalid o' ''action_id'') (\<lambda>action_id.
        and_then (optional_id EventInvalid o' ''plan_id'') (\<lambda>plan_id.
        and_then (usage_field o') (\<lambda>usage.
        and_then (dropped_field o') (\<lambda>dropped.
        Inr \<lparr>d_code = code, d_component_id = component_id, d_provider_request_ref = request_ref,
             d_model_execution_id = execution_id, d_action_id = action_id, d_plan_id = plan_id,
             d_usage = usage, d_dropped_entries = dropped\<rparr>)))))))))"

definition validate_details :: "event_type \<Rightarrow> event_details \<Rightarrow> event_error + unit" where
  "validate_details t d =
     (if t = ProviderReceiptReported \<and> d_provider_request_ref d = None
      then Inl (EventInvalid ''details.provider_request_ref'')
      else if t = UsageReported \<and> d_usage d = None then Inl (EventInvalid ''details.usage'')
      else if t = ActionReference \<and> (d_action_id d = None \<or> d_model_execution_id d = None)
      then Inl (EventInvalid ''details.action_reference'')
      else if t = ContentExpired \<and> d_component_id d = None
      then Inl (EventInvalid ''details.component_id'')
      else if t = CaptureGap \<and> (d_code d = None \<or> d_dropped_entries d = None)
      then Inl (EventInvalid ''details.capture_gap'')
      else if t = InputWriteFailed \<and> d_code d = None then Inl (EventInvalid ''details.code'')
      else Inr ())"

subsection \<open>One event and the journal\<close>

definition event_keys :: "string list" where
  "event_keys = [''schema'', ''event_id'', ''producer_id'', ''sequence'', ''snapshot_id'',
     ''provider_attempt_id'', ''observed_at'', ''event_type'', ''details'']"

definition event_fields :: "json_object \<Rightarrow> event_error + capture_event" where
  "event_fields root =
     and_then (keys EventInvalid root event_keys) (\<lambda>_.
     and_then (strv EventInvalid root ''schema'') (\<lambda>schema.
     and_then (ensure (schema = ''ascension.context-event.v1'') (EventInvalid ''schema'')) (\<lambda>_.
     and_then (strv EventInvalid root ''event_type'') (\<lambda>type_name.
     and_then (read_event_type type_name) (\<lambda>t.
     and_then (obj EventInvalid root ''details'') (\<lambda>dobj.
     and_then (read_details dobj) (\<lambda>details.
     and_then (bounded EventInvalid root ''observed_at'' 128) (\<lambda>observed_at.
     and_then (ensure (is_rfc3339 observed_at) (EventInvalid ''observed_at'')) (\<lambda>_.
     and_then (id_field EventInvalid root ''event_id'') (\<lambda>event_id.
     and_then (id_field EventInvalid root ''producer_id'') (\<lambda>producer_id.
     and_then (number_field EventInvalid root ''sequence'') (\<lambda>seqno.
     and_then (optional_id EventInvalid root ''snapshot_id'') (\<lambda>snapshot_id.
     and_then (optional_id EventInvalid root ''provider_attempt_id'') (\<lambda>attempt_id.
     and_then (validate_details t details) (\<lambda>_.
     Inr \<lparr>ev_event_id = event_id, ev_producer_id = producer_id, ev_sequence = seqno,
          ev_snapshot_id = snapshot_id, ev_provider_attempt_id = attempt_id,
          ev_observed_at = observed_at, ev_event_type = t, ev_details = details\<rparr>)))))))))))))))"

definition parse_event :: "bytes \<Rightarrow> event_error + capture_event" where
  "parse_event input =
     (if input = [] then Inl EventEmpty
      else if length input > MAX_EVENT_BYTES then Inl EventTooLarge
      else and_then (map_err (\<lambda>_. EventJson) (json_parse input)) (\<lambda>parsed.
        and_then (ok_or (as_object parsed) (EventInvalid ''object'')) event_fields))"

text \<open>The two index loops of \<open>trim_ascii_whitespace\<close>, from the front and from the back.\<close>

definition trim_ascii_whitespace :: "bytes \<Rightarrow> bytes" where
  "trim_ascii_whitespace input =
     rev (dropWhile (\<lambda>c. ascii_whitespace (bv c))
       (rev (dropWhile (\<lambda>c. ascii_whitespace (bv c)) input)))"

fun event_lines_loop ::
  "capture_event list \<Rightarrow> bytes list \<Rightarrow> event_error + capture_event list" where
  "event_lines_loop events [] = Inr events"
| "event_lines_loop events (raw # remaining) =
     (let line = trim_ascii_whitespace raw
      in if line = [] then event_lines_loop events remaining
         else if length events \<ge> MAX_EVENT_LINES then Inl EventTooLarge
         else and_then (parse_event line) (\<lambda>e. event_lines_loop (events @ [e]) remaining))"

definition parse_event_lines :: "bytes \<Rightarrow> event_error + capture_event list" where
  "parse_event_lines input =
     (if length input > MAX_EVENT_BYTES * MAX_EVENT_LINES then Inl EventTooLarge
      else event_lines_loop [] (split_on (CHR 0x0A) input))"

subsection \<open>What an accepted event satisfies\<close>

lemma event_type_as_str_inverse [simp]: "read_event_type (event_type_as_str t) = Inr t"
  by (cases t) (simp_all add: read_event_type_def)

lemma read_event_type_Inr: "read_event_type s = Inr t \<Longrightarrow> s = event_type_as_str t"
  by (auto simp: read_event_type_def split: if_splits)

text \<open>Which details the type of an event requires.\<close>

definition details_for :: "event_type \<Rightarrow> event_details \<Rightarrow> bool" where
  "details_for t d \<longleftrightarrow>
     (case t of
        ProviderReceiptReported \<Rightarrow> d_provider_request_ref d \<noteq> None
      | UsageReported \<Rightarrow> d_usage d \<noteq> None
      | ActionReference \<Rightarrow> d_action_id d \<noteq> None \<and> d_model_execution_id d \<noteq> None
      | ContentExpired \<Rightarrow> d_component_id d \<noteq> None
      | CaptureGap \<Rightarrow> d_code d \<noteq> None \<and> d_dropped_entries d \<noteq> None
      | InputWriteFailed \<Rightarrow> d_code d \<noteq> None
      | _ \<Rightarrow> True)"

lemma validate_details_iff: "validate_details t d = Inr u \<longleftrightarrow> details_for t d"
  by (cases t) (auto simp: validate_details_def details_for_def)

definition details_wf :: "event_details \<Rightarrow> bool" where
  "details_wf d \<longleftrightarrow>
     (\<forall>s\<in>set [d_code d, d_component_id d, d_provider_request_ref d, d_model_execution_id d,
         d_action_id d, d_plan_id d]. \<forall>x. s = Some x \<longrightarrow> is_identifier x)
     \<and> (\<forall>m. d_usage d = Some m \<longrightarrow> measurement_wf m)
     \<and> (\<forall>n. d_dropped_entries d = Some n \<longrightarrow> n \<le> MAX_SAFE_INTEGER)"

definition event_wf :: "capture_event \<Rightarrow> bool" where
  "event_wf e \<longleftrightarrow>
     is_identifier (ev_event_id e) \<and> is_identifier (ev_producer_id e)
     \<and> ev_sequence e \<le> MAX_SAFE_INTEGER
     \<and> (\<forall>x. ev_snapshot_id e = Some x \<longrightarrow> is_identifier x)
     \<and> (\<forall>x. ev_provider_attempt_id e = Some x \<longrightarrow> is_identifier x)
     \<and> is_rfc3339 (ev_observed_at e) \<and> length (ev_observed_at e) \<le> 128
     \<and> details_wf (ev_details e) \<and> details_for (ev_event_type e) (ev_details e)"

lemma safe_number_InrD: "safe_number name v = Inr (Some n) \<Longrightarrow> n \<le> MAX_SAFE_INTEGER"
  by (auto simp: safe_number_def split: json.splits if_splits)

lemma event_measurement_wf: "event_measurement o' = Inr m \<Longrightarrow> measurement_wf m"
  unfolding event_measurement_def measurement_wf_def
  apply (elim and_then_InrE)
  apply (simp only: ensure_Inr_iff sum.inject)
  apply hypsubst
  apply (simp only: measurement.simps simp_thms)
  apply (intro conjI)
  apply (erule (1) unavailable_rules)
  apply (erule (1) unavailable_rules)
  apply (erule present_rule)
  apply (erule present_rule)
  apply (intro allI impI, hypsubst, erule safe_number_InrD)
  done

lemma usage_field_InrD: "usage_field o' = Inr (Some m) \<Longrightarrow> measurement_wf m"
  by (auto simp: usage_field_def result_simps event_measurement_wf
      split: option.splits json.splits)

lemma dropped_field_InrD: "dropped_field o' = Inr (Some n) \<Longrightarrow> n \<le> MAX_SAFE_INTEGER"
  by (auto simp: dropped_field_def safe_number_InrD split: option.splits)

lemma read_details_wf: "read_details o' = Inr d \<Longrightarrow> details_wf d"
  unfolding read_details_def details_wf_def
  apply (simp split: if_splits)
  apply (elim and_then_InrE)
  apply (simp only: sum.inject)
  apply (drule sym [of "_ :: event_details"])
  apply (auto dest: optional_id_InrD usage_field_InrD dropped_field_InrD)
  done

lemma number_field_InrD: "number_field bad o' name = Inr n \<Longrightarrow> n \<le> MAX_SAFE_INTEGER"
  by (auto simp: number_field_def result_simps split: if_splits)

lemma event_fields_wf: "event_fields root = Inr e \<Longrightarrow> event_wf e"
  unfolding event_fields_def event_wf_def
  apply (elim and_then_InrE)
  apply (simp only: ensure_Inr_iff sum.inject id_field_Inr_iff bounded_Inr_iff
      validate_details_iff bounded_text_def)
  apply (drule sym [of "_ :: capture_event"])
  apply (auto simp: read_details_wf number_field_InrD dest: optional_id_InrD)
  done

lemma parse_event_wf: "parse_event input = Inr e \<Longrightarrow> event_wf e"
  by (auto simp: parse_event_def result_simps event_fields_wf split: if_splits)

lemma event_lines_loop_inv:
  "event_lines_loop events ls = Inr es \<Longrightarrow> \<forall>e\<in>set events. event_wf e \<Longrightarrow>
   length events \<le> MAX_EVENT_LINES \<Longrightarrow>
   (\<forall>e\<in>set es. event_wf e) \<and> length es \<le> MAX_EVENT_LINES
   \<and> (\<exists>new. es = events @ new \<and>
        list_all2 (\<lambda>l e. parse_event l = Inr e)
          (filter (\<lambda>l. l \<noteq> []) (map trim_ascii_whitespace ls)) new)"
proof (induction events ls rule: event_lines_loop.induct)
  case (2 events raw remaining)
  show ?case
  proof (cases "trim_ascii_whitespace raw = []")
    case True
    with 2 show ?thesis by (simp add: Let_def)
  next
    case False
    with "2.prems"(1) obtain e where e: "parse_event (trim_ascii_whitespace raw) = Inr e"
      "event_lines_loop (events @ [e]) remaining = Inr es" "length events < MAX_EVENT_LINES"
      by (auto simp: Let_def result_simps split: if_splits)
    with False "2.IH"(2) [OF refl False _ e(2)] "2.prems" parse_event_wf [OF e(1)]
    show ?thesis by (auto simp: Let_def)
  qed
qed simp

end
