(* ===== verification/Association_Reader.thy ===== *)
theory Association_Reader
  imports Snapshot_Reader
begin

text \<open>
  The reader of the harness-owned workflow association
  (\<open>context-reader/src/association.rs\<close>). Field prefixes: \<open>wf_\<close> workflow identity,
  \<open>cb_\<close> context binding, \<open>ce_\<close> capture evidence, \<open>ic_\<close> inspection capabilities,
  \<open>wa_\<close> the association.
\<close>

datatype association_error = AssocEmpty | AssocTooLarge | AssocInvalid string

record workflow_identity =
  wf_workflow_run_id :: string
  wf_definition_digest :: string
  wf_graph_id :: string
  wf_node_id :: string
  wf_node_execution_id :: string

record context_binding =
  cb_availability :: string
  cb_context_ref :: "string option"
  cb_run_id :: "string option"
  cb_episode_id :: "string option"
  cb_agent_id :: "string option"
  cb_snapshot_id :: "string option"
  cb_approved_revision_id :: "string option"
  cb_plan_epoch :: "u64 option"
  cb_reason_code :: "string option"

record capture_evidence =
  ce_mode :: string
  ce_state :: string
  ce_attempt_id :: "string option"
  ce_reason_code :: "string option"

record inspection_capabilities =
  ic_inspect_metadata :: bool
  ic_read_retained_content :: bool
  ic_edit_context :: bool
  ic_control_context :: bool
  ic_memory_search :: bool
  ic_provider_session_inspect :: bool

record workflow_context_association =
  wa_workflow :: workflow_identity
  wa_context :: context_binding
  wa_capture :: capture_evidence
  wa_capabilities :: inspection_capabilities

subsection \<open>Field readers\<close>

definition read_boolean :: "json_object \<Rightarrow> string \<Rightarrow> association_error + bool" where
  "read_boolean value name =
     and_then (val AssocInvalid value name) (\<lambda>v. ok_or (as_boolean v) (AssocInvalid name))"

definition optional_bounded ::
  "json_object \<Rightarrow> string \<Rightarrow> nat \<Rightarrow> association_error + string option" where
  "optional_bounded value name limit =
     (case field value name of
        None \<Rightarrow> Inr None
      | Some (JString t) \<Rightarrow>
          if bounded_text t limit then Inr (Some t) else Inl (AssocInvalid name)
      | Some _ \<Rightarrow> Inl (AssocInvalid name))"

definition required_with_optional ::
  "json_object \<Rightarrow> string list \<Rightarrow> string list \<Rightarrow> association_error + unit" where
  "required_with_optional value required optional =
     (if list_ex (\<lambda>name. field value name = None) required
       \<or> list_ex (\<lambda>(name, _). name \<notin> set required \<and> name \<notin> set optional) value
      then Inl (AssocInvalid ''unknown or missing field'') else Inr ())"

subsection \<open>The four sections\<close>

definition read_workflow :: "json_object \<Rightarrow> association_error + workflow_identity" where
  "read_workflow value =
     and_then (keys AssocInvalid value
       [''workflow_run_id'', ''definition_digest'', ''graph_id'', ''node_id'',
        ''node_execution_id'']) (\<lambda>_.
     and_then (bounded AssocInvalid value ''definition_digest'' 64) (\<lambda>digest.
     and_then (ensure (digest_text digest) (AssocInvalid ''definition_digest'')) (\<lambda>_.
     and_then (id_field AssocInvalid value ''workflow_run_id'') (\<lambda>run.
     and_then (id_field AssocInvalid value ''graph_id'') (\<lambda>graph.
     and_then (id_field AssocInvalid value ''node_id'') (\<lambda>node.
     and_then (id_field AssocInvalid value ''node_execution_id'') (\<lambda>execution.
     Inr \<lparr>wf_workflow_run_id = run, wf_definition_digest = digest, wf_graph_id = graph,
          wf_node_id = node, wf_node_execution_id = execution\<rparr>)))))))"

definition binding_identifiers :: "context_binding \<Rightarrow> string option list" where
  "binding_identifiers b =
     [cb_context_ref b, cb_run_id b, cb_episode_id b, cb_agent_id b, cb_snapshot_id b,
      cb_approved_revision_id b]"

definition check_binding :: "context_binding \<Rightarrow> association_error + context_binding" where
  "check_binding b =
     (if cb_availability b = ''available'' then
        (if list_ex (\<lambda>i. i = None) (binding_identifiers b)
           \<or> (case cb_plan_epoch b of Some n \<Rightarrow> n | None \<Rightarrow> 0) = 0
         then Inl (AssocInvalid ''available_context_binding'') else Inr b)
      else if list_ex (\<lambda>i. i \<noteq> None) (binding_identifiers b) \<or> cb_plan_epoch b \<noteq> None
      then Inl (AssocInvalid ''unavailable_context_binding'') else Inr b)"

definition read_context :: "json_object \<Rightarrow> association_error + context_binding" where
  "read_context value =
     and_then (required_with_optional value
       [''availability'', ''context_ref'', ''run_id'', ''episode_id'', ''agent_id'',
        ''snapshot_id'', ''approved_revision_id'', ''plan_epoch''] [''reason_code'']) (\<lambda>_.
     and_then (strv AssocInvalid value ''availability'') (\<lambda>availability.
     and_then (ensure (availability \<in> {''available'', ''unavailable'', ''not_applicable''})
       (AssocInvalid ''availability'')) (\<lambda>_.
     and_then (optional_id AssocInvalid value ''context_ref'') (\<lambda>context_ref.
     and_then (optional_id AssocInvalid value ''run_id'') (\<lambda>run_id.
     and_then (optional_id AssocInvalid value ''episode_id'') (\<lambda>episode_id.
     and_then (optional_id AssocInvalid value ''agent_id'') (\<lambda>agent_id.
     and_then (optional_id AssocInvalid value ''snapshot_id'') (\<lambda>snapshot_id.
     and_then (optional_id AssocInvalid value ''approved_revision_id'') (\<lambda>revision_id.
     and_then (optional_number AssocInvalid value ''plan_epoch'') (\<lambda>plan_epoch.
     and_then (optional_bounded value ''reason_code'' 128) (\<lambda>reason.
     check_binding
       \<lparr>cb_availability = availability, cb_context_ref = context_ref, cb_run_id = run_id,
        cb_episode_id = episode_id, cb_agent_id = agent_id, cb_snapshot_id = snapshot_id,
        cb_approved_revision_id = revision_id, cb_plan_epoch = plan_epoch,
        cb_reason_code = reason\<rparr>)))))))))))"

definition evidence_modes :: "string list" where
  "evidence_modes = [''off'', ''metadata'', ''memory'', ''private'', ''unavailable'']"

definition evidence_states :: "string list" where
  "evidence_states = [''not_captured'', ''prepared'', ''input_write_completed'',
     ''provider_receipt_reported'', ''unknown'', ''unavailable'']"

definition read_capture :: "json_object \<Rightarrow> association_error + capture_evidence" where
  "read_capture value =
     and_then (required_with_optional value [''mode'', ''state'', ''attempt_id'']
       [''reason_code'']) (\<lambda>_.
     and_then (strv AssocInvalid value ''mode'') (\<lambda>mode.
     and_then (strv AssocInvalid value ''state'') (\<lambda>state.
     and_then (ensure (mode \<in> set evidence_modes \<and> state \<in> set evidence_states)
       (AssocInvalid ''capture'')) (\<lambda>_.
     and_then (optional_id AssocInvalid value ''attempt_id'') (\<lambda>attempt.
     and_then (optional_bounded value ''reason_code'' 128) (\<lambda>reason.
     Inr \<lparr>ce_mode = mode, ce_state = state, ce_attempt_id = attempt,
          ce_reason_code = reason\<rparr>))))))"

definition read_capabilities :: "json_object \<Rightarrow> association_error + inspection_capabilities" where
  "read_capabilities value =
     and_then (keys AssocInvalid value
       [''inspect_metadata'', ''read_retained_content'', ''edit_context'', ''control_context'',
        ''memory_search'', ''provider_session_inspect'']) (\<lambda>_.
     and_then (read_boolean value ''inspect_metadata'') (\<lambda>inspect.
     and_then (read_boolean value ''read_retained_content'') (\<lambda>retained.
     and_then (read_boolean value ''edit_context'') (\<lambda>edit.
     and_then (read_boolean value ''control_context'') (\<lambda>control.
     and_then (read_boolean value ''memory_search'') (\<lambda>memory.
     and_then (read_boolean value ''provider_session_inspect'') (\<lambda>session.
     Inr \<lparr>ic_inspect_metadata = inspect, ic_read_retained_content = retained,
          ic_edit_context = edit, ic_control_context = control, ic_memory_search = memory,
          ic_provider_session_inspect = session\<rparr>)))))))"

definition association_fields ::
  "json_object \<Rightarrow> association_error + workflow_context_association" where
  "association_fields root =
     and_then (keys AssocInvalid root
       [''schema_version'', ''workflow'', ''context'', ''capture'', ''capabilities'']) (\<lambda>_.
     and_then (strv AssocInvalid root ''schema_version'') (\<lambda>schema.
     and_then (ensure (schema = ''ascension.workflow-context-association/v1'')
       (AssocInvalid ''schema_version'')) (\<lambda>_.
     and_then (obj AssocInvalid root ''workflow'') (\<lambda>wo.
     and_then (read_workflow wo) (\<lambda>workflow.
     and_then (obj AssocInvalid root ''context'') (\<lambda>co.
     and_then (read_context co) (\<lambda>binding.
     and_then (obj AssocInvalid root ''capture'') (\<lambda>po.
     and_then (read_capture po) (\<lambda>evidence.
     and_then (obj AssocInvalid root ''capabilities'') (\<lambda>io.
     and_then (read_capabilities io) (\<lambda>capabilities.
     Inr \<lparr>wa_workflow = workflow, wa_context = binding, wa_capture = evidence,
          wa_capabilities = capabilities\<rparr>)))))))))))"

definition association_parse :: "bytes \<Rightarrow> association_error + workflow_context_association" where
  "association_parse input =
     (if input = [] then Inl AssocEmpty
      else if length input > MAX_SNAPSHOT_BYTES then Inl AssocTooLarge
      else and_then (map_err (\<lambda>_. AssocInvalid ''json'') (json_parse input)) (\<lambda>root.
        and_then (ok_or (as_object root) (AssocInvalid ''object'')) association_fields))"

subsection \<open>What an accepted association satisfies\<close>

text \<open>
  The binding is all or nothing: an available context names every identity and a positive
  epoch, any other availability names none of them.
\<close>

definition binding_wf :: "context_binding \<Rightarrow> bool" where
  "binding_wf b \<longleftrightarrow>
     cb_availability b \<in> {''available'', ''unavailable'', ''not_applicable''}
     \<and> (\<forall>i\<in>set (binding_identifiers b). (i \<noteq> None) = (cb_availability b = ''available''))
     \<and> (cb_plan_epoch b \<noteq> None \<longleftrightarrow> cb_availability b = ''available'')
     \<and> (\<forall>n. cb_plan_epoch b = Some n \<longrightarrow> 0 < n \<and> n \<le> MAX_SAFE_INTEGER)
     \<and> (\<forall>i\<in>set (binding_identifiers b). \<forall>s. i = Some s \<longrightarrow> is_identifier s)
     \<and> (\<forall>s. cb_reason_code b = Some s \<longrightarrow> bounded_text s 128)"

definition association_wf :: "workflow_context_association \<Rightarrow> bool" where
  "association_wf a \<longleftrightarrow>
     digest_text (wf_definition_digest (wa_workflow a))
     \<and> (\<forall>s\<in>{wf_workflow_run_id (wa_workflow a), wf_graph_id (wa_workflow a),
           wf_node_id (wa_workflow a), wf_node_execution_id (wa_workflow a)}. is_identifier s)
     \<and> binding_wf (wa_context a)
     \<and> ce_mode (wa_capture a) \<in> set evidence_modes
     \<and> ce_state (wa_capture a) \<in> set evidence_states"

lemma optional_bounded_InrD: "optional_bounded o' name m = Inr (Some s) \<Longrightarrow> bounded_text s m"
  by (auto simp: optional_bounded_def split: option.splits json.splits if_splits)

lemma not_None_in: "None \<notin> set xs \<Longrightarrow> i \<in> set xs \<Longrightarrow> \<exists>y. i = Some y"
  by (cases i) auto

lemma check_binding_Inr:
  "check_binding b = Inr b' \<Longrightarrow>
     b' = b
     \<and> (\<forall>i\<in>set (binding_identifiers b). (i \<noteq> None) = (cb_availability b = ''available''))
     \<and> (cb_plan_epoch b \<noteq> None \<longleftrightarrow> cb_availability b = ''available'')
     \<and> (\<forall>n. cb_plan_epoch b = Some n \<longrightarrow> 0 < n)"
  unfolding check_binding_def
  by (cases "cb_availability b = ''available''"; cases "cb_plan_epoch b")
     (auto simp: list_ex_iff word_gt_0 split: if_splits intro: not_None_in)

lemma read_context_wf: "read_context o' = Inr b \<Longrightarrow> binding_wf b"
  unfolding read_context_def
  apply (elim and_then_InrE)
  apply (drule check_binding_Inr)
  apply (elim conjE)
  apply (simp only: ensure_Inr_iff binding_wf_def context_binding.simps binding_identifiers_def)
  apply (intro conjI)
  apply (assumption | rule TrueI)+
  apply blast
  apply (blast dest: optional_number_InrD)
  apply (simp only: list.set ball_simps simp_thms)
  apply (intro conjI allI impI; hypsubst; erule optional_id_InrD)
  apply (intro allI impI, hypsubst, erule optional_bounded_InrD)
  done

lemma association_fields_wf: "association_fields root = Inr a \<Longrightarrow> association_wf a"
  unfolding association_fields_def read_workflow_def read_capture_def association_wf_def
  apply (elim and_then_InrE)
  apply (simp only: ensure_Inr_iff sum.inject id_field_Inr_iff)
  apply (drule sym [of "_ :: workflow_context_association"])
  apply (drule sym [of "_ :: workflow_identity"])
  apply (drule sym [of "_ :: capture_evidence"])
  apply (auto simp: read_context_wf)
  done

lemma association_parse_wf: "association_parse input = Inr a \<Longrightarrow> association_wf a"
  by (auto simp: association_parse_def result_simps association_fields_wf split: if_splits)

end
