(* ===== verification/Json_Roundtrip.thy ===== *)
theory Json_Roundtrip
  imports Json_Parser
begin

text \<open>
  A specification of the documents the parser is meant to read: \<open>json_print\<close> writes a value
  in the compact form the producers use, with the short escapes and \<open>\u00xy\<close> for control
  bytes. The parser reads back every printed value that respects its bounds, so the bounds are
  the only thing it refuses. The last section shows that the sentinel of \<open>hex_value\<close> never
  passes for a digit.
\<close>

definition esc_byte :: "char \<Rightarrow> bytes" where
  "esc_byte c =
     (if c = CHR 0x22 \<or> c = CHR 0x5C then [CHR 0x5C, c]
      else if bv c \<le> 31 then CHR 0x5C # ''u00'' @ hex2 c
      else [c])"

definition quote :: "string \<Rightarrow> bytes" where
  "quote s = CHR 0x22 # concat (map esc_byte s) @ [CHR 0x22]"

fun join_comma :: "bytes list \<Rightarrow> bytes" where
  "join_comma [] = []"
| "join_comma [x] = x"
| "join_comma (x # y # xs) = x @ CHR '','' # join_comma (y # xs)"

fun json_print :: "json \<Rightarrow> bytes" where
  "json_print JNull = ''null''"
| "json_print (JBool b) = (if b then ''true'' else ''false'')"
| "json_print (JNumber n) = dec (unat n)"
| "json_print (JString s) = quote s"
| "json_print (JArray vs) = CHR ''['' # join_comma (map json_print vs) @ '']''"
| "json_print (JObject kvs) =
     CHR ''{'' # join_comma (map (\<lambda>(k, v). quote k @ CHR '':'' # json_print v) kvs) @ ''}''"

subsection \<open>Hex digits\<close>

lemma hex_value_hex_digit: "d < 16 \<Longrightarrow> hex_value (hex_digit d) = of_nat d"
  by (auto simp: hex_value_def hex_digit_def Let_def)

lemma hex_push_small:
  assumes "unat v < 2 ^ 27" "d < 16"
  shows "hex_push v (hex_digit d) = Some (v * 16 + of_nat d)"
proof -
  have "unat (v * 16) = unat v * 16" using assms(1) by (simp add: unat_word_ariths)
  moreover have "unat (of_nat d :: u32) = d" using assms(2) by (simp add: unat_of_nat)
  ultimately show ?thesis using assms by (simp add: hex_push_def hex_value_hex_digit)
qed

lemma hex_digits_byte:
  "hex_digits 4 0 (''00'' @ hex2 c @ r) = Some (of_nat (bv c), r)"
proof -
  have h: "bv c div 16 < 16" by (rule less_mult_imp_div_less) simp
  have z: "hex_push 0 (CHR ''0'') = Some 0" by (simp add: hex_push_def hex_value_def)
  have u: "unat (of_nat (bv c div 16) :: u32) = bv c div 16" using h by (simp add: unat_of_nat)
  have "(of_nat (bv c div 16) * 16 + of_nat (bv c mod 16) :: u32) = of_nat (bv c div 16 * 16 + bv c mod 16)"
    by (simp only: of_nat_add of_nat_mult of_nat_numeral)
  then have s: "(of_nat (bv c div 16) * 16 + of_nat (bv c mod 16) :: u32) = of_nat (bv c)" by simp
  have p1: "hex_push 0 (hex_digit (bv c div 16)) = Some (of_nat (bv c div 16))"
    using hex_push_small [of 0 "bv c div 16"] h by simp
  have p2: "hex_push (of_nat (bv c div 16)) (hex_digit (bv c mod 16)) = Some (of_nat (bv c))"
    using hex_push_small [of "of_nat (bv c div 16)" "bv c mod 16"] h u s by simp
  have four: "(4::nat) = Suc (Suc (Suc (Suc 0)))" by simp
  show ?thesis unfolding four hex2_def by (simp add: p1 p2 z)
qed

lemma escape_control:
  assumes "bv c \<le> 31" "rest p = CHR ''u'' # ''00'' @ hex2 c @ r"
  shows "escape p = Done [c] (p\<lparr>rest := r\<rparr>)"
proof -
  have q: "hex_quad (p\<lparr>rest := ''00'' @ hex2 c @ r\<rparr>) = Done (of_nat (bv c)) (p\<lparr>rest := r\<rparr>)"
    using hex_digits_byte [of c r] by (simp add: hex_quad_def)
  have "bv c < 4294967296" using nat_of_char_less_256 [of c] by linarith
  then have u: "unat (of_nat (bv c) :: u32) = bv c" by (simp add: unat_of_nat)
  have "encode_char (bv c) = [c]" using assms(1) by (simp add: encode_char_def utf8_encode_def)
  then show ?thesis using assms q u by (simp add: escape_def scalar_value_def)
qed

subsection \<open>Strings\<close>

lemma string_loop_quote:
  "length s < n \<Longrightarrow> is_utf8 (acc @ s) \<Longrightarrow> rest p = concat (map esc_byte s) @ CHR 0x22 # r \<Longrightarrow>
   string_loop n acc p = Done (acc @ s) (p\<lparr>rest := r\<rparr>)"
proof (induction s arbitrary: n acc p)
  case Nil
  then obtain m where "n = Suc m" by (cases n) auto
  with Nil show ?case by simp
next
  case (Cons c s)
  then obtain m where n: "n = Suc m" by (cases n) auto
  let ?r = "concat (map esc_byte s) @ CHR 0x22 # r"
  have IH: "string_loop m (acc @ [c]) (p\<lparr>rest := ?r\<rparr>) = Done (acc @ c # s) (p\<lparr>rest := r\<rparr>)"
    using Cons.IH [of m "acc @ [c]" "p\<lparr>rest := ?r\<rparr>"] Cons.prems n by simp
  consider "c = CHR 0x22 \<or> c = CHR 0x5C" | "c \<noteq> CHR 0x22" "c \<noteq> CHR 0x5C" "bv c \<le> 31"
    | "c \<noteq> CHR 0x22" "c \<noteq> CHR 0x5C" "\<not> bv c \<le> 31" by blast
  then show ?case
  proof cases
    case 1
    then have e: "esc_byte c = [CHR 0x5C, c]" by (auto simp: esc_byte_def)
    with 1 Cons.prems(3) have "escape (p\<lparr>rest := c # ?r\<rparr>) = Done [c] (p\<lparr>rest := ?r\<rparr>)"
      by (auto simp: escape_def)
    with e Cons.prems(3) IH n show ?thesis by simp
  next
    case 2
    then have b: "esc_byte c = CHR 0x5C # ''u00'' @ hex2 c" by (simp add: esc_byte_def)
    from 2 have e: "escape (p\<lparr>rest := CHR ''u'' # ''00'' @ hex2 c @ ?r\<rparr>) = Done [c] (p\<lparr>rest := ?r\<rparr>)"
      by (subst escape_control [where r = ?r]) auto
    from b Cons.prems(3) have "rest p = CHR 0x5C # CHR ''u'' # ''00'' @ hex2 c @ ?r" by simp
    with e IH n show ?thesis by simp
  next
    case 3
    then have "esc_byte c = [c]" by (simp add: esc_byte_def)
    with 3 Cons.prems(3) IH n show ?thesis by simp
  qed
qed

lemma esc_byte_length: "1 \<le> length (esc_byte c)"
  by (simp add: esc_byte_def)

lemma length_quoted: "length s \<le> length (concat (map esc_byte s))"
proof (induction s)
  case (Cons c s)
  then show ?case using esc_byte_length [of c] by simp
qed simp

lemma string_token_quote:
  assumes "is_utf8 s" "rest p = quote s @ r"
  shows "string_token p = Done s (p\<lparr>rest := r\<rparr>)"
proof -
  let ?r = "concat (map esc_byte s) @ CHR 0x22 # r"
  have "string_loop (Suc (length ?r)) [] (p\<lparr>rest := ?r\<rparr>) = Done ([] @ s) (p\<lparr>rest := r\<rparr>)"
    by (subst string_loop_quote [where r = r]) (use assms length_quoted [of s] in auto)
  with assms(2) show ?thesis by (simp add: string_token_def quote_def del: string_loop.simps)
qed

subsection \<open>Numbers\<close>

text \<open>What may follow a number for it to end there.\<close>

definition ends_value :: "bytes \<Rightarrow> bool" where
  "ends_value r \<longleftrightarrow> r = [] \<or> hd r = CHR '','' \<or> hd r = CHR '']'' \<or> hd r = CHR ''}''"

lemma ends_value_simps [simp]:
  "ends_value []" "ends_value (CHR '','' # r)" "ends_value (CHR '']'' # r)" "ends_value (CHR ''}'' # r)"
  by (simp_all add: ends_value_def)

lemma number_dec:
  assumes "rest p = dec (unat k) @ r" "ends_value r"
  shows "number p = Done k (p\<lparr>rest := r\<rparr>)"
proof -
  let ?P = "\<lambda>c. ascii_digit (bv c)"
  have d: "\<forall>c\<in>set (dec (unat k)). ?P c"
    using dec_digits [of "unat k"] by (simp add: all_digits_def list_all_iff)
  have h: "r = [] \<or> \<not> ?P (hd r)" "r = [] \<or> hd r \<notin> set ''.eE-+''"
    using assms(2) by (auto simp: ends_value_def ascii_digit_def)
  have "takeWhile ?P (rest p) = dec (unat k)" "dropWhile ?P (rest p) = r"
    using d h(1) assms(1) by (cases r; auto simp: takeWhile_append dropWhile_append)+
  moreover have "parse_u64 (dec (unat k)) = Some k"
    using parse_u64_dec [of "unat k"] unat_lt_64 [of k] by simp
  ultimately show ?thesis using h(2) by (simp add: number_def)
qed

subsection \<open>Values\<close>

text \<open>\<open>cost v\<close> is a fuel that reads the printed form of \<open>v\<close>.\<close>

fun cost :: "json \<Rightarrow> nat" where
  "cost (JArray vs) = 1 + sum_list (map (\<lambda>v. 1 + cost v) vs)"
| "cost (JObject kvs) = 1 + sum_list (map (\<lambda>(k, v). 1 + cost v) kvs)"
| "cost _ = 1"

definition reads_back :: "json \<Rightarrow> bool" where
  "reads_back v \<longleftrightarrow>
     (\<forall>n p r. cost v \<le> n \<longrightarrow> rest p = json_print v @ r \<longrightarrow> ends_value r \<longrightarrow>
        json_within (MAX_DEPTH - depth p) v \<longrightarrow> depth p \<le> MAX_DEPTH \<longrightarrow>
        items p + json_items v \<le> JSON_MAX_ITEMS \<longrightarrow>
        p_value n p = Done v (p\<lparr>rest := r, items := items p + json_items v\<rparr>))"

lemma dec_hd: "ascii_digit (bv (hd (dec n)))"
  using dec_digits [of n] by (cases "dec n") (auto simp: all_digits_def)

lemma dec_nonspace: "\<not> json_space (hd (dec n)) \<and> hd (dec n) \<noteq> CHR '']'' \<and> hd (dec n) \<noteq> CHR ''}''"
  using dec_hd [of n] by (auto simp: json_space_def ascii_digit_def)

lemma print_nonspace: "json_print v \<noteq> [] \<and> \<not> json_space (hd (json_print v))
    \<and> hd (json_print v) \<noteq> CHR '']'' \<and> hd (json_print v) \<noteq> CHR ''}''"
  by (cases v) (simp_all add: quote_def dec_nonspace, simp_all add: json_space_def)

lemma whitespace_id: "rest p = c # r \<Longrightarrow> \<not> json_space c \<Longrightarrow> whitespace p = p"
  by (simp add: whitespace_def)

lemma whitespace_print:
  assumes "rest p = json_print v @ r"
  shows "whitespace p = p"
proof -
  from print_nonspace [of v] obtain c s where "json_print v = c # s" "\<not> json_space c"
    by (cases "json_print v") auto
  with assms show ?thesis by (auto intro: whitespace_id)
qed

lemma json_space_simps [simp]:
  "\<not> json_space (CHR 0x22)" "\<not> json_space (CHR '','')" "\<not> json_space (CHR '':'')"
  "\<not> json_space (CHR '']'')" "\<not> json_space (CHR ''}'')" "\<not> json_space (CHR ''['')"
  "\<not> json_space (CHR ''{'')"
  by (simp_all add: json_space_def)

lemma reads_back_scalar:
  "reads_back JNull" "reads_back (JBool b)" "is_utf8 s \<Longrightarrow> reads_back (JString s)"
proof -
  have s: "p_value (Suc n) p = Done v (p\<lparr>rest := r\<rparr>)"
    if "rest p = json_print v @ r" "v = JNull \<or> v = JBool b" for n p v r
    using that whitespace_print [OF that(1)] by (auto simp: literal_def)
  then show "reads_back JNull" "reads_back (JBool b)"
    by (auto simp: reads_back_def Suc_le_eq gr0_conv_Suc simp del: p_value.simps json_print.simps)
  assume u: "is_utf8 s"
  have "p_value (Suc n) p = Done (JString s) (p\<lparr>rest := r\<rparr>)" if q: "rest p = quote s @ r" for n p r
  proof -
    have "whitespace p = p" using q by (intro whitespace_id) (auto simp: quote_def)
    moreover obtain t where "rest p = CHR 0x22 # t" using q by (auto simp: quote_def)
    ultimately show ?thesis using string_token_quote [OF u q] by simp
  qed
  then show "reads_back (JString s)"
    by (auto simp: reads_back_def Suc_le_eq gr0_conv_Suc simp del: p_value.simps)
qed

lemma reads_back_number: "reads_back (JNumber k)"
proof -
  have "p_value (Suc n) p = Done (JNumber k) (p\<lparr>rest := r\<rparr>)"
    if "rest p = dec (unat k) @ r" "ends_value r" for n p r
  proof -
    obtain c t where c: "dec (unat k) = c # t" "ascii_digit (bv c)"
      using dec_hd [of "unat k"] by (cases "dec (unat k)") auto
    have "whitespace p = p"
      using that c by (intro whitespace_id) (auto simp: json_space_def ascii_digit_def)
    moreover have "c \<notin> set ''ntf[{'' \<and> c \<noteq> CHR 0x22" using c(2) by (auto simp: ascii_digit_def)
    ultimately show ?thesis using number_dec [OF that] that c by simp
  qed
  then show ?thesis
    by (auto simp: reads_back_def Suc_le_eq gr0_conv_Suc simp del: p_value.simps)
qed

lemma array_close_end:
  "rest p = CHR '']'' # r \<Longrightarrow> array_close n vs p = Done (JArray vs) (leave (p\<lparr>rest := r\<rparr>))"
  by (simp add: array_close_def take_byte_def whitespace_id)

lemma array_close_comma:
  "rest p = CHR '','' # r \<Longrightarrow> array_close n vs p = p_array n vs (p\<lparr>rest := r\<rparr>)"
  by (simp add: array_close_def take_byte_def whitespace_id)

lemma object_close_end:
  "rest p = CHR ''}'' # r \<Longrightarrow> object_close n vs p = Done (JObject vs) (leave (p\<lparr>rest := r\<rparr>))"
  by (simp add: object_close_def take_byte_def whitespace_id)

lemma object_close_comma:
  "rest p = CHR '','' # r \<Longrightarrow> object_close n vs p = p_object n vs (p\<lparr>rest := r\<rparr>)"
  by (simp add: object_close_def take_byte_def whitespace_id)

lemma object_field_colon:
  "rest p = CHR '':'' # r \<Longrightarrow> k \<notin> fst ` set kvs \<Longrightarrow>
   object_field n kvs k p = step_bind (p_value n (p\<lparr>rest := r\<rparr>)) (\<lambda>v. object_close n (kvs @ [(k, v)]))"
  by (force simp: object_field_def take_byte_def whitespace_id list_ex_iff)

lemma p_array_element:
  assumes "reads_back w" "1 + cost w \<le> n" "rest p = json_print w @ r" "ends_value r"
    "json_within (MAX_DEPTH - depth p) w" "depth p \<le> MAX_DEPTH"
    "items p + 1 + json_items w \<le> JSON_MAX_ITEMS"
  shows "p_array n vs p =
    array_close (n - 1) (vs @ [w]) (p\<lparr>rest := r, items := items p + 1 + json_items w\<rparr>)"
proof -
  obtain m where n: "n = Suc m" "cost w \<le> m" using assms(2) by (cases n) auto
  have "p_value m (p\<lparr>items := items p + 1\<rparr>) =
      Done w (p\<lparr>rest := r, items := items p + 1 + json_items w\<rparr>)"
    using assms n(2) unfolding reads_back_def by (auto simp del: p_value.simps)
  then show ?thesis using assms whitespace_print [OF assms(3)]
    by (simp add: n(1) p_array_Suc count_item_def del: p_array.simps p_value.simps)
qed

lemma p_array_print:
  "\<forall>w\<in>set ws. reads_back w \<Longrightarrow> ws \<noteq> [] \<Longrightarrow> sum_list (map (\<lambda>v. 1 + cost v) ws) \<le> n \<Longrightarrow>
   rest p = join_comma (map json_print ws) @ CHR '']'' # r \<Longrightarrow>
   list_all (json_within (MAX_DEPTH - depth p)) ws \<Longrightarrow> depth p \<le> MAX_DEPTH \<Longrightarrow>
   items p + length ws + sum_list (map json_items ws) \<le> JSON_MAX_ITEMS \<Longrightarrow>
   p_array n vs p = Done (JArray (vs @ ws)) (p\<lparr>rest := r, depth := depth p - 1,
     items := items p + length ws + sum_list (map json_items ws)\<rparr>)"
proof (induction ws arbitrary: n vs p)
  case Nil
  then show ?case by simp
next
  case (Cons w ws)
  show ?case
  proof (cases ws)
    case Nil
    have "p_array n vs p = array_close (n - 1) (vs @ [w])
        (p\<lparr>rest := CHR '']'' # r, items := items p + 1 + json_items w\<rparr>)"
      by (rule p_array_element) (use Cons.prems Nil in auto)
    then show ?thesis by (simp add: array_close_end leave_def Nil)
  next
    case (Cons y ys)
    let ?r = "join_comma (map json_print ws) @ CHR '']'' # r"
    have e: "p_array n vs p = array_close (n - 1) (vs @ [w])
        (p\<lparr>rest := CHR '','' # ?r, items := items p + 1 + json_items w\<rparr>)"
      by (rule p_array_element) (use Cons.prems Cons in auto)
    show ?thesis unfolding e
      by (subst array_close_comma [where r = ?r], simp, subst Cons.IH)
         (use Cons.prems Cons in \<open>auto simp: algebra_simps\<close>)
  qed
qed

lemma p_object_entry:
  assumes "reads_back w" "is_utf8 k" "k \<notin> fst ` set kvs" "1 + cost w \<le> n"
    "rest p = quote k @ CHR '':'' # json_print w @ r" "ends_value r"
    "json_within (MAX_DEPTH - depth p) w" "depth p \<le> MAX_DEPTH"
    "items p + 1 + json_items w \<le> JSON_MAX_ITEMS"
  shows "p_object n kvs p =
    object_close (n - 1) (kvs @ [(k, w)]) (p\<lparr>rest := r, items := items p + 1 + json_items w\<rparr>)"
proof -
  obtain m where n: "n = Suc m" "cost w \<le> m" using assms(4) by (cases n) auto
  have ws: "whitespace p = p" using assms(5) by (intro whitespace_id) (auto simp: quote_def)
  have key: "string_token (p\<lparr>items := items p + 1\<rparr>) =
      Done k (p\<lparr>items := items p + 1, rest := CHR '':'' # json_print w @ r\<rparr>)"
    by (rule string_token_quote [OF assms(2)]) (simp add: assms(5))
  have "p_value m (p\<lparr>items := items p + 1, rest := json_print w @ r\<rparr>) =
      Done w (p\<lparr>rest := r, items := items p + 1 + json_items w\<rparr>)"
    using assms n(2) unfolding reads_back_def by (auto simp del: p_value.simps)
  then show ?thesis using assms ws key
    by (simp add: n(1) p_object_Suc count_item_def object_field_colon [where r = "json_print w @ r"]
        del: p_object.simps p_value.simps)
qed

lemma p_object_print:
  "\<forall>(k, w)\<in>set ws. is_utf8 k \<and> reads_back w \<Longrightarrow> ws \<noteq> [] \<Longrightarrow> distinct (map fst (kvs @ ws)) \<Longrightarrow>
   sum_list (map (\<lambda>(k, v). 1 + cost v) ws) \<le> n \<Longrightarrow>
   rest p = join_comma (map (\<lambda>(k, v). quote k @ CHR '':'' # json_print v) ws) @ CHR ''}'' # r \<Longrightarrow>
   list_all (\<lambda>(k, v). json_within (MAX_DEPTH - depth p) v) ws \<Longrightarrow> depth p \<le> MAX_DEPTH \<Longrightarrow>
   items p + length ws + sum_list (map (\<lambda>(k, v). json_items v) ws) \<le> JSON_MAX_ITEMS \<Longrightarrow>
   p_object n kvs p = Done (JObject (kvs @ ws)) (p\<lparr>rest := r, depth := depth p - 1,
     items := items p + length ws + sum_list (map (\<lambda>(k, v). json_items v) ws)\<rparr>)"
proof (induction ws arbitrary: n kvs p)
  case Nil
  then show ?case by simp
next
  case (Cons kw ws)
  obtain k w where kw: "kw = (k, w)" by fastforce
  show ?case
  proof (cases ws)
    case Nil
    have "p_object n kvs p = object_close (n - 1) (kvs @ [(k, w)])
        (p\<lparr>rest := CHR ''}'' # r, items := items p + 1 + json_items w\<rparr>)"
      by (rule p_object_entry) (use Cons.prems Nil kw in auto)
    then show ?thesis by (simp add: object_close_end leave_def Nil kw)
  next
    case (Cons y ys)
    let ?r = "join_comma (map (\<lambda>(k, v). quote k @ CHR '':'' # json_print v) ws) @ CHR ''}'' # r"
    have e: "p_object n kvs p = object_close (n - 1) (kvs @ [(k, w)])
        (p\<lparr>rest := CHR '','' # ?r, items := items p + 1 + json_items w\<rparr>)"
      by (rule p_object_entry) (use Cons.prems Cons kw in auto)
    show ?thesis unfolding e
      by (subst object_close_comma [where r = ?r], simp, subst Cons.IH)
         (use Cons.prems Cons kw in \<open>auto simp: algebra_simps\<close>)
  qed
qed

lemma take_byte_other:
  "rest p = c # r \<Longrightarrow> c \<noteq> d \<Longrightarrow> take_byte d p = (False, p)"
  by (simp add: take_byte_def)

lemma p_value_open_array:
  assumes "rest p = CHR ''['' # t" "depth p < MAX_DEPTH"
  shows "p_value (Suc n) p =
    (let (closed, q1) = take_byte (CHR '']'') (opened p t)
     in if closed then Done (JArray []) (leave q1) else p_array n [] q1)"
  using assms by (simp add: whitespace_id opened_def enter_def Let_def)

lemma p_value_open_object:
  assumes "rest p = CHR ''{'' # t" "depth p < MAX_DEPTH"
  shows "p_value (Suc n) p =
    (let (closed, q1) = take_byte (CHR ''}'') (opened p t)
     in if closed then Done (JObject []) (leave q1) else p_object n [] q1)"
  using assms by (simp add: whitespace_id opened_def enter_def Let_def)

lemma join_comma_hd:
  "w \<noteq> [] \<Longrightarrow> \<exists>t. join_comma (w # ws) @ r = hd w # t"
  by (cases ws; cases w) auto

lemma reads_back_array:
  assumes "\<forall>w\<in>set ws. reads_back w"
  shows "reads_back (JArray ws)"
  unfolding reads_back_def
proof (intro allI impI)
  fix n r and p :: parser
  assume n: "cost (JArray ws) \<le> n" and r: "rest p = json_print (JArray ws) @ r"
    and b: "json_within (MAX_DEPTH - depth p) (JArray ws)" "items p + json_items (JArray ws) \<le> JSON_MAX_ITEMS"
  let ?t = "join_comma (map json_print ws) @ CHR '']'' # r"
  obtain m where m: "n = Suc m" "sum_list (map (\<lambda>v. 1 + cost v) ws) \<le> m"
    using n by (cases n) auto
  note v = p_value_open_array [of p ?t m]
  show "p_value n p = Done (JArray ws) (p\<lparr>rest := r, items := items p + json_items (JArray ws)\<rparr>)"
  proof (cases ws)
    case Nil
    with v r b show ?thesis
      by (simp add: m opened_def whitespace_id take_byte_def leave_def del: p_value.simps)
  next
    case (Cons w us)
    from join_comma_hd [of "json_print w" "map json_print us" "CHR '']'' # r"] print_nonspace [of w]
    obtain s where s: "?t = hd (json_print w) # s" by (auto simp: Cons)
    have o: "opened p ?t = p\<lparr>depth := depth p + 1, rest := ?t\<rparr>"
      unfolding opened_def using s print_nonspace [of w] by (intro whitespace_id) auto
    have "take_byte (CHR '']'') (opened p ?t) = (False, opened p ?t)"
      unfolding o using s print_nonspace [of w] by (intro take_byte_other) auto
    then have "p_value n p = p_array m [] (p\<lparr>depth := depth p + 1, rest := ?t\<rparr>)"
      using v r b by (simp add: m o del: p_value.simps)
    also have "\<dots> = Done (JArray ([] @ ws)) (p\<lparr>rest := r, items := items p + json_items (JArray ws)\<rparr>)"
      by (subst p_array_print [where ws = ws and r = r]) (use assms m b Cons in auto)
    finally show ?thesis by simp
  qed
qed

lemma reads_back_object:
  assumes "\<forall>(k, w)\<in>set ws. is_utf8 k \<and> reads_back w" "distinct (map fst ws)"
  shows "reads_back (JObject ws)"
  unfolding reads_back_def
proof (intro allI impI)
  fix n r and p :: parser
  assume n: "cost (JObject ws) \<le> n" and r: "rest p = json_print (JObject ws) @ r"
    and b: "json_within (MAX_DEPTH - depth p) (JObject ws)" "items p + json_items (JObject ws) \<le> JSON_MAX_ITEMS"
  let ?f = "\<lambda>(k, v). quote k @ CHR '':'' # json_print v"
  let ?t = "join_comma (map ?f ws) @ CHR ''}'' # r"
  obtain m where m: "n = Suc m" "sum_list (map (\<lambda>(k, v). 1 + cost v) ws) \<le> m"
    using n by (cases n) auto
  note v = p_value_open_object [of p ?t m]
  show "p_value n p = Done (JObject ws) (p\<lparr>rest := r, items := items p + json_items (JObject ws)\<rparr>)"
  proof (cases ws)
    case Nil
    with v r b show ?thesis
      by (simp add: m opened_def whitespace_id take_byte_def leave_def del: p_value.simps)
  next
    case (Cons kw us)
    have "hd (?f kw) = CHR 0x22" "?f kw \<noteq> []" by (simp_all add: quote_def split: prod.splits)
    with join_comma_hd [of "?f kw" "map ?f us" "CHR ''}'' # r"]
    obtain s where s: "?t = CHR 0x22 # s" by (auto simp: Cons)
    have o: "opened p ?t = p\<lparr>depth := depth p + 1, rest := ?t\<rparr>"
      unfolding opened_def using s by (intro whitespace_id) auto
    have "take_byte (CHR ''}'') (opened p ?t) = (False, opened p ?t)"
      unfolding o using s by (intro take_byte_other) auto
    then have "p_value n p = p_object m [] (p\<lparr>depth := depth p + 1, rest := ?t\<rparr>)"
      using v r b by (simp add: m o del: p_value.simps)
    also have "\<dots> = Done (JObject ([] @ ws)) (p\<lparr>rest := r, items := items p + json_items (JObject ws)\<rparr>)"
      by (subst p_object_print [where ws = ws and r = r]) (use assms m b Cons in auto)
    finally show ?thesis by simp
  qed
qed

lemma reads_back: "json_wf v \<Longrightarrow> reads_back v"
proof (induction v)
  case (JArray vs)
  then show ?case by (intro reads_back_array) (simp add: list_all_iff)
next
  case (JObject kvs)
  have "\<forall>(k, w)\<in>set kvs. is_utf8 k \<and> reads_back w"
  proof (safe)
    fix k w assume kw: "(k, w) \<in> set kvs"
    with JObject.prems show "is_utf8 k" by (auto simp: list_all_iff)
    from kw JObject.prems have "json_wf w" by (auto simp: list_all_iff)
    with JObject.IH [OF kw] show "reads_back w" by simp
  qed
  with JObject.prems show ?case by (intro reads_back_object) auto
qed (auto simp: reads_back_scalar reads_back_number)

lemma length_join_comma:
  "\<forall>w\<in>set ws. c w \<le> 2 * length (f w) \<Longrightarrow>
   sum_list (map (\<lambda>w. 1 + c w) ws) \<le> 2 * length (join_comma (map f ws)) + 1"
proof (induction ws rule: induct_list012)
  case (3 x y zs)
  then show ?case by simp
qed auto

lemma cost_print: "cost v \<le> 2 * length (json_print v)"
proof (induction v)
  case (JNumber k)
  have "1 \<le> length (dec (unat k))" by (simp add: Suc_le_eq)
  then show ?case by simp
next
  case (JString s)
  then show ?case by (simp add: quote_def)
next
  case (JArray vs)
  then show ?case using length_join_comma [of vs cost json_print] by simp
next
  case (JObject kvs)
  let ?f = "\<lambda>(k, v). quote k @ CHR '':'' # json_print v" and ?c = "\<lambda>(k, v). cost v"
  have "\<forall>w\<in>set kvs. ?c w \<le> 2 * length (?f w)"
  proof (safe)
    fix k v assume "(k, v) \<in> set kvs"
    then show "cost v \<le> 2 * length (quote k @ CHR '':'' # json_print v)"
      using JObject [of "(k, v)" v] by simp
  qed
  from length_join_comma [OF this] show ?case by (simp add: split_def)
qed auto

lemma json_parse_print_within:
  assumes "json_wf v" "json_within MAX_DEPTH v" "json_items v \<le> JSON_MAX_ITEMS"
  shows "json_parse (json_print v) = Inr v"
proof -
  let ?p = "\<lparr>rest = json_print v, depth = 0, items = 0\<rparr>"
  have "p_value (json_fuel (json_print v)) ?p = Done v (?p\<lparr>rest := [], items := items ?p + json_items v\<rparr>)"
    using reads_back [OF assms(1)] assms(2,3) cost_print [of v]
    unfolding reads_back_def by (auto simp: json_fuel_def simp del: p_value.simps)
  then show ?thesis
    by (simp add: json_parse_def json_parse_step_def whitespace_def del: p_value.simps)
qed

subsection \<open>The sentinel of \<open>hex_value\<close>\<close>

lemma hex_value_other: "\<not> ascii_hexdigit (bv c) \<Longrightarrow> hex_value c = 4294967295"
  by (auto simp: hex_value_def Let_def ascii_defs)

lemma hex_push_sentinel: "hex_push 4294967295 c = None"
  by (simp add: hex_push_def)

lemma hex_push_other:
  assumes "\<not> ascii_hexdigit (bv c)" "hex_push v c = Some w"
  shows "w = 4294967295"
proof -
  from assms have "unat v * 16 < 2 ^ 32" "unat (v * 16) + 4294967295 < 2 ^ 32"
    and w: "w = v * 16 + 4294967295"
    by (auto simp: hex_push_def hex_value_other split: if_splits)
  then have "unat (v * 16) = 0" by simp
  then have "v * 16 = 0" by (simp only: unat_eq_zero)
  with w show ?thesis by simp
qed

lemma hex_digits_sentinel:
  "hex_digits n v r = Some (w, r') \<Longrightarrow>
   list_all (\<lambda>c. ascii_hexdigit (bv c)) (take n r) \<or> w = 4294967295"
proof (induction n v r rule: hex_digits.induct)
  case (3 n v c r)
  then obtain v' where v': "hex_push v c = Some v'" and h: "hex_digits n v' r = Some (w, r')"
    by (auto split: option.splits)
  show ?case
  proof (cases "ascii_hexdigit (bv c)")
    case True
    with "3.IH" [OF v' h] show ?thesis by simp
  next
    case False
    from hex_push_other [OF False v'] have "v' = 4294967295" .
    with h have "n = 0 \<and> w = 4294967295"
      by (cases n; cases r) (auto simp: hex_push_sentinel)
    then show ?thesis by simp
  qed
qed auto

lemma escape_unicode:
  assumes "rest p = CHR ''u'' # r" "escape p = Done bs q"
  shows "list_all (\<lambda>c. ascii_hexdigit (bv c)) (take 4 r) \<and> 4 \<le> length r \<and> rest q = drop 4 r
    \<and> (\<exists>c. scalar_value c \<and> bs = encode_char c)"
proof -
  from assms obtain v r' where h: "hex_digits 4 0 r = Some (v, r')" and q: "rest q = r'"
    and s: "scalar_value (unat v)" "bs = encode_char (unat v)"
    by (auto simp: escape_def step_bind_Done_iff hex_quad_def split: option.splits if_splits)
  have "v \<noteq> 4294967295" using s(1) by (auto simp: scalar_value_def)
  with hex_digits_sentinel [OF h] have "list_all (\<lambda>c. ascii_hexdigit (bv c)) (take 4 r)" by blast
  moreover have "r' = drop n r" if "hex_digits n w r = Some (v, r')" for n w
    using that by (induction n w r rule: hex_digits.induct) (auto split: option.splits)
  ultimately show ?thesis using h q s hex_digits_length [OF h] by auto
qed

subsection \<open>The length of a printed value\<close>

fun json_size :: "json \<Rightarrow> nat" where
  "json_size (JString s) = 2 + 6 * length s"
| "json_size (JArray vs) = 2 + sum_list (map (\<lambda>v. 1 + json_size v) vs)"
| "json_size (JObject kvs) = 2 + sum_list (map (\<lambda>(k, v). 4 + 6 * length k + json_size v) kvs)"
| "json_size v = length (json_print v)"

lemma length_quote: "length (quote s) \<le> 2 + 6 * length s"
proof -
  have "length (esc_byte c) \<le> 6" for c by (simp add: esc_byte_def hex2_def)
  then have "length (concat (map esc_byte s)) \<le> 6 * length s"
    by (induction s) (auto simp: add_mono)
  then show ?thesis by (simp add: quote_def)
qed

lemma join_comma_le: "length (join_comma xs) \<le> sum_list (map (\<lambda>x. 1 + length x) xs)"
  by (induction xs rule: join_comma.induct) auto

lemma length_json_print: "length (json_print v) \<le> json_size v"
proof (induction v)
  case (JString s)
  then show ?case using length_quote [of s] by simp
next
  case (JArray vs)
  have "sum_list (map (\<lambda>v. 1 + length (json_print v)) vs) \<le> sum_list (map (\<lambda>v. 1 + json_size v) vs)"
    using JArray by (intro sum_list_mono) auto
  then show ?case using join_comma_le [of "map json_print vs"] by (simp add: comp_def)
next
  case (JObject kvs)
  have "sum_list (map (\<lambda>(k, v). 1 + length (quote k @ CHR '':'' # json_print v)) kvs)
      \<le> sum_list (map (\<lambda>(k, v). 4 + 6 * length k + json_size v) kvs)"
  proof (intro sum_list_mono, clarsimp)
    fix k v assume "(k, v) \<in> set kvs"
    then have "length (json_print v) \<le> json_size v" using JObject by (auto simp: snds.simps)
    then show "length (quote k) + length (json_print v) \<le> Suc (Suc (6 * length k + json_size v))"
      using length_quote [of k] by simp
  qed
  then show ?case
    using join_comma_le [of "map (\<lambda>(k, v). quote k @ CHR '':'' # json_print v) kvs"]
    by (simp add: comp_def split_def)
qed simp_all

subsection \<open>A printed value is one line\<close>

definition one_line :: "bytes \<Rightarrow> bool" where
  "one_line s \<longleftrightarrow> CHR 0x0A \<notin> set s"

lemma one_line_append [simp]: "one_line (s @ t) \<longleftrightarrow> one_line s \<and> one_line t"
  "one_line (c # s) \<longleftrightarrow> c \<noteq> CHR 0x0A \<and> one_line s" "one_line []"
  by (auto simp: one_line_def)

lemma one_line_dec: "one_line (dec n)"
proof (induction n rule: dec.induct)
  case (1 n)
  have d: "digit_char d \<noteq> CHR 0x0A" if "d < 10" for d
    using bv_digit_char [OF that] by auto
  show ?case by (subst dec.simps) (use 1 d in auto)
qed

lemma one_line_quote: "one_line (quote s)"
proof -
  have h: "hex_digit d \<noteq> CHR 0x0A" if "d < 16" for d
  proof
    assume "hex_digit d = CHR 0x0A"
    then have "bv (hex_digit d) = 10" by simp
    then show False using that by (simp add: hex_digit_def split: if_splits)
  qed
  have "one_line (esc_byte c)" for c
    by (auto simp: esc_byte_def hex2_def h less_mult_imp_div_less)
  then have "one_line (concat (map esc_byte s))" by (induction s) auto
  then show ?thesis by (simp add: quote_def)
qed

lemma one_line_join: "list_all one_line xs \<Longrightarrow> one_line (join_comma xs)"
  by (induction xs rule: join_comma.induct) auto

lemma one_line_print: "one_line (json_print v)"
proof (induction v)
  case (JArray vs)
  then show ?case by (auto simp: list_all_iff intro!: one_line_join)
next
  case (JObject kvs)
  then show ?case
    by (auto simp: list_all_iff one_line_quote intro!: one_line_join)
qed (auto simp: one_line_dec one_line_quote)

lemma split_on_one_line: "c \<notin> set s \<Longrightarrow> split_on c s = [s]"
  by (induction s) auto

end
