(* ===== verification/Reader_Samples.thy ===== *)
theory Reader_Samples
  imports Event_Reader Association_Reader Json_Roundtrip
begin

text \<open>
  A snapshot, an event and an association as a producer writes them, and what the readers make
  of them. The input is the printed value, so that reading it rests on the round trip of the
  JSON reader, and only the field readers have to be evaluated.
\<close>

lemmas reader_defs = keys_def strv_def val_def field_def obj_def optional_id_def id_field_def
  bounded_def number_field_def optional_number_def MAX_SAFE_INTEGER_def

lemma json_parse_sample:
  assumes "json_wf v" "json_within MAX_DEPTH v" "json_items v \<le> JSON_MAX_ITEMS"
  shows "json_print v \<noteq> []" "json_parse (json_print v) = Inr v"
proof -
  show r: "json_parse (json_print v) = Inr v" by (rule json_parse_print_within [OF assms])
  have "json_parse [] \<noteq> Inr v" by (simp add: json_parse_def json_parse_step_def json_fuel_def
      whitespace_def split: step.splits)
  with r show "json_print v \<noteq> []" by (cases "json_print v = []") auto
qed

subsection \<open>An event\<close>

definition sample_event_fields :: json_object where
  "sample_event_fields =
     [(''schema'', JString ''ascension.context-event.v1''), (''event_id'', JString ''e1''),
      (''producer_id'', JString ''p1''), (''sequence'', JNumber 1), (''snapshot_id'', JNull),
      (''provider_attempt_id'', JNull), (''observed_at'', JString ''2026-01-01T00:00:00Z''),
      (''event_type'', JString ''input.write_failed''),
      (''details'', JObject [(''code'', JString ''io'')])]"

definition sample_event :: bytes where
  "sample_event = json_print (JObject sample_event_fields)"

definition sample_event_value :: capture_event where
  "sample_event_value =
     \<lparr>ev_event_id = ''e1'', ev_producer_id = ''p1'', ev_sequence = 1, ev_snapshot_id = None,
      ev_provider_attempt_id = None, ev_observed_at = ''2026-01-01T00:00:00Z'',
      ev_event_type = InputWriteFailed,
      ev_details = \<lparr>d_code = Some ''io'', d_component_id = None, d_provider_request_ref = None,
        d_model_execution_id = None, d_action_id = None, d_plan_id = None, d_usage = None,
        d_dropped_entries = None\<rparr>\<rparr>"

text \<open>The identifiers and bounded texts that the samples use.\<close>

lemma sample_texts [simp]:
  "is_identifier ''e1''" "is_identifier ''p1''" "is_identifier ''io''" "is_identifier ''s1''"
  "is_identifier ''c1''" "is_identifier ''r1''" "is_identifier ''a1''" "is_identifier ''m1''"
  "is_rfc3339 ''2026-01-01T00:00:00Z''"
  "bounded_text ''e1'' 128" "bounded_text ''p1'' 128" "bounded_text ''io'' 128"
  "bounded_text ''s1'' 128" "bounded_text ''c1'' 128" "bounded_text ''r1'' 128"
  "bounded_text ''a1'' 128" "bounded_text ''m1'' 128"
  "bounded_text ''2026-01-01T00:00:00Z'' 128"
  by code_simp+

lemma sample_event_fields_read: "event_fields sample_event_fields = Inr sample_event_value"
  by (simp add: event_fields_def sample_event_fields_def reader_defs event_keys_def
      read_event_type_def read_details_def detail_keys_def usage_field_def dropped_field_def
      validate_details_def sample_event_value_def)

lemma sample_event_parsed: "parse_event sample_event = Inr sample_event_value"
proof -
  let ?v = "JObject sample_event_fields"
  have "json_wf ?v" by code_simp
  moreover have "json_within MAX_DEPTH ?v" by code_simp
  moreover have "json_items ?v \<le> JSON_MAX_ITEMS"
    by (simp add: sample_event_fields_def JSON_MAX_ITEMS_def)
  moreover have "length sample_event \<le> MAX_EVENT_BYTES"
    using length_json_print [of ?v]
    by (simp add: sample_event_def sample_event_fields_def MAX_EVENT_BYTES_def dec.simps)
  ultimately show ?thesis
    using json_parse_sample [of ?v] sample_event_fields_read
    by (simp add: parse_event_def sample_event_def)
qed

lemma sample_journal: "parse_event_lines sample_event = Inr [sample_event_value]"
proof -
  have "trim_ascii_whitespace (json_print (JObject kvs)) = json_print (JObject kvs)" for kvs
    by (simp add: trim_ascii_whitespace_def ascii_whitespace_def)
  moreover have "split_on (CHR 0x0A) sample_event = [sample_event]"
    unfolding sample_event_def
    by (rule split_on_one_line) (rule one_line_print [unfolded one_line_def])
  ultimately show ?thesis
    using sample_event_parsed
    by (simp add: parse_event_lines_def sample_event_def parse_event_def MAX_EVENT_LINES_def Let_def
        split: if_splits)
qed

lemma escape_sample: "escape \<lparr>rest = ''u0041z'', depth = 0, items = 0\<rparr> = Done ''A'' \<lparr>rest = ''z'', depth = 0, items = 0\<rparr>"
proof -
  have "hex_digit 4 = CHR ''4''" "hex_digit 1 = CHR ''1''" by code_simp+
  then have "hex_digits 4 0 ''0041z'' = Some (65, ''z'')"
    using hex_digits_byte [of "CHR ''A''" "''z''"] by (simp add: hex2_def)
  moreover have "(char_of (65 :: nat) :: char) = CHR ''A''" by code_simp
  then have "encode_char 65 = ''A''" "scalar_value 65"
    by (simp_all add: encode_char_def scalar_value_def utf8_encode_def)
  ultimately show ?thesis by (simp add: escape_def hex_quad_def)
qed

subsection \<open>A snapshot\<close>

definition sample_digest :: string where
  "sample_digest = replicate 64 (CHR ''0'')"

definition no_measurement :: json_object where
  "no_measurement =
     [(''metric'', JString ''input_tokens''), (''value'', JNull),
      (''source'', JString ''unavailable''), (''scope'', JString ''component''),
      (''measurement_revision'', JNull), (''provider_turn_ref'', JNull)]"

definition sample_component_fields :: json_object where
  "sample_component_fields =
     [(''component_id'', JString ''c1''), (''ordinal'', JNumber 0), (''kind'', JString ''stdin''),
      (''role'', JNull), (''media_type'', JString ''text/plain''), (''observed_bytes'', JNumber 3),
      (''content_status'', JString ''complete''), (''content_ref'', JString ''r1''),
      (''sha256'', JString sample_digest), (''origin'', JString ''harness''),
      (''measurement'', JObject no_measurement)]"

definition sample_snapshot_fields :: json_object where
  "sample_snapshot_fields =
     [(''schema'', JString ''ascension.context-snapshot.v1''), (''snapshot_id'', JString ''s1''),
      (''identity'', JObject [(''run_id'', JString ''r1''), (''episode_id'', JString ''e1''),
         (''agent_id'', JString ''a1''), (''model_execution_id'', JString ''m1''),
         (''provider_attempt_id'', JString ''p1'')]),
      (''producer'', JObject [(''repository'', JString ''harness''),
         (''revision'', JString (replicate 40 (CHR ''0''))), (''adapter_revision'', JString ''a1''),
         (''evidence'', JString ''synthetic'')]),
      (''boundary'', JString ''harness.request''), (''capture_mode'', JString ''memory''),
      (''provider'', JObject [(''name'', JString ''p1''), (''model'', JString ''m1''),
         (''additional_context'', JString ''not_exposed'')]),
      (''recorded_at'', JString ''2026-01-01T00:00:00Z''),
      (''application_capture_complete'', JBool True), (''incomplete_reasons'', JArray []),
      (''parent_snapshot_id'', JNull), (''components'', JArray [JObject sample_component_fields]),
      (''mapping'', JArray [JObject [(''upstream_field'', JString ''m1''),
         (''transformation'', JString ''forwarded''), (''component_ids'', JArray [JString ''c1''])]]),
      (''input_measurement'', JObject no_measurement), (''model_context_limit_tokens'', JNull),
      (''model_limit_source'', JString ''unavailable'')]"

definition sample_snapshot :: bytes where
  "sample_snapshot = json_print (JObject sample_snapshot_fields)"

definition no_measurement_value :: measurement where
  "no_measurement_value =
     \<lparr>m_metric = ''input_tokens'', m_value = None, m_source = ''unavailable'',
      m_scope = ''component'', m_measurement_revision = None, m_provider_turn_ref = None\<rparr>"

definition sample_component :: component where
  "sample_component =
     \<lparr>c_component_id = ''c1'', c_ordinal = 0, c_kind = ''stdin'', c_role = None,
      c_media_type = ''text/plain'', c_observed_bytes = 3, c_content_status = Complete,
      c_content_ref = Some ''r1'', c_sha256 = Some sample_digest, c_origin = ''harness'',
      c_measurement = no_measurement_value\<rparr>"

definition sample_projection :: projection where
  "sample_projection =
     \<lparr>sp_snapshot_id = ''s1'',
      sp_identity = \<lparr>id_run_id = ''r1'', id_episode_id = ''e1'', id_agent_id = ''a1'',
        id_model_execution_id = ''m1'', id_provider_attempt_id = ''p1''\<rparr>,
      sp_producer = \<lparr>pr_repository = ''harness'', pr_revision = replicate 40 (CHR ''0''),
        pr_adapter_revision = ''a1'', pr_evidence = ''synthetic''\<rparr>,
      sp_boundary = ''harness.request'', sp_capture_mode = Memory, sp_provider_name = ''p1'',
      sp_provider_model = ''m1'', sp_recorded_at = ''2026-01-01T00:00:00Z'',
      sp_application_capture_complete = True, sp_incomplete_reasons = [],
      sp_parent_snapshot_id = None, sp_input_measurement = no_measurement_value,
      sp_model_context_limit_tokens = None, sp_model_limit_source = ''unavailable'',
      sp_component_count = 1\<rparr>"

definition sample_snapshot_value :: snapshot where
  "sample_snapshot_value =
     \<lparr>sn_raw_len = length sample_snapshot, sn_projection = sample_projection,
      sn_components = [sample_component],
      sn_mapping = [\<lparr>mp_upstream_field = ''m1'', mp_transformation = ''forwarded'',
        mp_component_ids = [''c1'']\<rparr>]\<rparr>"

lemma sample_snapshot_texts [simp]:
  "bounded_text ''stdin'' 64" "bounded_text ''harness'' 128" "bounded_text ''harness'' 256"
  "bounded_text ''text/plain'' 128" "bounded_text ''input_tokens'' 64"
  "bounded_text ''unavailable'' 64" "bounded_text ''unavailable'' 32"
  "bounded_text ''component'' 64" "bounded_text ''harness.request'' 64"
  "digest_text sample_digest" "lower_hex (replicate 40 (CHR ''0''))"
  by code_simp+

lemma no_measurement_read: "read_measurement no_measurement = Inr no_measurement_value"
  by (simp add: no_measurement_def read_measurement_def reader_defs measurement_keys_def
      metric_names_def source_names_def scope_names_def measurement_value_def optional_string_def
      no_measurement_value_def)

lemma sample_component_read: "read_component sample_component_fields = Inr sample_component"
  by (simp add: read_component_def sample_component_fields_def reader_defs component_keys_def
      read_status_def kind_names_def role_names_def origin_names_def optional_string_def
      digest_field_def no_measurement_read sample_component_def)


lemma sample_snapshot_fields_read:
  "snapshot_fields (length sample_snapshot) sample_snapshot_fields = Inr sample_snapshot_value"
  by (simp add: snapshot_fields_def sample_snapshot_fields_def reader_defs snapshot_keys_def
      parse_identity_def parse_producer_def boundary_names_def capture_def read_reasons_def
      read_components_def sample_component_read component_refused_def content_required_def
      content_forbidden_def sample_component_def read_mappings_def read_mapping_def
      transformation_names_def mapping_dangling_def no_measurement_read snapshot_checks_def
      MAX_COMPONENTS_def MAX_MAPPINGS_def MAX_REASONS_def
      sample_snapshot_value_def sample_projection_def)

lemma sample_snapshot_parsed: "snapshot_parse sample_snapshot = Inr sample_snapshot_value"
proof -
  let ?v = "JObject sample_snapshot_fields"
  have "json_wf ?v" by code_simp
  moreover have "json_within MAX_DEPTH ?v" by code_simp
  moreover have "json_items ?v \<le> JSON_MAX_ITEMS"
    by (simp add: sample_snapshot_fields_def sample_component_fields_def no_measurement_def
        JSON_MAX_ITEMS_def)
  moreover have "length sample_snapshot \<le> MAX_SNAPSHOT_BYTES"
    using length_json_print [of ?v]
    by (simp add: sample_snapshot_def sample_snapshot_fields_def sample_component_fields_def
        no_measurement_def sample_digest_def MAX_SNAPSHOT_BYTES_def dec.simps)
  ultimately show ?thesis
    using json_parse_sample [of ?v] sample_snapshot_fields_read
    by (simp add: snapshot_parse_def sample_snapshot_def)
qed

subsection \<open>An association\<close>

definition sample_association_fields :: json_object where
  "sample_association_fields =
     [(''schema_version'', JString ''ascension.workflow-context-association/v1''),
      (''workflow'', JObject [(''workflow_run_id'', JString ''r1''),
         (''definition_digest'', JString sample_digest), (''graph_id'', JString ''a1''),
         (''node_id'', JString ''c1''), (''node_execution_id'', JString ''e1'')]),
      (''context'', JObject [(''availability'', JString ''available''),
         (''context_ref'', JString ''c1''), (''run_id'', JString ''r1''),
         (''episode_id'', JString ''e1''), (''agent_id'', JString ''a1''),
         (''snapshot_id'', JString ''s1''), (''approved_revision_id'', JString ''r1''),
         (''plan_epoch'', JNumber 1)]),
      (''capture'', JObject [(''mode'', JString ''memory''), (''state'', JString ''prepared''),
         (''attempt_id'', JNull)]),
      (''capabilities'', JObject [(''inspect_metadata'', JBool True),
         (''read_retained_content'', JBool True), (''edit_context'', JBool False),
         (''control_context'', JBool False), (''memory_search'', JBool False),
         (''provider_session_inspect'', JBool False)])]"

definition sample_association :: bytes where
  "sample_association = json_print (JObject sample_association_fields)"

definition sample_association_value :: workflow_context_association where
  "sample_association_value =
     \<lparr>wa_workflow = \<lparr>wf_workflow_run_id = ''r1'', wf_definition_digest = sample_digest,
        wf_graph_id = ''a1'', wf_node_id = ''c1'', wf_node_execution_id = ''e1''\<rparr>,
      wa_context = \<lparr>cb_availability = ''available'', cb_context_ref = Some ''c1'',
        cb_run_id = Some ''r1'', cb_episode_id = Some ''e1'', cb_agent_id = Some ''a1'',
        cb_snapshot_id = Some ''s1'', cb_approved_revision_id = Some ''r1'',
        cb_plan_epoch = Some 1, cb_reason_code = None\<rparr>,
      wa_capture = \<lparr>ce_mode = ''memory'', ce_state = ''prepared'', ce_attempt_id = None,
        ce_reason_code = None\<rparr>,
      wa_capabilities = \<lparr>ic_inspect_metadata = True, ic_read_retained_content = True,
        ic_edit_context = False, ic_control_context = False, ic_memory_search = False,
        ic_provider_session_inspect = False\<rparr>\<rparr>"

lemma sample_digest_bounded [simp]: "bounded_text sample_digest 64"
  by code_simp

lemma sample_association_fields_read:
  "association_fields sample_association_fields = Inr sample_association_value"
  by (simp add: association_fields_def sample_association_fields_def reader_defs read_workflow_def
      read_context_def required_with_optional_def optional_bounded_def check_binding_def
      binding_identifiers_def read_capture_def evidence_modes_def evidence_states_def
      read_capabilities_def read_boolean_def sample_association_value_def)

lemma sample_association_parsed:
  "association_parse sample_association = Inr sample_association_value"
proof -
  let ?v = "JObject sample_association_fields"
  have "json_wf ?v" by code_simp
  moreover have "json_within MAX_DEPTH ?v" by code_simp
  moreover have "json_items ?v \<le> JSON_MAX_ITEMS"
    by (simp add: sample_association_fields_def JSON_MAX_ITEMS_def)
  moreover have "length sample_association \<le> MAX_SNAPSHOT_BYTES"
    using length_json_print [of ?v]
    by (simp add: sample_association_def sample_association_fields_def sample_digest_def
        MAX_SNAPSHOT_BYTES_def dec.simps)
  ultimately show ?thesis
    using json_parse_sample [of ?v] sample_association_fields_read
    by (simp add: association_parse_def sample_association_def)
qed

end
