(* ===== verification/Clock.thy ===== *)
theory Clock
  imports Rust_Text "HOL-Library.Signed_Division"
begin

text \<open>
  The timestamps of the control plane (\<open>control/state/time.rs\<close>): seconds since the epoch as
  \<open>u64\<close>, the proleptic Gregorian calendar on \<open>i64\<close> days, and the text form. \<open>i64 x\<close> is the
  value of \<open>x\<close> after wrap-around, \<open>sdiv\<close> is the division of \<open>i64\<close>, which rounds towards
  zero; \<open>i64\<close> is written where an operation can leave the range.
\<close>

definition i64 :: "int \<Rightarrow> int" where
  "i64 x = signed_take_bit 63 x"

definition days_from_civil :: "int \<Rightarrow> int \<Rightarrow> int \<Rightarrow> int option" where
  "days_from_civil year month day =
     (if \<not> (1 \<le> month \<and> month \<le> 12) \<or> \<not> (1 \<le> day \<and> day \<le> 31) then None
      else
        (let y = i64 (year - (if month \<le> 2 then 1 else 0));
             era = (if y \<ge> 0 then y else i64 (y - 399)) sdiv 400;
             yoe = i64 (y - era * 400);
             mp = month + (if month > 2 then -3 else 9);
             doy = (153 * mp + 2) sdiv 5 + day - 1;
             doe = i64 (yoe * 365 + yoe sdiv 4 - yoe sdiv 100 + doy)
         in Some (i64 (era * 146097 + doe - 719468))))"

definition civil_from_days :: "int \<Rightarrow> int \<times> int \<times> int" where
  "civil_from_days days =
     (let z = i64 (days + 719468);
          era = (if z \<ge> 0 then z else i64 (z - 146096)) sdiv 146097;
          doe = i64 (z - era * 146097);
          yoe = (doe - doe sdiv 1460 + doe sdiv 36524 - doe sdiv 146096) sdiv 365;
          y = yoe + era * 400;
          doy = doe - (365 * yoe + yoe sdiv 4 - yoe sdiv 100);
          mp = (5 * doy + 2) sdiv 153;
          d = doy - (153 * mp + 2) sdiv 5 + 1;
          m = mp + (if mp < 10 then 3 else -9)
      in (y + (if m \<le> 2 then 1 else 0), m, d))"

text \<open>\<open>{value:0w}\<close> of a signed integer: the sign counts in the width.\<close>

definition pad_int :: "nat \<Rightarrow> int \<Rightarrow> string" where
  "pad_int w v =
     (if v < 0 then CHR ''-'' # zero_pad (w - 1) (dec (nat (- v))) else zero_pad w (dec (nat v)))"

definition format_time :: "u64 \<Rightarrow> string" where
  "format_time seconds =
     (let days = sint (seconds div 86400);
          rem = seconds mod 86400;
          (year, month, day) = civil_from_days days
      in pad_int 4 year @ ''-'' @ pad_int 2 month @ ''-'' @ pad_int 2 day @ ''T''
         @ zero_pad 2 (dec (unat (rem div 3600))) @ '':''
         @ zero_pad 2 (dec (unat ((rem mod 3600) div 60))) @ '':''
         @ zero_pad 2 (dec (unat (rem mod 60))) @ ''Z'')"

text \<open>The cast \<open>days as u64\<close> keeps the bits, so a negative day number becomes a large one.\<close>

definition parse_time :: "string \<Rightarrow> u64 option" where
  "parse_time value =
     (case strip_suffix_char (CHR ''Z'') value of
        None \<Rightarrow> None
      | Some date \<Rightarrow>
          (case split_once (CHR ''T'') date of
             None \<Rightarrow> None
           | Some (day_text, time) \<Rightarrow>
               (case (split_on (CHR ''-'') day_text, split_on (CHR '':'') time) of
                  (y # mo # d # _, h # mi # s # _) \<Rightarrow>
                    (case (parse_i64 y, parse_i64 mo, parse_i64 d, parse_u64 h, parse_u64 mi,
                           parse_u64 (hd (split_on (CHR ''.'') s))) of
                       (Some year, Some month, Some day, Some hour, Some minute, Some second) \<Rightarrow>
                         map_option
                           (\<lambda>days. sat_add (sat_add (sat_add (sat_mul (word_of_int days) 86400)
                                      (sat_mul hour 3600)) (sat_mul minute 60)) second)
                           (days_from_civil year month day)
                     | _ \<Rightarrow> None)
                | _ \<Rightarrow> None)))"

subsection \<open>The calendar is a bijection on the days\<close>

lemma i64_small [simp]: "- (2 ^ 63) \<le> x \<Longrightarrow> x < 2 ^ 63 \<Longrightarrow> i64 x = x"
  by (simp add: i64_def signed_take_bit_int_eq_self)

lemma sdiv_nonneg [simp]: "0 \<le> a \<Longrightarrow> 0 \<le> b \<Longrightarrow> (a :: int) sdiv b = a div b"
  by (simp add: signed_divide_int_def sgn_if)

text \<open>A day of an era is a century, a four-year cycle, a year of it and a day of that year.\<close>

lemma day_of_era_cases:
  assumes "0 \<le> doe" "doe < (146097 :: int)"
  obtains (leap) "doe = 146096"
  | (day) c k j u where "doe = 36524 * c + 1461 * k + 365 * j + u"
      "0 \<le> c" "c \<le> 3" "0 \<le> k" "k \<le> 24" "0 \<le> j" "j \<le> 3" "0 \<le> u" "u \<le> 365"
      "u = 365 \<Longrightarrow> j = 3 \<and> k \<le> 23"
proof (cases "doe = 146096")
  case False
  define c r where "c = doe div 36524" and "r = doe mod 36524"
  define k t where "k = r div 1461" and "t = r mod 1461"
  define j where "j = (if t = 1460 then 3 else t div 365)"
  have s: "doe = 36524 * c + r" "r = 1461 * k + t" by (simp_all add: c_def r_def k_def t_def)
  have r: "0 \<le> r" "r < 36524" "0 \<le> t" "t < 1461" by (simp_all add: r_def t_def)
  have k: "0 \<le> k" "k \<le> 24" "t = 1460 \<Longrightarrow> k \<le> 23" using s r by linarith+
  have c: "0 \<le> c" "c \<le> 3" using assms False s r by linarith+
  have j: "0 \<le> j" "j \<le> 3" "0 \<le> t - 365 * j" "t - 365 * j \<le> 365"
      "t - 365 * j = 365 \<Longrightarrow> t = 1460 \<and> j = 3"
    using r minus_div_mult_eq_mod [of t 365] by (auto simp: j_def split: if_splits)
  show ?thesis
    by (rule day [of c k j "t - 365 * j"]) (use s k c j in auto)
qed (use leap in simp)

lemma year_of_era:
  fixes doe :: int
  assumes "0 \<le> doe" "doe < 146097"
  defines "yoe \<equiv> (doe - doe div 1460 + doe div 36524 - doe div 146096) div 365"
  defines "doy \<equiv> doe - (365 * yoe + yoe div 4 - yoe div 100)"
  shows "0 \<le> yoe" "yoe \<le> 399" "0 \<le> doy" "doy \<le> 365"
proof -
  have "0 \<le> yoe \<and> yoe \<le> 399 \<and> 0 \<le> doy \<and> doy \<le> 365"
    using assms(1,2)
  proof (cases doe rule: day_of_era_cases)
    case leap
    then show ?thesis by (simp add: yoe_def doy_def)
  next
    case (day c k j u)
    define e :: int where "e = (if 24 * c + k + 365 * j + u < 1460 then 0 else 1)"
    have q: "doe div 1460 = 25 * c + k + e"
      using day by (intro int_div_pos_eq [where r = "24 * c + k + 365 * j + u - 1460 * e"])
         (auto simp: e_def)
    have r: "0 \<le> 1461 * k + 365 * j + u" "1461 * k + 365 * j + u < 36524"
      using day by linarith+
    have "doe div 36524 = c"
      using r day(1) by (intro int_div_pos_eq [where r = "1461 * k + 365 * j + u"]) auto
    moreover have "doe div 146096 = 0"
      using r day by simp
    moreover have e: "0 \<le> u - e" "u - e < 365"
      using day by (cases "u = 365"; simp add: e_def)+
    ultimately have y: "yoe = 100 * c + 4 * k + j"
      unfolding yoe_def q
      by (intro int_div_pos_eq [where r = "u - e"]) (use day in auto)
    have "yoe div 4 = 25 * c + k"
      using day by (intro int_div_pos_eq [where r = j]) (auto simp: y)
    moreover have "yoe div 100 = c"
      using day by (intro int_div_pos_eq [where r = "4 * k + j"]) (auto simp: y)
    ultimately have "doy = u" by (simp add: doy_def y day(1))
    with day y show ?thesis by linarith
  qed
  then show "0 \<le> yoe" "yoe \<le> 399" "0 \<le> doy" "doy \<le> 365" by auto
qed

lemma month_of_year:
  fixes doy :: int
  assumes "0 \<le> doy" "doy \<le> 365"
  defines "mp \<equiv> (5 * doy + 2) div 153"
  shows "0 \<le> mp" "mp \<le> 11" "1 \<le> doy - (153 * mp + 2) div 5 + 1" "doy - (153 * mp + 2) div 5 + 1 \<le> 31"
proof -
  have "153 * mp \<le> 5 * doy + 2" "5 * doy + 2 < 153 * mp + 153"
    by (simp_all add: mp_def)
  then show "0 \<le> mp" "mp \<le> 11" "1 \<le> doy - (153 * mp + 2) div 5 + 1"
    "doy - (153 * mp + 2) div 5 + 1 \<le> 31"
    using assms(1,2) by linarith+
qed


text \<open>The steps of the two conversions, each with the value it has.\<close>

lemma civil_from_days_steps:
  assumes "i64 (days + 719468) = z"
    and "(if z \<ge> 0 then z else i64 (z - 146096)) sdiv 146097 = era"
    and "i64 (z - era * 146097) = doe"
    and "(doe - doe sdiv 1460 + doe sdiv 36524 - doe sdiv 146096) sdiv 365 = yoe"
    and "doe - (365 * yoe + yoe sdiv 4 - yoe sdiv 100) = doy"
    and "(5 * doy + 2) sdiv 153 = mp"
    and "mp + (if mp < 10 then 3 else -9) = m"
  shows "civil_from_days days =
    (yoe + era * 400 + (if m \<le> 2 then 1 else 0), m, doy - (153 * mp + 2) sdiv 5 + 1)"
  by (simp only: civil_from_days_def Let_def assms)

lemma days_from_civil_steps:
  assumes "1 \<le> month" "month \<le> 12" "1 \<le> day" "day \<le> 31"
    and "i64 (year - (if month \<le> 2 then 1 else 0)) = y"
    and "(if y \<ge> 0 then y else i64 (y - 399)) sdiv 400 = era"
    and "i64 (y - era * 400) = yoe"
    and "month + (if month > 2 then -3 else 9) = mp"
    and "i64 (yoe * 365 + yoe sdiv 4 - yoe sdiv 100 + ((153 * mp + 2) sdiv 5 + day - 1)) = doe"
  shows "days_from_civil year month day = Some (i64 (era * 146097 + doe - 719468))"
proof -
  have "\<not> (\<not> (1 \<le> month \<and> month \<le> 12) \<or> \<not> (1 \<le> day \<and> day \<le> 31))"
    using assms(1-4) by simp
  then show ?thesis by (simp only: days_from_civil_def Let_def assms(5-) if_False)
qed

text \<open>A civil date of a day number, and what makes it convert back.\<close>

lemma civil_from_days_cases:
  assumes "0 \<le> days" "days < 2 ^ 48"
  obtains era yoe mp d where
    "civil_from_days days =
       (yoe + era * 400 + (if mp < 10 then 0 else 1), mp + (if mp < 10 then 3 else -9), d)"
    "0 \<le> era" "era < 2 ^ 32" "0 \<le> yoe" "yoe \<le> 399" "0 \<le> mp" "mp \<le> 11" "1 \<le> d" "d \<le> 31"
    "era * 146097 + (yoe * 365 + yoe div 4 - yoe div 100 + (153 * mp + 2) div 5 + d - 1)
       = days + 719468"
    "0 \<le> yoe * 365 + yoe div 4 - yoe div 100 + (153 * mp + 2) div 5 + d - 1"
    "yoe * 365 + yoe div 4 - yoe div 100 + (153 * mp + 2) div 5 + d - 1 < 146097"
proof -
  define z era doe where "z = days + 719468" and "era = z div 146097" and "doe = z mod 146097"
  define yoe where "yoe = (doe - doe div 1460 + doe div 36524 - doe div 146096) div 365"
  define doy where "doy = doe - (365 * yoe + yoe div 4 - yoe div 100)"
  define mp where "mp = (5 * doy + 2) div 153"
  have z: "0 \<le> z" "z < 2 ^ 49" using assms by (simp_all add: z_def)
  have e: "0 \<le> era" "era < 2 ^ 32" "era * 146097 + doe = z"
    using z by (simp_all add: era_def doe_def)
  have b: "0 \<le> doe" "doe < 146097" by (simp_all add: doe_def)
  note y = year_of_era [OF b, folded yoe_def, folded doy_def]
  note m = month_of_year [OF y(3,4), folded mp_def]
  have n: "0 \<le> doe - doe div 1460 + doe div 36524 - doe div 146096" using b by linarith
  have "civil_from_days days =
      (yoe + era * 400 + (if mp + (if mp < 10 then 3 else -9) \<le> 2 then 1 else 0),
       mp + (if mp < 10 then 3 else -9), doy - (153 * mp + 2) sdiv 5 + 1)"
  proof (rule civil_from_days_steps)
    show "i64 (days + 719468) = z" using assms by (simp add: z_def)
    show "(if z \<ge> 0 then z else i64 (z - 146096)) sdiv 146097 = era"
      using z by (simp add: era_def)
    show "i64 (z - era * 146097) = doe" using e b by simp
    show "(doe - doe sdiv 1460 + doe sdiv 36524 - doe sdiv 146096) sdiv 365 = yoe"
      using b n by (simp add: yoe_def)
    show "doe - (365 * yoe + yoe sdiv 4 - yoe sdiv 100) = doy" using y by (simp add: doy_def)
    show "(5 * doy + 2) sdiv 153 = mp" using y by (simp add: mp_def)
  qed simp
  moreover have "(if mp + (if mp < 10 then 3 else -9) \<le> 2 then 1 else 0) =
      (if mp < 10 then 0 else (1 :: int))"
    using m by simp
  moreover have "(153 * mp + 2) sdiv 5 = (153 * mp + 2) div 5" using m by simp
  ultimately have "civil_from_days days =
      (yoe + era * 400 + (if mp < 10 then 0 else 1), mp + (if mp < 10 then 3 else -9),
       doy - (153 * mp + 2) div 5 + 1)"
    by simp
  then show ?thesis
    by (rule that [where era = era]) (use e y m b z_def doy_def in linarith)+
qed

lemma days_from_civil_from_days:
  assumes "0 \<le> days" "days < 2 ^ 48" "civil_from_days days = (year, month, day)"
  shows "days_from_civil year month day = Some days" "0 \<le> year" "year < 2 ^ 48"
    "1 \<le> month" "month \<le> 12" "1 \<le> day" "day \<le> 31"
proof -
  obtain era yoe mp d where e: "civil_from_days days =
       (yoe + era * 400 + (if mp < 10 then 0 else 1), mp + (if mp < 10 then 3 else -9), d)"
    and b: "0 \<le> era" "era < 2 ^ 32" "0 \<le> yoe" "yoe \<le> 399" "0 \<le> mp" "mp \<le> 11" "1 \<le> d" "d \<le> 31"
    and s: "era * 146097 + (yoe * 365 + yoe div 4 - yoe div 100 + (153 * mp + 2) div 5 + d - 1)
       = days + 719468"
      "0 \<le> yoe * 365 + yoe div 4 - yoe div 100 + (153 * mp + 2) div 5 + d - 1"
      "yoe * 365 + yoe div 4 - yoe div 100 + (153 * mp + 2) div 5 + d - 1 < 146097"
    by (rule civil_from_days_cases [OF assms(1,2)])
  have c: "year = yoe + era * 400 + (if mp < 10 then 0 else 1)"
    "month = mp + (if mp < 10 then 3 else -9)" "day = d"
    using assms(3) unfolding e by simp_all
  have y: "yoe + era * 400 \<le> year" "year \<le> yoe + era * 400 + 1"
    using c(1) by (simp_all split: if_splits)
  have "era * 400 \<le> 2 ^ 41" using b(2) by simp
  with y b have "0 \<le> year" "year \<le> 2 ^ 41 + 400" by linarith+
  then show "0 \<le> year" "year < 2 ^ 48" by simp_all
  have "(mp < 10 \<and> month = mp + 3) \<or> (\<not> mp < 10 \<and> month = mp - 9)"
    using c(2) by (simp split: if_splits)
  with b show r: "1 \<le> month" "month \<le> 12" by linarith+
  from b c(3) show d: "1 \<le> day" "day \<le> 31" by simp_all
  have mp: "month \<le> 2 \<longleftrightarrow> \<not> mp < 10" using b c(2) by (cases "mp < 10") simp_all
  have "days_from_civil year month day =
      Some (i64 (era * 146097 + (yoe * 365 + yoe div 4 - yoe div 100 + (153 * mp + 2) div 5 + d - 1)
        - 719468))"
  proof (rule days_from_civil_steps [OF r d])
    show "i64 (year - (if month \<le> 2 then 1 else 0)) = yoe + era * 400"
      using b by (simp add: mp c(1))
    show "(if yoe + era * 400 \<ge> 0 then yoe + era * 400 else i64 (yoe + era * 400 - 399)) sdiv 400 = era"
      using b by simp
    show "i64 (yoe + era * 400 - era * 400) = yoe" using b by simp
    show "month + (if month > 2 then -3 else 9) = mp"
      using b by (cases "mp < 10") (simp_all add: c(2))
    show "i64 (yoe * 365 + yoe sdiv 4 - yoe sdiv 100 + ((153 * mp + 2) sdiv 5 + day - 1)) =
        yoe * 365 + yoe div 4 - yoe div 100 + (153 * mp + 2) div 5 + d - 1"
      using b s(2,3) c(3) by (simp add: algebra_simps)
  qed
  with s(1) assms(1,2) show "days_from_civil year month day = Some days" by simp
qed

subsection \<open>Every formatted time reads back\<close>

lemma pad_int_nonneg [simp]: "0 \<le> v \<Longrightarrow> pad_int w v = zero_pad w (dec (nat v))"
  by (simp add: pad_int_def)

lemma zero_pad_not_in: "\<not> ascii_digit (bv c) \<Longrightarrow> c \<notin> set (zero_pad w (dec n))"
  by (rule digits_avoid) simp_all

lemma parse_i64_pad: "n < 2 ^ 63 \<Longrightarrow> parse_i64 (zero_pad w (dec n)) = Some (int n)"
  by (simp add: parse_i64_digits)

lemma parse_u64_pad: "n < 2 ^ 64 \<Longrightarrow> parse_u64 (zero_pad w (dec n)) = Some (of_nat n)"
  by (simp add: parse_u64_digits)

lemma parse_time_text:
  assumes "0 \<le> year" "year < 2 ^ 48" "0 \<le> month" "month < 2 ^ 48" "0 \<le> day" "day < 2 ^ 48"
  shows "parse_time (pad_int 4 year @ ''-'' @ pad_int 2 month @ ''-'' @ pad_int 2 day @ ''T''
         @ zero_pad 2 (dec (unat (h :: u64))) @ '':'' @ zero_pad 2 (dec (unat (mi :: u64))) @ '':''
         @ zero_pad 2 (dec (unat (s :: u64))) @ ''Z'') =
    map_option (\<lambda>days. sat_add (sat_add (sat_add (sat_mul (word_of_int days) 86400)
        (sat_mul h 3600)) (sat_mul mi 60)) s) (days_from_civil year month day)"
proof -
  let ?Y = "zero_pad 4 (dec (nat year))" and ?M = "zero_pad 2 (dec (nat month))"
    and ?D = "zero_pad 2 (dec (nat day))" and ?h = "zero_pad 2 (dec (unat h))"
    and ?m = "zero_pad 2 (dec (unat mi))" and ?s = "zero_pad 2 (dec (unat s))"
  have a: "strip_suffix_char (CHR ''Z'') ((?Y @ ''-'' @ ?M @ ''-'' @ ?D @ ''T'' @ ?h @ '':'' @ ?m
      @ '':'' @ ?s) @ [CHR ''Z'']) = Some (?Y @ ''-'' @ ?M @ ''-'' @ ?D @ ''T'' @ ?h @ '':'' @ ?m
      @ '':'' @ ?s)"
    by (rule strip_suffix_char_append)
  have b: "split_once (CHR ''T'') ((?Y @ ''-'' @ ?M @ ''-'' @ ?D) @ CHR ''T'' # (?h @ '':'' @ ?m
      @ '':'' @ ?s)) = Some (?Y @ ''-'' @ ?M @ ''-'' @ ?D, ?h @ '':'' @ ?m @ '':'' @ ?s)"
    by (rule split_once_append) (simp add: zero_pad_not_in ascii_digit_def)
  have c: "split_on (CHR ''-'') (?Y @ ''-'' @ ?M @ ''-'' @ ?D) = [?Y, ?M, ?D]"
    by (simp add: split_on_append split_on_none zero_pad_not_in ascii_digit_def)
  have d: "split_on (CHR '':'') (?h @ '':'' @ ?m @ '':'' @ ?s) = [?h, ?m, ?s]"
    by (simp add: split_on_append split_on_none zero_pad_not_in ascii_digit_def)
  have e: "split_on (CHR ''.'') ?s = [?s]"
    by (simp add: split_on_none zero_pad_not_in ascii_digit_def)
  have f: "parse_i64 ?Y = Some year" "parse_i64 ?M = Some month" "parse_i64 ?D = Some day"
    using assms by (simp_all add: parse_i64_pad)
  have g: "parse_u64 ?h = Some h" "parse_u64 ?m = Some mi" "parse_u64 ?s = Some s"
    using unat_lt_64 by (simp_all add: parse_u64_pad del: unat_lt_64)
  show ?thesis
    using assms a b by (simp add: parse_time_def c [simplified] d [simplified] e f g)
qed

lemma seconds_of_day:
  fixes seconds :: u64
  defines "rem \<equiv> seconds mod 86400"
  shows "sat_add (sat_add (sat_add (sat_mul (seconds div 86400) 86400)
      (sat_mul (rem div 3600) 3600)) (sat_mul ((rem mod 3600) div 60) 60)) (rem mod 60) = seconds"
proof -
  define n q r where "n = unat seconds" and "q = n div 86400" and "r = n mod 86400"
  define h m s where "h = r div 3600" and "m = r mod 3600 div 60" and "s = r mod 60"
  have "n < 2 ^ 64" unfolding n_def by (rule unat_lt_64)
  moreover have "r = h * 3600 + m * 60 + s"
  proof -
    have "r mod 3600 mod 60 = s" by (simp add: s_def mod_mod_cancel)
    then have "r mod 3600 = m * 60 + s" by (metis m_def div_mult_mod_eq)
    then show ?thesis by (metis h_def div_mult_mod_eq add.assoc)
  qed
  moreover have "n = q * 86400 + r" by (simp add: q_def r_def)
  ultimately have b: "q * 86400 + h * 3600 + m * 60 + s = n" "n < 2 ^ 64" by simp_all
  have u: "unat (seconds div 86400) = q" "unat (rem div 3600) = h"
    "unat ((rem mod 3600) div 60) = m" "unat (rem mod 60) = s"
    by (simp_all add: n_def q_def r_def h_def m_def s_def rem_def unat_div unat_mod)
  have "unat (sat_mul (seconds div 86400) 86400) = q * 86400"
    "unat (sat_mul (rem div 3600) 3600) = h * 3600"
    "unat (sat_mul ((rem mod 3600) div 60) 60) = m * 60"
    using b by (subst unat_sat_exact; simp add: u)+
  with b show ?thesis
    by (simp add: word_unat_eq_iff unat_sat_exact u n_def)
qed

lemma i64_self: "0 \<le> k \<Longrightarrow> k < 2 ^ 48 \<Longrightarrow> signed_take_bit (LENGTH(64) - Suc 0) k = (k :: int)"
  by (rule signed_take_bit_int_eq_self) simp_all

lemma parse_format_time [simp]: "parse_time (format_time seconds) = Some seconds"
proof -
  define days where "days = sint (seconds div 86400)"
  have u: "unat (seconds div 86400) < 2 ^ 48"
    using unat_lt_64 [of seconds] by (simp add: unat_div)
  then have "int (unat (seconds div 86400)) < int (2 ^ 48)"
    by (simp only: of_nat_less_iff)
  then have v: "uint (seconds div 86400) < 2 ^ 48" by simp
  from v have si: "days = int (unat (seconds div 86400))"
    unfolding days_def sint_uint by (subst i64_self) simp_all
  then have d: "0 \<le> days" "days < 2 ^ 48" "word_of_int days = seconds div 86400"
    using v by simp_all
  obtain year month day where c: "civil_from_days days = (year, month, day)"
    by (cases "civil_from_days days") auto
  note r = days_from_civil_from_days [OF d(1,2) c]
  show ?thesis
    unfolding format_time_def Let_def days_def [symmetric] c prod.case
    by (subst parse_time_text) (use r d(3) seconds_of_day [of seconds] in simp_all)
qed

lemma format_time_inject [simp]: "format_time a = format_time b \<longleftrightarrow> a = b"
  by (metis option.inject parse_format_time)

end
