(* ===== verification/Reader_Guarantees.thy ===== *)
theory Reader_Guarantees
  imports Reader_Samples Clock
begin

text \<open>
  What the readers of captured documents and the clock guarantee: the JSON reader is total, bounded and
  inverse to a printer; an accepted snapshot, event journal or
  association satisfies the contract that the store and the read API rest on; times are read
  back as they were written.
\<close>

subsection \<open>The JSON reader\<close>

text \<open>
  C1. A well-formed value within the nesting and item bounds, printed as JSON with every control
  character, quote and backslash escaped, is read back as the same value.
\<close>

theorem json_reads_back:
  assumes "json_wf v" "json_within MAX_DEPTH v" "json_items v \<le> JSON_MAX_ITEMS"
  shows "json_parse (json_print v) = Inr v"
  by (rule json_parse_print_within [OF assms])

theorem json_reads_back_witness:
  "json_parse (json_print (JObject [(''k'', JArray [JNumber 7, JString [CHR 0x0A]])])) =
     Inr (JObject [(''k'', JArray [JNumber 7, JString [CHR 0x0A]])])"
proof (rule json_reads_back)
  show "json_wf (JObject [(''k'', JArray [JNumber 7, JString [CHR 0x0A]])])" by code_simp
qed (simp_all add: MAX_DEPTH_def JSON_MAX_ITEMS_def)

text \<open>
  C2. Whatever the bytes, the reader returns a value or an error: neither the recursion over values
  nor the loop over the bytes of a string ever exhausts the fuel that the model starts it with, so
  every turn of either has consumed input.
\<close>

theorem json_reader_returns: "json_parse_step input \<noteq> NoFuel"
  by (rule json_run_fuel)

text \<open>
  C3. Every value that the reader accepts has UTF-8 strings and unique keys per object, nests at most
  \<open>MAX_DEPTH\<close> deep and has at most \<open>JSON_MAX_ITEMS\<close> elements and fields in all.
\<close>

theorem json_accepted_is_bounded:
  assumes "json_parse input = Inr v"
  shows "json_wf v \<and> json_within MAX_DEPTH v \<and> json_items v \<le> JSON_MAX_ITEMS"
  by (rule json_parse_InrD [OF assms])

theorem json_accepted_is_bounded_witness:
  "json_wf (JArray [JNull]) \<and> json_within MAX_DEPTH (JArray [JNull])
     \<and> json_items (JArray [JNull]) \<le> JSON_MAX_ITEMS"
  by (rule json_accepted_is_bounded [OF json_parse_print_within])
     (simp_all add: MAX_DEPTH_def JSON_MAX_ITEMS_def)

text \<open>
  C4. An accepted \<open>\u\<close> escape consumed exactly four hexadecimal digits and denotes a
  Unicode scalar value, whose UTF-8 encoding is what the string receives: surrogates are refused,
  and so is every other character in the place of a digit, whose sentinel value overflows.
\<close>

theorem unicode_escape_is_scalar:
  assumes "rest p = CHR ''u'' # r" "escape p = Done bs q"
  shows "list_all (\<lambda>c. ascii_hexdigit (bv c)) (take 4 r) \<and> 4 \<le> length r \<and> rest q = drop 4 r
    \<and> (\<exists>c. scalar_value c \<and> bs = encode_char c)"
  by (rule escape_unicode [OF assms])

theorem unicode_escape_is_scalar_witness:
  "list_all (\<lambda>c. ascii_hexdigit (bv c)) (take 4 ''0041z'') \<and> 4 \<le> length ''0041z''
    \<and> rest \<lparr>rest = ''z'', depth = 0, items = 0\<rparr> = drop 4 ''0041z''
    \<and> (\<exists>c. scalar_value c \<and> ''A'' = encode_char c)"
  by (rule unicode_escape_is_scalar [OF _ escape_sample]) simp

subsection \<open>Snapshots, events and associations\<close>

text \<open>
  C6. An accepted snapshot has 1 to 128 components that are numbered in order and have distinct
  identifiers; content references and digests are there exactly where the status asks for content;
  the mapping names only components of the snapshot; the completeness flag, the reasons, the
  capture mode and the statuses agree; and the input was at most 1 MiB.
\<close>

theorem accepted_snapshot_is_well_formed:
  assumes "snapshot_parse input = Inr s"
  shows "snapshot_wf s \<and> sn_raw_len s = length input \<and> length input \<le> MAX_SNAPSHOT_BYTES"
  by (rule snapshot_parse_wf [OF assms])

theorem accepted_snapshot_is_well_formed_witness:
  "snapshot_wf sample_snapshot_value \<and> sn_raw_len sample_snapshot_value = length sample_snapshot
     \<and> length sample_snapshot \<le> MAX_SNAPSHOT_BYTES"
  by (rule accepted_snapshot_is_well_formed [OF sample_snapshot_parsed])

text \<open>
  C7. An accepted event journal is the list of the events on its non-blank lines, in order, each
  parsed on its own; every event is well formed and carries the details its type requires; and
  there are at most 256 of them.
\<close>

theorem event_journal_is_its_lines:
  assumes "parse_event_lines input = Inr es"
  shows "list_all2 (\<lambda>l e. parse_event l = Inr e)
      (filter (\<lambda>l. l \<noteq> []) (map trim_ascii_whitespace (split_on (CHR 0x0A) input))) es
    \<and> list_all event_wf es \<and> length es \<le> MAX_EVENT_LINES"
  using assms event_lines_loop_inv [of "[]" "split_on (CHR 0x0A) input" es]
  by (simp add: parse_event_lines_def list_all_iff split: if_splits)

theorem event_journal_is_its_lines_witness:
  "list_all2 (\<lambda>l e. parse_event l = Inr e)
      (filter (\<lambda>l. l \<noteq> []) (map trim_ascii_whitespace (split_on (CHR 0x0A) sample_event)))
      [sample_event_value]
    \<and> list_all event_wf [sample_event_value] \<and> length [sample_event_value] \<le> MAX_EVENT_LINES"
  by (rule event_journal_is_its_lines [OF sample_journal])

text \<open>
  C8. The context of an accepted association is all or nothing: an available context names every
  identity and a positive plan epoch, any other availability names none of them.
\<close>

theorem accepted_association_is_well_formed:
  assumes "association_parse input = Inr a"
  shows "association_wf a"
  by (rule association_parse_wf [OF assms])

theorem accepted_association_is_well_formed_witness: "association_wf sample_association_value"
  by (rule accepted_association_is_well_formed [OF sample_association_parsed])

subsection \<open>Times\<close>

text \<open>C9. Every time that the control plane writes is read back exactly, for every \<open>u64\<close>.\<close>

theorem time_reads_back: "parse_time (format_time seconds) = Some seconds"
  by (rule parse_format_time)

text \<open>
  C10. The two calendar conversions agree on every day from 1970 on: the date of a day has a month
  from 1 to 12 and a day from 1 to 31, and it is converted back to that day.
\<close>

theorem calendar_inverse:
  assumes "0 \<le> days" "days < 2 ^ 48" "civil_from_days days = (year, month, day)"
  shows "days_from_civil year month day = Some days \<and> 1 \<le> month \<and> month \<le> 12 \<and> 1 \<le> day \<and> day \<le> 31"
  using days_from_civil_from_days [OF assms] by simp

theorem calendar_inverse_witness:
  "days_from_civil 1970 1 1 = Some 0 \<and> (1::int) \<le> 1 \<and> (1::int) \<le> 12 \<and> (1::int) \<le> 1 \<and> (1::int) \<le> 31"
  by (rule calendar_inverse) (simp, simp, code_simp)

end
