(* ===== verification/Btree_Map.thy ===== *)
theory Btree_Map
  imports Prelude "HOL-Library.Multiset"
begin

text \<open>
  Rust's \<open>BTreeMap\<close>: a finite map iterated in the order of its keys. It is the subtype of the
  association lists whose keys increase strictly, so an equality of maps is an equality of
  their contents, \<open>values()\<close> has the order of the source, and every operation evaluates.
\<close>

fun list_put :: "'k::linorder \<Rightarrow> 'v \<Rightarrow> ('k \<times> 'v) list \<Rightarrow> ('k \<times> 'v) list" where
  "list_put k v [] = [(k, v)]"
| "list_put k v ((k', v') # m) =
     (if k < k' then (k, v) # (k', v') # m
      else if k = k' then (k, v) # m
      else (k', v') # list_put k v m)"

lemma fst_list_put: "fst ` set (list_put k v m) = insert k (fst ` set m)"
  by (induction m rule: list_put.induct) auto

lemma sorted_list_put:
  "sorted_wrt (<) (map fst m) \<Longrightarrow> sorted_wrt (<) (map fst (list_put k v m))"
proof (induction k v m rule: list_put.induct)
  case (2 k v k' v' m)
  then show ?case using fst_list_put [of k v m] by (auto simp: image_iff)
qed simp

lemma map_of_list_put: "map_of (list_put k v m) = (map_of m)(k \<mapsto> v)"
  by (induction k v m rule: list_put.induct) (auto simp: fun_eq_iff)

lemma sorted_map_of_eqI:
  assumes "sorted_wrt (<) (map fst xs)" "sorted_wrt (<) (map fst ys)" "map_of xs = map_of ys"
  shows "xs = (ys :: ('k::linorder \<times> 'v) list)"
proof -
  have d: "distinct (map fst xs)" "distinct (map fst ys)"
    using assms strict_sorted_iff by blast+
  have "set xs = set ys"
    using map_of_eq_Some_iff [OF d(1)] map_of_eq_Some_iff [OF d(2)] assms(3) by auto
  moreover have "sorted (map fst xs)" "sorted (map fst ys)"
    using assms strict_sorted_iff by blast+
  ultimately show ?thesis
    using d map_sorted_distinct_set_unique [of fst xs ys]
    by (metis (no_types, lifting) distinct_map inf_sup_aci(5) sup.idem)
qed

typedef (overloaded) ('k::linorder, 'v) btree =
  "{m :: ('k \<times> 'v) list. sorted_wrt (<) (map fst m)}"
  morphisms bt_entries Btree
  by (rule exI [of _ "[]"]) simp

setup_lifting type_definition_btree

lift_definition bt_empty :: "('k::linorder, 'v) btree" is "[]"
  by simp

lift_definition bt_get :: "('k::linorder, 'v) btree \<Rightarrow> 'k \<Rightarrow> 'v option" is map_of .

lift_definition bt_insert :: "'k::linorder \<Rightarrow> 'v \<Rightarrow> ('k, 'v) btree \<Rightarrow> ('k, 'v) btree"
  is list_put by (rule sorted_list_put)

text \<open>\<open>values_mut\<close>: the function changes the values in place.\<close>

lift_definition bt_map :: "('v \<Rightarrow> 'v) \<Rightarrow> ('k::linorder, 'v) btree \<Rightarrow> ('k, 'v) btree"
  is "\<lambda>f. map (\<lambda>(k, v). (k, f v))"
  by (simp add: split_beta comp_def)

definition bt_values :: "('k::linorder, 'v) btree \<Rightarrow> 'v list" where
  "bt_values m = map snd (bt_entries m)"

definition bt_len :: "('k::linorder, 'v) btree \<Rightarrow> nat" where
  "bt_len m = length (bt_entries m)"

definition bt_contains :: "('k::linorder, 'v) btree \<Rightarrow> 'k \<Rightarrow> bool" where
  "bt_contains m k \<longleftrightarrow> bt_get m k \<noteq> None"

text \<open>\<open>get_mut\<close> followed by an assignment through the reference.\<close>

definition bt_update :: "'k::linorder \<Rightarrow> ('v \<Rightarrow> 'v) \<Rightarrow> ('k, 'v) btree \<Rightarrow> ('k, 'v) btree" where
  "bt_update k f m = (case bt_get m k of Some v \<Rightarrow> bt_insert k (f v) m | None \<Rightarrow> m)"

lemma bt_get_empty [simp]: "bt_get bt_empty k = None"
  by transfer simp

lemma bt_get_insert [simp]: "bt_get (bt_insert k v m) k' = (if k' = k then Some v else bt_get m k')"
  by transfer (simp add: map_of_list_put)

lemma bt_get_map [simp]: "bt_get (bt_map f m) k = map_option f (bt_get m k)"
  by transfer (simp add: map_of_map)

lemma bt_get_update [simp]:
  "bt_get (bt_update k f m) k' = (if k' = k then map_option f (bt_get m k) else bt_get m k')"
  by (auto simp: bt_update_def split: option.splits)

lemma bt_eqI: "(\<And>k. bt_get m k = bt_get n k) \<Longrightarrow> m = n"
  proof -
  assume "\<And>k. bt_get m k = bt_get n k"
  then have "map_of (bt_entries m) = map_of (bt_entries n)"
    by (simp add: bt_get.rep_eq fun_eq_iff)
  then show "m = n"
    using sorted_map_of_eqI [of "bt_entries m" "bt_entries n"] bt_entries [of m] bt_entries [of n]
    by (simp add: bt_entries_inject)
qed

lemma bt_distinct: "distinct (map fst (bt_entries m))"
  by transfer (use strict_sorted_iff in blast)

lemma bt_sorted: "sorted_wrt (<) (map fst (bt_entries m))"
  using bt_entries [of m] by simp

lemma bt_entries_iff: "(k, v) \<in> set (bt_entries m) \<longleftrightarrow> bt_get m k = Some v"
  using map_of_eq_Some_iff [OF bt_distinct] by (metis bt_get.rep_eq)

lemma bt_values_iff: "v \<in> set (bt_values m) \<longleftrightarrow> (\<exists>k. bt_get m k = Some v)"
  by (force simp: bt_values_def simp flip: bt_entries_iff)

lemma bt_entries_empty [simp]: "bt_entries bt_empty = []"
  by transfer simp

lemma bt_values_empty [simp]: "bt_values bt_empty = []"
  by (simp add: bt_values_def)

lemma bt_entries_insert: "bt_entries (bt_insert k v m) = list_put k v (bt_entries m)"
  by transfer simp

lemma bt_entries_map: "bt_entries (bt_map f m) = map (\<lambda>(k, v). (k, f v)) (bt_entries m)"
  by transfer simp

lemma bt_values_map: "bt_values (bt_map f m) = map f (bt_values m)"
  by (simp add: bt_values_def bt_entries_map comp_def split_beta)

lemma bt_len_empty [simp]: "bt_len bt_empty = 0"
  by (simp add: bt_len_def)

lemma bt_len_map [simp]: "bt_len (bt_map f m) = bt_len m"
  by (simp add: bt_len_def bt_entries_map)

lemma length_list_put:
  "sorted_wrt (<) (map fst m) \<Longrightarrow>
   length (list_put k v m) = (if k \<in> fst ` set m then length m else Suc (length m))"
proof (induction k v m rule: list_put.induct)
  case (2 k v k' v' m)
  then have "\<forall>x\<in>fst ` set m. k' < x" by auto
  with 2 show ?case by (cases k k' rule: linorder_cases) auto
qed simp

lemma bt_len_insert:
  "bt_len (bt_insert k v m) = (if bt_contains m k then bt_len m else Suc (bt_len m))"
proof -
  have "k \<in> fst ` set (bt_entries m) \<longleftrightarrow> bt_contains m k"
    by (force simp: bt_contains_def simp flip: bt_entries_iff)
  then show ?thesis
    by (simp add: bt_len_def bt_entries_insert length_list_put bt_sorted)
qed

lemma bt_contains_get: "bt_contains m k \<longleftrightarrow> (\<exists>v. bt_get m k = Some v)"
  by (auto simp: bt_contains_def)

lemma mset_list_put:
  "k \<notin> fst ` set m \<Longrightarrow> mset (map snd (list_put k v m)) = add_mset v (mset (map snd m))"
  by (induction k v m rule: list_put.induct) auto

lemma mset_bt_values_insert:
  assumes "bt_get m k = None"
  shows "mset (bt_values (bt_insert k v m)) = add_mset v (mset (bt_values m))"
proof -
  have "k \<notin> fst ` set (bt_entries m)"
  proof
    assume "k \<in> fst ` set (bt_entries m)"
    then obtain v where "(k, v) \<in> set (bt_entries m)" by auto
    then show False using assms by (simp add: bt_entries_iff)
  qed
  then show ?thesis
    by (simp add: bt_values_def bt_entries_insert mset_list_put del: mset_map)
qed

instantiation btree :: (linorder, type) equal
begin

definition equal_btree :: "('a, 'b) btree \<Rightarrow> ('a, 'b) btree \<Rightarrow> bool" where
  "equal_btree m n \<longleftrightarrow> bt_entries m = bt_entries n"

instance
  by standard (simp add: equal_btree_def bt_entries_inject)

end

end
