(* ===== verification/Control_Types.thy ===== *)
theory Control_Types
  imports Json_Access Btree_Map Clock
begin

text \<open>
  The records of the context control plane (\<open>context-service/src/control/types.rs\<close> and
  \<open>state/models.rs\<close>), with one field prefix per struct: \<open>sc_\<close> scope, \<open>ir_\<close> item
  reference, \<open>bd_\<close> boundary, \<open>dr_\<close> draft, \<open>pt_\<close> patch, \<open>pc_\<close> preview
  component, \<open>pv_\<close> preview, \<open>cm_\<close> command, \<open>rc_\<close> receipt, \<open>st_\<close> state,
  \<open>rv_\<close> revision, \<open>cv_\<close> control event, \<open>rl_\<close> relation, \<open>cap_\<close>
  capabilities, \<open>it_\<close> registry item, \<open>el_\<close> eligible item, \<open>mt_\<close> prepared
  material, \<open>prr_\<close> preview record, \<open>mb_\<close> memory binding.
\<close>

definition DRAFT_SCHEMA :: string where "DRAFT_SCHEMA = ''ascension.context-control.draft.v1''"
definition PATCH_SCHEMA :: string where "PATCH_SCHEMA = ''ascension.context-control.patch.v1''"
definition PREVIEW_SCHEMA :: string where "PREVIEW_SCHEMA = ''ascension.context-control.preview.v1''"
definition COMMAND_SCHEMA :: string where "COMMAND_SCHEMA = ''ascension.context-control.command.v1''"
definition RECEIPT_SCHEMA :: string where "RECEIPT_SCHEMA = ''ascension.context-control.receipt.v1''"
definition STATE_SCHEMA :: string where "STATE_SCHEMA = ''ascension.context-control.state.v1''"
definition REVISION_SCHEMA :: string where
  "REVISION_SCHEMA = ''ascension.context-control.revision.v1''"
definition EVENT_SCHEMA :: string where "EVENT_SCHEMA = ''ascension.context-control.event.v1''"
definition RELATION_SCHEMA :: string where
  "RELATION_SCHEMA = ''ascension.context-control.relation.v1''"
definition CAPABILITIES_SCHEMA :: string where
  "CAPABILITIES_SCHEMA = ''ascension.context-control.capabilities.v1''"
definition JOURNAL_SCHEMA :: string where "JOURNAL_SCHEMA = ''ascension.context-control.journal.v1''"
definition MEMORY_BINDING_SCHEMA :: string where
  "MEMORY_BINDING_SCHEMA = ''ascension.context-memory.binding.v1''"

definition MAX_ITEMS :: nat where "MAX_ITEMS = 64"
definition MAX_NOTES :: nat where "MAX_NOTES = 16"
definition MAX_OPERATIONS :: nat where "MAX_OPERATIONS = 32"
definition MAX_NOTE_BYTES :: nat where "MAX_NOTE_BYTES = 4096"
definition MAX_OBJECTIVE_BYTES :: nat where "MAX_OBJECTIVE_BYTES = 512"
definition MAX_TOTAL_NOTE_BYTES :: nat where "MAX_TOTAL_NOTE_BYTES = 32768"
definition MAX_COMPONENT_BYTES :: nat where "MAX_COMPONENT_BYTES = 131072"
definition MAX_EVENTS :: nat where "MAX_EVENTS = 4096"

lemmas control_bounds = MAX_ITEMS_def MAX_NOTES_def MAX_OPERATIONS_def MAX_NOTE_BYTES_def
  MAX_OBJECTIVE_BYTES_def MAX_TOTAL_NOTE_BYTES_def MAX_COMPONENT_BYTES_def MAX_EVENTS_def

subsection \<open>Errors and identifiers\<close>

text \<open>
  \<open>ControlError\<close>; its three constructors \<open>invalid\<close>, \<open>forbidden\<close> and \<open>conflict\<close>
  build the same record.
\<close>

record control_error =
  err_code :: string
  err_message :: string

definition control_error :: "string \<Rightarrow> string \<Rightarrow> control_error" where
  "control_error code message = \<lparr>err_code = code, err_message = message\<rparr>"

text \<open>\<open>valid_id\<close> of the control types checks bytes where \<open>is_identifier\<close> checks characters.\<close>

definition valid_id :: "string \<Rightarrow> bool" where
  "valid_id value \<longleftrightarrow>
     value \<noteq> [] \<and> length value \<le> 128
     \<and> list_all (\<lambda>(index, byte). ascii_alphanumeric (bv byte)
          \<or> 0 < index \<and> bv byte \<in> {46, 95, 58, 45}) (enumerate 0 value)"

definition valid_digest :: "string \<Rightarrow> bool" where
  "valid_digest value \<longleftrightarrow>
     length value = 64 \<and> list_all (\<lambda>b. ascii_hexdigit (bv b)) value
     \<and> list_all (\<lambda>b. \<not> ascii_upper (bv b)) value"

lemma valid_id_bytes: "valid_id s \<longleftrightarrow> id_bytes s"
  by (simp add: valid_id_def id_bytes_scan id_char_def)

subsection \<open>Scopes and item references\<close>

record scope =
  sc_project_id :: string
  sc_run_id :: string
  sc_episode_id :: string
  sc_agent_id :: string

definition scope_new :: "string \<Rightarrow> string \<Rightarrow> string \<Rightarrow> string \<Rightarrow> control_error + scope" where
  "scope_new project run episode agent =
     (if list_all valid_id [project, run, episode, agent]
      then Inr \<lparr>sc_project_id = project, sc_run_id = run, sc_episode_id = episode,
                sc_agent_id = agent\<rparr>
      else Inl (control_error ''invalid_scope'' ''scope identifier is invalid''))"

record item_ref =
  ir_item_id :: string
  ir_version :: u64
  ir_sha256 :: string

definition item_ref_valid :: "item_ref \<Rightarrow> bool" where
  "item_ref_valid r \<longleftrightarrow>
     valid_id (ir_item_id r) \<and> ir_version r > 0 \<and> length (ir_sha256 r) = 64
     \<and> list_all (\<lambda>b. ascii_hexdigit (bv b)) (ir_sha256 r)
     \<and> list_all (\<lambda>b. \<not> ascii_upper (bv b)) (ir_sha256 r)"

record memory_binding =
  mb_schema :: string
  mb_binding_id :: string
  mb_phase2_revision_id :: string
  mb_phase2_preview_id :: string
  mb_policy_id :: string
  mb_policy_version :: u64
  mb_selection_sha256 :: string
  mb_audit_sha256 :: string

definition memory_binding_validate :: "memory_binding \<Rightarrow> control_error + unit" where
  "memory_binding_validate b =
     (if mb_schema b \<noteq> MEMORY_BINDING_SCHEMA
       \<or> \<not> valid_id (mb_binding_id b) \<or> \<not> valid_id (mb_phase2_revision_id b)
       \<or> \<not> valid_id (mb_phase2_preview_id b) \<or> \<not> valid_id (mb_policy_id b)
       \<or> mb_policy_version b = 0
       \<or> \<not> valid_digest (mb_selection_sha256 b) \<or> \<not> valid_digest (mb_audit_sha256 b)
      then Inl (control_error ''invalid_memory_binding'' ''memory binding metadata is invalid'')
      else Inr ())"

subsection \<open>Boundaries\<close>

record boundary =
  bd_scope :: scope
  bd_state_id :: string
  bd_generation :: u64
  bd_observation_sha256 :: string
  bd_catalog_sha256 :: string
  bd_controller_epoch :: u64
  bd_gate_epoch :: u64
  bd_control_version :: u64
  bd_lease_epoch :: u64
  bd_adapter_revision :: string
  bd_adapter_sha256 :: string
  bd_model :: string
  bd_configuration_sha256 :: string
  bd_output_schema_sha256 :: string
  bd_capabilities_sha256 :: string
  bd_authorization_policy_version :: string

text \<open>Every part of the boundary but \<open>control_version\<close>.\<close>

definition same_external_boundary :: "boundary \<Rightarrow> boundary \<Rightarrow> bool" where
  "same_external_boundary left right \<longleftrightarrow>
     bd_scope left = bd_scope right
     \<and> bd_state_id left = bd_state_id right
     \<and> bd_generation left = bd_generation right
     \<and> bd_observation_sha256 left = bd_observation_sha256 right
     \<and> bd_catalog_sha256 left = bd_catalog_sha256 right
     \<and> bd_controller_epoch left = bd_controller_epoch right
     \<and> bd_gate_epoch left = bd_gate_epoch right
     \<and> bd_lease_epoch left = bd_lease_epoch right
     \<and> bd_adapter_revision left = bd_adapter_revision right
     \<and> bd_adapter_sha256 left = bd_adapter_sha256 right
     \<and> bd_model left = bd_model right
     \<and> bd_configuration_sha256 left = bd_configuration_sha256 right
     \<and> bd_output_schema_sha256 left = bd_output_schema_sha256 right
     \<and> bd_capabilities_sha256 left = bd_capabilities_sha256 right
     \<and> bd_authorization_policy_version left = bd_authorization_policy_version right"

subsection \<open>Drafts, patches and previews\<close>

record draft =
  dr_schema :: string
  dr_scope :: scope
  dr_draft_id :: string
  dr_version :: u64
  dr_base_revision_id :: string
  dr_selected_items :: "item_ref list"
  dr_pinned_item_ids :: "string list"
  dr_note_items :: "item_ref list"
  dr_objective_item :: "item_ref option"
  dr_author_ref :: string
  dr_expires_at :: string

datatype operation =
  IncludeItem item_ref
  | ExcludeItem item_ref
  | PinItem item_ref
  | UnpinItem item_ref
  | PutNote string "u64 option" string string
  | RemoveNote string u64
  | SetObjective string
  | RestoreConfiguration string

record patch =
  pt_schema :: string
  pt_scope :: scope
  pt_draft_id :: string
  pt_expected_draft_version :: u64
  pt_expected_active_revision_id :: string
  pt_operations :: "operation list"

record preview_component =
  pc_component_id :: string
  pc_ordinal :: u64
  pc_kind :: string
  pc_sha256 :: string
  pc_bytes :: nat
  pc_protected :: bool
  pc_content_ref :: string

record preview =
  pv_schema :: string
  pv_preview_id :: string
  pv_scope :: scope
  pv_draft_id :: string
  pv_draft_version :: u64
  pv_base_revision_id :: string
  pv_boundary :: boundary
  pv_applicable :: bool
  pv_blockers :: "string list"
  pv_prepared_manifest_sha256 :: "string option"
  pv_components :: "preview_component list"
  pv_selected_items :: "item_ref list"
  pv_budget_status :: string
  pv_unknown_total_risk_acknowledged :: bool
  pv_provider_added_context :: string
  pv_model_execution_id :: "string option"
  pv_provider_attempt_id :: "string option"
  pv_expires_at :: string
  pv_effect_class :: string

record prepared_material =
  mt_input :: bytes
  mt_schema :: bytes
  mt_configuration :: bytes
  mt_components :: "preview_component list"
  mt_manifest_sha256 :: string

record preview_record =
  prr_preview :: preview
  prr_material :: "prepared_material option"
  prr_consumed :: bool

subsection \<open>Commands, receipts, state and history\<close>

record command =
  cm_schema :: string
  cm_scope :: scope
  cm_idempotency_key :: string
  cm_command_window_id :: string
  cm_expected_control_version :: u64
  cm_kind :: string
  cm_expected_active_revision_id :: "string option"
  cm_preview_id :: "string option"
  cm_approved_manifest_sha256 :: "string option"
  cm_expected_preview_id :: "string option"

record receipt =
  rc_schema :: string
  rc_command_id :: string
  rc_scope :: scope
  rc_kind :: string
  rc_status :: string
  rc_effect :: string
  rc_control_version :: u64
  rc_active_revision_id :: string
  rc_paused :: bool
  rc_reason_code :: "string option"
  rc_observed_at :: string

record control_state =
  st_schema :: string
  st_scope :: scope
  st_status :: string
  st_control_version :: u64
  st_controller_epoch :: u64
  st_gate_epoch :: u64
  st_plan_epoch :: u64
  st_active_revision_id :: string
  st_pause_latched :: bool
  st_stop_latched :: bool
  st_outstanding_provider_attempts :: "string list"
  st_unresolved_operations :: "string list"
  st_boundary :: "boundary option"
  st_command_window_id :: string
  st_command_window_expires_at :: string
  st_last_sequence :: u64

record revision =
  rv_schema :: string
  rv_scope :: scope
  rv_revision_id :: string
  rv_sequence :: u64
  rv_parent_revision_id :: string
  rv_selected_items :: "item_ref list"
  rv_pinned_item_ids :: "string list"
  rv_note_items :: "item_ref list"
  rv_objective_item :: "item_ref option"
  rv_approved_preview_id :: string
  rv_approved_manifest_sha256 :: string
  rv_author_ref :: string
  rv_intervention_id :: string
  rv_committed_at :: string
  rv_plan_epoch :: u64
  rv_state_after_commit :: string

record control_event =
  cv_schema :: string
  cv_event_id :: string
  cv_scope :: scope
  cv_sequence :: u64
  cv_event_type :: string
  cv_command_id :: "string option"
  cv_revision_id :: "string option"
  cv_preview_id :: "string option"
  cv_phase1_snapshot_id :: "string option"
  cv_model_execution_id :: "string option"
  cv_provider_attempt_id :: "string option"
  cv_action_id :: "string option"
  cv_reason_code :: "string option"
  cv_observed_at :: string

record relation =
  rl_schema :: string
  rl_scope :: scope
  rl_relation_id :: string
  rl_revision_id :: string
  rl_preview_id :: "string option"
  rl_phase1_snapshot_id :: string
  rl_model_execution_id :: string
  rl_provider_attempt_id :: string
  rl_plan_id :: "string option"
  rl_action_id :: "string option"
  rl_intervention_id :: "string option"
  rl_first_approved_input :: bool
  rl_evidence :: string

record capabilities =
  cap_schema :: string
  cap_product_phase :: nat
  cap_scope :: scope
  cap_enabled :: bool
  cap_adapter_revision :: string
  cap_supported_operations :: "string list"
  cap_exact_application_preview :: string
  cap_optional_images :: string
  cap_durable_control_store :: string
  cap_provider_added_context :: string
  cap_context_compact :: bool
  cap_persistent_provider_sessions :: bool
  cap_direct_game_dispatch :: bool
  cap_commit_auto_resumes :: bool

record eligible_item =
  el_item :: item_ref
  el_kind :: string
  el_protected :: bool
  el_scope :: scope
  el_content_available :: bool
  el_bytes :: nat
  el_expires_at :: string
  el_locked_reason :: "string option"
  el_content :: "string option"

record item_record =
  it_item :: item_ref
  it_kind :: string
  it_protected :: bool
  it_scope :: scope
  it_content :: bytes
  it_expires_at :: u64
  it_expires_text :: string
  it_locked_reason :: "string option"

subsection \<open>Facts about identifiers and references\<close>

lemma scope_new_Inr:
  "scope_new a b c d = Inr s \<Longrightarrow>
     s = \<lparr>sc_project_id = a, sc_run_id = b, sc_episode_id = c, sc_agent_id = d\<rparr>
     \<and> valid_id a \<and> valid_id b \<and> valid_id c \<and> valid_id d"
  by (auto simp: scope_new_def split: if_splits)

lemma item_ref_valid_digest:
  "item_ref_valid r \<longleftrightarrow> valid_id (ir_item_id r) \<and> ir_version r > 0 \<and> valid_digest (ir_sha256 r)"
  by (auto simp: item_ref_valid_def valid_digest_def)

lemma valid_digest_hex: "length bs = 32 \<Longrightarrow> valid_digest (hex_bytes bs)"
  using lower_hex_hex_bytes [of bs]
  by (simp add: valid_digest_def lower_hex_def list_all_iff)

lemma same_external_boundary_refl [simp]: "same_external_boundary b b"
  by (simp add: same_external_boundary_def)

end
