(* ===== verification/Control_Render.thy ===== *)
theory Control_Render
  imports Control_Types
begin

text \<open>
  The pure preparation of a provider input (\<open>control/render.rs\<close>) and the documents that are
  hashed. Two functions come from outside the repository and are the fields of \<open>host\<close>:
  \<open>sha256\<close> (crate sha2, the 32 digest bytes) and \<open>to_vec\<close> (\<open>serde_json::to_vec\<close>, with
  \<open>None\<close> for its error). A document passed to \<open>to_vec\<close> is the literal of the \<open>json!\<close>
  call or the fields of the derived serializer, as a \<open>doc\<close>.
\<close>

datatype doc =
  DNull | DBool bool | DNum u64 | DStr string | DArr "doc list" | DObj "(string \<times> doc) list"

record host =
  sha256 :: "bytes \<Rightarrow> bytes"
  to_vec :: "doc \<Rightarrow> bytes option"

type_synonym registry = "(string \<times> u64, item_record) btree"

definition digest :: "host \<Rightarrow> bytes \<Rightarrow> string" where
  "digest h bs = hex_bytes (sha256 h bs)"

definition make_item_ref :: "host \<Rightarrow> string \<Rightarrow> u64 \<Rightarrow> bytes \<Rightarrow> item_ref" where
  "make_item_ref h item_id version content =
     \<lparr>ir_item_id = item_id, ir_version = version, ir_sha256 = digest h content\<rparr>"

definition OUTPUT_SCHEMA :: bytes where
  \<open>OUTPUT_SCHEMA = ''{"type":"object","properties":{"action_ids":{"type":"array","minItems":1,"maxItems":8,"items":{"type":"string"}},"rationale":{"type":"string","maxLength":512}},"required":["action_ids","rationale"],"additionalProperties":false}''\<close>

definition opt_doc :: "string option \<Rightarrow> doc" where
  "opt_doc o' = (case o' of Some s \<Rightarrow> DStr s | None \<Rightarrow> DNull)"

definition scope_doc :: "scope \<Rightarrow> doc" where
  "scope_doc s = DObj
     [(''project_id'', DStr (sc_project_id s)), (''run_id'', DStr (sc_run_id s)),
      (''episode_id'', DStr (sc_episode_id s)), (''agent_id'', DStr (sc_agent_id s))]"

definition component_doc :: "preview_component \<Rightarrow> doc" where
  "component_doc c = DObj
     [(''component_id'', DStr (pc_component_id c)), (''ordinal'', DNum (pc_ordinal c)),
      (''kind'', DStr (pc_kind c)), (''sha256'', DStr (pc_sha256 c)),
      (''bytes'', DNum (of_nat (pc_bytes c))), (''protected'', DBool (pc_protected c)),
      (''content_ref'', DStr (pc_content_ref c))]"

subsection \<open>The three parts of the draft\<close>

definition render_selected :: "registry \<Rightarrow> u64 \<Rightarrow> item_ref \<Rightarrow> string + doc" where
  "render_selected registry now item =
     and_then (ok_or (bt_get registry (ir_item_id item, ir_version item))
       (''unknown item '' @ ir_item_id item)) (\<lambda>r.
     and_then (ensure (it_item r = item) (''item digest mismatch for '' @ ir_item_id item)) (\<lambda>_.
     and_then (ensure (\<not> it_protected r)
       (''protected item '' @ ir_item_id item @ '' cannot be rendered as an edit'')) (\<lambda>_.
     and_then (ensure (\<not> (it_expires_at r \<le> now \<or> it_content r = []))
       (''item '' @ ir_item_id item @ '' is expired or unavailable'')) (\<lambda>_.
     and_then (ensure (is_utf8 (it_content r))
       (''item '' @ ir_item_id item @ '' is not UTF-8 text'')) (\<lambda>_.
     Inr (DObj [(''item_id'', DStr (ir_item_id item)), (''version'', DNum (ir_version item)),
                (''sha256'', DStr (ir_sha256 item)), (''kind'', DStr (it_kind r)),
                (''content'', DStr (it_content r))]))))))"

definition usable_text :: "string \<Rightarrow> registry \<Rightarrow> u64 \<Rightarrow> item_ref \<Rightarrow> string + string" where
  "usable_text e registry now item =
     and_then (ok_or (bt_get registry (ir_item_id item, ir_version item)) e) (\<lambda>r.
     and_then (ensure (\<not> (it_item r \<noteq> item \<or> it_protected r \<or> it_expires_at r \<le> now)) e) (\<lambda>_.
     and_then (ensure (is_utf8 (it_content r)) e) (\<lambda>_. Inr (it_content r))))"

definition render_objective :: "registry \<Rightarrow> u64 \<Rightarrow> item_ref option \<Rightarrow> string + string option" where
  "render_objective registry now o' =
     (case o' of
        None \<Rightarrow> Inr None
      | Some item \<Rightarrow>
          and_then (usable_text ''objective content is unavailable'' registry now item)
            (\<lambda>t. Inr (Some t)))"

definition render_note :: "registry \<Rightarrow> u64 \<Rightarrow> string \<Rightarrow> item_ref \<Rightarrow> string + doc" where
  "render_note registry now author item =
     and_then (usable_text ''note content is unavailable'' registry now item) (\<lambda>content.
     Inr (DObj [(''item_id'', DStr (ir_item_id item)), (''version'', DNum (ir_version item)),
                (''sha256'', DStr (ir_sha256 item)), (''attributed_to'', DStr author),
                (''content'', DStr content)]))"

subsection \<open>The documents\<close>

definition protected_doc :: "boundary \<Rightarrow> doc" where
  "protected_doc b = DObj
     [(''state_id'', DStr (bd_state_id b)), (''generation'', DNum (bd_generation b)),
      (''observation_sha256'', DStr (bd_observation_sha256 b)),
      (''catalog_sha256'', DStr (bd_catalog_sha256 b)),
      (''legal_actions'', DArr [DStr ''combat.end-turn'']),
      (''authority'', DStr ''harness-owned'')]"

definition input_doc :: "boundary \<Rightarrow> string option \<Rightarrow> doc list \<Rightarrow> doc list \<Rightarrow> doc" where
  "input_doc b objective notes selected = DObj
     [(''schema'', DStr ''ascension.context-control.prepared-input.v1''),
      (''profile'', DStr ''management-enabled''),
      (''scope'', scope_doc (bd_scope b)),
      (''protected_state'', protected_doc b),
      (''objective'', opt_doc objective),
      (''notes'', DArr notes),
      (''selected_items'', DArr selected),
      (''constraints'', DArr [DStr ''Use only visible state'', DStr ''Return only legal action IDs''])]"

definition configuration_doc :: "boundary \<Rightarrow> doc" where
  "configuration_doc b = DObj
     [(''profile'', DStr ''management-enabled/v1''),
      (''adapter_revision'', DStr (bd_adapter_revision b)),
      (''model'', DStr (bd_model b)),
      (''provider_added_context'', DStr ''not_exposed''),
      (''tools'', DArr []),
      (''credentials'', DStr ''excluded'')]"

definition manifest_doc :: "boundary \<Rightarrow> preview_component list \<Rightarrow> doc" where
  "manifest_doc b components = DObj
     [(''manifest_version'', DStr ''ascension.context-control.prepared-material.v1''),
      (''adapter_revision'', DStr (bd_adapter_revision b)),
      (''model'', DStr (bd_model b)),
      (''configuration_sha256'', DStr (bd_configuration_sha256 b)),
      (''output_schema_sha256'', DStr (bd_output_schema_sha256 b)),
      (''components'', DArr (map component_doc components))]"

definition component_of ::
  "host \<Rightarrow> string \<Rightarrow> u64 \<Rightarrow> string \<Rightarrow> bytes \<Rightarrow> bool \<Rightarrow> string \<Rightarrow> preview_component" where
  "component_of h component_id ordinal kind bs protect content_ref =
     \<lparr>pc_component_id = component_id, pc_ordinal = ordinal, pc_kind = kind,
      pc_sha256 = digest h bs, pc_bytes = length bs, pc_protected = protect,
      pc_content_ref = content_ref\<rparr>"

definition render_components ::
  "host \<Rightarrow> string \<Rightarrow> bytes \<Rightarrow> bytes \<Rightarrow> preview_component list" where
  "render_components h preview_id input configuration =
     [component_of h (''input-'' @ preview_id) 0 ''stdin'' input False
        (''prepared-input-'' @ preview_id),
      component_of h (''schema-'' @ preview_id) 1 ''output_schema'' OUTPUT_SCHEMA True
        (''output-schema-'' @ preview_id),
      component_of h (''configuration-'' @ preview_id) 2 ''configuration'' configuration True
        (''configuration-'' @ preview_id)]"

definition render ::
  "host \<Rightarrow> string \<Rightarrow> boundary \<Rightarrow> draft \<Rightarrow> registry \<Rightarrow> u64 \<Rightarrow> string + prepared_material" where
  "render h preview_id b d registry now =
     and_then (collect_results (render_selected registry now) (dr_selected_items d)) (\<lambda>selected.
     and_then (render_objective registry now (dr_objective_item d)) (\<lambda>objective.
     and_then (collect_results (render_note registry now (dr_author_ref d)) (dr_note_items d)) (\<lambda>notes.
     and_then (ok_or (to_vec h (input_doc b objective notes selected))
       ''input encoding failed'') (\<lambda>input.
     and_then (ok_or (to_vec h (configuration_doc b)) ''configuration encoding failed'') (\<lambda>configuration.
     and_then (ensure (length input \<le> MAX_COMPONENT_BYTES) ''mandatory_budget_exceeded'') (\<lambda>_.
     and_then (ok_or (to_vec h (manifest_doc b
         (render_components h preview_id input configuration))) ''manifest encoding failed'')
       (\<lambda>manifest.
     Inr \<lparr>mt_input = input, mt_schema = OUTPUT_SCHEMA, mt_configuration = configuration,
          mt_components = render_components h preview_id input configuration,
          mt_manifest_sha256 = digest h manifest\<rparr>)))))))"

subsection \<open>The document of a command\<close>

text \<open>
  The derived serializer of \<open>Command\<close>: the fields in order, the optional ones only when they
  are present.
\<close>

definition present_field :: "string \<Rightarrow> string option \<Rightarrow> (string \<times> doc) list" where
  "present_field name v = (case v of Some s \<Rightarrow> [(name, DStr s)] | None \<Rightarrow> [])"

definition command_doc :: "command \<Rightarrow> doc" where
  "command_doc c = DObj
     ([(''schema'', DStr (cm_schema c)), (''scope'', scope_doc (cm_scope c)),
       (''idempotency_key'', DStr (cm_idempotency_key c)),
       (''command_window_id'', DStr (cm_command_window_id c)),
       (''expected_control_version'', DNum (cm_expected_control_version c)),
       (''kind'', DStr (cm_kind c))]
      @ present_field ''expected_active_revision_id'' (cm_expected_active_revision_id c)
      @ present_field ''preview_id'' (cm_preview_id c)
      @ present_field ''approved_manifest_sha256'' (cm_approved_manifest_sha256 c)
      @ present_field ''expected_preview_id'' (cm_expected_preview_id c))"

subsection \<open>What a rendered input is made of\<close>

text \<open>What the model asks of the digest and of the encoder.\<close>

definition digest_ok :: "host \<Rightarrow> bool" where
  "digest_ok h \<longleftrightarrow> (\<forall>bs. length (sha256 h bs) = 32)"

lemma valid_digest_digest: "digest_ok h \<Longrightarrow> valid_digest (digest h bs)"
  by (simp add: digest_def digest_ok_def valid_digest_hex)

text \<open>
  A reference that the renderer may use: retained under its own identity, not protected, not
  expired, and UTF-8.
\<close>

definition usable_ref :: "registry \<Rightarrow> u64 \<Rightarrow> item_ref \<Rightarrow> item_record \<Rightarrow> bool" where
  "usable_ref registry now item r \<longleftrightarrow>
     bt_get registry (ir_item_id item, ir_version item) = Some r \<and> it_item r = item
     \<and> \<not> it_protected r \<and> now < it_expires_at r \<and> is_utf8 (it_content r)"

lemma render_selected_Inr:
  "render_selected registry now item = Inr d \<longleftrightarrow>
     (\<exists>r. usable_ref registry now item r \<and> it_content r \<noteq> [] \<and>
        d = DObj [(''item_id'', DStr (ir_item_id item)), (''version'', DNum (ir_version item)),
                (''sha256'', DStr (ir_sha256 item)), (''kind'', DStr (it_kind r)),
                (''content'', DStr (it_content r))])"
  by (auto simp: render_selected_def result_simps usable_ref_def)

lemma usable_text_Inr:
  "usable_text e registry now item = Inr t \<longleftrightarrow>
     (\<exists>r. usable_ref registry now item r \<and> t = it_content r)"
  by (auto simp: usable_text_def result_simps usable_ref_def)

lemma render_note_Inr:
  "render_note registry now author item = Inr d \<longleftrightarrow>
     (\<exists>r. usable_ref registry now item r \<and>
        d = DObj [(''item_id'', DStr (ir_item_id item)), (''version'', DNum (ir_version item)),
                (''sha256'', DStr (ir_sha256 item)), (''attributed_to'', DStr author),
                (''content'', DStr (it_content r))])"
  by (auto simp: render_note_def result_simps usable_text_Inr)

lemma render_objective_Inr:
  "render_objective registry now (Some item) = Inr x \<longleftrightarrow>
     (\<exists>r. usable_ref registry now item r \<and> x = Some (it_content r))"
  "render_objective registry now None = Inr x \<longleftrightarrow> x = None"
  by (auto simp: render_objective_def result_simps usable_text_Inr)

lemma collect_results_mem:
  "collect_results f xs = Inr ys \<Longrightarrow> x \<in> set xs \<Longrightarrow> \<exists>y. f x = Inr y"
  by (auto simp: collect_results_Inr_iff list_all2_conv_all_nth in_set_conv_nth)

lemma collect_rendered:
  "collect_results (render_selected registry now) xs = Inr ys \<Longrightarrow> x \<in> set xs \<Longrightarrow>
     \<exists>r. usable_ref registry now x r \<and> it_content r \<noteq> []"
  "collect_results (render_note registry now author) xs = Inr ys \<Longrightarrow> x \<in> set xs \<Longrightarrow>
     \<exists>r. usable_ref registry now x r"
  by (auto dest!: collect_results_mem simp: render_selected_Inr render_note_Inr)

text \<open>
  Everything a rendered input contains is retained, unprotected, unexpired text; the manifest
  digest is the digest of the manifest of exactly the components returned.
\<close>

lemma render_InrD:
  assumes "render h preview_id b d registry now = Inr m"
  shows "\<forall>item\<in>set (dr_selected_items d). \<exists>r. usable_ref registry now item r \<and> it_content r \<noteq> []"
    and "\<forall>item\<in>set (dr_note_items d). \<exists>r. usable_ref registry now item r"
    and "\<forall>item. dr_objective_item d = Some item \<longrightarrow> (\<exists>r. usable_ref registry now item r)"
    and "length (mt_input m) \<le> MAX_COMPONENT_BYTES"
    and "mt_components m = render_components h preview_id (mt_input m) (mt_configuration m)"
    and "\<exists>mb. to_vec h (manifest_doc b (mt_components m)) = Some mb
           \<and> mt_manifest_sha256 m = digest h mb"
  using assms unfolding render_def
  by (auto simp: result_simps render_objective_Inr dest: collect_rendered elim!: and_then_InrE)

lemma present_field_append_inject:
  assumes "present_field n a @ xs = present_field n b @ ys" "n \<notin> fst ` set xs" "n \<notin> fst ` set ys"
  shows "a = b \<and> xs = ys"
  using assms by (auto simp: present_field_def split: option.splits)

lemma present_field_mem: "(k, v) \<in> set (present_field n a) \<longleftrightarrow> k = n \<and> (\<exists>s. a = Some s \<and> v = DStr s)"
  by (auto simp: present_field_def split: option.splits)

lemma scope_doc_inject: "scope_doc a = scope_doc b \<Longrightarrow> a = b"
  by (simp add: scope_doc_def)

lemma command_doc_inject:
  assumes "command_doc a = command_doc b"
  shows "a = b"
proof -
  let ?p = "\<lambda>c. present_field ''expected_preview_id'' (cm_expected_preview_id c) @ []"
  let ?m = "\<lambda>c. present_field ''approved_manifest_sha256'' (cm_approved_manifest_sha256 c) @ ?p c"
  let ?v = "\<lambda>c. present_field ''preview_id'' (cm_preview_id c) @ ?m c"
  let ?e = "\<lambda>c. present_field ''expected_active_revision_id'' (cm_expected_active_revision_id c) @ ?v c"
  have s: "cm_schema a = cm_schema b" "cm_scope a = cm_scope b"
    "cm_idempotency_key a = cm_idempotency_key b" "cm_command_window_id a = cm_command_window_id b"
    "cm_expected_control_version a = cm_expected_control_version b" "cm_kind a = cm_kind b"
    and e: "?e a = ?e b"
    using assms by (auto simp: command_doc_def scope_doc_def)
  have "cm_expected_active_revision_id a = cm_expected_active_revision_id b \<and> ?v a = ?v b"
    by (rule present_field_append_inject [OF e]) (auto simp: present_field_mem)
  moreover from this have "cm_preview_id a = cm_preview_id b \<and> ?m a = ?m b"
    by (intro present_field_append_inject) (auto simp: present_field_mem)
  moreover from this have "cm_approved_manifest_sha256 a = cm_approved_manifest_sha256 b \<and> ?p a = ?p b"
    by (intro present_field_append_inject) (auto simp: present_field_mem)
  moreover from this have "cm_expected_preview_id a = cm_expected_preview_id b"
    using present_field_append_inject [of _ "cm_expected_preview_id a" "[]" "cm_expected_preview_id b" "[]"]
    by auto
  ultimately show ?thesis using s by simp
qed

end
