(* ===== verification/Control_Plane.thy ===== *)
theory Control_Plane
  imports Control_Render
begin

text \<open>
  The control plane's state and its drafting half: construction, fresh identifiers and events,
  the item registry, draft operations, patches and previews (\<open>control/state/mod.rs\<close>,
  \<open>drafting.rs\<close>), and the projections of \<open>records.rs\<close>. A method on \<open>&mut self\<close> that
  returns a \<open>Result\<close> becomes a function to the result and the plane after the call, also
  when it fails. \<open>DraftRecord\<close> has the one field \<open>draft\<close> and is that draft.
\<close>

record control_plane =
  cp_scope :: scope
  cp_enabled :: bool
  cp_now :: u64
  cp_boundary :: boundary
  cp_state :: control_state
  cp_items :: registry
  cp_latest_versions :: "(string, u64) btree"
  cp_drafts :: "(string, draft) btree"
  cp_revisions :: "(string, revision) btree"
  cp_previews :: "(string, preview_record) btree"
  cp_commands :: "(string, string \<times> receipt) btree"
  cp_events :: "control_event list"
  cp_relations :: "relation list"
  cp_next_id :: u64
  cp_continuation_preview_id :: "string option"
  cp_prepared_input :: "bytes option"

type_synonym 'a outcome = "(control_error + 'a) \<times> control_plane"

definition set_status :: "string \<Rightarrow> control_plane \<Rightarrow> control_plane" where
  "set_status s p = p\<lparr>cp_state := (cp_state p)\<lparr>st_status := s\<rparr>\<rparr>"

subsection \<open>Identifiers and events\<close>

definition numbered :: "string \<Rightarrow> u64 \<Rightarrow> string" where
  "numbered prefix n = prefix @ ''-'' @ dec (unat n)"

definition fresh_id :: "string \<Rightarrow> control_plane \<Rightarrow> string \<times> control_plane" where
  "fresh_id prefix p =
     (numbered prefix (cp_next_id p), p\<lparr>cp_next_id := sat_add (cp_next_id p) 1\<rparr>)"

definition make_event ::
  "control_plane \<Rightarrow> string \<Rightarrow> string \<Rightarrow> string option \<Rightarrow> string option \<Rightarrow> string option
     \<Rightarrow> string option \<Rightarrow> control_event" where
  "make_event p event_id event_type command_id preview_id revision_id reason_code =
     \<lparr>cv_schema = EVENT_SCHEMA, cv_event_id = event_id, cv_scope = cp_scope p,
      cv_sequence = st_last_sequence (cp_state p), cv_event_type = event_type,
      cv_command_id = command_id, cv_revision_id = revision_id, cv_preview_id = preview_id,
      cv_phase1_snapshot_id = Some ''snapshot-fixture-cli-001'', cv_model_execution_id = None,
      cv_provider_attempt_id = None, cv_action_id = None, cv_reason_code = reason_code,
      cv_observed_at = format_time (cp_now p)\<rparr>"

definition record_event ::
  "string \<Rightarrow> string option \<Rightarrow> string option \<Rightarrow> string option \<Rightarrow> string option
     \<Rightarrow> control_plane \<Rightarrow> control_plane" where
  "record_event event_type command_id preview_id revision_id reason_code p =
     (let p1 = p\<lparr>cp_state := (cp_state p)\<lparr>st_last_sequence :=
                 sat_add (st_last_sequence (cp_state p)) 1\<rparr>\<rparr>
      in if length (cp_events p1) \<ge> MAX_EVENTS then p1
         else
           (let (event_id, p2) = fresh_id ''event'' p1
            in p2\<lparr>cp_events := cp_events p2
                 @ [make_event p2 event_id event_type command_id preview_id revision_id reason_code]\<rparr>))"

subsection \<open>The item registry\<close>

definition insert_item ::
  "host \<Rightarrow> string \<Rightarrow> u64 \<Rightarrow> string \<Rightarrow> bool \<Rightarrow> bytes \<Rightarrow> u64 \<Rightarrow> string option
     \<Rightarrow> control_plane \<Rightarrow> control_plane" where
  "insert_item h item_id version kind protect content expires_at locked_reason p =
     p\<lparr>cp_latest_versions := bt_insert item_id version (cp_latest_versions p),
       cp_items := bt_insert (item_id, version)
         \<lparr>it_item = make_item_ref h item_id version content, it_kind = kind,
          it_protected = protect, it_scope = cp_scope p, it_content = content,
          it_expires_at = expires_at, it_expires_text = format_time expires_at,
          it_locked_reason = locked_reason\<rparr> (cp_items p)\<rparr>"

definition SEED_EXPIRY :: u64 where "SEED_EXPIRY = 4102444800"

definition LOCKED_STATE :: bytes where
  \<open>LOCKED_STATE = ''{"state":"host-owned"}''\<close>

definition seed_items :: "host \<Rightarrow> control_plane \<Rightarrow> control_plane" where
  "seed_items h p =
     insert_item h ''locked-state'' 1 ''protected_state'' True LOCKED_STATE
       SEED_EXPIRY (Some ''host-owned state and legal catalog cannot be edited'')
    (insert_item h ''objective-1'' 1 ''objective'' False
       ''Preserve the run while choosing only visible legal actions.'' SEED_EXPIRY None
    (insert_item h ''note-1'' 1 ''note'' False
       (''Prefer preserving health when several legal choices are available.'' @ [CHR 0x0A])
       SEED_EXPIRY None
    (insert_item h ''history-1'' 1 ''history'' False
       (''A bounded historical context artifact retained for this fixture.'' @ [CHR 0x0A])
       SEED_EXPIRY None p)))"

subsection \<open>Construction\<close>

definition initial_boundary :: "host \<Rightarrow> scope \<Rightarrow> boundary" where
  "initial_boundary h s =
     \<lparr>bd_scope = s, bd_state_id = ''fixture-state-1'', bd_generation = 7,
      bd_observation_sha256 = digest h ''fixture-observation-v1'',
      bd_catalog_sha256 = digest h ''fixture-catalog-v1'',
      bd_controller_epoch = 1, bd_gate_epoch = 0, bd_control_version = 0, bd_lease_epoch = 1,
      bd_adapter_revision = ''fixture-adapter-v1'',
      bd_adapter_sha256 = digest h ''fixture-adapter-v1'',
      bd_model = ''synthetic-fixture-only'',
      bd_configuration_sha256 = digest h ''legacy-configuration-v1'',
      bd_output_schema_sha256 = digest h OUTPUT_SCHEMA,
      bd_capabilities_sha256 = digest h ''ascension-context-control-capabilities-v1'',
      bd_authorization_policy_version = ''policy-1''\<rparr>"

definition initial_state :: "scope \<Rightarrow> boundary \<Rightarrow> u64 \<Rightarrow> control_state" where
  "initial_state s b now =
     \<lparr>st_schema = STATE_SCHEMA, st_scope = s, st_status = ''running'', st_control_version = 0,
      st_controller_epoch = 1, st_gate_epoch = 0, st_plan_epoch = 1,
      st_active_revision_id = ''revision-1'', st_pause_latched = False, st_stop_latched = False,
      st_outstanding_provider_attempts = [], st_unresolved_operations = [],
      st_boundary = Some b, st_command_window_id = ''window-1'',
      st_command_window_expires_at = format_time (sat_add now 3600), st_last_sequence = 0\<rparr>"

definition bootstrap_revision :: "host \<Rightarrow> scope \<Rightarrow> u64 \<Rightarrow> revision" where
  "bootstrap_revision h s now =
     \<lparr>rv_schema = REVISION_SCHEMA, rv_scope = s, rv_revision_id = ''revision-1'',
      rv_sequence = 1, rv_parent_revision_id = ''revision-1'', rv_selected_items = [],
      rv_pinned_item_ids = [], rv_note_items = [], rv_objective_item = None,
      rv_approved_preview_id = ''bootstrap'',
      rv_approved_manifest_sha256 = digest h ''bootstrap-revision'',
      rv_author_ref = ''system'', rv_intervention_id = ''intervention-bootstrap'',
      rv_committed_at = format_time now, rv_plan_epoch = 1,
      rv_state_after_commit = ''paused_committed''\<rparr>"

text \<open>\<open>ControlPlane::new\<close> never fails; its \<open>Result\<close> is dropped.\<close>

definition control_new :: "host \<Rightarrow> scope \<Rightarrow> bool \<Rightarrow> u64 \<Rightarrow> control_plane" where
  "control_new h s enabled now =
     (let b = initial_boundary h s;
          p = seed_items h
            \<lparr>cp_scope = s, cp_enabled = enabled, cp_now = now, cp_boundary = b,
             cp_state = initial_state s b now, cp_items = bt_empty,
             cp_latest_versions = bt_empty, cp_drafts = bt_empty, cp_revisions = bt_empty,
             cp_previews = bt_empty, cp_commands = bt_empty, cp_events = [], cp_relations = [],
             cp_next_id = 1, cp_continuation_preview_id = None, cp_prepared_input = None\<rparr>
      in p\<lparr>cp_revisions := bt_insert ''revision-1'' (bootstrap_revision h (cp_scope p) now)
             (cp_revisions p)\<rparr>)"

definition control_synthetic :: "host \<Rightarrow> control_plane" where
  "control_synthetic h =
     control_new h \<lparr>sc_project_id = ''fixture-project'', sc_run_id = ''fixture-run'',
       sc_episode_id = ''fixture-episode'', sc_agent_id = ''fixture-agent''\<rparr> True 1788998400"

subsection \<open>Checks shared by the operations\<close>

definition require_enabled :: "control_plane \<Rightarrow> control_error + unit" where
  "require_enabled p =
     ensure (cp_enabled p) (control_error ''management_disabled'' ''context management is disabled'')"

definition check_scope :: "scope \<Rightarrow> control_plane \<Rightarrow> control_error + unit" where
  "check_scope s p =
     ensure (s = cp_scope p) (control_error ''scope_mismatch'' ''request scope is outside this run'')"

definition check_active_revision :: "string \<Rightarrow> control_plane \<Rightarrow> control_error + unit" where
  "check_active_revision r p =
     ensure (r = st_active_revision_id (cp_state p))
       (control_error ''stale_revision'' ''active revision does not match'')"

text \<open>\<open>parse_time(t).is_none() || parse_time(t).unwrap_or(0) <= now\<close>\<close>

definition time_passed :: "string \<Rightarrow> u64 \<Rightarrow> bool" where
  "time_passed t now \<longleftrightarrow>
     parse_time t = None \<or> (case parse_time t of Some s \<Rightarrow> s | None \<Rightarrow> 0) \<le> now"

definition retained_item :: "item_ref \<Rightarrow> control_plane \<Rightarrow> control_error + item_record" where
  "retained_item item p =
     and_then (ensure (item_ref_valid item)
       (control_error ''invalid_item'' ''item reference is invalid'')) (\<lambda>_.
     and_then (ok_or (bt_get (cp_items p) (ir_item_id item, ir_version item))
       (control_error ''unknown_item'' ''item version is unavailable'')) (\<lambda>r.
     and_then (ensure (it_item r = item)
       (control_error ''item_digest_mismatch'' ''item digest does not match retained bytes'')) (\<lambda>_.
     and_then (ensure (it_scope r = cp_scope p)
       (control_error ''scope_mismatch'' ''item is outside this run'')) (\<lambda>_. Inr r))))"

definition editable_item :: "item_ref \<Rightarrow> control_plane \<Rightarrow> control_error + item_record" where
  "editable_item item p =
     and_then (retained_item item p) (\<lambda>r.
     and_then (ensure (\<not> it_protected r)
       (control_error ''protected_item''
          (case it_locked_reason r of Some m \<Rightarrow> m | None \<Rightarrow> ''item is host-owned''))) (\<lambda>_.
     and_then (ensure (\<not> (it_expires_at r \<le> cp_now p \<or> it_content r = []))
       (control_error ''content_unavailable'' ''editable content is expired or unavailable''))
       (\<lambda>_. Inr r)))"

subsection \<open>Draft operations\<close>

definition note_version :: "string \<Rightarrow> draft \<Rightarrow> u64 option" where
  "note_version note_id d =
     map_option ir_version (List.find (\<lambda>item. ir_item_id item = note_id) (dr_note_items d))"

definition drop_ref :: "string \<Rightarrow> item_ref list \<Rightarrow> item_ref list" where
  "drop_ref item_id refs = filter (\<lambda>current. ir_item_id current \<noteq> item_id) refs"

text \<open>The bytes of one referenced note; a reference that is not retained counts nothing.\<close>

definition retained_bytes :: "control_plane \<Rightarrow> string \<Rightarrow> u64 \<Rightarrow> nat" where
  "retained_bytes p item_id version =
     (case bt_get (cp_items p) (item_id, version) of Some r \<Rightarrow> length (it_content r) | None \<Rightarrow> 0)"

definition note_bytes_after :: "control_plane \<Rightarrow> draft \<Rightarrow> string \<Rightarrow> string \<Rightarrow> nat" where
  "note_bytes_after p d note_id t =
     (let replaced = (case note_version note_id d of
            Some version \<Rightarrow> retained_bytes p note_id version | None \<Rightarrow> 0);
          total = sum_list (map (\<lambda>item. retained_bytes p (ir_item_id item) (ir_version item))
            (dr_note_items d))
      in total - replaced + length t)"

definition put_note_checks ::
  "control_plane \<Rightarrow> draft \<Rightarrow> string \<Rightarrow> u64 option \<Rightarrow> string \<Rightarrow> string \<Rightarrow> control_error + u64 \<times> u64"
where
  "put_note_checks p d note_id expected t expires_at =
     and_then (ensure (\<not> (\<not> valid_id note_id \<or> t = [] \<or> length t > MAX_NOTE_BYTES
         \<or> CHR 0x00 \<in> set t))
       (control_error ''note_bounds'' ''note is outside its UTF-8 bound'')) (\<lambda>_.
     and_then (ensure (\<not> list_ex (\<lambda>r. ir_item_id (it_item r) = note_id \<and> it_protected r)
         (bt_values (cp_items p)))
       (control_error ''protected_item''
          ''note identity is reserved for host-owned content'')) (\<lambda>_.
     and_then (ok_or (parse_time expires_at)
       (control_error ''invalid_expiry'' ''note expiry is invalid'')) (\<lambda>expiry.
     and_then (ensure (\<not> expiry \<le> cp_now p)
       (control_error ''expired_content'' ''note expiry is in the past'')) (\<lambda>_.
     and_then (ensure (note_version note_id d = expected)
       (control_error ''stale_note'' ''expected note version does not match'')) (\<lambda>_.
     let version = sat_add
           (case note_version note_id d of
              Some v \<Rightarrow> v
            | None \<Rightarrow> (case bt_get (cp_latest_versions p) note_id of Some v \<Rightarrow> v | None \<Rightarrow> 0)) 1
     in and_then (ensure (\<not> (note_version note_id d = None
            \<and> length (dr_note_items d) \<ge> MAX_NOTES))
          (control_error ''note_limit'' ''note limit is reached'')) (\<lambda>_.
        and_then (ensure (\<not> note_bytes_after p d note_id t > MAX_TOTAL_NOTE_BYTES)
          (control_error ''note_budget'' ''aggregate note budget is exceeded'')) (\<lambda>_.
        Inr (version, expiry))))))))"

definition put_note ::
  "host \<Rightarrow> draft \<Rightarrow> string \<Rightarrow> u64 option \<Rightarrow> string \<Rightarrow> string \<Rightarrow> control_plane \<Rightarrow> draft outcome" where
  "put_note h d note_id expected t expires_at p =
     (case put_note_checks p d note_id expected t expires_at of
        Inl e \<Rightarrow> (Inl e, p)
      | Inr (version, expiry) \<Rightarrow>
          (let p1 = insert_item h note_id version ''note'' False t expiry None p
           in case bt_get (cp_items p1) (note_id, version) of
                None \<Rightarrow> (Inl (control_error ''note_unavailable'' ''note could not be retained''), p1)
              | Some r \<Rightarrow>
                  (Inr (d\<lparr>dr_note_items := drop_ref note_id (dr_note_items d) @ [it_item r],
                         dr_selected_items := drop_ref note_id (dr_selected_items d) @ [it_item r]\<rparr>),
                   p1)))"

definition set_objective ::
  "host \<Rightarrow> draft \<Rightarrow> string \<Rightarrow> bool \<Rightarrow> control_plane \<Rightarrow> draft outcome" where
  "set_objective h d t authorized p =
     (if \<not> authorized then
        (Inl (control_error ''objective_authorization_required''
           ''objective override requires the objective scope''), p)
      else if t = [] \<or> length t > MAX_OBJECTIVE_BYTES \<or> CHR 0x00 \<in> set t then
        (Inl (control_error ''objective_bounds'' ''objective exceeds its UTF-8 bound''), p)
      else
        (let version = sat_add (case bt_get (cp_latest_versions p) ''objective-override'' of
               Some v \<Rightarrow> v | None \<Rightarrow> 0) 1;
             p1 = insert_item h ''objective-override'' version ''objective'' False t
               (sat_add (cp_now p) 3600) None p
         in (Inr (d\<lparr>dr_objective_item :=
               map_option it_item (bt_get (cp_items p1) (''objective-override'', version))\<rparr>), p1)))"

text \<open>The operations that only change the draft.\<close>

definition edit_draft ::
  "control_plane \<Rightarrow> draft \<Rightarrow> operation \<Rightarrow> bool \<Rightarrow> control_error + draft" where
  "edit_draft p d op authorized =
     (case op of
        IncludeItem item \<Rightarrow>
          and_then (editable_item item p) (\<lambda>r.
          and_then (ensure (\<not> length (dr_selected_items d) \<ge> MAX_ITEMS)
            (control_error ''item_limit'' ''selected item limit is reached'')) (\<lambda>_.
          and_then (ensure (\<not> list_ex (\<lambda>current. ir_item_id current = ir_item_id item)
              (dr_selected_items d))
            (control_error ''duplicate_selected_item'' ''item is already selected'')) (\<lambda>_.
          Inr (d\<lparr>dr_selected_items := dr_selected_items d @ [it_item r]\<rparr>))))
      | ExcludeItem item \<Rightarrow>
          and_then (retained_item item p) (\<lambda>_.
          and_then (ensure (ir_item_id item \<notin> set (dr_pinned_item_ids d))
            (control_error ''pinned_item'' ''unpin the item before exclusion'')) (\<lambda>_.
          Inr (d\<lparr>dr_selected_items := drop_ref (ir_item_id item) (dr_selected_items d),
                 dr_note_items := drop_ref (ir_item_id item) (dr_note_items d)\<rparr>)))
      | PinItem item \<Rightarrow>
          and_then (editable_item item p) (\<lambda>_.
          and_then (ensure (item \<in> set (dr_selected_items d))
            (control_error ''pin_requires_selection'' ''pinned item must be selected'')) (\<lambda>_.
          Inr (if ir_item_id item \<in> set (dr_pinned_item_ids d) then d
               else d\<lparr>dr_pinned_item_ids := dr_pinned_item_ids d @ [ir_item_id item]\<rparr>)))
      | UnpinItem item \<Rightarrow>
          and_then (retained_item item p) (\<lambda>_.
          Inr (d\<lparr>dr_pinned_item_ids := filter (\<lambda>i. i \<noteq> ir_item_id item) (dr_pinned_item_ids d)\<rparr>))
      | RemoveNote note_id expected \<Rightarrow>
          and_then (ok_or (note_version note_id d)
            (control_error ''note_not_found'' ''note is unavailable'')) (\<lambda>version.
          and_then (ensure (version = expected)
            (control_error ''stale_note'' ''note version is stale'')) (\<lambda>_.
          Inr (d\<lparr>dr_note_items := drop_ref note_id (dr_note_items d),
                 dr_selected_items := drop_ref note_id (dr_selected_items d),
                 dr_pinned_item_ids := filter (\<lambda>i. i \<noteq> note_id) (dr_pinned_item_ids d)\<rparr>)))
      | RestoreConfiguration source \<Rightarrow>
          and_then (ok_or (bt_get (cp_revisions p) source)
            (control_error ''revision_not_found'' ''source revision is unavailable'')) (\<lambda>r.
          and_then (ensure (\<not> (dr_objective_item d \<noteq> rv_objective_item r \<and> \<not> authorized))
            (control_error ''objective_authorization_required''
               ''restoring an objective requires the objective scope'')) (\<lambda>_.
          Inr (d\<lparr>dr_selected_items := rv_selected_items r,
                 dr_pinned_item_ids := rv_pinned_item_ids r,
                 dr_note_items := rv_note_items r,
                 dr_objective_item := rv_objective_item r\<rparr>)))
      | _ \<Rightarrow> Inr d)"

definition apply_operation ::
  "host \<Rightarrow> bool \<Rightarrow> draft \<Rightarrow> operation \<Rightarrow> control_plane \<Rightarrow> draft outcome" where
  "apply_operation h authorized d op p =
     (case op of
        PutNote note_id expected t expires_at \<Rightarrow> put_note h d note_id expected t expires_at p
      | SetObjective t \<Rightarrow> set_objective h d t authorized p
      | _ \<Rightarrow> (edit_draft p d op authorized, p))"

fun apply_operations ::
  "host \<Rightarrow> bool \<Rightarrow> draft \<Rightarrow> operation list \<Rightarrow> control_plane \<Rightarrow> draft outcome" where
  "apply_operations h authorized d [] p = (Inr d, p)"
| "apply_operations h authorized d (op # ops) p =
     (case apply_operation h authorized d op p of
        (Inl e, p1) \<Rightarrow> (Inl e, p1)
      | (Inr d1, p1) \<Rightarrow> apply_operations h authorized d1 ops p1)"

subsection \<open>Drafts\<close>

definition get_draft :: "string \<Rightarrow> control_plane \<Rightarrow> control_error + draft" where
  "get_draft draft_id p =
     ok_or (bt_get (cp_drafts p) draft_id) (control_error ''draft_not_found'' ''draft is unavailable'')"

definition get_preview :: "string \<Rightarrow> control_plane \<Rightarrow> control_error + preview" where
  "get_preview preview_id p =
     ok_or (map_option prr_preview (bt_get (cp_previews p) preview_id))
       (control_error ''preview_not_found'' ''preview is unavailable'')"

definition new_draft :: "control_plane \<Rightarrow> string \<Rightarrow> scope \<Rightarrow> string \<Rightarrow> string \<Rightarrow> draft" where
  "new_draft p draft_id s base author =
     \<lparr>dr_schema = DRAFT_SCHEMA, dr_scope = s, dr_draft_id = draft_id, dr_version = 1,
      dr_base_revision_id = base, dr_selected_items = [], dr_pinned_item_ids = [],
      dr_note_items = [], dr_objective_item = None, dr_author_ref = author,
      dr_expires_at = format_time (sat_add (cp_now p) 3600)\<rparr>"

definition create_draft :: "scope \<Rightarrow> string \<Rightarrow> string \<Rightarrow> control_plane \<Rightarrow> draft outcome" where
  "create_draft s expected_active author p =
     (case and_then (require_enabled p) (\<lambda>_.
           and_then (check_scope s p) (\<lambda>_.
           and_then (check_active_revision expected_active p) (\<lambda>_.
           ensure (valid_id author)
             (control_error ''invalid_author'' ''author reference is invalid'')))) of
        Inl e \<Rightarrow> (Inl e, p)
      | Inr _ \<Rightarrow>
          (let (draft_id, p1) = fresh_id ''draft'' p;
               d = new_draft p1 draft_id s expected_active author;
               p2 = p1\<lparr>cp_drafts := bt_insert draft_id d (cp_drafts p1)\<rparr>
           in (Inr d, record_event ''draft.updated'' None None None (Some ''draft_created'') p2)))"

text \<open>What both invalidations do to one unconsumed preview.\<close>

definition invalidated :: "string \<Rightarrow> preview_record \<Rightarrow> preview_record" where
  "invalidated reason r =
     r\<lparr>prr_preview := (prr_preview r)\<lparr>pv_applicable := False, pv_blockers := [reason],
         pv_prepared_manifest_sha256 := None\<rparr>,
       prr_material := None\<rparr>"

definition invalidate_previews :: "string \<Rightarrow> string \<Rightarrow> control_plane \<Rightarrow> control_plane" where
  "invalidate_previews draft_id reason p =
     p\<lparr>cp_previews := bt_map
         (\<lambda>r. if pv_draft_id (prr_preview r) = draft_id \<and> \<not> prr_consumed r
              then invalidated reason r else r) (cp_previews p)\<rparr>"

definition invalidate_all_previews :: "string \<Rightarrow> control_plane \<Rightarrow> control_plane" where
  "invalidate_all_previews reason p =
     p\<lparr>cp_previews := bt_map (\<lambda>r. if \<not> prr_consumed r then invalidated reason r else r)
         (cp_previews p)\<rparr>"

definition is_restore :: "operation \<Rightarrow> bool" where
  "is_restore op = (case op of RestoreConfiguration _ \<Rightarrow> True | _ \<Rightarrow> False)"

definition patch_admitted :: "patch \<Rightarrow> string \<Rightarrow> control_plane \<Rightarrow> control_error + draft" where
  "patch_admitted t author p =
     and_then (require_enabled p) (\<lambda>_.
     and_then (ensure (\<not> (pt_schema t \<noteq> PATCH_SCHEMA \<or> pt_operations t = []
         \<or> length (pt_operations t) > MAX_OPERATIONS))
       (control_error ''invalid_patch'' ''patch shape is invalid'')) (\<lambda>_.
     and_then (check_scope (pt_scope t) p) (\<lambda>_.
     and_then (check_active_revision (pt_expected_active_revision_id t) p) (\<lambda>_.
     and_then (ensure (valid_id author)
       (control_error ''invalid_author'' ''author reference is invalid'')) (\<lambda>_.
     and_then (get_draft (pt_draft_id t) p) (\<lambda>d.
     and_then (ensure (\<not> time_passed (dr_expires_at d) (cp_now p))
       (control_error ''expired_draft'' ''draft has expired'')) (\<lambda>_.
     and_then (ensure (dr_version d = pt_expected_draft_version t)
       (control_error ''stale_draft'' ''draft version is stale'')) (\<lambda>_.
     and_then (ensure (dr_scope d = pt_scope t)
       (control_error ''scope_mismatch'' ''draft scope does not match'')) (\<lambda>_.
     and_then (ensure (\<not> (list_ex is_restore (pt_operations t) \<and> length (pt_operations t) \<noteq> 1))
       (control_error ''restore_must_be_alone'' ''restore cannot be combined with edits''))
       (\<lambda>_. Inr d))))))))))"

definition save_draft :: "patch \<Rightarrow> string \<Rightarrow> draft \<Rightarrow> u64 \<Rightarrow> control_plane \<Rightarrow> draft outcome" where
  "save_draft t author d version p =
     (let d1 = d\<lparr>dr_version := version, dr_author_ref := author\<rparr>;
          p1 = p\<lparr>cp_drafts := bt_insert (pt_draft_id t) d1 (cp_drafts p)\<rparr>;
          p2 = invalidate_previews (pt_draft_id t) ''draft_changed'' p1
      in (Inr d1, record_event ''draft.updated'' None None None (Some ''draft_saved'') p2))"

definition apply_patch ::
  "host \<Rightarrow> patch \<Rightarrow> string \<Rightarrow> bool \<Rightarrow> control_plane \<Rightarrow> draft outcome" where
  "apply_patch h t author authorized p =
     (case patch_admitted t author p of
        Inl e \<Rightarrow> (Inl e, p)
      | Inr d \<Rightarrow>
          (case apply_operations h authorized d (pt_operations t) p of
             (Inl e, p1) \<Rightarrow> (Inl e, p1)
           | (Inr d1, p1) \<Rightarrow>
               (case checked_add (dr_version d1) 1 of
                  None \<Rightarrow> (Inl (control_error ''version_overflow'' ''draft version overflowed''), p1)
                | Some version \<Rightarrow> save_draft t author d1 version p1)))"

subsection \<open>Previews\<close>

definition preview_admitted ::
  "scope \<Rightarrow> string \<Rightarrow> u64 \<Rightarrow> u64 \<Rightarrow> control_plane \<Rightarrow> control_error + draft" where
  "preview_admitted s draft_id expected_draft_version expected_control_version p =
     and_then (require_enabled p) (\<lambda>_.
     and_then (check_scope s p) (\<lambda>_.
     and_then (ensure (st_control_version (cp_state p) = expected_control_version)
       (control_error ''stale_control'' ''control version is stale'')) (\<lambda>_.
     and_then (get_draft draft_id p) (\<lambda>d.
     and_then (ensure (\<not> time_passed (dr_expires_at d) (cp_now p))
       (control_error ''expired_draft'' ''draft has expired'')) (\<lambda>_.
     and_then (ensure (dr_version d = expected_draft_version)
       (control_error ''stale_draft'' ''draft version is stale'')) (\<lambda>_. Inr d))))))"

definition held :: "control_plane \<Rightarrow> bool" where
  "held p \<longleftrightarrow> st_pause_latched (cp_state p) \<and> st_status (cp_state p) = ''paused_ready''
     \<and> st_unresolved_operations (cp_state p) = []"

definition preview_blockers :: "bool \<Rightarrow> bool \<Rightarrow> control_plane \<Rightarrow> string list" where
  "preview_blockers requested risk_ack p =
     (if requested \<and> \<not> held p then [''run_not_held''] else [])
     @ (if requested \<and> held p \<and> \<not> risk_ack then [''unknown_total_budget''] else [])"

definition preview_material ::
  "host \<Rightarrow> string \<Rightarrow> draft \<Rightarrow> string list \<Rightarrow> control_plane \<Rightarrow> prepared_material option" where
  "preview_material h preview_id d blockers p =
     (if blockers = [] then
        (case render h preview_id (cp_boundary p) d (cp_items p) (cp_now p) of
           Inr m \<Rightarrow> Some m | Inl _ \<Rightarrow> None)
      else None)"

text \<open>An identifier that is taken only when there is material.\<close>

definition id_if :: "bool \<Rightarrow> string \<Rightarrow> control_plane \<Rightarrow> string option \<times> control_plane" where
  "id_if b prefix p =
     (if b then (let (i, p1) = fresh_id prefix p in (Some i, p1)) else (None, p))"

definition make_preview ::
  "control_plane \<Rightarrow> scope \<Rightarrow> string \<Rightarrow> string \<Rightarrow> draft \<Rightarrow> bool \<Rightarrow> bool \<Rightarrow> string list
     \<Rightarrow> prepared_material option \<Rightarrow> string option \<Rightarrow> string option \<Rightarrow> preview" where
  "make_preview p s preview_id draft_id d applicable risk_ack blockers material execution attempt =
     \<lparr>pv_schema = PREVIEW_SCHEMA, pv_preview_id = preview_id, pv_scope = s,
      pv_draft_id = draft_id, pv_draft_version = dr_version d,
      pv_base_revision_id = dr_base_revision_id d, pv_boundary = cp_boundary p,
      pv_applicable = (applicable \<and> material \<noteq> None),
      pv_blockers = (if material = None \<and> blockers = [] then [''mandatory_budget_exceeded'']
        else blockers),
      pv_prepared_manifest_sha256 = map_option mt_manifest_sha256 material,
      pv_components = (case material of Some m \<Rightarrow> mt_components m | None \<Rightarrow> []),
      pv_selected_items = dr_selected_items d,
      pv_budget_status = ''bounded_unknown_total'',
      pv_unknown_total_risk_acknowledged = risk_ack,
      pv_provider_added_context = ''not_exposed'',
      pv_model_execution_id = execution, pv_provider_attempt_id = attempt,
      pv_expires_at = format_time (sat_add (cp_now p) 120),
      pv_effect_class = ''local_preparation_only''\<rparr>"

definition build_preview ::
  "host \<Rightarrow> scope \<Rightarrow> string \<Rightarrow> draft \<Rightarrow> bool \<Rightarrow> bool \<Rightarrow> control_plane \<Rightarrow> preview outcome" where
  "build_preview h s draft_id d requested risk_ack p =
     (let (preview_id, p1) = fresh_id ''preview'' p;
          blockers = preview_blockers requested risk_ack p1;
          material = preview_material h preview_id d blockers p1;
          (execution, p2) = id_if (material \<noteq> None) ''execution'' p1;
          (attempt, p3) = id_if (material \<noteq> None) ''attempt'' p2;
          v = make_preview p3 s preview_id draft_id d (requested \<and> held p1) risk_ack blockers
                material execution attempt;
          p4 = p3\<lparr>cp_previews := bt_insert preview_id
                 \<lparr>prr_preview = v, prr_material = material, prr_consumed = False\<rparr> (cp_previews p3)\<rparr>
      in (Inr v, record_event ''preview.built'' None (Some preview_id) None None p4))"

definition create_preview ::
  "host \<Rightarrow> scope \<Rightarrow> string \<Rightarrow> u64 \<Rightarrow> bool \<Rightarrow> u64 \<Rightarrow> bool \<Rightarrow> control_plane \<Rightarrow> preview outcome" where
  "create_preview h s draft_id expected_draft_version requested expected_control_version risk_ack p =
     (case preview_admitted s draft_id expected_draft_version expected_control_version p of
        Inl e \<Rightarrow> (Inl e, p)
      | Inr d \<Rightarrow> build_preview h s draft_id d requested risk_ack p)"

subsection \<open>Projections\<close>

definition control_capabilities :: "control_plane \<Rightarrow> capabilities" where
  "control_capabilities p =
     \<lparr>cap_schema = CAPABILITIES_SCHEMA, cap_product_phase = 2, cap_scope = cp_scope p,
      cap_enabled = cp_enabled p, cap_adapter_revision = bd_adapter_revision (cp_boundary p),
      cap_supported_operations =
        (if cp_enabled p then [''include_item'', ''exclude_item'', ''pin_item'', ''unpin_item'',
           ''put_note'', ''remove_note'', ''set_objective'', ''restore_configuration'', ''pause'',
           ''commit'', ''resume''] else []),
      cap_exact_application_preview = ''supported'', cap_optional_images = ''unsupported'',
      cap_durable_control_store = ''unverified'', cap_provider_added_context = ''not_exposed'',
      cap_context_compact = False, cap_persistent_provider_sessions = False,
      cap_direct_game_dispatch = False, cap_commit_auto_resumes = False\<rparr>"

definition eligible_item_of :: "u64 \<Rightarrow> item_record \<Rightarrow> eligible_item" where
  "eligible_item_of now r =
     (let readable = \<not> it_protected r \<and> now < it_expires_at r \<and> is_utf8 (it_content r)
      in \<lparr>el_item = it_item r, el_kind = it_kind r, el_protected = it_protected r,
          el_scope = it_scope r, el_content_available = (it_content r \<noteq> [] \<and> readable),
          el_bytes = length (it_content r), el_expires_at = it_expires_text r,
          el_locked_reason = it_locked_reason r,
          el_content = (if readable then Some (it_content r) else None)\<rparr>)"

definition eligible_items :: "control_plane \<Rightarrow> eligible_item list" where
  "eligible_items p = map (eligible_item_of (cp_now p)) (bt_values (cp_items p))"

definition drafts :: "control_plane \<Rightarrow> draft list" where
  "drafts p = bt_values (cp_drafts p)"

definition revisions :: "control_plane \<Rightarrow> revision list" where
  "revisions p = bt_values (cp_revisions p)"

definition get_revision :: "string \<Rightarrow> control_plane \<Rightarrow> control_error + revision" where
  "get_revision revision_id p =
     ok_or (bt_get (cp_revisions p) revision_id)
       (control_error ''revision_not_found'' ''revision is unavailable'')"

definition previews :: "control_plane \<Rightarrow> preview list" where
  "previews p = map prr_preview (bt_values (cp_previews p))"

definition receipts :: "control_plane \<Rightarrow> receipt list" where
  "receipts p = map snd (bt_values (cp_commands p))"

end
