(* ===== verification/Control_Lifecycle.thy ===== *)
theory Control_Lifecycle
  imports Control_Plane
begin

text \<open>
  The commands of the control plane (\<open>control/state/lifecycle.rs\<close>): the idempotency table,
  the command guard, \<open>pause\<close>, \<open>stop\<close>, \<open>commit\<close> and \<open>resume\<close>, and the changes of the
  host that \<open>state/mod.rs\<close> offers (boundary, catalog, provider fingerprint, clock). Every
  command is an admission, which returns an error, a stored receipt, or what the effect needs,
  followed by that effect.
\<close>

subsection \<open>Commands and receipts\<close>

definition quiescent :: "control_plane \<Rightarrow> bool" where
  "quiescent p \<longleftrightarrow>
     st_outstanding_provider_attempts (cp_state p) = []
     \<and> st_unresolved_operations (cp_state p) = []"

definition sync_boundary :: "control_plane \<Rightarrow> control_plane" where
  "sync_boundary p =
     (let b = (cp_boundary p)\<lparr>bd_control_version := st_control_version (cp_state p),
            bd_controller_epoch := st_controller_epoch (cp_state p),
            bd_gate_epoch := st_gate_epoch (cp_state p)\<rparr>
      in p\<lparr>cp_boundary := b, cp_state := (cp_state p)\<lparr>st_boundary := Some b\<rparr>\<rparr>)"

definition make_receipt :: "command \<Rightarrow> string \<Rightarrow> string option \<Rightarrow> control_plane \<Rightarrow> receipt \<times> control_plane"
where
  "make_receipt c effect reason_code p =
     (let (command_id, p1) = fresh_id (''command-'' @ cm_kind c) p
      in (\<lparr>rc_schema = RECEIPT_SCHEMA, rc_command_id = command_id, rc_scope = cp_scope p1,
           rc_kind = cm_kind c, rc_status = ''completed'', rc_effect = effect,
           rc_control_version = st_control_version (cp_state p1),
           rc_active_revision_id = st_active_revision_id (cp_state p1),
           rc_paused = st_pause_latched (cp_state p1), rc_reason_code = reason_code,
           rc_observed_at = format_time (cp_now p1)\<rparr>, p1))"

text \<open>The stored digest is empty when the command cannot be encoded (\<open>unwrap_or_default\<close>).\<close>

definition save_command :: "host \<Rightarrow> command \<Rightarrow> receipt \<Rightarrow> control_plane \<Rightarrow> control_plane" where
  "save_command h c r p =
     p\<lparr>cp_commands := bt_insert (cm_idempotency_key c)
         (case to_vec h (command_doc c) of Some bs \<Rightarrow> digest h bs | None \<Rightarrow> [], r)
         (cp_commands p)\<rparr>"

definition idempotent_result :: "host \<Rightarrow> command \<Rightarrow> control_plane \<Rightarrow> control_error + receipt option" where
  "idempotent_result h c p =
     (case bt_get (cp_commands p) (cm_idempotency_key c) of
        None \<Rightarrow> Inr None
      | Some (stored, r) \<Rightarrow>
          and_then (ok_or (to_vec h (command_doc c))
            (control_error ''invalid_command'' ''command cannot be encoded'')) (\<lambda>bs.
          if digest h bs = stored then Inr (Some r)
          else Inl (control_error ''idempotency_conflict''
             ''idempotency key was reused with a different command'')))"

definition command_guard ::
  "command \<Rightarrow> string \<Rightarrow> string option \<Rightarrow> string option \<Rightarrow> control_plane \<Rightarrow> control_error + unit" where
  "command_guard c kind expected_revision expected_preview p =
     and_then (ensure (\<not> (cm_schema c \<noteq> COMMAND_SCHEMA \<or> cm_kind c \<noteq> kind
         \<or> \<not> valid_id (cm_idempotency_key c) \<or> \<not> valid_id (cm_command_window_id c)))
       (control_error ''invalid_command'' ''command shape is invalid'')) (\<lambda>_.
     and_then (check_scope (cm_scope c) p) (\<lambda>_.
     and_then (ensure (\<not> (cm_command_window_id c \<noteq> st_command_window_id (cp_state p)
         \<or> cp_now p \<ge> (case parse_time (st_command_window_expires_at (cp_state p)) of
              Some s \<Rightarrow> s | None \<Rightarrow> 0)))
       (control_error ''command_window_expired'' ''management command window is expired'')) (\<lambda>_.
     and_then (ensure (case expected_revision of
           Some expected \<Rightarrow> \<not> (cm_expected_active_revision_id c \<noteq> Some expected
             \<or> st_active_revision_id (cp_state p) \<noteq> expected)
         | None \<Rightarrow> True)
       (control_error ''stale_revision'' ''active revision is stale'')) (\<lambda>_.
     and_then (ensure (case expected_preview of
           Some expected \<Rightarrow> \<not> (cm_expected_preview_id c \<noteq> Some expected
             \<and> cm_preview_id c \<noteq> Some expected)
         | None \<Rightarrow> True)
       (control_error ''preview_mismatch'' ''preview identity is stale'')) (\<lambda>_.
     ensure (cm_expected_control_version c = st_control_version (cp_state p))
       (control_error ''stale_control'' ''control version is stale''))))))"

text \<open>An admitted command replays a stored receipt or is new.\<close>

datatype 'a admitted = Replay receipt | Fresh 'a

definition admit ::
  "host \<Rightarrow> command \<Rightarrow> control_plane \<Rightarrow> (control_error + 'a) \<Rightarrow> control_error + 'a admitted" where
  "admit h c p checks =
     and_then (require_enabled p) (\<lambda>_.
     and_then (idempotent_result h c p) (\<lambda>known.
       case known of
         Some r \<Rightarrow> Inr (Replay r)
       | None \<Rightarrow> and_then checks (\<lambda>x. Inr (Fresh x))))"

definition run_command ::
  "(control_error + 'a admitted) \<Rightarrow> ('a \<Rightarrow> control_plane \<Rightarrow> receipt \<times> control_plane)
     \<Rightarrow> control_plane \<Rightarrow> receipt outcome" where
  "run_command admission effect p =
     (case admission of
        Inl e \<Rightarrow> (Inl e, p)
      | Inr (Replay r) \<Rightarrow> (Inr r, p)
      | Inr (Fresh x) \<Rightarrow> (let (r, p1) = effect x p in (Inr r, p1)))"

subsection \<open>Pause and stop\<close>

definition pause_checks :: "command \<Rightarrow> control_plane \<Rightarrow> control_error + unit" where
  "pause_checks c p =
     and_then (command_guard c ''pause'' None None p) (\<lambda>_.
     ensure (\<not> (st_stop_latched (cp_state p) \<or> st_pause_latched (cp_state p)))
       (control_error ''already_paused'' ''run is already paused or stopped''))"

definition bump_gate :: "control_plane \<Rightarrow> control_plane" where
  "bump_gate p = p\<lparr>cp_state := (cp_state p)\<lparr>
     st_gate_epoch := sat_add (st_gate_epoch (cp_state p)) 1,
     st_control_version := sat_add (st_control_version (cp_state p)) 1\<rparr>\<rparr>"

definition pause_effect :: "host \<Rightarrow> command \<Rightarrow> unit \<Rightarrow> control_plane \<Rightarrow> receipt \<times> control_plane" where
  "pause_effect h c u p =
     (let p1 = bump_gate (p\<lparr>cp_state := (cp_state p)\<lparr>st_pause_latched := True\<rparr>\<rparr>);
          p2 = sync_boundary p1;
          p3 = set_status (if quiescent p2 then ''paused_ready'' else ''pause_requested'') p2;
          (r, p4) = make_receipt c ''pause_requested'' None p3;
          p5 = save_command h c r p4;
          p6 = record_event ''pause.accepted'' (Some (rc_command_id r)) None None None p5;
          p7 = (if st_status (cp_state p6) = ''paused_ready''
                then record_event ''pause.ready'' (Some (rc_command_id r)) None None None p6
                else p6)
      in (r, p7))"

definition pause :: "host \<Rightarrow> command \<Rightarrow> control_plane \<Rightarrow> receipt outcome" where
  "pause h c p = run_command (admit h c p (pause_checks c p)) (pause_effect h c) p"

definition stop :: "control_plane \<Rightarrow> control_plane" where
  "stop p =
     (let p1 = p\<lparr>cp_state := (cp_state p)\<lparr>st_stop_latched := True, st_pause_latched := True,
                  st_status := ''stopped''\<rparr>\<rparr>;
          p2 = sync_boundary (bump_gate p1)
      in record_event ''stop.latched'' None None None (Some ''stop_dominates_resume'') p2)"

subsection \<open>Commit\<close>

text \<open>What a commit needs: the preview's identifier and record, its draft, the active revision.\<close>

type_synonym ticket = "string \<times> preview_record \<times> draft \<times> revision"

definition preview_fresh :: "command \<Rightarrow> preview_record \<Rightarrow> control_plane \<Rightarrow> bool" where
  "preview_fresh c r p \<longleftrightarrow>
     \<not> (prr_consumed r \<or> \<not> pv_applicable (prr_preview r)
        \<or> pv_prepared_manifest_sha256 (prr_preview r) \<noteq> cm_approved_manifest_sha256 c
        \<or> time_passed (pv_expires_at (prr_preview r)) (cp_now p)
        \<or> pv_boundary (prr_preview r) \<noteq> cp_boundary p)"

definition commit_checks :: "command \<Rightarrow> control_plane \<Rightarrow> control_error + ticket" where
  "commit_checks c p =
     and_then (command_guard c ''commit'' (cm_expected_active_revision_id c) (cm_preview_id c) p) (\<lambda>_.
     and_then (ensure (\<not> (\<not> st_pause_latched (cp_state p)
         \<or> st_status (cp_state p) \<notin> {''paused_ready'', ''paused_stale''}))
       (control_error ''run_not_ready'' ''commit requires a held ready boundary'')) (\<lambda>_.
     and_then (ensure (quiescent p)
       (control_error ''unresolved_operation'' ''commit is blocked by an unresolved effect'')) (\<lambda>_.
     and_then (ok_or (cm_preview_id c)
       (control_error ''preview_required'' ''applicable preview is required'')) (\<lambda>preview_id.
     and_then (ok_or (bt_get (cp_previews p) preview_id)
       (control_error ''preview_not_found'' ''preview is unavailable'')) (\<lambda>r.
     and_then (ensure (preview_fresh c r p)
       (control_error ''preview_stale'' ''preview approval is stale'')) (\<lambda>_.
     and_then (get_draft (pv_draft_id (prr_preview r)) p) (\<lambda>d.
     and_then (ok_or (bt_get (cp_revisions p) (st_active_revision_id (cp_state p)))
       (control_error ''revision_not_found'' ''active revision is unavailable'')) (\<lambda>current.
     Inr (preview_id, r, d, current)))))))))"

definition same_configuration :: "draft \<Rightarrow> revision \<Rightarrow> bool" where
  "same_configuration d r \<longleftrightarrow>
     dr_selected_items d = rv_selected_items r \<and> dr_pinned_item_ids d = rv_pinned_item_ids r
     \<and> dr_note_items d = rv_note_items r \<and> dr_objective_item d = rv_objective_item r"

definition consume :: "string \<Rightarrow> control_plane \<Rightarrow> control_plane" where
  "consume preview_id p =
     p\<lparr>cp_previews := bt_update preview_id (\<lambda>r. r\<lparr>prr_consumed := True\<rparr>) (cp_previews p)\<rparr>"

definition commit_no_change ::
  "host \<Rightarrow> command \<Rightarrow> string \<Rightarrow> control_plane \<Rightarrow> receipt \<times> control_plane" where
  "commit_no_change h c preview_id p =
     (let p1 = (consume preview_id p)\<lparr>cp_continuation_preview_id := Some preview_id,
                  cp_prepared_input := None\<rparr>;
          (r, p2) = make_receipt c ''no_change'' None p1;
          p3 = save_command h c r p2
      in (r, record_event ''revision.no_change'' (Some (rc_command_id r)) (Some preview_id)
               (Some (st_active_revision_id (cp_state p3))) (Some ''configuration_identical'') p3))"

definition make_revision ::
  "control_plane \<Rightarrow> string \<Rightarrow> string \<Rightarrow> preview \<Rightarrow> draft \<Rightarrow> revision" where
  "make_revision p revision_id intervention_id v d =
     \<lparr>rv_schema = REVISION_SCHEMA, rv_scope = cp_scope p, rv_revision_id = revision_id,
      rv_sequence = of_nat (bt_len (cp_revisions p)) + 1,
      rv_parent_revision_id = st_active_revision_id (cp_state p),
      rv_selected_items = dr_selected_items d, rv_pinned_item_ids = dr_pinned_item_ids d,
      rv_note_items = dr_note_items d, rv_objective_item = dr_objective_item d,
      rv_approved_preview_id = pv_preview_id v,
      rv_approved_manifest_sha256 =
        (case pv_prepared_manifest_sha256 v of Some m \<Rightarrow> m | None \<Rightarrow> []),
      rv_author_ref = dr_author_ref d, rv_intervention_id = intervention_id,
      rv_committed_at = format_time (cp_now p),
      rv_plan_epoch = sat_add (st_plan_epoch (cp_state p)) 1,
      rv_state_after_commit = ''paused_committed''\<rparr>"

definition make_relation ::
  "control_plane \<Rightarrow> string \<Rightarrow> string \<Rightarrow> string \<Rightarrow> string \<Rightarrow> preview \<Rightarrow> relation" where
  "make_relation p relation_id revision_id preview_id intervention_id v =
     \<lparr>rl_schema = RELATION_SCHEMA, rl_scope = cp_scope p, rl_relation_id = relation_id,
      rl_revision_id = revision_id, rl_preview_id = Some preview_id,
      rl_phase1_snapshot_id = ''snapshot-fixture-cli-001'',
      rl_model_execution_id = (case pv_model_execution_id v of
         Some i \<Rightarrow> i | None \<Rightarrow> ''execution-unavailable''),
      rl_provider_attempt_id = (case pv_provider_attempt_id v of
         Some i \<Rightarrow> i | None \<Rightarrow> ''attempt-unavailable''),
      rl_plan_id = None, rl_action_id = None, rl_intervention_id = Some intervention_id,
      rl_first_approved_input = True, rl_evidence = ''synthetic''\<rparr>"

text \<open>The state once the new revision is installed, before the receipt and the events.\<close>

definition install_revision ::
  "string \<Rightarrow> preview_record \<Rightarrow> string \<Rightarrow> revision \<Rightarrow> control_plane \<Rightarrow> control_plane" where
  "install_revision preview_id r revision_id rv p =
     (let p1 = consume preview_id (p\<lparr>cp_revisions := bt_insert revision_id rv (cp_revisions p)\<rparr>);
          p2 = p1\<lparr>cp_state := (cp_state p1)\<lparr>st_active_revision_id := revision_id,
                 st_plan_epoch := sat_add (st_plan_epoch (cp_state p1)) 1,
                 st_control_version := sat_add (st_control_version (cp_state p1)) 1,
                 st_status := ''paused_committed''\<rparr>\<rparr>
      in (sync_boundary p2)\<lparr>cp_continuation_preview_id := Some preview_id,
            cp_prepared_input := map_option mt_input (prr_material r)\<rparr>)"

definition commit_revision ::
  "host \<Rightarrow> command \<Rightarrow> string \<Rightarrow> preview_record \<Rightarrow> draft \<Rightarrow> control_plane \<Rightarrow> receipt \<times> control_plane" where
  "commit_revision h c preview_id v d p =
     (let (revision_id, p1) = fresh_id ''revision'' p;
          (intervention_id, p2) = fresh_id ''intervention'' p1;
          p3 = install_revision preview_id v revision_id
                 (make_revision p2 revision_id intervention_id (prr_preview v) d) p2;
          (r, p4) = make_receipt c ''revision_committed'' None p3;
          p5 = save_command h c r p4;
          p6 = record_event ''revision.committed'' (Some (rc_command_id r)) (Some preview_id)
                 (Some revision_id) None p5;
          p7 = record_event ''plan.retired'' (Some (rc_command_id r)) None (Some revision_id)
                 (Some ''plan_epoch_advanced'') p6;
          (relation_id, p8) = fresh_id ''relation'' p7
      in (r, p8\<lparr>cp_relations := cp_relations p8
               @ [make_relation p8 relation_id revision_id preview_id intervention_id
                    (prr_preview v)]\<rparr>))"

definition commit_effect ::
  "host \<Rightarrow> command \<Rightarrow> ticket \<Rightarrow> control_plane \<Rightarrow> receipt \<times> control_plane" where
  "commit_effect h c t p =
     (case t of (preview_id, v, d, current) \<Rightarrow>
        if same_configuration d current then commit_no_change h c preview_id p
        else commit_revision h c preview_id v d p)"

definition commit :: "host \<Rightarrow> command \<Rightarrow> control_plane \<Rightarrow> receipt outcome" where
  "commit h c p = run_command (admit h c p (commit_checks c p)) (commit_effect h c) p"

subsection \<open>Resume\<close>

definition continuation_named :: "command \<Rightarrow> control_plane \<Rightarrow> control_error + unit" where
  "continuation_named c p =
     (case (cp_continuation_preview_id p, cm_expected_preview_id c) of
        (Some _, None) \<Rightarrow>
          Inl (control_error ''preview_required'' ''resume must name the approved continuation'')
      | (Some current, Some expected) \<Rightarrow>
          ensure (current = expected)
            (control_error ''preview_stale'' ''approved continuation is unavailable'')
      | (None, Some _) \<Rightarrow>
          Inl (control_error ''preview_stale'' ''approved continuation is unavailable'')
      | (None, None) \<Rightarrow> Inr ())"

definition continuation_current :: "control_plane \<Rightarrow> control_error + unit" where
  "continuation_current p =
     (case cp_continuation_preview_id p of
        None \<Rightarrow> Inr ()
      | Some preview_id \<Rightarrow>
          and_then (ok_or (bt_get (cp_previews p) preview_id)
            (control_error ''preview_stale'' ''approved continuation is unavailable'')) (\<lambda>r.
          and_then (ensure (\<not> time_passed (pv_expires_at (prr_preview r)) (cp_now p))
            (control_error ''preview_stale'' ''approved continuation has expired'')) (\<lambda>_.
          ensure (same_external_boundary (pv_boundary (prr_preview r)) (cp_boundary p))
            (control_error ''preview_stale'' ''approved continuation boundary is stale''))))"

definition resume_checks :: "command \<Rightarrow> control_plane \<Rightarrow> control_error + unit" where
  "resume_checks c p =
     and_then (command_guard c ''resume'' (cm_expected_active_revision_id c)
         (cm_expected_preview_id c) p) (\<lambda>_.
     and_then (ensure (\<not> st_stop_latched (cp_state p))
       (control_error ''stopped'' ''stop intent dominates resume'')) (\<lambda>_.
     and_then (ensure (\<not> (\<not> st_pause_latched (cp_state p) \<or> \<not> quiescent p))
       (control_error ''not_ready'' ''resume requires a quiescent paused boundary'')) (\<lambda>_.
     and_then (continuation_named c p) (\<lambda>_. continuation_current p))))"

definition resume_effect :: "host \<Rightarrow> command \<Rightarrow> unit \<Rightarrow> control_plane \<Rightarrow> receipt \<times> control_plane" where
  "resume_effect h c u p =
     (let p1 = bump_gate (p\<lparr>cp_state := (cp_state p)\<lparr>st_pause_latched := False\<rparr>\<rparr>);
          p2 = sync_boundary (set_status ''running'' p1);
          (r, p3) = make_receipt c ''resume_accepted'' None p2;
          p4 = save_command h c r p3;
          continuation = cp_continuation_preview_id p4;
          p5 = record_event ''resume.accepted'' (Some (rc_command_id r)) continuation None None p4;
          p6 = (if cp_prepared_input p5 \<noteq> None
                then record_event ''input.submitted'' (Some (rc_command_id r)) continuation None None
                      (record_event ''input.claimed'' (Some (rc_command_id r)) continuation None None p5)
                else p5)
      in (r, p6\<lparr>cp_continuation_preview_id := None, cp_prepared_input := None\<rparr>))"

definition resume :: "host \<Rightarrow> command \<Rightarrow> control_plane \<Rightarrow> receipt outcome" where
  "resume h c p = run_command (admit h c p (resume_checks c p)) (resume_effect h c) p"

subsection \<open>Changes of the host\<close>

definition host_changed :: "string \<Rightarrow> boundary \<Rightarrow> control_plane \<Rightarrow> control_plane" where
  "host_changed reason b p =
     (let p1 = p\<lparr>cp_boundary := b, cp_state := (cp_state p)\<lparr>st_boundary := Some b\<rparr>\<rparr>;
          p2 = (if st_pause_latched (cp_state p1) then set_status ''paused_stale'' p1 else p1)
      in invalidate_all_previews reason p2)"

definition advance_boundary :: "host \<Rightarrow> control_plane \<Rightarrow> control_plane" where
  "advance_boundary h p =
     (let generation = sat_add (bd_generation (cp_boundary p)) 1
      in host_changed ''boundary_changed''
           ((cp_boundary p)\<lparr>bd_generation := generation,
              bd_observation_sha256 := digest h (''observation-'' @ dec (unat generation))\<rparr>) p)"

definition advance_catalog :: "host \<Rightarrow> control_plane \<Rightarrow> control_plane" where
  "advance_catalog h p =
     host_changed ''catalog_changed''
       ((cp_boundary p)\<lparr>bd_catalog_sha256 :=
          digest h (''catalog-'' @ dec (unat (sat_add (bd_gate_epoch (cp_boundary p)) 1)))\<rparr>) p"

definition advance_provider_fingerprint :: "host \<Rightarrow> control_plane \<Rightarrow> control_plane" where
  "advance_provider_fingerprint h p =
     (let n = dec (unat (sat_add (bd_gate_epoch (cp_boundary p)) 1));
          adapter = ''fixture-adapter-v'' @ n
      in host_changed ''provider_fingerprint_changed''
           ((cp_boundary p)\<lparr>bd_adapter_revision := adapter,
              bd_adapter_sha256 := digest h adapter,
              bd_model := ''synthetic-fixture-v'' @ n,
              bd_configuration_sha256 := digest h (''configuration-'' @ n)\<rparr>) p)"

definition advance_time :: "u64 \<Rightarrow> control_plane \<Rightarrow> control_plane" where
  "advance_time seconds p = p\<lparr>cp_now := sat_add (cp_now p) seconds\<rparr>"

definition deactivate :: "control_plane \<Rightarrow> control_plane" where
  "deactivate p =
     record_event ''management.disabled'' None None (Some (st_active_revision_id (cp_state p)))
       (Some ''safe_deactivation'') (p\<lparr>cp_enabled := False\<rparr>)"

definition activate :: "control_plane \<Rightarrow> control_plane" where
  "activate p =
     record_event ''management.enabled'' None None (Some (st_active_revision_id (cp_state p)))
       (Some ''explicit_activation'') (p\<lparr>cp_enabled := True\<rparr>)"

definition validate_plan_epoch :: "u64 \<Rightarrow> control_plane \<Rightarrow> control_error + unit" where
  "validate_plan_epoch epoch p =
     ensure (epoch = st_plan_epoch (cp_state p) \<and> \<not> st_pause_latched (cp_state p)
         \<and> \<not> st_stop_latched (cp_state p))
       (control_error ''obsolete_plan'' ''plan epoch is no longer dispatchable'')"

subsection \<open>Receipts by identifier\<close>

definition command_receipt :: "string \<Rightarrow> control_plane \<Rightarrow> control_error + receipt" where
  "command_receipt command_id p =
     ok_or (List.find (\<lambda>r. rc_command_id r = command_id) (receipts p))
       (control_error ''command_not_found'' ''command is unavailable'')"

definition receipt_for_idempotency_key :: "string \<Rightarrow> control_plane \<Rightarrow> control_error + receipt" where
  "receipt_for_idempotency_key k p =
     ok_or (map_option snd (bt_get (cp_commands p) k))
       (control_error ''command_not_found'' ''command is unavailable'')"

end
