(* ===== verification/Transitions.thy ===== *)
theory Transitions
  imports Prelude
begin

text \<open>
  State machines: the states a step relation reaches from its start states, and the contract of
  an invariant. A component states its step relation and interprets the locale with each of
  its invariants; \<open>relative_invariant\<close> is for an invariant whose preservation needs another.
\<close>

inductive reach :: "('s \<Rightarrow> bool) \<Rightarrow> ('s \<Rightarrow> 's \<Rightarrow> bool) \<Rightarrow> 's \<Rightarrow> bool"
  for start :: "'s \<Rightarrow> bool" and step :: "'s \<Rightarrow> 's \<Rightarrow> bool" where
  start: "start s \<Longrightarrow> reach start step s"
| step: "reach start step s \<Longrightarrow> step s t \<Longrightarrow> reach start step t"

lemma reach_steps: "step\<^sup>*\<^sup>* s t \<Longrightarrow> reach start step s \<Longrightarrow> reach start step t"
  by (induction rule: rtranclp_induct) (auto intro: reach.step)

locale invariant =
  fixes start :: "'s \<Rightarrow> bool" and step :: "'s \<Rightarrow> 's \<Rightarrow> bool" and inv :: "'s \<Rightarrow> bool"
  assumes inv_start: "start s \<Longrightarrow> inv s"
    and inv_step: "inv s \<Longrightarrow> step s t \<Longrightarrow> inv t"
begin

lemma holds: "reach start step s \<Longrightarrow> inv s"
  by (induction rule: reach.induct) (auto intro: inv_start inv_step)

lemma preserved: "step\<^sup>*\<^sup>* s t \<Longrightarrow> inv s \<Longrightarrow> inv t"
  by (induction rule: rtranclp_induct) (auto intro: inv_step)

end

locale relative_invariant = invariant +
  fixes rel :: "'a \<Rightarrow> bool"
  assumes rel_start: "start s \<Longrightarrow> rel s"
    and rel_step: "inv s \<Longrightarrow> rel s \<Longrightarrow> step s t \<Longrightarrow> rel t"
begin

lemma rel_holds: "reach start step s \<Longrightarrow> rel s"
proof (induction rule: reach.induct)
  case (step s t)
  then show ?case using holds rel_step by blast
qed (rule rel_start)

end

text \<open>
  A property of the state that a step, once it holds, never undoes. \<open>good\<close> is a side
  condition that a state has whenever a later one has it, such as a counter below its bound.
\<close>

locale stable =
  fixes start :: "'s \<Rightarrow> bool" and step :: "'s \<Rightarrow> 's \<Rightarrow> bool"
    and good :: "'s \<Rightarrow> bool" and fact :: "'s \<Rightarrow> bool"
  assumes good_back: "step s t \<Longrightarrow> good t \<Longrightarrow> good s"
    and kept: "reach start step s \<Longrightarrow> good s \<Longrightarrow> fact s \<Longrightarrow> step s t \<Longrightarrow> fact t"
begin

lemma kept_steps:
  assumes "step\<^sup>*\<^sup>* s t" "reach start step s" "good t" "fact s"
  shows "fact t"
proof -
  have "step\<^sup>*\<^sup>* s t \<Longrightarrow> good t \<Longrightarrow> fact t"
  proof (induction rule: rtranclp_induct)
    case (step t u)
    then have "reach start step t" "good t"
      using reach_steps [OF step.hyps(1) assms(2)] good_back by auto
    with step show ?case using kept good_back by blast
  qed (rule assms(4))
  then show ?thesis using assms(1,3) by blast
qed

end

text \<open>Cells that are written at most once: \<open>read s k\<close> is what the state holds under a key.\<close>

locale write_once =
  fixes start :: "'s \<Rightarrow> bool" and step :: "'s \<Rightarrow> 's \<Rightarrow> bool" and read :: "'s \<Rightarrow> 'k \<Rightarrow> 'v option"
  assumes written: "reach start step s \<Longrightarrow> read s k = Some v \<Longrightarrow> step s t \<Longrightarrow> read t k = Some v"

sublocale write_once \<subseteq> cell: stable start step "\<lambda>_. True" "\<lambda>s. read s k = Some v" for k v
  by unfold_locales (auto intro: written)

text \<open>
  A forward simulation: every step of the machine is a step of the specification, or none, under the
  abstraction.
\<close>

locale simulation =
  fixes start :: "'s \<Rightarrow> bool" and step :: "'s \<Rightarrow> 's \<Rightarrow> bool"
    and spec_start :: "'a \<Rightarrow> bool" and spec_step :: "'a \<Rightarrow> 'a \<Rightarrow> bool" and abst :: "'s \<Rightarrow> 'a"
  assumes sim_start: "start s \<Longrightarrow> spec_start (abst s)"
    and sim_step: "reach start step s \<Longrightarrow> step s t \<Longrightarrow> abst t = abst s \<or> spec_step (abst s) (abst t)"
begin

lemma simulated_step:
  assumes "reach start step s" "step s t"
  shows "spec_step\<^sup>*\<^sup>* (abst s) (abst t)"
  using sim_step [OF assms]
proof
  assume "abst t = abst s"
  then show ?thesis by simp
qed (rule r_into_rtranclp)

lemma simulated_steps: "step\<^sup>*\<^sup>* s t \<Longrightarrow> reach start step s \<Longrightarrow> spec_step\<^sup>*\<^sup>* (abst s) (abst t)"
proof (induction rule: rtranclp_induct)
  case (step t u)
  have "spec_step\<^sup>*\<^sup>* (abst t) (abst u)"
    by (rule simulated_step [OF reach_steps [OF step.hyps(1) step.prems] step.hyps(2)])
  with step.IH [OF step.prems] show ?case by (rule rtranclp_trans)
qed (rule rtranclp.rtrancl_refl)

lemma simulated: "reach start step s \<Longrightarrow> reach spec_start spec_step (abst s)"
proof (induction rule: reach.induct)
  case (step s t)
  from sim_step [OF step.hyps] show ?case
  proof
    assume "abst t = abst s"
    with step.IH show ?case by (simp only:)
  qed (rule reach.step [OF step.IH])
next
  case (start s)
  show ?case by (rule reach.start) (rule sim_start, rule start)
qed

end

end
