(* ===== verification/Control_Steps.thy ===== *)
theory Control_Steps
  imports Control_Lifecycle Transitions
begin

text \<open>
  The control plane as a state machine: one step is one call of a mutating method with any
  arguments, failing calls included. The elimination rule \<open>control_step_cases\<close> reduces a step
  to the effect it has; every invariant of the plane is proved by it.
\<close>

subsection \<open>Steps and reachable planes\<close>

inductive control_step :: "host \<Rightarrow> control_plane \<Rightarrow> control_plane \<Rightarrow> bool" for h where
  create_draft: "control_step h p (snd (create_draft s active author p))"
| apply_patch: "control_step h p (snd (apply_patch h t author authorized p))"
| create_preview: "control_step h p (snd (create_preview h s i dv requested cv ack p))"
| pause: "control_step h p (snd (pause h c p))"
| stop: "control_step h p (stop p)"
| commit: "control_step h p (snd (commit h c p))"
| resume: "control_step h p (snd (resume h c p))"
| advance_boundary: "control_step h p (advance_boundary h p)"
| advance_catalog: "control_step h p (advance_catalog h p)"
| advance_provider_fingerprint: "control_step h p (advance_provider_fingerprint h p)"
| advance_time: "control_step h p (advance_time seconds p)"
| deactivate: "control_step h p (deactivate p)"
| activate: "control_step h p (activate p)"

definition control_start :: "host \<Rightarrow> control_plane \<Rightarrow> bool" where
  "control_start h p \<longleftrightarrow> (\<exists>s enabled now. p = control_new h s enabled now)"

abbreviation control_reachable :: "host \<Rightarrow> control_plane \<Rightarrow> bool" where
  "control_reachable h \<equiv> reach (control_start h) (control_step h)"

abbreviation control_steps :: "host \<Rightarrow> control_plane \<Rightarrow> control_plane \<Rightarrow> bool" where
  "control_steps h \<equiv> (control_step h)\<^sup>*\<^sup>*"

lemma control_new_reachable: "control_reachable h (control_new h s enabled now)"
  by (rule reach.start) (auto simp: control_start_def)

subsection \<open>What the operations change\<close>

text \<open>
  The fields of the plane after each of the helpers the operations are composed of. Recording
  an event changes the events, the counter of identifiers and the last sequence.
\<close>

lemma record_event_fields [simp]:
  "cp_scope (record_event ty ci pi ri rc p) = cp_scope p"
  "cp_enabled (record_event ty ci pi ri rc p) = cp_enabled p"
  "cp_now (record_event ty ci pi ri rc p) = cp_now p"
  "cp_boundary (record_event ty ci pi ri rc p) = cp_boundary p"
  "cp_items (record_event ty ci pi ri rc p) = cp_items p"
  "cp_latest_versions (record_event ty ci pi ri rc p) = cp_latest_versions p"
  "cp_drafts (record_event ty ci pi ri rc p) = cp_drafts p"
  "cp_revisions (record_event ty ci pi ri rc p) = cp_revisions p"
  "cp_previews (record_event ty ci pi ri rc p) = cp_previews p"
  "cp_commands (record_event ty ci pi ri rc p) = cp_commands p"
  "cp_relations (record_event ty ci pi ri rc p) = cp_relations p"
  "cp_continuation_preview_id (record_event ty ci pi ri rc p) = cp_continuation_preview_id p"
  "cp_prepared_input (record_event ty ci pi ri rc p) = cp_prepared_input p"
  "st_scope (cp_state (record_event ty ci pi ri rc p)) = st_scope (cp_state p)"
  "st_status (cp_state (record_event ty ci pi ri rc p)) = st_status (cp_state p)"
  "st_control_version (cp_state (record_event ty ci pi ri rc p)) = st_control_version (cp_state p)"
  "st_controller_epoch (cp_state (record_event ty ci pi ri rc p)) = st_controller_epoch (cp_state p)"
  "st_gate_epoch (cp_state (record_event ty ci pi ri rc p)) = st_gate_epoch (cp_state p)"
  "st_plan_epoch (cp_state (record_event ty ci pi ri rc p)) = st_plan_epoch (cp_state p)"
  "st_active_revision_id (cp_state (record_event ty ci pi ri rc p)) = st_active_revision_id (cp_state p)"
  "st_pause_latched (cp_state (record_event ty ci pi ri rc p)) = st_pause_latched (cp_state p)"
  "st_stop_latched (cp_state (record_event ty ci pi ri rc p)) = st_stop_latched (cp_state p)"
  "st_outstanding_provider_attempts (cp_state (record_event ty ci pi ri rc p)) = st_outstanding_provider_attempts (cp_state p)"
  "st_unresolved_operations (cp_state (record_event ty ci pi ri rc p)) = st_unresolved_operations (cp_state p)"
  "st_boundary (cp_state (record_event ty ci pi ri rc p)) = st_boundary (cp_state p)"
  "st_last_sequence (cp_state (record_event ty ci pi ri rc p)) = sat_add (st_last_sequence (cp_state p)) 1"
  by (simp_all add: record_event_def fresh_id_def Let_def)

lemma sync_boundary_fields [simp]:
  "cp_scope (sync_boundary p) = cp_scope p" "cp_enabled (sync_boundary p) = cp_enabled p"
  "cp_now (sync_boundary p) = cp_now p"
  "cp_boundary (sync_boundary p) = (cp_boundary p)\<lparr>bd_control_version := st_control_version (cp_state p),
     bd_controller_epoch := st_controller_epoch (cp_state p), bd_gate_epoch := st_gate_epoch (cp_state p)\<rparr>"
  "cp_items (sync_boundary p) = cp_items p"
  "cp_latest_versions (sync_boundary p) = cp_latest_versions p"
  "cp_drafts (sync_boundary p) = cp_drafts p" "cp_revisions (sync_boundary p) = cp_revisions p"
  "cp_previews (sync_boundary p) = cp_previews p" "cp_commands (sync_boundary p) = cp_commands p"
  "cp_events (sync_boundary p) = cp_events p" "cp_relations (sync_boundary p) = cp_relations p"
  "cp_next_id (sync_boundary p) = cp_next_id p"
  "cp_continuation_preview_id (sync_boundary p) = cp_continuation_preview_id p"
  "cp_prepared_input (sync_boundary p) = cp_prepared_input p"
  "st_scope (cp_state (sync_boundary p)) = st_scope (cp_state p)"
  "st_status (cp_state (sync_boundary p)) = st_status (cp_state p)"
  "st_control_version (cp_state (sync_boundary p)) = st_control_version (cp_state p)"
  "st_controller_epoch (cp_state (sync_boundary p)) = st_controller_epoch (cp_state p)"
  "st_gate_epoch (cp_state (sync_boundary p)) = st_gate_epoch (cp_state p)"
  "st_plan_epoch (cp_state (sync_boundary p)) = st_plan_epoch (cp_state p)"
  "st_active_revision_id (cp_state (sync_boundary p)) = st_active_revision_id (cp_state p)"
  "st_pause_latched (cp_state (sync_boundary p)) = st_pause_latched (cp_state p)"
  "st_stop_latched (cp_state (sync_boundary p)) = st_stop_latched (cp_state p)"
  "st_outstanding_provider_attempts (cp_state (sync_boundary p)) = st_outstanding_provider_attempts (cp_state p)"
  "st_unresolved_operations (cp_state (sync_boundary p)) = st_unresolved_operations (cp_state p)"
  "st_boundary (cp_state (sync_boundary p)) = Some (cp_boundary (sync_boundary p))"
  "st_last_sequence (cp_state (sync_boundary p)) = st_last_sequence (cp_state p)"
  by (simp_all add: sync_boundary_def Let_def)

lemma set_status_fields [simp]:
  "cp_scope (set_status s p) = cp_scope p" "cp_enabled (set_status s p) = cp_enabled p"
  "cp_now (set_status s p) = cp_now p" "cp_boundary (set_status s p) = cp_boundary p"
  "cp_items (set_status s p) = cp_items p"
  "cp_latest_versions (set_status s p) = cp_latest_versions p"
  "cp_drafts (set_status s p) = cp_drafts p" "cp_revisions (set_status s p) = cp_revisions p"
  "cp_previews (set_status s p) = cp_previews p" "cp_commands (set_status s p) = cp_commands p"
  "cp_events (set_status s p) = cp_events p" "cp_relations (set_status s p) = cp_relations p"
  "cp_next_id (set_status s p) = cp_next_id p"
  "cp_continuation_preview_id (set_status s p) = cp_continuation_preview_id p"
  "cp_prepared_input (set_status s p) = cp_prepared_input p"
  "st_scope (cp_state (set_status s p)) = st_scope (cp_state p)"
  "st_status (cp_state (set_status s p)) = s"
  "st_control_version (cp_state (set_status s p)) = st_control_version (cp_state p)"
  "st_controller_epoch (cp_state (set_status s p)) = st_controller_epoch (cp_state p)"
  "st_gate_epoch (cp_state (set_status s p)) = st_gate_epoch (cp_state p)"
  "st_plan_epoch (cp_state (set_status s p)) = st_plan_epoch (cp_state p)"
  "st_active_revision_id (cp_state (set_status s p)) = st_active_revision_id (cp_state p)"
  "st_pause_latched (cp_state (set_status s p)) = st_pause_latched (cp_state p)"
  "st_stop_latched (cp_state (set_status s p)) = st_stop_latched (cp_state p)"
  "st_outstanding_provider_attempts (cp_state (set_status s p)) = st_outstanding_provider_attempts (cp_state p)"
  "st_unresolved_operations (cp_state (set_status s p)) = st_unresolved_operations (cp_state p)"
  "st_boundary (cp_state (set_status s p)) = st_boundary (cp_state p)"
  "st_last_sequence (cp_state (set_status s p)) = st_last_sequence (cp_state p)"
  by (simp_all add: set_status_def)

lemma bump_gate_fields [simp]:
  "cp_scope (bump_gate p) = cp_scope p" "cp_enabled (bump_gate p) = cp_enabled p"
  "cp_now (bump_gate p) = cp_now p" "cp_boundary (bump_gate p) = cp_boundary p"
  "cp_items (bump_gate p) = cp_items p" "cp_latest_versions (bump_gate p) = cp_latest_versions p"
  "cp_drafts (bump_gate p) = cp_drafts p" "cp_revisions (bump_gate p) = cp_revisions p"
  "cp_previews (bump_gate p) = cp_previews p" "cp_commands (bump_gate p) = cp_commands p"
  "cp_events (bump_gate p) = cp_events p" "cp_relations (bump_gate p) = cp_relations p"
  "cp_next_id (bump_gate p) = cp_next_id p"
  "cp_continuation_preview_id (bump_gate p) = cp_continuation_preview_id p"
  "cp_prepared_input (bump_gate p) = cp_prepared_input p"
  "st_scope (cp_state (bump_gate p)) = st_scope (cp_state p)"
  "st_status (cp_state (bump_gate p)) = st_status (cp_state p)"
  "st_control_version (cp_state (bump_gate p)) = sat_add (st_control_version (cp_state p)) 1"
  "st_controller_epoch (cp_state (bump_gate p)) = st_controller_epoch (cp_state p)"
  "st_gate_epoch (cp_state (bump_gate p)) = sat_add (st_gate_epoch (cp_state p)) 1"
  "st_plan_epoch (cp_state (bump_gate p)) = st_plan_epoch (cp_state p)"
  "st_active_revision_id (cp_state (bump_gate p)) = st_active_revision_id (cp_state p)"
  "st_pause_latched (cp_state (bump_gate p)) = st_pause_latched (cp_state p)"
  "st_stop_latched (cp_state (bump_gate p)) = st_stop_latched (cp_state p)"
  "st_outstanding_provider_attempts (cp_state (bump_gate p)) = st_outstanding_provider_attempts (cp_state p)"
  "st_unresolved_operations (cp_state (bump_gate p)) = st_unresolved_operations (cp_state p)"
  "st_boundary (cp_state (bump_gate p)) = st_boundary (cp_state p)"
  "st_last_sequence (cp_state (bump_gate p)) = st_last_sequence (cp_state p)"
  by (simp_all add: bump_gate_def)

lemma save_command_fields [simp]:
  "cp_scope (save_command h c r p) = cp_scope p"
  "cp_enabled (save_command h c r p) = cp_enabled p" "cp_now (save_command h c r p) = cp_now p"
  "cp_boundary (save_command h c r p) = cp_boundary p"
  "cp_items (save_command h c r p) = cp_items p"
  "cp_latest_versions (save_command h c r p) = cp_latest_versions p"
  "cp_drafts (save_command h c r p) = cp_drafts p"
  "cp_revisions (save_command h c r p) = cp_revisions p"
  "cp_previews (save_command h c r p) = cp_previews p"
  "cp_commands (save_command h c r p) = bt_insert (cm_idempotency_key c)
     (case to_vec h (command_doc c) of Some bs \<Rightarrow> digest h bs | None \<Rightarrow> [], r) (cp_commands p)"
  "cp_events (save_command h c r p) = cp_events p"
  "cp_relations (save_command h c r p) = cp_relations p"
  "cp_next_id (save_command h c r p) = cp_next_id p"
  "cp_continuation_preview_id (save_command h c r p) = cp_continuation_preview_id p"
  "cp_prepared_input (save_command h c r p) = cp_prepared_input p"
  "st_scope (cp_state (save_command h c r p)) = st_scope (cp_state p)"
  "st_status (cp_state (save_command h c r p)) = st_status (cp_state p)"
  "st_control_version (cp_state (save_command h c r p)) = st_control_version (cp_state p)"
  "st_controller_epoch (cp_state (save_command h c r p)) = st_controller_epoch (cp_state p)"
  "st_gate_epoch (cp_state (save_command h c r p)) = st_gate_epoch (cp_state p)"
  "st_plan_epoch (cp_state (save_command h c r p)) = st_plan_epoch (cp_state p)"
  "st_active_revision_id (cp_state (save_command h c r p)) = st_active_revision_id (cp_state p)"
  "st_pause_latched (cp_state (save_command h c r p)) = st_pause_latched (cp_state p)"
  "st_stop_latched (cp_state (save_command h c r p)) = st_stop_latched (cp_state p)"
  "st_outstanding_provider_attempts (cp_state (save_command h c r p)) = st_outstanding_provider_attempts (cp_state p)"
  "st_unresolved_operations (cp_state (save_command h c r p)) = st_unresolved_operations (cp_state p)"
  "st_boundary (cp_state (save_command h c r p)) = st_boundary (cp_state p)"
  "st_last_sequence (cp_state (save_command h c r p)) = st_last_sequence (cp_state p)"
  by (simp_all add: save_command_def)

lemma consume_fields [simp]:
  "cp_scope (consume i p) = cp_scope p" "cp_enabled (consume i p) = cp_enabled p"
  "cp_now (consume i p) = cp_now p" "cp_boundary (consume i p) = cp_boundary p"
  "cp_items (consume i p) = cp_items p" "cp_latest_versions (consume i p) = cp_latest_versions p"
  "cp_drafts (consume i p) = cp_drafts p" "cp_revisions (consume i p) = cp_revisions p"
  "cp_previews (consume i p) = bt_update i (\<lambda>r. r\<lparr>prr_consumed := True\<rparr>) (cp_previews p)"
  "cp_commands (consume i p) = cp_commands p" "cp_events (consume i p) = cp_events p"
  "cp_relations (consume i p) = cp_relations p" "cp_next_id (consume i p) = cp_next_id p"
  "cp_continuation_preview_id (consume i p) = cp_continuation_preview_id p"
  "cp_prepared_input (consume i p) = cp_prepared_input p"
  "st_scope (cp_state (consume i p)) = st_scope (cp_state p)"
  "st_status (cp_state (consume i p)) = st_status (cp_state p)"
  "st_control_version (cp_state (consume i p)) = st_control_version (cp_state p)"
  "st_controller_epoch (cp_state (consume i p)) = st_controller_epoch (cp_state p)"
  "st_gate_epoch (cp_state (consume i p)) = st_gate_epoch (cp_state p)"
  "st_plan_epoch (cp_state (consume i p)) = st_plan_epoch (cp_state p)"
  "st_active_revision_id (cp_state (consume i p)) = st_active_revision_id (cp_state p)"
  "st_pause_latched (cp_state (consume i p)) = st_pause_latched (cp_state p)"
  "st_stop_latched (cp_state (consume i p)) = st_stop_latched (cp_state p)"
  "st_outstanding_provider_attempts (cp_state (consume i p)) = st_outstanding_provider_attempts (cp_state p)"
  "st_unresolved_operations (cp_state (consume i p)) = st_unresolved_operations (cp_state p)"
  "st_boundary (cp_state (consume i p)) = st_boundary (cp_state p)"
  "st_last_sequence (cp_state (consume i p)) = st_last_sequence (cp_state p)"
  by (simp_all add: consume_def)

lemma make_receipt_fields [simp]:
  "cp_scope (snd (make_receipt c e rc p)) = cp_scope p"
  "cp_enabled (snd (make_receipt c e rc p)) = cp_enabled p"
  "cp_now (snd (make_receipt c e rc p)) = cp_now p"
  "cp_boundary (snd (make_receipt c e rc p)) = cp_boundary p"
  "cp_items (snd (make_receipt c e rc p)) = cp_items p"
  "cp_latest_versions (snd (make_receipt c e rc p)) = cp_latest_versions p"
  "cp_drafts (snd (make_receipt c e rc p)) = cp_drafts p"
  "cp_revisions (snd (make_receipt c e rc p)) = cp_revisions p"
  "cp_previews (snd (make_receipt c e rc p)) = cp_previews p"
  "cp_commands (snd (make_receipt c e rc p)) = cp_commands p"
  "cp_events (snd (make_receipt c e rc p)) = cp_events p"
  "cp_relations (snd (make_receipt c e rc p)) = cp_relations p"
  "cp_next_id (snd (make_receipt c e rc p)) = sat_add (cp_next_id p) 1"
  "cp_continuation_preview_id (snd (make_receipt c e rc p)) = cp_continuation_preview_id p"
  "cp_prepared_input (snd (make_receipt c e rc p)) = cp_prepared_input p"
  "st_scope (cp_state (snd (make_receipt c e rc p))) = st_scope (cp_state p)"
  "st_status (cp_state (snd (make_receipt c e rc p))) = st_status (cp_state p)"
  "st_control_version (cp_state (snd (make_receipt c e rc p))) = st_control_version (cp_state p)"
  "st_controller_epoch (cp_state (snd (make_receipt c e rc p))) = st_controller_epoch (cp_state p)"
  "st_gate_epoch (cp_state (snd (make_receipt c e rc p))) = st_gate_epoch (cp_state p)"
  "st_plan_epoch (cp_state (snd (make_receipt c e rc p))) = st_plan_epoch (cp_state p)"
  "st_active_revision_id (cp_state (snd (make_receipt c e rc p))) = st_active_revision_id (cp_state p)"
  "st_pause_latched (cp_state (snd (make_receipt c e rc p))) = st_pause_latched (cp_state p)"
  "st_stop_latched (cp_state (snd (make_receipt c e rc p))) = st_stop_latched (cp_state p)"
  "st_outstanding_provider_attempts (cp_state (snd (make_receipt c e rc p))) = st_outstanding_provider_attempts (cp_state p)"
  "st_unresolved_operations (cp_state (snd (make_receipt c e rc p))) = st_unresolved_operations (cp_state p)"
  "st_boundary (cp_state (snd (make_receipt c e rc p))) = st_boundary (cp_state p)"
  "st_last_sequence (cp_state (snd (make_receipt c e rc p))) = st_last_sequence (cp_state p)"
  by (simp_all add: make_receipt_def fresh_id_def Let_def)

lemma fresh_id_fields [simp]:
  "cp_scope (snd (fresh_id s p)) = cp_scope p" "cp_enabled (snd (fresh_id s p)) = cp_enabled p"
  "cp_now (snd (fresh_id s p)) = cp_now p" "cp_boundary (snd (fresh_id s p)) = cp_boundary p"
  "cp_items (snd (fresh_id s p)) = cp_items p"
  "cp_latest_versions (snd (fresh_id s p)) = cp_latest_versions p"
  "cp_drafts (snd (fresh_id s p)) = cp_drafts p"
  "cp_revisions (snd (fresh_id s p)) = cp_revisions p"
  "cp_previews (snd (fresh_id s p)) = cp_previews p"
  "cp_commands (snd (fresh_id s p)) = cp_commands p"
  "cp_events (snd (fresh_id s p)) = cp_events p"
  "cp_relations (snd (fresh_id s p)) = cp_relations p"
  "cp_next_id (snd (fresh_id s p)) = sat_add (cp_next_id p) 1"
  "cp_continuation_preview_id (snd (fresh_id s p)) = cp_continuation_preview_id p"
  "cp_prepared_input (snd (fresh_id s p)) = cp_prepared_input p"
  "st_scope (cp_state (snd (fresh_id s p))) = st_scope (cp_state p)"
  "st_status (cp_state (snd (fresh_id s p))) = st_status (cp_state p)"
  "st_control_version (cp_state (snd (fresh_id s p))) = st_control_version (cp_state p)"
  "st_controller_epoch (cp_state (snd (fresh_id s p))) = st_controller_epoch (cp_state p)"
  "st_gate_epoch (cp_state (snd (fresh_id s p))) = st_gate_epoch (cp_state p)"
  "st_plan_epoch (cp_state (snd (fresh_id s p))) = st_plan_epoch (cp_state p)"
  "st_active_revision_id (cp_state (snd (fresh_id s p))) = st_active_revision_id (cp_state p)"
  "st_pause_latched (cp_state (snd (fresh_id s p))) = st_pause_latched (cp_state p)"
  "st_stop_latched (cp_state (snd (fresh_id s p))) = st_stop_latched (cp_state p)"
  "st_outstanding_provider_attempts (cp_state (snd (fresh_id s p))) = st_outstanding_provider_attempts (cp_state p)"
  "st_unresolved_operations (cp_state (snd (fresh_id s p))) = st_unresolved_operations (cp_state p)"
  "st_boundary (cp_state (snd (fresh_id s p))) = st_boundary (cp_state p)"
  "st_last_sequence (cp_state (snd (fresh_id s p))) = st_last_sequence (cp_state p)"
  by (simp_all add: fresh_id_def)

lemma fst_fresh_id [simp]: "fst (fresh_id s p) = numbered s (cp_next_id p)"
  by (simp add: fresh_id_def)

lemma fst_make_receipt [simp]:
  "rc_command_id (fst (make_receipt c e rc p)) = numbered (''command-'' @ cm_kind c) (cp_next_id p)"
  "rc_scope (fst (make_receipt c e rc p)) = cp_scope p"
  "rc_kind (fst (make_receipt c e rc p)) = cm_kind c"
  "rc_status (fst (make_receipt c e rc p)) = ''completed''"
  "rc_effect (fst (make_receipt c e rc p)) = e"
  "rc_active_revision_id (fst (make_receipt c e rc p)) = st_active_revision_id (cp_state p)"
  "rc_control_version (fst (make_receipt c e rc p)) = st_control_version (cp_state p)"
  "rc_paused (fst (make_receipt c e rc p)) = st_pause_latched (cp_state p)"
  by (simp_all add: make_receipt_def Let_def split_beta)

lemma record_event_next_id:
  "cp_next_id (record_event ty ci pi ri rc p) =
     (if length (cp_events p) \<ge> MAX_EVENTS then cp_next_id p else sat_add (cp_next_id p) 1)"
  by (simp add: record_event_def fresh_id_def Let_def)

lemma record_event_next_id_ge [simp]: "cp_next_id p \<le> cp_next_id (record_event ty ci pi ri rc p)"
  by (simp add: record_event_next_id)

text \<open>The fields after each effect.\<close>

lemma save_draft_fields [simp]:
  "cp_scope (snd (save_draft t author d v p)) = cp_scope p"
  "cp_enabled (snd (save_draft t author d v p)) = cp_enabled p"
  "cp_now (snd (save_draft t author d v p)) = cp_now p"
  "cp_boundary (snd (save_draft t author d v p)) = cp_boundary p"
  "cp_items (snd (save_draft t author d v p)) = cp_items p"
  "cp_latest_versions (snd (save_draft t author d v p)) = cp_latest_versions p"
  "cp_drafts (snd (save_draft t author d v p)) = bt_insert (pt_draft_id t)
     (d\<lparr>dr_version := v, dr_author_ref := author\<rparr>) (cp_drafts p)"
  "cp_revisions (snd (save_draft t author d v p)) = cp_revisions p"
  "cp_previews (snd (save_draft t author d v p)) = bt_map (\<lambda>r. if pv_draft_id (prr_preview r) = pt_draft_id t
     \<and> \<not> prr_consumed r then invalidated ''draft_changed'' r else r) (cp_previews p)"
  "cp_commands (snd (save_draft t author d v p)) = cp_commands p"
  "cp_relations (snd (save_draft t author d v p)) = cp_relations p"
  "cp_continuation_preview_id (snd (save_draft t author d v p)) = cp_continuation_preview_id p"
  "cp_prepared_input (snd (save_draft t author d v p)) = cp_prepared_input p"
  "st_scope (cp_state (snd (save_draft t author d v p))) = st_scope (cp_state p)"
  "st_status (cp_state (snd (save_draft t author d v p))) = st_status (cp_state p)"
  "st_control_version (cp_state (snd (save_draft t author d v p))) = st_control_version (cp_state p)"
  "st_controller_epoch (cp_state (snd (save_draft t author d v p))) = st_controller_epoch (cp_state p)"
  "st_gate_epoch (cp_state (snd (save_draft t author d v p))) = st_gate_epoch (cp_state p)"
  "st_plan_epoch (cp_state (snd (save_draft t author d v p))) = st_plan_epoch (cp_state p)"
  "st_active_revision_id (cp_state (snd (save_draft t author d v p))) = st_active_revision_id (cp_state p)"
  "st_pause_latched (cp_state (snd (save_draft t author d v p))) = st_pause_latched (cp_state p)"
  "st_stop_latched (cp_state (snd (save_draft t author d v p))) = st_stop_latched (cp_state p)"
  "st_outstanding_provider_attempts (cp_state (snd (save_draft t author d v p))) = st_outstanding_provider_attempts (cp_state p)"
  "st_unresolved_operations (cp_state (snd (save_draft t author d v p))) = st_unresolved_operations (cp_state p)"
  "st_boundary (cp_state (snd (save_draft t author d v p))) = st_boundary (cp_state p)"
  by (simp_all add: save_draft_def invalidate_previews_def Let_def)

lemma build_preview_fields [simp]:
  "cp_scope (snd (build_preview h s i d requested ack p)) = cp_scope p"
  "cp_enabled (snd (build_preview h s i d requested ack p)) = cp_enabled p"
  "cp_now (snd (build_preview h s i d requested ack p)) = cp_now p"
  "cp_boundary (snd (build_preview h s i d requested ack p)) = cp_boundary p"
  "cp_items (snd (build_preview h s i d requested ack p)) = cp_items p"
  "cp_latest_versions (snd (build_preview h s i d requested ack p)) = cp_latest_versions p"
  "cp_drafts (snd (build_preview h s i d requested ack p)) = cp_drafts p"
  "cp_revisions (snd (build_preview h s i d requested ack p)) = cp_revisions p"
  "cp_commands (snd (build_preview h s i d requested ack p)) = cp_commands p"
  "cp_relations (snd (build_preview h s i d requested ack p)) = cp_relations p"
  "cp_continuation_preview_id (snd (build_preview h s i d requested ack p)) = cp_continuation_preview_id p"
  "cp_prepared_input (snd (build_preview h s i d requested ack p)) = cp_prepared_input p"
  "st_scope (cp_state (snd (build_preview h s i d requested ack p))) = st_scope (cp_state p)"
  "st_status (cp_state (snd (build_preview h s i d requested ack p))) = st_status (cp_state p)"
  "st_control_version (cp_state (snd (build_preview h s i d requested ack p))) = st_control_version (cp_state p)"
  "st_controller_epoch (cp_state (snd (build_preview h s i d requested ack p))) = st_controller_epoch (cp_state p)"
  "st_gate_epoch (cp_state (snd (build_preview h s i d requested ack p))) = st_gate_epoch (cp_state p)"
  "st_plan_epoch (cp_state (snd (build_preview h s i d requested ack p))) = st_plan_epoch (cp_state p)"
  "st_active_revision_id (cp_state (snd (build_preview h s i d requested ack p))) = st_active_revision_id (cp_state p)"
  "st_pause_latched (cp_state (snd (build_preview h s i d requested ack p))) = st_pause_latched (cp_state p)"
  "st_stop_latched (cp_state (snd (build_preview h s i d requested ack p))) = st_stop_latched (cp_state p)"
  "st_outstanding_provider_attempts (cp_state (snd (build_preview h s i d requested ack p))) = st_outstanding_provider_attempts (cp_state p)"
  "st_unresolved_operations (cp_state (snd (build_preview h s i d requested ack p))) = st_unresolved_operations (cp_state p)"
  "st_boundary (cp_state (snd (build_preview h s i d requested ack p))) = st_boundary (cp_state p)"
  by (simp_all add: build_preview_def id_if_def Let_def split_beta)

lemma pause_effect_fields [simp]:
  "cp_scope (snd (pause_effect h c u p)) = cp_scope p"
  "cp_enabled (snd (pause_effect h c u p)) = cp_enabled p"
  "cp_now (snd (pause_effect h c u p)) = cp_now p"
  "cp_boundary (snd (pause_effect h c u p)) = (cp_boundary p)\<lparr>bd_control_version := sat_add (st_control_version (cp_state p)) 1,
     bd_controller_epoch := st_controller_epoch (cp_state p), bd_gate_epoch := sat_add (st_gate_epoch (cp_state p)) 1\<rparr>"
  "cp_items (snd (pause_effect h c u p)) = cp_items p"
  "cp_latest_versions (snd (pause_effect h c u p)) = cp_latest_versions p"
  "cp_drafts (snd (pause_effect h c u p)) = cp_drafts p"
  "cp_revisions (snd (pause_effect h c u p)) = cp_revisions p"
  "cp_previews (snd (pause_effect h c u p)) = cp_previews p"
  "cp_commands (snd (pause_effect h c u p)) = bt_insert (cm_idempotency_key c) (case to_vec h (command_doc c) of Some bs \<Rightarrow> digest h bs | None \<Rightarrow> [],
     fst (pause_effect h c u p)) (cp_commands p)"
  "cp_relations (snd (pause_effect h c u p)) = cp_relations p"
  "cp_continuation_preview_id (snd (pause_effect h c u p)) = cp_continuation_preview_id p"
  "cp_prepared_input (snd (pause_effect h c u p)) = cp_prepared_input p"
  "st_scope (cp_state (snd (pause_effect h c u p))) = st_scope (cp_state p)"
  "st_status (cp_state (snd (pause_effect h c u p))) = (if quiescent p then ''paused_ready'' else ''pause_requested'')"
  "st_control_version (cp_state (snd (pause_effect h c u p))) = sat_add (st_control_version (cp_state p)) 1"
  "st_controller_epoch (cp_state (snd (pause_effect h c u p))) = st_controller_epoch (cp_state p)"
  "st_gate_epoch (cp_state (snd (pause_effect h c u p))) = sat_add (st_gate_epoch (cp_state p)) 1"
  "st_plan_epoch (cp_state (snd (pause_effect h c u p))) = st_plan_epoch (cp_state p)"
  "st_active_revision_id (cp_state (snd (pause_effect h c u p))) = st_active_revision_id (cp_state p)"
  "st_pause_latched (cp_state (snd (pause_effect h c u p))) = True"
  "st_stop_latched (cp_state (snd (pause_effect h c u p))) = st_stop_latched (cp_state p)"
  "st_outstanding_provider_attempts (cp_state (snd (pause_effect h c u p))) = st_outstanding_provider_attempts (cp_state p)"
  "st_unresolved_operations (cp_state (snd (pause_effect h c u p))) = st_unresolved_operations (cp_state p)"
  "st_boundary (cp_state (snd (pause_effect h c u p))) = Some (cp_boundary (snd (pause_effect h c u p)))"
  by (simp_all add: pause_effect_def quiescent_def Let_def split_beta)

lemma stop_fields [simp]:
  "cp_scope (stop p) = cp_scope p" "cp_enabled (stop p) = cp_enabled p"
  "cp_now (stop p) = cp_now p"
  "cp_boundary (stop p) = (cp_boundary p)\<lparr>bd_control_version := sat_add (st_control_version (cp_state p)) 1,
     bd_controller_epoch := st_controller_epoch (cp_state p), bd_gate_epoch := sat_add (st_gate_epoch (cp_state p)) 1\<rparr>"
  "cp_items (stop p) = cp_items p" "cp_latest_versions (stop p) = cp_latest_versions p"
  "cp_drafts (stop p) = cp_drafts p" "cp_revisions (stop p) = cp_revisions p"
  "cp_previews (stop p) = cp_previews p" "cp_commands (stop p) = cp_commands p"
  "cp_relations (stop p) = cp_relations p"
  "cp_continuation_preview_id (stop p) = cp_continuation_preview_id p"
  "cp_prepared_input (stop p) = cp_prepared_input p"
  "st_scope (cp_state (stop p)) = st_scope (cp_state p)"
  "st_status (cp_state (stop p)) = ''stopped''"
  "st_control_version (cp_state (stop p)) = sat_add (st_control_version (cp_state p)) 1"
  "st_controller_epoch (cp_state (stop p)) = st_controller_epoch (cp_state p)"
  "st_gate_epoch (cp_state (stop p)) = sat_add (st_gate_epoch (cp_state p)) 1"
  "st_plan_epoch (cp_state (stop p)) = st_plan_epoch (cp_state p)"
  "st_active_revision_id (cp_state (stop p)) = st_active_revision_id (cp_state p)"
  "st_pause_latched (cp_state (stop p)) = True" "st_stop_latched (cp_state (stop p)) = True"
  "st_outstanding_provider_attempts (cp_state (stop p)) = st_outstanding_provider_attempts (cp_state p)"
  "st_unresolved_operations (cp_state (stop p)) = st_unresolved_operations (cp_state p)"
  "st_boundary (cp_state (stop p)) = Some (cp_boundary (stop p))"
  by (simp_all add: stop_def Let_def)

lemma commit_no_change_fields [simp]:
  "cp_scope (snd (commit_no_change h c i p)) = cp_scope p"
  "cp_enabled (snd (commit_no_change h c i p)) = cp_enabled p"
  "cp_now (snd (commit_no_change h c i p)) = cp_now p"
  "cp_boundary (snd (commit_no_change h c i p)) = cp_boundary p"
  "cp_items (snd (commit_no_change h c i p)) = cp_items p"
  "cp_latest_versions (snd (commit_no_change h c i p)) = cp_latest_versions p"
  "cp_drafts (snd (commit_no_change h c i p)) = cp_drafts p"
  "cp_revisions (snd (commit_no_change h c i p)) = cp_revisions p"
  "cp_previews (snd (commit_no_change h c i p)) = bt_update i (\<lambda>r. r\<lparr>prr_consumed := True\<rparr>) (cp_previews p)"
  "cp_commands (snd (commit_no_change h c i p)) = bt_insert (cm_idempotency_key c) (case to_vec h (command_doc c) of Some bs \<Rightarrow> digest h bs | None \<Rightarrow> [],
     fst (commit_no_change h c i p)) (cp_commands p)"
  "cp_relations (snd (commit_no_change h c i p)) = cp_relations p"
  "cp_continuation_preview_id (snd (commit_no_change h c i p)) = Some i"
  "cp_prepared_input (snd (commit_no_change h c i p)) = None"
  "st_scope (cp_state (snd (commit_no_change h c i p))) = st_scope (cp_state p)"
  "st_status (cp_state (snd (commit_no_change h c i p))) = st_status (cp_state p)"
  "st_control_version (cp_state (snd (commit_no_change h c i p))) = st_control_version (cp_state p)"
  "st_controller_epoch (cp_state (snd (commit_no_change h c i p))) = st_controller_epoch (cp_state p)"
  "st_gate_epoch (cp_state (snd (commit_no_change h c i p))) = st_gate_epoch (cp_state p)"
  "st_plan_epoch (cp_state (snd (commit_no_change h c i p))) = st_plan_epoch (cp_state p)"
  "st_active_revision_id (cp_state (snd (commit_no_change h c i p))) = st_active_revision_id (cp_state p)"
  "st_pause_latched (cp_state (snd (commit_no_change h c i p))) = st_pause_latched (cp_state p)"
  "st_stop_latched (cp_state (snd (commit_no_change h c i p))) = st_stop_latched (cp_state p)"
  "st_outstanding_provider_attempts (cp_state (snd (commit_no_change h c i p))) = st_outstanding_provider_attempts (cp_state p)"
  "st_unresolved_operations (cp_state (snd (commit_no_change h c i p))) = st_unresolved_operations (cp_state p)"
  "st_boundary (cp_state (snd (commit_no_change h c i p))) = st_boundary (cp_state p)"
  by (simp_all add: commit_no_change_def Let_def split_beta)

lemma commit_revision_fields [simp]:
  "cp_scope (snd (commit_revision h c i r d p)) = cp_scope p"
  "cp_enabled (snd (commit_revision h c i r d p)) = cp_enabled p"
  "cp_now (snd (commit_revision h c i r d p)) = cp_now p"
  "cp_boundary (snd (commit_revision h c i r d p)) = (cp_boundary p)\<lparr>bd_control_version := sat_add (st_control_version (cp_state p)) 1,
     bd_controller_epoch := st_controller_epoch (cp_state p), bd_gate_epoch := st_gate_epoch (cp_state p)\<rparr>"
  "cp_items (snd (commit_revision h c i r d p)) = cp_items p"
  "cp_latest_versions (snd (commit_revision h c i r d p)) = cp_latest_versions p"
  "cp_drafts (snd (commit_revision h c i r d p)) = cp_drafts p"
  "cp_revisions (snd (commit_revision h c i r d p)) = bt_insert (numbered ''revision'' (cp_next_id p))
     (make_revision p (numbered ''revision'' (cp_next_id p))
       (numbered ''intervention'' (sat_add (cp_next_id p) 1)) (prr_preview r) d) (cp_revisions p)"
  "cp_previews (snd (commit_revision h c i r d p)) = bt_update i (\<lambda>r. r\<lparr>prr_consumed := True\<rparr>) (cp_previews p)"
  "cp_commands (snd (commit_revision h c i r d p)) = bt_insert (cm_idempotency_key c) (case to_vec h (command_doc c) of Some bs \<Rightarrow> digest h bs | None \<Rightarrow> [],
     fst (commit_revision h c i r d p)) (cp_commands p)"
  "cp_continuation_preview_id (snd (commit_revision h c i r d p)) = Some i"
  "cp_prepared_input (snd (commit_revision h c i r d p)) = map_option mt_input (prr_material r)"
  "st_scope (cp_state (snd (commit_revision h c i r d p))) = st_scope (cp_state p)"
  "st_status (cp_state (snd (commit_revision h c i r d p))) = ''paused_committed''"
  "st_control_version (cp_state (snd (commit_revision h c i r d p))) = sat_add (st_control_version (cp_state p)) 1"
  "st_controller_epoch (cp_state (snd (commit_revision h c i r d p))) = st_controller_epoch (cp_state p)"
  "st_gate_epoch (cp_state (snd (commit_revision h c i r d p))) = st_gate_epoch (cp_state p)"
  "st_plan_epoch (cp_state (snd (commit_revision h c i r d p))) = sat_add (st_plan_epoch (cp_state p)) 1"
  "st_active_revision_id (cp_state (snd (commit_revision h c i r d p))) = numbered ''revision'' (cp_next_id p)"
  "st_pause_latched (cp_state (snd (commit_revision h c i r d p))) = st_pause_latched (cp_state p)"
  "st_stop_latched (cp_state (snd (commit_revision h c i r d p))) = st_stop_latched (cp_state p)"
  "st_outstanding_provider_attempts (cp_state (snd (commit_revision h c i r d p))) = st_outstanding_provider_attempts (cp_state p)"
  "st_unresolved_operations (cp_state (snd (commit_revision h c i r d p))) = st_unresolved_operations (cp_state p)"
  "st_boundary (cp_state (snd (commit_revision h c i r d p))) = Some (cp_boundary (snd (commit_revision h c i r d p)))"
  by (simp_all add: commit_revision_def install_revision_def make_revision_def Let_def split_beta)

lemma resume_effect_fields [simp]:
  "cp_scope (snd (resume_effect h c u p)) = cp_scope p"
  "cp_enabled (snd (resume_effect h c u p)) = cp_enabled p"
  "cp_now (snd (resume_effect h c u p)) = cp_now p"
  "cp_boundary (snd (resume_effect h c u p)) = (cp_boundary p)\<lparr>bd_control_version := sat_add (st_control_version (cp_state p)) 1,
     bd_controller_epoch := st_controller_epoch (cp_state p), bd_gate_epoch := sat_add (st_gate_epoch (cp_state p)) 1\<rparr>"
  "cp_items (snd (resume_effect h c u p)) = cp_items p"
  "cp_latest_versions (snd (resume_effect h c u p)) = cp_latest_versions p"
  "cp_drafts (snd (resume_effect h c u p)) = cp_drafts p"
  "cp_revisions (snd (resume_effect h c u p)) = cp_revisions p"
  "cp_previews (snd (resume_effect h c u p)) = cp_previews p"
  "cp_commands (snd (resume_effect h c u p)) = bt_insert (cm_idempotency_key c) (case to_vec h (command_doc c) of Some bs \<Rightarrow> digest h bs | None \<Rightarrow> [],
     fst (resume_effect h c u p)) (cp_commands p)"
  "cp_relations (snd (resume_effect h c u p)) = cp_relations p"
  "cp_continuation_preview_id (snd (resume_effect h c u p)) = None"
  "cp_prepared_input (snd (resume_effect h c u p)) = None"
  "st_scope (cp_state (snd (resume_effect h c u p))) = st_scope (cp_state p)"
  "st_status (cp_state (snd (resume_effect h c u p))) = ''running''"
  "st_control_version (cp_state (snd (resume_effect h c u p))) = sat_add (st_control_version (cp_state p)) 1"
  "st_controller_epoch (cp_state (snd (resume_effect h c u p))) = st_controller_epoch (cp_state p)"
  "st_gate_epoch (cp_state (snd (resume_effect h c u p))) = sat_add (st_gate_epoch (cp_state p)) 1"
  "st_plan_epoch (cp_state (snd (resume_effect h c u p))) = st_plan_epoch (cp_state p)"
  "st_active_revision_id (cp_state (snd (resume_effect h c u p))) = st_active_revision_id (cp_state p)"
  "st_pause_latched (cp_state (snd (resume_effect h c u p))) = False"
  "st_stop_latched (cp_state (snd (resume_effect h c u p))) = st_stop_latched (cp_state p)"
  "st_outstanding_provider_attempts (cp_state (snd (resume_effect h c u p))) = st_outstanding_provider_attempts (cp_state p)"
  "st_unresolved_operations (cp_state (snd (resume_effect h c u p))) = st_unresolved_operations (cp_state p)"
  "st_boundary (cp_state (snd (resume_effect h c u p))) = Some (cp_boundary (snd (resume_effect h c u p)))"
  by (simp_all add: resume_effect_def Let_def split_beta)

lemma host_changed_fields [simp]:
  "cp_scope (host_changed reason b p) = cp_scope p"
  "cp_enabled (host_changed reason b p) = cp_enabled p"
  "cp_now (host_changed reason b p) = cp_now p" "cp_boundary (host_changed reason b p) = b"
  "cp_items (host_changed reason b p) = cp_items p"
  "cp_latest_versions (host_changed reason b p) = cp_latest_versions p"
  "cp_drafts (host_changed reason b p) = cp_drafts p"
  "cp_revisions (host_changed reason b p) = cp_revisions p"
  "cp_previews (host_changed reason b p) = bt_map (\<lambda>r. if \<not> prr_consumed r then invalidated reason r else r) (cp_previews p)"
  "cp_commands (host_changed reason b p) = cp_commands p"
  "cp_events (host_changed reason b p) = cp_events p"
  "cp_relations (host_changed reason b p) = cp_relations p"
  "cp_next_id (host_changed reason b p) = cp_next_id p"
  "cp_continuation_preview_id (host_changed reason b p) = cp_continuation_preview_id p"
  "cp_prepared_input (host_changed reason b p) = cp_prepared_input p"
  "st_scope (cp_state (host_changed reason b p)) = st_scope (cp_state p)"
  "st_status (cp_state (host_changed reason b p)) = (if st_pause_latched (cp_state p) then ''paused_stale''
     else st_status (cp_state p))"
  "st_control_version (cp_state (host_changed reason b p)) = st_control_version (cp_state p)"
  "st_controller_epoch (cp_state (host_changed reason b p)) = st_controller_epoch (cp_state p)"
  "st_gate_epoch (cp_state (host_changed reason b p)) = st_gate_epoch (cp_state p)"
  "st_plan_epoch (cp_state (host_changed reason b p)) = st_plan_epoch (cp_state p)"
  "st_active_revision_id (cp_state (host_changed reason b p)) = st_active_revision_id (cp_state p)"
  "st_pause_latched (cp_state (host_changed reason b p)) = st_pause_latched (cp_state p)"
  "st_stop_latched (cp_state (host_changed reason b p)) = st_stop_latched (cp_state p)"
  "st_outstanding_provider_attempts (cp_state (host_changed reason b p)) = st_outstanding_provider_attempts (cp_state p)"
  "st_unresolved_operations (cp_state (host_changed reason b p)) = st_unresolved_operations (cp_state p)"
  "st_boundary (cp_state (host_changed reason b p)) = Some b"
  "st_last_sequence (cp_state (host_changed reason b p)) = st_last_sequence (cp_state p)"
  by (simp_all add: host_changed_def invalidate_all_previews_def Let_def)

text \<open>A call that fails or replays leaves the plane as it is; the others have run their effect.\<close>

lemma run_command_cases:
  assumes "run_command (admit h c p checks) effect p = (res, q)"
  obtains (error) e where "res = Inl e" "q = p"
  | (replay) r where "res = Inr r" "q = p" "cp_enabled p" "idempotent_result h c p = Inr (Some r)"
  | (fresh) x where "cp_enabled p" "idempotent_result h c p = Inr None" "checks = Inr x"
      "res = Inr (fst (effect x p))" "q = snd (effect x p)"
proof (cases "admit h c p checks")
  case (Inl e)
  with assms show ?thesis by (auto simp: run_command_def intro: error)
next
  case (Inr a)
  then have en: "cp_enabled p" by (simp add: admit_def require_enabled_def result_simps)
  from Inr obtain known where k: "idempotent_result h c p = Inr known"
    by (auto simp: admit_def result_simps)
  show ?thesis
  proof (cases known)
    case None
    with Inr k obtain x where "checks = Inr x" "a = Fresh x"
      by (auto simp: admit_def result_simps)
    with assms Inr en k None fresh show ?thesis
      by (auto simp: run_command_def Let_def split_beta)
  next
    case (Some r)
    with Inr k have "a = Replay r" by (auto simp: admit_def result_simps)
    with assms Inr en k Some show ?thesis by (auto simp: run_command_def intro: replay)
  qed
qed

lemma idempotent_result_None: "idempotent_result h c p = Inr None \<longleftrightarrow>
    bt_get (cp_commands p) (cm_idempotency_key c) = None"
  by (auto simp: idempotent_result_def result_simps split: option.splits if_splits)

text \<open>Patches change the registry and, when they succeed, the draft they name.\<close>

definition same_but_items :: "control_plane \<Rightarrow> control_plane \<Rightarrow> bool" where
  "same_but_items p q \<longleftrightarrow> (\<exists>i l. q = p\<lparr>cp_items := i, cp_latest_versions := l\<rparr>)"

lemma same_but_items_refl [simp]: "same_but_items p p"
  unfolding same_but_items_def
  by (rule exI [of _ "cp_items p"], rule exI [of _ "cp_latest_versions p"]) simp

lemma same_but_items_trans: "same_but_items p q \<Longrightarrow> same_but_items q r \<Longrightarrow> same_but_items p r"
  unfolding same_but_items_def by (elim exE) (simp, blast)

lemma insert_item_same: "same_but_items p (insert_item h i v k b c e l p)"
  unfolding same_but_items_def
  by (rule exI [of _ "cp_items (insert_item h i v k b c e l p)"],
      rule exI [of _ "cp_latest_versions (insert_item h i v k b c e l p)"])
     (simp add: insert_item_def)

lemma put_note_same: "same_but_items p (snd (put_note h d i e t x p))"
  by (simp add: put_note_def Let_def insert_item_same split: sum.splits option.splits)

lemma set_objective_same: "same_but_items p (snd (set_objective h d t a p))"
  by (simp add: set_objective_def Let_def insert_item_same)

lemma apply_operation_same: "same_but_items p (snd (apply_operation h a d op p))"
  by (simp add: apply_operation_def put_note_same set_objective_same split: operation.splits)

lemma apply_operations_same: "same_but_items p (snd (apply_operations h a d ops p))"
proof (induction h a d ops p rule: apply_operations.induct)
  case (2 h a d op ops p)
  have "same_but_items p (snd (apply_operation h a d op p))" by (rule apply_operation_same)
  with 2 show ?case
    by (auto split: prod.splits sum.splits intro: same_but_items_trans)
qed simp

text \<open>The effect of a step.\<close>

lemma control_step_cases [consumes 1, case_names same draft patch saved preview pause stop
    no_change revision resume host time switch]:
  assumes "control_step h p q"
  obtains "q = p"
  | active author where
      "q = record_event ''draft.updated'' None None None (Some ''draft_created'')
         (p\<lparr>cp_next_id := sat_add (cp_next_id p) 1,
            cp_drafts := bt_insert (numbered ''draft'' (cp_next_id p))
              (new_draft p (numbered ''draft'' (cp_next_id p)) (cp_scope p) active author)
              (cp_drafts p)\<rparr>)"
  | d a ops x where "apply_operations h a d ops p = (x, q)"
  | (saved) t author a d d1 v p1 where
      "patch_admitted t author p = Inr d" "apply_operations h a d (pt_operations t) p = (Inr d1, p1)"
      "checked_add (dr_version d1) 1 = Some v" "q = snd (save_draft t author d1 v p1)"
  | s i dv requested cv ack d where
      "preview_admitted s i dv cv p = Inr d" "q = snd (build_preview h s i d requested ack p)"
  | c where "pause_checks c p = Inr ()" "q = snd (pause_effect h c () p)"
      "bt_get (cp_commands p) (cm_idempotency_key c) = None" "cp_enabled p"
  | "q = stop p"
  | c i r d current where "commit_checks c p = Inr (i, r, d, current)"
      "same_configuration d current" "q = snd (commit_no_change h c i p)"
      "bt_get (cp_commands p) (cm_idempotency_key c) = None" "cp_enabled p"
  | c i r d current where "commit_checks c p = Inr (i, r, d, current)"
      "\<not> same_configuration d current" "q = snd (commit_revision h c i r d p)"
      "bt_get (cp_commands p) (cm_idempotency_key c) = None" "cp_enabled p"
  | c where "resume_checks c p = Inr ()" "q = snd (resume_effect h c () p)"
      "bt_get (cp_commands p) (cm_idempotency_key c) = None" "cp_enabled p"
  | reason b where "q = host_changed reason b p" "bd_scope b = bd_scope (cp_boundary p)"
      "bd_gate_epoch b = bd_gate_epoch (cp_boundary p)"
      "bd_control_version b = bd_control_version (cp_boundary p)"
      "bd_controller_epoch b = bd_controller_epoch (cp_boundary p)"
  | seconds where "q = p\<lparr>cp_now := sat_add (cp_now p) seconds\<rparr>"
  | ty rc b where
      "q = record_event ty None None (Some (st_active_revision_id (cp_state p))) rc
         (p\<lparr>cp_enabled := b\<rparr>)"
  using assms
proof cases
  case (create_draft s active author)
  then show ?thesis
    by (cases "require_enabled p"; cases "check_scope s p"; cases "check_active_revision active p")
       (auto simp: create_draft_def fresh_id_def Let_def new_draft_def check_scope_def result_simps
         intro: that(1) that(2) split: sum.splits)
next
  case (apply_patch t author authorized)
  show ?thesis
  proof (cases "patch_admitted t author p")
    case (Inl e)
    with apply_patch show ?thesis by (auto simp: apply_patch_def intro: that(1))
  next
    case (Inr d)
    obtain x p1 where ops: "apply_operations h authorized d (pt_operations t) p = (x, p1)"
      by (cases "apply_operations h authorized d (pt_operations t) p") auto
    show ?thesis
    proof (cases "\<exists>d1 v. x = Inr d1 \<and> checked_add (dr_version d1) 1 = Some v")
      case True
      with apply_patch Inr ops that(4) show ?thesis by (auto simp: apply_patch_def)
    next
      case False
      with apply_patch Inr ops have "q = p1"
        by (auto simp: apply_patch_def split: sum.splits option.splits)
      with ops that(3) show ?thesis by blast
    qed
  qed
next
  case (create_preview s i dv requested cv ack)
  then show ?thesis
    by (cases "preview_admitted s i dv cv p") (auto simp: create_preview_def intro: that(1) that(5))
next
  case (pause c)
  obtain res q' where "pause h c p = (res, q')" by (cases "pause h c p") auto
  with pause have "run_command (admit h c p (pause_checks c p)) (pause_effect h c) p = (res, q)"
    by (simp add: pause_def)
  then show ?thesis
    by (cases rule: run_command_cases) (auto simp: idempotent_result_None intro: that(1) that(6))
next
  case (commit c)
  obtain res q' where "commit h c p = (res, q')" by (cases "commit h c p") auto
  with commit have "run_command (admit h c p (commit_checks c p)) (commit_effect h c) p = (res, q)"
    by (simp add: commit_def)
  then show ?thesis
  proof (cases rule: run_command_cases)
    case (fresh x)
    obtain i r d current where x: "x = (i, r, d, current)" by (cases x) auto
    show ?thesis
      by (cases "same_configuration d current")
         (use fresh x that(8,9) in \<open>auto simp: idempotent_result_None commit_effect_def\<close>)
  qed (auto intro: that(1))
next
  case (resume c)
  obtain res q' where "resume h c p = (res, q')" by (cases "resume h c p") auto
  with resume have "run_command (admit h c p (resume_checks c p)) (resume_effect h c) p = (res, q)"
    by (simp add: resume_def)
  then show ?thesis
    by (cases rule: run_command_cases) (auto simp: idempotent_result_None intro: that(1) that(10))
next
  case stop
  then show ?thesis by (rule that(7))
next
  case advance_boundary
  then show ?thesis unfolding advance_boundary_def Let_def by (rule that(11)) simp_all
next
  case advance_catalog
  then show ?thesis unfolding advance_catalog_def by (rule that(11)) simp_all
next
  case advance_provider_fingerprint
  then show ?thesis unfolding advance_provider_fingerprint_def Let_def by (rule that(11)) simp_all
next
  case (advance_time seconds)
  then show ?thesis by (intro that(12)) (simp add: advance_time_def)
next
  case deactivate
  then show ?thesis by (intro that(13)) (simp add: deactivate_def)
next
  case activate
  then show ?thesis by (intro that(13)) (simp add: activate_def)
qed

end
