(* ===== verification/Control_Invariants.thy ===== *)
theory Control_Invariants
  imports Control_Steps
begin

text \<open>
  The invariants of every reachable control plane: the boundary that clients see is the
  plane's own, the pause and stop latches agree with the status, identifiers are fresh,
  previews are those of the drafts they name, drafts and revisions are well formed, the
  revisions form one chain, and the events are numbered without gaps. Each is an
  interpretation of the locale \<open>invariant\<close> or \<open>relative_invariant\<close>.

  Identifiers come from a saturating counter, so the facts that need distinct identifiers are
  stated for planes whose counter has not reached the largest \<open>u64\<close>.
\<close>

subsection \<open>Boundary, status and latches\<close>

definition synced :: "control_plane \<Rightarrow> bool" where
  "synced p \<longleftrightarrow>
     st_boundary (cp_state p) = Some (cp_boundary p)
     \<and> bd_gate_epoch (cp_boundary p) = st_gate_epoch (cp_state p)
     \<and> bd_control_version (cp_boundary p) = st_control_version (cp_state p)
     \<and> bd_controller_epoch (cp_boundary p) = st_controller_epoch (cp_state p)
     \<and> bd_scope (cp_boundary p) = cp_scope p \<and> st_scope (cp_state p) = cp_scope p
     \<and> quiescent p"

definition latched :: "control_plane \<Rightarrow> bool" where
  "latched p \<longleftrightarrow>
     (let s = st_status (cp_state p)
      in s \<in> {''running'', ''paused_ready'', ''paused_committed'', ''paused_stale'', ''stopped''}
       \<and> (st_pause_latched (cp_state p) \<longleftrightarrow> s \<noteq> ''running'')
       \<and> (s = ''paused_ready'' \<longrightarrow> \<not> st_stop_latched (cp_state p))
       \<and> (st_stop_latched (cp_state p) \<longrightarrow> st_pause_latched (cp_state p))
       \<and> (s = ''stopped'' \<longrightarrow> st_stop_latched (cp_state p)))"

lemma same_but_items_fields:
  assumes "same_but_items p q"
  shows "cp_scope q = cp_scope p" "cp_enabled q = cp_enabled p" "cp_now q = cp_now p"
    "cp_boundary q = cp_boundary p" "cp_state q = cp_state p" "cp_drafts q = cp_drafts p"
    "cp_revisions q = cp_revisions p" "cp_previews q = cp_previews p"
    "cp_commands q = cp_commands p" "cp_events q = cp_events p" "cp_relations q = cp_relations p"
    "cp_next_id q = cp_next_id p" "cp_continuation_preview_id q = cp_continuation_preview_id p"
    "cp_prepared_input q = cp_prepared_input p"
  using assms unfolding same_but_items_def by (elim exE; simp)+

lemma apply_operations_same_but: "apply_operations h a d ops p = (x, q) \<Longrightarrow> same_but_items p q"
  using apply_operations_same [of p h a d ops] by simp

lemmas apply_operations_fields = same_but_items_fields [OF apply_operations_same_but]

lemma control_new_fields:
  "cp_scope (control_new h s enabled now) = s"
  "cp_enabled (control_new h s enabled now) = enabled"
  "cp_now (control_new h s enabled now) = now"
  "cp_boundary (control_new h s enabled now) = initial_boundary h s"
  "cp_state (control_new h s enabled now) = initial_state s (initial_boundary h s) now"
  "cp_drafts (control_new h s enabled now) = bt_empty"
  "cp_revisions (control_new h s enabled now) =
     bt_insert ''revision-1'' (bootstrap_revision h s now) bt_empty"
  "cp_previews (control_new h s enabled now) = bt_empty"
  "cp_commands (control_new h s enabled now) = bt_empty"
  "cp_events (control_new h s enabled now) = []"
  "cp_relations (control_new h s enabled now) = []"
  "cp_next_id (control_new h s enabled now) = 1"
  "cp_continuation_preview_id (control_new h s enabled now) = None"
  "cp_prepared_input (control_new h s enabled now) = None"
  by (simp_all add: control_new_def seed_items_def insert_item_def Let_def)

lemma synced_step: "synced p \<Longrightarrow> control_step h p q \<Longrightarrow> synced q"
proof (erule control_step_cases, goal_cases)
  case (3 d a ops x)
  then show ?case by (simp add: synced_def quiescent_def apply_operations_fields [OF 3(2)])
next
  case (4 t author a d d1 v p1)
  then show ?case by (simp add: synced_def quiescent_def apply_operations_fields [OF 4(3)])
qed (simp_all add: synced_def quiescent_def)

lemma synced_start: "control_start h p \<Longrightarrow> synced p"
  by (auto simp: control_start_def synced_def quiescent_def control_new_fields initial_state_def
      initial_boundary_def)

interpretation synced: invariant "control_start h" "control_step h" synced for h
  by unfold_locales (rule synced_start, assumption, rule synced_step)

lemma latched_step: "synced p \<Longrightarrow> latched p \<Longrightarrow> control_step h p q \<Longrightarrow> latched q"
proof (erule control_step_cases, goal_cases)
  case (3 d a ops x)
  then show ?case by (simp add: latched_def apply_operations_fields [OF 3(3)])
next
  case (4 t author a d d1 v p1)
  then show ?case by (simp add: latched_def apply_operations_fields [OF 4(4)])
next
  case (6 c)
  then show ?case by (simp add: latched_def synced_def pause_checks_def result_simps)
next
  case (9 c i r d current)
  then show ?case by (auto simp: latched_def commit_checks_def result_simps)
next
  case (10 c)
  then show ?case by (simp add: latched_def resume_checks_def result_simps)
qed (auto simp: latched_def)

lemma latched_start: "control_start h p \<Longrightarrow> latched p"
  by (auto simp: control_start_def latched_def control_new_fields initial_state_def)

interpretation latched: relative_invariant "control_start h" "control_step h" synced latched for h
  by unfold_locales (rule latched_start, assumption, rule latched_step)

subsection \<open>Fresh identifiers\<close>

lemma numbered_inject [simp]: "numbered s m = numbered s n \<longleftrightarrow> m = n"
  by (simp add: numbered_def word_unat_eq_iff)

lemma record_event_ge: "x \<le> cp_next_id p \<Longrightarrow> x \<le> cp_next_id (record_event ty ci pi ri rc p)"
  by (rule order_trans [OF _ record_event_next_id_ge])

lemma sat_add_le: "x \<le> y \<Longrightarrow> x \<le> sat_add y z"
  by (rule order_trans [OF _ sat_add_ge])

lemma next_id_ge:
  "sat_add (cp_next_id p) 1 \<le> cp_next_id (snd (build_preview h s i d requested ack p))"
  "cp_next_id p \<le> cp_next_id (snd (save_draft t author d v p))"
  "sat_add (cp_next_id p) 1 \<le> cp_next_id (snd (pause_effect h c u p))"
  "cp_next_id p \<le> cp_next_id (stop p)"
  "sat_add (cp_next_id p) 1 \<le> cp_next_id (snd (commit_no_change h c i p))"
  "sat_add (cp_next_id p) 1 \<le> cp_next_id (snd (commit_revision h c i r d p))"
  "sat_add (cp_next_id p) 1 \<le> cp_next_id (snd (resume_effect h c u p))"
  unfolding build_preview_def save_draft_def pause_effect_def stop_def commit_no_change_def
    commit_revision_def resume_effect_def install_revision_def id_if_def invalidate_previews_def
    Let_def split_beta
  by (auto intro!: record_event_ge sat_add_le)

lemma next_id_mono: "control_step h p q \<Longrightarrow> cp_next_id p \<le> cp_next_id q"
proof (erule control_step_cases, goal_cases)
  case (3 d a ops x)
  then show ?case by (simp add: apply_operations_fields [OF 3(1)])
next
  case (4 t author a d d1 v p1)
  then show ?case
    using next_id_ge(2) [of p1 t author d1 v] by (simp add: apply_operations_fields [OF 4(2)])
qed (auto intro!: record_event_ge intro: next_id_ge order_trans [OF sat_add_ge next_id_ge(1)]
    order_trans [OF sat_add_ge next_id_ge(3)] order_trans [OF sat_add_ge next_id_ge(5)]
    order_trans [OF sat_add_ge next_id_ge(6)] order_trans [OF sat_add_ge next_id_ge(7)])

lemma next_id_steps: "control_steps h p q \<Longrightarrow> cp_next_id p \<le> cp_next_id q"
  by (induction rule: rtranclp_induct) (auto dest: next_id_mono)

text \<open>The counter has not reached its largest value, so every identifier taken so far is new.\<close>

definition ids_left :: "control_plane \<Rightarrow> bool" where
  "ids_left p \<longleftrightarrow> cp_next_id p \<noteq> u64_max"

lemma ids_left_step: "control_step h p q \<Longrightarrow> ids_left q \<Longrightarrow> ids_left p"
  using next_id_mono [of h p q] by (auto simp: ids_left_def simp flip: less_u64_max)

lemma ids_left_steps: "control_steps h p q \<Longrightarrow> ids_left q \<Longrightarrow> ids_left p"
  by (induction rule: rtranclp_induct) (auto dest: ids_left_step)

definition issued :: "control_plane \<Rightarrow> string \<Rightarrow> string \<Rightarrow> bool" where
  "issued p prefix k \<longleftrightarrow> (\<exists>n. 1 \<le> n \<and> n < cp_next_id p \<and> k = numbered prefix n)"

lemma not_issued_next: "\<not> issued p prefix (numbered prefix (cp_next_id p))"
  by (simp add: issued_def)

lemma issued_mono: "issued p prefix k \<Longrightarrow> cp_next_id p \<le> cp_next_id q \<Longrightarrow> issued q prefix k"
  by (auto simp: issued_def)

lemma issued_next:
  "1 \<le> cp_next_id p \<Longrightarrow> ids_left p \<Longrightarrow> sat_add (cp_next_id p) 1 \<le> cp_next_id q \<Longrightarrow>
   issued q prefix (numbered prefix (cp_next_id p))"
  using sat_inc_gt [of "cp_next_id p"] by (auto simp: issued_def ids_left_def)

definition fresh_ids :: "control_plane \<Rightarrow> bool" where
  "fresh_ids p \<longleftrightarrow> 1 \<le> cp_next_id p
     \<and> (ids_left p \<longrightarrow>
         (\<forall>k. bt_contains (cp_drafts p) k \<longrightarrow> issued p ''draft'' k)
         \<and> (\<forall>k. bt_contains (cp_previews p) k \<longrightarrow> issued p ''preview'' k)
         \<and> (\<forall>k. bt_contains (cp_revisions p) k \<longrightarrow> k = ''revision-1'' \<or> issued p ''revision'' k))"

lemma bt_contains_simps [simp]:
  "\<not> bt_contains bt_empty k"
  "bt_contains (bt_insert k v m) k' \<longleftrightarrow> k' = k \<or> bt_contains m k'"
  "bt_contains (bt_map f m) k \<longleftrightarrow> bt_contains m k"
  "bt_contains (bt_update i g m) k \<longleftrightarrow> bt_contains m k"
  by (auto simp: bt_contains_def)

lemma build_preview_record:
  obtains v m where
    "cp_previews (snd (build_preview h s i d requested ack p)) =
       bt_insert (numbered ''preview'' (cp_next_id p))
         \<lparr>prr_preview = v, prr_material = m, prr_consumed = False\<rparr> (cp_previews p)"
    "fst (build_preview h s i d requested ack p) = Inr v"
    "pv_preview_id v = numbered ''preview'' (cp_next_id p)" "pv_scope v = s" "pv_draft_id v = i"
    "pv_draft_version v = dr_version d" "pv_boundary v = cp_boundary p"
    "pv_selected_items v = dr_selected_items d"
    "pv_applicable v \<longleftrightarrow> requested \<and> held p \<and> m \<noteq> None"
    "pv_prepared_manifest_sha256 v = map_option mt_manifest_sha256 m"
    "pv_expires_at v = format_time (sat_add (cp_now p) 120)"
    "\<And>x. m = Some x \<Longrightarrow> pv_components v = mt_components x
       \<and> render h (numbered ''preview'' (cp_next_id p)) (cp_boundary p) d (cp_items p) (cp_now p) = Inr x"
    "m \<noteq> None \<Longrightarrow> requested \<Longrightarrow> held p \<and> ack"
proof -
  let ?i = "numbered ''preview'' (cp_next_id p)"
  define m where "m = preview_material h ?i d (preview_blockers requested ack (snd (fresh_id ''preview'' p)))
    (snd (fresh_id ''preview'' p))"
  have m: "render h ?i (cp_boundary p) d (cp_items p) (cp_now p) = Inr x" if "m = Some x" for x
    using that by (simp add: m_def preview_material_def split: if_splits sum.splits)
  have held: "held (snd (fresh_id ''preview'' p)) = held p" by (simp add: held_def)
  have b: "requested \<Longrightarrow> held p \<and> ack" if "m \<noteq> None"
    using that by (auto simp: m_def preview_material_def preview_blockers_def held split: if_splits)
  show ?thesis
    by (rule that [of "case fst (build_preview h s i d requested ack p) of Inr v \<Rightarrow> v | Inl _ \<Rightarrow> undefined" m])
       (use m b in \<open>simp_all add: build_preview_def id_if_def make_preview_def held m_def Let_def split_beta\<close>)
qed

text \<open>A key that a step adds is the identifier that the step has just taken.\<close>

definition taken :: "control_plane \<Rightarrow> control_plane \<Rightarrow> string \<Rightarrow> string \<Rightarrow> bool" where
  "taken p q prefix k \<longleftrightarrow>
     k = numbered prefix (cp_next_id p) \<and> sat_add (cp_next_id p) 1 \<le> cp_next_id q"

lemma fresh_ids_intro:
  assumes p: "fresh_ids p" and le: "cp_next_id p \<le> cp_next_id q"
    and d: "\<And>k. bt_contains (cp_drafts q) k \<Longrightarrow> bt_contains (cp_drafts p) k \<or> taken p q ''draft'' k"
    and v: "\<And>k. bt_contains (cp_previews q) k \<Longrightarrow>
      bt_contains (cp_previews p) k \<or> taken p q ''preview'' k"
    and r: "\<And>k. bt_contains (cp_revisions q) k \<Longrightarrow>
      bt_contains (cp_revisions p) k \<or> taken p q ''revision'' k"
  shows "fresh_ids q"
proof -
  have one: "1 \<le> cp_next_id p" using p by (simp add: fresh_ids_def)
  { assume q: "ids_left q"
    then have l: "ids_left p" using le by (auto simp: ids_left_def simp flip: less_u64_max)
    have i: "issued q prefix k" if "taken p q prefix k" for prefix k
      using that issued_next [OF one l] by (auto simp: taken_def)
    have m: "issued p prefix k \<Longrightarrow> issued q prefix k" for prefix k
      using le by (rule issued_mono [rotated])
    have "(\<forall>k. bt_contains (cp_drafts q) k \<longrightarrow> issued q ''draft'' k)
         \<and> (\<forall>k. bt_contains (cp_previews q) k \<longrightarrow> issued q ''preview'' k)
         \<and> (\<forall>k. bt_contains (cp_revisions q) k \<longrightarrow> k = ''revision-1'' \<or> issued q ''revision'' k)"
      using p l d v r i m unfolding fresh_ids_def by blast }
  then show ?thesis using one le by (auto simp: fresh_ids_def)
qed

lemma fresh_ids_step:
  assumes "fresh_ids p" "control_step h p q"
  shows "fresh_ids q"
  using assms(2)
proof (cases rule: control_step_cases)
  case (patch d a ops x)
  show ?thesis
    by (rule fresh_ids_intro [OF assms(1)]) (simp_all add: apply_operations_fields [OF patch])
next
  case (saved t author a d d1 v p1)
  have "bt_contains (cp_drafts p) (pt_draft_id t)"
    using saved(1) by (auto simp: patch_admitted_def get_draft_def result_simps bt_contains_def)
  then show ?thesis
    using next_id_ge(2) [of p1 t author d1 v]
    by (intro fresh_ids_intro [OF assms(1)]) (auto simp: saved(4) apply_operations_fields [OF saved(2)])
next
  case (preview s i dv requested cv ack d)
  show ?thesis
    using next_id_mono [OF assms(2)] next_id_ge(1) [of p h s i d requested ack]
    by (rule_tac build_preview_record [of h s i d requested ack p], intro fresh_ids_intro [OF assms(1)])
       (auto simp: taken_def preview(2))
next
  case (draft active author)
  then show ?thesis
    using next_id_mono [OF assms(2)]
    by (intro fresh_ids_intro [OF assms(1)]) (auto simp: taken_def intro: record_event_ge)
next
  case (revision c i r d current)
  then show ?thesis
    using next_id_mono [OF assms(2)] next_id_ge(6) [of p h c i r d]
    by (intro fresh_ids_intro [OF assms(1)]) (auto simp: taken_def)
qed (intro fresh_ids_intro [OF assms(1)], (use next_id_mono [OF assms(2)] in auto)[4])+

lemma fresh_ids_start: "control_start h p \<Longrightarrow> fresh_ids p"
  by (auto simp: control_start_def fresh_ids_def control_new_fields)

interpretation fresh_ids: invariant "control_start h" "control_step h" fresh_ids for h
  by unfold_locales (rule fresh_ids_start, assumption, rule fresh_ids_step)

subsection \<open>Previews\<close>

text \<open>
  What every stored preview satisfies. An applicable preview that is not consumed was made for
  an older control version, unless the run is still held ready; its material is the rendering
  of a draft at its own boundary.
\<close>

definition preview_ok :: "host \<Rightarrow> control_plane \<Rightarrow> string \<Rightarrow> preview_record \<Rightarrow> bool" where
  "preview_ok h p i r \<longleftrightarrow>
     (let v = prr_preview r; made = bd_control_version (pv_boundary v); current = st_control_version (cp_state p)
      in pv_preview_id v = i \<and> pv_scope v = cp_scope p \<and> made \<le> current
       \<and> (pv_applicable v \<longrightarrow> prr_material r \<noteq> None)
       \<and> (pv_applicable v \<and> \<not> prr_consumed r \<longrightarrow>
            made < current \<or> current = u64_max \<or> st_status (cp_state p) = ''paused_ready'')
       \<and> (\<forall>m. prr_material r = Some m \<longrightarrow>
            pv_prepared_manifest_sha256 v = Some (mt_manifest_sha256 m)
            \<and> (\<exists>d registry now. render h i (pv_boundary v) d registry now = Inr m)))"

definition previewed :: "host \<Rightarrow> control_plane \<Rightarrow> bool" where
  "previewed h p \<longleftrightarrow> (\<forall>i r. bt_get (cp_previews p) i = Some r \<longrightarrow> preview_ok h p i r)"

lemma sat_inc_above: "x \<le> c \<Longrightarrow> x < sat_add c 1 \<or> sat_add c 1 = u64_max"
  using sat_inc_gt [of c] by (cases "c = u64_max") auto

lemma preview_ok_same:
  assumes "preview_ok h p i r" "cp_scope q = cp_scope p"
    and "st_control_version (cp_state q) = st_control_version (cp_state p)"
    and "st_status (cp_state q) = st_status (cp_state p)"
  shows "preview_ok h q i r"
  using assms by (simp add: preview_ok_def Let_def)

lemma preview_ok_bumped:
  assumes "preview_ok h p i r" "cp_scope q = cp_scope p"
    and "st_control_version (cp_state q) = sat_add (st_control_version (cp_state p)) 1"
  shows "preview_ok h q i r"
  using assms sat_inc_above [of "bd_control_version (pv_boundary (prr_preview r))" "st_control_version (cp_state p)"]
  by (auto simp: preview_ok_def Let_def intro: order_trans [OF _ sat_add_ge])

lemma preview_ok_invalidated:
  assumes "preview_ok h p i r" "cp_scope q = cp_scope p"
    and "st_control_version (cp_state q) = st_control_version (cp_state p)"
  shows "preview_ok h q i (invalidated reason r)"
  using assms by (auto simp: preview_ok_def Let_def invalidated_def)

lemma preview_ok_consumed: "preview_ok h p i r \<Longrightarrow> preview_ok h p i (r\<lparr>prr_consumed := True\<rparr>)"
  by (auto simp: preview_ok_def Let_def)

lemma previewed_get: "previewed h p \<Longrightarrow> bt_get (cp_previews p) i = Some r \<Longrightarrow> preview_ok h p i r"
  by (simp add: previewed_def)

lemma previewed_step:
  assumes "synced p" "previewed h p" "control_step h p q"
  shows "previewed h q"
proof -
  note ok = previewed_get [OF assms(2)]
  show ?thesis
  using assms(3)
  proof (cases rule: control_step_cases)
    case (patch d a ops x)
    show ?thesis unfolding previewed_def
      by (intro allI impI, rule preview_ok_same [OF ok]) (simp_all add: apply_operations_fields [OF patch])
  next
    case (saved t author a d d1 v p1)
    note f = apply_operations_fields [OF saved(2)]
    have "preview_ok h q i r \<and> preview_ok h q i (invalidated reason r)"
      if "bt_get (cp_previews p) i = Some r" for i r reason
      by (rule conjI, rule preview_ok_same [OF ok [OF that]], simp_all add: saved(4) f)
         (rule preview_ok_invalidated [OF ok [OF that]], simp_all add: f)
    then show ?thesis by (auto simp: previewed_def saved(4) f)
  next
    case (preview s i dv requested cv ack d)
    obtain v m where r: "cp_previews q =
       bt_insert (numbered ''preview'' (cp_next_id p))
         \<lparr>prr_preview = v, prr_material = m, prr_consumed = False\<rparr> (cp_previews p)"
      "pv_preview_id v = numbered ''preview'' (cp_next_id p)" "pv_scope v = s"
      "pv_boundary v = cp_boundary p"
      "pv_applicable v \<longleftrightarrow> requested \<and> held p \<and> m \<noteq> None"
      "pv_prepared_manifest_sha256 v = map_option mt_manifest_sha256 m"
      "\<And>x. m = Some x \<Longrightarrow>
         render h (numbered ''preview'' (cp_next_id p)) (cp_boundary p) d (cp_items p) (cp_now p) = Inr x"
      unfolding preview(2) by (rule build_preview_record [of h s i d requested ack p]) blast
    have "s = cp_scope p"
      using preview(1) by (simp add: preview_admitted_def check_scope_def result_simps)
    then have new: "preview_ok h q (numbered ''preview'' (cp_next_id p))
        \<lparr>prr_preview = v, prr_material = m, prr_consumed = False\<rparr>"
      using assms(1) r(2-) by (auto simp: preview_ok_def Let_def synced_def held_def preview(2))
    have "preview_ok h q i r" if "bt_get (cp_previews p) i = Some r" for i r
      by (rule preview_ok_same [OF ok [OF that]]) (simp_all add: preview(2))
    with new show ?thesis by (simp add: previewed_def r(1))
  next
    case (host reason b)
    have "(prr_consumed r \<longrightarrow> preview_ok h q i r) \<and> preview_ok h q i (invalidated reason r)"
      if "bt_get (cp_previews p) i = Some r" for i r
      using ok [OF that] preview_ok_invalidated [OF ok [OF that], of q reason]
      by (auto simp: host(1) preview_ok_def Let_def)
    then show ?thesis by (auto simp: previewed_def host(1))
  next
    case (no_change c i r d current)
    have "preview_ok h q i r" if "bt_get (cp_previews p) i = Some r" for i r
      by (rule preview_ok_same [OF ok [OF that]]) (simp_all add: no_change)
    then show ?thesis by (auto simp: previewed_def no_change intro: preview_ok_consumed)
  next
    case (revision c i r d current)
    have "preview_ok h q i r" if "bt_get (cp_previews p) i = Some r" for i r
      by (rule preview_ok_bumped [OF ok [OF that]]) (simp_all add: revision)
    then show ?thesis by (auto simp: previewed_def revision intro: preview_ok_consumed)
  next
    case (pause c)
    show ?thesis unfolding previewed_def
      by (intro allI impI, rule preview_ok_bumped [OF ok]) (simp_all add: pause)
  next
    case stop
    show ?thesis unfolding previewed_def
      by (intro allI impI, rule preview_ok_bumped [OF ok]) (simp_all add: stop)
  next
    case (resume c)
    show ?thesis unfolding previewed_def
      by (intro allI impI, rule preview_ok_bumped [OF ok]) (simp_all add: resume)
  next
    case (draft active author)
    show ?thesis unfolding previewed_def
      by (intro allI impI, rule preview_ok_same [OF ok]) (simp_all add: draft)
  next
    case (time seconds)
    show ?thesis unfolding previewed_def
      by (intro allI impI, rule preview_ok_same [OF ok]) (simp_all add: time)
  next
    case (switch ty rc b)
    show ?thesis unfolding previewed_def
      by (intro allI impI, rule preview_ok_same [OF ok]) (simp_all add: switch)
  qed (use assms(2) in simp)
qed

lemma previewed_start: "control_start h p \<Longrightarrow> previewed h p"
  by (auto simp: control_start_def previewed_def control_new_fields)

interpretation previewed: relative_invariant "control_start h" "control_step h" synced "previewed h" for h
  by unfold_locales (rule previewed_start, assumption, rule previewed_step)

end
