(* ===== verification/Control_History.thy ===== *)
theory Control_History
  imports Control_Invariants
begin

text \<open>
  Further invariants of the control plane: previews and the drafts they were made from, the
  approved continuation, the well-formedness of every selection, the chain of revisions, the
  numbering of events, and the scope of every record.
\<close>

subsection \<open>Previews and their drafts\<close>

text \<open>
  The draft of a preview that still has material is the one that was rendered: a later patch
  of the draft would have removed the material.
\<close>

definition rendered_from :: "host \<Rightarrow> string \<Rightarrow> preview \<Rightarrow> draft \<Rightarrow> prepared_material \<Rightarrow> bool" where
  "rendered_from h i v d m \<longleftrightarrow>
     dr_version d = pv_draft_version v \<and> dr_selected_items d = pv_selected_items v
     \<and> (\<exists>registry now. render h i (pv_boundary v) d registry now = Inr m)"

definition linked :: "host \<Rightarrow> control_plane \<Rightarrow> bool" where
  "linked h p \<longleftrightarrow>
     (ids_left p \<longrightarrow>
       (\<forall>i r m. bt_get (cp_previews p) i = Some r \<longrightarrow> \<not> prr_consumed r \<longrightarrow> prr_material r = Some m \<longrightarrow>
         (\<exists>d. bt_get (cp_drafts p) (pv_draft_id (prr_preview r)) = Some d
            \<and> rendered_from h i (prr_preview r) d m)))"

lemma linkedD:
  "linked h p \<Longrightarrow> ids_left p \<Longrightarrow> bt_get (cp_previews p) i = Some r \<Longrightarrow> \<not> prr_consumed r \<Longrightarrow>
   prr_material r = Some m \<Longrightarrow>
   \<exists>d. bt_get (cp_drafts p) (pv_draft_id (prr_preview r)) = Some d
     \<and> rendered_from h i (prr_preview r) d m"
  by (simp add: linked_def)

lemma draft_key_known:
  "fresh_ids p \<Longrightarrow> ids_left p \<Longrightarrow> bt_get (cp_drafts p) k = Some d \<Longrightarrow>
   k \<noteq> numbered ''draft'' (cp_next_id p)"
  using not_issued_next by (auto simp: fresh_ids_def bt_contains_def)

lemma preview_key_known:
  "fresh_ids p \<Longrightarrow> ids_left p \<Longrightarrow> bt_get (cp_previews p) k = Some d \<Longrightarrow>
   k \<noteq> numbered ''preview'' (cp_next_id p)"
  using not_issued_next by (auto simp: fresh_ids_def bt_contains_def)

lemma invalidated_fields [simp]:
  "prr_consumed (invalidated reason r) = prr_consumed r"
  "prr_material (invalidated reason r) = None"
  "pv_draft_id (prr_preview (invalidated reason r)) = pv_draft_id (prr_preview r)"
  by (simp_all add: invalidated_def)

lemma invalidated_fixed: "r = invalidated reason r \<Longrightarrow> prr_material r = None"
  by (metis invalidated_fields(2))

lemma linked_step:
  assumes "fresh_ids p" "linked h p" "control_step h p q"
  shows "linked h q"
proof (cases "ids_left q")
  case True
  then have l: "ids_left p" using ids_left_step [OF assms(3)] by simp
  note link = linkedD [OF assms(2) l]
  show ?thesis
    using assms(3)
  proof (cases rule: control_step_cases)
    case (patch d a ops x)
    then show ?thesis using link by (auto simp: linked_def apply_operations_fields [OF patch])
  next
    case (saved t author a d d1 v p1)
    note f = apply_operations_fields [OF saved(2)]
    show ?thesis using link by (auto simp: linked_def saved(4) f split: if_splits dest: invalidated_fixed)
  next
    case (preview s i dv requested cv ack d)
    have d: "bt_get (cp_drafts p) i = Some d"
      using preview(1) by (simp add: preview_admitted_def get_draft_def result_simps)
    show ?thesis
      by (rule build_preview_record [of h s i d requested ack p])
         (use link d in \<open>auto simp: linked_def preview(2) rendered_from_def\<close>)
  next
    case (draft active author)
    then show ?thesis
      using link draft_key_known [OF assms(1) l] by (fastforce simp: linked_def)
  next
    case (host reason b)
    then show ?thesis using link by (auto simp: linked_def split: if_splits)
  qed (use link in \<open>auto simp: linked_def split: if_splits\<close>)
qed (simp add: linked_def)

lemma linked_start: "control_start h p \<Longrightarrow> linked h p"
  by (auto simp: control_start_def linked_def control_new_fields)

interpretation linked: relative_invariant "control_start h" "control_step h" fresh_ids "linked h" for h
  by unfold_locales (rule linked_start, assumption, rule linked_step)

subsection \<open>The approved continuation\<close>

text \<open>
  The continuation names a consumed preview, and the input that waits for a resume is the
  input of that preview's material.
\<close>

definition continued :: "control_plane \<Rightarrow> bool" where
  "continued p \<longleftrightarrow>
     (ids_left p \<longrightarrow>
       (cp_prepared_input p \<noteq> None \<longrightarrow> cp_continuation_preview_id p \<noteq> None)
       \<and> (\<forall>i. cp_continuation_preview_id p = Some i \<longrightarrow>
            (\<exists>r. bt_get (cp_previews p) i = Some r \<and> prr_consumed r
               \<and> (\<forall>b. cp_prepared_input p = Some b \<longrightarrow>
                    (\<exists>m. prr_material r = Some m \<and> mt_input m = b)))))"

lemma continued_step:
  assumes "fresh_ids p" "continued p" "control_step h p q"
  shows "continued q"
proof (cases "ids_left q")
  case True
  then have l: "ids_left p" using ids_left_step [OF assms(3)] by simp
  show ?thesis
    using assms(3)
  proof (cases rule: control_step_cases)
    case (patch d a ops x)
    then show ?thesis using assms(2) l by (simp add: continued_def apply_operations_fields [OF patch])
  next
    case (saved t author a d d1 v p1)
    note f = apply_operations_fields [OF saved(2)]
    show ?thesis using assms(2) l by (fastforce simp: continued_def saved(4) f)
  next
    case (preview s i dv requested cv ack d)
    show ?thesis
      by (rule build_preview_record [of h s i d requested ack p])
         (use assms(2) l preview_key_known [OF assms(1) l] in
           \<open>fastforce simp: continued_def preview(2)\<close>)
  next
    case (revision c i r d current)
    then have "bt_get (cp_previews p) i = Some r"
      by (simp add: commit_checks_def result_simps)
    then show ?thesis by (auto simp: continued_def revision)
  next
    case (no_change c i r d current)
    then have "bt_get (cp_previews p) i = Some r"
      by (simp add: commit_checks_def result_simps)
    then show ?thesis by (auto simp: continued_def no_change)
  next
    case (host reason b)
    then show ?thesis using assms(2) l by (fastforce simp: continued_def)
  qed (use assms(2) l in \<open>simp_all add: continued_def\<close>)
qed (simp add: continued_def)

lemma continued_start: "control_start h p \<Longrightarrow> continued p"
  by (auto simp: control_start_def continued_def control_new_fields)

interpretation continued: relative_invariant "control_start h" "control_step h" fresh_ids continued for h
  by unfold_locales (rule continued_start, assumption, rule continued_step)

subsection \<open>Well-formed selections\<close>

text \<open>
  A selection never names an item twice, pins only what it selects, selects every note, keeps
  at most \<open>MAX_NOTES\<close> notes and at most \<open>MAX_ITEMS\<close> items beside them.
\<close>

definition selection_ok :: "item_ref list \<Rightarrow> string list \<Rightarrow> item_ref list \<Rightarrow> bool" where
  "selection_ok selected pinned notes \<longleftrightarrow>
     distinct (map ir_item_id selected) \<and> distinct pinned
     \<and> set pinned \<subseteq> ir_item_id ` set selected
     \<and> distinct (map ir_item_id notes) \<and> set notes \<subseteq> set selected
     \<and> length notes \<le> MAX_NOTES
     \<and> length (filter (\<lambda>i. i \<notin> set notes) selected) \<le> MAX_ITEMS"

definition draft_ok :: "draft \<Rightarrow> bool" where
  "draft_ok d \<longleftrightarrow> selection_ok (dr_selected_items d) (dr_pinned_item_ids d) (dr_note_items d)"

definition revision_ok :: "revision \<Rightarrow> bool" where
  "revision_ok r \<longleftrightarrow> selection_ok (rv_selected_items r) (rv_pinned_item_ids r) (rv_note_items r)"

lemma selection_ok_empty [simp]: "selection_ok [] [] []"
  by (simp add: selection_ok_def)

lemma selection_ok_length:
  assumes "selection_ok selected pinned notes"
  shows "length selected \<le> MAX_ITEMS + MAX_NOTES"
proof -
  have "distinct selected" using assms by (simp add: selection_ok_def distinct_map)
  then have "length (filter (\<lambda>i. i \<in> set notes) selected) = card (set selected \<inter> set notes)"
    using distinct_card [of "filter (\<lambda>i. i \<in> set notes) selected"] by (simp add: Int_def conj_commute)
  also have "\<dots> \<le> card (set notes)" by (rule card_mono) auto
  also have "\<dots> \<le> length notes" by (rule card_length)
  finally show ?thesis
    using assms sum_length_filter_compl [of "\<lambda>i. i \<in> set notes" selected]
    by (simp add: selection_ok_def)
qed

lemma set_drop_ref [simp]: "set (drop_ref i xs) = {x \<in> set xs. ir_item_id x \<noteq> i}"
  by (auto simp: drop_ref_def)

lemma distinct_drop_ref: "distinct (map ir_item_id xs) \<Longrightarrow> distinct (map ir_item_id (drop_ref i xs))"
  by (simp add: drop_ref_def distinct_map_filter)

lemma length_drop_ref: "length (drop_ref i xs) \<le> length xs"
  by (simp add: drop_ref_def)

lemma filter_drop_ref_le:
  "length (filter (\<lambda>x. x \<notin> set (drop_ref i notes)) (drop_ref i xs))
     \<le> length (filter (\<lambda>x. x \<notin> set notes) xs)"
  by (induction xs) (auto simp: drop_ref_def)

lemma selection_ok_drop:
  assumes "selection_ok selected pinned notes"
  shows "selection_ok (drop_ref i selected) (filter (\<lambda>k. k \<noteq> i) pinned) (drop_ref i notes)"
proof -
  have "length (drop_ref i notes) \<le> MAX_NOTES"
    using assms length_drop_ref [of i "notes"] by (simp add: selection_ok_def)
  moreover have "length (filter (\<lambda>x. x \<notin> set (drop_ref i notes)) (drop_ref i selected)) \<le> MAX_ITEMS"
    using assms filter_drop_ref_le [of i "notes" selected] by (simp add: selection_ok_def)
  ultimately show ?thesis
    using assms by (auto simp: selection_ok_def distinct_drop_ref)
qed

lemma selection_ok_exclude:
  assumes "selection_ok selected pinned notes" "i \<notin> set pinned"
  shows "selection_ok (drop_ref i selected) pinned (drop_ref i notes)"
proof -
  have "filter (\<lambda>k. k \<noteq> i) pinned = pinned" using assms(2) by (auto simp: filter_id_conv)
  then show ?thesis using selection_ok_drop [OF assms(1), of i] by simp
qed

lemma selection_ok_include:
  assumes "selection_ok selected pinned notes" "length selected < MAX_ITEMS"
    and "\<forall>x\<in>set selected. ir_item_id x \<noteq> ir_item_id item"
  shows "selection_ok (selected @ [item]) pinned notes"
  using assms le_less_trans [OF length_filter_le assms(2), of "\<lambda>x. x \<notin> set notes"]
  by (auto simp: selection_ok_def)

lemma selection_ok_pin:
  assumes "selection_ok selected pinned notes" "item \<in> set selected" "ir_item_id item \<notin> set pinned"
  shows "selection_ok selected (pinned @ [ir_item_id item]) notes"
  using assms by (auto simp: selection_ok_def)

lemma selection_ok_unpin:
  "selection_ok selected pinned notes \<Longrightarrow> selection_ok selected (filter (\<lambda>k. k \<noteq> i) pinned) notes"
  by (auto simp: selection_ok_def)

lemma selection_ok_put:
  assumes "selection_ok selected pinned notes" "ir_item_id item = i"
    and "length (drop_ref i notes) < MAX_NOTES"
  shows "selection_ok (drop_ref i selected @ [item]) pinned (drop_ref i notes @ [item])"
proof -
  have "length (filter (\<lambda>x. x \<notin> set (drop_ref i notes @ [item])) (drop_ref i selected @ [item]))
      \<le> length (filter (\<lambda>x. x \<notin> set (drop_ref i notes)) (drop_ref i selected))"
    by (induction selected) (auto simp: drop_ref_def)
  also have "\<dots> \<le> MAX_ITEMS"
    using assms(1) filter_drop_ref_le [of i "notes" selected] by (simp add: selection_ok_def)
  finally show ?thesis
    using assms by (auto simp: selection_ok_def distinct_drop_ref)
qed

lemma note_version_None: "note_version i d = None \<longleftrightarrow> i \<notin> ir_item_id ` set (dr_note_items d)"
  by (auto simp: note_version_def find_None_conv)

lemma drop_ref_shorter:
  assumes "i \<in> ir_item_id ` set xs"
  shows "length (drop_ref i xs) < length xs"
  using assms length_filter_less [of _ xs "\<lambda>x. ir_item_id x \<noteq> i"] by (auto simp: drop_ref_def)

lemma drop_ref_absent: "i \<notin> ir_item_id ` set xs \<Longrightarrow> drop_ref i xs = xs"
  by (auto simp: drop_ref_def filter_id_conv)

definition selections_ok :: "control_plane \<Rightarrow> bool" where
  "selections_ok p \<longleftrightarrow>
     (\<forall>k d. bt_get (cp_drafts p) k = Some d \<longrightarrow> draft_ok d)
     \<and> (\<forall>k r. bt_get (cp_revisions p) k = Some r \<longrightarrow> revision_ok r)"

lemma editable_item_Inr: "editable_item item p = Inr r \<Longrightarrow> it_item r = item"
  by (auto simp: editable_item_def retained_item_def result_simps)

lemma edit_draft_ok:
  assumes "edit_draft p d op authorized = Inr d'" "draft_ok d"
    and "\<forall>k r. bt_get (cp_revisions p) k = Some r \<longrightarrow> revision_ok r"
  shows "draft_ok d'"
  using assms
  by (cases op)
     (auto simp: edit_draft_def draft_ok_def revision_ok_def result_simps list_ex_iff not_le
       dest!: editable_item_Inr
       intro: selection_ok_include selection_ok_exclude selection_ok_pin selection_ok_unpin
         selection_ok_drop)

lemma put_note_ok:
  assumes "put_note h d i expected t x p = (Inr d', q)" "draft_ok d"
  shows "draft_ok d'"
proof -
  obtain version expiry where c: "put_note_checks p d i expected t x = Inr (version, expiry)"
    using assms(1) by (cases "put_note_checks p d i expected t x") (auto simp: put_note_def)
  let ?item = "make_item_ref h i version t"
  have d': "d' = d\<lparr>dr_note_items := drop_ref i (dr_note_items d) @ [?item],
      dr_selected_items := drop_ref i (dr_selected_items d) @ [?item]\<rparr>"
    using assms(1) c by (simp add: put_note_def insert_item_def)
  have "length (drop_ref i (dr_note_items d)) < MAX_NOTES"
  proof (cases "note_version i d")
    case None
    then have "length (dr_note_items d) < MAX_NOTES"
      using c by (auto simp: put_note_checks_def result_simps Let_def)
    with None show ?thesis by (simp add: note_version_None drop_ref_absent)
  next
    case (Some v)
    then have "i \<in> ir_item_id ` set (dr_note_items d)"
      using note_version_None [of i d] by simp
    then show ?thesis
      using drop_ref_shorter assms(2) by (fastforce simp: draft_ok_def selection_ok_def)
  qed
  then show ?thesis
    using assms(2) selection_ok_put by (simp add: d' draft_ok_def make_item_ref_def)
qed

lemma apply_operation_ok:
  assumes "apply_operation h authorized d op p = (Inr d', q)" "draft_ok d"
    and "\<forall>k r. bt_get (cp_revisions p) k = Some r \<longrightarrow> revision_ok r"
  shows "draft_ok d'"
proof (cases "\<exists>t. op = SetObjective t")
  case True
  with assms show ?thesis
    by (auto simp: apply_operation_def set_objective_def draft_ok_def Let_def split: if_splits)
next
  case False
  with assms show ?thesis
    by (cases op) (auto simp: apply_operation_def intro: edit_draft_ok put_note_ok)
qed

lemma apply_operations_ok:
  assumes "apply_operations h authorized d ops p = (Inr d', q)" "draft_ok d"
    and "\<forall>k r. bt_get (cp_revisions p) k = Some r \<longrightarrow> revision_ok r"
  shows "draft_ok d'"
  using assms
proof (induction h authorized d ops p rule: apply_operations.induct)
  case (2 h authorized d op ops p)
  then obtain d1 p1 where o: "apply_operation h authorized d op p = (Inr d1, p1)"
    "apply_operations h authorized d1 ops p1 = (Inr d', q)"
    by (auto split: prod.splits sum.splits)
  have "cp_revisions p1 = cp_revisions p"
    using apply_operation_same [of p h authorized d op] o(1) by (simp add: same_but_items_fields)
  with 2 o show ?case by (auto intro: apply_operation_ok)
qed simp

lemma selections_ok_step:
  assumes "selections_ok p" "control_step h p q"
  shows "selections_ok q"
  using assms(2)
proof (cases rule: control_step_cases)
  case (patch d a ops x)
  then show ?thesis using assms(1) by (simp add: selections_ok_def apply_operations_fields [OF patch])
next
  case (saved t author a d d1 v p1)
  have "draft_ok d"
    using saved(1) assms(1)
    by (auto simp: patch_admitted_def get_draft_def result_simps selections_ok_def)
  then have "draft_ok d1"
    using apply_operations_ok [OF saved(2)] assms(1) by (simp add: selections_ok_def)
  then show ?thesis
    using assms(1) by (simp add: selections_ok_def saved(4) apply_operations_fields [OF saved(2)] draft_ok_def)
next
  case (draft active author)
  then show ?thesis using assms(1) by (simp add: selections_ok_def draft_ok_def new_draft_def)
next
  case (revision c i r d current)
  then have "draft_ok d"
    using assms(1) by (auto simp: commit_checks_def get_draft_def result_simps selections_ok_def)
  then show ?thesis
    using assms(1) by (simp add: selections_ok_def revision(3) draft_ok_def revision_ok_def make_revision_def)
qed (use assms(1) in \<open>simp_all add: selections_ok_def\<close>)

lemma selections_ok_start: "control_start h p \<Longrightarrow> selections_ok p"
  by (auto simp: control_start_def selections_ok_def control_new_fields revision_ok_def
      bootstrap_revision_def split: if_splits)

interpretation selections: invariant "control_start h" "control_step h" selections_ok for h
  by unfold_locales (rule selections_ok_start, assumption, rule selections_ok_step)

subsection \<open>The chain of revisions\<close>

text \<open>
  The revisions are numbered from one to their count, the active revision is the last one, and
  every revision but the bootstrap names the one before it as its parent. The plan epoch is
  their number.
\<close>

definition revision_links :: "control_plane \<Rightarrow> string \<Rightarrow> revision \<Rightarrow> bool" where
  "revision_links p k r \<longleftrightarrow>
     rv_revision_id r = k \<and> 1 \<le> unat (rv_sequence r)
     \<and> unat (rv_sequence r) \<le> bt_len (cp_revisions p) \<and> rv_plan_epoch r = rv_sequence r
     \<and> (if k = ''revision-1'' then rv_sequence r = 1
        else \<exists>parent. bt_get (cp_revisions p) (rv_parent_revision_id r) = Some parent
               \<and> unat (rv_sequence r) = Suc (unat (rv_sequence parent)))"

definition chained :: "control_plane \<Rightarrow> bool" where
  "chained p \<longleftrightarrow>
     (ids_left p \<longrightarrow>
       bt_len (cp_revisions p) \<le> unat (cp_next_id p)
       \<and> unat (st_plan_epoch (cp_state p)) = bt_len (cp_revisions p)
       \<and> (\<exists>r. bt_get (cp_revisions p) (st_active_revision_id (cp_state p)) = Some r
            \<and> unat (rv_sequence r) = bt_len (cp_revisions p))
       \<and> (\<forall>k r. bt_get (cp_revisions p) k = Some r \<longrightarrow> revision_links p k r)
       \<and> (\<forall>k k' r r'. bt_get (cp_revisions p) k = Some r \<longrightarrow> bt_get (cp_revisions p) k' = Some r' \<longrightarrow>
            rv_sequence r = rv_sequence r' \<longrightarrow> k = k'))"

lemma chained_cong:
  assumes "chained p" "ids_left q \<Longrightarrow> ids_left p" "cp_next_id p \<le> cp_next_id q"
    and "cp_revisions q = cp_revisions p" "st_plan_epoch (cp_state q) = st_plan_epoch (cp_state p)"
    and "st_active_revision_id (cp_state q) = st_active_revision_id (cp_state p)"
  shows "chained q"
proof -
  have "revision_links q = revision_links p"
    by (intro ext) (simp add: revision_links_def assms(4))
  moreover have "unat (cp_next_id p) \<le> unat (cp_next_id q)"
    using assms(3) by (simp add: word_le_nat_alt)
  ultimately show ?thesis
    using assms(1,2) by (simp add: chained_def assms(4-6)) (meson order_trans)
qed

lemma digit_char_1: "digit_char (Suc 0) = CHR ''1''"
  by code_simp

lemma revision_1: "''revision-1'' = numbered ''revision'' 1"
  by (simp add: numbered_def dec.simps digit_char_1)

lemma revision_key_fresh:
  assumes "fresh_ids p" "ids_left p" "1 < cp_next_id p"
  shows "bt_get (cp_revisions p) (numbered ''revision'' (cp_next_id p)) = None"
    and "numbered ''revision'' (cp_next_id p) \<noteq> ''revision-1''"
proof -
  let ?k = "numbered ''revision'' (cp_next_id p)"
  show k: "?k \<noteq> ''revision-1''"
    unfolding revision_1 numbered_inject using assms(3) by auto
  have "\<not> bt_contains (cp_revisions p) ?k"
    using assms(1,2) k not_issued_next [of p "''revision''"] by (auto simp: fresh_ids_def)
  then show "bt_get (cp_revisions p) ?k = None" by (simp add: bt_contains_def)
qed

lemma chained_commit:
  assumes "fresh_ids p" "chained p" "ids_left p"
    and "commit_checks c p = Inr (i, r, d, current)"
  shows "chained (snd (commit_revision h c i r d p))"
proof -
  let ?q = "snd (commit_revision h c i r d p)" and ?k = "numbered ''revision'' (cp_next_id p)"
    and ?n = "bt_len (cp_revisions p)"
  define rv where "rv = make_revision p ?k (numbered ''intervention'' (sat_add (cp_next_id p) 1))
    (prr_preview r) d"
  have "bt_contains (cp_previews p) i"
    using assms(4) by (auto simp: commit_checks_def result_simps bt_contains_def)
  then have next_id: "1 < cp_next_id p"
    using assms(1,3) by (auto simp: fresh_ids_def issued_def)
  have new: "bt_get (cp_revisions p) ?k = None"
    by (rule revision_key_fresh(1) [OF assms(1,3) next_id])
  have c: "?n \<le> unat (cp_next_id p)" "unat (st_plan_epoch (cp_state p)) = ?n"
    and active: "\<exists>a. bt_get (cp_revisions p) (st_active_revision_id (cp_state p)) = Some a
        \<and> unat (rv_sequence a) = ?n"
    and links: "\<And>k r. bt_get (cp_revisions p) k = Some r \<Longrightarrow> revision_links p k r"
    and inject: "\<And>k k' r r'. bt_get (cp_revisions p) k = Some r \<Longrightarrow>
        bt_get (cp_revisions p) k' = Some r' \<Longrightarrow> rv_sequence r = rv_sequence r' \<Longrightarrow> k = k'"
    using assms(2,3) by (auto simp: chained_def)
  have small: "?n < 2 ^ 64 - 1"
    using c(1) assms(3) unat_lt_64 [of "cp_next_id p"]
    by (auto simp: ids_left_def word_unat_eq_iff)
  have seq: "unat (rv_sequence rv) = Suc ?n"
    using small by (simp add: rv_def make_revision_def unat_word_ariths unat_of_nat)
  have epoch: "unat (sat_add (st_plan_epoch (cp_state p)) 1) = Suc ?n"
    using small c(2) by (simp add: unat_sat_exact)
  have len: "bt_len (bt_insert ?k rv (cp_revisions p)) = Suc ?n"
    by (simp add: bt_len_insert bt_contains_def new)
  define q where "q = ?q"
  have rq: "cp_revisions q = bt_insert ?k rv (cp_revisions p)"
    "st_plan_epoch (cp_state q) = sat_add (st_plan_epoch (cp_state p)) 1"
    "st_active_revision_id (cp_state q) = ?k"
    by (simp_all add: rv_def q_def)
  have not_boot: "?k \<noteq> ''revision-1''"
    by (rule revision_key_fresh(2) [OF assms(1,3) next_id])
  have old: "k \<noteq> ?k" if "bt_get (cp_revisions p) k = Some r'" for k r'
    using that new by auto
  have links': "revision_links q k r'" if "bt_get (cp_revisions q) k = Some r'" for k r'
  proof (cases "k = ?k")
    case True
    with that have r': "r' = rv" by (simp add: rq)
    obtain a where "bt_get (cp_revisions p) (st_active_revision_id (cp_state p)) = Some a"
      "unat (rv_sequence a) = ?n"
      using active by auto
    moreover from this have "st_active_revision_id (cp_state p) \<noteq> ?k" using old by blast
    moreover have "rv_plan_epoch rv = rv_sequence rv"
      using seq epoch by (simp add: word_unat_eq_iff rv_def make_revision_def)
    ultimately show ?thesis
      using seq True not_boot
      by (auto simp: revision_links_def r' rq len) (simp_all add: rv_def make_revision_def)
  next
    case False
    with that have o: "bt_get (cp_revisions p) k = Some r'" by (simp add: rq)
    with links [OF o] new show ?thesis
      by (auto simp: revision_links_def rq len)
  qed
  have inject': "k = k'" if "bt_get (cp_revisions q) k = Some r1" "bt_get (cp_revisions q) k' = Some r2"
      "rv_sequence r1 = rv_sequence r2" for k k' r1 r2
  proof -
    have other: "rv_sequence r' \<noteq> rv_sequence rv" if "bt_get (cp_revisions p) k = Some r'" for k r'
      using links [OF that] seq by (auto simp: revision_links_def)
    have "k = ?k \<and> r1 = rv \<or> k \<noteq> ?k \<and> bt_get (cp_revisions p) k = Some r1"
      "k' = ?k \<and> r2 = rv \<or> k' \<noteq> ?k \<and> bt_get (cp_revisions p) k' = Some r2"
      using that(1,2) by (auto simp: rq split: if_splits)
    then show ?thesis
      using other [of k r1] other [of k' r2] inject [of k r1 k' r2] that(3) by metis
  qed
  have "Suc ?n \<le> unat (cp_next_id q)"
    using next_id_ge(6) [of p h c i r d, folded q_def] c(1) sat_inc_gt [of "cp_next_id p"] assms(3)
    by (auto simp: ids_left_def word_le_nat_alt word_less_nat_alt)
  then have "bt_len (cp_revisions q) \<le> unat (cp_next_id q)" by (simp add: rq len)
  moreover have "unat (st_plan_epoch (cp_state q)) = bt_len (cp_revisions q)"
    by (simp add: rq len epoch)
  moreover have "bt_get (cp_revisions q) (st_active_revision_id (cp_state q)) = Some rv
      \<and> unat (rv_sequence rv) = bt_len (cp_revisions q)"
    by (simp add: rq len seq)
  ultimately show ?thesis
    unfolding chained_def q_def [symmetric] using links' inject' by blast
qed

lemma chained_step:
  assumes "fresh_ids p" "chained p" "control_step h p q"
  shows "chained q"
proof (cases "ids_left q")
  case True
  then have l: "ids_left p" using ids_left_step [OF assms(3)] by simp
  show ?thesis
    using assms(3)
  proof (cases rule: control_step_cases)
    case (revision c i r d current)
    then show ?thesis using chained_commit [OF assms(1,2) l] by simp
  next
    case (patch d a ops x)
    show ?thesis
      by (rule chained_cong [OF assms(2) l next_id_mono [OF assms(3)]])
         (simp_all add: apply_operations_fields [OF patch])
  next
    case (saved t author a d d1 v p1)
    show ?thesis
      by (rule chained_cong [OF assms(2) l next_id_mono [OF assms(3)]])
         (simp_all add: saved(4) apply_operations_fields [OF saved(2)])
  qed (use chained_cong [OF assms(2) l next_id_mono [OF assms(3)]] in simp_all)
qed (simp add: chained_def)

lemma chained_start: "control_start h p \<Longrightarrow> chained p"
  by (auto simp: control_start_def chained_def control_new_fields bt_len_insert initial_state_def
      revision_links_def bootstrap_revision_def split: if_splits)

interpretation chained: relative_invariant "control_start h" "control_step h" fresh_ids chained for h
  by unfold_locales (rule chained_start, assumption, rule chained_step)

subsection \<open>The events\<close>

text \<open>
  The events are numbered from one without gaps: the journal holds the first \<open>MAX_EVENTS\<close> of
  them, and the last sequence counts also those that found the journal full.
\<close>

definition gapless :: "control_plane \<Rightarrow> bool" where
  "gapless p \<longleftrightarrow>
     length (cp_events p) = min (unat (st_last_sequence (cp_state p))) MAX_EVENTS
     \<and> (\<forall>i<length (cp_events p). unat (cv_sequence (cp_events p ! i)) = Suc i)
     \<and> (\<forall>e\<in>set (cp_events p). cv_scope e = cp_scope p)"

lemma gapless_record: "gapless p \<Longrightarrow> gapless (record_event ty ci pi ri rc p)"
  using unat_lt_64 [of "st_last_sequence (cp_state p)"]
  by (auto simp: gapless_def record_event_def fresh_id_def make_event_def Let_def unat_sat_add
      MAX_EVENTS_def nth_append less_Suc_eq)

lemma gapless_cong:
  "gapless p \<Longrightarrow> cp_events q = cp_events p \<Longrightarrow> cp_scope q = cp_scope p \<Longrightarrow>
   st_last_sequence (cp_state q) = st_last_sequence (cp_state p) \<Longrightarrow> gapless q"
  by (simp add: gapless_def)

lemma gapless_frames:
  "gapless p \<Longrightarrow> gapless (sync_boundary p)" "gapless p \<Longrightarrow> gapless (set_status s p)"
  "gapless p \<Longrightarrow> gapless (bump_gate p)" "gapless p \<Longrightarrow> gapless (save_command h c r p)"
  "gapless p \<Longrightarrow> gapless (consume i p)" "gapless p \<Longrightarrow> gapless (snd (make_receipt c e rc p))"
  "gapless p \<Longrightarrow> gapless (snd (fresh_id s p))"
  "gapless p \<Longrightarrow> gapless (invalidate_previews k rs p)"
  "gapless p \<Longrightarrow> gapless (p\<lparr>cp_drafts := ds\<rparr>)" "gapless p \<Longrightarrow> gapless (p\<lparr>cp_next_id := n\<rparr>)"
  "gapless p \<Longrightarrow> gapless (p\<lparr>cp_next_id := n, cp_drafts := ds\<rparr>)"
  "gapless p \<Longrightarrow> gapless (p\<lparr>cp_drafts := ds, cp_next_id := n\<rparr>)"
  "gapless p \<Longrightarrow> gapless (p\<lparr>cp_previews := vs\<rparr>)" "gapless p \<Longrightarrow> gapless (p\<lparr>cp_enabled := b\<rparr>)"
  "gapless p \<Longrightarrow> gapless (p\<lparr>cp_relations := rs'\<rparr>)" "gapless p \<Longrightarrow> gapless (p\<lparr>cp_revisions := rvs\<rparr>)"
  "gapless p \<Longrightarrow> gapless (p\<lparr>cp_continuation_preview_id := co, cp_prepared_input := pr\<rparr>)"
  "gapless p \<Longrightarrow> gapless (p\<lparr>cp_state := (cp_state p)\<lparr>st_pause_latched := b\<rparr>\<rparr>)"
  "gapless p \<Longrightarrow> gapless (p\<lparr>cp_state := (cp_state p)\<lparr>st_stop_latched := b, st_pause_latched := b', st_status := s\<rparr>\<rparr>)"
  "gapless p \<Longrightarrow> gapless (p\<lparr>cp_state := (cp_state p)\<lparr>st_status := s, st_pause_latched := b', st_stop_latched := b\<rparr>\<rparr>)"
  "gapless p \<Longrightarrow> gapless (install_revision i pr1 k rv p)"
  by (simp_all add: gapless_def invalidate_previews_def install_revision_def Let_def)

lemma gapless_step:
  assumes "gapless p" "control_step h p q"
  shows "gapless q"
  using assms(2)
proof (cases rule: control_step_cases)
  case (patch d a ops x)
  show ?thesis by (rule gapless_cong [OF assms(1)]) (simp_all add: apply_operations_fields [OF patch])
next
  case (saved t author a d d1 v p1)
  have "gapless p1"
    by (rule gapless_cong [OF assms(1)]) (simp_all add: apply_operations_fields [OF saved(2)])
  then show ?thesis
    by (simp add: saved(4) save_draft_def Let_def gapless_record gapless_frames)
next
  case (preview s i dv requested cv ack d)
  show ?thesis
    using assms(1) by (simp add: preview(2) build_preview_def id_if_def Let_def split_beta
        gapless_record gapless_frames)
next
  case (revision c i r d current)
  show ?thesis
    using assms(1)
    by (simp add: revision(3) commit_revision_def Let_def split_beta
        gapless_record gapless_frames)
next
  case (host reason b)
  show ?thesis by (rule gapless_cong [OF assms(1)]) (simp_all add: host host_changed_def
        invalidate_all_previews_def set_status_def Let_def)
qed (use assms(1) in \<open>simp_all add: pause_effect_def stop_def commit_no_change_def resume_effect_def
    Let_def split_beta gapless_record gapless_frames gapless_cong [of p]\<close>)

lemma gapless_start: "control_start h p \<Longrightarrow> gapless p"
  by (auto simp: control_start_def gapless_def control_new_fields initial_state_def)

interpretation gapless: invariant "control_start h" "control_step h" gapless for h
  by unfold_locales (rule gapless_start, assumption, rule gapless_step)

subsection \<open>The item registry\<close>

text \<open>
  Every retained item is stored under its own identity, belongs to the plane's run, carries
  the digest of its bytes and a readable expiry, and is bounded.
\<close>

definition item_ok :: "host \<Rightarrow> scope \<Rightarrow> string \<times> u64 \<Rightarrow> item_record \<Rightarrow> bool" where
  "item_ok h s k r \<longleftrightarrow>
     k = (ir_item_id (it_item r), ir_version (it_item r)) \<and> item_ref_valid (it_item r)
     \<and> it_scope r = s \<and> ir_sha256 (it_item r) = digest h (it_content r)
     \<and> length (it_content r) \<le> MAX_COMPONENT_BYTES
     \<and> it_expires_at r \<noteq> 0 \<and> parse_time (it_expires_text r) = Some (it_expires_at r)"

definition registry_ok :: "host \<Rightarrow> control_plane \<Rightarrow> bool" where
  "registry_ok h p \<longleftrightarrow> (\<forall>k r. bt_get (cp_items p) k = Some r \<longrightarrow> item_ok h (cp_scope p) k r)"

lemma insert_item_registry:
  assumes "registry_ok h p" "digest_ok h" "valid_id i" "v > 0" "length content \<le> MAX_COMPONENT_BYTES"
    and "expires \<noteq> 0"
  shows "registry_ok h (insert_item h i v kind protect content expires locked p)"
  using assms
  by (auto simp: registry_ok_def insert_item_def item_ok_def make_item_ref_def item_ref_valid_digest
      valid_digest_digest split: if_splits)

lemma put_note_registry:
  assumes "registry_ok h p" "digest_ok h"
  shows "registry_ok h (snd (put_note h d i expected t x p))"
proof (cases "put_note_checks p d i expected t x")
  case (Inr ve)
  obtain version expiry where ve: "ve = (version, expiry)" by (cases ve)
  have "valid_id i" "length t \<le> MAX_NOTE_BYTES" "cp_now p < expiry" "0 < version"
    using Inr by (auto simp: ve put_note_checks_def result_simps Let_def not_le not_less)
  then have "registry_ok h (insert_item h i version ''note'' False t expiry None p)"
    by (intro insert_item_registry [OF assms]) (auto simp: control_bounds)
  then show ?thesis by (simp add: put_note_def Inr ve Let_def split: option.splits)
qed (use assms in \<open>simp add: put_note_def\<close>)

lemma valid_objective_id: "valid_id ''objective-override''"
  by (simp add: valid_id_def ascii_defs)

lemma set_objective_registry:
  assumes "registry_ok h p" "digest_ok h"
  shows "registry_ok h (snd (set_objective h d t a p))"
proof -
  have "sat_add (cp_now p) 3600 \<noteq> 0"
    by (simp add: word_unat_eq_iff unat_sat_add)
  then have "registry_ok h (insert_item h ''objective-override'' (sat_add v 1) ''objective'' False t
      (sat_add (cp_now p) 3600) None p)" if "length t \<le> MAX_OBJECTIVE_BYTES" for v
    using that by (intro insert_item_registry [OF assms valid_objective_id]) (auto simp: control_bounds)
  then show ?thesis using assms(1) by (simp add: set_objective_def Let_def)
qed

lemma apply_operation_registry:
  "registry_ok h p \<Longrightarrow> digest_ok h \<Longrightarrow> registry_ok h (snd (apply_operation h a d op p))"
  by (cases op) (auto simp: apply_operation_def put_note_registry set_objective_registry)

lemma apply_operations_registry:
  assumes "registry_ok h p" "digest_ok h"
  shows "registry_ok h (snd (apply_operations h a d ops p))"
  using assms
proof (induction h a d ops p rule: apply_operations.induct)
  case (2 h a d op ops p)
  then have "registry_ok h (snd (apply_operation h a d op p))"
    by (intro apply_operation_registry)
  with 2 show ?case by (auto split: prod.splits sum.splits)
qed simp

lemma registry_ok_cong:
  "registry_ok h p \<Longrightarrow> cp_items q = cp_items p \<Longrightarrow> cp_scope q = cp_scope p \<Longrightarrow> registry_ok h q"
  by (simp add: registry_ok_def)

lemma registry_ok_step:
  assumes "digest_ok h" "registry_ok h p" "control_step h p q"
  shows "registry_ok h q"
  using assms(3)
proof (cases rule: control_step_cases)
  case (patch d a ops x)
  then show ?thesis using apply_operations_registry [OF assms(2,1), of a d ops] by simp
next
  case (saved t author a d d1 v p1)
  then have "registry_ok h p1"
    using apply_operations_registry [OF assms(2,1), of a d "pt_operations t"] by simp
  then show ?thesis by (rule registry_ok_cong) (simp_all add: saved(4))
qed (use assms(2) in \<open>simp_all add: registry_ok_cong [of h p]\<close>)

lemma seeds_valid:
  "valid_id ''history-1''" "valid_id ''note-1''" "valid_id ''objective-1''" "valid_id ''locked-state''"
  by (simp_all add: valid_id_def ascii_defs)

lemma registry_ok_start:
  assumes "digest_ok h" "control_start h p"
  shows "registry_ok h p"
proof -
  obtain s enabled now where p: "p = control_new h s enabled now"
    using assms(2) by (auto simp: control_start_def)
  have empty: "registry_ok h q" if "cp_items q = bt_empty" for q
    using that by (simp add: registry_ok_def)
  have seeds: "registry_ok h (seed_items h q)" if "cp_items q = bt_empty" for q
    unfolding seed_items_def
    by (intro insert_item_registry empty that assms(1) seeds_valid)
       (simp_all add: control_bounds SEED_EXPIRY_def LOCKED_STATE_def)
  show ?thesis
    unfolding p control_new_def Let_def by (rule registry_ok_cong [OF seeds]) simp_all
qed

interpretation registry: invariant "control_start h" "control_step h"
    "\<lambda>p. digest_ok h \<longrightarrow> registry_ok h p" for h
  by unfold_locales (auto intro: registry_ok_start registry_ok_step)

subsection \<open>One run per plane\<close>

text \<open>Whatever the plane stores belongs to its own scope, which never changes.\<close>

definition scoped :: "control_plane \<Rightarrow> bool" where
  "scoped p \<longleftrightarrow>
     (\<forall>k d. bt_get (cp_drafts p) k = Some d \<longrightarrow> dr_scope d = cp_scope p)
     \<and> (\<forall>k r. bt_get (cp_previews p) k = Some r \<longrightarrow> pv_scope (prr_preview r) = cp_scope p)
     \<and> (\<forall>k r. bt_get (cp_revisions p) k = Some r \<longrightarrow> rv_scope r = cp_scope p)
     \<and> (\<forall>k c. bt_get (cp_commands p) k = Some c \<longrightarrow> rc_scope (snd c) = cp_scope p)
     \<and> (\<forall>l\<in>set (cp_relations p). rl_scope l = cp_scope p)"

lemma edit_draft_identity:
  "edit_draft p d op authorized = Inr d' \<Longrightarrow>
     dr_scope d' = dr_scope d \<and> dr_version d' = dr_version d \<and> dr_draft_id d' = dr_draft_id d"
  by (cases op) (auto simp: edit_draft_def result_simps)

lemma apply_operation_identity:
  "apply_operation h authorized d op p = (Inr d', q) \<Longrightarrow>
     dr_scope d' = dr_scope d \<and> dr_version d' = dr_version d \<and> dr_draft_id d' = dr_draft_id d"
  by (cases op) (auto simp: apply_operation_def put_note_def set_objective_def Let_def
      split: sum.splits option.splits if_splits dest: edit_draft_identity)

lemma apply_operations_identity:
  "apply_operations h authorized d ops p = (Inr d', q) \<Longrightarrow>
     dr_scope d' = dr_scope d \<and> dr_version d' = dr_version d \<and> dr_draft_id d' = dr_draft_id d"
  by (induction h authorized d ops p rule: apply_operations.induct)
     (auto split: prod.splits sum.splits dest!: apply_operation_identity)

lemma commit_revision_relations:
  obtains l where "cp_relations (snd (commit_revision h c i r d p)) = cp_relations p @ [l]"
    "rl_scope l = cp_scope p" "rl_revision_id l = numbered ''revision'' (cp_next_id p)"
    "rl_preview_id l = Some i"
  by (rule that [of "last (cp_relations (snd (commit_revision h c i r d p)))"])
     (simp_all add: commit_revision_def install_revision_def make_relation_def Let_def split_beta)

lemma effect_receipt_scope [simp]:
  "rc_scope (fst (pause_effect h c u p)) = cp_scope p"
  "rc_scope (fst (commit_no_change h c i p)) = cp_scope p"
  "rc_scope (fst (commit_revision h c i r d p)) = cp_scope p"
  "rc_scope (fst (resume_effect h c u p)) = cp_scope p"
  by (simp_all add: pause_effect_def commit_no_change_def commit_revision_def install_revision_def
      resume_effect_def Let_def split_beta)

lemma scoped_step:
  assumes "scoped p" "control_step h p q"
  shows "scoped q"
  using assms(2)
proof (cases rule: control_step_cases)
  case (patch d a ops x)
  then show ?thesis using assms(1) by (simp add: scoped_def apply_operations_fields [OF patch])
next
  case (saved t author a d d1 v p1)
  have "dr_scope d1 = cp_scope p"
    using saved(1) assms(1) apply_operations_identity [OF saved(2)]
    by (auto simp: patch_admitted_def get_draft_def result_simps scoped_def)
  then show ?thesis
    using assms(1) by (auto simp: scoped_def saved(4) apply_operations_fields [OF saved(2)] invalidated_def)
next
  case (preview s i dv requested cv ack d)
  have "s = cp_scope p"
    using preview(1) by (simp add: preview_admitted_def check_scope_def result_simps)
  then show ?thesis
    by (rule_tac build_preview_record [of h s i d requested ack p])
       (use assms(1) in \<open>simp add: scoped_def preview(2)\<close>)
next
  case (draft active author)
  then show ?thesis using assms(1) by (simp add: scoped_def new_draft_def)
next
  case (revision c i r d current)
  show ?thesis
    by (rule commit_revision_relations [of h c i r d p])
       (use assms(1) in \<open>auto simp: scoped_def revision(3) make_revision_def\<close>)
next
  case (host reason b)
  then show ?thesis using assms(1) by (auto simp: scoped_def invalidated_def)
qed (use assms(1) in \<open>auto simp: scoped_def split: if_splits\<close>)

lemma scoped_start: "control_start h p \<Longrightarrow> scoped p"
  by (auto simp: control_start_def scoped_def control_new_fields bootstrap_revision_def split: if_splits)

interpretation scoped: invariant "control_start h" "control_step h" scoped for h
  by unfold_locales (rule scoped_start, assumption, rule scoped_step)

end
