(* ===== verification/Control_Journal.thy ===== *)
theory Control_Journal
  imports Control_History
begin

text \<open>
  The journal of the control plane (\<open>export_journal\<close> of \<open>state/mod.rs\<close> and the recovery of
  \<open>state/lifecycle.rs\<close>). A journal is a schema name, a plane and the list of its items; the
  serializer of serde skips the item map of the plane itself. Encoding and decoding are
  arguments, as serde is outside the repository.
\<close>

record journal =
  jn_schema :: string
  jn_plane :: control_plane
  jn_items :: "((string \<times> u64) \<times> item_record) list"

definition export_journal :: "(journal \<Rightarrow> bytes option) \<Rightarrow> control_plane \<Rightarrow> control_error + bytes" where
  "export_journal encode p =
     ok_or (encode \<lparr>jn_schema = JOURNAL_SCHEMA, jn_plane = p, jn_items = bt_entries (cp_items p)\<rparr>)
       (control_error ''journal_encode'' ''control journal cannot be encoded'')"

subsection \<open>Integrity\<close>

definition retained_reference :: "host \<Rightarrow> control_plane \<Rightarrow> item_ref \<Rightarrow> bool" where
  "retained_reference h p r \<longleftrightarrow>
     item_ref_valid r
     \<and> (case bt_get (cp_items p) (ir_item_id r, ir_version r) of
          None \<Rightarrow> False
        | Some i \<Rightarrow> it_scope i = cp_scope p \<and> it_item i = r \<and> digest h (it_content i) = ir_sha256 r)"

definition journal_invalid :: "string \<Rightarrow> control_error" where
  "journal_invalid message = control_error ''journal_invalid'' message"

definition validate_references ::
  "host \<Rightarrow> control_plane \<Rightarrow> item_ref list \<Rightarrow> item_ref list \<Rightarrow> item_ref option \<Rightarrow> string list
     \<Rightarrow> control_error + unit" where
  "validate_references h p selected notes' objective pinned =
     ensure (\<not> (list_ex (\<lambda>r. \<not> retained_reference h p r) selected
         \<or> list_ex (\<lambda>r. \<not> retained_reference h p r) notes'
         \<or> (case objective of Some r \<Rightarrow> \<not> retained_reference h p r | None \<Rightarrow> False)
         \<or> list_ex (\<lambda>i. \<not> list_ex (\<lambda>r. ir_item_id r = i) selected) pinned))
       (journal_invalid ''control journal references missing item bytes'')"

fun validate_each :: "('a \<Rightarrow> 'e + unit) \<Rightarrow> 'a list \<Rightarrow> 'e + unit" where
  "validate_each f [] = Inr ()"
| "validate_each f (x # xs) = and_then (f x) (\<lambda>_. validate_each f xs)"

definition item_damaged :: "host \<Rightarrow> control_plane \<Rightarrow> (string \<times> u64) \<times> item_record \<Rightarrow> bool" where
  "item_damaged h p e = (case e of (k, r) \<Rightarrow>
     fst k \<noteq> ir_item_id (it_item r) \<or> snd k \<noteq> ir_version (it_item r)
     \<or> it_scope r \<noteq> cp_scope p \<or> \<not> item_ref_valid (it_item r)
     \<or> digest h (it_content r) \<noteq> ir_sha256 (it_item r)
     \<or> length (it_content r) > MAX_COMPONENT_BYTES \<or> it_expires_at r = 0
     \<or> parse_time (it_expires_text r) \<noteq> Some (it_expires_at r))"

definition preview_damaged :: "host \<Rightarrow> control_plane \<Rightarrow> preview_record \<Rightarrow> bool" where
  "preview_damaged h p r \<longleftrightarrow>
     pv_scope (prr_preview r) \<noteq> cp_scope p
     \<or> list_ex (\<lambda>i. \<not> retained_reference h p i) (pv_selected_items (prr_preview r))
     \<or> pv_applicable (prr_preview r) \<and> prr_material r = None
     \<or> (case prr_material r of
          Some m \<Rightarrow> mt_manifest_sha256 m \<noteq>
            (case pv_prepared_manifest_sha256 (prr_preview r) of Some s \<Rightarrow> s | None \<Rightarrow> [])
        | None \<Rightarrow> False)"

definition continuation_damaged :: "control_plane \<Rightarrow> bool" where
  "continuation_damaged p \<longleftrightarrow>
     (case cp_continuation_preview_id p of
        Some i \<Rightarrow> \<not> bt_contains (cp_previews p) i | None \<Rightarrow> False)
     \<or> (case cp_prepared_input p of
          Some input \<Rightarrow> \<not> list_ex (\<lambda>r. prr_consumed r
              \<and> (case prr_material r of Some m \<Rightarrow> mt_input m = input | None \<Rightarrow> False))
            (bt_values (cp_previews p))
        | None \<Rightarrow> False)"

definition validate_journal_integrity :: "host \<Rightarrow> control_plane \<Rightarrow> control_error + unit" where
  "validate_journal_integrity h p =
     and_then (ensure (\<not> (st_scope (cp_state p) \<noteq> cp_scope p \<or> bd_scope (cp_boundary p) \<noteq> cp_scope p
         \<or> st_active_revision_id (cp_state p) = []
         \<or> \<not> bt_contains (cp_revisions p) (st_active_revision_id (cp_state p))))
       (journal_invalid ''control journal scope or active revision is invalid'')) (\<lambda>_.
     and_then (ensure (\<not> list_ex (item_damaged h p) (bt_entries (cp_items p)))
       (journal_invalid ''control journal retained item is invalid'')) (\<lambda>_.
     and_then (validate_each (\<lambda>d. validate_references h p (dr_selected_items d) (dr_note_items d)
         (dr_objective_item d) (dr_pinned_item_ids d)) (bt_values (cp_drafts p))) (\<lambda>_.
     and_then (validate_each (\<lambda>r. validate_references h p (rv_selected_items r) (rv_note_items r)
         (rv_objective_item r) (rv_pinned_item_ids r)) (bt_values (cp_revisions p))) (\<lambda>_.
     and_then (ensure (\<not> list_ex (preview_damaged h p) (bt_values (cp_previews p)))
       (journal_invalid ''control journal preview references missing material'')) (\<lambda>_.
     and_then (ensure (\<not> continuation_damaged p)
       (journal_invalid ''control journal continuation is invalid'')) (\<lambda>_.
     ensure (\<not> (list_ex (\<lambda>e. cv_scope e \<noteq> cp_scope p) (cp_events p)
         \<or> list_ex (\<lambda>l. rl_scope l \<noteq> cp_scope p) (cp_relations p)
         \<or> list_ex (\<lambda>c. rc_scope (snd c) \<noteq> cp_scope p) (bt_values (cp_commands p))))
       (journal_invalid ''control journal record scope is invalid'')))))))"

subsection \<open>Recovery\<close>

text \<open>The loop over the items; \<open>seen\<close> is the set of keys that were read.\<close>

fun recover_items ::
  "((string \<times> u64) \<times> item_record) list \<Rightarrow> (string \<times> u64) set \<Rightarrow> control_plane
     \<Rightarrow> control_error + control_plane" where
  "recover_items [] seen p = Inr p"
| "recover_items ((k, r) # entries) seen p =
     (if fst k \<noteq> ir_item_id (it_item r) \<or> snd k \<noteq> ir_version (it_item r)
       \<or> \<not> item_ref_valid (it_item r) \<or> it_scope r \<noteq> cp_scope p
       \<or> length (it_content r) > MAX_COMPONENT_BYTES \<or> it_expires_at r = 0 \<or> k \<in> seen
      then Inl (journal_invalid ''control journal item integrity is invalid'')
      else recover_items entries (insert k seen) (p\<lparr>cp_items := bt_insert k r (cp_items p)\<rparr>))"

definition raise_controller_epoch :: "control_plane \<Rightarrow> control_plane" where
  "raise_controller_epoch p =
     (let p1 = p\<lparr>cp_state := (cp_state p)\<lparr>st_controller_epoch :=
                 sat_add (st_controller_epoch (cp_state p)) 1\<rparr>\<rparr>;
          p2 = p1\<lparr>cp_boundary := (cp_boundary p1)\<lparr>bd_controller_epoch :=
                 st_controller_epoch (cp_state p1)\<rparr>\<rparr>
      in sync_boundary p2)"

definition recover_journal_with_epoch ::
  "host \<Rightarrow> (bytes \<Rightarrow> journal option) \<Rightarrow> bytes \<Rightarrow> bool \<Rightarrow> control_error + control_plane" where
  "recover_journal_with_epoch h decode bs increment =
     and_then (ok_or (decode bs)
       (control_error ''journal_decode'' ''control journal is invalid'')) (\<lambda>j.
     and_then (ensure (\<not> (jn_schema j \<noteq> JOURNAL_SCHEMA
         \<or> length (cp_events (jn_plane j)) > MAX_EVENTS))
       (journal_invalid ''control journal exceeds its bound'')) (\<lambda>_.
     and_then (recover_items (jn_items j) {} (jn_plane j)) (\<lambda>p.
     and_then (validate_journal_integrity h p) (\<lambda>_.
     Inr (if increment then raise_controller_epoch p else p)))))"

definition recover_journal ::
  "host \<Rightarrow> (bytes \<Rightarrow> journal option) \<Rightarrow> bytes \<Rightarrow> control_error + control_plane" where
  "recover_journal h decode bs = recover_journal_with_epoch h decode bs True"

definition recover_journal_without_epoch ::
  "host \<Rightarrow> (bytes \<Rightarrow> journal option) \<Rightarrow> bytes \<Rightarrow> control_error + control_plane" where
  "recover_journal_without_epoch h decode bs = recover_journal_with_epoch h decode bs False"

subsection \<open>When a journal can be recovered\<close>

lemma validate_each_Inr: "validate_each f xs = Inr u \<longleftrightarrow> (\<forall>x\<in>set xs. f x = Inr ())"
  by (induction xs) (auto simp: result_simps)

lemma validate_each_Inl: "validate_each f xs = Inl e \<Longrightarrow> \<exists>x\<in>set xs. f x = Inl e"
  by (induction xs) (auto simp: result_simps)

definition refs_retained :: "host \<Rightarrow> control_plane \<Rightarrow> item_ref list \<Rightarrow> item_ref list \<Rightarrow> item_ref option \<Rightarrow> bool"
where
  "refs_retained h p selected notes' objective \<longleftrightarrow>
     (\<forall>r\<in>set selected \<union> set notes' \<union> set_option objective. retained_reference h p r)"

text \<open>
  The one part of the integrity check that the operations do not maintain: that every draft,
  revision and preview still refers to the items it was made with.
\<close>

definition references_kept :: "host \<Rightarrow> control_plane \<Rightarrow> bool" where
  "references_kept h p \<longleftrightarrow>
     (\<forall>k d. bt_get (cp_drafts p) k = Some d \<longrightarrow>
        refs_retained h p (dr_selected_items d) (dr_note_items d) (dr_objective_item d))
     \<and> (\<forall>k r. bt_get (cp_revisions p) k = Some r \<longrightarrow>
        refs_retained h p (rv_selected_items r) (rv_note_items r) (rv_objective_item r))
     \<and> (\<forall>k r. bt_get (cp_previews p) k = Some r \<longrightarrow>
        refs_retained h p (pv_selected_items (prr_preview r)) [] None)"

lemma validate_references_Inr:
  "validate_references h p sel ns ob pins = Inr u \<longleftrightarrow>
     refs_retained h p sel ns ob \<and> set pins \<subseteq> ir_item_id ` set sel"
  by (cases ob) (auto simp: validate_references_def refs_retained_def list_ex_iff)

lemma not_damaged_item:
  assumes "registry_ok h p"
  shows "\<not> list_ex (item_damaged h p) (bt_entries (cp_items p))"
proof -
  have "\<not> item_damaged h p (k, r)" if "bt_get (cp_items p) k = Some r" for k r
  proof -
    have "item_ok h (cp_scope p) k r" using assms that by (cases k) (simp add: registry_ok_def)
    then show ?thesis by (simp add: item_ok_def item_damaged_def not_less)
  qed
  then show ?thesis by (auto simp: list_ex_iff bt_entries_iff)
qed

lemma not_damaged_preview:
  assumes "previewed h p" "scoped p" "bt_get (cp_previews p) k = Some r"
  shows "preview_damaged h p r \<longleftrightarrow> \<not> refs_retained h p (pv_selected_items (prr_preview r)) [] None"
  using previewed_get [OF assms(1,3)] assms(2,3)
  by (auto simp: preview_damaged_def preview_ok_def refs_retained_def list_ex_iff scoped_def Let_def
      split: option.splits)

lemma not_damaged_continuation: "continued p \<Longrightarrow> ids_left p \<Longrightarrow> \<not> continuation_damaged p"
  by (fastforce simp: continued_def continuation_damaged_def list_ex_iff bt_values_iff bt_contains_def
      split: option.splits)

lemma active_revision_known:
  assumes "fresh_ids p" "chained p" "ids_left p"
  shows "bt_contains (cp_revisions p) (st_active_revision_id (cp_state p))"
    "st_active_revision_id (cp_state p) \<noteq> []"
proof -
  show c: "bt_contains (cp_revisions p) (st_active_revision_id (cp_state p))"
    using assms(2,3) by (auto simp: chained_def bt_contains_def)
  then show "st_active_revision_id (cp_state p) \<noteq> []"
    using assms(1,3) by (auto simp: fresh_ids_def issued_def numbered_def)
qed

lemma integrity_iff:
  assumes "digest_ok h" "control_reachable h p" "ids_left p"
  shows "validate_journal_integrity h p = Inr () \<longleftrightarrow> references_kept h p"
proof -
  note i = synced.holds [OF assms(2)] scoped.holds [OF assms(2)] gapless.holds [OF assms(2)]
    previewed.rel_holds [OF assms(2)] selections.holds [OF assms(2)]
  have "registry_ok h p"
    using registry.holds [OF assms(2)] assms(1) by simp
  note k = active_revision_known [OF fresh_ids.holds [OF assms(2)] chained.rel_holds [OF assms(2)] assms(3)]
  note d = not_damaged_item [OF \<open>registry_ok h p\<close>] not_damaged_preview [OF i(4,2)]
    not_damaged_continuation [OF continued.rel_holds [OF assms(2)] assms(3)]
  have pins: "set (dr_pinned_item_ids d) \<subseteq> ir_item_id ` set (dr_selected_items d)"
    if "bt_get (cp_drafts p) n = Some d" for n d
    using i(5) that by (auto simp: selections_ok_def draft_ok_def selection_ok_def)
  have rpins: "set (rv_pinned_item_ids d) \<subseteq> ir_item_id ` set (rv_selected_items d)"
    if "bt_get (cp_revisions p) n = Some d" for n d
    using i(5) that by (auto simp: selections_ok_def revision_ok_def selection_ok_def)
  have s: "\<not> (list_ex (\<lambda>e. cv_scope e \<noteq> cp_scope p) (cp_events p)
         \<or> list_ex (\<lambda>l. rl_scope l \<noteq> cp_scope p) (cp_relations p)
         \<or> list_ex (\<lambda>c. rc_scope (snd c) \<noteq> cp_scope p) (bt_values (cp_commands p)))"
    using i(2,3) by (auto simp: scoped_def gapless_def list_ex_iff bt_values_iff)
  have drafts: "validate_each (\<lambda>d. validate_references h p (dr_selected_items d) (dr_note_items d)
         (dr_objective_item d) (dr_pinned_item_ids d)) (bt_values (cp_drafts p)) = Inr () \<longleftrightarrow>
      (\<forall>k d. bt_get (cp_drafts p) k = Some d \<longrightarrow>
        refs_retained h p (dr_selected_items d) (dr_note_items d) (dr_objective_item d))"
    using pins by (auto simp: validate_each_Inr validate_references_Inr bt_values_iff Ball_def)
  have revs: "validate_each (\<lambda>r. validate_references h p (rv_selected_items r) (rv_note_items r)
         (rv_objective_item r) (rv_pinned_item_ids r)) (bt_values (cp_revisions p)) = Inr () \<longleftrightarrow>
      (\<forall>k r. bt_get (cp_revisions p) k = Some r \<longrightarrow>
        refs_retained h p (rv_selected_items r) (rv_note_items r) (rv_objective_item r))"
    using rpins by (auto simp: validate_each_Inr validate_references_Inr bt_values_iff Ball_def)
  have prevs: "\<not> list_ex (preview_damaged h p) (bt_values (cp_previews p)) \<longleftrightarrow>
      (\<forall>k r. bt_get (cp_previews p) k = Some r \<longrightarrow>
        refs_retained h p (pv_selected_items (prr_preview r)) [] None)"
    using d(2) by (auto simp: list_ex_iff bt_values_iff Ball_def)
  show ?thesis
    using i(1) k d(1,3) s
    by (simp add: validate_journal_integrity_def references_kept_def result_simps synced_def
        drafts revs prevs)
qed

subsection \<open>Recovery rebuilds the registry\<close>

lemma get_foldl_insert:
  "distinct (map fst es) \<Longrightarrow>
   bt_get (foldl (\<lambda>m (k, r). bt_insert k r m) m es) k =
     (case map_of es k of Some r \<Rightarrow> Some r | None \<Rightarrow> bt_get m k)"
proof (induction es arbitrary: m)
  case (Cons e es)
  then show ?case
    by (cases e; cases "k = fst e")
       (auto simp: map_of_eq_None_iff [THEN iffD2] split: option.split)
qed simp

lemma foldl_entries: "foldl (\<lambda>m (k, r). bt_insert k r m) bt_empty (bt_entries m) = m"
  by (rule bt_eqI) (simp add: get_foldl_insert bt_distinct, simp add: bt_get.rep_eq split: option.split)

lemma recover_items_ok:
  assumes "\<forall>(k, r)\<in>set es. item_ok h (cp_scope p) k r" "distinct (map fst es)"
    and "fst ` set es \<inter> seen = {}"
  shows "recover_items es seen p =
    Inr (p\<lparr>cp_items := foldl (\<lambda>m (k, r). bt_insert k r m) (cp_items p) es\<rparr>)"
  using assms
proof (induction es seen p rule: recover_items.induct)
  case (2 k r entries seen p)
  then have "item_ok h (cp_scope p) k r" "k \<notin> seen" by auto
  with 2 show ?case by (auto simp: item_ok_def)
qed simp

text \<open>
  What is asked of the serializer: it reads back what it wrote, except for the item map, which
  it skips.
\<close>

definition journal_codec :: "(journal \<Rightarrow> bytes option) \<Rightarrow> (bytes \<Rightarrow> journal option) \<Rightarrow> bool" where
  "journal_codec encode decode \<longleftrightarrow>
     (\<forall>j bs. encode j = Some bs \<longrightarrow>
        decode bs = Some (j\<lparr>jn_plane := (jn_plane j)\<lparr>cp_items := bt_empty\<rparr>\<rparr>))"

lemma recover_export:
  assumes "digest_ok h" "control_reachable h p" "journal_codec encode decode"
    and "export_journal encode p = Inr bs"
  shows "recover_journal_with_epoch h decode bs increment =
    and_then (validate_journal_integrity h p) (\<lambda>_.
      Inr (if increment then raise_controller_epoch p else p))"
proof -
  have "registry_ok h p" using registry.holds [OF assms(2)] assms(1) by simp
  then have "\<forall>(k, r)\<in>set (bt_entries (cp_items p)). item_ok h (cp_scope p) k r"
    by (auto simp: registry_ok_def bt_entries_iff)
  then have "recover_items (bt_entries (cp_items p)) {} (p\<lparr>cp_items := bt_empty\<rparr>) = Inr p"
    using recover_items_ok [where p = "p\<lparr>cp_items := bt_empty\<rparr>"]
    by (simp add: bt_distinct foldl_entries)
  moreover have "length (cp_events p) \<le> MAX_EVENTS"
    using gapless.holds [OF assms(2)] by (simp add: gapless_def)
  ultimately show ?thesis
    using assms(3,4)
    by (auto simp: recover_journal_with_epoch_def export_journal_def journal_codec_def)
qed

end
