(* ===== verification/Control_Commands.thy ===== *)
theory Control_Commands
  imports Control_Journal
begin

text \<open>
  What the commands of the control plane keep for good: a stop is never undone, a stored receipt
  is never replaced, a retired plan epoch never comes back, and an approved continuation that has
  expired can only be stopped. Each is an interpretation of the locale \<open>stable\<close>.
\<close>

subsection \<open>The control version\<close>

definition version_left :: "control_plane \<Rightarrow> bool" where
  "version_left p \<longleftrightarrow> st_control_version (cp_state p) \<noteq> u64_max"

lemma version_mono:
  assumes "control_step h p q"
  shows "st_control_version (cp_state p) \<le> st_control_version (cp_state q)"
  using assms
proof (cases rule: control_step_cases)
  case (patch d a ops x)
  then show ?thesis by (simp add: apply_operations_fields [OF patch])
next
  case (saved t author a d d1 v p1)
  then show ?thesis by (simp add: apply_operations_fields [OF saved(2)])
qed simp_all

lemma version_left_step: "control_step h p q \<Longrightarrow> version_left q \<Longrightarrow> version_left p"
  using version_mono [of h p q] by (auto simp: version_left_def simp flip: less_u64_max)

lemma version_left_steps: "control_steps h p q \<Longrightarrow> version_left q \<Longrightarrow> version_left p"
  by (induction rule: rtranclp_induct) (auto dest: version_left_step)

text \<open>
  A preview that a commit accepts was made at the current control version, which an applicable
  preview can only have while the run is held ready.
\<close>

lemma commit_needs_ready:
  assumes "control_reachable h p" "version_left p" "commit_checks c p = Inr t"
  shows "st_status (cp_state p) = ''paused_ready''"
proof -
  obtain i r d current where t: "t = (i, r, d, current)" by (cases t) auto
  with assms(3) have r: "bt_get (cp_previews p) i = Some r" "preview_fresh c r p"
    by (auto simp: commit_checks_def result_simps)
  have "preview_ok h p i r"
    by (rule previewed_get [OF previewed.rel_holds [OF assms(1)] r(1)])
  then show ?thesis
    using r(2) synced.holds [OF assms(1)] assms(2)
    by (auto simp: preview_ok_def preview_fresh_def synced_def version_left_def Let_def)
qed

subsection \<open>Stop\<close>

definition stopped_at :: "string \<Rightarrow> (string, revision) btree \<Rightarrow> u64 \<Rightarrow> control_plane \<Rightarrow> bool" where
  "stopped_at active rs epoch p \<longleftrightarrow>
     st_stop_latched (cp_state p) \<and> st_pause_latched (cp_state p)
     \<and> st_active_revision_id (cp_state p) = active \<and> cp_revisions p = rs
     \<and> st_plan_epoch (cp_state p) = epoch"

lemma no_commit_when_stopped:
  assumes "control_reachable h p" "version_left p" "st_stop_latched (cp_state p)"
  shows "commit_checks c p \<noteq> Inr t"
proof
  assume "commit_checks c p = Inr t"
  then have "st_status (cp_state p) = ''paused_ready''" by (rule commit_needs_ready [OF assms(1,2)])
  then show False using latched.rel_holds [OF assms(1)] assms(3) by (simp add: latched_def)
qed

lemma stopped_at_step:
  assumes "control_reachable h p" "version_left p" "stopped_at active rs epoch p" "control_step h p q"
  shows "stopped_at active rs epoch q"
  using assms(4)
proof (cases rule: control_step_cases)
  case (patch d a ops x)
  then show ?thesis using assms(3) by (simp add: stopped_at_def apply_operations_fields [OF patch])
next
  case (saved t author a d d1 v p1)
  then show ?thesis
    using assms(3) by (simp add: stopped_at_def apply_operations_fields [OF saved(2)])
next
  case (revision c i r d current)
  then show ?thesis
    using no_commit_when_stopped [OF assms(1,2)] assms(3) by (auto simp: stopped_at_def)
next
  case (resume c)
  then show ?thesis using assms(3) by (simp add: stopped_at_def resume_checks_def result_simps)
qed (use assms(3) in \<open>simp_all add: stopped_at_def\<close>)

interpretation stopped: stable "control_start h" "control_step h" version_left
  "stopped_at active rs epoch" for h active rs epoch
  by unfold_locales (rule version_left_step, assumption+, rule stopped_at_step)

subsection \<open>Stored receipts\<close>

definition stored_command :: "string \<Rightarrow> string \<times> receipt \<Rightarrow> control_plane \<Rightarrow> bool" where
  "stored_command k e p \<longleftrightarrow> bt_get (cp_commands p) k = Some e"

lemma stored_command_step:
  assumes "stored_command k e p" "control_step h p q"
  shows "stored_command k e q"
  using assms(2)
proof (cases rule: control_step_cases)
  case (patch d a ops x)
  then show ?thesis using assms(1) by (simp add: stored_command_def apply_operations_fields [OF patch])
next
  case (saved t author a d d1 v p1)
  then show ?thesis
    using assms(1) by (simp add: stored_command_def apply_operations_fields [OF saved(2)])
qed (use assms(1) in \<open>auto simp: stored_command_def\<close>)

interpretation stored: stable "control_start h" "control_step h" "\<lambda>_. True" "stored_command k e" for h k e
  by unfold_locales (rule TrueI, rule stored_command_step)

text \<open>A command that succeeds leaves its receipt under its key.\<close>

definition ran :: "host \<Rightarrow> command \<Rightarrow> control_plane \<Rightarrow> receipt \<Rightarrow> control_plane \<Rightarrow> bool" where
  "ran h c p r q \<longleftrightarrow> pause h c p = (Inr r, q) \<or> commit h c p = (Inr r, q) \<or> resume h c p = (Inr r, q)"

lemma commit_effect_cases:
  "commit_effect h c (i, v, d, current) p =
     (if same_configuration d current then commit_no_change h c i p else commit_revision h c i v d p)"
  by (simp add: commit_effect_def)

lemma run_command_stored:
  assumes "run_command (admit h c p checks) effect p = (Inr r, q)" "to_vec h (command_doc c) = Some bs"
    and "\<And>x. checks = Inr x \<Longrightarrow> cp_commands (snd (effect x p)) =
       bt_insert (cm_idempotency_key c) (digest h bs, fst (effect x p)) (cp_commands p)"
  shows "stored_command (cm_idempotency_key c) (digest h bs, r) q"
  using assms(1)
proof (cases rule: run_command_cases)
  case (replay r')
  then show ?thesis
    using assms(2) by (auto simp: idempotent_result_def stored_command_def result_simps
        split: option.splits if_splits)
next
  case (fresh x)
  then show ?thesis using assms(3) [of x] by (simp add: stored_command_def)
qed simp

lemma ran_stored:
  assumes "ran h c p r q" "to_vec h (command_doc c) = Some bs"
  shows "stored_command (cm_idempotency_key c) (digest h bs, r) q"
proof -
  from assms(1) consider "pause h c p = (Inr r, q)" | "commit h c p = (Inr r, q)"
    | "resume h c p = (Inr r, q)"
    by (auto simp: ran_def)
  then show ?thesis
  proof cases
    case 1
    show ?thesis
      by (rule run_command_stored [OF 1 [unfolded pause_def] assms(2)]) (simp add: assms(2))
  next
    case 2
    have "cp_commands (snd (commit_effect h c x p)) =
       bt_insert (cm_idempotency_key c) (digest h bs, fst (commit_effect h c x p)) (cp_commands p)" for x
      by (cases x) (simp add: commit_effect_cases assms(2))
    then show ?thesis by (rule run_command_stored [OF 2 [unfolded commit_def] assms(2)])
  next
    case 3
    show ?thesis
      by (rule run_command_stored [OF 3 [unfolded resume_def] assms(2)]) (simp add: assms(2))
  qed
qed

lemma stored_later:
  assumes "control_reachable h p" "ran h c p r q" "to_vec h (command_doc c) = Some bs"
    and "control_steps h q q'"
  shows "stored_command (cm_idempotency_key c) (digest h bs, r) q'"
proof -
  have "control_step h p q"
    using assms(2) control_step.pause [of h p c] control_step.commit [of h p c]
      control_step.resume [of h p c] by (auto simp: ran_def)
  then have "control_reachable h q" by (rule reach.step [OF assms(1)])
  then show ?thesis
    by (rule stored.kept_steps [OF assms(4) _ TrueI ran_stored [OF assms(2,3)]])
qed

definition conflicting_key :: control_error where
  "conflicting_key = control_error ''idempotency_conflict''
     ''idempotency key was reused with a different command''"

lemma stored_replays:
  assumes "stored_command (cm_idempotency_key c) (digest h bs, r) q" "cp_enabled q"
    and "to_vec h (command_doc c) = Some bs"
  shows "run_command (admit h c q checks) effect q = (Inr r, q)"
  using assms
  by (simp add: run_command_def admit_def require_enabled_def idempotent_result_def
      stored_command_def)

lemma stored_conflicts:
  assumes "stored_command (cm_idempotency_key c) (s, r) q" "cp_enabled q"
    and "to_vec h (command_doc c) = Some bs" "digest h bs \<noteq> s"
  shows "run_command (admit h c q checks) effect q =
    (Inl (control_error ''idempotency_conflict''
       ''idempotency key was reused with a different command''), q)"
  using assms
  by (simp add: run_command_def admit_def require_enabled_def idempotent_result_def
      stored_command_def)


subsection \<open>Retired plan epochs\<close>

definition epoch_past :: "u64 \<Rightarrow> control_plane \<Rightarrow> bool" where
  "epoch_past n p \<longleftrightarrow> n < st_plan_epoch (cp_state p)"

lemma plan_epoch_mono:
  assumes "control_step h p q"
  shows "st_plan_epoch (cp_state p) \<le> st_plan_epoch (cp_state q)"
  using assms
proof (cases rule: control_step_cases)
  case (patch d a ops x)
  then show ?thesis by (simp add: apply_operations_fields [OF patch])
next
  case (saved t author a d d1 v p1)
  then show ?thesis by (simp add: apply_operations_fields [OF saved(2)])
qed simp_all

interpretation epochs: stable "control_start h" "control_step h" "\<lambda>_. True" "epoch_past n" for h n
  by unfold_locales (rule TrueI, auto simp: epoch_past_def dest: plan_epoch_mono)

subsection \<open>An approved continuation that has expired\<close>

definition counters_left :: "control_plane \<Rightarrow> bool" where
  "counters_left p \<longleftrightarrow> version_left p \<and> ids_left p"

text \<open>The run is held by a continuation that \<open>resume\<close> refuses, and no preview can be approved.\<close>

definition lapsed :: "string \<Rightarrow> control_plane \<Rightarrow> bool" where
  "lapsed i p \<longleftrightarrow>
     cp_continuation_preview_id p = Some i
     \<and> (\<exists>r. bt_get (cp_previews p) i = Some r \<and> prr_consumed r
          \<and> time_passed (pv_expires_at (prr_preview r)) (cp_now p))
     \<and> st_status (cp_state p) \<noteq> ''paused_ready'' \<and> st_pause_latched (cp_state p)"

lemma time_passed_later: "time_passed t now \<Longrightarrow> now \<le> now' \<Longrightarrow> time_passed t now'"
  by (auto simp: time_passed_def)

lemma lapsed_no_resume: "lapsed i p \<Longrightarrow> resume_checks c p \<noteq> Inr u"
  by (auto simp: lapsed_def resume_checks_def continuation_current_def result_simps)

lemma lapsed_no_commit:
  "control_reachable h p \<Longrightarrow> version_left p \<Longrightarrow> lapsed i p \<Longrightarrow> commit_checks c p \<noteq> Inr t"
  using commit_needs_ready [of h p c t] by (auto simp: lapsed_def)

lemma lapsed_step:
  assumes "control_reachable h p" "counters_left p" "lapsed i p" "control_step h p q"
  shows "lapsed i q"
proof -
  note no = lapsed_no_resume [OF assms(3)] lapsed_no_commit [OF assms(1) _ assms(3)]
  have l: "version_left p" "ids_left p" using assms(2) by (auto simp: counters_left_def)
  obtain r where r: "bt_get (cp_previews p) i = Some r" "prr_consumed r"
    "time_passed (pv_expires_at (prr_preview r)) (cp_now p)"
    "cp_continuation_preview_id p = Some i" "st_status (cp_state p) \<noteq> ''paused_ready''"
    "st_pause_latched (cp_state p)"
    using assms(3) by (auto simp: lapsed_def)
  show ?thesis
    using assms(4)
  proof (cases rule: control_step_cases)
    case (patch d a ops x)
    then show ?thesis using r by (simp add: lapsed_def apply_operations_fields [OF patch])
  next
    case (saved t author a d d1 v p1)
    then show ?thesis using r by (simp add: lapsed_def apply_operations_fields [OF saved(2)])
  next
    case (preview s j dv requested cv ack d)
    have "i \<noteq> numbered ''preview'' (cp_next_id p)"
      by (rule preview_key_known [OF fresh_ids.holds [OF assms(1)] l(2) r(1)])
    then show ?thesis
      using r by (rule_tac build_preview_record [of h s j d requested ack p]) (simp add: lapsed_def preview(2))
  next
    case (time seconds)
    then show ?thesis using r time_passed_later [OF r(3) sat_add_ge] by (simp add: lapsed_def)
  next
    case (pause c)
    then show ?thesis using r by (simp add: pause_checks_def result_simps)
  next
    case (no_change c j r d current)
    then show ?thesis using no(2) l by blast
  next
    case (revision c j r d current)
    then show ?thesis using no(2) l by blast
  next
    case (resume c)
    then show ?thesis using no(1) by blast
  qed (use r in \<open>simp_all add: lapsed_def\<close>)
qed

lemma counters_left_step: "control_step h p q \<Longrightarrow> counters_left q \<Longrightarrow> counters_left p"
  by (auto simp: counters_left_def dest: version_left_step ids_left_step)

interpretation lapse: stable "control_start h" "control_step h" counters_left "lapsed i" for h i
  by unfold_locales (rule counters_left_step, assumption+, rule lapsed_step)

subsection \<open>What a new commit and a new resume did\<close>

lemma fresh_commit:
  assumes "commit h c p = (Inr r, q)" "bt_get (cp_commands p) (cm_idempotency_key c) = None"
  obtains i v d current where "commit_checks c p = Inr (i, v, d, current)"
    "r = fst (commit_effect h c (i, v, d, current) p)" "q = snd (commit_effect h c (i, v, d, current) p)"
  using assms(1) unfolding commit_def
proof (cases rule: run_command_cases)
  case (replay r')
  then show ?thesis using assms(2) by (auto simp: idempotent_result_def result_simps split: option.splits)
next
  case (fresh x)
  then show ?thesis by (cases x) (auto intro: that)
qed simp

lemma fresh_resume:
  assumes "resume h c p = (Inr r, q)" "bt_get (cp_commands p) (cm_idempotency_key c) = None"
  shows "resume_checks c p = Inr () \<and> r = fst (resume_effect h c () p) \<and> q = snd (resume_effect h c () p)"
  using assms(1) unfolding resume_def
proof (cases rule: run_command_cases)
  case (replay r')
  then show ?thesis using assms(2) by (auto simp: idempotent_result_def result_simps split: option.splits)
qed simp_all

lemma commit_receipt_effect:
  "rc_effect (fst (commit_effect h c (i, v, d, current) p)) =
     (if same_configuration d current then ''no_change'' else ''revision_committed'')"
  by (simp add: commit_effect_cases commit_no_change_def commit_revision_def make_receipt_def
      Let_def split_beta)


subsection \<open>The command window\<close>

definition window :: "control_plane \<Rightarrow> string \<times> string" where
  "window p = (st_command_window_id (cp_state p), st_command_window_expires_at (cp_state p))"

lemma window_helpers [simp]:
  "st_command_window_id (cp_state (record_event ty ci pi ri rc p)) = st_command_window_id (cp_state p)"
  "st_command_window_expires_at (cp_state (record_event ty ci pi ri rc p)) = st_command_window_expires_at (cp_state p)"
  "st_command_window_id (cp_state (sync_boundary p)) = st_command_window_id (cp_state p)"
  "st_command_window_expires_at (cp_state (sync_boundary p)) = st_command_window_expires_at (cp_state p)"
  "st_command_window_id (cp_state (set_status s p)) = st_command_window_id (cp_state p)"
  "st_command_window_expires_at (cp_state (set_status s p)) = st_command_window_expires_at (cp_state p)"
  "st_command_window_id (cp_state (bump_gate p)) = st_command_window_id (cp_state p)"
  "st_command_window_expires_at (cp_state (bump_gate p)) = st_command_window_expires_at (cp_state p)"
  "st_command_window_id (cp_state (save_command h c r p)) = st_command_window_id (cp_state p)"
  "st_command_window_expires_at (cp_state (save_command h c r p)) = st_command_window_expires_at (cp_state p)"
  "st_command_window_id (cp_state (consume i p)) = st_command_window_id (cp_state p)"
  "st_command_window_expires_at (cp_state (consume i p)) = st_command_window_expires_at (cp_state p)"
  "st_command_window_id (cp_state (snd (make_receipt c e rc p))) = st_command_window_id (cp_state p)"
  "st_command_window_expires_at (cp_state (snd (make_receipt c e rc p))) = st_command_window_expires_at (cp_state p)"
  "st_command_window_id (cp_state (snd (fresh_id s p))) = st_command_window_id (cp_state p)"
  "st_command_window_expires_at (cp_state (snd (fresh_id s p))) = st_command_window_expires_at (cp_state p)"
  by (simp_all add: record_event_def fresh_id_def sync_boundary_def set_status_def
      bump_gate_def save_command_def consume_def make_receipt_def Let_def split_beta)

lemma window_effects [simp]:
  "window (snd (save_draft t author d v p)) = window p"
  "window (snd (build_preview h s j d requested ack p)) = window p"
  "window (snd (pause_effect h c u p)) = window p" "window (stop p) = window p"
  "window (snd (commit_no_change h c j p)) = window p"
  "window (snd (commit_revision h c j r d p)) = window p"
  "window (snd (resume_effect h c u p)) = window p" "window (host_changed reason b p) = window p"
  unfolding save_draft_def build_preview_def pause_effect_def stop_def commit_no_change_def
    commit_revision_def install_revision_def resume_effect_def host_changed_def id_if_def
    invalidate_previews_def invalidate_all_previews_def Let_def split_beta window_def
  by simp_all

lemma window_step:
  assumes "control_step h p q"
  shows "window q = window p"
  using assms
proof (cases rule: control_step_cases)
  case (patch d a ops x)
  then show ?thesis by (simp add: window_def apply_operations_fields [OF patch])
next
  case (saved t author a d d1 v p1)
  then show ?thesis by (simp add: saved(4)) (simp add: window_def apply_operations_fields [OF saved(2)])
next
  case (draft active author)
  then show ?thesis by (simp add: window_def)
next
  case (time seconds)
  then show ?thesis by (simp add: window_def)
next
  case (switch ty rc b)
  then show ?thesis by (simp add: window_def)
qed simp_all

lemma window_steps: "control_steps h p q \<Longrightarrow> window q = window p"
  by (induction rule: rtranclp_induct) (simp_all add: window_step)

lemma now_mono:
  assumes "control_step h p q"
  shows "cp_now p \<le> cp_now q"
  using assms
proof (cases rule: control_step_cases)
  case (patch d a ops x)
  then show ?thesis by (simp add: apply_operations_fields [OF patch])
next
  case (saved t author a d d1 v p1)
  then show ?thesis by (simp add: apply_operations_fields [OF saved(2)])
qed simp_all

text \<open>The window closed at or before the plane's clock.\<close>

definition window_closed :: "control_plane \<Rightarrow> bool" where
  "window_closed p \<longleftrightarrow> (\<exists>s. snd (window p) = format_time s \<and> s \<le> cp_now p)"

lemma window_closed_guard: "window_closed p \<Longrightarrow> command_guard c kind er ep p \<noteq> Inr u"
  by (auto simp: window_closed_def window_def command_guard_def result_simps)

interpretation closed_window: stable "control_start h" "control_step h" "\<lambda>_. True" window_closed for h
  by unfold_locales (rule TrueI, metis window_closed_def window_step now_mono order_trans)

end
