(* ===== verification/Control_Runs.thy ===== *)
theory Control_Runs
  imports Control_Commands
begin

text \<open>
  A concrete run of the control plane: a host whose digest pads to 32 bytes and whose encoder
  keeps the \<open>kind\<close> of a document, and the planes after a pause, a draft with one note, an
  approved preview, its commit, and either the resume or the expiry of the continuation.
\<close>

definition toy_bytes :: "doc \<Rightarrow> bytes" where
  "toy_bytes d = (case d of
     DObj fs \<Rightarrow> (case map_of fs ''kind'' of Some (DStr s) \<Rightarrow> s | _ \<Rightarrow> [])
   | _ \<Rightarrow> [])"

definition toy_host :: host where
  "toy_host = \<lparr>sha256 = \<lambda>bs. take 32 (bs @ replicate 32 (CHR ''0'')), to_vec = \<lambda>d. Some (toy_bytes d)\<rparr>"

definition toy_scope :: scope where
  "toy_scope = \<lparr>sc_project_id = ''p'', sc_run_id = ''r'', sc_episode_id = ''e'', sc_agent_id = ''a''\<rparr>"

lemma toy_host_simps [simp]:
  "to_vec toy_host d = Some (toy_bytes d)" "digest_ok toy_host"
  by (auto simp: toy_host_def digest_ok_def min_def)

lemma toy_bytes_command [simp]: "toy_bytes (command_doc c) = cm_kind c"
  by (simp add: toy_bytes_def command_doc_def)

definition toy_command :: "string \<Rightarrow> u64 \<Rightarrow> string \<Rightarrow> command" where
  "toy_command k version kind =
     \<lparr>cm_schema = COMMAND_SCHEMA, cm_scope = toy_scope, cm_idempotency_key = k,
      cm_command_window_id = ''window-1'', cm_expected_control_version = version,
      cm_kind = kind, cm_expected_active_revision_id = None, cm_preview_id = None,
      cm_approved_manifest_sha256 = None, cm_expected_preview_id = None\<rparr>"

lemma toy_ids [simp]: "valid_id ''k1''" "valid_id ''k2''" "valid_id ''k3''" "valid_id ''n1''"
  "valid_id ''window-1''" "valid_id ''author''"
  by code_simp+

definition toy_plane :: control_plane where
  "toy_plane = control_new toy_host toy_scope True 0"

definition pause_command :: command where
  "pause_command = toy_command ''k1'' 0 ''pause''"

definition paused_plane :: control_plane where
  "paused_plane = snd (pause toy_host pause_command toy_plane)"

text \<open>The number of identifiers that the operations take.\<close>

lemma next_id_event:
  "unat (cp_next_id p) \<le> n \<Longrightarrow> unat (cp_next_id (record_event ty ci pi ri rc p)) \<le> Suc n"
  by (simp add: record_event_next_id unat_sat_add min.coboundedI1)

lemma next_id_event_weak:
  "unat (cp_next_id p) \<le> n \<Longrightarrow> unat (cp_next_id p) \<le> Suc n"
  by simp

lemma next_id_taken: "unat x \<le> n \<Longrightarrow> unat (sat_add x 1) \<le> Suc n"
  by (simp add: unat_sat_add min.coboundedI1)

lemma next_id_bounds:
  "unat (cp_next_id (snd (pause_effect h c u p))) \<le> Suc (Suc (Suc (unat (cp_next_id p))))"
  "unat (cp_next_id (snd (save_draft t author d v p))) \<le> Suc (unat (cp_next_id p))"
  "unat (cp_next_id (snd (build_preview h s i d requested ack p))) \<le>
     Suc (Suc (Suc (Suc (unat (cp_next_id p)))))"
  "unat (cp_next_id (snd (commit_revision h c i r d p))) \<le>
     Suc (Suc (Suc (Suc (Suc (Suc (unat (cp_next_id p)))))))"
  unfolding pause_effect_def save_draft_def build_preview_def commit_revision_def id_if_def
    install_revision_def invalidate_previews_def Let_def split_beta
  by (auto intro!: next_id_event next_id_taken intro: next_id_event_weak le_SucI)

lemma toy_plane_fields [simp]:
  "cp_scope toy_plane = toy_scope" "cp_enabled toy_plane = True" "cp_now toy_plane = 0"
  "cp_boundary toy_plane = initial_boundary toy_host toy_scope"
  "cp_state toy_plane = initial_state toy_scope (initial_boundary toy_host toy_scope) 0"
  "cp_drafts toy_plane = bt_empty"
  "cp_revisions toy_plane = bt_insert ''revision-1'' (bootstrap_revision toy_host toy_scope 0) bt_empty"
  "cp_previews toy_plane = bt_empty" "cp_commands toy_plane = bt_empty"
  "cp_next_id toy_plane = 1" "cp_continuation_preview_id toy_plane = None"
  by (simp_all add: toy_plane_def control_new_fields)

lemma window_open [simp]: "sat_add 0 3600 = (3600 :: u64)" "sat_add 0 120 = (120 :: u64)"
  "sat_add 0 1 = (1 :: u64)" "sat_add 1 1 = (2 :: u64)" "sat_add 0 121 = (121 :: u64)"
  by (simp_all add: word_unat_eq_iff unat_sat_add)

lemma pause_toy: "pause toy_host pause_command toy_plane =
    (Inr (fst (pause_effect toy_host pause_command () toy_plane)),
     snd (pause_effect toy_host pause_command () toy_plane))"
proof -
  have "pause_checks pause_command toy_plane = Inr ()"
    by (simp add: pause_checks_def command_guard_def pause_command_def toy_command_def check_scope_def
        initial_state_def)
  then have "admit toy_host pause_command toy_plane (pause_checks pause_command toy_plane) = Inr (Fresh ())"
    by (simp add: admit_def require_enabled_def idempotent_result_def)
  then show ?thesis by (simp add: pause_def run_command_def split_beta)
qed

lemma paused_plane_effect: "paused_plane = snd (pause_effect toy_host pause_command () toy_plane)"
  by (simp add: paused_plane_def pause_toy)

lemma paused_plane_fields [simp]:
  "cp_scope paused_plane = toy_scope" "cp_enabled paused_plane = True" "cp_now paused_plane = 0"
  "cp_boundary paused_plane = (initial_boundary toy_host toy_scope)\<lparr>bd_control_version := 1,
     bd_controller_epoch := 1, bd_gate_epoch := 1\<rparr>"
  "cp_items paused_plane = cp_items toy_plane"
  "cp_latest_versions paused_plane = cp_latest_versions toy_plane"
  "cp_drafts paused_plane = bt_empty" "cp_previews paused_plane = bt_empty"
  "cp_revisions paused_plane = cp_revisions toy_plane"
  "bt_get (cp_commands paused_plane) k =
     (if k = ''k1'' then Some (digest toy_host ''pause'', fst (pause_effect toy_host pause_command () toy_plane))
      else None)"
  "cp_continuation_preview_id paused_plane = None"
  "st_status (cp_state paused_plane) = ''paused_ready''"
  "st_control_version (cp_state paused_plane) = 1"
  "st_active_revision_id (cp_state paused_plane) = ''revision-1''"
  "st_pause_latched (cp_state paused_plane)"
  "\<not> st_stop_latched (cp_state paused_plane)"
  "st_unresolved_operations (cp_state paused_plane) = []"
  "st_outstanding_provider_attempts (cp_state paused_plane) = []"
  "st_plan_epoch (cp_state paused_plane) = 1"
  by (simp_all add: paused_plane_effect pause_command_def toy_command_def initial_state_def
      quiescent_def)

lemma paused_plane_next_id: "unat (cp_next_id paused_plane) \<le> 4"
  using next_id_bounds(1) [of toy_host pause_command "()" toy_plane] by (simp add: paused_plane_effect)


subsection \<open>A draft with a note\<close>

definition toy_draft_id :: string where
  "toy_draft_id = numbered ''draft'' (cp_next_id paused_plane)"

definition toy_draft :: draft where
  "toy_draft = new_draft paused_plane toy_draft_id toy_scope ''revision-1'' ''author''"

definition drafted_plane :: control_plane where
  "drafted_plane = snd (create_draft toy_scope ''revision-1'' ''author'' paused_plane)"

lemma create_draft_toy: "create_draft toy_scope ''revision-1'' ''author'' paused_plane =
  (Inr toy_draft, record_event ''draft.updated'' None None None (Some ''draft_created'')
     (paused_plane\<lparr>cp_next_id := sat_add (cp_next_id paused_plane) 1,
        cp_drafts := bt_insert toy_draft_id toy_draft bt_empty\<rparr>))"
  by (simp add: create_draft_def require_enabled_def check_scope_def check_active_revision_def
      fresh_id_def Let_def toy_draft_def toy_draft_id_def new_draft_def)

lemma drafted_plane_fields [simp]:
  "cp_scope drafted_plane = toy_scope" "cp_enabled drafted_plane = True" "cp_now drafted_plane = 0"
  "cp_boundary drafted_plane = cp_boundary paused_plane"
  "cp_items drafted_plane = cp_items toy_plane"
  "cp_latest_versions drafted_plane = cp_latest_versions toy_plane"
  "cp_drafts drafted_plane = bt_insert toy_draft_id toy_draft bt_empty"
  "cp_previews drafted_plane = bt_empty" "cp_revisions drafted_plane = cp_revisions toy_plane"
  "cp_commands drafted_plane = cp_commands paused_plane"
  "cp_continuation_preview_id drafted_plane = None"
  "st_status (cp_state drafted_plane) = ''paused_ready''"
  "st_control_version (cp_state drafted_plane) = 1"
  "st_active_revision_id (cp_state drafted_plane) = ''revision-1''"
  "st_pause_latched (cp_state drafted_plane)" "\<not> st_stop_latched (cp_state drafted_plane)"
  "st_unresolved_operations (cp_state drafted_plane) = []"
  "st_outstanding_provider_attempts (cp_state drafted_plane) = []"
  "st_plan_epoch (cp_state drafted_plane) = 1"
  by (simp_all add: drafted_plane_def create_draft_toy)

definition note_patch :: patch where
  "note_patch = \<lparr>pt_schema = PATCH_SCHEMA, pt_scope = toy_scope, pt_draft_id = toy_draft_id,
     pt_expected_draft_version = 1, pt_expected_active_revision_id = ''revision-1'',
     pt_operations = [PutNote ''n1'' None ''hi'' (format_time 3600)]\<rparr>"

lemma note_patch_draft [simp]: "pt_draft_id note_patch = toy_draft_id"
  by (simp add: note_patch_def)

definition noted_plane :: control_plane where
  "noted_plane = snd (apply_patch toy_host note_patch ''author'' False drafted_plane)"

definition note_item :: item_ref where
  "note_item = make_item_ref toy_host ''n1'' 1 ''hi''"

definition noted_draft :: draft where
  "noted_draft = toy_draft\<lparr>dr_version := 2, dr_note_items := [note_item],
     dr_selected_items := [note_item]\<rparr>"

definition registered_plane :: control_plane where
  "registered_plane = insert_item toy_host ''n1'' 1 ''note'' False ''hi'' 3600 None drafted_plane"

lemma toy_draft_fields [simp]:
  "dr_version toy_draft = 1" "dr_scope toy_draft = toy_scope" "dr_selected_items toy_draft = []"
  "dr_note_items toy_draft = []" "dr_pinned_item_ids toy_draft = []"
  "dr_objective_item toy_draft = None" "dr_expires_at toy_draft = format_time 3600"
  "dr_author_ref toy_draft = ''author''" "dr_base_revision_id toy_draft = ''revision-1''"
  by (simp_all add: toy_draft_def new_draft_def)

lemma toy_registry:
  "bt_get (cp_items toy_plane) k = Some r \<Longrightarrow> fst k \<noteq> ''n1'' \<and> ir_item_id (it_item r) = fst k"
  "bt_get (cp_latest_versions toy_plane) ''n1'' = None"
  by (auto simp: toy_plane_def control_new_def seed_items_def insert_item_def make_item_ref_def Let_def
      split: if_splits)

lemma note_patched:
  "apply_operations toy_host False toy_draft (pt_operations note_patch) drafted_plane =
     (Inr (toy_draft\<lparr>dr_note_items := [note_item], dr_selected_items := [note_item]\<rparr>), registered_plane)"
proof -
  have "\<not> list_ex (\<lambda>r. ir_item_id (it_item r) = ''n1'' \<and> it_protected r) (bt_values (cp_items toy_plane))"
    using toy_registry(1) by (fastforce simp: list_ex_iff bt_values_iff)
  then have "put_note_checks drafted_plane toy_draft ''n1'' None ''hi'' (format_time 3600) = Inr (1, 3600)"
    by (simp add: put_note_checks_def MAX_NOTE_BYTES_def note_version_def toy_registry(2) MAX_NOTES_def
        note_bytes_after_def MAX_TOTAL_NOTE_BYTES_def Let_def)
  then show ?thesis
    by (simp add: note_patch_def apply_operation_def put_note_def insert_item_def Let_def note_item_def
        registered_plane_def drop_ref_def)
qed

text \<open>A patch whose first operation succeeds and whose second fails.\<close>

definition torn_patch :: patch where
  "torn_patch = note_patch\<lparr>pt_operations :=
     pt_operations note_patch @ [PutNote ''n1'' (Some 1) [] (format_time 3600)]\<rparr>"

lemma torn_patch_fails:
  "apply_patch toy_host torn_patch ''author'' False drafted_plane =
     (Inl (control_error ''note_bounds'' ''note is outside its UTF-8 bound''), registered_plane)"
proof -
  have "patch_admitted torn_patch ''author'' drafted_plane = Inr toy_draft"
    by (simp add: patch_admitted_def torn_patch_def note_patch_def require_enabled_def MAX_OPERATIONS_def
        check_scope_def check_active_revision_def get_draft_def time_passed_def is_restore_def)
  moreover have "apply_operations toy_host False toy_draft (pt_operations torn_patch) drafted_plane =
      (Inl (control_error ''note_bounds'' ''note is outside its UTF-8 bound''), registered_plane)"
    using note_patched
    by (auto simp: torn_patch_def note_patch_def apply_operation_def put_note_def put_note_checks_def
        ensure_def split: prod.splits sum.splits)
  moreover have "checked_add 1 1 = Some (2 :: u64)" by (simp add: checked_add_def)
  ultimately show ?thesis by (simp add: apply_patch_def)
qed

lemma unregistered_note: "bt_get (cp_items drafted_plane) (''n1'', 1) = None"
proof (rule ccontr)
  assume "bt_get (cp_items drafted_plane) (''n1'', 1) \<noteq> None"
  then obtain r where "bt_get (cp_items toy_plane) (''n1'', 1) = Some r"
    by auto
  from toy_registry(1) [OF this] show False by simp
qed

lemma apply_patch_toy: "apply_patch toy_host note_patch ''author'' False drafted_plane =
    save_draft note_patch ''author''
      (toy_draft\<lparr>dr_note_items := [note_item], dr_selected_items := [note_item]\<rparr>) 2 registered_plane"
proof -
  have "patch_admitted note_patch ''author'' drafted_plane = Inr toy_draft"
    by (simp add: patch_admitted_def note_patch_def require_enabled_def MAX_OPERATIONS_def check_scope_def
        check_active_revision_def get_draft_def time_passed_def is_restore_def)
  moreover have "checked_add 1 1 = Some (2 :: u64)" by (simp add: checked_add_def)
  ultimately show ?thesis by (simp add: apply_patch_def note_patched)
qed

lemma registered_plane_fields [simp]:
  "cp_scope registered_plane = toy_scope" "cp_enabled registered_plane = True" "cp_now registered_plane = 0"
  "cp_boundary registered_plane = cp_boundary paused_plane"
  "bt_get (cp_items registered_plane) (''n1'', 1) = Some \<lparr>it_item = note_item, it_kind = ''note'',
     it_protected = False, it_scope = toy_scope, it_content = ''hi'', it_expires_at = 3600,
     it_expires_text = format_time 3600, it_locked_reason = None\<rparr>"
  "cp_drafts registered_plane = bt_insert toy_draft_id toy_draft bt_empty"
  "cp_previews registered_plane = bt_empty" "cp_revisions registered_plane = cp_revisions toy_plane"
  "cp_commands registered_plane = cp_commands paused_plane"
  "cp_continuation_preview_id registered_plane = None"
  "cp_next_id registered_plane = cp_next_id drafted_plane"
  "cp_state registered_plane = cp_state drafted_plane"
  by (simp_all add: registered_plane_def insert_item_def note_item_def)

lemma noted_plane_fields [simp]:
  "cp_scope noted_plane = toy_scope" "cp_enabled noted_plane = True" "cp_now noted_plane = 0"
  "cp_boundary noted_plane = cp_boundary paused_plane"
  "cp_items noted_plane = cp_items registered_plane"
  "bt_get (cp_drafts noted_plane) toy_draft_id = Some noted_draft"
  "cp_previews noted_plane = bt_empty" "cp_revisions noted_plane = cp_revisions toy_plane"
  "cp_commands noted_plane = cp_commands paused_plane"
  "cp_continuation_preview_id noted_plane = None"
  "st_status (cp_state noted_plane) = ''paused_ready''"
  "st_control_version (cp_state noted_plane) = 1"
  "st_active_revision_id (cp_state noted_plane) = ''revision-1''"
  "st_pause_latched (cp_state noted_plane)" "\<not> st_stop_latched (cp_state noted_plane)"
  "st_unresolved_operations (cp_state noted_plane) = []"
  "st_outstanding_provider_attempts (cp_state noted_plane) = []"
  "st_plan_epoch (cp_state noted_plane) = 1"
  by (simp_all add: noted_plane_def apply_patch_toy noted_draft_def toy_draft_def new_draft_def bt_eqI)

lemma noted_plane_next_id: "unat (cp_next_id noted_plane) \<le> 7"
proof -
  have "unat (cp_next_id drafted_plane) \<le> Suc (Suc 4)"
    unfolding drafted_plane_def create_draft_toy
    by (simp only: snd_conv, intro next_id_event) (use next_id_taken [OF paused_plane_next_id] in simp)
  moreover have "unat (cp_next_id noted_plane) \<le> Suc (unat (cp_next_id registered_plane))"
    unfolding noted_plane_def apply_patch_toy by (rule next_id_bounds(2))
  ultimately show ?thesis by simp
qed


subsection \<open>An approved preview and its commit\<close>

definition previewed_plane :: control_plane where
  "previewed_plane = snd (create_preview toy_host toy_scope toy_draft_id 2 True 1 True noted_plane)"

definition toy_preview_id :: string where
  "toy_preview_id = numbered ''preview'' (cp_next_id noted_plane)"

lemma preview_toy:
  "previewed_plane = snd (build_preview toy_host toy_scope toy_draft_id noted_draft True True noted_plane)"
proof -
  have "preview_admitted toy_scope toy_draft_id 2 1 noted_plane = Inr noted_draft"
    by (simp add: preview_admitted_def require_enabled_def check_scope_def get_draft_def time_passed_def
        noted_draft_def)
  then show ?thesis by (simp add: previewed_plane_def create_preview_def)
qed

lemma is_utf8_hi [simp]: "is_utf8 ''hi''"
  by code_simp

lemma note_item_fields [simp]: "ir_item_id note_item = ''n1''" "ir_version note_item = 1"
  by (simp_all add: note_item_def make_item_ref_def)

lemma render_toy:
  "render toy_host i (cp_boundary paused_plane) noted_draft (cp_items registered_plane) 0 =
     Inr \<lparr>mt_input = [], mt_schema = OUTPUT_SCHEMA, mt_configuration = [],
       mt_components = render_components toy_host i [] [], mt_manifest_sha256 = digest toy_host []\<rparr>"
  by (simp add: render_def render_selected_def render_note_def render_objective_def usable_text_def
      noted_draft_def input_doc_def configuration_doc_def manifest_doc_def toy_bytes_def)

definition toy_material :: prepared_material where
  "toy_material = \<lparr>mt_input = [], mt_schema = OUTPUT_SCHEMA, mt_configuration = [],
     mt_components = render_components toy_host toy_preview_id [] [],
     mt_manifest_sha256 = digest toy_host []\<rparr>"

lemma previewed_plane_record:
  obtains v where "cp_previews previewed_plane = bt_insert toy_preview_id
       \<lparr>prr_preview = v, prr_material = Some toy_material, prr_consumed = False\<rparr> bt_empty"
    "pv_draft_id v = toy_draft_id" "pv_boundary v = cp_boundary paused_plane" "pv_applicable v"
    "pv_prepared_manifest_sha256 v = Some (digest toy_host [])" "pv_expires_at v = format_time 120"
    "pv_preview_id v = toy_preview_id"
proof -
  have "preview_material toy_host toy_preview_id noted_draft
      (preview_blockers True True (snd (fresh_id ''preview'' noted_plane)))
      (snd (fresh_id ''preview'' noted_plane)) = Some toy_material"
    using render_toy [of toy_preview_id]
    by (simp add: preview_material_def preview_blockers_def held_def toy_material_def)
  then show ?thesis
    by (intro that [of "case fst (build_preview toy_host toy_scope toy_draft_id noted_draft True True noted_plane)
          of Inr v \<Rightarrow> v | Inl _ \<Rightarrow> undefined"])
       (simp_all add: preview_toy build_preview_def id_if_def make_preview_def held_def toy_preview_id_def
         toy_material_def Let_def split_beta)
qed


definition commit_command :: command where
  "commit_command = (toy_command ''k2'' 1 ''commit'')\<lparr>
     cm_expected_active_revision_id := Some ''revision-1'', cm_preview_id := Some toy_preview_id,
     cm_approved_manifest_sha256 := Some (digest toy_host [])\<rparr>"

definition committed_plane :: control_plane where
  "committed_plane = snd (commit toy_host commit_command previewed_plane)"

lemma previewed_plane_fields [simp]:
  "cp_scope previewed_plane = toy_scope" "cp_enabled previewed_plane = True"
  "cp_now previewed_plane = 0" "cp_boundary previewed_plane = cp_boundary paused_plane"
  "bt_get (cp_drafts previewed_plane) toy_draft_id = Some noted_draft"
  "cp_revisions previewed_plane = cp_revisions toy_plane"
  "cp_commands previewed_plane = cp_commands paused_plane"
  "cp_continuation_preview_id previewed_plane = None"
  "st_status (cp_state previewed_plane) = ''paused_ready''"
  "st_control_version (cp_state previewed_plane) = 1"
  "st_active_revision_id (cp_state previewed_plane) = ''revision-1''"
  "st_pause_latched (cp_state previewed_plane)" "\<not> st_stop_latched (cp_state previewed_plane)"
  "st_unresolved_operations (cp_state previewed_plane) = []"
  "st_outstanding_provider_attempts (cp_state previewed_plane) = []"
  "st_plan_epoch (cp_state previewed_plane) = 1"
  by (simp_all add: preview_toy)

text \<open>Every plane of the run is reached from the first one.\<close>

lemma toy_steps:
  "control_step toy_host toy_plane paused_plane" "control_step toy_host paused_plane drafted_plane"
  "control_step toy_host drafted_plane noted_plane" "control_step toy_host noted_plane previewed_plane"
  "control_step toy_host previewed_plane committed_plane"
  unfolding paused_plane_def drafted_plane_def noted_plane_def previewed_plane_def committed_plane_def
  by (rule control_step.intros)+

lemma toy_reachable:
  "control_reachable toy_host toy_plane" "control_reachable toy_host previewed_plane"
  "control_reachable toy_host committed_plane"
proof -
  show "control_reachable toy_host toy_plane"
    unfolding toy_plane_def by (rule control_new_reachable)
  from reach.step [OF reach.step [OF reach.step [OF reach.step [OF this toy_steps(1)] toy_steps(2)]
      toy_steps(3)] toy_steps(4)]
  show "control_reachable toy_host previewed_plane" .
  from reach.step [OF this toy_steps(5)] show "control_reachable toy_host committed_plane" .
qed

lemma toy_window [simp]:
  "st_command_window_id (cp_state previewed_plane) = ''window-1''"
  "st_command_window_expires_at (cp_state previewed_plane) = format_time 3600"
proof -
  have "window previewed_plane = window toy_plane" using toy_steps(1-4) by (simp add: window_step)
  then show "st_command_window_id (cp_state previewed_plane) = ''window-1''"
    "st_command_window_expires_at (cp_state previewed_plane) = format_time 3600"
    by (simp_all add: window_def initial_state_def)
qed

lemma commit_toy:
  obtains v where "commit toy_host commit_command previewed_plane =
     (Inr (fst (commit_revision toy_host commit_command toy_preview_id v noted_draft previewed_plane)),
      snd (commit_revision toy_host commit_command toy_preview_id v noted_draft previewed_plane))"
    "bt_get (cp_previews previewed_plane) toy_preview_id = Some v"
    "prr_material v = Some toy_material" "pv_expires_at (prr_preview v) = format_time 120"
    "pv_boundary (prr_preview v) = cp_boundary paused_plane"
proof -
  obtain w where w: "cp_previews previewed_plane = bt_insert toy_preview_id
       \<lparr>prr_preview = w, prr_material = Some toy_material, prr_consumed = False\<rparr> bt_empty"
    "pv_draft_id w = toy_draft_id" "pv_boundary w = cp_boundary paused_plane" "pv_applicable w"
    "pv_prepared_manifest_sha256 w = Some (digest toy_host [])" "pv_expires_at w = format_time 120"
    by (rule previewed_plane_record)
  let ?v = "\<lparr>prr_preview = w, prr_material = Some toy_material, prr_consumed = False\<rparr>"
  let ?t = "(toy_preview_id, ?v, noted_draft, bootstrap_revision toy_host toy_scope 0)"
  have "command_guard commit_command ''commit'' (Some ''revision-1'') (Some toy_preview_id) previewed_plane
      = Inr ()"
    by (simp add: command_guard_def commit_command_def toy_command_def check_scope_def)
  then have c: "commit_checks commit_command previewed_plane = Inr ?t"
    using w by (simp add: commit_checks_def commit_command_def quiescent_def preview_fresh_def
        time_passed_def get_draft_def)
  have "bt_get (cp_commands previewed_plane) (cm_idempotency_key commit_command) = None"
    by (simp add: commit_command_def toy_command_def)
  then have "admit toy_host commit_command previewed_plane (commit_checks commit_command previewed_plane)
      = Inr (Fresh ?t)"
    by (simp add: admit_def require_enabled_def idempotent_result_def c)
  moreover have "\<not> same_configuration noted_draft (bootstrap_revision toy_host toy_scope 0)"
    by (simp add: same_configuration_def noted_draft_def bootstrap_revision_def)
  ultimately show ?thesis
    using w by (intro that [of ?v])
      (simp_all add: commit_def run_command_def commit_effect_cases split_beta)
qed


lemma committed_plane_fields [simp]:
  "cp_scope committed_plane = toy_scope" "cp_enabled committed_plane = True"
  "cp_now committed_plane = 0" "cp_continuation_preview_id committed_plane = Some toy_preview_id"
  "cp_prepared_input committed_plane = Some []"
  "cp_boundary committed_plane = (cp_boundary paused_plane)\<lparr>bd_control_version := 2\<rparr>"
  "st_status (cp_state committed_plane) = ''paused_committed''"
  "st_control_version (cp_state committed_plane) = 2"
  "st_plan_epoch (cp_state committed_plane) = 2"
  "st_pause_latched (cp_state committed_plane)" "\<not> st_stop_latched (cp_state committed_plane)"
  "st_unresolved_operations (cp_state committed_plane) = []"
  "st_outstanding_provider_attempts (cp_state committed_plane) = []"
  "st_command_window_id (cp_state committed_plane) = ''window-1''"
  "st_command_window_expires_at (cp_state committed_plane) = format_time 3600"
  "st_active_revision_id (cp_state committed_plane) = numbered ''revision'' (cp_next_id previewed_plane)"
  "\<exists>e. bt_get (cp_commands committed_plane) k =
     (if k = ''k2'' then Some e else bt_get (cp_commands paused_plane) k)"
proof -
  obtain v where v: "committed_plane =
      snd (commit_revision toy_host commit_command toy_preview_id v noted_draft previewed_plane)"
    "prr_material v = Some toy_material"
    by (rule commit_toy) (simp add: committed_plane_def)
  have epochs: "st_controller_epoch (cp_state previewed_plane) = 1" "st_gate_epoch (cp_state previewed_plane) = 1"
    using synced.holds [OF toy_reachable(2)] by (simp_all add: synced_def)
  show "cp_scope committed_plane = toy_scope" "cp_enabled committed_plane = True"
    "cp_now committed_plane = 0" "cp_continuation_preview_id committed_plane = Some toy_preview_id"
    "cp_prepared_input committed_plane = Some []"
    "cp_boundary committed_plane = (cp_boundary paused_plane)\<lparr>bd_control_version := 2\<rparr>"
    "st_status (cp_state committed_plane) = ''paused_committed''"
    "st_control_version (cp_state committed_plane) = 2"
    "st_plan_epoch (cp_state committed_plane) = 2"
    "st_pause_latched (cp_state committed_plane)" "\<not> st_stop_latched (cp_state committed_plane)"
    "st_unresolved_operations (cp_state committed_plane) = []"
    "st_outstanding_provider_attempts (cp_state committed_plane) = []"
    "st_active_revision_id (cp_state committed_plane) = numbered ''revision'' (cp_next_id previewed_plane)"
    "\<exists>e. bt_get (cp_commands committed_plane) k =
       (if k = ''k2'' then Some e else bt_get (cp_commands paused_plane) k)"
    unfolding v(1)
    by (simp_all add: epochs v(2) toy_material_def commit_command_def toy_command_def)
  have "window committed_plane = window previewed_plane" by (simp add: v(1))
  then show "st_command_window_id (cp_state committed_plane) = ''window-1''"
    "st_command_window_expires_at (cp_state committed_plane) = format_time 3600"
    by (simp_all add: window_def)
qed

lemma committed_plane_preview:
  "\<exists>v. bt_get (cp_previews committed_plane) toy_preview_id = Some v \<and> prr_consumed v
     \<and> pv_expires_at (prr_preview v) = format_time 120
     \<and> pv_boundary (prr_preview v) = cp_boundary paused_plane"
  by (rule commit_toy) (simp add: committed_plane_def)

lemma committed_plane_next_id: "unat (cp_next_id committed_plane) \<le> 20"
proof -
  have "unat (cp_next_id previewed_plane) \<le> 11"
    using next_id_bounds(3) [of toy_host toy_scope toy_draft_id noted_draft True True noted_plane]
      noted_plane_next_id by (simp add: preview_toy)
  moreover obtain v where "committed_plane =
      snd (commit_revision toy_host commit_command toy_preview_id v noted_draft previewed_plane)"
    by (rule commit_toy) (simp add: committed_plane_def)
  ultimately show ?thesis
    using next_id_bounds(4) [of toy_host commit_command toy_preview_id v noted_draft previewed_plane]
    by simp
qed

subsection \<open>The continuation, in time and too late\<close>

definition resume_command :: command where
  "resume_command = (toy_command ''k3'' 2 ''resume'')\<lparr>cm_expected_preview_id := Some toy_preview_id\<rparr>"

lemma resume_toy: "resume toy_host resume_command committed_plane =
    (Inr (fst (resume_effect toy_host resume_command () committed_plane)),
     snd (resume_effect toy_host resume_command () committed_plane))"
proof -
  obtain v where v: "bt_get (cp_previews committed_plane) toy_preview_id = Some v"
    "pv_expires_at (prr_preview v) = format_time 120" "pv_boundary (prr_preview v) = cp_boundary paused_plane"
    using committed_plane_preview by blast
  have "command_guard resume_command ''resume'' None (Some toy_preview_id) committed_plane = Inr ()"
    by (simp add: command_guard_def resume_command_def toy_command_def check_scope_def)
  then have "resume_checks resume_command committed_plane = Inr ()"
    using v by (simp add: resume_checks_def resume_command_def quiescent_def continuation_named_def
        continuation_current_def time_passed_def same_external_boundary_def toy_command_def)
  moreover have "bt_get (cp_commands committed_plane) ''k3'' = None"
    using committed_plane_fields(17) [of "''k3''"] by simp
  ultimately have "admit toy_host resume_command committed_plane (resume_checks resume_command committed_plane)
      = Inr (Fresh ())"
    by (simp add: admit_def require_enabled_def idempotent_result_def resume_command_def toy_command_def)
  then show ?thesis by (simp add: resume_def run_command_def split_beta)
qed

definition resumed_plane :: control_plane where
  "resumed_plane = snd (resume_effect toy_host resume_command () committed_plane)"

lemma resume_key_free: "bt_get (cp_commands committed_plane) (cm_idempotency_key resume_command) = None"
  using committed_plane_fields(17) [of "''k3''"] by (simp add: resume_command_def toy_command_def)

definition lapsed_plane :: control_plane where
  "lapsed_plane = advance_time 121 committed_plane"

lemma lapsed_plane_reachable: "control_reachable toy_host lapsed_plane"
  unfolding lapsed_plane_def by (rule reach.step [OF toy_reachable(3)]) (rule control_step.advance_time)

lemma lapsed_plane_lapsed: "lapsed toy_preview_id lapsed_plane"
proof -
  have "\<not> (121 :: u64) < 120" by (simp add: word_less_nat_alt)
  then show ?thesis
    using committed_plane_preview
    by (auto simp: lapsed_def lapsed_plane_def advance_time_def time_passed_def word_le_nat_alt)
qed

lemma lapsed_plane_counters: "counters_left lapsed_plane"
  using committed_plane_next_id
  by (auto simp: counters_left_def version_left_def ids_left_def lapsed_plane_def advance_time_def
      word_unat_eq_iff)

end
