(* ===== verification/Control_Guarantees.thy ===== *)
theory Control_Guarantees
  imports Control_Runs
begin

text \<open>
  What the control plane guarantees to its operator: stop dominates, a commit publishes what
  was previewed and approved, a resume runs only a current continuation, commands are idempotent,
  and the stored drafts, revisions and events are well formed in every reachable plane.
\<close>

subsection \<open>The events of a resume\<close>

lemma take_take_append: "take n (take n xs @ ys) = take n (xs @ ys)"
  by (cases "length xs \<le> n") (simp_all add: min_def)

lemma record_event_types:
  "length (cp_events p) \<le> MAX_EVENTS \<Longrightarrow>
   map cv_event_type (cp_events (record_event ty ci pi ri rc p)) =
     take MAX_EVENTS (map cv_event_type (cp_events p) @ [ty])
   \<and> length (cp_events (record_event ty ci pi ri rc p)) \<le> MAX_EVENTS"
  by (auto simp: record_event_def fresh_id_def make_event_def Let_def)

lemma resume_effect_events:
  assumes "length (cp_events p) \<le> MAX_EVENTS"
  shows "map cv_event_type (cp_events (snd (resume_effect h c u p))) =
    take MAX_EVENTS (map cv_event_type (cp_events p) @ ''resume.accepted''
      # (if cp_prepared_input p = None then [] else [''input.claimed'', ''input.submitted'']))"
  unfolding resume_effect_def Let_def split_beta
  using assms
  by (simp add: record_event_types take_take_append del: take_append)

subsection \<open>Commands\<close>

text \<open>
  C11. Stop dominates: once the stop latch is set, and as long as the control version has not
  saturated, no sequence of calls releases the stop or the pause, activates another revision,
  adds a revision or moves the plan epoch, and no new commit or resume is admitted.
\<close>

theorem stop_dominates:
  assumes "control_reachable h p" "st_stop_latched (cp_state p)" "control_steps h p q" "version_left q"
  shows "st_stop_latched (cp_state q) \<and> st_pause_latched (cp_state q)
    \<and> st_active_revision_id (cp_state q) = st_active_revision_id (cp_state p)
    \<and> cp_revisions q = cp_revisions p \<and> st_plan_epoch (cp_state q) = st_plan_epoch (cp_state p)
    \<and> (\<exists>e. commit_checks c q = Inl e) \<and> (\<exists>e. resume_checks c q = Inl e)"
proof -
  have "stopped_at (st_active_revision_id (cp_state p)) (cp_revisions p) (st_plan_epoch (cp_state p)) p"
    using latched.rel_holds [OF assms(1)] assms(2) by (auto simp: stopped_at_def latched_def Let_def)
  then have "stopped_at (st_active_revision_id (cp_state p)) (cp_revisions p) (st_plan_epoch (cp_state p)) q"
    by (rule stopped.kept_steps [OF assms(3,1,4)])
  moreover from this have s: "st_stop_latched (cp_state q)" by (simp add: stopped_at_def)
  have "\<exists>e. commit_checks c q = Inl e"
    by (rule never_Inr, rule no_commit_when_stopped [OF reach_steps [OF assms(3,1)] assms(4) s])
  moreover have "\<exists>e. resume_checks c q = Inl e"
    by (rule never_Inr) (use s in \<open>auto simp: resume_checks_def result_simps\<close>)
  ultimately show ?thesis by (simp add: stopped_at_def)
qed

theorem stop_dominates_witness:
  "st_stop_latched (cp_state (advance_time 5 (stop previewed_plane)))
    \<and> st_pause_latched (cp_state (advance_time 5 (stop previewed_plane)))
    \<and> st_active_revision_id (cp_state (advance_time 5 (stop previewed_plane)))
        = st_active_revision_id (cp_state (stop previewed_plane))
    \<and> cp_revisions (advance_time 5 (stop previewed_plane)) = cp_revisions (stop previewed_plane)
    \<and> st_plan_epoch (cp_state (advance_time 5 (stop previewed_plane)))
        = st_plan_epoch (cp_state (stop previewed_plane))
    \<and> (\<exists>e. commit_checks commit_command (advance_time 5 (stop previewed_plane)) = Inl e)
    \<and> (\<exists>e. resume_checks commit_command (advance_time 5 (stop previewed_plane)) = Inl e)"
proof (rule stop_dominates [of toy_host])
  show "control_reachable toy_host (stop previewed_plane)"
    by (rule reach.step [OF toy_reachable(2)]) (rule control_step.stop)
  show "control_steps toy_host (stop previewed_plane) (advance_time 5 (stop previewed_plane))"
    by (intro r_into_rtranclp control_step.advance_time)
qed (simp_all add: version_left_def advance_time_def u64_max_def)

text \<open>
  C12. A commit that creates a revision publishes what was approved: its preview was unused,
  applicable, unexpired and made at the present boundary; the approved digest is that of the
  material rendered from the named draft; the new active revision has the draft's selection, is
  the child of the old one and the next in sequence; the run stays paused and the material is the
  input prepared for the resume.
\<close>

theorem commit_publishes_the_approved_draft:
  assumes "control_reachable h p" "ids_left q"
    and "commit h c p = (Inr r, q)" "bt_get (cp_commands p) (cm_idempotency_key c) = None"
    and "rc_effect r = ''revision_committed''"
  shows "\<exists>i v m d rv. cm_preview_id c = Some i
    \<and> bt_get (cp_previews p) i = Some \<lparr>prr_preview = v, prr_material = Some m, prr_consumed = False\<rparr>
    \<and> pv_applicable v \<and> pv_boundary v = cp_boundary p
    \<and> \<not> time_passed (pv_expires_at v) (cp_now p)
    \<and> bt_get (cp_drafts p) (pv_draft_id v) = Some d \<and> rendered_from h i v d m
    \<and> cm_approved_manifest_sha256 c = Some (mt_manifest_sha256 m)
    \<and> bt_get (cp_revisions q) (st_active_revision_id (cp_state q)) = Some rv
    \<and> bt_get (cp_revisions p) (st_active_revision_id (cp_state q)) = None
    \<and> same_configuration d rv \<and> rv_parent_revision_id rv = st_active_revision_id (cp_state p)
    \<and> rv_approved_manifest_sha256 rv = mt_manifest_sha256 m
    \<and> st_status (cp_state q) = ''paused_committed'' \<and> st_pause_latched (cp_state q)
    \<and> cp_continuation_preview_id q = Some i \<and> cp_prepared_input q = Some (mt_input m)"
proof -
  obtain i w d current where k: "commit_checks c p = Inr (i, w, d, current)"
    and r: "r = fst (commit_effect h c (i, w, d, current) p)"
    and q: "q = snd (commit_effect h c (i, w, d, current) p)"
    using fresh_commit [OF assms(3,4)] by blast
  have new: "\<not> same_configuration d current"
    using assms(5) by (auto simp: r commit_receipt_effect split: if_splits)
  then have q': "q = snd (commit_revision h c i w d p)" by (simp add: q commit_effect_cases)
  have step: "control_step h p q" using control_step.commit [of h p c] assms(3) by simp
  have left: "ids_left p" by (rule ids_left_step [OF step assms(2)])
  have i: "cm_preview_id c = Some i" "bt_get (cp_previews p) i = Some w" "preview_fresh c w p"
    "bt_get (cp_drafts p) (pv_draft_id (prr_preview w)) = Some d" "st_pause_latched (cp_state p)"
    using k by (auto simp: commit_checks_def get_draft_def result_simps)
  have ok: "preview_ok h p i w" by (rule previewed_get [OF previewed.rel_holds [OF assms(1)] i(2)])
  then obtain m where m: "prr_material w = Some m"
    using i(3) by (auto simp: preview_ok_def preview_fresh_def Let_def)
  have u: "\<not> prr_consumed w" using i(3) by (simp add: preview_fresh_def)
  have link: "rendered_from h i (prr_preview w) d m"
    using linkedD [OF linked.rel_holds [OF assms(1)] left i(2) u m] i(4) by auto
  have approved: "cm_approved_manifest_sha256 c = Some (mt_manifest_sha256 m)"
    using ok m i(3) by (auto simp: preview_ok_def preview_fresh_def Let_def)
  let ?k = "numbered ''revision'' (cp_next_id p)"
  have free: "bt_get (cp_revisions p) ?k = None"
    using fresh_ids.holds [OF assms(1)] left i(2)
    by (intro revision_key_fresh) (auto simp: fresh_ids_def bt_contains_def issued_def)
  have manifest: "pv_prepared_manifest_sha256 (prr_preview w) = Some (mt_manifest_sha256 m)"
    using ok m by (simp add: preview_ok_def Let_def)
  show ?thesis
    by (rule exI [of _ i], rule exI [of _ "prr_preview w"], rule exI [of _ m], rule exI [of _ d],
        rule exI [of _ "make_revision p ?k (numbered ''intervention'' (sat_add (cp_next_id p) 1))
          (prr_preview w) d"])
       (use i m u link approved free manifest in
         \<open>simp add: q' preview_fresh_def same_configuration_def make_revision_def\<close>)
qed


theorem commit_publishes_the_approved_draft_witness:
  "\<exists>i v m d rv. cm_preview_id commit_command = Some i
    \<and> bt_get (cp_previews previewed_plane) i
        = Some \<lparr>prr_preview = v, prr_material = Some m, prr_consumed = False\<rparr>
    \<and> pv_applicable v \<and> pv_boundary v = cp_boundary previewed_plane
    \<and> \<not> time_passed (pv_expires_at v) (cp_now previewed_plane)
    \<and> bt_get (cp_drafts previewed_plane) (pv_draft_id v) = Some d \<and> rendered_from toy_host i v d m
    \<and> cm_approved_manifest_sha256 commit_command = Some (mt_manifest_sha256 m)
    \<and> bt_get (cp_revisions committed_plane) (st_active_revision_id (cp_state committed_plane)) = Some rv
    \<and> bt_get (cp_revisions previewed_plane) (st_active_revision_id (cp_state committed_plane)) = None
    \<and> same_configuration d rv
    \<and> rv_parent_revision_id rv = st_active_revision_id (cp_state previewed_plane)
    \<and> rv_approved_manifest_sha256 rv = mt_manifest_sha256 m
    \<and> st_status (cp_state committed_plane) = ''paused_committed''
    \<and> st_pause_latched (cp_state committed_plane)
    \<and> cp_continuation_preview_id committed_plane = Some i
    \<and> cp_prepared_input committed_plane = Some (mt_input m)"
proof (rule commit_toy)
  fix w
  let ?r = "fst (commit_revision toy_host commit_command toy_preview_id w noted_draft previewed_plane)"
  assume c: "commit toy_host commit_command previewed_plane = (Inr ?r,
      snd (commit_revision toy_host commit_command toy_preview_id w noted_draft previewed_plane))"
  show ?thesis
  proof (rule commit_publishes_the_approved_draft [OF toy_reachable(2)])
    show "ids_left committed_plane"
      using committed_plane_next_id by (auto simp: ids_left_def word_unat_eq_iff)
    show "commit toy_host commit_command previewed_plane = (Inr ?r, committed_plane)"
      by (simp add: committed_plane_def c)
    show "bt_get (cp_commands previewed_plane) (cm_idempotency_key commit_command) = None"
      by (simp add: commit_command_def toy_command_def)
    show "rc_effect ?r = ''revision_committed''"
      by (simp add: commit_revision_def make_receipt_def Let_def split_beta)
  qed
qed


text \<open>
  C13. A new resume is admitted only for a run that is paused, not stopped and quiescent, and
  only by the continuation that was approved, if there is one, which has neither expired nor
  lost its boundary. It sets the run going, uses up the continuation and the prepared input, and
  records the submission exactly when an input was prepared.
\<close>

theorem resume_runs_the_approved_continuation:
  assumes "control_reachable h p"
    and "resume h c p = (Inr r, q)" "bt_get (cp_commands p) (cm_idempotency_key c) = None"
  shows "st_pause_latched (cp_state p) \<and> \<not> st_stop_latched (cp_state p) \<and> quiescent p
    \<and> (case cp_continuation_preview_id p of
         None \<Rightarrow> cm_expected_preview_id c = None
       | Some i \<Rightarrow> cm_expected_preview_id c = Some i
           \<and> (\<exists>v. bt_get (cp_previews p) i = Some v
                \<and> \<not> time_passed (pv_expires_at (prr_preview v)) (cp_now p)
                \<and> same_external_boundary (pv_boundary (prr_preview v)) (cp_boundary p)))
    \<and> st_status (cp_state q) = ''running'' \<and> \<not> st_pause_latched (cp_state q)
    \<and> cp_continuation_preview_id q = None \<and> cp_prepared_input q = None
    \<and> map cv_event_type (cp_events q) = take MAX_EVENTS (map cv_event_type (cp_events p)
        @ ''resume.accepted''
        # (if cp_prepared_input p = None then [] else [''input.claimed'', ''input.submitted'']))"
proof -
  have f: "resume_checks c p = Inr ()" "q = snd (resume_effect h c () p)"
    using fresh_resume [OF assms(2,3)] by simp_all
  have "length (cp_events p) \<le> MAX_EVENTS"
    using gapless.holds [OF assms(1)] by (simp add: gapless_def)
  note events = resume_effect_events [OF this, of h c "()"]
  show ?thesis
    using f(1) unfolding f(2)
    by (auto simp: resume_checks_def continuation_named_def continuation_current_def events result_simps
        split: option.splits)
qed

theorem resume_runs_the_approved_continuation_witness:
  "st_pause_latched (cp_state committed_plane) \<and> \<not> st_stop_latched (cp_state committed_plane)
    \<and> quiescent committed_plane
    \<and> (case cp_continuation_preview_id committed_plane of
         None \<Rightarrow> cm_expected_preview_id resume_command = None
       | Some i \<Rightarrow> cm_expected_preview_id resume_command = Some i
           \<and> (\<exists>v. bt_get (cp_previews committed_plane) i = Some v
                \<and> \<not> time_passed (pv_expires_at (prr_preview v)) (cp_now committed_plane)
                \<and> same_external_boundary (pv_boundary (prr_preview v)) (cp_boundary committed_plane)))
    \<and> st_status (cp_state resumed_plane) = ''running'' \<and> \<not> st_pause_latched (cp_state resumed_plane)
    \<and> cp_continuation_preview_id resumed_plane = None \<and> cp_prepared_input resumed_plane = None
    \<and> map cv_event_type (cp_events resumed_plane) = take MAX_EVENTS
        (map cv_event_type (cp_events committed_plane) @ ''resume.accepted''
        # (if cp_prepared_input committed_plane = None then []
           else [''input.claimed'', ''input.submitted'']))"
  by (rule resume_runs_the_approved_continuation [OF toy_reachable(3) resume_toy [folded resumed_plane_def]])
     (rule resume_key_free)

text \<open>
  C14. Repeating a command is harmless: once a pause, commit or resume has succeeded, the same
  command sent again at any later time while management is enabled returns the same receipt and
  changes nothing, whatever happened in between.
\<close>

theorem commands_are_idempotent:
  assumes "control_reachable h p" "ran h c p r q" "to_vec h (command_doc c) = Some bs"
    and "control_steps h q q'" "cp_enabled q'"
  shows "pause h c q' = (Inr r, q') \<and> commit h c q' = (Inr r, q') \<and> resume h c q' = (Inr r, q')"
proof -
  note s = stored_later [OF assms(1-4)]
  show ?thesis
    unfolding pause_def commit_def resume_def by (simp add: stored_replays [OF s assms(5,3)])
qed

theorem commands_are_idempotent_witness:
  "pause toy_host pause_command committed_plane =
       (Inr (fst (pause_effect toy_host pause_command () toy_plane)), committed_plane)
    \<and> commit toy_host pause_command committed_plane =
       (Inr (fst (pause_effect toy_host pause_command () toy_plane)), committed_plane)
    \<and> resume toy_host pause_command committed_plane =
       (Inr (fst (pause_effect toy_host pause_command () toy_plane)), committed_plane)"
proof (rule commands_are_idempotent [OF toy_reachable(1)])
  show "ran toy_host pause_command toy_plane (fst (pause_effect toy_host pause_command () toy_plane)) paused_plane"
    using pause_toy by (simp add: ran_def paused_plane_effect)
  show "control_steps toy_host paused_plane committed_plane"
    using toy_steps(2-5) by (meson converse_rtranclp_into_rtranclp rtranclp.rtrancl_refl)
qed simp_all

text \<open>
  C15. A key is bound to its command: a different command under a used key, with a different
  encoded digest, is refused as a conflict by every operation at any later time, and nothing
  changes.
\<close>

theorem reused_keys_conflict:
  assumes "control_reachable h p" "ran h c p r q" "to_vec h (command_doc c) = Some bs"
    and "control_steps h q q'" "cp_enabled q'"
    and "cm_idempotency_key c' = cm_idempotency_key c" "to_vec h (command_doc c') = Some bs'"
    and "digest h bs' \<noteq> digest h bs"
  shows "pause h c' q' = (Inl conflicting_key, q') \<and> commit h c' q' = (Inl conflicting_key, q')
    \<and> resume h c' q' = (Inl conflicting_key, q')"
proof -
  have s: "stored_command (cm_idempotency_key c') (digest h bs, r) q'"
    using stored_later [OF assms(1-4)] by (simp add: assms(6))
  show ?thesis
    unfolding pause_def commit_def resume_def conflicting_key_def
    by (simp add: stored_conflicts [OF s assms(5,7,8)])
qed

theorem reused_keys_conflict_witness:
  "pause toy_host (toy_command ''k1'' 0 ''other'') committed_plane = (Inl conflicting_key, committed_plane)
    \<and> commit toy_host (toy_command ''k1'' 0 ''other'') committed_plane = (Inl conflicting_key, committed_plane)
    \<and> resume toy_host (toy_command ''k1'' 0 ''other'') committed_plane = (Inl conflicting_key, committed_plane)"
proof (rule reused_keys_conflict [OF toy_reachable(1)])
  show "ran toy_host pause_command toy_plane (fst (pause_effect toy_host pause_command () toy_plane)) paused_plane"
    using pause_toy by (simp add: ran_def paused_plane_effect)
  show "control_steps toy_host paused_plane committed_plane"
    using toy_steps(2-5) by (meson converse_rtranclp_into_rtranclp rtranclp.rtrancl_refl)
  show "digest toy_host ''other'' \<noteq> digest toy_host ''pause''"
    by (auto simp: digest_def toy_host_def dest: hex_bytes_inject)
qed (simp_all add: pause_command_def toy_command_def)


text \<open>
  C16. A held run can be lost. Once a commit has published a revision, its continuation is a consumed
  preview, the pause is latched and the status is no longer \<open>paused_ready\<close>; when that continuation
  expires in this state, before it is resumed, then, whatever is called afterwards and until the
  control version or the identifiers saturate, the run stays paused, and no new resume and no new
  commit is admitted. (A commit that changes nothing leaves the status \<open>paused_ready\<close> and is
  not meant: a fresh preview and a commit are admitted after it.)
\<close>

theorem expired_continuation_holds_the_run_forever:
  assumes "control_reachable h p" "lapsed i p" "control_steps h p q" "counters_left q"
  shows "st_pause_latched (cp_state q) \<and> cp_continuation_preview_id q = Some i
    \<and> (\<exists>e. resume_checks c q = Inl e) \<and> (\<exists>e. commit_checks c q = Inl e)"
proof -
  have l: "lapsed i q" by (rule lapse.kept_steps [OF assms(3,1,4,2)])
  have "version_left q" using assms(4) by (simp add: counters_left_def)
  note no = lapsed_no_commit [OF reach_steps [OF assms(3,1)] this l] lapsed_no_resume [OF l]
  have "\<exists>e. commit_checks c q = Inl e" "\<exists>e. resume_checks c q = Inl e"
    by (rule never_Inr, rule no)+
  then show ?thesis using l by (simp add: lapsed_def)
qed

theorem expired_continuation_holds_the_run_forever_witness:
  "st_pause_latched (cp_state lapsed_plane)
    \<and> cp_continuation_preview_id lapsed_plane = Some toy_preview_id
    \<and> (\<exists>e. resume_checks resume_command lapsed_plane = Inl e)
    \<and> (\<exists>e. commit_checks resume_command lapsed_plane = Inl e)"
  by (rule expired_continuation_holds_the_run_forever
      [OF lapsed_plane_reachable lapsed_plane_lapsed rtranclp.rtrancl_refl lapsed_plane_counters])

text \<open>
  C17. A retired plan is never dispatched again: after a commit whose receipt says
  \<open>revision_committed\<close>, the plan epoch from before the commit, unless it was the largest \<open>u64\<close>
  already, is refused at every later time. (A commit that changes nothing keeps its epoch.)
\<close>

theorem retired_plans_stay_retired:
  assumes "control_reachable h p" "commit h c p = (Inr r, q)"
    and "bt_get (cp_commands p) (cm_idempotency_key c) = None" "rc_effect r = ''revision_committed''"
    and "st_plan_epoch (cp_state p) \<noteq> u64_max" "control_steps h q q'"
  shows "validate_plan_epoch (st_plan_epoch (cp_state p)) q' =
    Inl (control_error ''obsolete_plan'' ''plan epoch is no longer dispatchable'')"
proof -
  obtain i v d current where k: "r = fst (commit_effect h c (i, v, d, current) p)"
    "q = snd (commit_effect h c (i, v, d, current) p)"
    by (rule fresh_commit [OF assms(2,3)])
  have "control_step h p q" using control_step.commit [of h p c] assms(2) by simp
  then have q: "control_reachable h q" by (rule reach.step [OF assms(1)])
  have "\<not> same_configuration d current"
    using assms(4) by (auto simp: k commit_receipt_effect split: if_splits)
  then have "epoch_past (st_plan_epoch (cp_state p)) q"
    using sat_inc_gt [OF assms(5)] by (simp add: k(2) commit_effect_cases epoch_past_def)
  from epochs.kept_steps [OF assms(6) q TrueI this] show ?thesis
    by (auto simp: epoch_past_def validate_plan_epoch_def)
qed

theorem retired_plans_stay_retired_witness:
  "validate_plan_epoch (st_plan_epoch (cp_state previewed_plane)) resumed_plane =
    Inl (control_error ''obsolete_plan'' ''plan epoch is no longer dispatchable'')"
proof (rule commit_toy)
  fix w
  let ?r = "fst (commit_revision toy_host commit_command toy_preview_id w noted_draft previewed_plane)"
  assume c: "commit toy_host commit_command previewed_plane = (Inr ?r,
      snd (commit_revision toy_host commit_command toy_preview_id w noted_draft previewed_plane))"
  show ?thesis
  proof (rule retired_plans_stay_retired [OF toy_reachable(2)])
    show "commit toy_host commit_command previewed_plane = (Inr ?r, committed_plane)"
      by (simp add: committed_plane_def c)
    show "control_steps toy_host committed_plane resumed_plane"
      using control_step.resume [of toy_host committed_plane resume_command]
      by (simp add: resume_toy resumed_plane_def)
    show "rc_effect ?r = ''revision_committed''"
      by (simp add: commit_revision_def make_receipt_def Let_def split_beta)
  qed (simp_all add: commit_command_def toy_command_def u64_max_def)
qed

text \<open>
  C18. The command window is never renewed: once the clock of a plane has reached the end of the
  window that construction opened, no pause, commit or resume is admitted at any later time.
\<close>

theorem command_window_closes_for_good:
  assumes "control_steps h (control_new h s enabled now) p" "sat_add now 3600 \<le> cp_now p"
    and "control_steps h p q"
  shows "(\<exists>e. pause_checks c q = Inl e) \<and> (\<exists>e. commit_checks c q = Inl e)
    \<and> (\<exists>e. resume_checks c q = Inl e)"
proof -
  have p: "control_reachable h p" by (rule reach_steps [OF assms(1) control_new_reachable])
  have "window p = window (control_new h s enabled now)" by (rule window_steps [OF assms(1)])
  then have "window_closed p"
    using assms(2) by (auto simp: window_closed_def window_def control_new_fields initial_state_def)
  then have "window_closed q" by (rule closed_window.kept_steps [OF assms(3) p TrueI])
  note no = window_closed_guard [OF this]
  have "\<exists>e. pause_checks c q = Inl e"
    by (rule never_Inr) (use no in \<open>auto simp: pause_checks_def result_simps\<close>)
  moreover have "\<exists>e. commit_checks c q = Inl e"
    by (rule never_Inr) (use no in \<open>auto simp: commit_checks_def result_simps\<close>)
  moreover have "\<exists>e. resume_checks c q = Inl e"
    by (rule never_Inr) (use no in \<open>auto simp: resume_checks_def result_simps\<close>)
  ultimately show ?thesis by blast
qed

theorem command_window_closes_for_good_witness:
  "(\<exists>e. pause_checks pause_command (advance_time 3600 toy_plane) = Inl e)
    \<and> (\<exists>e. commit_checks pause_command (advance_time 3600 toy_plane) = Inl e)
    \<and> (\<exists>e. resume_checks pause_command (advance_time 3600 toy_plane) = Inl e)"
proof (rule command_window_closes_for_good [of toy_host toy_scope True 0])
  show "control_steps toy_host (control_new toy_host toy_scope True 0) (advance_time 3600 toy_plane)"
    unfolding toy_plane_def by (intro r_into_rtranclp control_step.advance_time)
qed (simp_all add: advance_time_def)

subsection \<open>Reachable planes\<close>

text \<open>
  C19. In every reachable plane the status and the latches agree: the run is paused unless it is
  \<open>running\<close>, a held ready run is not stopped, a stopped run is paused, and the boundary
  that clients see is the plane's own, with its scope, gate epoch and control version.
\<close>

theorem status_agrees_with_the_latches:
  assumes "control_reachable h p"
  shows "latched p \<and> synced p"
  using latched.rel_holds [OF assms] synced.holds [OF assms] by simp

theorem status_agrees_with_the_latches_witness: "latched committed_plane \<and> synced committed_plane"
  by (rule status_agrees_with_the_latches [OF toy_reachable(3)])

text \<open>
  C20. A new commit is only admitted while the run is held ready: the alternative that the source
  names, a stale paused run, never has a preview that a commit accepts.
\<close>

theorem commit_needs_a_ready_run:
  assumes "control_reachable h p" "version_left p" "commit_checks c p = Inr t"
  shows "st_status (cp_state p) = ''paused_ready'' \<and> st_pause_latched (cp_state p)
    \<and> \<not> st_stop_latched (cp_state p)"
  using commit_needs_ready [OF assms] latched.rel_holds [OF assms(1)] by (simp add: latched_def Let_def)

theorem commit_needs_a_ready_run_witness:
  "st_status (cp_state previewed_plane) = ''paused_ready'' \<and> st_pause_latched (cp_state previewed_plane)
    \<and> \<not> st_stop_latched (cp_state previewed_plane)"
proof (rule commit_toy)
  fix w
  assume c: "commit toy_host commit_command previewed_plane =
    (Inr (fst (commit_revision toy_host commit_command toy_preview_id w noted_draft previewed_plane)),
     snd (commit_revision toy_host commit_command toy_preview_id w noted_draft previewed_plane))"
  have "bt_get (cp_commands previewed_plane) (cm_idempotency_key commit_command) = None"
    by (simp add: commit_command_def toy_command_def)
  from fresh_commit [OF c this] obtain t where "commit_checks commit_command previewed_plane = Inr t"
    by metis
  then show ?thesis
    by (rule commit_needs_a_ready_run [OF toy_reachable(2), rotated])
       (simp add: version_left_def u64_max_def)
qed

text \<open>
  C21. Every stored draft and revision selects each item at most once, pins only selected items,
  and has its notes among the selected items; it has at most 16 notes and at most 64 other items, so
  80 items in all: a note is selected without regard to the item limit.
\<close>

theorem selections_are_bounded:
  assumes "control_reachable h p"
  shows "list_all draft_ok (drafts p) \<and> list_all revision_ok (revisions p)
    \<and> list_all (\<lambda>d. length (dr_selected_items d) \<le> 80) (drafts p)"
proof -
  have "selections_ok p" by (rule selections.holds [OF assms])
  then show ?thesis
    using selection_ok_length
    by (fastforce simp: selections_ok_def list_all_iff drafts_def revisions_def bt_values_iff draft_ok_def
        MAX_ITEMS_def MAX_NOTES_def)
qed

theorem selections_are_bounded_witness:
  "list_all draft_ok (drafts committed_plane) \<and> list_all revision_ok (revisions committed_plane)
    \<and> list_all (\<lambda>d. length (dr_selected_items d) \<le> 80) (drafts committed_plane)"
  by (rule selections_are_bounded [OF toy_reachable(3)])


text \<open>
  C22. The revisions of every reachable plane form one chain: each is stored under its own
  identifier, its sequence and plan epoch are equal and number the revisions from the bootstrap revision on
  without a gap, each child follows its parent, and the active revision is the last one.
\<close>

theorem revisions_form_one_chain:
  assumes "control_reachable h p" "ids_left p"
  shows "unat (st_plan_epoch (cp_state p)) = length (revisions p)
    \<and> (\<exists>r. bt_get (cp_revisions p) (st_active_revision_id (cp_state p)) = Some r
          \<and> unat (rv_sequence r) = length (revisions p))
    \<and> list_all (\<lambda>(k, r). revision_links p k r) (bt_entries (cp_revisions p))
    \<and> distinct (map rv_sequence (revisions p))"
proof -
  have c: "chained p" by (rule chained.rel_holds [OF assms(1)])
  have len: "bt_len (cp_revisions p) = length (revisions p)"
    by (simp add: bt_len_def revisions_def bt_values_def)
  have "distinct (map (rv_sequence \<circ> snd) (bt_entries (cp_revisions p)))"
    using bt_distinct [of "cp_revisions p"] c assms(2)
    by (auto simp: chained_def distinct_map inj_on_def bt_entries_iff) (metis option.inject)+
  then show ?thesis
    using c assms(2)
    by (auto simp: chained_def len list_all_iff bt_entries_iff revisions_def bt_values_def)
qed

theorem revisions_form_one_chain_witness:
  "unat (st_plan_epoch (cp_state committed_plane)) = length (revisions committed_plane)
    \<and> (\<exists>r. bt_get (cp_revisions committed_plane) (st_active_revision_id (cp_state committed_plane)) = Some r
          \<and> unat (rv_sequence r) = length (revisions committed_plane))
    \<and> list_all (\<lambda>(k, r). revision_links committed_plane k r) (bt_entries (cp_revisions committed_plane))
    \<and> distinct (map rv_sequence (revisions committed_plane))"
proof (rule revisions_form_one_chain [OF toy_reachable(3)])
  show "ids_left committed_plane"
    using committed_plane_next_id by (auto simp: ids_left_def word_unat_eq_iff)
qed

text \<open>
  C23. The events are numbered 1, 2, 3 and so on without a gap, belong to the plane's scope, and
  are the first \<open>MAX_EVENTS\<close> of the events counted by the state.
\<close>

theorem events_are_gapless:
  assumes "control_reachable h p"
  shows "length (cp_events p) = min (unat (st_last_sequence (cp_state p))) MAX_EVENTS
    \<and> map (unat \<circ> cv_sequence) (cp_events p) = [1..<Suc (length (cp_events p))]
    \<and> list_all (\<lambda>e. cv_scope e = cp_scope p) (cp_events p)"
proof -
  have g: "gapless p" by (rule gapless.holds [OF assms])
  then have "map (unat \<circ> cv_sequence) (cp_events p) = [1..<Suc (length (cp_events p))]"
    by (intro nth_equalityI) (simp_all add: gapless_def del: upt_Suc)
  then show ?thesis using g by (simp add: gapless_def list_all_iff)
qed

theorem events_are_gapless_witness:
  "length (cp_events committed_plane)
      = min (unat (st_last_sequence (cp_state committed_plane))) MAX_EVENTS
    \<and> map (unat \<circ> cv_sequence) (cp_events committed_plane) = [1..<Suc (length (cp_events committed_plane))]
    \<and> list_all (\<lambda>e. cv_scope e = cp_scope committed_plane) (cp_events committed_plane)"
  by (rule events_are_gapless [OF toy_reachable(3)])

text \<open>
  C24. What is sent to a provider is retained and current: when a draft is rendered, each selected
  item, note and the objective is stored under its own reference, is not protected, has not
  expired and is UTF-8 text; the input is within the component bound, and the manifest digest is
  that of the manifest of the returned components.
\<close>

theorem rendered_material_is_current:
  assumes "render h i b d registry now = Inr m"
  shows "list_all (\<lambda>item. \<exists>r. usable_ref registry now item r)
      (dr_selected_items d @ dr_note_items d
        @ (case dr_objective_item d of None \<Rightarrow> [] | Some item \<Rightarrow> [item]))
    \<and> length (mt_input m) \<le> MAX_COMPONENT_BYTES
    \<and> (\<exists>mb. to_vec h (manifest_doc b (mt_components m)) = Some mb
          \<and> mt_manifest_sha256 m = digest h mb)"
  using render_InrD [OF assms] by (auto simp: list_all_iff split: option.splits)

theorem rendered_material_is_current_witness:
  "list_all (\<lambda>item. \<exists>r. usable_ref (cp_items registered_plane) 0 item r)
      (dr_selected_items noted_draft @ dr_note_items noted_draft
        @ (case dr_objective_item noted_draft of None \<Rightarrow> [] | Some item \<Rightarrow> [item]))
    \<and> length (mt_input toy_material) \<le> MAX_COMPONENT_BYTES
    \<and> (\<exists>mb. to_vec toy_host (manifest_doc (cp_boundary paused_plane) (mt_components toy_material)) = Some mb
          \<and> mt_manifest_sha256 toy_material = digest toy_host mb)"
  by (rule rendered_material_is_current [OF render_toy [of toy_preview_id, folded toy_material_def]])

text \<open>
  C25. A patch that fails changes nothing but the item registry: drafts, previews, revisions,
  events, counters and state are untouched. If it was refused at admission, with that error, nothing
  changes at all; otherwise the registry is the one its operations left, up to the one that failed:
  the notes that the earlier operations inserted stay in it.
\<close>

theorem failed_patches_only_touch_the_registry:
  assumes "apply_patch h t author authorized p = (Inl e, q)"
  shows "q = p\<lparr>cp_items := cp_items q, cp_latest_versions := cp_latest_versions q\<rparr>
    \<and> (case patch_admitted t author p of
         Inl refused \<Rightarrow> e = refused \<and> q = p
       | Inr d \<Rightarrow> q = snd (apply_operations h authorized d (pt_operations t) p))"
proof (cases "patch_admitted t author p")
  case (Inl e')
  with assms show ?thesis by (simp add: apply_patch_def)
next
  case (Inr d)
  obtain x p1 where ops: "apply_operations h authorized d (pt_operations t) p = (x, p1)" by fastforce
  with Inr assms have "q = p1"
    by (auto simp: apply_patch_def save_draft_def Let_def split: sum.splits option.splits)
  then show ?thesis
    using apply_operations_same_but [OF ops] Inr ops by (auto simp: same_but_items_def)
qed

text \<open>The second operation of \<open>torn_patch\<close> fails; the note of its first operation stays.\<close>

theorem failed_patches_only_touch_the_registry_witness:
  "fst (apply_patch toy_host torn_patch ''author'' False drafted_plane) =
      Inl (control_error ''note_bounds'' ''note is outside its UTF-8 bound'')
    \<and> snd (apply_patch toy_host torn_patch ''author'' False drafted_plane) = drafted_plane
        \<lparr>cp_items := cp_items registered_plane, cp_latest_versions := cp_latest_versions registered_plane\<rparr>
    \<and> bt_get (cp_items drafted_plane) (''n1'', 1) = None
    \<and> map_option it_content (bt_get (cp_items registered_plane) (''n1'', 1)) = Some ''hi''"
proof -
  note failed_patches_only_touch_the_registry [OF torn_patch_fails]
  then show ?thesis using torn_patch_fails unregistered_note by simp
qed

subsection \<open>The journal\<close>

text \<open>
  C26. The journal of a reachable plane can be recovered exactly when every draft, revision and
  preview still refers to retained items, and recovery then returns the same plane, with the
  controller epoch raised when it is asked to raise it.
\<close>

theorem journals_are_recovered:
  assumes "digest_ok h" "control_reachable h p" "ids_left p" "journal_codec encode decode"
    and "export_journal encode p = Inr bs"
  shows "case recover_journal_with_epoch h decode bs increment of
      Inr q \<Rightarrow> references_kept h p \<and> q = (if increment then raise_controller_epoch p else p)
    | Inl e \<Rightarrow> \<not> references_kept h p"
proof -
  have r: "recover_journal_with_epoch h decode bs increment =
    and_then (validate_journal_integrity h p) (\<lambda>_.
      Inr (if increment then raise_controller_epoch p else p))"
    by (rule recover_export [OF assms(1,2,4,5)])
  show ?thesis
    unfolding integrity_iff [OF assms(1-3), symmetric] r
    by (cases "validate_journal_integrity h p") auto
qed


definition toy_encode :: "journal \<Rightarrow> bytes option" where
  "toy_encode j = (if jn_schema j = JOURNAL_SCHEMA \<and> jn_plane j = toy_plane
     \<and> jn_items j = bt_entries (cp_items toy_plane) then Some [] else None)"

definition toy_decode :: "bytes \<Rightarrow> journal option" where
  "toy_decode bs = Some \<lparr>jn_schema = JOURNAL_SCHEMA, jn_plane = toy_plane\<lparr>cp_items := bt_empty\<rparr>,
     jn_items = bt_entries (cp_items toy_plane)\<rparr>"

theorem journals_are_recovered_witness:
  "case recover_journal_with_epoch toy_host toy_decode [] True of
      Inr q \<Rightarrow> references_kept toy_host toy_plane
        \<and> q = (if True then raise_controller_epoch toy_plane else toy_plane)
    | Inl e \<Rightarrow> \<not> references_kept toy_host toy_plane"
proof (rule journals_are_recovered [OF _ toy_reachable(1)])
  show "journal_codec toy_encode toy_decode"
    by (auto simp: journal_codec_def toy_encode_def toy_decode_def split: if_splits)
  show "export_journal toy_encode toy_plane = Inr []"
    by (simp add: export_journal_def toy_encode_def)
qed (simp_all add: ids_left_def u64_max_def)

end
