(* ===== verification/Context_Store.thy ===== *)
theory Context_Store
  imports Event_Reader Btree_Map
begin

text \<open>
  The bounded in-memory store of \<open>context-service/src/store\<close>: retained snapshot manifests,
  lifecycle events, opaque content and revoked tokens, read through bearer grants. SHA-256 is the
  argument \<open>sha\<close>. A \<open>SystemTime\<close> is a number of nanoseconds, negative before the Unix epoch.
  Field prefixes: \<open>sc_\<close> configuration, \<open>ss_\<close> stored snapshot, \<open>se_\<close> stored event, \<open>cs_\<close>
  store, \<open>gr_\<close> grant, \<open>sm_\<close> snapshot summary, \<open>co_\<close> component summary, \<open>pg_\<close> event page,
  \<open>cr_\<close> comparison.
\<close>

type_synonym sha = "bytes \<Rightarrow> bytes"
type_synonym system_time = int

subsection \<open>Bounds, configuration and errors\<close>

definition MAX_SNAPSHOTS :: nat where "MAX_SNAPSHOTS = 128"
definition MAX_MANIFEST_BYTES :: nat where "MAX_MANIFEST_BYTES = 1048576"
definition MAX_COMPARE_BYTES :: nat where "MAX_COMPARE_BYTES = 64 * 1024"
definition STORE_MAX_EVENTS :: nat where "STORE_MAX_EVENTS = 4096"
definition MAX_CONTENT_REFS :: nat where "MAX_CONTENT_REFS = 512"
definition MAX_CONTENT_BYTES :: nat where "MAX_CONTENT_BYTES = 512 * 1024 * 1024"

text \<open>\<open>usize::saturating_add\<close> and \<open>usize::saturating_mul\<close> on 64 bits.\<close>

definition usize_add :: "nat \<Rightarrow> nat \<Rightarrow> nat" where
  "usize_add a b = min (a + b) (2 ^ 64 - 1)"

definition usize_mul :: "nat \<Rightarrow> nat \<Rightarrow> nat" where
  "usize_mul a b = min (a * b) (2 ^ 64 - 1)"

record store_config =
  sc_max_snapshots :: nat
  sc_max_manifest_bytes :: nat
  sc_max_compare_bytes :: nat

definition default_config :: store_config where
  "default_config = \<lparr>sc_max_snapshots = MAX_SNAPSHOTS, sc_max_manifest_bytes = MAX_MANIFEST_BYTES,
     sc_max_compare_bytes = MAX_COMPARE_BYTES\<rparr>"

datatype ingest_error =
  IngestEmpty | IngestTooLarge | InvalidSnapshot string | Capacity | Conflict
  | InvalidEvent string | EventConflict | ContentConflict | PrivateContentUnsupported

datatype read_error =
  InvalidToken | InvalidScope | GrantExpired | Forbidden | NotFound | ReadTooLarge

text \<open>\<open>to_string()\<close> of the reader errors.\<close>

fun snapshot_error_text :: "snapshot_error \<Rightarrow> string" where
  "snapshot_error_text SnapEmpty = ''snapshot is empty''"
| "snapshot_error_text SnapTooLarge = ''snapshot exceeds its byte bound''"
| "snapshot_error_text SnapJson = ''invalid JSON''"
| "snapshot_error_text (SnapInvalid name) = ''snapshot field is invalid: '' @ name"

fun event_error_text :: "event_error \<Rightarrow> string" where
  "event_error_text EventEmpty = ''event is empty''"
| "event_error_text EventTooLarge = ''event exceeds its byte bound''"
| "event_error_text EventJson = ''invalid event JSON''"
| "event_error_text (EventInvalid name) = ''event field is invalid: '' @ name"

fun ingest_error_text :: "ingest_error \<Rightarrow> string" where
  "ingest_error_text IngestEmpty = ''manifest is empty''"
| "ingest_error_text IngestTooLarge = ''manifest exceeds configured bound''"
| "ingest_error_text (InvalidSnapshot message) = ''snapshot rejected: '' @ message"
| "ingest_error_text Capacity = ''snapshot capacity is full''"
| "ingest_error_text Conflict = ''snapshot identity already has different bytes''"
| "ingest_error_text (InvalidEvent message) = ''event rejected: '' @ message"
| "ingest_error_text EventConflict = ''event identity already has different bytes''"
| "ingest_error_text ContentConflict = ''content reference already has different bytes''"
| "ingest_error_text PrivateContentUnsupported =
     ''private snapshot content cannot be retained in the plaintext store''"

fun read_error_text :: "read_error \<Rightarrow> string" where
  "read_error_text InvalidToken = ''invalid read token''"
| "read_error_text InvalidScope = ''invalid read scope''"
| "read_error_text GrantExpired = ''read grant expired''"
| "read_error_text Forbidden = ''read not permitted''"
| "read_error_text NotFound = ''snapshot unavailable''"
| "read_error_text ReadTooLarge = ''comparison exceeds its bound''"

subsection \<open>The store\<close>

record stored_snapshot =
  ss_digest :: bytes
  ss_bytes :: bytes
  ss_snapshot :: snapshot

record stored_event =
  se_digest :: bytes
  se_event :: capture_event
  se_scope :: "(string \<times> string) option"
  se_scope_sequence :: "u64 option"

record store =
  cs_config :: store_config
  cs_entries :: "(string, stored_snapshot) btree"
  cs_events :: "(string, stored_event) btree"
  cs_event_scope_sequences :: "(string \<times> string, u64) btree"
  cs_content :: "(string, bytes) btree"
  cs_content_bytes :: nat
  cs_revoked :: "(bytes, unit) btree"

definition fresh_store :: "store_config \<Rightarrow> store" where
  "fresh_store config = \<lparr>cs_config = config, cs_entries = bt_empty, cs_events = bt_empty,
     cs_event_scope_sequences = bt_empty, cs_content = bt_empty, cs_content_bytes = 0,
     cs_revoked = bt_empty\<rparr>"

definition with_config :: "store_config \<Rightarrow> ingest_error + store" where
  "with_config config =
     (if sc_max_snapshots config = 0
         \<or> sc_max_snapshots config > MAX_SNAPSHOTS
         \<or> sc_max_manifest_bytes config = 0
         \<or> sc_max_manifest_bytes config > MAX_MANIFEST_BYTES
         \<or> sc_max_compare_bytes config = 0
         \<or> sc_max_compare_bytes config > MAX_COMPARE_BYTES
      then Inl Capacity else Inr (fresh_store config))"

definition store_len :: "store \<Rightarrow> nat" where
  "store_len s = bt_len (cs_entries s)"

definition event_len :: "store \<Rightarrow> nat" where
  "event_len s = bt_len (cs_events s)"

definition content_len :: "store \<Rightarrow> nat" where
  "content_len s = bt_len (cs_content s)"

record snapshot_summary =
  sm_snapshot_id :: string
  sm_run_id :: string
  sm_episode_id :: string
  sm_boundary :: string
  sm_capture_mode :: string
  sm_component_count :: nat
  sm_application_capture_complete :: bool
  sm_incomplete_reasons :: "string list"

definition summary_from :: "snapshot \<Rightarrow> snapshot_summary" where
  "summary_from s =
     (let projection = sn_projection s
      in \<lparr>sm_snapshot_id = sp_snapshot_id projection,
          sm_run_id = id_run_id (sp_identity projection),
          sm_episode_id = id_episode_id (sp_identity projection),
          sm_boundary = sp_boundary projection,
          sm_capture_mode = capture_mode_as_str (sp_capture_mode projection),
          sm_component_count = sp_component_count projection,
          sm_application_capture_complete = sp_application_capture_complete projection,
          sm_incomplete_reasons = sp_incomplete_reasons projection\<rparr>)"

subsection \<open>Ingestion\<close>

text \<open>Each operation returns its result and the store afterwards; an error leaves the store.\<close>

definition has_content_ref :: "snapshot \<Rightarrow> bool" where
  "has_content_ref s \<longleftrightarrow> list_ex (\<lambda>c. c_content_ref c \<noteq> None) (sn_components s)"

definition manifest_checks :: "bytes \<Rightarrow> store \<Rightarrow> ingest_error + snapshot" where
  "manifest_checks bytes s =
     and_then (ensure (bytes \<noteq> []) IngestEmpty) (\<lambda>_.
     and_then (ensure (\<not> length bytes > sc_max_manifest_bytes (cs_config s)) IngestTooLarge) (\<lambda>_.
     and_then (map_err (\<lambda>e. InvalidSnapshot (snapshot_error_text e)) (snapshot_parse bytes)) (\<lambda>snap.
     and_then (ensure (\<not> (sp_capture_mode (sn_projection snap) = Private \<and> has_content_ref snap))
       PrivateContentUnsupported) (\<lambda>_.
     Inr snap))))"

definition ingest :: "sha \<Rightarrow> bytes \<Rightarrow> store \<Rightarrow> (ingest_error + snapshot_summary) \<times> store" where
  "ingest sha bytes s =
     (case manifest_checks bytes s of
        Inl e \<Rightarrow> (Inl e, s)
      | Inr snap \<Rightarrow>
          (let i = sp_snapshot_id (sn_projection snap)
           in case bt_get (cs_entries s) i of
                Some existing \<Rightarrow>
                  if ss_digest existing \<noteq> sha bytes then (Inl Conflict, s)
                  else (Inr (summary_from (ss_snapshot existing)), s)
              | None \<Rightarrow>
                  if bt_len (cs_entries s) \<ge> sc_max_snapshots (cs_config s) then (Inl Capacity, s)
                  else (Inr (summary_from snap),
                        s\<lparr>cs_entries := bt_insert i
                            \<lparr>ss_digest = sha bytes, ss_bytes = bytes, ss_snapshot = snap\<rparr>
                            (cs_entries s)\<rparr>)))"

text \<open>
  The scope of an event is the agent and run of the snapshot that it names; an event enters its
  scope with the next ordinal of that scope.
\<close>

definition event_scope :: "capture_event \<Rightarrow> store \<Rightarrow> (string \<times> string) option" where
  "event_scope ev s =
     map_option (\<lambda>e. let i = sp_identity (sn_projection (ss_snapshot e)) in (id_agent_id i, id_run_id i))
       (Option.bind (ev_snapshot_id ev) (bt_get (cs_entries s)))"

definition scope_next :: "string \<times> string \<Rightarrow> store \<Rightarrow> u64" where
  "scope_next scope s =
     (case bt_get (cs_event_scope_sequences s) scope of Some n \<Rightarrow> n | None \<Rightarrow> 0)"

definition take_sequence :: "(string \<times> string) option \<Rightarrow> store \<Rightarrow> u64 option \<times> store" where
  "take_sequence scope s =
     (case scope of
        None \<Rightarrow> (None, s)
      | Some sc \<Rightarrow>
          (Some (scope_next sc s),
           s\<lparr>cs_event_scope_sequences :=
               bt_insert sc (sat_add (scope_next sc s) 1) (cs_event_scope_sequences s)\<rparr>))"

definition event_checks :: "bytes \<Rightarrow> store \<Rightarrow> ingest_error + capture_event" where
  "event_checks bytes s =
     and_then (ensure (bytes \<noteq> []) (InvalidEvent ''event is empty'')) (\<lambda>_.
     and_then (ensure (\<not> length bytes > sc_max_manifest_bytes (cs_config s)) IngestTooLarge) (\<lambda>_.
     and_then (map_err (\<lambda>e. InvalidEvent (event_error_text e)) (parse_event bytes)) (\<lambda>ev.
     and_then (ensure (case ev_snapshot_id ev of
                         Some i \<Rightarrow> bt_contains (cs_entries s) i | None \<Rightarrow> True)
       (InvalidEvent ''unknown snapshot_id'')) (\<lambda>_.
     Inr ev))))"

definition append_event :: "sha \<Rightarrow> bytes \<Rightarrow> store \<Rightarrow> (ingest_error + capture_event) \<times> store" where
  "append_event sha bytes s =
     (case event_checks bytes s of
        Inl e \<Rightarrow> (Inl e, s)
      | Inr ev \<Rightarrow>
          (case bt_get (cs_events s) (ev_event_id ev) of
             Some existing \<Rightarrow>
               if se_digest existing \<noteq> sha bytes then (Inl EventConflict, s)
               else (Inr (se_event existing), s)
           | None \<Rightarrow>
               if bt_len (cs_events s) \<ge> STORE_MAX_EVENTS then (Inl Capacity, s)
               else (let scope = event_scope ev s; (seq, s1) = take_sequence scope s
                     in (Inr ev,
                         s1\<lparr>cs_events := bt_insert (ev_event_id ev)
                              \<lparr>se_digest = sha bytes, se_event = ev, se_scope = scope,
                               se_scope_sequence = seq\<rparr> (cs_events s1)\<rparr>))))"

definition store_valid_id :: "string \<Rightarrow> bool" where
  "store_valid_id s \<longleftrightarrow>
     s \<noteq> [] \<and> length s \<le> 128 \<and> list_all (\<lambda>(i, c). id_char i c) (enumerate 0 (chars s))"

definition ingest_content :: "string \<Rightarrow> bytes \<Rightarrow> store \<Rightarrow> (ingest_error + unit) \<times> store" where
  "ingest_content ref bytes s =
     (if \<not> store_valid_id ref \<or> length bytes > usize_mul MAX_MANIFEST_BYTES 16 then (Inl IngestTooLarge, s)
      else
        (case bt_get (cs_content s) ref of
           Some existing \<Rightarrow> (if existing = bytes then Inr () else Inl ContentConflict, s)
         | None \<Rightarrow>
             if bt_len (cs_content s) \<ge> MAX_CONTENT_REFS
                \<or> usize_add (cs_content_bytes s) (length bytes) > MAX_CONTENT_BYTES
             then (Inl Capacity, s)
             else (Inr (), s\<lparr>cs_content_bytes := usize_add (cs_content_bytes s) (length bytes),
                             cs_content := bt_insert ref bytes (cs_content s)\<rparr>)))"

subsection \<open>Grants\<close>

datatype capture_privilege = MetadataPrivilege | ContentPrivilege

record read_grant =
  gr_token_digest :: bytes
  gr_project :: string
  gr_run :: "string option"
  gr_privilege :: capture_privilege
  gr_expires_at :: u64

definition epoch_seconds :: "system_time \<Rightarrow> u64" where
  "epoch_seconds t = (if t < 0 then 0 else of_int (t div 1000000000))"

text \<open>The time to live enters in whole seconds, as \<open>Duration::as_secs\<close> gives them.\<close>

definition issue ::
  "sha \<Rightarrow> bytes \<Rightarrow> string \<Rightarrow> string option \<Rightarrow> capture_privilege \<Rightarrow> u64 \<Rightarrow> system_time
     \<Rightarrow> read_error + read_grant" where
  "issue sha token project run privilege ttl now =
     and_then (ensure (store_valid_id project) InvalidScope) (\<lambda>_.
     and_then (ensure (case run of Some r \<Rightarrow> store_valid_id r | None \<Rightarrow> True) InvalidScope) (\<lambda>_.
     and_then (ensure (\<not> (token = [] \<or> length token > 256)) InvalidToken) (\<lambda>_.
     and_then (ok_or (checked_add (epoch_seconds now) ttl) GrantExpired) (\<lambda>expires_at.
     Inr \<lparr>gr_token_digest = sha token, gr_project = project, gr_run = run,
          gr_privilege = privilege, gr_expires_at = expires_at\<rparr>))))"

definition permits_scope :: "read_grant \<Rightarrow> projection \<Rightarrow> bool" where
  "permits_scope g p \<longleftrightarrow>
     gr_project g = id_agent_id (sp_identity p)
     \<and> (case gr_run g of None \<Rightarrow> True | Some run \<Rightarrow> run = id_run_id (sp_identity p))"

definition valid_token :: "sha \<Rightarrow> bytes \<Rightarrow> read_grant \<Rightarrow> system_time \<Rightarrow> bool" where
  "valid_token sha token g now \<longleftrightarrow>
     (if epoch_seconds now \<ge> gr_expires_at g \<or> token = [] \<or> length token > 256 then False
      else sha token = gr_token_digest g)"

definition revoke :: "sha \<Rightarrow> bytes \<Rightarrow> store \<Rightarrow> (read_error + unit) \<times> store" where
  "revoke sha token s =
     (if token = [] \<or> length token > 256 then (Inl InvalidToken, s)
      else (Inr (), s\<lparr>cs_revoked := bt_insert (sha token) () (cs_revoked s)\<rparr>))"

definition authorize ::
  "sha \<Rightarrow> bytes \<Rightarrow> read_grant \<Rightarrow> system_time \<Rightarrow> store \<Rightarrow> read_error + unit" where
  "authorize sha token g now s =
     (if \<not> valid_token sha token g now \<or> bt_contains (cs_revoked s) (gr_token_digest g)
      then Inl (if epoch_seconds now \<ge> gr_expires_at g then GrantExpired else Forbidden)
      else Inr ())"

definition scoped_entry :: "read_grant \<Rightarrow> string \<Rightarrow> store \<Rightarrow> read_error + stored_snapshot" where
  "scoped_entry g i s =
     and_then (ok_or (bt_get (cs_entries s) i) NotFound) (\<lambda>entry.
       if permits_scope g (sn_projection (ss_snapshot entry)) then Inr entry else Inl NotFound)"

subsection \<open>Snapshot queries\<close>

record component_summary =
  co_snapshot_id :: string
  co_component_id :: string
  co_ordinal :: u64
  co_kind :: string
  co_role :: "string option"
  co_media_type :: string
  co_observed_bytes :: u64
  co_content_status :: string
  co_content_available :: bool
  co_digest_present :: bool
  co_measurement :: measurement

definition content_available ::
  "sha \<Rightarrow> read_grant \<Rightarrow> capture_mode \<Rightarrow> component \<Rightarrow> store \<Rightarrow> bool" where
  "content_available sha g mode c s =
     (case (c_content_ref c, c_sha256 c) of
        (Some ref, Some expected) \<Rightarrow>
          if gr_privilege g \<noteq> ContentPrivilege \<or> mode = Private \<or> c_content_status c = Expired
          then False
          else (case bt_get (cs_content s) ref of
                  None \<Rightarrow> False
                | Some bytes \<Rightarrow> hex_bytes (sha bytes) = expected)
      | _ \<Rightarrow> False)"

definition find_component :: "stored_snapshot \<Rightarrow> string \<Rightarrow> read_error + component" where
  "find_component entry i =
     ok_or (List.find (\<lambda>c. c_component_id c = i) (sn_components (ss_snapshot entry))) NotFound"

definition store_component ::
  "sha \<Rightarrow> bytes \<Rightarrow> read_grant \<Rightarrow> string \<Rightarrow> string \<Rightarrow> system_time \<Rightarrow> store
     \<Rightarrow> read_error + component_summary" where
  "store_component sha token g snapshot_id component_id now s =
     and_then (authorize sha token g now s) (\<lambda>_.
     and_then (scoped_entry g snapshot_id s) (\<lambda>entry.
     and_then (find_component entry component_id) (\<lambda>c.
     let available =
           content_available sha g (sp_capture_mode (sn_projection (ss_snapshot entry))) c s
     in Inr \<lparr>co_snapshot_id = snapshot_id, co_component_id = c_component_id c,
             co_ordinal = c_ordinal c, co_kind = c_kind c, co_role = c_role c,
             co_media_type = c_media_type c, co_observed_bytes = c_observed_bytes c,
             co_content_status = component_status_as_str (c_content_status c),
             co_content_available = available, co_digest_present = (c_sha256 c \<noteq> None),
             co_measurement = c_measurement c\<rparr>)))"

fun list_loop ::
  "read_grant \<Rightarrow> nat \<Rightarrow> snapshot_summary list \<Rightarrow> stored_snapshot list \<Rightarrow> snapshot_summary list" where
  "list_loop g limit result [] = result"
| "list_loop g limit result (entry # entries) =
     (if permits_scope g (sn_projection (ss_snapshot entry)) then
        (let result' = result @ [summary_from (ss_snapshot entry)]
         in if length result' = limit then result' else list_loop g limit result' entries)
      else list_loop g limit result entries)"

definition store_list ::
  "sha \<Rightarrow> bytes \<Rightarrow> read_grant \<Rightarrow> system_time \<Rightarrow> nat \<Rightarrow> store \<Rightarrow> read_error + snapshot_summary list" where
  "store_list sha token g now limit s =
     and_then (ensure (\<not> (limit = 0 \<or> limit > 200)) ReadTooLarge) (\<lambda>_.
     and_then (authorize sha token g now s) (\<lambda>_.
     Inr (list_loop g limit [] (bt_values (cs_entries s)))))"

definition store_get ::
  "sha \<Rightarrow> bytes \<Rightarrow> read_grant \<Rightarrow> string \<Rightarrow> system_time \<Rightarrow> store \<Rightarrow> read_error + bytes" where
  "store_get sha token g snapshot_id now s =
     and_then (authorize sha token g now s) (\<lambda>_.
     and_then (scoped_entry g snapshot_id s) (\<lambda>entry.
     and_then (ensure (\<not> (gr_privilege g = MetadataPrivilege \<and> has_content_ref (ss_snapshot entry)))
       Forbidden) (\<lambda>_.
     Inr (ss_bytes entry))))"

definition store_content ::
  "sha \<Rightarrow> bytes \<Rightarrow> read_grant \<Rightarrow> string \<Rightarrow> string \<Rightarrow> system_time \<Rightarrow> store \<Rightarrow> read_error + bytes" where
  "store_content sha token g snapshot_id component_id now s =
     and_then (authorize sha token g now s) (\<lambda>_.
     and_then (scoped_entry g snapshot_id s) (\<lambda>entry.
     and_then (ensure (gr_privilege g = ContentPrivilege) Forbidden) (\<lambda>_.
     and_then (find_component entry component_id) (\<lambda>c.
     and_then (ensure (content_available sha g
         (sp_capture_mode (sn_projection (ss_snapshot entry))) c s) NotFound) (\<lambda>_.
     and_then (ok_or (c_content_ref c) NotFound) (\<lambda>ref.
     ok_or (bt_get (cs_content s) ref) NotFound))))))"

subsection \<open>Comparison\<close>

record compare_result =
  cr_left_snapshot_id :: string
  cr_right_snapshot_id :: string
  cr_same_boundary :: bool
  cr_same_component_order :: bool
  cr_changed_components :: "string list"

definition component_changed :: "component \<Rightarrow> component \<Rightarrow> bool" where
  "component_changed l r \<longleftrightarrow>
     c_component_id l \<noteq> c_component_id r
     \<or> c_ordinal l \<noteq> c_ordinal r
     \<or> c_observed_bytes l \<noteq> c_observed_bytes r
     \<or> c_content_status l \<noteq> c_content_status r
     \<or> c_sha256 l \<noteq> c_sha256 r"

text \<open>One turn of the loop over the positions, with its bound of 128 changes.\<close>

definition compare_push :: "string list \<Rightarrow> bool \<Rightarrow> component \<Rightarrow> string list" where
  "compare_push changed b c = (if b then changed @ [c_component_id c] else changed)"

fun compare_loop :: "string list \<Rightarrow> component list \<Rightarrow> component list \<Rightarrow> string list" where
  "compare_loop changed [] [] = changed"
| "compare_loop changed (l # ls) (r # rs) =
     (let changed' = compare_push changed (component_changed l r) l
      in if length changed' \<ge> 128 then changed' else compare_loop changed' ls rs)"
| "compare_loop changed (l # ls) [] =
     (let changed' = compare_push changed True l
      in if length changed' \<ge> 128 then changed' else compare_loop changed' ls [])"
| "compare_loop changed [] (r # rs) =
     (let changed' = compare_push changed True r
      in if length changed' \<ge> 128 then changed' else compare_loop changed' [] rs)"

definition store_compare ::
  "sha \<Rightarrow> bytes \<Rightarrow> read_grant \<Rightarrow> string \<Rightarrow> string \<Rightarrow> system_time \<Rightarrow> store
     \<Rightarrow> read_error + compare_result" where
  "store_compare sha token g left right now s =
     and_then (store_get sha token g left now s) (\<lambda>left_bytes.
     and_then (store_get sha token g right now s) (\<lambda>right_bytes.
     and_then (ensure (\<not> usize_add (length left_bytes) (length right_bytes)
         > sc_max_compare_bytes (cs_config s)) ReadTooLarge) (\<lambda>_.
     and_then (ok_or (bt_get (cs_entries s) left) NotFound) (\<lambda>l.
     and_then (ok_or (bt_get (cs_entries s) right) NotFound) (\<lambda>r.
     let ls = sn_components (ss_snapshot l); rs = sn_components (ss_snapshot r)
     in Inr \<lparr>cr_left_snapshot_id = left, cr_right_snapshot_id = right,
             cr_same_boundary = (sp_boundary (sn_projection (ss_snapshot l))
                                 = sp_boundary (sn_projection (ss_snapshot r))),
             cr_same_component_order = (length ls = length rs
               \<and> list_all (\<lambda>(a, b). c_ordinal a = c_ordinal b) (zip ls rs)),
             cr_changed_components = compare_loop [] ls rs\<rparr>)))))"

definition compare_for_run ::
  "sha \<Rightarrow> bytes \<Rightarrow> read_grant \<Rightarrow> string \<Rightarrow> string \<Rightarrow> string \<Rightarrow> system_time \<Rightarrow> store
     \<Rightarrow> read_error + compare_result" where
  "compare_for_run sha token g run_id left right now s =
     and_then (ensure (store_valid_id run_id) InvalidScope) (\<lambda>_.
     and_then (authorize sha token g now s) (\<lambda>_.
     and_then (scoped_entry g left s) (\<lambda>l.
     and_then (scoped_entry g right s) (\<lambda>r.
     and_then (ensure (\<not> (id_run_id (sp_identity (sn_projection (ss_snapshot l))) \<noteq> run_id
         \<or> id_run_id (sp_identity (sn_projection (ss_snapshot r))) \<noteq> run_id)) NotFound) (\<lambda>_.
     store_compare sha token g left right now s)))))"

subsection \<open>Event pages\<close>

text \<open>\<open>u64::to_be_bytes\<close>\<close>

definition be_bytes :: "u64 \<Rightarrow> bytes" where
  "be_bytes n = map (\<lambda>i. char_of (unat n div 256 ^ i)) (rev [0..<8])"

definition cursor_prefix :: bytes where
  "cursor_prefix = ''ascension.context-event-cursor.v1'' @ [CHR 0x00]"

text \<open>The updates of a hasher are the hash of their concatenation.\<close>

definition cursor_digest :: "sha \<Rightarrow> read_grant \<Rightarrow> string \<Rightarrow> u64 \<Rightarrow> bytes" where
  "cursor_digest sha g run_id sequence =
     sha (cursor_prefix @ gr_token_digest g
          @ concat (map (\<lambda>value. be_bytes (of_nat (length value)) @ value) [gr_project g, run_id])
          @ be_bytes sequence)"

definition encode_event_cursor :: "sha \<Rightarrow> read_grant \<Rightarrow> string \<Rightarrow> u64 \<Rightarrow> string" where
  "encode_event_cursor sha g run_id sequence =
     ''c1-'' @ dec (unat sequence) @ ''-'' @ hex_bytes (cursor_digest sha g run_id sequence)"

definition decode_event_cursor :: "sha \<Rightarrow> read_grant \<Rightarrow> string \<Rightarrow> string \<Rightarrow> read_error + u64" where
  "decode_event_cursor sha g run_id cursor =
     and_then (ok_or (strip_prefix ''c1-'' cursor) InvalidScope) (\<lambda>value.
     and_then (ok_or (split_once (CHR ''-'') value) InvalidScope) (\<lambda>(sequence_text, _).
     and_then (ok_or (parse_u64 sequence_text) InvalidScope) (\<lambda>sequence.
     if encode_event_cursor sha g run_id sequence \<noteq> cursor then Inl InvalidScope
     else Inr sequence)))"

record event_page =
  pg_events :: "capture_event list"
  pg_next_cursor :: "string option"
  pg_gap :: bool

text \<open>The events of a scope with their ordinals, in the order of the ordinals.\<close>

definition in_scope :: "string \<times> string \<Rightarrow> stored_event \<Rightarrow> (u64 \<times> capture_event) option" where
  "in_scope scope e =
     (case (se_scope e, se_scope_sequence e) of
        (Some sc, Some n) \<Rightarrow>
          if fst sc \<noteq> fst scope \<or> snd sc \<noteq> snd scope then None
          else Some (n, (se_event e)\<lparr>ev_sequence := n\<rparr>)
      | _ \<Rightarrow> None)"

definition scoped_events :: "string \<times> string \<Rightarrow> store \<Rightarrow> (u64 \<times> capture_event) list" where
  "scoped_events scope s =
     sort_key fst (List.map_filter (in_scope scope) (bt_values (cs_events s)))"

definition after_cursor :: "u64 option \<Rightarrow> u64 \<times> capture_event \<Rightarrow> capture_event option" where
  "after_cursor after x =
     (if (case after of None \<Rightarrow> True | Some cursor \<Rightarrow> fst x > cursor) then Some (snd x) else None)"

definition event_page_of ::
  "sha \<Rightarrow> read_grant \<Rightarrow> string \<Rightarrow> nat \<Rightarrow> capture_event list \<Rightarrow> event_page" where
  "event_page_of sha g run_id limit es =
     (if length es > limit
      then \<lparr>pg_events = take limit es,
            pg_next_cursor = Some (encode_event_cursor sha g run_id (ev_sequence (es ! (limit - 1)))),
            pg_gap = False\<rparr>
      else \<lparr>pg_events = es, pg_next_cursor = None, pg_gap = False\<rparr>)"

fun transpose_result :: "('e + 'a) option \<Rightarrow> 'e + 'a option" where
  "transpose_result None = Inr None"
| "transpose_result (Some r) = and_then r (\<lambda>x. Inr (Some x))"

definition store_events ::
  "sha \<Rightarrow> bytes \<Rightarrow> read_grant \<Rightarrow> string \<Rightarrow> string option \<Rightarrow> nat \<Rightarrow> system_time \<Rightarrow> store
     \<Rightarrow> read_error + event_page" where
  "store_events sha token g run_id cursor limit now s =
     and_then (ensure (\<not> (\<not> store_valid_id run_id \<or> limit = 0 \<or> limit > 200)) ReadTooLarge) (\<lambda>_.
     and_then (authorize sha token g now s) (\<lambda>_.
     and_then (ensure (\<not> (case gr_run g of Some r \<Rightarrow> r \<noteq> run_id | None \<Rightarrow> False)) NotFound) (\<lambda>_.
     and_then (transpose_result (map_option (decode_event_cursor sha g run_id) cursor)) (\<lambda>after.
     Inr (event_page_of sha g run_id limit
       (List.map_filter (after_cursor after) (scoped_events (gr_project g, run_id) s)))))))"

end
