(* ===== verification/Store_Steps.thy ===== *)
theory Store_Steps
  imports Context_Store Transitions
begin

text \<open>
  The store as a state machine: one step is any call of a mutating operation, accepted or refused.
  The invariants bound what is retained and tie it to the bytes that were ingested, and the
  ordinals of the events of a scope are dense. What a step stores is never replaced.
\<close>

subsection \<open>Steps\<close>

inductive store_step :: "sha \<Rightarrow> store \<Rightarrow> store \<Rightarrow> bool" for sha where
  ingest: "store_step sha s (snd (ingest sha bs s))"
| append_event: "store_step sha s (snd (append_event sha bs s))"
| ingest_content: "store_step sha s (snd (ingest_content ref bs s))"
| revoke: "store_step sha s (snd (revoke sha token s))"

definition store_start :: "store \<Rightarrow> bool" where
  "store_start s \<longleftrightarrow> with_config (cs_config s) = Inr s"

abbreviation store_steps :: "sha \<Rightarrow> store \<Rightarrow> store \<Rightarrow> bool" where
  "store_steps sha \<equiv> (store_step sha)\<^sup>*\<^sup>*"

abbreviation store_reachable :: "sha \<Rightarrow> store \<Rightarrow> bool" where
  "store_reachable sha \<equiv> reach store_start (store_step sha)"

lemma default_store_starts: "store_start (fresh_store default_config)"
  by (simp add: store_start_def with_config_def default_config_def fresh_store_def
      MAX_SNAPSHOTS_def MAX_MANIFEST_BYTES_def MAX_COMPARE_BYTES_def)

lemma with_config_starts: "with_config config = Inr s \<Longrightarrow> store_start s"
  by (auto simp: store_start_def with_config_def fresh_store_def split: if_splits)

text \<open>The effects of the four operations that change the store.\<close>

definition entry_for :: "sha \<Rightarrow> bytes \<Rightarrow> snapshot \<Rightarrow> stored_snapshot" where
  "entry_for sha bs snap = \<lparr>ss_digest = sha bs, ss_bytes = bs, ss_snapshot = snap\<rparr>"

definition event_for :: "sha \<Rightarrow> bytes \<Rightarrow> capture_event \<Rightarrow> store \<Rightarrow> stored_event" where
  "event_for sha bs ev s =
     \<lparr>se_digest = sha bs, se_event = ev, se_scope = event_scope ev s,
      se_scope_sequence = fst (take_sequence (event_scope ev s) s)\<rparr>"

abbreviation snapshot_key :: "snapshot \<Rightarrow> string" where
  "snapshot_key snap \<equiv> sp_snapshot_id (sn_projection snap)"

lemma ingest_cases:
  obtains (refused) r where "ingest sha bs s = (r, s)"
  | (ingested) snap where "manifest_checks bs s = Inr snap"
      "bt_get (cs_entries s) (snapshot_key snap) = None"
      "bt_len (cs_entries s) < sc_max_snapshots (cs_config s)"
      "ingest sha bs s = (Inr (summary_from snap),
         s\<lparr>cs_entries := bt_insert (snapshot_key snap) (entry_for sha bs snap) (cs_entries s)\<rparr>)"
proof (cases "manifest_checks bs s")
  case (Inl e)
  then show ?thesis using refused by (simp add: ingest_def)
next
  case (Inr snap)
  show ?thesis
  proof (cases "bt_get (cs_entries s) (snapshot_key snap)")
    case None
    then show ?thesis
      using Inr ingested [of snap] refused
      by (cases "bt_len (cs_entries s) < sc_max_snapshots (cs_config s)")
         (simp_all add: ingest_def Let_def entry_for_def)
  next
    case (Some e)
    then show ?thesis
      using Inr refused by (cases "ss_digest e = sha bs") (simp_all add: ingest_def Let_def)
  qed
qed

lemma append_event_cases:
  obtains (refused) r where "append_event sha bs s = (r, s)"
  | (appended) ev where "event_checks bs s = Inr ev" "bt_get (cs_events s) (ev_event_id ev) = None"
      "bt_len (cs_events s) < STORE_MAX_EVENTS"
      "append_event sha bs s = (Inr ev,
         (snd (take_sequence (event_scope ev s) s))\<lparr>cs_events :=
            bt_insert (ev_event_id ev) (event_for sha bs ev s) (cs_events s)\<rparr>)"
proof (cases "event_checks bs s")
  case (Inl e)
  then show ?thesis using refused by (simp add: append_event_def)
next
  case (Inr ev)
  show ?thesis
  proof (cases "bt_get (cs_events s) (ev_event_id ev)")
    case None
    have "cs_events (snd (take_sequence sc s)) = cs_events s" for sc
      by (simp add: take_sequence_def split: option.split)
    then show ?thesis
      using Inr None appended [of ev] refused
      by (cases "bt_len (cs_events s) < STORE_MAX_EVENTS")
         (simp_all add: append_event_def Let_def event_for_def split_beta)
  next
    case (Some e)
    then show ?thesis
      using Inr refused by (cases "se_digest e = sha bs") (simp_all add: append_event_def Let_def)
  qed
qed

lemma store_step_cases [consumes 1, case_names same ingested appended stored revoked]:
  assumes "store_step sha s t"
  obtains "t = s"
  | (ingested) bs snap where "manifest_checks bs s = Inr snap"
      "bt_get (cs_entries s) (snapshot_key snap) = None"
      "bt_len (cs_entries s) < sc_max_snapshots (cs_config s)"
      "t = s\<lparr>cs_entries := bt_insert (snapshot_key snap) (entry_for sha bs snap) (cs_entries s)\<rparr>"
  | (appended) bs ev where "event_checks bs s = Inr ev"
      "bt_get (cs_events s) (ev_event_id ev) = None" "bt_len (cs_events s) < STORE_MAX_EVENTS"
      "t = (snd (take_sequence (event_scope ev s) s))\<lparr>cs_events :=
            bt_insert (ev_event_id ev) (event_for sha bs ev s) (cs_events s)\<rparr>"
  | (stored) ref bs where "store_valid_id ref" "length bs \<le> 16 * MAX_MANIFEST_BYTES"
      "bt_get (cs_content s) ref = None" "bt_len (cs_content s) < MAX_CONTENT_REFS"
      "usize_add (cs_content_bytes s) (length bs) \<le> MAX_CONTENT_BYTES"
      "t = s\<lparr>cs_content_bytes := usize_add (cs_content_bytes s) (length bs),
             cs_content := bt_insert ref bs (cs_content s)\<rparr>"
  | (revoked) token where "token \<noteq> []" "length token \<le> 256"
      "t = s\<lparr>cs_revoked := bt_insert (sha token) () (cs_revoked s)\<rparr>"
  using assms
proof cases
  case (ingest bs)
  then show ?thesis using that(1,2) by (cases rule: ingest_cases [of sha bs s]) auto
next
  case (append_event bs)
  then show ?thesis using that(1,3) by (cases rule: append_event_cases [of sha bs s]) auto
next
  case (ingest_content ref bs)
  have m: "usize_mul MAX_MANIFEST_BYTES 16 = 16 * MAX_MANIFEST_BYTES"
    by (simp add: usize_mul_def MAX_MANIFEST_BYTES_def)
  show ?thesis
    using ingest_content that(1) that(4) [of ref bs]
    by (cases "bt_get (cs_content s) ref") (auto simp: ingest_content_def m split: if_splits)
next
  case (revoke token)
  then show ?thesis using that(1,5) by (auto simp: revoke_def split: if_splits)
qed

lemma take_sequence_fields [simp]:
  "cs_config (snd (take_sequence sc s)) = cs_config s"
  "cs_entries (snd (take_sequence sc s)) = cs_entries s"
  "cs_events (snd (take_sequence sc s)) = cs_events s"
  "cs_content (snd (take_sequence sc s)) = cs_content s"
  "cs_content_bytes (snd (take_sequence sc s)) = cs_content_bytes s"
  "cs_revoked (snd (take_sequence sc s)) = cs_revoked s"
  by (simp_all add: take_sequence_def split: option.split)

end
