(* ===== verification/Store_Invariants.thy ===== *)
theory Store_Invariants
  imports Store_Steps
begin

text \<open>
  What every reachable store satisfies: its bounds, the agreement of what is parsed with what is
  retained, and the dense numbering of the events of a scope.
\<close>

subsection \<open>Retained data\<close>

definition config_ok :: "store_config \<Rightarrow> bool" where
  "config_ok c \<longleftrightarrow>
     0 < sc_max_snapshots c \<and> sc_max_snapshots c \<le> MAX_SNAPSHOTS
     \<and> 0 < sc_max_manifest_bytes c \<and> sc_max_manifest_bytes c \<le> MAX_MANIFEST_BYTES
     \<and> 0 < sc_max_compare_bytes c \<and> sc_max_compare_bytes c \<le> MAX_COMPARE_BYTES"

text \<open>A retained snapshot is what its bytes parse to, filed under its own identifier.\<close>

definition entry_ok :: "sha \<Rightarrow> store_config \<Rightarrow> string \<Rightarrow> stored_snapshot \<Rightarrow> bool" where
  "entry_ok sha c i e \<longleftrightarrow>
     snapshot_parse (ss_bytes e) = Inr (ss_snapshot e) \<and> snapshot_key (ss_snapshot e) = i
     \<and> ss_digest e = sha (ss_bytes e) \<and> length (ss_bytes e) \<le> sc_max_manifest_bytes c
     \<and> \<not> (sp_capture_mode (sn_projection (ss_snapshot e)) = Private \<and> has_content_ref (ss_snapshot e))"

definition entries_ok :: "sha \<Rightarrow> store \<Rightarrow> bool" where
  "entries_ok sha s \<longleftrightarrow>
     config_ok (cs_config s) \<and> bt_len (cs_entries s) \<le> sc_max_snapshots (cs_config s)
     \<and> (\<forall>i e. bt_get (cs_entries s) i = Some e \<longrightarrow> entry_ok sha (cs_config s) i e)"

definition content_ok :: "store \<Rightarrow> bool" where
  "content_ok s \<longleftrightarrow>
     bt_len (cs_content s) \<le> MAX_CONTENT_REFS
     \<and> cs_content_bytes s = sum_list (map length (bt_values (cs_content s)))
     \<and> cs_content_bytes s \<le> MAX_CONTENT_BYTES
     \<and> (\<forall>i b. bt_get (cs_content s) i = Some b \<longrightarrow>
          store_valid_id i \<and> length b \<le> 16 * MAX_MANIFEST_BYTES)"

text \<open>A retained event is what some bytes with its digest parse to, in the scope of its snapshot.\<close>

definition event_ok :: "sha \<Rightarrow> store \<Rightarrow> string \<Rightarrow> stored_event \<Rightarrow> bool" where
  "event_ok sha s i e \<longleftrightarrow>
     (\<exists>bs. parse_event bs = Inr (se_event e) \<and> se_digest e = sha bs)
     \<and> ev_event_id (se_event e) = i
     \<and> (\<forall>k. ev_snapshot_id (se_event e) = Some k \<longrightarrow> bt_contains (cs_entries s) k)
     \<and> se_scope e = event_scope (se_event e) s
     \<and> (se_scope_sequence e = None \<longleftrightarrow> se_scope e = None)"

definition events_ok :: "sha \<Rightarrow> store \<Rightarrow> bool" where
  "events_ok sha s \<longleftrightarrow>
     bt_len (cs_events s) \<le> STORE_MAX_EVENTS
     \<and> (\<forall>i e. bt_get (cs_events s) i = Some e \<longrightarrow> event_ok sha s i e)"

definition store_ok :: "sha \<Rightarrow> store \<Rightarrow> bool" where
  "store_ok sha s \<longleftrightarrow> entries_ok sha s \<and> content_ok s \<and> events_ok sha s"

lemma manifest_checks_InrD:
  assumes "manifest_checks bs s = Inr snap"
  shows "snapshot_parse bs = Inr snap" "length bs \<le> sc_max_manifest_bytes (cs_config s)"
    "\<not> (sp_capture_mode (sn_projection snap) = Private \<and> has_content_ref snap)"
  using assms by (auto simp: manifest_checks_def result_simps)

lemma event_checks_InrD:
  assumes "event_checks bs s = Inr ev"
  shows "parse_event bs = Inr ev" "ev_snapshot_id ev = Some k \<Longrightarrow> bt_contains (cs_entries s) k"
  using assms by (auto simp: event_checks_def result_simps)

lemma entry_for_fields [simp]:
  "ss_digest (entry_for sha bs snap) = sha bs" "ss_bytes (entry_for sha bs snap) = bs"
  "ss_snapshot (entry_for sha bs snap) = snap"
  by (simp_all add: entry_for_def)

lemma event_for_fields [simp]:
  "se_digest (event_for sha bs ev s) = sha bs" "se_event (event_for sha bs ev s) = ev"
  "se_scope (event_for sha bs ev s) = event_scope ev s"
  "se_scope_sequence (event_for sha bs ev s) = map_option (\<lambda>sc. scope_next sc s) (event_scope ev s)"
  by (simp_all add: event_for_def take_sequence_def split: option.split)

lemma entries_ok_step:
  assumes "entries_ok sha s" "store_step sha s t"
  shows "entries_ok sha t"
  using assms(2)
proof (cases rule: store_step_cases)
  case (ingested bs snap)
  then show ?thesis
    using assms(1) manifest_checks_InrD [OF ingested(1)]
    by (auto simp: entries_ok_def entry_ok_def bt_len_insert bt_contains_def)
qed (use assms(1) in \<open>simp_all add: entries_ok_def\<close>)

lemma usize_add_exact: "usize_add a b \<le> MAX_CONTENT_BYTES \<Longrightarrow> usize_add a b = a + b"
  by (auto simp: usize_add_def MAX_CONTENT_BYTES_def)

lemma content_ok_step:
  assumes "content_ok s" "store_step sha s t"
  shows "content_ok t"
  using assms(2)
proof (cases rule: store_step_cases)
  case (stored ref bs)
  have "sum_list (map length (bt_values (bt_insert ref bs (cs_content s)))) =
      sum_mset (image_mset length (mset (bt_values (bt_insert ref bs (cs_content s)))))"
    by (simp flip: sum_mset_sum_list)
  also have "\<dots> = length bs + sum_list (map length (bt_values (cs_content s)))"
    by (simp add: mset_bt_values_insert [OF stored(3)] flip: sum_mset_sum_list)
  finally have "sum_list (map length (bt_values (bt_insert ref bs (cs_content s)))) =
      length bs + sum_list (map length (bt_values (cs_content s)))" .
  then show ?thesis
    using assms(1) stored usize_add_exact [OF stored(5)]
    by (simp add: content_ok_def bt_len_insert bt_contains_def)
qed (use assms(1) in \<open>simp_all add: content_ok_def\<close>)

lemma event_scope_kept:
  assumes "\<And>k. ev_snapshot_id ev = Some k \<Longrightarrow> bt_contains (cs_entries s) k"
    and "\<And>k e. bt_get (cs_entries s) k = Some e \<Longrightarrow> bt_get (cs_entries t) k = Some e"
  shows "event_scope ev t = event_scope ev s"
proof (cases "ev_snapshot_id ev")
  case (Some k)
  with assms obtain e where "bt_get (cs_entries s) k = Some e" "bt_get (cs_entries t) k = Some e"
    by (auto simp: bt_contains_get)
  with Some show ?thesis by (simp add: event_scope_def)
qed (simp add: event_scope_def)

lemma entries_written:
  "store_step sha s t \<Longrightarrow> bt_get (cs_entries s) k = Some e \<Longrightarrow> bt_get (cs_entries t) k = Some e"
  by (cases rule: store_step_cases) auto

lemma events_written:
  "store_step sha s t \<Longrightarrow> bt_get (cs_events s) k = Some e \<Longrightarrow> bt_get (cs_events t) k = Some e"
  by (cases rule: store_step_cases) auto

lemma content_written:
  "store_step sha s t \<Longrightarrow> bt_get (cs_content s) k = Some e \<Longrightarrow> bt_get (cs_content t) k = Some e"
  by (cases rule: store_step_cases) auto

lemma revoked_written:
  "store_step sha s t \<Longrightarrow> bt_get (cs_revoked s) k = Some e \<Longrightarrow> bt_get (cs_revoked t) k = Some e"
  by (cases rule: store_step_cases) auto

lemma event_ok_kept: "event_ok sha s i e \<Longrightarrow> store_step sha s t \<Longrightarrow> event_ok sha t i e"
  using event_scope_kept [of "se_event e" s t] entries_written [of sha s t]
  by (auto simp: event_ok_def bt_contains_get)

lemma event_scope_same: "cs_entries t = cs_entries s \<Longrightarrow> event_scope ev t = event_scope ev s"
  by (simp add: event_scope_def)

lemma events_ok_step:
  assumes "events_ok sha s" "store_step sha s t"
  shows "events_ok sha t"
proof -
  have kept: "event_ok sha t i e" if "bt_get (cs_events s) i = Some e" for i e
    using assms(1) that by (auto simp: events_ok_def intro: event_ok_kept [OF _ assms(2)])
  from assms(2) show ?thesis
  proof (cases rule: store_step_cases)
    case (appended bs ev)
    have ent: "cs_entries t = cs_entries s" using appended(4) by simp
    have "event_ok sha t (ev_event_id ev) (event_for sha bs ev s)"
      using event_checks_InrD [OF appended(1)]
      by (auto simp: event_ok_def event_scope_same [OF ent] ent)
    then show ?thesis
      using assms(1) kept appended by (auto simp: events_ok_def bt_len_insert bt_contains_def)
  qed (use assms(1) kept in \<open>auto simp: events_ok_def\<close>)
qed

lemma store_start_fresh: "store_start s \<Longrightarrow> s = fresh_store (cs_config s) \<and> config_ok (cs_config s)"
  by (auto simp: store_start_def with_config_def config_ok_def split: if_splits)

lemma fresh_store_ok: "config_ok c \<Longrightarrow> store_ok sha (fresh_store c)"
  by (simp add: store_ok_def entries_ok_def content_ok_def events_ok_def fresh_store_def)

lemma store_ok_start: "store_start s \<Longrightarrow> store_ok sha s"
  using store_start_fresh [of s] fresh_store_ok [of "cs_config s" sha] by (simp only:)

interpretation kept: invariant store_start "store_step sha" "store_ok sha" for sha
proof
  fix s t
  show "store_start s \<Longrightarrow> store_ok sha s" by (rule store_ok_start)
  show "store_ok sha s \<Longrightarrow> store_step sha s t \<Longrightarrow> store_ok sha t"
    by (auto simp: store_ok_def intro: entries_ok_step content_ok_step events_ok_step)
qed

subsection \<open>The ordinals of a scope\<close>

definition scope_members :: "string \<times> string \<Rightarrow> store \<Rightarrow> (u64 \<times> capture_event) list" where
  "scope_members sc s = List.map_filter (in_scope sc) (bt_values (cs_events s))"

definition scope_numbered :: "store \<Rightarrow> bool" where
  "scope_numbered s \<longleftrightarrow> (\<forall>sc. mset (map fst (scope_members sc s)) =
     mset (map of_nat [0..<unat (scope_next sc s)]))"

lemma scope_numbered_members:
  "scope_numbered s \<Longrightarrow>
   mset (map fst (scope_members sc s)) = mset (map of_nat [0..<unat (scope_next sc s)])"
  by (simp only: scope_numbered_def)

lemma mset_map_filter:
  "mset (List.map_filter f xs) = image_mset (\<lambda>x. the (f x)) {#x \<in># mset xs. f x \<noteq> None#}"
  by (simp add: List.map_filter_def comp_def)

lemma length_map_filter_le: "length (List.map_filter f xs) \<le> length xs"
  by (simp add: List.map_filter_def)

lemma scope_next_le:
  assumes "scope_numbered s"
  shows "unat (scope_next sc s) \<le> bt_len (cs_events s)"
proof -
  have "size (mset (map fst (scope_members sc s))) = unat (scope_next sc s)"
    using scope_numbered_members [OF assms, of sc] by simp
  then show ?thesis
    using length_map_filter_le [of "in_scope sc" "bt_values (cs_events s)"]
    by (simp add: scope_members_def bt_len_def bt_values_def)
qed

lemma in_scope_event_for:
  "in_scope sc (event_for sha bs ev s) =
     (if event_scope ev s = Some sc then Some (scope_next sc s, ev\<lparr>ev_sequence := scope_next sc s\<rparr>)
      else None)"
  by (cases "event_scope ev s") (auto simp: in_scope_def prod_eq_iff)

lemma scope_next_take:
  "scope_next sc ((snd (take_sequence scope s))\<lparr>cs_events := es\<rparr>) =
     (if scope = Some sc then sat_add (scope_next sc s) 1 else scope_next sc s)"
  by (auto simp: scope_next_def take_sequence_def split: option.split)

lemma scope_members_appended:
  assumes "bt_get (cs_events s) k = None" "cs_events t = bt_insert k e (cs_events s)"
  shows "mset (scope_members sc t) =
    (case in_scope sc e of None \<Rightarrow> mset (scope_members sc s)
     | Some x \<Rightarrow> add_mset x (mset (scope_members sc s)))"
  by (simp add: scope_members_def mset_map_filter assms(2) mset_bt_values_insert [OF assms(1)]
      split: option.split)

lemma scope_numbered_step:
  assumes "events_ok sha s" "scope_numbered s" "store_step sha s t"
  shows "scope_numbered t"
  using assms(3)
proof (cases rule: store_step_cases)
  case (appended bs ev)
  show ?thesis
    unfolding scope_numbered_def
  proof
    fix sc
    have "unat (scope_next sc s) < 2 ^ 64 - 1"
      using scope_next_le [OF assms(2), of sc] appended(3) by (simp add: STORE_MAX_EVENTS_def)
    then have inc: "unat (sat_add (scope_next sc s) 1) = Suc (unat (scope_next sc s))"
      by (simp add: unat_sat_add)
    have "cs_events t = bt_insert (ev_event_id ev) (event_for sha bs ev s) (cs_events s)"
      using appended(4) by simp
    note members = scope_members_appended [OF appended(2) this, of sc]
    show "mset (map fst (scope_members sc t)) = mset (map of_nat [0..<unat (scope_next sc t)])"
      using members inc scope_numbered_members [OF assms(2), of sc]
      by (simp add: appended(4) scope_next_take in_scope_event_for atLeast0_lessThan_Suc)
  qed
qed (use assms(2) in \<open>simp_all add: scope_numbered_def scope_members_def scope_next_def\<close>)

lemma scope_numbered_start:
  assumes "store_start s"
  shows "scope_numbered s"
proof -
  have "scope_numbered (fresh_store c)" for c
    by (simp add: scope_numbered_def scope_members_def scope_next_def fresh_store_def
        List.map_filter_def)
  then show ?thesis using store_start_fresh [OF assms] by metis
qed

interpretation scope_numbered: relative_invariant store_start "store_step sha" "store_ok sha" scope_numbered
  for sha
proof
  fix s t
  show "store_start s \<Longrightarrow> scope_numbered s" by (rule scope_numbered_start)
  show "store_ok sha s \<Longrightarrow> scope_numbered s \<Longrightarrow> store_step sha s t \<Longrightarrow> scope_numbered t"
    unfolding store_ok_def by (blast intro: scope_numbered_step)
qed

text \<open>In the order of their ordinals, the events of a scope are scope_numbered from 0 without gaps.\<close>

lemma sorted_mset_eq: "sorted xs \<Longrightarrow> sorted ys \<Longrightarrow> mset xs = mset ys \<Longrightarrow> xs = ys"
  by (metis properties_for_sort sorted_sort_id)

lemma sorted_of_nat: "n \<le> 2 ^ 64 \<Longrightarrow> sorted (map (of_nat :: nat \<Rightarrow> u64) [0..<n])"
  by (simp add: sorted_iff_nth_mono word_le_nat_alt unsigned_of_nat take_bit_nat_eq_self)

lemma scoped_events_members: "scoped_events sc s = sort_key fst (scope_members sc s)"
  by (simp add: scoped_events_def scope_members_def)

lemma scoped_ordinals:
  assumes "scope_numbered s"
  shows "map fst (scoped_events sc s) = map of_nat [0..<unat (scope_next sc s)]"
proof (rule sorted_mset_eq)
  show "sorted (map fst (scoped_events sc s))"
    by (simp add: scoped_events_members)
  show "sorted (map (of_nat :: nat \<Rightarrow> u64) [0..<unat (scope_next sc s)])"
    using unat_lt_64 [of "scope_next sc s"] by (intro sorted_of_nat) simp
  show "mset (map fst (scoped_events sc s)) = mset (map of_nat [0..<unat (scope_next sc s)])"
    using scope_numbered_members [OF assms, of sc] by (simp add: scoped_events_members)
qed

lemma length_scoped_events: "scope_numbered s \<Longrightarrow> length (scoped_events sc s) = unat (scope_next sc s)"
  using arg_cong [OF scoped_ordinals, of s length sc] by simp

lemma scoped_events_nth:
  assumes "scope_numbered s" "k < length (scoped_events sc s)"
  shows "fst (scoped_events sc s ! k) = of_nat k"
  using assms arg_cong [OF scoped_ordinals [OF assms(1), of sc], of "\<lambda>xs. xs ! k"]
  by (simp add: length_scoped_events)

lemma scoped_events_sequence:
  assumes "x \<in> set (scoped_events sc s)"
  shows "ev_sequence (snd x) = fst x"
  using assms
  by (auto simp: scoped_events_def List.map_filter_def in_scope_def split: option.splits if_splits)

end
