(* ===== verification/Store_Reads.thy ===== *)
theory Store_Reads
  imports Store_Invariants
begin

text \<open>
  What the store keeps for good, what a reader is given, and the archive that the store implements:
  manifests and contents that are written once, one journal per scope that only grows, and a set
  of revoked tokens.
\<close>

subsection \<open>Written once\<close>

interpretation entry: write_once store_start "store_step sha" "\<lambda>s. bt_get (cs_entries s)" for sha
  by unfold_locales (rule entries_written)

interpretation event: write_once store_start "store_step sha" "\<lambda>s. bt_get (cs_events s)" for sha
  by unfold_locales (rule events_written)

interpretation content: write_once store_start "store_step sha" "\<lambda>s. bt_get (cs_content s)" for sha
  by unfold_locales (rule content_written)

interpretation revoked: write_once store_start "store_step sha" "\<lambda>s. bt_get (cs_revoked s)" for sha
  by unfold_locales (rule revoked_written)

lemma sorted_by_key_eq:
  assumes "sorted (map f xs)" "sorted (map f ys)" "distinct (map f xs)" "mset xs = mset ys"
  shows "xs = ys"
proof (rule map_sorted_distinct_set_unique)
  have "set xs = set ys" using assms(4) by (rule mset_eq_setD)
  then show "set xs = set ys" "inj_on f (set xs \<union> set ys)"
    using assms(3) by (simp_all add: distinct_map)
  have "mset (map f xs) = mset (map f ys)" using assms(4) by simp
  then show "distinct (map f ys)" using assms(3) by (metis mset_eq_imp_distinct_iff)
qed (rule assms)+

lemma distinct_of_nat: "n \<le> 2 ^ 64 \<Longrightarrow> distinct (map (of_nat :: nat \<Rightarrow> u64) [0..<n])"
  by (auto simp: distinct_map inj_on_def word_unat_eq_iff unsigned_of_nat take_bit_nat_eq_self)

lemma scoped_keys:
  assumes "scope_numbered s"
  shows "sorted (map fst (scoped_events sc s))" "distinct (map fst (scoped_events sc s))"
  unfolding scoped_ordinals [OF assms]
  using unat_lt_64 [of "scope_next sc s"] by (intro sorted_of_nat distinct_of_nat; simp)+

lemma scoped_events_same:
  assumes "scope_numbered t" "mset (scope_members sc t) = mset (scope_members sc s)"
  shows "scoped_events sc t = scoped_events sc s"
  by (rule sorted_by_key_eq [of fst]) (use scoped_keys [OF assms(1)] assms(2) in
      \<open>simp_all add: scoped_events_members\<close>)

lemma scoped_events_snoc:
  assumes "scope_numbered s" "scope_numbered t" "fst x = scope_next sc s"
    and "unat (scope_next sc s) < 2 ^ 64"
    and "mset (scope_members sc t) = add_mset x (mset (scope_members sc s))"
  shows "scoped_events sc t = scoped_events sc s @ [x]"
proof (rule sorted_by_key_eq [of fst])
  show "sorted (map fst (scoped_events sc t))" "distinct (map fst (scoped_events sc t))"
    by (rule scoped_keys [OF assms(2)])+
  have "map fst (scoped_events sc s @ [x]) = map of_nat [0..<Suc (unat (scope_next sc s))]"
    by (simp add: scoped_ordinals [OF assms(1)] assms(3))
  also have "sorted \<dots>" using assms(4) by (intro sorted_of_nat) simp
  finally show "sorted (map fst (scoped_events sc s @ [x]))" .
  show "mset (scoped_events sc t) = mset (scoped_events sc s @ [x])"
    by (simp add: scoped_events_members assms(5))
qed

lemma journal_step:
  assumes "store_reachable sha s" "store_step sha s t"
  shows "scoped_events sc t = scoped_events sc s
    \<or> (\<exists>ev. scoped_events sc t = scoped_events sc s @ [(scope_next sc s, ev)]
        \<and> ev_sequence ev = scope_next sc s
        \<and> (\<forall>sc'. sc' \<noteq> sc \<longrightarrow> scoped_events sc' t = scoped_events sc' s)
        \<and> cs_entries t = cs_entries s \<and> cs_content t = cs_content s \<and> cs_revoked t = cs_revoked s)"
proof -
  have num: "scope_numbered s" "scope_numbered t"
    by (rule scope_numbered.rel_holds, rule assms(1))
      (rule scope_numbered.rel_holds, rule reach.step [OF assms])
  from assms(2) show ?thesis
  proof (cases rule: store_step_cases)
    case (appended bs ev)
    have ins: "cs_events t = bt_insert (ev_event_id ev) (event_for sha bs ev s) (cs_events s)"
      using appended(4) by simp
    note members = scope_members_appended [OF appended(2) ins]
    have other: "scoped_events sc' t = scoped_events sc' s" if "event_scope ev s \<noteq> Some sc'" for sc'
      using scoped_events_same [OF num(2)] members [of sc'] that by (simp add: in_scope_event_for)
    have own: "scoped_events sc t = scoped_events sc s
        @ [(scope_next sc s, ev\<lparr>ev_sequence := scope_next sc s\<rparr>)]" if "event_scope ev s = Some sc"
      by (rule scoped_events_snoc [OF num]) (use members [of sc] that unat_lt_64 in
          \<open>simp_all add: in_scope_event_for\<close>)
    show ?thesis
    proof (cases "event_scope ev s = Some sc")
      case True
      then show ?thesis
        using own other appended(4)
        by (intro disjI2 exI [of _ "ev\<lparr>ev_sequence := scope_next sc s\<rparr>"]) auto
    qed (simp add: other)
  qed (simp_all add: scoped_events_def)
qed

definition scope_journal :: "store \<Rightarrow> (string \<times> string) \<times> nat \<Rightarrow> capture_event option" where
  "scope_journal s p = (let es = scoped_events (fst p) s
                  in if snd p < length es then Some (snd (es ! snd p)) else None)"

interpretation scope_journal: write_once store_start "store_step sha" scope_journal for sha
proof
  fix s t :: store and p v
  assume "store_reachable sha s" "scope_journal s p = Some v" "store_step sha s t"
  then show "scope_journal t p = Some v"
    using journal_step [of sha s t "fst p"]
    by (auto simp: scope_journal_def Let_def nth_append split: if_splits)
qed

subsection \<open>Event pages\<close>

lemma filter_drop:
  assumes "\<And>i. i < length xs \<Longrightarrow> P (xs ! i) \<longleftrightarrow> k \<le> i"
  shows "filter P xs = drop k xs"
proof -
  have "filter P (take k xs) = []"
    using assms by (auto simp: filter_empty_conv in_set_conv_nth)
  moreover have "filter P (drop k xs) = drop k xs"
    using assms by (auto simp: filter_id_conv in_set_conv_nth)
  ultimately show ?thesis
    by (metis append_Nil append_take_drop_id filter_append)
qed

lemma after_cursor_None: "List.map_filter (after_cursor None) xs = map snd xs"
  by (simp add: List.map_filter_def after_cursor_def)

lemma after_cursor_filter:
  "List.map_filter (after_cursor (Some n)) xs = map snd (filter (\<lambda>x. n < fst x) xs)"
  by (induction xs) (simp_all add: List.map_filter_def after_cursor_def)

lemma after_cursor_Some:
  assumes "scope_numbered s"
  shows "List.map_filter (after_cursor (Some n)) (scoped_events sc s) =
    map snd (drop (Suc (unat n)) (scoped_events sc s))"
proof -
  have "n < fst (scoped_events sc s ! i) \<longleftrightarrow> Suc (unat n) \<le> i"
    if "i < length (scoped_events sc s)" for i
  proof -
    have "i < 2 ^ 64"
      using that unat_lt_64 [of "scope_next sc s"] by (simp add: length_scoped_events [OF assms])
    then show ?thesis
      using scoped_events_nth [OF assms that]
      by (simp add: word_less_nat_alt unsigned_of_nat take_bit_nat_eq_self Suc_le_eq)
  qed
  then have "filter (\<lambda>x. n < fst x) (scoped_events sc s) = drop (Suc (unat n)) (scoped_events sc s)"
    by (rule filter_drop)
  then show ?thesis
    by (simp add: after_cursor_filter)
qed

lemma page_of_window:
  assumes "scope_numbered s" "0 < limit"
  shows "event_page_of sha g run limit (map snd (drop k (scoped_events sc s))) =
    \<lparr>pg_events = take limit (drop k (map snd (scoped_events sc s))),
     pg_next_cursor = (if k + limit < length (scoped_events sc s)
                       then Some (encode_event_cursor sha g run (of_nat (k + limit - 1))) else None),
     pg_gap = False\<rparr>"
proof (cases "k + limit < length (scoped_events sc s)")
  case True
  have i: "k + (limit - 1) < length (scoped_events sc s)" using True by simp
  then have "ev_sequence (snd (scoped_events sc s ! (k + (limit - 1)))) = of_nat (k + limit - 1)"
    using scoped_events_sequence [OF nth_mem [OF i]] scoped_events_nth [OF assms(1) i] assms(2)
    by simp
  then show ?thesis
    using True i assms(2) by (simp add: event_page_of_def drop_map less_diff_conv add.commute)
qed (simp add: event_page_of_def drop_map)

subsection \<open>Cursors\<close>

lemma dash_not_digit: "\<not> ascii_digit (bv (CHR ''-''))"
  by code_simp

lemma decode_cursor_iff:
  "decode_event_cursor sha g run cursor = Inr n \<longleftrightarrow> cursor = encode_event_cursor sha g run n"
proof
  assume "decode_event_cursor sha g run cursor = Inr n"
  then show "cursor = encode_event_cursor sha g run n"
    by (auto simp: decode_event_cursor_def result_simps split: if_splits)
next
  assume c: "cursor = encode_event_cursor sha g run n"
  have "split_once (CHR ''-'') (dec (unat n) @ CHR ''-'' # hex_bytes (cursor_digest sha g run n)) =
      Some (dec (unat n), hex_bytes (cursor_digest sha g run n))"
    by (intro split_once_append digits_avoid dec_digits dash_not_digit)
  moreover have "parse_u64 (dec (unat n)) = Some n"
    using unat_lt_64 [of n] by (simp add: parse_u64_dec)
  moreover have "strip_prefix ''c1-'' cursor =
      Some (dec (unat n) @ CHR ''-'' # hex_bytes (cursor_digest sha g run n))"
    using strip_prefix_append [of "''c1-''"] by (simp add: c encode_event_cursor_def)
  ultimately show "decode_event_cursor sha g run cursor = Inr n"
    by (simp add: decode_event_cursor_def c)
qed

subsection \<open>Authority\<close>

text \<open>A bearer who presents the token of an unexpired grant that nobody has revoked.\<close>

definition authorised :: "sha \<Rightarrow> bytes \<Rightarrow> read_grant \<Rightarrow> system_time \<Rightarrow> store \<Rightarrow> bool" where
  "authorised sha token g now s \<longleftrightarrow>
     token \<noteq> [] \<and> length token \<le> 256 \<and> sha token = gr_token_digest g
     \<and> epoch_seconds now < gr_expires_at g \<and> \<not> bt_contains (cs_revoked s) (gr_token_digest g)"

lemma authorize_Inr_iff [simp]: "authorize sha token g now s = Inr u \<longleftrightarrow> authorised sha token g now s"
  by (auto simp: authorize_def authorised_def valid_token_def not_le)

lemma authorize_cases: "authorize sha token g now s =
    (if authorised sha token g now s then Inr ()
     else Inl (if epoch_seconds now \<ge> gr_expires_at g then GrantExpired else Forbidden))"
  by (auto simp: authorize_def authorised_def valid_token_def not_le)

lemma scoped_entry_Inr_iff [simp]:
  "scoped_entry g i s = Inr e \<longleftrightarrow>
     bt_get (cs_entries s) i = Some e \<and> permits_scope g (sn_projection (ss_snapshot e))"
  by (auto simp: scoped_entry_def result_simps)

text \<open>The entries that a grant gives access to.\<close>

definition visible :: "read_grant \<Rightarrow> string \<Rightarrow> stored_snapshot \<Rightarrow> store \<Rightarrow> bool" where
  "visible g i e s \<longleftrightarrow>
     bt_get (cs_entries s) i = Some e \<and> permits_scope g (sn_projection (ss_snapshot e))"

lemma store_get_Inr_iff:
  "store_get sha token g i now s = Inr bs \<longleftrightarrow>
     authorised sha token g now s
     \<and> (\<exists>e. visible g i e s \<and> bs = ss_bytes e
          \<and> \<not> (gr_privilege g = MetadataPrivilege \<and> has_content_ref (ss_snapshot e)))"
  by (auto simp: store_get_def result_simps visible_def)

lemma store_component_InrD:
  assumes "store_component sha token g i c now s = Inr r"
  shows "authorised sha token g now s" "\<exists>e. visible g i e s"
  using assms by (auto simp: store_component_def result_simps visible_def)

lemma content_available_iff:
  "content_available sha g mode c s \<longleftrightarrow>
     (\<exists>ref expected bytes. c_content_ref c = Some ref \<and> c_sha256 c = Some expected
        \<and> gr_privilege g = ContentPrivilege \<and> mode \<noteq> Private \<and> c_content_status c \<noteq> Expired
        \<and> bt_get (cs_content s) ref = Some bytes \<and> hex_bytes (sha bytes) = expected)"
  by (auto simp: content_available_def split: option.splits)

lemma store_content_Inr_iff:
  "store_content sha token g i k now s = Inr bs \<longleftrightarrow>
     authorised sha token g now s
     \<and> (\<exists>e c ref. visible g i e s \<and> find_component e k = Inr c \<and> c_content_ref c = Some ref
          \<and> bt_get (cs_content s) ref = Some bs
          \<and> content_available sha g (sp_capture_mode (sn_projection (ss_snapshot e))) c s)"
  by (auto simp: store_content_def result_simps visible_def content_available_iff)

lemma list_loop_take:
  assumes "length result < limit"
  shows "list_loop g limit result es =
    take limit (result @ map (\<lambda>e. summary_from (ss_snapshot e))
      (filter (\<lambda>e. permits_scope g (sn_projection (ss_snapshot e))) es))"
  using assms
proof (induction es arbitrary: result)
  case (Cons e es)
  then show ?case
    using Cons.IH [of "result @ [summary_from (ss_snapshot e)]"] by (auto simp: Let_def)
qed simp

lemma store_list_Inr_iff:
  "store_list sha token g now limit s = Inr ss \<longleftrightarrow>
     0 < limit \<and> limit \<le> 200 \<and> authorised sha token g now s
     \<and> ss = take limit (map (\<lambda>e. summary_from (ss_snapshot e))
           (filter (\<lambda>e. permits_scope g (sn_projection (ss_snapshot e)))
              (bt_values (cs_entries s))))"
  by (auto simp: store_list_def result_simps list_loop_take)

subsection \<open>Comparison\<close>

text \<open>
  The reference for a comparison: the positions at which the two component lists differ, each
  under the component's name on the left, or on the right past the end of the left list.
\<close>

definition differs_at :: "component list \<Rightarrow> component list \<Rightarrow> nat \<Rightarrow> bool" where
  "differs_at ls rs i \<longleftrightarrow>
     \<not> (i < length ls \<and> i < length rs \<and> \<not> component_changed (ls ! i) (rs ! i))"

definition name_at :: "component list \<Rightarrow> component list \<Rightarrow> nat \<Rightarrow> string" where
  "name_at ls rs i = c_component_id (if i < length ls then ls ! i else rs ! i)"

definition changed_positions :: "component list \<Rightarrow> component list \<Rightarrow> string list" where
  "changed_positions ls rs =
     map (name_at ls rs) (filter (differs_at ls rs) [0..<max (length ls) (length rs)])"

lemma upt_Suc_map: "[0..<Suc n] = 0 # map Suc [0..<n]"
  by (simp add: upt_conv_Cons map_Suc_upt del: upt_Suc)

lemma changed_positions_Nil [simp]: "changed_positions [] [] = []"
  by (simp add: changed_positions_def)

lemma differs_at_simps:
  "differs_at (l # ls) (r # rs) 0 = component_changed l r"
  "differs_at (l # ls) (r # rs) (Suc i) = differs_at ls rs i"
  "differs_at ls [] i" "differs_at [] rs i"
  by (auto simp: differs_at_def)

lemma name_at_simps:
  "name_at (l # ls) rs 0 = c_component_id l"
  "name_at [] (r # rs) 0 = c_component_id r"
  "name_at (l # ls) (r # rs) (Suc i) = name_at ls rs i"
  "name_at [] (r # rs) (Suc i) = name_at [] rs i"
  "i < length ls \<Longrightarrow> name_at (l # ls) [] (Suc i) = name_at ls [] i"
  by (simp_all add: name_at_def)

lemma changed_positions_Cons [simp]:
  "changed_positions (l # ls) (r # rs) =
     (if component_changed l r then [c_component_id l] else []) @ changed_positions ls rs"
  "changed_positions (l # ls) [] = c_component_id l # changed_positions ls []"
  "changed_positions [] (r # rs) = c_component_id r # changed_positions [] rs"
  by (simp_all add: changed_positions_def upt_Suc_map differs_at_simps name_at_simps filter_map
      comp_def del: upt_Suc)

lemma changed_positions_same: "changed_positions ls ls = []"
  by (induction ls) (simp_all add: component_changed_def)

lemma length_changed_positions: "length (changed_positions ls rs) \<le> max (length ls) (length rs)"
  by (simp add: changed_positions_def)
     (metis diff_zero length_filter_le length_upt max_def)

lemma compare_loop_positions:
  assumes "length acc < 128"
  shows "compare_loop acc ls rs = take 128 (acc @ changed_positions ls rs)"
  using assms
  by (induction acc ls rs rule: compare_loop.induct) (auto simp: Let_def compare_push_def take_Cons')

end
