(* ===== verification/Store_Archive.thy ===== *)
theory Store_Archive
  imports Store_Reads
begin

text \<open>
  The specification of the store, without parsed snapshots, digests, ordinals or capacities: an
  archive of manifests and contents that are written once, one journal per agent and run that
  only grows, and a set of revoked tokens. The store simulates it, and a manifest read computes
  what the archive says.
\<close>

record archive =
  ar_manifests :: "string \<Rightarrow> bytes option"
  ar_contents :: "string \<Rightarrow> bytes option"
  ar_journals :: "string \<times> string \<Rightarrow> capture_event list"
  ar_revoked :: "bytes set"

definition empty_archive :: archive where
  "empty_archive = \<lparr>ar_manifests = (\<lambda>_. None), ar_contents = (\<lambda>_. None), ar_journals = (\<lambda>_. []),
     ar_revoked = {}\<rparr>"

text \<open>
  A manifest is published under the identifier that it carries; the private content rule holds on
  entry; an event takes the next position of its journal.
\<close>

inductive archive_step :: "archive \<Rightarrow> archive \<Rightarrow> bool" where
  publish: "snapshot_parse bs = Inr snap \<Longrightarrow> ar_manifests a (snapshot_key snap) = None \<Longrightarrow>
    \<not> (sp_capture_mode (sn_projection snap) = Private \<and> has_content_ref snap) \<Longrightarrow>
    archive_step a (a\<lparr>ar_manifests := (ar_manifests a)(snapshot_key snap \<mapsto> bs)\<rparr>)"
| retain: "store_valid_id ref \<Longrightarrow> ar_contents a ref = None \<Longrightarrow>
    archive_step a (a\<lparr>ar_contents := (ar_contents a)(ref \<mapsto> bs)\<rparr>)"
| enter: "ev_sequence ev = of_nat (length (ar_journals a scope)) \<Longrightarrow>
    archive_step a (a\<lparr>ar_journals := (ar_journals a)(scope := ar_journals a scope @ [ev])\<rparr>)"
| withdraw: "archive_step a (a\<lparr>ar_revoked := insert d (ar_revoked a)\<rparr>)"

definition archive_of :: "store \<Rightarrow> archive" where
  "archive_of s =
     \<lparr>ar_manifests = (\<lambda>i. map_option ss_bytes (bt_get (cs_entries s) i)),
      ar_contents = bt_get (cs_content s),
      ar_journals = (\<lambda>scope. map snd (scoped_events scope s)),
      ar_revoked = {d. bt_contains (cs_revoked s) d}\<rparr>"

definition archive_get ::
  "sha \<Rightarrow> bytes \<Rightarrow> read_grant \<Rightarrow> string \<Rightarrow> system_time \<Rightarrow> archive \<Rightarrow> read_error + bytes" where
  "archive_get sha token g i now a =
     (if \<not> valid_token sha token g now \<or> gr_token_digest g \<in> ar_revoked a
      then Inl (if epoch_seconds now \<ge> gr_expires_at g then GrantExpired else Forbidden)
      else case ar_manifests a i of
        None \<Rightarrow> Inl NotFound
      | Some bs \<Rightarrow>
          (case snapshot_parse bs of
             Inl e \<Rightarrow> Inl NotFound
           | Inr snap \<Rightarrow>
               if \<not> permits_scope g (sn_projection snap) then Inl NotFound
               else if gr_privilege g = MetadataPrivilege \<and> has_content_ref snap then Inl Forbidden
               else Inr bs))"

lemma scoped_events_frame [simp]:
  "scoped_events scope (s\<lparr>cs_entries := x\<rparr>) = scoped_events scope s"
  "scoped_events scope (s\<lparr>cs_content_bytes := n, cs_content := y\<rparr>) = scoped_events scope s"
  "scoped_events scope (s\<lparr>cs_revoked := z\<rparr>) = scoped_events scope s"
  by (simp_all add: scoped_events_def)

lemma archive_of_start: "store_start s \<Longrightarrow> archive_of s = empty_archive"
proof -
  have "archive_of (fresh_store c) = empty_archive" for c
    by (simp add: archive_of_def empty_archive_def fresh_store_def scoped_events_def
        List.map_filter_def bt_contains_def fun_eq_iff)
  then show "store_start s \<Longrightarrow> ?thesis" using store_start_fresh by metis
qed

lemma archive_of_step:
  assumes "store_reachable sha s" "store_step sha s t"
  shows "archive_of t = archive_of s \<or> archive_step (archive_of s) (archive_of t)"
  using assms(2)
proof (cases rule: store_step_cases)
  case (ingested bs snap)
  have eq: "archive_of t = (archive_of s)\<lparr>ar_manifests :=
      (ar_manifests (archive_of s))(snapshot_key snap \<mapsto> bs)\<rparr>"
    by (simp add: archive_of_def ingested(4) fun_eq_iff)
  have "ar_manifests (archive_of s) (snapshot_key snap) = None"
    by (simp add: archive_of_def ingested(2))
  then show ?thesis
    unfolding eq
    by (intro disjI2 archive_step.publish manifest_checks_InrD [OF ingested(1)])
next
  case (appended bs ev)
  have frame: "cs_entries t = cs_entries s" "cs_content t = cs_content s"
    "cs_revoked t = cs_revoked s"
    by (simp_all add: appended(4))
  show ?thesis
  proof (cases "\<forall>scope. scoped_events scope t = scoped_events scope s")
    case True
    then have "(\<lambda>scope. map snd (scoped_events scope t)) = (\<lambda>scope. map snd (scoped_events scope s))"
      by (simp only: fun_eq_iff simp_thms)
    then show ?thesis by (simp add: archive_of_def frame)
  next
    case False
    then obtain scope e where e: "scoped_events scope t = scoped_events scope s @ [(scope_next scope s, e)]"
        "ev_sequence e = scope_next scope s"
      "\<And>other. other \<noteq> scope \<Longrightarrow> scoped_events other t = scoped_events other s"
      using journal_step [OF assms] by metis
    have eq: "archive_of t = (archive_of s)\<lparr>ar_journals :=
        (ar_journals (archive_of s))(scope := ar_journals (archive_of s) scope @ [e])\<rparr>"
      by (auto simp: archive_of_def frame fun_eq_iff e)
    have "ev_sequence e = of_nat (length (ar_journals (archive_of s) scope))"
      by (simp add: archive_of_def e(2) length_scoped_events [OF scope_numbered.rel_holds [OF assms(1)]])
    then show ?thesis unfolding eq by (intro disjI2 archive_step.enter)
  qed
next
  case (stored ref bs)
  have eq: "archive_of t = (archive_of s)\<lparr>ar_contents := (ar_contents (archive_of s))(ref \<mapsto> bs)\<rparr>"
    by (simp add: archive_of_def stored(6) fun_eq_iff)
  have "ar_contents (archive_of s) ref = None"
    by (simp add: archive_of_def stored(3))
  then show ?thesis unfolding eq by (intro disjI2 archive_step.retain stored(1))
next
  case (revoked token)
  have eq: "archive_of t = (archive_of s)\<lparr>ar_revoked := insert (sha token) (ar_revoked (archive_of s))\<rparr>"
    by (auto simp: archive_of_def revoked(3) bt_contains_def)
  show ?thesis unfolding eq by (intro disjI2 archive_step.withdraw)
qed simp

interpretation archived: simulation store_start "store_step sha" "\<lambda>a. a = empty_archive" archive_step
  archive_of for sha
  by unfold_locales (rule archive_of_start, assumption, rule archive_of_step)

lemma retained_entry:
  assumes "store_reachable sha s" "bt_get (cs_entries s) i = Some e"
  shows "entry_ok sha (cs_config s) i e"
  using kept.holds [OF assms(1)] assms(2) by (simp add: store_ok_def entries_ok_def)

lemma archive_get_store:
  assumes "store_reachable sha s"
  shows "store_get sha token g i now s = archive_get sha token g i now (archive_of s)"
proof (cases "bt_get (cs_entries s) i")
  case None
  then show ?thesis
    by (simp add: store_get_def archive_get_def authorize_def archive_of_def scoped_entry_def)
next
  case (Some e)
  then have "snapshot_parse (ss_bytes e) = Inr (ss_snapshot e)"
    using retained_entry [OF assms] by (simp add: entry_ok_def)
  with Some show ?thesis
    by (simp add: store_get_def archive_get_def authorize_def archive_of_def scoped_entry_def)
qed

text \<open>An accepted manifest is, or agrees with, the entry under its identifier.\<close>

lemma accepted_entry:
  assumes "store_reachable sha s" "ingest sha bs s = (Inr r, t)"
  obtains e where "bt_get (cs_entries t) (sm_snapshot_id r) = Some e" "ss_digest e = sha bs"
    "summary_from (ss_snapshot e) = r"
proof -
  obtain snap where m: "manifest_checks bs s = Inr snap"
    using assms(2) by (cases "manifest_checks bs s") (simp_all add: ingest_def)
  have id: "sm_snapshot_id (summary_from x) = snapshot_key x" for x
    by (simp add: summary_from_def Let_def)
  show ?thesis
  proof (cases "bt_get (cs_entries s) (snapshot_key snap)")
    case None
    then have "t = s\<lparr>cs_entries := bt_insert (snapshot_key snap) (entry_for sha bs snap) (cs_entries s)\<rparr>"
      "r = summary_from snap"
      using assms(2) by (auto simp: ingest_def m entry_for_def Let_def split: if_splits)
    then show ?thesis using that [of "entry_for sha bs snap"] by (simp add: id)
  next
    case (Some e)
    then have e: "t = s" "r = summary_from (ss_snapshot e)" "ss_digest e = sha bs"
      using assms(2) by (simp_all add: ingest_def m Let_def split: if_splits)
    have "sm_snapshot_id r = snapshot_key snap"
      using retained_entry [OF assms(1) Some] unfolding e(2) id entry_ok_def by (elim conjE)
    then show ?thesis using Some e by (intro that [of e]) (simp_all only:)
  qed
qed

lemma retained_components:
  assumes "store_reachable sha s" "bt_get (cs_entries s) i = Some e"
  shows "components_wf (sn_components (ss_snapshot e))"
  using retained_entry [OF assms] snapshot_parse_wf [of "ss_bytes e" "ss_snapshot e"]
  by (simp add: entry_ok_def snapshot_wf_def Let_def)

text \<open>The ordinals of an accepted snapshot are its positions, so they agree with any other's.\<close>

lemma same_ordinals:
  assumes "components_wf cs" "components_wf ds"
  shows "list_all (\<lambda>(a, b). c_ordinal a = c_ordinal b) (zip cs ds)"
  using assms by (auto simp: components_wf_def list_all_length)

end
