(* ===== verification/Store_Runs.thy ===== *)
theory Store_Runs
  imports Store_Archive Reader_Samples
begin

text \<open>
  A concrete run of the store: a snapshot, an event in its scope and the content of its component
  are ingested, a token is revoked. The digest of the run is a function of two values, enough to
  tell one other input from the rest.
\<close>

definition toy_sha :: sha where
  "toy_sha bs = replicate 32 (if bs = ''other'' then CHR 0x01 else CHR 0x00)"

definition empty_store :: store where
  "empty_store = fresh_store default_config"

definition held_store :: store where
  "held_store = empty_store\<lparr>cs_entries :=
     bt_insert ''s1'' (entry_for toy_sha sample_snapshot sample_snapshot_value) bt_empty\<rparr>"

definition scoped_event_fields :: json_object where
  "scoped_event_fields =
     map (\<lambda>(k, v). (k, if k = ''snapshot_id'' then JString ''s1'' else v)) sample_event_fields"

definition scoped_event :: bytes where
  "scoped_event = json_print (JObject scoped_event_fields)"

definition scoped_event_value :: capture_event where
  "scoped_event_value = sample_event_value\<lparr>ev_snapshot_id := Some ''s1''\<rparr>"

definition journal_store :: store where
  "journal_store = held_store\<lparr>
     cs_event_scope_sequences := bt_insert (''a1'', ''r1'') 1 bt_empty,
     cs_events := bt_insert ''e1'' \<lparr>se_digest = toy_sha scoped_event, se_event = scoped_event_value,
       se_scope = Some (''a1'', ''r1''), se_scope_sequence = Some 0\<rparr> bt_empty\<rparr>"

definition filled_store :: store where
  "filled_store = journal_store\<lparr>cs_content_bytes := 5, cs_content := bt_insert ''r1'' ''hello'' bt_empty\<rparr>"

definition reader_grant :: read_grant where
  "reader_grant = \<lparr>gr_token_digest = replicate 32 (CHR 0x00), gr_project = ''a1'',
     gr_run = Some ''r1'', gr_privilege = ContentPrivilege, gr_expires_at = 60\<rparr>"

definition foreign_grant :: read_grant where
  "foreign_grant = reader_grant\<lparr>gr_project := ''b1''\<rparr>"

lemma store_valid_id_identifier: "store_valid_id s = is_identifier s"
  by (simp add: store_valid_id_def is_identifier_def)

lemmas store_fields = held_store_def empty_store_def journal_store_def filled_store_def
  fresh_store_def default_config_def

lemma issued: "issue toy_sha ''tok'' ''a1'' (Some ''r1'') ContentPrivilege 60 0 = Inr reader_grant"
  by (simp add: issue_def store_valid_id_identifier epoch_seconds_def checked_add_def toy_sha_def
      reader_grant_def)

lemma sample_length: "length sample_snapshot \<le> 1048576" "sample_snapshot \<noteq> []"
  using sample_snapshot_parsed
  by (auto simp: snapshot_parse_def MAX_SNAPSHOT_BYTES_def split: if_splits)

lemma sample_checks: "manifest_checks sample_snapshot (s\<lparr>cs_config := default_config\<rparr>) = Inr sample_snapshot_value"
  using sample_length
  by (simp add: manifest_checks_def default_config_def MAX_MANIFEST_BYTES_def sample_snapshot_parsed
      sample_snapshot_value_def sample_projection_def)

lemma empty_store_config: "empty_store = empty_store\<lparr>cs_config := default_config\<rparr>"
  by (simp add: empty_store_def fresh_store_def)

lemma sample_key: "snapshot_key sample_snapshot_value = ''s1''"
  by (simp add: sample_snapshot_value_def sample_projection_def)

lemma ingest_sample:
  "ingest toy_sha sample_snapshot empty_store = (Inr (summary_from sample_snapshot_value), held_store)"
  using sample_checks [of empty_store]
  by (simp add: ingest_def sample_key entry_for_def MAX_SNAPSHOTS_def store_fields)

lemma scoped_event_parsed: "parse_event scoped_event = Inr scoped_event_value"
proof -
  let ?v = "JObject scoped_event_fields"
  have "json_wf ?v" "json_within MAX_DEPTH ?v" by code_simp+
  moreover have "json_items ?v \<le> JSON_MAX_ITEMS"
    by (simp add: scoped_event_fields_def sample_event_fields_def JSON_MAX_ITEMS_def)
  moreover have "length scoped_event \<le> MAX_EVENT_BYTES"
    using length_json_print [of ?v]
    by (simp add: scoped_event_def scoped_event_fields_def sample_event_fields_def
        MAX_EVENT_BYTES_def dec.simps)
  moreover have "event_fields scoped_event_fields = Inr scoped_event_value"
    by (simp add: event_fields_def scoped_event_fields_def sample_event_fields_def reader_defs
        event_keys_def read_event_type_def read_details_def detail_keys_def usage_field_def
        dropped_field_def validate_details_def sample_event_value_def scoped_event_value_def)
  ultimately show ?thesis
    using json_parse_sample [of ?v]
    by (simp add: parse_event_def scoped_event_def)
qed

lemma scoped_event_length: "length scoped_event \<le> 65536" "scoped_event \<noteq> []"
  using scoped_event_parsed
  by (auto simp: parse_event_def MAX_EVENT_BYTES_def split: if_splits)

lemma append_sample:
  "append_event toy_sha scoped_event held_store = (Inr scoped_event_value, journal_store)"
  using scoped_event_length
  by (simp add: append_event_def event_checks_def scoped_event_parsed store_fields
      MAX_MANIFEST_BYTES_def STORE_MAX_EVENTS_def bt_contains_def event_scope_def take_sequence_def
      scope_next_def scoped_event_value_def sample_event_value_def entry_for_def
      sample_snapshot_value_def sample_projection_def sat_add_def)

lemma content_sample: "ingest_content ''r1'' ''hello'' journal_store = (Inr (), filled_store)"
  by (simp add: ingest_content_def store_valid_id_identifier usize_mul_def usize_add_def
      MAX_MANIFEST_BYTES_def MAX_CONTENT_REFS_def MAX_CONTENT_BYTES_def store_fields)

lemma run_steps:
  "store_step toy_sha empty_store held_store" "store_step toy_sha held_store journal_store"
  "store_step toy_sha journal_store filled_store"
  using store_step.ingest [of toy_sha empty_store sample_snapshot]
    store_step.append_event [of toy_sha held_store scoped_event]
    store_step.ingest_content [of toy_sha journal_store "''r1''" "''hello''"]
  by (simp_all add: ingest_sample append_sample content_sample)

lemma empty_reachable: "store_reachable toy_sha empty_store"
  unfolding empty_store_def by (rule reach.start) (rule default_store_starts)

lemma held_reachable: "store_reachable toy_sha held_store"
  by (rule reach.step [OF empty_reachable run_steps(1)])

lemma journal_reachable: "store_reachable toy_sha journal_store"
  by (rule reach.step [OF held_reachable run_steps(2)])

lemma filled_reachable: "store_reachable toy_sha filled_store"
  by (rule reach.step [OF journal_reachable run_steps(3)])

lemma reader_authorised:
  "authorised toy_sha ''tok'' reader_grant 0 held_store"
  "authorised toy_sha ''tok'' reader_grant 0 journal_store"
  "authorised toy_sha ''tok'' reader_grant 0 filled_store"
  by (simp_all add: authorised_def toy_sha_def reader_grant_def epoch_seconds_def store_fields
      bt_contains_def)

lemma held_entry:
  "bt_get (cs_entries s) ''s1'' = Some (entry_for toy_sha sample_snapshot sample_snapshot_value)"
  if "cs_entries s = cs_entries held_store"
  by (simp add: that store_fields)

lemma filled_content:
  "store_content toy_sha ''tok'' reader_grant ''s1'' ''c1'' 0 filled_store = Inr ''hello''"
proof -
  have h: "hex_bytes (replicate 32 (CHR 0x00)) = sample_digest" by code_simp
  show ?thesis
    using reader_authorised(3)
    unfolding store_content_Inr_iff visible_def content_available_iff
    by (simp add: store_fields sample_snapshot_value_def sample_projection_def sample_component_def
        permits_scope_def reader_grant_def find_component_def toy_sha_def h)
qed

lemma sample_small: "2 * length sample_snapshot \<le> 65536"
  using length_json_print [of "JObject sample_snapshot_fields"]
  by (simp add: sample_snapshot_def sample_snapshot_fields_def sample_component_fields_def
      no_measurement_def sample_digest_def dec.simps)

lemma filled_compare:
  obtains r where "store_compare toy_sha ''tok'' reader_grant ''s1'' ''s1'' 0 filled_store = Inr r"
proof -
  have "store_get toy_sha ''tok'' reader_grant ''s1'' 0 filled_store = Inr sample_snapshot"
    using reader_authorised(3) unfolding store_get_Inr_iff visible_def
    by (simp add: store_fields permits_scope_def reader_grant_def sample_snapshot_value_def
        sample_projection_def)
  then have "\<exists>r. store_compare toy_sha ''tok'' reader_grant ''s1'' ''s1'' 0 filled_store = Inr r"
    using sample_small
    by (simp add: store_compare_def usize_add_def store_fields MAX_COMPARE_BYTES_def Let_def)
  then show ?thesis using that by blast
qed

end
