(* ===== verification/Store_Views.thy ===== *)
theory Store_Views
  imports Store_Archive
begin

text \<open>
  What a grant lets its bearer see of a store: the entries in its scope, the contents that their
  components name, the journals of its scope, and whether its token is revoked. Every read is a
  function of that view.
\<close>

definition same_view :: "read_grant \<Rightarrow> store \<Rightarrow> store \<Rightarrow> bool" where
  "same_view g s t \<longleftrightarrow>
     cs_config s = cs_config t
     \<and> bt_contains (cs_revoked s) (gr_token_digest g) = bt_contains (cs_revoked t) (gr_token_digest g)
     \<and> (\<forall>i e. visible g i e s \<longleftrightarrow> visible g i e t)
     \<and> (\<forall>i e c ref. visible g i e s \<longrightarrow> c \<in> set (sn_components (ss_snapshot e)) \<longrightarrow>
          c_content_ref c = Some ref \<longrightarrow> bt_get (cs_content s) ref = bt_get (cs_content t) ref)
     \<and> (\<forall>run. gr_run g = None \<or> gr_run g = Some run \<longrightarrow>
          scoped_events (gr_project g, run) s = scoped_events (gr_project g, run) t)"

lemma same_viewD:
  assumes "same_view g s t"
  shows "authorize sha token g now s = authorize sha token g now t"
    and "visible g i e s \<longleftrightarrow> visible g i e t" and "cs_config s = cs_config t"
    and "visible g i e s \<Longrightarrow> c \<in> set (sn_components (ss_snapshot e)) \<Longrightarrow>
      c_content_ref c = Some ref \<Longrightarrow> bt_get (cs_content s) ref = bt_get (cs_content t) ref"
    and "gr_run g = None \<or> gr_run g = Some run \<Longrightarrow>
      scoped_events (gr_project g, run) s = scoped_events (gr_project g, run) t"
  using assms unfolding same_view_def authorize_def by (simp_all, blast)

lemma scoped_entry_visible:
  "scoped_entry g i s = (if \<exists>e. visible g i e s then Inr (the (bt_get (cs_entries s) i)) else Inl NotFound)"
  by (cases "bt_get (cs_entries s) i") (auto simp: scoped_entry_def visible_def)

lemma view_scoped_entry:
  assumes "same_view g s t"
  shows "scoped_entry g i s = scoped_entry g i t"
proof (cases "\<exists>e. visible g i e s")
  case True
  then obtain e where "visible g i e s" "visible g i e t"
    using same_viewD(2) [OF assms] by blast
  then show ?thesis by (simp add: visible_def scoped_entry_def)
next
  case False
  then have "\<not> (\<exists>e. visible g i e t)" using same_viewD(2) [OF assms] by blast
  with False show ?thesis by (simp add: scoped_entry_visible)
qed

lemma find_component_mem: "find_component e k = Inr c \<Longrightarrow> c \<in> set (sn_components (ss_snapshot e))"
  by (auto simp: find_component_def dest: find_Some_mem)

lemma view_content_available:
  assumes "same_view g s t" "visible g i e s" "find_component e k = Inr c"
  shows "content_available sha g mode c s = content_available sha g mode c t"
  using same_viewD(4) [OF assms(1,2) find_component_mem [OF assms(3)]]
  by (cases "c_content_ref c"; cases "c_sha256 c") (simp_all add: content_available_def)

lemma and_then_cong: "m = m' \<Longrightarrow> (\<And>x. m' = Inr x \<Longrightarrow> f x = f' x) \<Longrightarrow> and_then m f = and_then m' f'"
  by (cases m') simp_all

lemma scoped_entry_visibleD: "scoped_entry g i s = Inr e \<Longrightarrow> visible g i e s"
  by (simp add: visible_def)

lemma view_store_get:
  assumes "same_view g s t"
  shows "store_get sha token g i now s = store_get sha token g i now t"
  by (simp add: store_get_def same_viewD(1) [OF assms] view_scoped_entry [OF assms])

lemma view_store_component:
  assumes "same_view g s t"
  shows "store_component sha token g i k now s = store_component sha token g i k now t"
proof -
  have available: "content_available sha g mode c s = content_available sha g mode c t"
    if "scoped_entry g i t = Inr e" "find_component e k = Inr c" for mode e c
    using view_content_available [OF assms] same_viewD(2) [OF assms] scoped_entry_visibleD that by blast
  show ?thesis
    unfolding store_component_def same_viewD(1) [OF assms] view_scoped_entry [OF assms]
    by (intro and_then_cong refl) (simp only: Let_def available)
qed

lemma view_store_content:
  assumes "same_view g s t"
  shows "store_content sha token g i k now s = store_content sha token g i k now t"
  unfolding store_content_def same_viewD(1) [OF assms] view_scoped_entry [OF assms]
proof (intro and_then_cong refl)
  fix e c
  assume e: "scoped_entry g i t = Inr e" "find_component e k = Inr c"
  then have v: "visible g i e s" using same_viewD(2) [OF assms] scoped_entry_visibleD by blast
  then show "ensure (content_available sha g (sp_capture_mode (sn_projection (ss_snapshot e))) c s)
      NotFound =
    ensure (content_available sha g (sp_capture_mode (sn_projection (ss_snapshot e))) c t) NotFound"
    using view_content_available [OF assms v e(2)] by simp
  fix ref
  assume "ok_or (c_content_ref c) NotFound = Inr ref"
  then show "ok_or (bt_get (cs_content s) ref) NotFound = ok_or (bt_get (cs_content t) ref) NotFound"
    using same_viewD(4) [OF assms v find_component_mem [OF e(2)]] by simp
qed

lemma view_store_compare:
  assumes "same_view g s t"
  shows "store_compare sha token g l r now s = store_compare sha token g l r now t"
proof -
  have entry: "bt_get (cs_entries s) i = bt_get (cs_entries t) i"
    if "store_get sha token g i now t = Inr bs" for i bs
  proof -
    obtain e where "visible g i e t" using \<open>store_get sha token g i now t = Inr bs\<close>
      by (auto simp: store_get_Inr_iff)
    moreover from this have "visible g i e s" by (simp only: same_viewD(2) [OF assms])
    ultimately show ?thesis by (simp add: visible_def)
  qed
  show ?thesis
    unfolding store_compare_def view_store_get [OF assms] same_viewD(3) [OF assms]
    by (intro and_then_cong refl) (simp_all add: entry)
qed

lemma view_compare_for_run:
  assumes "same_view g s t"
  shows "compare_for_run sha token g run l r now s = compare_for_run sha token g run l r now t"
  unfolding compare_for_run_def same_viewD(1) [OF assms] view_scoped_entry [OF assms]
    view_store_compare [OF assms] ..

lemma permitted_values:
  "filter (\<lambda>e. permits_scope g (sn_projection (ss_snapshot e))) (bt_values (cs_entries s)) =
     map snd (filter (\<lambda>(i, e). permits_scope g (sn_projection (ss_snapshot e))) (bt_entries (cs_entries s)))"
  by (simp add: bt_values_def filter_map comp_def case_prod_unfold)

lemma view_permitted:
  assumes "same_view g s t"
  shows "filter (\<lambda>(i, e). permits_scope g (sn_projection (ss_snapshot e))) (bt_entries (cs_entries s)) =
    filter (\<lambda>(i, e). permits_scope g (sn_projection (ss_snapshot e))) (bt_entries (cs_entries t))"
    (is "filter ?P ?xs = filter ?P ?ys")
proof (rule map_sorted_distinct_set_unique)
  show "set (filter ?P ?xs) = set (filter ?P ?ys)"
  proof -
    have "(i, e) \<in> set (filter ?P (bt_entries (cs_entries u))) \<longleftrightarrow> visible g i e u" for i e u
      by (auto simp: bt_entries_iff visible_def)
    then show ?thesis using same_viewD(2) [OF assms] by (simp add: set_eq_iff)
  qed
  show "sorted (map fst (filter ?P ?xs))" "sorted (map fst (filter ?P ?ys))"
    using bt_sorted strict_sorted_iff by (blast intro: sorted_filter)+
  show "distinct (map fst (filter ?P ?xs))" "distinct (map fst (filter ?P ?ys))"
    by (simp_all add: bt_distinct distinct_map_filter)
  show "inj_on fst (set (filter ?P ?xs) \<union> set (filter ?P ?ys))"
    using \<open>set (filter ?P ?xs) = set (filter ?P ?ys)\<close> \<open>distinct (map fst (filter ?P ?xs))\<close>
    by (simp add: distinct_map)
qed

lemma view_store_list:
  assumes "same_view g s t"
  shows "store_list sha token g now limit s = store_list sha token g now limit t"
  unfolding store_list_def same_viewD(1) [OF assms]
  by (intro and_then_cong refl)
     (simp add: list_loop_take permitted_values view_permitted [OF assms])

lemma view_store_events:
  assumes "same_view g s t"
  shows "store_events sha token g run cursor limit now s = store_events sha token g run cursor limit now t"
  unfolding store_events_def same_viewD(1) [OF assms]
  by (intro and_then_cong refl)
     (use same_viewD(5) [OF assms, of run] in \<open>auto split: option.splits\<close>)

end
