(* ===== verification/Store_Guarantees.thy ===== *)
theory Store_Guarantees
  imports Store_Runs Store_Views
begin

text \<open>
  What the context store guarantees: it implements an append-only archive within its bounds, an
  identity never changes its bytes, a reader learns nothing about snapshots outside the grant,
  served content has its declared digest, event pages are windows of a stable journal, and a
  revoked token is refused for good.
\<close>

subsection \<open>The archive\<close>

text \<open>
  C27. Every call of the store is one step of the append-only archive, or none, and what a reader
  gets for a manifest afterwards is what the archive holds: the store refines its specification.
\<close>

theorem store_refines_archive:
  assumes "store_reachable sha s" "store_step sha s t"
  shows "(archive_of t = archive_of s \<or> archive_step (archive_of s) (archive_of t))
    \<and> store_get sha token g i now t = archive_get sha token g i now (archive_of t)"
  using archive_of_step [OF assms] archive_get_store [OF reach.step [OF assms]] by blast

theorem store_refines_archive_witness:
  "(archive_of held_store = archive_of empty_store
      \<or> archive_step (archive_of empty_store) (archive_of held_store))
    \<and> store_get toy_sha ''tok'' reader_grant ''s1'' 0 held_store
        = archive_get toy_sha ''tok'' reader_grant ''s1'' 0 (archive_of held_store)"
  by (rule store_refines_archive [OF empty_reachable run_steps(1)])

text \<open>
  C28. A reachable store keeps at most the configured number of manifests, each the bytes that its
  parsed snapshot comes from, filed under the snapshot's own identifier and free of private
  content references; at most 4096 events; and at most 512 contents, whose sizes it counts exactly
  and keeps within 512 MiB.
\<close>

theorem retained_is_bounded:
  assumes "store_reachable sha s"
  shows "store_len s \<le> sc_max_snapshots (cs_config s) \<and> sc_max_snapshots (cs_config s) \<le> 128
    \<and> event_len s \<le> 4096 \<and> content_len s \<le> 512
    \<and> cs_content_bytes s = sum_list (map length (bt_values (cs_content s)))
    \<and> cs_content_bytes s \<le> 512 * 1024 * 1024
    \<and> (case bt_get (cs_entries s) i of
         None \<Rightarrow> True
       | Some e \<Rightarrow> snapshot_parse (ss_bytes e) = Inr (ss_snapshot e)
           \<and> snapshot_key (ss_snapshot e) = i \<and> ss_digest e = sha (ss_bytes e)
           \<and> length (ss_bytes e) \<le> sc_max_manifest_bytes (cs_config s)
           \<and> (if sp_capture_mode (sn_projection (ss_snapshot e)) = Private
              then \<not> has_content_ref (ss_snapshot e) else True))"
proof -
  have ok: "entries_ok sha s" "content_ok s" "events_ok sha s"
    using kept.holds [OF assms] by (simp_all add: store_ok_def)
  show ?thesis
    using ok retained_entry [OF assms, of i]
    by (simp add: entries_ok_def content_ok_def events_ok_def config_ok_def entry_ok_def
        store_len_def event_len_def content_len_def MAX_SNAPSHOTS_def STORE_MAX_EVENTS_def
        MAX_CONTENT_REFS_def MAX_CONTENT_BYTES_def split: option.split)
qed

theorem retained_is_bounded_witness:
  "store_len filled_store \<le> sc_max_snapshots (cs_config filled_store)
    \<and> cs_content_bytes filled_store = sum_list (map length (bt_values (cs_content filled_store)))"
  using retained_is_bounded [OF filled_reachable] by blast

text \<open>
  C29. Once a manifest has been accepted, its identifier is taken for good: whatever else the store
  does in between, accepted bytes with the same identifier and digest give the first summary, and
  with another digest the conflict, and neither changes the store.
\<close>

theorem ingestion_is_idempotent:
  assumes "store_reachable sha s" "ingest sha bs s = (Inr r, t)" "store_steps sha t u"
    and "manifest_checks bs' u = Inr snap" "snapshot_key snap = sm_snapshot_id r"
  shows "ingest sha bs' u = (if sha bs' = sha bs then Inr r else Inl Conflict, u)"
proof -
  obtain e where e: "bt_get (cs_entries t) (sm_snapshot_id r) = Some e" "ss_digest e = sha bs"
    "summary_from (ss_snapshot e) = r"
    by (rule accepted_entry [OF assms(1,2)])
  have "store_reachable sha t"
    using reach.step [OF assms(1) store_step.ingest [of sha s bs]] assms(2) by simp
  then have "bt_get (cs_entries u) (sm_snapshot_id r) = Some e"
    by (rule entry.cell.kept_steps [OF assms(3) _ TrueI e(1)])
  then show ?thesis
    using assms(4,5) e(2,3) by (simp add: ingest_def)
qed

theorem ingestion_is_idempotent_witness:
  "ingest toy_sha sample_snapshot filled_store =
     (if toy_sha sample_snapshot = toy_sha sample_snapshot
      then Inr (summary_from sample_snapshot_value) else Inl Conflict, filled_store)"
proof (rule ingestion_is_idempotent [OF empty_reachable ingest_sample])
  show "store_steps toy_sha held_store filled_store"
    using run_steps by (meson converse_rtranclp_into_rtranclp rtranclp.rtrancl_refl)
  show "manifest_checks sample_snapshot filled_store = Inr sample_snapshot_value"
    using sample_checks [of filled_store] by (simp add: store_fields)
  show "snapshot_key sample_snapshot_value = sm_snapshot_id (summary_from sample_snapshot_value)"
    by (simp add: summary_from_def Let_def)
qed

subsection \<open>Reading\<close>

text \<open>
  C30. Every read is a function of the bearer's view: two stores that agree on the snapshots in the
  grant's scope, on the contents these name, on the journals of the scope and on the revocation
  of the token answer every query alike, with the same error where they refuse. Nothing of another
  agent or run, not even its existence, reaches the reader.
\<close>

theorem reads_do_not_interfere:
  assumes "same_view g s t"
  shows "store_get sha token g i now s = store_get sha token g i now t
    \<and> store_component sha token g i k now s = store_component sha token g i k now t
    \<and> store_content sha token g i k now s = store_content sha token g i k now t
    \<and> store_compare sha token g l r now s = store_compare sha token g l r now t
    \<and> compare_for_run sha token g run l r now s = compare_for_run sha token g run l r now t
    \<and> store_list sha token g now limit s = store_list sha token g now limit t
    \<and> store_events sha token g run cursor limit now s = store_events sha token g run cursor limit now t"
  by (intro conjI view_store_get view_store_component view_store_content view_store_compare
      view_compare_for_run view_store_list view_store_events assms)

lemma foreign_view: "same_view foreign_grant empty_store held_store"
  by (simp add: same_view_def visible_def permits_scope_def foreign_grant_def reader_grant_def
      store_fields sample_snapshot_value_def sample_projection_def scoped_events_def)

theorem reads_do_not_interfere_witness:
  "store_get toy_sha ''tok'' foreign_grant ''s1'' 0 empty_store =
     store_get toy_sha ''tok'' foreign_grant ''s1'' 0 held_store
   \<and> store_list toy_sha ''tok'' foreign_grant 0 10 empty_store =
     store_list toy_sha ''tok'' foreign_grant 0 10 held_store"
  using reads_do_not_interfere [OF foreign_view] by blast

text \<open>
  C31. Content is served only to an authorised bearer with the content privilege, for a component
  of a snapshot in scope that is neither expired nor captured privately, and what is served has
  exactly the digest that the component declares.
\<close>

theorem served_content_matches_its_digest:
  assumes "store_content sha token g i k now s = Inr bs"
  shows "authorised sha token g now s \<and> gr_privilege g = ContentPrivilege
    \<and> (\<exists>e c. visible g i e s \<and> c \<in> set (sn_components (ss_snapshot e)) \<and> c_component_id c = k
         \<and> c_sha256 c = Some (hex_bytes (sha bs)) \<and> c_content_status c \<noteq> Expired
         \<and> sp_capture_mode (sn_projection (ss_snapshot e)) \<noteq> Private)"
proof -
  obtain e c ref where c: "authorised sha token g now s" "visible g i e s" "find_component e k = Inr c"
    "c_content_ref c = Some ref" "bt_get (cs_content s) ref = Some bs"
    "content_available sha g (sp_capture_mode (sn_projection (ss_snapshot e))) c s"
    using assms by (auto simp: store_content_Inr_iff)
  have "c_component_id c = k"
    using c(3) by (auto simp: find_component_def dest: find_Some_mem)
  then show ?thesis
    using c find_component_mem [OF c(3)] by (auto simp: content_available_iff)
qed

theorem served_content_matches_its_digest_witness:
  "gr_privilege reader_grant = ContentPrivilege \<and> authorised toy_sha ''tok'' reader_grant 0 filled_store"
  using served_content_matches_its_digest [OF filled_content] by blast

text \<open>
  C32. An event page is a window of the journal of the grant's agent and the run: from the start, or
  just after the position that the cursor names, at most \<open>limit\<close> events in order, with the
  cursor of the last one exactly when more follow. Following the cursors therefore reads every
  event once, and the journal is stable: later events only come after (C27).
\<close>

theorem event_pages_are_windows:
  assumes "store_reachable sha s" "authorised sha token g now s" "store_valid_id run" "0 < limit" "limit \<le> 200"
    and "gr_run g = None \<or> gr_run g = Some run"
    and "cursor = None \<and> k = 0 \<or> cursor = Some (encode_event_cursor sha g run n) \<and> k = unat n + 1"
  shows "store_events sha token g run cursor limit now s =
    (let journal = map snd (scoped_events (gr_project g, run) s)
     in Inr \<lparr>pg_events = take limit (drop k journal),
          pg_next_cursor = (if k + limit < length journal
             then Some (encode_event_cursor sha g run (of_nat (k + limit - 1))) else None),
          pg_gap = False\<rparr>)"
proof -
  let ?es = "scoped_events (gr_project g, run) s"
  have num: "scope_numbered s" by (rule scope_numbered.rel_holds [OF assms(1)])
  obtain after where "transpose_result (map_option (decode_event_cursor sha g run) cursor) = Inr after"
    "List.map_filter (after_cursor after) ?es = map snd (drop k ?es)"
    using assms(7)
  proof
    assume "cursor = None \<and> k = 0"
    then show ?thesis by (intro that [of None]) (simp_all add: after_cursor_None)
  next
    assume "cursor = Some (encode_event_cursor sha g run n) \<and> k = unat n + 1"
    then show ?thesis
      using decode_cursor_iff [of sha g run "encode_event_cursor sha g run n" n]
      by (intro that [of "Some n"]) (simp_all add: after_cursor_Some [OF num])
  qed
  moreover have "(case gr_run g of Some r \<Rightarrow> r \<noteq> run | None \<Rightarrow> False) \<longleftrightarrow> False"
    using assms(6) by auto
  ultimately show ?thesis
    using assms(2-5) page_of_window [OF num assms(4), of sha g run k "(gr_project g, run)"]
    by (simp add: store_events_def Let_def authorize_cases)
qed

theorem event_pages_are_windows_witness:
  "store_events toy_sha ''tok'' reader_grant ''r1'' None 1 0 journal_store =
    (let journal = map snd (scoped_events (''a1'', ''r1'') journal_store)
     in Inr \<lparr>pg_events = take 1 (drop 0 journal),
          pg_next_cursor = (if 0 + 1 < length journal
             then Some (encode_event_cursor toy_sha reader_grant ''r1'' (of_nat (0 + 1 - 1))) else None),
          pg_gap = False\<rparr>)"
  using event_pages_are_windows [OF journal_reachable reader_authorised(2), of "''r1''" 1 None 0]
  by (simp add: store_valid_id_identifier reader_grant_def)

text \<open>
  C33. A cursor is accepted for exactly one position of exactly the grant and run that it was issued
  for: decoding succeeds with a position if and only if the text is the encoding of that position.
\<close>

theorem cursor_reads_back:
  "decode_event_cursor sha g run cursor = Inr n \<longleftrightarrow> cursor = encode_event_cursor sha g run n"
  by (rule decode_cursor_iff)

text \<open>
  C34. A comparison lists exactly the positions at which the two snapshots differ, never truncated,
  and nothing for a snapshot and itself; it says that the component orders agree exactly when
  the snapshots have equally many components.
\<close>

theorem comparison_is_positionwise:
  assumes "store_reachable sha s" "store_compare sha token g i j now s = Inr r"
  shows "\<exists>e f. visible g i e s \<and> visible g j f s
    \<and> cr_changed_components r = changed_positions (sn_components (ss_snapshot e)) (sn_components (ss_snapshot f))
    \<and> (if i = j then cr_changed_components r = [] else True)
    \<and> (cr_same_boundary r \<longleftrightarrow> sp_boundary (sn_projection (ss_snapshot e)) = sp_boundary (sn_projection (ss_snapshot f)))
    \<and> (cr_same_component_order r
        \<longleftrightarrow> length (sn_components (ss_snapshot e)) = length (sn_components (ss_snapshot f)))"
proof -
  obtain e f where v: "visible g i e s" "visible g j f s"
    and r: "cr_changed_components r = compare_loop [] (sn_components (ss_snapshot e)) (sn_components (ss_snapshot f))"
      "cr_same_boundary r \<longleftrightarrow> sp_boundary (sn_projection (ss_snapshot e)) = sp_boundary (sn_projection (ss_snapshot f))"
      "cr_same_component_order r \<longleftrightarrow>
         length (sn_components (ss_snapshot e)) = length (sn_components (ss_snapshot f))
         \<and> list_all (\<lambda>(a, b). c_ordinal a = c_ordinal b)
             (zip (sn_components (ss_snapshot e)) (sn_components (ss_snapshot f)))"
    using assms(2) by (auto simp: store_compare_def result_simps store_get_Inr_iff visible_def Let_def)
  have "components_wf (sn_components (ss_snapshot x))" if "visible g k x s" for k x
    using retained_components [OF assms(1), of k x] that by (simp add: visible_def)
  note wf = this [OF v(1)] this [OF v(2)]
  have "length (changed_positions (sn_components (ss_snapshot e)) (sn_components (ss_snapshot f))) \<le> 128"
    using length_changed_positions [of "sn_components (ss_snapshot e)" "sn_components (ss_snapshot f)"] wf
    by (auto simp: components_wf_def MAX_COMPONENTS_def max_def split: if_splits)
  then have "cr_changed_components r =
      changed_positions (sn_components (ss_snapshot e)) (sn_components (ss_snapshot f))"
    by (simp add: r(1) compare_loop_positions)
  moreover have "e = f" if "i = j" using v that by (simp add: visible_def)
  moreover have "cr_same_component_order r \<longleftrightarrow>
      length (sn_components (ss_snapshot e)) = length (sn_components (ss_snapshot f))"
    unfolding r(3) using same_ordinals [OF wf] by blast
  ultimately show ?thesis
    using v r(2) by (intro exI [of _ e] exI [of _ f]) (simp add: changed_positions_same)
qed

theorem comparison_is_positionwise_witness:
  "\<exists>r e f. store_compare toy_sha ''tok'' reader_grant ''s1'' ''s1'' 0 filled_store = Inr r
    \<and> visible reader_grant ''s1'' e filled_store \<and> visible reader_grant ''s1'' f filled_store
    \<and> cr_changed_components r = []"
proof -
  obtain r where r: "store_compare toy_sha ''tok'' reader_grant ''s1'' ''s1'' 0 filled_store = Inr r"
    by (rule filled_compare)
  show ?thesis using comparison_is_positionwise [OF filled_reachable r] r by auto
qed

text \<open>
  C35. A revocation is permanent: whatever happens to the store afterwards, every read with a grant for
  that token, the comparison within a run included, is refused, as expired if the grant has expired
  and as forbidden otherwise; only a malformed run or page limit is reported first.
\<close>

theorem revocation_is_permanent:
  assumes "store_reachable sha s" "revoke sha token s = (Inr (), t)" "store_steps sha t u"
    and "gr_token_digest g = sha token"
  shows "let refusal = (if epoch_seconds now \<ge> gr_expires_at g then GrantExpired else Forbidden)
    in store_get sha bearer g i now u = Inl refusal
      \<and> store_component sha bearer g i k now u = Inl refusal
      \<and> store_content sha bearer g i k now u = Inl refusal
      \<and> store_compare sha bearer g i j now u = Inl refusal
      \<and> compare_for_run sha bearer g run i j now u =
          Inl (if store_valid_id run then refusal else InvalidScope)
      \<and> store_list sha bearer g now limit u =
          Inl (if limit = 0 \<or> limit > 200 then ReadTooLarge else refusal)
      \<and> store_events sha bearer g run cursor limit now u =
          Inl (if \<not> store_valid_id run \<or> limit = 0 \<or> limit > 200 then ReadTooLarge else refusal)"
proof -
  have t: "store_reachable sha t"
    using reach.step [OF assms(1) store_step.revoke [of sha s token]] assms(2) by simp
  have "bt_get (cs_revoked t) (sha token) = Some ()"
    using assms(2) by (auto simp: revoke_def split: if_splits)
  then have "bt_get (cs_revoked u) (sha token) = Some ()"
    by (rule revoked.cell.kept_steps [OF assms(3) t TrueI])
  then have "\<not> authorised sha bearer g now u"
    using assms(4) by (simp add: authorised_def bt_contains_def)
  then show ?thesis
    by (simp add: Let_def store_get_def store_component_def store_content_def store_compare_def
        compare_for_run_def store_list_def store_events_def authorize_cases ensure_def)
qed

theorem revocation_is_permanent_witness:
  "store_get toy_sha ''tok'' reader_grant ''s1'' 0 (snd (revoke toy_sha ''tok'' filled_store)) = Inl Forbidden
   \<and> compare_for_run toy_sha ''tok'' reader_grant ''r1'' ''s1'' ''s1'' 0
       (snd (revoke toy_sha ''tok'' filled_store)) = Inl Forbidden"
proof -
  have "revoke toy_sha ''tok'' filled_store = (Inr (), snd (revoke toy_sha ''tok'' filled_store))"
    by (simp add: revoke_def)
  then show ?thesis
    using revocation_is_permanent [OF filled_reachable _ rtranclp.rtrancl_refl, of "''tok''" _ reader_grant 0]
    by (simp add: reader_grant_def toy_sha_def epoch_seconds_def Let_def store_valid_id_def id_char_def
        ascii_defs chars_def)
qed

end
