(* ===== verification/Effective_Limits.thy ===== *)
theory Effective_Limits
  imports Rust_Text
begin

text \<open>
  The consumer side of the effective-limit contract, \<open>context-service/src/effective_limits.rs\<close>:
  classified limit rows, the record that an owner publishes, its authentication against the
  record derived from a trusted descriptor, and the admission of a value. An absent field is
  unavailable, never unlimited. Field prefixes: \<open>lr_\<close> row, \<open>er_\<close> record, \<open>cf_\<close> consumer
  surface, \<open>cn_\<close> consumer pin.
\<close>

datatype limit_class =
  SchemaExecutableEqual | SchemaBroaderThanExecutable | ProfileSelected | RuntimeGuard

fun limit_class_code :: "limit_class \<Rightarrow> string" where
  "limit_class_code SchemaExecutableEqual = ''schema_executable_equal''"
| "limit_class_code SchemaBroaderThanExecutable = ''schema_broader_than_executable''"
| "limit_class_code ProfileSelected = ''profile_selected''"
| "limit_class_code RuntimeGuard = ''runtime_guard''"

datatype unavailable_reason =
  EffectiveLimitExceeded | LimitDisabled | FieldNotAdvertised | DescriptorStale
  | DescriptorTampered | ProfileMismatch | ConsumerNotRecorded | ConsumerPinNotAdopted

fun unavailable_code :: "unavailable_reason \<Rightarrow> string" where
  "unavailable_code EffectiveLimitExceeded = ''effective_limit_exceeded''"
| "unavailable_code LimitDisabled = ''disabled''"
| "unavailable_code FieldNotAdvertised = ''field_not_advertised''"
| "unavailable_code DescriptorStale = ''descriptor_stale''"
| "unavailable_code DescriptorTampered = ''descriptor_tampered''"
| "unavailable_code ProfileMismatch = ''profile_mismatch''"
| "unavailable_code ConsumerNotRecorded = ''consumer_not_recorded''"
| "unavailable_code ConsumerPinNotAdopted = ''consumer_pin_not_adopted''"

definition EFFECTIVE_LIMIT_RECORD_SCHEMA :: string where
  "EFFECTIVE_LIMIT_RECORD_SCHEMA = ''ascension.harness.effective-limits.v1''"

definition CONSUMER_REPOSITORY :: string where
  "CONSUMER_REPOSITORY = ''AI-Ascension/ascension-context-console''"

subsection \<open>Tokens\<close>

text \<open>\<open>b"._:-".contains(&byte)\<close>\<close>

definition token_byte :: "char \<Rightarrow> bool" where
  "token_byte c \<longleftrightarrow> ascii_alphanumeric (bv c) \<or> bv c \<in> {46, 95, 58, 45}"

definition valid_limit_token :: "string \<Rightarrow> bool" where
  "valid_limit_token value =
     (case value of
        [] \<Rightarrow> False
      | first # others \<Rightarrow>
          if ascii_alphanumeric (bv first) then length value \<le> 128 \<and> list_all token_byte others
          else False)"

definition valid_sha256 :: "string \<Rightarrow> bool" where
  "valid_sha256 value \<longleftrightarrow>
     length value = 64
     \<and> list_all (\<lambda>c. ascii_digit (bv c) \<or> 97 \<le> bv c \<and> bv c \<le> (102::nat)) value"

text \<open>\<open>trim().is_empty()\<close>, with the code points of the property \<open>White_Space\<close>.\<close>

definition white_space :: "nat \<Rightarrow> bool" where
  "white_space c \<longleftrightarrow>
     9 \<le> c \<and> c \<le> 13 \<or> 8192 \<le> c \<and> c \<le> 8202
     \<or> c \<in> {32, 133, 160, 5760, 8232, 8233, 8239, 8287, 12288}"

definition blank :: "string \<Rightarrow> bool" where
  "blank s \<longleftrightarrow> list_all white_space (chars s)"

subsection \<open>Rows\<close>

record limit_row =
  lr_field :: string
  lr_class :: limit_class
  lr_policy_schema_ceiling :: "u64 option"
  lr_capabilities_schema_ceiling :: u64
  lr_executable_ceiling :: u64
  lr_validator :: string

definition limit_row_new ::
  "string \<Rightarrow> limit_class \<Rightarrow> u64 option \<Rightarrow> u64 \<Rightarrow> u64 \<Rightarrow> string \<Rightarrow> limit_row" where
  "limit_row_new name cl policy schema executable validator =
     \<lparr>lr_field = name, lr_class = cl, lr_policy_schema_ceiling = policy,
      lr_capabilities_schema_ceiling = schema, lr_executable_ceiling = executable,
      lr_validator = validator\<rparr>"

definition policy_row :: "string \<Rightarrow> u64 \<Rightarrow> u64 \<Rightarrow> u64 \<Rightarrow> string \<Rightarrow> limit_row" where
  "policy_row name policy schema executable validator =
     limit_row_new name
       (if policy = executable then SchemaExecutableEqual else SchemaBroaderThanExecutable)
       (Some policy) schema executable validator"

definition profile_selected :: "string \<Rightarrow> u64 \<Rightarrow> u64 \<Rightarrow> string \<Rightarrow> limit_row" where
  "profile_selected name schema executable validator =
     limit_row_new name ProfileSelected None schema executable validator"

definition runtime_guard :: "string \<Rightarrow> u64 \<Rightarrow> u64 \<Rightarrow> string \<Rightarrow> limit_row" where
  "runtime_guard name schema executable validator =
     limit_row_new name RuntimeGuard None schema executable validator"

datatype limit_record_error = InvalidRecord | DuplicateField

definition row_validate :: "limit_row \<Rightarrow> limit_record_error + unit" where
  "row_validate r =
     and_then (ensure (\<not> (\<not> valid_limit_token (lr_field r) \<or> blank (lr_validator r))) InvalidRecord) (\<lambda>_.
     and_then (ensure (\<not> (lr_executable_ceiling r = 0
         \<or> lr_capabilities_schema_ceiling r < lr_executable_ceiling r)) InvalidRecord) (\<lambda>_.
     (case (lr_class r, lr_policy_schema_ceiling r) of
        (SchemaExecutableEqual, Some policy) \<Rightarrow>
          ensure (policy = lr_executable_ceiling r
            \<and> lr_capabilities_schema_ceiling r = lr_executable_ceiling r) InvalidRecord
      | (SchemaBroaderThanExecutable, Some policy) \<Rightarrow>
          ensure (policy > lr_executable_ceiling r
            \<and> policy \<ge> lr_capabilities_schema_ceiling r) InvalidRecord
      | (ProfileSelected, None) \<Rightarrow> Inr ()
      | (RuntimeGuard, None) \<Rightarrow> Inr ()
      | _ \<Rightarrow> Inl InvalidRecord)))"

subsection \<open>Records\<close>

record limit_record =
  er_schema :: string
  er_surface :: string
  er_owner :: string
  er_owner_revision :: string
  er_capability_schema :: string
  er_capability_descriptor_sha256 :: string
  er_enabled :: bool
  er_rows :: "limit_row list"

fun validate_rows :: "limit_row list \<Rightarrow> limit_record_error + unit" where
  "validate_rows [] = Inr ()"
| "validate_rows (r # rs) = and_then (row_validate r) (\<lambda>_. validate_rows rs)"

definition record_validate :: "limit_record \<Rightarrow> limit_record_error + unit" where
  "record_validate r =
     and_then (ensure (\<not> (er_schema r \<noteq> EFFECTIVE_LIMIT_RECORD_SCHEMA
         \<or> \<not> valid_limit_token (er_surface r)
         \<or> \<not> valid_limit_token (er_owner r)
         \<or> \<not> valid_limit_token (er_owner_revision r)
         \<or> \<not> valid_limit_token (er_capability_schema r)
         \<or> \<not> valid_sha256 (er_capability_descriptor_sha256 r)
         \<or> er_rows r = [])) InvalidRecord) (\<lambda>_.
     and_then (ensure (length (remdups (map lr_field (er_rows r))) = length (er_rows r))
       DuplicateField) (\<lambda>_.
     validate_rows (er_rows r)))"

definition find_row :: "limit_record \<Rightarrow> string \<Rightarrow> limit_row option" where
  "find_row r name = List.find (\<lambda>row. lr_field row = name) (er_rows r)"

definition executable_ceiling :: "limit_record \<Rightarrow> string \<Rightarrow> u64 option" where
  "executable_ceiling r name = map_option lr_executable_ceiling (find_row r name)"

definition admit_value :: "limit_record \<Rightarrow> string \<Rightarrow> u64 \<Rightarrow> unavailable_reason + unit" where
  "admit_value r name requested =
     and_then (ensure (er_enabled r) LimitDisabled) (\<lambda>_.
     and_then (ok_or (find_row r name) FieldNotAdvertised) (\<lambda>row.
     ensure (\<not> requested > lr_executable_ceiling row) EffectiveLimitExceeded))"

definition authenticate :: "limit_record \<Rightarrow> limit_record \<Rightarrow> unavailable_reason + unit" where
  "authenticate r trusted =
     and_then (map_err (\<lambda>_. DescriptorTampered) (record_validate trusted)) (\<lambda>_.
     and_then (ensure (\<not> (er_surface r \<noteq> er_surface trusted
         \<or> er_owner_revision r \<noteq> er_owner_revision trusted)) ProfileMismatch) (\<lambda>_.
     and_then (ensure (er_capability_descriptor_sha256 r = er_capability_descriptor_sha256 trusted)
       DescriptorStale) (\<lambda>_.
     ensure (r = trusted) DescriptorTampered)))"

definition admit_authorized ::
  "limit_record \<Rightarrow> limit_record \<Rightarrow> string \<Rightarrow> u64 \<Rightarrow> unavailable_reason + unit" where
  "admit_authorized r trusted name requested =
     and_then (authenticate r trusted) (\<lambda>_. admit_value trusted name requested)"

subsection \<open>The consumer pin\<close>

datatype adoption = Aligned | Pending

record consumer_surface =
  cf_surface :: string
  cf_advertised_capability_schema :: "string option"
  cf_effective_limits_advertised :: bool

record consumer_pin =
  cn_repository :: string
  cn_producer_revision :: string
  cn_adoption :: adoption
  cn_surfaces :: "consumer_surface list"

datatype capability_version = CapabilityV1 | CapabilityV3

definition MEMORY_CAPABILITIES_SCHEMA :: string where
  "MEMORY_CAPABILITIES_SCHEMA = ''ascension.context-memory.capabilities.v3''"
definition MEMORY_CAPABILITIES_SCHEMA_V1 :: string where
  "MEMORY_CAPABILITIES_SCHEMA_V1 = ''ascension.context-memory.capabilities.v1''"
definition SESSION_CAPABILITIES_SCHEMA :: string where
  "SESSION_CAPABILITIES_SCHEMA = ''ascension.provider-session.capabilities.v4''"
definition SESSION_CAPABILITIES_SCHEMA_V1 :: string where
  "SESSION_CAPABILITIES_SCHEMA_V1 = ''ascension.provider-session.capabilities.v1''"

text \<open>The producer revision is read from the environment of the build, so it is an argument.\<close>

definition consumer_pin_for :: "string \<Rightarrow> capability_version \<Rightarrow> consumer_pin" where
  "consumer_pin_for producer version =
     (let aligned = (version = CapabilityV3)
      in \<lparr>cn_repository = CONSUMER_REPOSITORY, cn_producer_revision = producer,
          cn_adoption = (if aligned then Aligned else Pending),
          cn_surfaces =
            [\<lparr>cf_surface = ''context-memory'',
              cf_advertised_capability_schema = Some (if aligned then MEMORY_CAPABILITIES_SCHEMA
                else MEMORY_CAPABILITIES_SCHEMA_V1),
              cf_effective_limits_advertised = aligned\<rparr>,
             \<lparr>cf_surface = ''provider-session'',
              cf_advertised_capability_schema = Some (if aligned then SESSION_CAPABILITIES_SCHEMA
                else SESSION_CAPABILITIES_SCHEMA_V1),
              cf_effective_limits_advertised = aligned\<rparr>]\<rparr>)"

definition admit_consumer ::
  "consumer_pin \<Rightarrow> string \<Rightarrow> limit_record \<Rightarrow> limit_record \<Rightarrow> string \<Rightarrow> u64 \<Rightarrow> unavailable_reason + unit"
  where
  "admit_consumer pin surface r trusted name requested =
     and_then (ensure (cn_repository pin = CONSUMER_REPOSITORY) ConsumerNotRecorded) (\<lambda>_.
     and_then (ensure (cn_adoption pin \<noteq> Pending) ConsumerPinNotAdopted) (\<lambda>_.
     and_then (ok_or (List.find (\<lambda>e. cf_surface e = surface) (cn_surfaces pin)) FieldNotAdvertised) (\<lambda>entry.
     and_then (ensure (\<not> (\<not> cf_effective_limits_advertised entry
         \<or> cf_advertised_capability_schema entry \<noteq> Some (er_capability_schema r))) FieldNotAdvertised) (\<lambda>_.
     and_then (authenticate r trusted) (\<lambda>_. admit_value trusted name requested)))))"

subsection \<open>What an admission means\<close>

lemma validate_rows_Inr_iff: "validate_rows rs = Inr u \<longleftrightarrow> (\<forall>r\<in>set rs. row_validate r = Inr ())"
  by (induction rs) (auto simp: result_simps)

lemma row_validate_InrD:
  assumes "row_validate r = Inr u"
  shows "0 < lr_executable_ceiling r" "lr_executable_ceiling r \<le> lr_capabilities_schema_ceiling r"
    "lr_policy_schema_ceiling r = Some p \<Longrightarrow> lr_executable_ceiling r \<le> p"
  using assms word_gt_0 [of "lr_executable_ceiling r"]
  by (auto simp: row_validate_def result_simps split: limit_class.splits option.splits)

lemma authenticate_Inr_iff [result_simps]:
  "authenticate r trusted = Inr u \<longleftrightarrow> r = trusted \<and> record_validate trusted = Inr ()"
  by (auto simp: authenticate_def result_simps)

lemma admit_value_Inr_iff [result_simps]:
  "admit_value r name requested = Inr u \<longleftrightarrow>
     er_enabled r \<and> (\<exists>row. find_row r name = Some row \<and> requested \<le> lr_executable_ceiling row)"
  by (auto simp: admit_value_def result_simps)

lemma admit_consumer_InrD:
  assumes "admit_consumer pin surface r trusted name requested = Inr u"
  shows "r = trusted" "record_validate trusted = Inr ()" "admit_value trusted name requested = Inr ()"
  using assms by (auto simp: admit_consumer_def result_simps)

lemma find_distinct:
  "distinct (map f rows) \<Longrightarrow> row \<in> set rows \<Longrightarrow> List.find (\<lambda>r. f r = f row) rows = Some row"
  by (induction rows) (auto simp: image_iff)

lemma find_row_unique:
  assumes "record_validate r = Inr u" "row \<in> set (er_rows r)"
  shows "find_row r (lr_field row) = Some row"
proof -
  have "length (remdups (map lr_field (er_rows r))) = length (map lr_field (er_rows r))"
    using assms(1) by (simp add: record_validate_def result_simps)
  then have "distinct (map lr_field (er_rows r))"
    by (simp only: length_remdups_eq remdups_id_iff_distinct)
  then show ?thesis
    using assms(2) by (simp add: find_row_def find_distinct)
qed

end
