(* ===== verification/Owner_Port.thy ===== *)
theory Owner_Port
  imports Effective_Limits Json_Access Btree_Map
begin

text \<open>
  The port to the harness owner, \<open>context-service/src/owner.rs\<close>: grants and their book, the
  authorisation of a request, the operations, receipts and replies with the validation of every
  public jvalue, and the calls that the console sends. The owner itself is the environment: it
  answers a request with whatever it likes, as a function of all requests so far, and so does
  the shared grant book, which other threads change. \<open>serde_json\<close> and SHA-256 are the
  fields of \<open>owner_codec\<close>. Field prefixes: \<open>os_\<close> scope, \<open>rq_\<close> request context, \<open>og_\<close> grant,
  \<open>gb_\<close> book, \<open>gt_\<close> grant receipt, \<open>cl_\<close> call, \<open>lk_\<close> lookup, \<open>re_\<close> receipt, \<open>rp_\<close> reply,
  \<open>oc_\<close> codec, \<open>en_\<close> environment.
\<close>

subsection \<open>JSON values\<close>

text \<open>\<open>serde_json::Value\<close>; an object is its map, a list in the order of the keys.\<close>

datatype json_number = PosInt u64 | NegInt int | Float u64

datatype jvalue =
  VNull | VBool bool | VNumber json_number | VString string | VArray "jvalue list"
  | VObject "(string \<times> jvalue) list"

text \<open>The \<open>json!\<close> literal of an object.\<close>

definition object_of :: "(string \<times> jvalue) list \<Rightarrow> jvalue" where
  "object_of kvs = VObject (foldl (\<lambda>m (k, v). list_put k v m) [] kvs)"

fun value_str :: "jvalue \<Rightarrow> string option" where
  "value_str (VString s) = Some s"
| "value_str _ = None"

fun value_u64 :: "jvalue \<Rightarrow> u64 option" where
  "value_u64 (VNumber (PosInt n)) = Some n"
| "value_u64 _ = None"

definition object_get :: "(string \<times> jvalue) list \<Rightarrow> string \<Rightarrow> jvalue option" where
  "object_get kvs k = map_of kvs k"

record owner_codec =
  oc_sha :: "bytes \<Rightarrow> bytes"
  oc_value_bytes :: "jvalue \<Rightarrow> bytes option"
  oc_record_bytes :: "limit_record \<Rightarrow> bytes option"

definition OWNER_RECEIPT_SCHEMA :: string where
  "OWNER_RECEIPT_SCHEMA = ''ascension.harness-owner.receipt.v1''"
definition OWNER_MAX_RESPONSE_BYTES :: nat where "OWNER_MAX_RESPONSE_BYTES = 16 * 1024"
definition OWNER_MAX_RESPONSE_DEPTH :: nat where "OWNER_MAX_RESPONSE_DEPTH = 8"

subsection \<open>Text tests\<close>

definition owner_valid_id :: "string \<Rightarrow> bool" where
  "owner_valid_id s \<longleftrightarrow>
     s \<noteq> [] \<and> length s \<le> 128 \<and> list_all (\<lambda>(i, c). id_char i (bv c)) (enumerate 0 s)"

definition to_ascii_lowercase :: "string \<Rightarrow> string" where
  "to_ascii_lowercase s = map (\<lambda>c. if ascii_upper (bv c) then char_of (bv c + 32 :: nat) else c) s"

definition str_contains :: "string \<Rightarrow> string \<Rightarrow> bool" where
  "str_contains s needle \<longleftrightarrow>
     list_ex (\<lambda>i. take (length needle) (drop i s) = needle) [0..<Suc (length s)]"

definition str_starts_with :: "string \<Rightarrow> string \<Rightarrow> bool" where
  "str_starts_with s p \<longleftrightarrow> take (length p) s = p"

definition str_ends_with :: "string \<Rightarrow> string \<Rightarrow> bool" where
  "str_ends_with s p \<longleftrightarrow> length p \<le> length s \<and> drop (length s - length p) s = p"

subsection \<open>Scopes and operations\<close>

datatype owner_grant_class = ReadSearch | GenerationReview | ControlLane

record owner_scope =
  os_project_id :: string
  os_run_id :: string
  os_episode_id :: string
  os_agent_id :: string

definition make_scope :: "string \<Rightarrow> string \<Rightarrow> string \<Rightarrow> string \<Rightarrow> owner_scope" where
  "make_scope project run episode agent =
     \<lparr>os_project_id = project, os_run_id = run, os_episode_id = episode, os_agent_id = agent\<rparr>"

definition scope_is_valid :: "owner_scope \<Rightarrow> bool" where
  "scope_is_valid s \<longleftrightarrow>
     list_all owner_valid_id [os_project_id s, os_run_id s, os_episode_id s, os_agent_id s]"

datatype owner_operation =
  MemoryCapabilities | MemoryStatus | MemoryQuery | MemorySelection | MemoryGeneration
  | MemoryReview | SessionCapabilities | SessionStatus | SessionBinding | SessionList
  | SessionHistory | SessionEvents | SessionOperation | SessionCandidate
  | SessionHistoryRefresh | SessionReconnect | SessionForkPlan | SessionCompactionPlan
  | SessionPreparedBinding | SessionFork | SessionCompaction | SessionRetire | SessionCleanup

fun operation_as_str :: "owner_operation \<Rightarrow> string" where
  "operation_as_str MemoryCapabilities = ''memory.capabilities''"
| "operation_as_str MemoryStatus = ''memory.status''"
| "operation_as_str MemoryQuery = ''memory.query''"
| "operation_as_str MemorySelection = ''memory.selection''"
| "operation_as_str MemoryGeneration = ''memory.generation''"
| "operation_as_str MemoryReview = ''memory.review''"
| "operation_as_str SessionCapabilities = ''provider_session.capabilities''"
| "operation_as_str SessionStatus = ''provider_session.status''"
| "operation_as_str SessionBinding = ''provider_session.binding''"
| "operation_as_str SessionList = ''provider_session.list''"
| "operation_as_str SessionHistory = ''provider_session.history''"
| "operation_as_str SessionEvents = ''provider_session.events''"
| "operation_as_str SessionOperation = ''provider_session.operation''"
| "operation_as_str SessionCandidate = ''provider_session.candidate''"
| "operation_as_str SessionHistoryRefresh = ''provider_session.history_refresh''"
| "operation_as_str SessionReconnect = ''provider_session.reconnect''"
| "operation_as_str SessionForkPlan = ''provider_session.fork_plan''"
| "operation_as_str SessionCompactionPlan = ''provider_session.compaction_plan''"
| "operation_as_str SessionPreparedBinding = ''provider_session.prepared_binding''"
| "operation_as_str SessionFork = ''provider_session.fork''"
| "operation_as_str SessionCompaction = ''provider_session.compaction''"
| "operation_as_str SessionRetire = ''provider_session.retire''"
| "operation_as_str SessionCleanup = ''provider_session.cleanup''"

definition operation_read_only :: "owner_operation \<Rightarrow> bool" where
  "operation_read_only op \<longleftrightarrow>
     op \<in> {MemoryCapabilities, MemoryStatus, MemoryQuery, SessionCapabilities, SessionStatus,
           SessionBinding, SessionList, SessionHistory, SessionEvents, SessionOperation}"

definition operation_grant_class :: "owner_operation \<Rightarrow> owner_grant_class" where
  "operation_grant_class op =
     (if op \<in> {MemoryCapabilities, MemoryStatus, MemoryQuery, SessionCapabilities, SessionStatus,
               SessionBinding, SessionList, SessionHistory, SessionEvents, SessionOperation}
      then ReadSearch
      else if op \<in> {MemoryGeneration, MemoryReview} then GenerationReview
      else ControlLane)"

subsection \<open>Grants\<close>

record request_context =
  rq_principal :: string
  rq_host :: string
  rq_origin :: "string option"
  rq_csrf_token :: "string option"
  rq_now :: u64

record owner_grant =
  og_id :: string
  og_class :: owner_grant_class
  og_scope :: owner_scope
  og_expires_at :: u64
  og_host :: string
  og_origin :: "string option"
  og_csrf_token :: "string option"
  og_revoked :: bool

datatype owner_config_error = InvalidOwnerScope | InvalidGrant | DuplicateGrant

datatype owner_auth_error =
  UnknownGrant | GrantRevoked | OwnerGrantExpired | WrongGrantClass | ScopeMismatch
  | HostMismatch | OriginMismatch | CsrfMismatch | GrantBookUnavailable

definition bounded_option :: "nat \<Rightarrow> string option \<Rightarrow> bool" where
  "bounded_option m v = (case v of None \<Rightarrow> True | Some s \<Rightarrow> s \<noteq> [] \<and> length s \<le> m)"

definition new_grant ::
  "string \<Rightarrow> owner_grant_class \<Rightarrow> owner_scope \<Rightarrow> u64 \<Rightarrow> string \<Rightarrow> string option \<Rightarrow> string option
     \<Rightarrow> owner_config_error + owner_grant" where
  "new_grant i cl scope expires_at host origin csrf =
     (if \<not> owner_valid_id i
         \<or> \<not> scope_is_valid scope
         \<or> host = []
         \<or> length host > 256
         \<or> \<not> bounded_option 512 origin
         \<or> \<not> bounded_option 256 csrf
         \<or> expires_at = 0
         \<or> cl \<noteq> ReadSearch \<and> csrf = None
      then Inl InvalidGrant
      else Inr \<lparr>og_id = i, og_class = cl, og_scope = scope, og_expires_at = expires_at,
                og_host = host, og_origin = origin, og_csrf_token = csrf, og_revoked = False\<rparr>)"

record grant_book =
  gb_grants :: "(string, owner_grant) btree"
  gb_revocation_epoch :: u64

definition empty_book :: grant_book where
  "empty_book = \<lparr>gb_grants = bt_empty, gb_revocation_epoch = 0\<rparr>"

definition insert_grant :: "owner_grant \<Rightarrow> grant_book \<Rightarrow> (owner_config_error + unit) \<times> grant_book" where
  "insert_grant g b =
     (if bt_contains (gb_grants b) (og_id g) then (Inl DuplicateGrant, b)
      else (Inr (), b\<lparr>gb_grants := bt_insert (og_id g) g (gb_grants b)\<rparr>))"

definition revoke_grant :: "string \<Rightarrow> grant_book \<Rightarrow> (owner_auth_error + unit) \<times> grant_book" where
  "revoke_grant i b =
     (case bt_get (gb_grants b) i of
        None \<Rightarrow> (Inl UnknownGrant, b)
      | Some g \<Rightarrow>
          if \<not> og_revoked g
          then (Inr (), b\<lparr>gb_grants := bt_insert i (g\<lparr>og_revoked := True\<rparr>) (gb_grants b),
                          gb_revocation_epoch := sat_add (gb_revocation_epoch b) 1\<rparr>)
          else (Inr (), b))"

record grant_receipt =
  gt_grant_id :: string
  gt_class :: owner_grant_class
  gt_revocation_epoch :: u64

definition owner_authorize ::
  "request_context \<Rightarrow> owner_grant_class \<Rightarrow> owner_scope \<Rightarrow> bool \<Rightarrow> grant_book
     \<Rightarrow> owner_auth_error + grant_receipt" where
  "owner_authorize ctx cl scope write b =
     and_then (ok_or (bt_get (gb_grants b) (rq_principal ctx)) UnknownGrant) (\<lambda>g.
     and_then (ensure (\<not> og_revoked g) GrantRevoked) (\<lambda>_.
     and_then (ensure (\<not> og_expires_at g \<le> rq_now ctx) OwnerGrantExpired) (\<lambda>_.
     and_then (ensure (og_class g = cl) WrongGrantClass) (\<lambda>_.
     and_then (ensure (og_scope g = scope) ScopeMismatch) (\<lambda>_.
     and_then (ensure (rq_host ctx = og_host g) HostMismatch) (\<lambda>_.
     and_then (ensure (og_origin g = rq_origin ctx) OriginMismatch) (\<lambda>_.
     and_then (ensure (\<not> (write \<and> og_csrf_token g \<noteq> rq_csrf_token ctx)) CsrfMismatch) (\<lambda>_.
     Inr \<lparr>gt_grant_id = og_id g, gt_class = og_class g,
          gt_revocation_epoch = gb_revocation_epoch b\<rparr>))))))))"

subsection \<open>Public values\<close>

datatype owner_response_error =
  InvalidResponseScope | InvalidReceipt | ValueForNonAccepted | ResponseTooLarge | ResponseTooDeep
  | ForbiddenField | OperationMismatch | ReadHadEffects

definition forbidden_field :: "string \<Rightarrow> jvalue \<Rightarrow> bool" where
  "forbidden_field key v =
     (let n = to_ascii_lowercase key;
          authorization_reference = (str_ends_with n ''_authorization_ref''
            \<and> (case value_str v of Some s \<Rightarrow> owner_valid_id s | None \<Rightarrow> False));
          safe_native = n \<in> {''native_version'', ''native_binary_sha256'', ''native_schema_sha256'',
                             ''native_calls''};
          rpc = (n = ''raw_rpc'' \<or> n = ''rpc'' \<or> str_starts_with n ''rpc_'' \<or> str_ends_with n ''_rpc'')
      in if str_contains n ''credential'' \<or> str_contains n ''private'' \<or> str_contains n ''secret''
            \<or> str_contains n ''password''
            \<or> str_contains n ''authorization'' \<and> \<not> authorization_reference
            \<or> str_contains n ''bearer'' \<or> str_contains n ''token'' \<or> str_contains n ''prompt''
            \<or> str_contains n ''request_bytes'' \<or> str_contains n ''content_bytes''
         then True
         else if str_contains n ''native'' \<and> \<not> safe_native then True
         else rpc \<and> v \<noteq> VBool False)"

fun validate_inner :: "jvalue \<Rightarrow> nat \<Rightarrow> owner_response_error + unit"
  and validate_values :: "jvalue list \<Rightarrow> nat \<Rightarrow> owner_response_error + unit"
  and validate_fields :: "(string \<times> jvalue) list \<Rightarrow> nat \<Rightarrow> owner_response_error + unit" where
  "validate_inner v d =
     (if d > OWNER_MAX_RESPONSE_DEPTH then Inl ResponseTooDeep
      else case v of
        VObject kvs \<Rightarrow> validate_fields kvs (d + 1)
      | VArray vs \<Rightarrow> validate_values vs (d + 1)
      | _ \<Rightarrow> Inr ())"
| "validate_values [] d = Inr ()"
| "validate_values (v # vs) d = and_then (validate_inner v d) (\<lambda>_. validate_values vs d)"
| "validate_fields [] d = Inr ()"
| "validate_fields ((k, v) # kvs) d =
     (if forbidden_field k v then Inl ForbiddenField
      else and_then (validate_inner v d) (\<lambda>_. validate_fields kvs d))"

definition validate_public_value :: "'a owner_codec_scheme \<Rightarrow> jvalue \<Rightarrow> owner_response_error + unit" where
  "validate_public_value cd v =
     and_then (ok_or (oc_value_bytes cd v) ResponseTooLarge) (\<lambda>bytes.
     and_then (ensure (\<not> length bytes > OWNER_MAX_RESPONSE_BYTES) ResponseTooLarge) (\<lambda>_.
     validate_inner v 0))"

fun nonzero_effect :: "jvalue \<Rightarrow> bool"
  and nonzero_values :: "jvalue list \<Rightarrow> bool"
  and nonzero_fields :: "(string \<times> jvalue) list \<Rightarrow> bool" where
  "nonzero_effect (VObject kvs) \<longleftrightarrow>
     list_ex (\<lambda>name. case Option.bind (object_get kvs name) value_u64 of
         Some n \<Rightarrow> n > 0 | None \<Rightarrow> False) [''inference_calls'', ''native_calls'', ''game_effects'']
     \<or> nonzero_fields kvs"
| "nonzero_effect (VArray vs) \<longleftrightarrow> nonzero_values vs"
| "nonzero_effect _ \<longleftrightarrow> False"
| "nonzero_values [] \<longleftrightarrow> False"
| "nonzero_values (v # vs) \<longleftrightarrow> nonzero_effect v \<or> nonzero_values vs"
| "nonzero_fields [] \<longleftrightarrow> False"
| "nonzero_fields ((k, v) # kvs) \<longleftrightarrow> nonzero_effect v \<or> nonzero_fields kvs"

fun canonical_value :: "jvalue \<Rightarrow> jvalue"
  and canonical_values :: "jvalue list \<Rightarrow> jvalue list"
  and canonical_fields :: "(string \<times> jvalue) list \<Rightarrow> (string \<times> jvalue) list" where
  "canonical_value (VObject kvs) = object_of (sort_key fst (canonical_fields kvs))"
| "canonical_value (VArray vs) = VArray (canonical_values vs)"
| "canonical_value v = v"
| "canonical_values [] = []"
| "canonical_values (v # vs) = canonical_value v # canonical_values vs"
| "canonical_fields [] = []"
| "canonical_fields ((k, v) # kvs) = (k, canonical_value v) # canonical_fields kvs"

definition canonical_digest :: "'a owner_codec_scheme \<Rightarrow> jvalue \<Rightarrow> string" where
  "canonical_digest cd v =
     hex_bytes (oc_sha cd (case oc_value_bytes cd (canonical_value v) of
       Some bytes \<Rightarrow> bytes | None \<Rightarrow> []))"


subsection \<open>Receipts and replies\<close>

datatype owner_outcome = OwnerAccepted | OwnerUnknown | OwnerUnsupported

fun outcome_as_str :: "owner_outcome \<Rightarrow> string" where
  "outcome_as_str OwnerAccepted = ''accepted''"
| "outcome_as_str OwnerUnknown = ''unknown''"
| "outcome_as_str OwnerUnsupported = ''unsupported''"

record owner_receipt =
  re_schema :: string
  re_receipt_id :: string
  re_operation_id :: string
  re_operation :: string
  re_source :: string
  re_owner_epoch :: u64
  re_evidence :: string
  re_outcome :: owner_outcome
  re_effect_applied :: bool

definition safe_metadata_id :: "string \<Rightarrow> bool" where
  "safe_metadata_id s \<longleftrightarrow>
     owner_valid_id s
     \<and> list_all (\<lambda>needle. \<not> str_contains (to_ascii_lowercase s) needle)
         [''credential'', ''private'', ''secret'', ''password'', ''authorization'', ''bearer'',
          ''token'', ''prompt'']"

definition validate_receipt :: "owner_receipt \<Rightarrow> owner_response_error + unit" where
  "validate_receipt r =
     and_then (ensure (\<not> (re_schema r \<noteq> OWNER_RECEIPT_SCHEMA
         \<or> \<not> owner_valid_id (re_receipt_id r)
         \<or> \<not> owner_valid_id (re_operation_id r)
         \<or> \<not> safe_metadata_id (re_source r)
         \<or> \<not> safe_metadata_id (re_evidence r)
         \<or> re_operation r = []
         \<or> length (re_operation r) > 128
         \<or> \<not> list_all token_byte (re_operation r))) InvalidReceipt) (\<lambda>_.
     ensure (\<not> (re_outcome r \<noteq> OwnerAccepted \<and> re_effect_applied r)) InvalidReceipt)"

definition new_receipt ::
  "string \<Rightarrow> string \<Rightarrow> owner_operation \<Rightarrow> string \<Rightarrow> u64 \<Rightarrow> string \<Rightarrow> owner_outcome \<Rightarrow> bool
     \<Rightarrow> owner_response_error + owner_receipt" where
  "new_receipt receipt_id operation_id op source epoch evidence outcome effect =
     (let r = \<lparr>re_schema = OWNER_RECEIPT_SCHEMA, re_receipt_id = receipt_id,
               re_operation_id = operation_id, re_operation = operation_as_str op,
               re_source = source, re_owner_epoch = epoch, re_evidence = evidence,
               re_outcome = outcome, re_effect_applied = effect\<rparr>
      in and_then (validate_receipt r) (\<lambda>_. Inr r))"

record owner_reply =
  rp_receipt :: owner_receipt
  rp_value :: "jvalue option"
  rp_effective_limits :: "limit_record option"

definition new_reply ::
  "'a owner_codec_scheme \<Rightarrow> owner_receipt \<Rightarrow> jvalue option \<Rightarrow> owner_response_error + owner_reply" where
  "new_reply cd r v =
     and_then (validate_receipt r) (\<lambda>_.
     and_then (case v of Some v \<Rightarrow> validate_public_value cd v | None \<Rightarrow> Inr ()) (\<lambda>_.
     and_then (ensure (\<not> (re_outcome r \<noteq> OwnerAccepted \<and> v \<noteq> None)) ValueForNonAccepted) (\<lambda>_.
     Inr \<lparr>rp_receipt = r, rp_value = v, rp_effective_limits = None\<rparr>)))"

definition unknown_reply ::
  "'a owner_codec_scheme \<Rightarrow> string \<Rightarrow> string \<Rightarrow> owner_operation \<Rightarrow> string \<Rightarrow> u64 \<Rightarrow> string
     \<Rightarrow> owner_response_error + owner_reply" where
  "unknown_reply cd receipt_id operation_id op source epoch evidence =
     and_then (new_receipt receipt_id operation_id op source epoch evidence OwnerUnknown False)
       (\<lambda>r. new_reply cd r None)"

definition unsupported_reply ::
  "'a owner_codec_scheme \<Rightarrow> string \<Rightarrow> string \<Rightarrow> owner_operation \<Rightarrow> string \<Rightarrow> u64 \<Rightarrow> string
     \<Rightarrow> owner_response_error + owner_reply" where
  "unsupported_reply cd receipt_id operation_id op source epoch evidence =
     and_then (new_receipt receipt_id operation_id op source epoch evidence OwnerUnsupported False)
       (\<lambda>r. new_reply cd r None)"

text \<open>\<open>serde_json::to_vec\<close> of an option writes \<open>null\<close> for \<open>None\<close>, as for \<open>Value::Null\<close>.\<close>

definition validate_limit_sidecar ::
  "'a owner_codec_scheme \<Rightarrow> owner_reply \<Rightarrow> owner_response_error + unit" where
  "validate_limit_sidecar cd p =
     (case rp_effective_limits p of
        None \<Rightarrow> Inr ()
      | Some r \<Rightarrow>
          and_then (ensure (\<not> (re_outcome (rp_receipt p) \<noteq> OwnerAccepted
              \<or> re_operation (rp_receipt p) \<notin> {''memory.capabilities'', ''provider_session.capabilities''}))
            OperationMismatch) (\<lambda>_.
          and_then (ensure (\<not> (length (er_rows r) > 64
              \<or> list_ex (\<lambda>s. length s > 128)
                  [er_schema r, er_surface r, er_owner r, er_owner_revision r, er_capability_schema r,
                   er_capability_descriptor_sha256 r]
              \<or> list_ex (\<lambda>row. length (lr_field row) > 128 \<or> length (lr_validator row) > 256)
                  (er_rows r))) ResponseTooLarge) (\<lambda>_.
          and_then (ok_or (oc_record_bytes cd r) InvalidReceipt) (\<lambda>record_bytes.
          and_then (ok_or (oc_value_bytes cd (case rp_value p of Some v \<Rightarrow> v | None \<Rightarrow> VNull))
            InvalidReceipt) (\<lambda>value_bytes.
          ensure (\<not> length record_bytes + length value_bytes > OWNER_MAX_RESPONSE_BYTES)
            ResponseTooLarge)))))"

definition with_effective_limits ::
  "'a owner_codec_scheme \<Rightarrow> limit_record \<Rightarrow> owner_reply \<Rightarrow> owner_response_error + owner_reply" where
  "with_effective_limits cd r p =
     (let q = p\<lparr>rp_effective_limits := Some r\<rparr>
      in and_then (validate_limit_sidecar cd q) (\<lambda>_. Inr q))"

definition validate_for ::
  "'a owner_codec_scheme \<Rightarrow> owner_operation \<Rightarrow> owner_reply \<Rightarrow> owner_response_error + unit" where
  "validate_for cd op p =
     and_then (validate_receipt (rp_receipt p)) (\<lambda>_.
     and_then (ensure (re_operation (rp_receipt p) = operation_as_str op) OperationMismatch) (\<lambda>_.
     and_then (case rp_value p of Some v \<Rightarrow> validate_public_value cd v | None \<Rightarrow> Inr ()) (\<lambda>_.
     and_then (ensure (\<not> (re_outcome (rp_receipt p) \<noteq> OwnerAccepted \<and> rp_value p \<noteq> None))
       ValueForNonAccepted) (\<lambda>_.
     and_then (ensure (\<not> (operation_read_only op \<and> (re_effect_applied (rp_receipt p)
         \<or> (case rp_value p of Some v \<Rightarrow> nonzero_effect v | None \<Rightarrow> False)))) ReadHadEffects) (\<lambda>_.
     validate_limit_sidecar cd p)))))"

subsection \<open>Calls\<close>

record owner_call =
  cl_operation :: owner_operation
  cl_scope :: owner_scope
  cl_reference :: "string option"
  cl_payload :: jvalue
  cl_request_sha256 :: string
  cl_grant :: grant_receipt

record receipt_lookup =
  lk_operation :: owner_operation
  lk_scope :: owner_scope
  lk_reference :: "string option"
  lk_receipt_id :: string

datatype owner_error =
  OwnerUnavailable | OwnerUnsupportedError | LostReply string | UnknownReceipt | MalformedResponse

definition make_call ::
  "'a owner_codec_scheme \<Rightarrow> owner_operation \<Rightarrow> owner_scope \<Rightarrow> string option \<Rightarrow> jvalue \<Rightarrow> grant_receipt
     \<Rightarrow> owner_response_error + owner_call" where
  "make_call cd op scope reference payload grant =
     and_then (ensure (scope_is_valid scope) InvalidResponseScope) (\<lambda>_.
     and_then (validate_public_value cd payload) (\<lambda>_.
     Inr \<lparr>cl_operation = op, cl_scope = scope, cl_reference = reference, cl_payload = payload,
          cl_request_sha256 = canonical_digest cd payload, cl_grant = grant\<rparr>))"

text \<open>\<open>serde_json::to_value\<close> of a receipt: its derived form, which cannot fail.\<close>

definition receipt_value :: "owner_receipt \<Rightarrow> jvalue" where
  "receipt_value r = object_of
     [(''schema'', VString (re_schema r)), (''receipt_id'', VString (re_receipt_id r)),
      (''operation_id'', VString (re_operation_id r)), (''operation'', VString (re_operation r)),
      (''source'', VString (re_source r)), (''owner_epoch'', VNumber (PosInt (re_owner_epoch r))),
      (''evidence'', VString (re_evidence r)), (''outcome'', VString (outcome_as_str (re_outcome r))),
      (''effect_applied'', VBool (re_effect_applied r))]"

end
