(* ===== verification/Memory_Capabilities.thy ===== *)
theory Memory_Capabilities
  imports Owner_Port
begin

text \<open>
  The capability descriptor of the memory surface (\<open>context-service/src/memory.rs\<close> and
  \<open>capability_validation.rs\<close>): the descriptor and its legacy form, its validation, the record of
  effective limits derived from it, and the reader of an advertised descriptor. \<open>serde_json\<close> is
  the codec. Field prefixes: \<open>ms_\<close> scope, \<open>ml_\<close> limits, \<open>mb_\<close> binding, \<open>mc_\<close> descriptor,
  \<open>mv_\<close> legacy descriptor, \<open>cd_\<close> codec.
\<close>

subsection \<open>The descriptor\<close>

record memory_scope =
  ms_project_id :: string
  ms_run_id :: string
  ms_episode_id :: string
  ms_agent_id :: string

record memory_limits =
  ml_policy_schema :: string
  ml_max_candidates :: u64
  ml_max_results :: u64
  ml_max_selected :: u64
  ml_optional_byte_budget :: u64
  ml_max_entries_per_run :: u64
  ml_max_corpus_bytes :: u64
  ml_max_source_bytes :: u64
  ml_max_sources_per_job :: u64
  ml_max_job_input_bytes :: u64
  ml_max_summary_output_bytes :: u64
  ml_max_query_bytes :: u64
  ml_max_lineage_depth :: u64
  ml_max_global_memory_bytes :: u64
  ml_max_global_memory_jobs :: u64
  ml_max_retention_resources :: u64
  ml_max_retention_bytes :: u64
  ml_max_cache_entries :: u64
  ml_max_review_records :: u64
  ml_max_memory_bindings :: u64
  ml_max_usage_attempts :: u64

record capability_binding =
  mb_owner :: string
  mb_owner_revision :: string
  mb_policy_schema_sha256 :: string
  mb_model_revision :: string
  mb_adapter_revision :: string
  mb_adapter_revision_sha256 :: string
  mb_descriptor_sha256 :: string

record memory_capabilities =
  mc_schema :: string
  mc_product_phase :: "8 word"
  mc_scope :: memory_scope
  mc_enabled :: bool
  mc_local_lexical_retrieval :: string
  mc_extractive_compaction :: string
  mc_abstractive_adapter :: string
  mc_abstractive_live_verified :: bool
  mc_per_decision_policy :: string
  mc_phase2_approval_required :: bool
  mc_persistent_provider_sessions :: bool
  mc_provider_side_compaction :: bool
  mc_semantic_vector_retrieval :: string
  mc_hidden_reasoning_access :: bool
  mc_direct_game_dispatch :: bool
  mc_effective_limits :: memory_limits
  mc_binding :: capability_binding
  mc_supported_operations :: "string list"

record memory_capabilities_v1 =
  mv_schema :: string
  mv_product_phase :: "8 word"
  mv_scope :: memory_scope
  mv_enabled :: bool
  mv_local_lexical_retrieval :: string
  mv_extractive_compaction :: string
  mv_abstractive_adapter :: string
  mv_abstractive_live_verified :: bool
  mv_per_decision_policy :: string
  mv_phase2_approval_required :: bool
  mv_persistent_provider_sessions :: bool
  mv_provider_side_compaction :: bool
  mv_semantic_vector_retrieval :: string
  mv_hidden_reasoning_access :: bool
  mv_direct_game_dispatch :: bool
  mv_supported_operations :: "string list"

definition into_v1 :: "memory_capabilities \<Rightarrow> memory_capabilities_v1" where
  "into_v1 c =
     \<lparr>mv_schema = MEMORY_CAPABILITIES_SCHEMA_V1,
      mv_product_phase = mc_product_phase c,
      mv_scope = mc_scope c,
      mv_enabled = mc_enabled c,
      mv_local_lexical_retrieval = mc_local_lexical_retrieval c,
      mv_extractive_compaction = mc_extractive_compaction c,
      mv_abstractive_adapter = mc_abstractive_adapter c,
      mv_abstractive_live_verified = mc_abstractive_live_verified c,
      mv_per_decision_policy = mc_per_decision_policy c,
      mv_phase2_approval_required = mc_phase2_approval_required c,
      mv_persistent_provider_sessions = mc_persistent_provider_sessions c,
      mv_provider_side_compaction = mc_provider_side_compaction c,
      mv_semantic_vector_retrieval = mc_semantic_vector_retrieval c,
      mv_hidden_reasoning_access = mc_hidden_reasoning_access c,
      mv_direct_game_dispatch = mc_direct_game_dispatch c,
      mv_supported_operations = mc_supported_operations c\<rparr>"

record memory_codec = owner_codec +
  cd_from_slice :: "bytes \<Rightarrow> jvalue option"
  cd_memory_of :: "jvalue \<Rightarrow> memory_capabilities option"
  cd_memory_v1_of :: "jvalue \<Rightarrow> memory_capabilities_v1 option"
  cd_memory_value :: "memory_capabilities \<Rightarrow> jvalue option"
  cd_memory_v1_value :: "memory_capabilities_v1 \<Rightarrow> jvalue option"
  cd_memory_bytes :: "memory_capabilities \<Rightarrow> bytes option"

subsection \<open>The derived record\<close>

definition MEMORY_POLICY_SCHEMA_MAX_OPTIONAL_BYTES :: u64 where
  "MEMORY_POLICY_SCHEMA_MAX_OPTIONAL_BYTES = 65536"

definition memory_limit_rows :: "memory_limits \<Rightarrow> limit_row list" where
  "memory_limit_rows l =
     [policy_row ''max_candidates'' 64 64 (ml_max_candidates l)
           ''MemoryPolicy::validate_schema+validate_against_capabilities'',
      policy_row ''max_results'' 16 16 (ml_max_results l)
           ''MemoryPolicy::validate_schema+validate_against_capabilities'',
      policy_row ''max_selected'' 32 32 (ml_max_selected l)
           ''MemoryPolicy::validate_schema+validate_against_capabilities'',
      policy_row ''optional_byte_budget'' MEMORY_POLICY_SCHEMA_MAX_OPTIONAL_BYTES 8192 (ml_optional_byte_budget l)
           ''MemoryPolicy::validate_schema+validate_against_capabilities'',
      profile_selected ''max_entries_per_run'' 10000 (ml_max_entries_per_run l)
           ''MemoryCorpus::with_limits'',
      profile_selected ''max_corpus_bytes'' 268435456 (ml_max_corpus_bytes l)
           ''MemoryCorpus::with_limits'',
      runtime_guard ''max_source_bytes'' 65536 (ml_max_source_bytes l) ''MemoryCorpus admission'',
      runtime_guard ''max_sources_per_job'' 16 (ml_max_sources_per_job l) ''SummaryJob admission'',
      runtime_guard ''max_job_input_bytes'' 65536 (ml_max_job_input_bytes l) ''SummaryJob budget admission'',
      runtime_guard ''max_summary_output_bytes'' 8192 (ml_max_summary_output_bytes l) ''SummaryJob output admission'',
      runtime_guard ''max_query_bytes'' 4096 (ml_max_query_bytes l) ''MemoryQuery validation'',
      runtime_guard ''max_lineage_depth'' 2 (ml_max_lineage_depth l) ''MemoryEntry lineage admission'',
      runtime_guard ''max_global_memory_bytes'' 262144 (ml_max_global_memory_bytes l) ''MemoryBudgetLedger'',
      runtime_guard ''max_global_memory_jobs'' 32 (ml_max_global_memory_jobs l) ''MemoryBudgetLedger'',
      runtime_guard ''max_retention_resources'' 512 (ml_max_retention_resources l) ''RetentionInventory'',
      runtime_guard ''max_retention_bytes'' 268435456 (ml_max_retention_bytes l) ''RetentionInventory'',
      runtime_guard ''max_cache_entries'' 256 (ml_max_cache_entries l) ''RetrievalCache'',
      runtime_guard ''max_review_records'' 512 (ml_max_review_records l) ''ImmutableReviewLedger'',
      runtime_guard ''max_memory_bindings'' 256 (ml_max_memory_bindings l) ''AtomicBindingStore'',
      runtime_guard ''max_usage_attempts'' 1024 (ml_max_usage_attempts l) ''UsageLedger'']"

definition memory_limit_record :: "memory_capabilities \<Rightarrow> limit_record" where
  "memory_limit_record c =
     \<lparr>er_schema = EFFECTIVE_LIMIT_RECORD_SCHEMA,
      er_surface = ''context-memory'',
      er_owner = mb_owner (mc_binding c),
      er_owner_revision = mb_owner_revision (mc_binding c),
      er_capability_schema = mc_schema c,
      er_capability_descriptor_sha256 = mb_descriptor_sha256 (mc_binding c),
      er_enabled = mc_enabled c,
      er_rows = memory_limit_rows (mc_effective_limits c)\<rparr>"

definition memory_admit_policy_value ::
  "memory_capabilities \<Rightarrow> string \<Rightarrow> u64 \<Rightarrow> unavailable_reason + unit" where
  "memory_admit_policy_value c name requested = admit_value (memory_limit_record c) name requested"

definition memory_admit_authorized_record ::
  "memory_capabilities \<Rightarrow> limit_record \<Rightarrow> string \<Rightarrow> u64 \<Rightarrow> unavailable_reason + unit" where
  "memory_admit_authorized_record c r name requested =
     admit_authorized r (memory_limit_record c) name requested"

subsection \<open>Validation\<close>

definition MEMORY_POLICY_SCHEMA_SHA256 :: string where
  "MEMORY_POLICY_SCHEMA_SHA256 = ''55c9bba8ec71ae00b1a6c6bec07b1ca85ec9df0de0d7a0bfa2b5cd663f9aa416''"

definition capability_token :: "string \<Rightarrow> bool" where
  "capability_token s \<longleftrightarrow>
     s \<noteq> [] \<and> length s \<le> 128
     \<and> (case s of c # cs \<Rightarrow> ascii_alphanumeric (bv c) \<and> list_all token_byte cs | [] \<Rightarrow> False)"

definition capability_hash :: "string \<Rightarrow> bool" where
  "capability_hash s \<longleftrightarrow>
     length s = 64
     \<and> list_all (\<lambda>c. ascii_digit (bv c) \<or> 97 \<le> bv c \<and> bv c \<le> (102::nat)) s"

definition capability_status :: "string \<Rightarrow> bool" where
  "capability_status s \<longleftrightarrow> s \<in> {''supported'', ''unsupported'', ''unverified''}"

definition codec_digest :: "'a owner_codec_scheme \<Rightarrow> bytes \<Rightarrow> string" where
  "codec_digest cd bs = hex_bytes (oc_sha cd bs)"

definition memory_descriptor_digest ::
  "'a memory_codec_scheme \<Rightarrow> memory_capabilities \<Rightarrow> unavailable_reason + string" where
  "memory_descriptor_digest cd c =
     (let unsigned = c\<lparr>mc_binding := (mc_binding c)\<lparr>mb_descriptor_sha256 := []\<rparr>\<rparr>
      in map_err (\<lambda>_. DescriptorTampered)
           (and_then (ok_or (cd_memory_bytes cd unsigned) ()) (\<lambda>bs. Inr (codec_digest cd bs))))"

definition MEMORY_OPERATION_NAMES :: "string list" where
  "MEMORY_OPERATION_NAMES = [''search'', ''extract'', ''generate'', ''review'', ''select'', ''policy'',
     ''adopt'', ''revoke'', ''evaluate'']"

definition memory_descriptor_refused :: "'a memory_codec_scheme \<Rightarrow> memory_capabilities \<Rightarrow> bool" where
  "memory_descriptor_refused cd c \<longleftrightarrow>
     (let b = mc_binding c; ops = mc_supported_operations c
      in mc_schema c \<noteq> MEMORY_CAPABILITIES_SCHEMA
         \<or> mc_product_phase c \<noteq> 3
         \<or> \<not> list_all capability_token [ms_project_id (mc_scope c), ms_run_id (mc_scope c),
               ms_episode_id (mc_scope c), ms_agent_id (mc_scope c)]
         \<or> \<not> list_all capability_status [mc_local_lexical_retrieval c, mc_extractive_compaction c,
               mc_abstractive_adapter c, mc_per_decision_policy c]
         \<or> \<not> mc_phase2_approval_required c
         \<or> mc_persistent_provider_sessions c
         \<or> mc_provider_side_compaction c
         \<or> mc_semantic_vector_retrieval c \<noteq> ''unsupported''
         \<or> mc_hidden_reasoning_access c
         \<or> mc_direct_game_dispatch c
         \<or> ml_policy_schema (mc_effective_limits c) \<noteq> ''ascension.context-memory.policy.v1''
         \<or> mb_owner b \<noteq> ''sts2-harness''
         \<or> mb_owner_revision b \<noteq> ''harness-context-memory-v3''
         \<or> mb_model_revision b \<noteq> ''not-applicable''
         \<or> mb_adapter_revision b \<noteq> ''harness-context-memory-v3''
         \<or> mb_adapter_revision_sha256 b \<noteq> codec_digest cd (mb_adapter_revision b)
         \<or> mb_policy_schema_sha256 b \<noteq> MEMORY_POLICY_SCHEMA_SHA256
         \<or> \<not> capability_hash (mb_descriptor_sha256 b)
         \<or> length ops > 9
         \<or> length (remdups ops) \<noteq> length ops
         \<or> list_ex (\<lambda>op. op \<notin> set MEMORY_OPERATION_NAMES) ops
         \<or> \<not> mc_enabled c \<and> ops \<noteq> [])"

definition memory_validate_descriptor ::
  "'a memory_codec_scheme \<Rightarrow> memory_capabilities \<Rightarrow> unavailable_reason + unit" where
  "memory_validate_descriptor cd c =
     and_then (ensure (\<not> memory_descriptor_refused cd c) DescriptorTampered) (\<lambda>_.
     and_then (map_err (\<lambda>_. DescriptorTampered) (record_validate (memory_limit_record c))) (\<lambda>_.
     and_then (memory_descriptor_digest cd c) (\<lambda>d.
     ensure (mb_descriptor_sha256 (mc_binding c) = d) DescriptorTampered)))"

subsection \<open>The local descriptor\<close>

definition fixture_effective_limits :: memory_limits where
  "fixture_effective_limits =
     \<lparr>ml_policy_schema = ''ascension.context-memory.policy.v1'',
      ml_max_candidates = 64,
      ml_max_results = 16,
      ml_max_selected = 32,
      ml_optional_byte_budget = 8192,
      ml_max_entries_per_run = 10000,
      ml_max_corpus_bytes = 268435456,
      ml_max_source_bytes = 65536,
      ml_max_sources_per_job = 16,
      ml_max_job_input_bytes = 65536,
      ml_max_summary_output_bytes = 8192,
      ml_max_query_bytes = 4096,
      ml_max_lineage_depth = 2,
      ml_max_global_memory_bytes = 262144,
      ml_max_global_memory_jobs = 32,
      ml_max_retention_resources = 512,
      ml_max_retention_bytes = 268435456,
      ml_max_cache_entries = 256,
      ml_max_review_records = 512,
      ml_max_memory_bindings = 256,
      ml_max_usage_attempts = 1024\<rparr>"

definition fixture_binding :: "'a owner_codec_scheme \<Rightarrow> capability_binding" where
  "fixture_binding cd =
     \<lparr>mb_owner = ''sts2-harness'', mb_owner_revision = ''harness-context-memory-v3'',
      mb_policy_schema_sha256 = MEMORY_POLICY_SCHEMA_SHA256, mb_model_revision = ''not-applicable'',
      mb_adapter_revision = ''harness-context-memory-v3'',
      mb_adapter_revision_sha256 = codec_digest cd ''harness-context-memory-v3'',
      mb_descriptor_sha256 = []\<rparr>"

definition memory_target_capabilities ::
  "'a memory_codec_scheme \<Rightarrow> memory_scope \<Rightarrow> bool \<Rightarrow> memory_capabilities" where
  "memory_target_capabilities cd scope enabled =
     (let c = \<lparr>mc_schema = MEMORY_CAPABILITIES_SCHEMA, mc_product_phase = 3, mc_scope = scope,
               mc_enabled = enabled, mc_local_lexical_retrieval = ''unverified'',
               mc_extractive_compaction = ''unverified'', mc_abstractive_adapter = ''unsupported'',
               mc_abstractive_live_verified = False, mc_per_decision_policy = ''unverified'',
               mc_phase2_approval_required = True, mc_persistent_provider_sessions = False,
               mc_provider_side_compaction = False, mc_semantic_vector_retrieval = ''unsupported'',
               mc_hidden_reasoning_access = False, mc_direct_game_dispatch = False,
               mc_effective_limits = fixture_effective_limits, mc_binding = fixture_binding cd,
               mc_supported_operations = (if enabled then [''search''] else [])\<rparr>
      in case memory_descriptor_digest cd c of
           Inr d \<Rightarrow> c\<lparr>mc_binding := (mc_binding c)\<lparr>mb_descriptor_sha256 := d\<rparr>\<rparr>
         | Inl _ \<Rightarrow> c)"

subsection \<open>The reader of an advertised descriptor\<close>

datatype advertised_memory = AdvertisedV1 memory_capabilities_v1 | AdvertisedV3 memory_capabilities

datatype capabilities_read_error = UnknownSchema | MalformedCapabilities

definition value_get :: "jvalue \<Rightarrow> string \<Rightarrow> jvalue option" where
  "value_get v name = (case v of VObject kvs \<Rightarrow> object_get kvs name | _ \<Rightarrow> None)"

definition read_memory_capabilities ::
  "'a memory_codec_scheme \<Rightarrow> bytes \<Rightarrow> capabilities_read_error + advertised_memory" where
  "read_memory_capabilities cd bs =
     and_then (ok_or (cd_from_slice cd bs) MalformedCapabilities) (\<lambda>v.
     (let schema = Option.bind (value_get v ''schema'') value_str
      in if schema = Some MEMORY_CAPABILITIES_SCHEMA_V1 then
           and_then (ok_or (cd_memory_v1_of cd v) MalformedCapabilities) (\<lambda>c. Inr (AdvertisedV1 c))
         else if schema = Some MEMORY_CAPABILITIES_SCHEMA then
           and_then (ok_or (cd_memory_of cd v) MalformedCapabilities) (\<lambda>c. Inr (AdvertisedV3 c))
         else Inl UnknownSchema))"

end
