(* ===== verification/Session_Capabilities.thy ===== *)
theory Session_Capabilities
  imports Memory_Capabilities
begin

text \<open>
  The capability descriptor of the provider-session surface
  (\<open>context-service/src/provider_session/mod.rs\<close>, \<open>capabilities.rs\<close> and
  \<open>capability_validation.rs\<close>): the current descriptor \<open>v4\<close>, the superseded \<open>v3\<close> and the legacy
  \<open>v1\<close>, the validation, the derived record of effective limits and the reader of all three.
  Field prefixes: \<open>sh_\<close> hardening, \<open>sl_\<close> limits, \<open>sb_\<close> binding, \<open>sc_\<close> current, \<open>s3_\<close> superseded,
  \<open>s1_\<close> legacy descriptor.
\<close>

definition SESSION_CAPABILITIES_OWNER_REVISION :: string where
  "SESSION_CAPABILITIES_OWNER_REVISION = ''harness-provider-session-v4''"
definition SESSION_CAPABILITIES_SCHEMA_V3 :: string where
  "SESSION_CAPABILITIES_SCHEMA_V3 = ''ascension.provider-session.capabilities.v3''"

subsection \<open>The descriptors\<close>

record session_hardening =
  sh_tools_enabled :: bool
  sh_ambient_history :: bool
  sh_encrypted_state :: bool
  sh_configuration_verified :: bool
  sh_transform_handling :: string

record session_limits =
  sl_policy_schema :: string
  sl_max_session_items :: u64
  sl_max_dependencies :: u64
  sl_max_events :: u64
  sl_max_operations :: u64
  sl_max_prepared :: u64
  sl_max_candidates :: u64
  sl_max_maintenance_jobs :: u64
  sl_max_completed_turns :: u64
  sl_max_history_ttl_seconds :: u64
  sl_max_frame_bytes :: u64
  sl_max_history_bytes :: u64
  sl_max_prepared_bytes :: u64
  sl_max_suffix_bytes :: u64
  sl_max_output_schema_bytes :: u64
  sl_max_method_bytes :: u64
  sl_max_json_depth :: u64

record session_binding =
  sb_owner :: string
  sb_owner_revision :: string
  sb_policy_schema_sha256 :: string
  sb_model_revision :: string
  sb_adapter_revision :: string
  sb_adapter_revision_sha256 :: string
  sb_descriptor_sha256 :: string

record session_capabilities =
  sc_schema :: string
  sc_profile_id :: string
  sc_profile_sha256 :: string
  sc_native_version :: string
  sc_native_binary_sha256 :: string
  sc_native_schema_sha256 :: string
  sc_provenance :: string
  sc_transport :: string
  sc_enabled_methods :: "string list"
  sc_hardening :: session_hardening
  sc_effective_limits :: session_limits
  sc_binding :: session_binding
  sc_strict_executable :: bool
  sc_experimental_api :: bool
  sc_unknown_methods :: string
  sc_raw_rpc :: bool

record session_capabilities_v1 =
  s1_schema :: string
  s1_profile_id :: string
  s1_profile_sha256 :: string
  s1_native_version :: string
  s1_native_binary_sha256 :: string
  s1_native_schema_sha256 :: string
  s1_evidence :: string
  s1_transport :: string
  s1_enabled_methods :: "string list"
  s1_hardening :: session_hardening
  s1_strict_executable :: bool
  s1_experimental_api :: bool
  s1_unknown_methods :: string
  s1_raw_rpc :: bool

record session_capabilities_v3 =
  s3_schema :: string
  s3_profile_id :: string
  s3_profile_sha256 :: string
  s3_native_version :: string
  s3_native_binary_sha256 :: string
  s3_native_schema_sha256 :: string
  s3_evidence :: string
  s3_transport :: string
  s3_enabled_methods :: "string list"
  s3_hardening :: session_hardening
  s3_effective_limits :: session_limits
  s3_binding :: session_binding
  s3_strict_executable :: bool
  s3_experimental_api :: bool
  s3_unknown_methods :: string
  s3_raw_rpc :: bool

definition session_v3_to_v4 :: "session_capabilities_v3 \<Rightarrow> session_capabilities" where
  "session_v3_to_v4 c =
     \<lparr>sc_schema = SESSION_CAPABILITIES_SCHEMA,
      sc_profile_id = s3_profile_id c,
      sc_profile_sha256 = s3_profile_sha256 c,
      sc_native_version = s3_native_version c,
      sc_native_binary_sha256 = s3_native_binary_sha256 c,
      sc_native_schema_sha256 = s3_native_schema_sha256 c,
      sc_provenance = s3_evidence c,
      sc_transport = s3_transport c,
      sc_enabled_methods = s3_enabled_methods c,
      sc_hardening = s3_hardening c,
      sc_effective_limits = s3_effective_limits c,
      sc_binding = s3_binding c,
      sc_strict_executable = s3_strict_executable c,
      sc_experimental_api = s3_experimental_api c,
      sc_unknown_methods = s3_unknown_methods c,
      sc_raw_rpc = s3_raw_rpc c\<rparr>"

definition session_to_v1 :: "session_capabilities \<Rightarrow> session_capabilities_v1" where
  "session_to_v1 c =
     \<lparr>s1_schema = SESSION_CAPABILITIES_SCHEMA_V1,
      s1_profile_id = sc_profile_id c,
      s1_profile_sha256 = sc_profile_sha256 c,
      s1_native_version = sc_native_version c,
      s1_native_binary_sha256 = sc_native_binary_sha256 c,
      s1_native_schema_sha256 = sc_native_schema_sha256 c,
      s1_evidence = sc_provenance c,
      s1_transport = sc_transport c,
      s1_enabled_methods = sc_enabled_methods c,
      s1_hardening = sc_hardening c,
      s1_strict_executable = sc_strict_executable c,
      s1_experimental_api = sc_experimental_api c,
      s1_unknown_methods = sc_unknown_methods c,
      s1_raw_rpc = sc_raw_rpc c\<rparr>"

record session_codec = memory_codec +
  cd_session_of :: "jvalue \<Rightarrow> session_capabilities option"
  cd_session_v3_of :: "jvalue \<Rightarrow> session_capabilities_v3 option"
  cd_session_v1_of :: "jvalue \<Rightarrow> session_capabilities_v1 option"
  cd_session_value :: "session_capabilities \<Rightarrow> jvalue option"
  cd_session_v1_value :: "session_capabilities_v1 \<Rightarrow> jvalue option"
  cd_session_bytes :: "session_capabilities \<Rightarrow> bytes option"

subsection \<open>The derived record\<close>

definition SESSION_POLICY_SCHEMA_MAX_COMPLETED_TURNS :: u64 where
  "SESSION_POLICY_SCHEMA_MAX_COMPLETED_TURNS = 1024"
definition SESSION_POLICY_SCHEMA_MAX_HISTORY_TTL_SECONDS :: u64 where
  "SESSION_POLICY_SCHEMA_MAX_HISTORY_TTL_SECONDS = 604800"

definition session_limit_rows :: "session_limits \<Rightarrow> limit_row list" where
  "session_limit_rows l =
     [policy_row ''max_completed_turns'' SESSION_POLICY_SCHEMA_MAX_COMPLETED_TURNS 128
           (sl_max_completed_turns l) ''ProviderSessionPolicy::validate_schema+ProviderSessionBroker::new'',
      policy_row ''max_history_ttl_seconds'' SESSION_POLICY_SCHEMA_MAX_HISTORY_TTL_SECONDS 86400
           (sl_max_history_ttl_seconds l) ''ProviderSessionPolicy::validate_schema+ProviderSessionBroker::new'',
      runtime_guard ''max_session_items'' 512 (sl_max_session_items l) ''ProviderSessionBroker'',
      runtime_guard ''max_dependencies'' 128 (sl_max_dependencies l) ''ProviderSessionBroker'',
      runtime_guard ''max_events'' 4096 (sl_max_events l) ''ProviderSessionBroker'',
      runtime_guard ''max_operations'' 1024 (sl_max_operations l) ''ProviderSessionBroker'',
      runtime_guard ''max_prepared'' 1024 (sl_max_prepared l) ''ProviderSessionBroker'',
      runtime_guard ''max_candidates'' 4 (sl_max_candidates l) ''ProviderSessionBroker'',
      runtime_guard ''max_maintenance_jobs'' 2 (sl_max_maintenance_jobs l) ''ProviderSessionBroker'',
      runtime_guard ''max_frame_bytes'' 262144 (sl_max_frame_bytes l) ''NativeTransport'',
      runtime_guard ''max_history_bytes'' 4194304 (sl_max_history_bytes l) ''ProviderSessionBroker'',
      runtime_guard ''max_prepared_bytes'' 4194304 (sl_max_prepared_bytes l) ''ProviderSessionBroker'',
      runtime_guard ''max_suffix_bytes'' 131072 (sl_max_suffix_bytes l) ''NativeTransport'',
      runtime_guard ''max_output_schema_bytes'' 65536 (sl_max_output_schema_bytes l) ''NativeTransport'',
      runtime_guard ''max_method_bytes'' 128 (sl_max_method_bytes l) ''NativeFrame parse'',
      runtime_guard ''max_json_depth'' 64 (sl_max_json_depth l) ''NativeFrame parse'']"

definition session_limit_record :: "session_capabilities \<Rightarrow> limit_record" where
  "session_limit_record c =
     \<lparr>er_schema = EFFECTIVE_LIMIT_RECORD_SCHEMA,
      er_surface = ''provider-session'',
      er_owner = sb_owner (sc_binding c),
      er_owner_revision = sb_owner_revision (sc_binding c),
      er_capability_schema = sc_schema c,
      er_capability_descriptor_sha256 = sb_descriptor_sha256 (sc_binding c),
      er_enabled = (sc_enabled_methods c \<noteq> []),
      er_rows = session_limit_rows (sc_effective_limits c)\<rparr>"

definition session_admit_policy_value ::
  "session_capabilities \<Rightarrow> string \<Rightarrow> u64 \<Rightarrow> unavailable_reason + unit" where
  "session_admit_policy_value c name requested = admit_value (session_limit_record c) name requested"

definition session_admit_authorized_record ::
  "session_capabilities \<Rightarrow> limit_record \<Rightarrow> string \<Rightarrow> u64 \<Rightarrow> unavailable_reason + unit" where
  "session_admit_authorized_record c r name requested =
     admit_authorized r (session_limit_record c) name requested"

subsection \<open>Validation\<close>

definition SESSION_POLICY_SCHEMA_SHA256 :: string where
  "SESSION_POLICY_SCHEMA_SHA256 = ''85d5f36900e10fa1e60c918e6c1fc4fbdbd9432093a65738b2098de142136234''"

definition session_descriptor_digest ::
  "'a session_codec_scheme \<Rightarrow> session_capabilities \<Rightarrow> unavailable_reason + string" where
  "session_descriptor_digest cd c =
     (let unsigned = c\<lparr>sc_binding := (sc_binding c)\<lparr>sb_descriptor_sha256 := []\<rparr>\<rparr>
      in map_err (\<lambda>_. DescriptorTampered)
           (and_then (ok_or (cd_session_bytes cd unsigned) ()) (\<lambda>bs. Inr (codec_digest cd bs))))"

text \<open>\<open>b"._:/-".contains(&byte)\<close>\<close>

definition method_byte :: "char \<Rightarrow> bool" where
  "method_byte c \<longleftrightarrow> ascii_alphanumeric (bv c) \<or> bv c \<in> {46, 95, 58, 47, 45}"

definition session_descriptor_refused :: "session_capabilities \<Rightarrow> bool" where
  "session_descriptor_refused c \<longleftrightarrow>
     (let b = sc_binding c; methods = sc_enabled_methods c; h = sc_hardening c
      in sc_schema c \<noteq> SESSION_CAPABILITIES_SCHEMA
         \<or> \<not> capability_token (sc_profile_id c)
         \<or> \<not> capability_token (sc_native_version c)
         \<or> \<not> list_all capability_hash [sc_profile_sha256 c, sc_native_binary_sha256 c,
               sc_native_schema_sha256 c, sb_descriptor_sha256 b]
         \<or> sc_provenance c \<notin> {''schema_only'', ''compiled_peer'', ''native_binary_fake_upstream'',
               ''live_provider''}
         \<or> sc_transport c \<noteq> ''owned_stdio''
         \<or> methods = []
         \<or> length methods > 32
         \<or> length (remdups methods) \<noteq> length methods
         \<or> list_ex (\<lambda>m. m = [] \<or> length m > 128 \<or> \<not> list_all method_byte m) methods
         \<or> sh_tools_enabled h
         \<or> sh_ambient_history h
         \<or> sh_transform_handling h \<notin> {''verified_suppressed'', ''detect_and_fence'', ''opaque_approved''}
         \<or> sc_unknown_methods c \<noteq> ''deny''
         \<or> sc_raw_rpc c
         \<or> sl_policy_schema (sc_effective_limits c) \<noteq> ''ascension.provider-session.policy.v1''
         \<or> sb_owner b \<noteq> ''sts2-harness''
         \<or> sb_owner_revision b \<noteq> SESSION_CAPABILITIES_OWNER_REVISION
         \<or> sb_model_revision b \<noteq> sc_native_version c
         \<or> sb_adapter_revision b \<noteq> sc_profile_id c
         \<or> sb_adapter_revision_sha256 b \<noteq> sc_profile_sha256 c
         \<or> sb_policy_schema_sha256 b \<noteq> SESSION_POLICY_SCHEMA_SHA256)"

definition session_validate_descriptor ::
  "'a session_codec_scheme \<Rightarrow> session_capabilities \<Rightarrow> unavailable_reason + unit" where
  "session_validate_descriptor cd c =
     and_then (ensure (\<not> session_descriptor_refused c) DescriptorTampered) (\<lambda>_.
     and_then (map_err (\<lambda>_. DescriptorTampered) (record_validate (session_limit_record c))) (\<lambda>_.
     and_then (session_descriptor_digest cd c) (\<lambda>d.
     ensure (sb_descriptor_sha256 (sc_binding c) = d) DescriptorTampered)))"

subsection \<open>The local descriptor\<close>

definition fixture_session_limits :: session_limits where
  "fixture_session_limits =
     \<lparr>sl_policy_schema = ''ascension.provider-session.policy.v1'',
      sl_max_session_items = 512,
      sl_max_dependencies = 128,
      sl_max_events = 4096,
      sl_max_operations = 1024,
      sl_max_prepared = 1024,
      sl_max_candidates = 4,
      sl_max_maintenance_jobs = 2,
      sl_max_completed_turns = 128,
      sl_max_history_ttl_seconds = 86400,
      sl_max_frame_bytes = 262144,
      sl_max_history_bytes = 4194304,
      sl_max_prepared_bytes = 4194304,
      sl_max_suffix_bytes = 131072,
      sl_max_output_schema_bytes = 65536,
      sl_max_method_bytes = 128,
      sl_max_json_depth = 64\<rparr>"

definition fixture_session_binding :: "'a owner_codec_scheme \<Rightarrow> session_binding" where
  "fixture_session_binding cd =
     \<lparr>sb_owner = ''sts2-harness'', sb_owner_revision = SESSION_CAPABILITIES_OWNER_REVISION,
      sb_policy_schema_sha256 = SESSION_POLICY_SCHEMA_SHA256, sb_model_revision = ''fixture-peer-1'',
      sb_adapter_revision = ''codex-app-server-fixture-v1'',
      sb_adapter_revision_sha256 = codec_digest cd ''codex-app-server-fixture-v1'',
      sb_descriptor_sha256 = []\<rparr>"

definition fixture_session_capabilities :: "'a session_codec_scheme \<Rightarrow> session_capabilities" where
  "fixture_session_capabilities cd =
     (let c = \<lparr>sc_schema = SESSION_CAPABILITIES_SCHEMA,
               sc_profile_id = ''codex-app-server-fixture-v1'',
               sc_profile_sha256 = codec_digest cd ''codex-app-server-fixture-v1'',
               sc_native_version = ''fixture-peer-1'',
               sc_native_binary_sha256 = codec_digest cd ''compiled-fake-native-peer'',
               sc_native_schema_sha256 = codec_digest cd ''codex-app-server-jsonrpc.v2'',
               sc_provenance = ''compiled_peer'',
               sc_transport = ''owned_stdio'',
               sc_enabled_methods = [''initialize'', ''thread/start'', ''thread/read'', ''turn/start'',
                 ''turn/interrupt'', ''thread/fork'', ''thread/compact/start''],
               sc_hardening = \<lparr>sh_tools_enabled = False, sh_ambient_history = False,
                 sh_encrypted_state = False, sh_configuration_verified = True,
                 sh_transform_handling = ''detect_and_fence''\<rparr>,
               sc_effective_limits = fixture_session_limits,
               sc_binding = fixture_session_binding cd,
               sc_strict_executable = False, sc_experimental_api = False,
               sc_unknown_methods = ''deny'', sc_raw_rpc = False\<rparr>
      in case session_descriptor_digest cd c of
           Inr d \<Rightarrow> c\<lparr>sc_binding := (sc_binding c)\<lparr>sb_descriptor_sha256 := d\<rparr>\<rparr>
         | Inl _ \<Rightarrow> c)"

subsection \<open>The reader of an advertised descriptor\<close>

datatype advertised_session =
  SessionV1 session_capabilities_v1 | SessionV3 session_capabilities_v3
  | SessionV4 session_capabilities

definition read_session_capabilities ::
  "'a session_codec_scheme \<Rightarrow> bytes \<Rightarrow> capabilities_read_error + advertised_session" where
  "read_session_capabilities cd bs =
     and_then (ok_or (cd_from_slice cd bs) MalformedCapabilities) (\<lambda>v.
     (let schema = Option.bind (value_get v ''schema'') value_str
      in if schema = Some SESSION_CAPABILITIES_SCHEMA_V1 then
           and_then (ok_or (cd_session_v1_of cd v) MalformedCapabilities) (\<lambda>c. Inr (SessionV1 c))
         else if schema = Some SESSION_CAPABILITIES_SCHEMA then
           and_then (ok_or (cd_session_of cd v) MalformedCapabilities) (\<lambda>c. Inr (SessionV4 c))
         else if schema = Some SESSION_CAPABILITIES_SCHEMA_V3 then
           and_then (ok_or (cd_session_v3_of cd v) MalformedCapabilities) (\<lambda>c. Inr (SessionV3 c))
         else Inl UnknownSchema))"

definition advertised_to_v4 :: "advertised_session \<Rightarrow> session_capabilities option" where
  "advertised_to_v4 a =
     (case a of
        SessionV1 _ \<Rightarrow> None
      | SessionV3 c \<Rightarrow> Some (session_v3_to_v4 c)
      | SessionV4 c \<Rightarrow> Some c)"

end
