(* ===== verification/Capability_Admission.thy ===== *)
theory Capability_Admission
  imports Session_Capabilities
begin

text \<open>
  The admission of owner replies, \<open>context-service/src/capability_admission.rs\<close>: the trust that is
  configured when the route is composed, the presentation of an owner's capability reply under
  that trust, and the admission of a memory query against the published limits. Field prefixes:
  \<open>ob_\<close> owner binding, \<open>tm_\<close> memory trust, \<open>ts_\<close> session trust, \<open>ot_\<close> both, \<open>mq_\<close> query.
\<close>

subsection \<open>The memory query\<close>

record memory_query =
  mq_schema :: string
  mq_scope :: memory_scope
  mq_branch_id :: string
  mq_query :: string
  mq_cutoff :: u64
  mq_corpus_generation :: u64
  mq_ranker_version :: string
  mq_limit :: u64
  mq_max_candidates :: u64
  mq_effect_class :: string

subsection \<open>Trust\<close>

record owner_binding =
  ob_scope :: owner_scope
  ob_source :: string
  ob_epoch :: u64

definition owner_binding_new :: "owner_scope \<Rightarrow> string \<Rightarrow> u64 \<Rightarrow> unavailable_reason + owner_binding" where
  "owner_binding_new scope source epoch =
     (if \<not> scope_is_valid scope \<or> source = [] \<or> length source > 128 \<or> epoch = 0
      then Inl ProfileMismatch
      else Inr \<lparr>ob_scope = scope, ob_source = source, ob_epoch = epoch\<rparr>)"

definition owner_binding_check ::
  "owner_binding \<Rightarrow> owner_scope \<Rightarrow> owner_reply \<Rightarrow> unavailable_reason + unit" where
  "owner_binding_check b scope p =
     and_then (ensure (\<not> (scope \<noteq> ob_scope b \<or> re_source (rp_receipt p) \<noteq> ob_source b))
       ProfileMismatch) (\<lambda>_.
     ensure (re_owner_epoch (rp_receipt p) = ob_epoch b) DescriptorStale)"

record memory_trust =
  tm_owner :: owner_binding
  tm_descriptor :: memory_capabilities

record session_trust =
  ts_owner :: owner_binding
  ts_descriptor :: session_capabilities

record capability_trust =
  ot_memory :: "memory_trust option"
  ot_session :: "session_trust option"

definition scope_of_memory :: "memory_scope \<Rightarrow> owner_scope" where
  "scope_of_memory s = make_scope (ms_project_id s) (ms_run_id s) (ms_episode_id s) (ms_agent_id s)"

definition memory_trust_new ::
  "'a memory_codec_scheme \<Rightarrow> memory_capabilities \<Rightarrow> string \<Rightarrow> u64 \<Rightarrow> unavailable_reason + memory_trust" where
  "memory_trust_new cd c source epoch =
     and_then (memory_validate_descriptor cd c) (\<lambda>_.
     and_then (owner_binding_new (scope_of_memory (mc_scope c)) source epoch) (\<lambda>b.
     Inr \<lparr>tm_owner = b, tm_descriptor = c\<rparr>))"

definition session_trust_new ::
  "'a session_codec_scheme \<Rightarrow> owner_scope \<Rightarrow> session_capabilities \<Rightarrow> string \<Rightarrow> u64
     \<Rightarrow> unavailable_reason + session_trust" where
  "session_trust_new cd scope c source epoch =
     and_then (session_validate_descriptor cd c) (\<lambda>_.
     and_then (owner_binding_new scope source epoch) (\<lambda>b.
     Inr \<lparr>ts_owner = b, ts_descriptor = c\<rparr>))"

subsection \<open>Presentation\<close>

definition console_pin :: "string \<Rightarrow> consumer_pin" where
  "console_pin producer = consumer_pin_for producer CapabilityV3"

text \<open>The loop that admits every row of the advertised descriptor.\<close>

fun admit_rows ::
  "consumer_pin \<Rightarrow> string \<Rightarrow> limit_record \<Rightarrow> limit_record \<Rightarrow> limit_row list \<Rightarrow> unavailable_reason + unit"
  where
  "admit_rows pin surface r trusted [] = Inr ()"
| "admit_rows pin surface r trusted (row # rows) =
     and_then (admit_consumer pin surface r trusted (lr_field row) (lr_executable_ceiling row))
       (\<lambda>_. admit_rows pin surface r trusted rows)"

definition memory_present ::
  "string \<Rightarrow> 'a memory_codec_scheme \<Rightarrow> memory_trust \<Rightarrow> owner_scope \<Rightarrow> owner_reply
     \<Rightarrow> unavailable_reason + owner_reply" where
  "memory_present producer cd t scope p =
     and_then (owner_binding_check (tm_owner t) scope p) (\<lambda>_.
     and_then (ok_or (rp_effective_limits p) FieldNotAdvertised) (\<lambda>r.
     let trusted = memory_limit_record (tm_descriptor t) in
     and_then (authenticate r trusted) (\<lambda>_.
     and_then (ok_or (rp_value p) FieldNotAdvertised) (\<lambda>v.
     and_then (ok_or (oc_value_bytes cd v) DescriptorTampered) (\<lambda>bs.
     and_then (map_err (\<lambda>_. DescriptorTampered) (read_memory_capabilities cd bs)) (\<lambda>a.
     (case a of
        AdvertisedV1 _ \<Rightarrow> Inl ConsumerPinNotAdopted
      | AdvertisedV3 c \<Rightarrow>
          and_then (ensure (mc_scope c = mc_scope (tm_descriptor t)) ProfileMismatch) (\<lambda>_.
          and_then (if er_enabled trusted
              then admit_rows (console_pin producer) ''context-memory'' r trusted
                     (er_rows (memory_limit_record c))
              else Inr ()) (\<lambda>_.
          and_then (memory_validate_descriptor cd c) (\<lambda>_.
          and_then (ensure (c = tm_descriptor t) DescriptorStale) (\<lambda>_.
          and_then (ok_or (cd_memory_value cd c) DescriptorTampered) (\<lambda>v'.
          Inr (p\<lparr>rp_value := Some v'\<rparr>)))))))))))))"

definition session_present ::
  "string \<Rightarrow> 'a session_codec_scheme \<Rightarrow> session_trust \<Rightarrow> owner_scope \<Rightarrow> owner_reply
     \<Rightarrow> unavailable_reason + owner_reply" where
  "session_present producer cd t scope p =
     and_then (owner_binding_check (ts_owner t) scope p) (\<lambda>_.
     and_then (ok_or (rp_effective_limits p) FieldNotAdvertised) (\<lambda>r.
     let trusted = session_limit_record (ts_descriptor t) in
     and_then (authenticate r trusted) (\<lambda>_.
     and_then (ok_or (rp_value p) FieldNotAdvertised) (\<lambda>v.
     and_then (ok_or (oc_value_bytes cd v) DescriptorTampered) (\<lambda>bs.
     and_then (map_err (\<lambda>_. DescriptorTampered) (read_session_capabilities cd bs)) (\<lambda>a.
     (case a of
        SessionV4 c \<Rightarrow>
          and_then (admit_rows (console_pin producer) ''provider-session'' r trusted
              (er_rows (session_limit_record c))) (\<lambda>_.
          and_then (session_validate_descriptor cd c) (\<lambda>_.
          and_then (ensure (c = ts_descriptor t) DescriptorStale) (\<lambda>_.
          and_then (ok_or (cd_session_value cd c) DescriptorTampered) (\<lambda>v'.
          Inr (p\<lparr>rp_value := Some v'\<rparr>)))))
      | _ \<Rightarrow> Inl ConsumerPinNotAdopted)))))))"

text \<open>
  \<open>serde_json::to_value\<close> of a descriptor, with its error mapped as at the end of
  \<open>legacy_projection\<close>; an error of the validation is returned as it is.
\<close>

definition legacy_projection ::
  "'a session_codec_scheme \<Rightarrow> owner_operation \<Rightarrow> jvalue \<Rightarrow> unavailable_reason + jvalue" where
  "legacy_projection cd op v =
     and_then (ok_or (oc_value_bytes cd v) DescriptorTampered) (\<lambda>bs.
     if op = MemoryCapabilities then
       and_then (map_err (\<lambda>_. DescriptorTampered) (read_memory_capabilities cd bs)) (\<lambda>a.
       (case a of
          AdvertisedV1 c \<Rightarrow> ok_or (cd_memory_v1_value cd c) DescriptorTampered
        | AdvertisedV3 c \<Rightarrow>
            and_then (memory_validate_descriptor cd c) (\<lambda>_.
            ok_or (cd_memory_v1_value cd (into_v1 c)) DescriptorTampered)))
     else
       and_then (map_err (\<lambda>_. DescriptorTampered) (read_session_capabilities cd bs)) (\<lambda>a.
       (case a of
          SessionV1 c \<Rightarrow> ok_or (cd_session_v1_value cd c) DescriptorTampered
        | SessionV3 _ \<Rightarrow> Inl DescriptorTampered
        | SessionV4 c \<Rightarrow>
            and_then (session_validate_descriptor cd c) (\<lambda>_.
            ok_or (cd_session_v1_value cd (session_to_v1 c)) DescriptorTampered))))"

definition trust_present ::
  "string \<Rightarrow> 'a session_codec_scheme \<Rightarrow> capability_trust \<Rightarrow> owner_operation \<Rightarrow> owner_scope
     \<Rightarrow> capability_version \<Rightarrow> owner_reply \<Rightarrow> unavailable_reason + owner_reply" where
  "trust_present producer cd t op scope version p =
     (if re_outcome (rp_receipt p) \<noteq> OwnerAccepted then Inr p
      else case (version, op) of
        (CapabilityV3, MemoryCapabilities) \<Rightarrow>
          and_then (ok_or (ot_memory t) ConsumerNotRecorded) (\<lambda>m. memory_present producer cd m scope p)
      | (CapabilityV3, SessionCapabilities) \<Rightarrow>
          and_then (ok_or (ot_session t) ConsumerNotRecorded) (\<lambda>m. session_present producer cd m scope p)
      | (CapabilityV1, op) \<Rightarrow>
          if op = MemoryCapabilities \<or> op = SessionCapabilities then
            and_then (ok_or (rp_value p) FieldNotAdvertised) (\<lambda>v.
            and_then (legacy_projection cd op v) (\<lambda>v'. Inr (p\<lparr>rp_value := Some v'\<rparr>)))
          else Inr p
      | _ \<Rightarrow> Inr p)"

definition admit_memory_query ::
  "string \<Rightarrow> capability_trust \<Rightarrow> owner_scope \<Rightarrow> owner_reply \<Rightarrow> memory_query \<Rightarrow> unavailable_reason + unit"
  where
  "admit_memory_query producer t scope p q =
     and_then (ok_or (ot_memory t) ConsumerNotRecorded) (\<lambda>m.
     and_then (owner_binding_check (tm_owner m) scope p) (\<lambda>_.
     and_then (ok_or (rp_effective_limits p) FieldNotAdvertised) (\<lambda>r.
     let trusted = memory_limit_record (tm_descriptor m);
         admit = admit_consumer (console_pin producer) ''context-memory'' r trusted in
     and_then (admit ''max_results'' (mq_limit q)) (\<lambda>_.
     and_then (admit ''max_candidates'' (mq_max_candidates q)) (\<lambda>_.
     admit ''max_query_bytes'' (of_nat (length (mq_query q))))))))"

subsection \<open>What a presentation shows\<close>

lemma advertised_InrD:
  "(case a of AdvertisedV1 c \<Rightarrow> Inl e | AdvertisedV3 c \<Rightarrow> f c) = Inr p \<Longrightarrow> \<exists>c. a = AdvertisedV3 c \<and> f c = Inr p"
  "(case b of SessionV4 c \<Rightarrow> g c | _ \<Rightarrow> Inl e) = Inr p \<Longrightarrow> \<exists>c. b = SessionV4 c \<and> g c = Inr p"
  by (auto split: advertised_memory.splits advertised_session.splits)

lemma trust_present_other:
  "op \<noteq> MemoryCapabilities \<Longrightarrow> op \<noteq> SessionCapabilities \<Longrightarrow> trust_present producer cd t op scope version p = Inr p"
  by (auto simp: trust_present_def split: capability_version.splits owner_operation.splits)

lemma memory_present_InrD:
  assumes "memory_present producer cd t scope p = Inr p'"
  shows "rp_effective_limits p = Some (memory_limit_record (tm_descriptor t))"
    and "memory_validate_descriptor cd (tm_descriptor t) = Inr ()"
    and "scope = ob_scope (tm_owner t)" "re_source (rp_receipt p) = ob_source (tm_owner t)"
    and "re_owner_epoch (rp_receipt p) = ob_epoch (tm_owner t)"
    and "rp_value p' = cd_memory_value cd (tm_descriptor t)"
    and "rp_effective_limits p' = rp_effective_limits p" "rp_receipt p' = rp_receipt p"
  using assms
  by (auto simp: memory_present_def owner_binding_check_def Let_def result_simps
      dest!: advertised_InrD split: if_splits)

lemma session_present_InrD:
  assumes "session_present producer cd t scope p = Inr p'"
  shows "rp_effective_limits p = Some (session_limit_record (ts_descriptor t))"
    and "session_validate_descriptor cd (ts_descriptor t) = Inr ()"
    and "scope = ob_scope (ts_owner t)" "re_source (rp_receipt p) = ob_source (ts_owner t)"
    and "re_owner_epoch (rp_receipt p) = ob_epoch (ts_owner t)"
    and "rp_value p' = cd_session_value cd (ts_descriptor t)" "rp_receipt p' = rp_receipt p"
  using assms
  by (auto simp: session_present_def owner_binding_check_def Let_def result_simps
      dest!: advertised_InrD split: if_splits)

lemma trust_present_receipt:
  "trust_present producer cd t op scope version p = Inr p' \<Longrightarrow> rp_receipt p' = rp_receipt p"
  by (auto simp: trust_present_def result_simps split: if_splits capability_version.splits owner_operation.splits
      dest!: memory_present_InrD(8) session_present_InrD(7))

lemma admit_memory_query_InrD:
  assumes "admit_memory_query producer t scope p q = Inr u"
  obtains m where "ot_memory t = Some m"
    and "rp_effective_limits p = Some (memory_limit_record (tm_descriptor m))"
    and "admit_value (memory_limit_record (tm_descriptor m)) ''max_results'' (mq_limit q) = Inr ()"
    and "admit_value (memory_limit_record (tm_descriptor m)) ''max_candidates'' (mq_max_candidates q) = Inr ()"
    and "admit_value (memory_limit_record (tm_descriptor m)) ''max_query_bytes''
           (of_nat (length (mq_query q))) = Inr ()"
  using assms
  by (auto simp: admit_memory_query_def Let_def result_simps simp del: admit_value_Inr_iff
      dest: admit_consumer_InrD)

end
