(* ===== verification/Owner_Delivery.thy ===== *)
theory Owner_Delivery
  imports Capability_Admission
begin

text \<open>
  The exchange with the owner that both attached routes make (\<open>handle_attached\<close> of
  \<open>context-service/src/memory.rs\<close> and \<open>delegate_attached\<close> of \<open>provider_session/service.rs\<close>): one
  call, and after a lost reply one lookup of its receipt. The environment answers. Its answer is a
  function of everything the console has sent, newest first, so it can be any owner; the grant
  book is read from the environment too, since clones of the composition share and change it.
  A handler returns its result and the log of what it has sent. Field prefix: \<open>en_\<close> environment.
\<close>

datatype owner_request = OwnerCalled owner_call | OwnerLookedUp receipt_lookup

type_synonym owner_log = "owner_request list"

text \<open>\<open>en_book\<close> is \<open>None\<close> when the lock of the book is poisoned.\<close>

record owner_env =
  en_reply :: "owner_log \<Rightarrow> owner_error + owner_reply"
  en_book :: "owner_log \<Rightarrow> grant_book option"

definition composition_authorize ::
  "owner_env \<Rightarrow> request_context \<Rightarrow> owner_grant_class \<Rightarrow> owner_scope \<Rightarrow> bool \<Rightarrow> owner_log
     \<Rightarrow> owner_auth_error + grant_receipt" where
  "composition_authorize env ctx cl scope write log =
     and_then (ok_or (en_book env log) GrantBookUnavailable) (owner_authorize ctx cl scope write)"

subsection \<open>Handlers\<close>

text \<open>A handler: its result and the log after it; \<open>log_then\<close> is \<open>?\<close> with the log threaded through.\<close>

type_synonym ('e, 'a) handler = "owner_log \<Rightarrow> ('e + 'a) \<times> owner_log"

definition log_then :: "('e, 'a) handler \<Rightarrow> ('a \<Rightarrow> ('e, 'b) handler) \<Rightarrow> ('e, 'b) handler" where
  "log_then m f log = (case m log of (Inl e, log') \<Rightarrow> (Inl e, log') | (Inr x, log') \<Rightarrow> f x log')"

definition pure_result :: "'e + 'a \<Rightarrow> ('e, 'a) handler" where
  "pure_result m log = (m, log)"

definition authorize_now ::
  "owner_env \<Rightarrow> request_context \<Rightarrow> owner_grant_class \<Rightarrow> owner_scope \<Rightarrow> bool \<Rightarrow> 'e
     \<Rightarrow> ('e, grant_receipt) handler" where
  "authorize_now env ctx cl scope write denied log =
     (map_err (\<lambda>_. denied) (composition_authorize env ctx cl scope write log), log)"

text \<open>\<open>owner.call(call)\<close> and \<open>owner.lookup_receipt(lookup)\<close>\<close>

definition send_request :: "owner_env \<Rightarrow> owner_request \<Rightarrow> (owner_error, owner_reply) handler" where
  "send_request env request log = (en_reply env (request # log), request # log)"

subsection \<open>One call, at most one lookup\<close>

definition unknown_operation_id :: "owner_operation \<Rightarrow> string" where
  "unknown_operation_id op =
     ''unknown-'' @ map (\<lambda>c. if c = CHR ''.'' then CHR ''-'' else c) (operation_as_str op)"

text \<open>
  The two routes map the same outcomes to errors of their own: \<open>unavailable\<close>, \<open>malformed\<close>, and
  \<open>lost\<close> when the lookup's own reply is lost or malformed.
\<close>

definition lookup_reply ::
  "'a owner_codec_scheme \<Rightarrow> owner_operation \<Rightarrow> string \<Rightarrow> 'e \<Rightarrow> 'e \<Rightarrow> owner_error + owner_reply
     \<Rightarrow> 'e + owner_reply" where
  "lookup_reply cd op receipt_id malformed lost answer =
     (case answer of
        Inr p \<Rightarrow> if re_receipt_id (rp_receipt p) \<noteq> receipt_id then Inl malformed else Inr p
      | Inl e \<Rightarrow>
          (case e of
             UnknownReceipt \<Rightarrow> map_err (\<lambda>_. malformed)
               (unknown_reply cd receipt_id (unknown_operation_id op) op ''harness'' 0
                 ''receipt_lookup_unavailable'')
           | OwnerUnavailable \<Rightarrow> map_err (\<lambda>_. malformed)
               (unknown_reply cd receipt_id (unknown_operation_id op) op ''harness'' 0
                 ''receipt_lookup_unavailable'')
           | OwnerUnsupportedError \<Rightarrow> map_err (\<lambda>_. malformed)
               (unsupported_reply cd receipt_id ''unsupported'' op ''harness'' 0 ''owner_unsupported'')
           | LostReply _ \<Rightarrow> Inl lost
           | MalformedResponse \<Rightarrow> Inl lost))"

definition deliver ::
  "'a owner_codec_scheme \<Rightarrow> owner_env \<Rightarrow> 'e \<Rightarrow> 'e \<Rightarrow> 'e \<Rightarrow> owner_call \<Rightarrow> ('e, owner_reply) handler" where
  "deliver cd env unavailable malformed lost call log =
     (let op = cl_operation call; (answer, log1) = send_request env (OwnerCalled call) log
      in case answer of
        Inr p \<Rightarrow> (Inr p, log1)
      | Inl e \<Rightarrow>
          (case e of
             LostReply receipt_id \<Rightarrow>
               if \<not> owner_valid_id receipt_id then (Inl unavailable, log1)
               else (let lookup = \<lparr>lk_operation = op, lk_scope = cl_scope call,
                                   lk_reference = cl_reference call, lk_receipt_id = receipt_id\<rparr>;
                         (found, log2) = send_request env (OwnerLookedUp lookup) log1
                     in (lookup_reply cd op receipt_id malformed lost found, log2))
           | OwnerUnsupportedError \<Rightarrow>
               (map_err (\<lambda>_. malformed)
                  (unsupported_reply cd ''unsupported-receipt'' ''unsupported'' op ''harness'' 0
                    ''owner_unsupported''), log1)
           | OwnerUnavailable \<Rightarrow> (Inl unavailable, log1)
           | UnknownReceipt \<Rightarrow> (Inl unavailable, log1)
           | MalformedResponse \<Rightarrow> (Inl malformed, log1)))"

subsection \<open>What an exchange sends\<close>

text \<open>
  \<open>exchanged call log log'\<close>: a handler has sent \<open>call\<close> and nothing else, or \<open>call\<close> and then one
  lookup of the receipt that the owner named when it reported the reply as lost.
\<close>

definition exchanged :: "owner_env \<Rightarrow> owner_call \<Rightarrow> owner_log \<Rightarrow> owner_log \<Rightarrow> bool" where
  "exchanged env call log log' \<longleftrightarrow>
     log' = OwnerCalled call # log
     \<or> (\<exists>i. en_reply env (OwnerCalled call # log) = Inl (LostReply i) \<and> owner_valid_id i
          \<and> log' = OwnerLookedUp \<lparr>lk_operation = cl_operation call, lk_scope = cl_scope call,
                      lk_reference = cl_reference call, lk_receipt_id = i\<rparr> # OwnerCalled call # log)"

lemma deliver_exchanged:
  "deliver cd env unavailable malformed lost call log = (r, log') \<Longrightarrow> exchanged env call log log'"
  by (auto simp: deliver_def exchanged_def send_request_def Let_def
      split: sum.splits owner_error.splits if_splits)

lemma log_then_Inr_iff [result_simps]:
  "log_then m f log = (Inr y, log'') \<longleftrightarrow> (\<exists>x log'. m log = (Inr x, log') \<and> f x log' = (Inr y, log''))"
  by (auto simp: log_then_def split: prod.splits sum.splits)

lemma log_then_Inl_iff [result_simps]:
  "log_then m f log = (Inl e, log'') \<longleftrightarrow>
     m log = (Inl e, log'') \<or> (\<exists>x log'. m log = (Inr x, log') \<and> f x log' = (Inl e, log''))"
  by (auto simp: log_then_def split: prod.splits sum.splits)

lemma pure_result_iff [result_simps]: "pure_result m log = (r, log') \<longleftrightarrow> m = r \<and> log' = log"
  by (auto simp: pure_result_def)

text \<open>
  The accepted outcome of an exchange is the owner's own: what the console makes up after a failure
  is unknown or unsupported, without a value and without an effect.
\<close>

lemma made_up_outcome:
  "unknown_reply cd i oi op s n e = Inr p \<Longrightarrow> re_outcome (rp_receipt p) = OwnerUnknown"
  "unsupported_reply cd i oi op s n e = Inr p \<Longrightarrow> re_outcome (rp_receipt p) = OwnerUnsupported"
  by (auto simp: unknown_reply_def unsupported_reply_def new_receipt_def new_reply_def Let_def result_simps)

lemma deliver_Inr:
  assumes "deliver cd env unavailable malformed lost call log = (Inr p, log')"
  shows "re_outcome (rp_receipt p) = OwnerAccepted \<longrightarrow> en_reply env log' = Inr p"
  using assms
  by (auto simp: deliver_def lookup_reply_def send_request_def Let_def result_simps
      dest: made_up_outcome split: sum.splits owner_error.splits if_splits)

lemma validate_for_InrD:
  assumes "validate_for cd op p = Inr u"
  shows "re_operation (rp_receipt p) = operation_as_str op" "validate_receipt (rp_receipt p) = Inr ()"
    "re_outcome (rp_receipt p) \<noteq> OwnerAccepted \<Longrightarrow> rp_value p = None \<and> rp_effective_limits p = None"
    "operation_read_only op \<Longrightarrow> \<not> re_effect_applied (rp_receipt p)"
    "rp_value p = Some v \<Longrightarrow> validate_public_value cd v = Inr ()"
  using assms
  by (auto simp: validate_for_def validate_limit_sidecar_def result_simps split: option.splits)

lemma authorize_now_iff [result_simps]:
  "authorize_now env ctx cl scope write denied log = (Inr g, log') \<longleftrightarrow>
     composition_authorize env ctx cl scope write log = Inr g \<and> log' = log"
  "authorize_now env ctx cl scope write denied log = (Inl e, log') \<longleftrightarrow>
     (\<exists>e'. composition_authorize env ctx cl scope write log = Inl e') \<and> e = denied \<and> log' = log"
  by (auto simp: authorize_now_def result_simps)

text \<open>What an authorisation means: the grant of the principal, as the book has it at that moment.\<close>

definition grants_access ::
  "grant_book \<Rightarrow> request_context \<Rightarrow> owner_grant_class \<Rightarrow> owner_scope \<Rightarrow> bool \<Rightarrow> owner_grant \<Rightarrow> bool" where
  "grants_access b ctx cl scope write g \<longleftrightarrow>
     bt_get (gb_grants b) (rq_principal ctx) = Some g \<and> \<not> og_revoked g \<and> rq_now ctx < og_expires_at g
     \<and> og_class g = cl \<and> og_scope g = scope \<and> og_host g = rq_host ctx \<and> og_origin g = rq_origin ctx
     \<and> (write \<longrightarrow> og_csrf_token g = rq_csrf_token ctx)"

lemma composition_authorize_Inr_iff:
  "composition_authorize env ctx cl scope write log = Inr t \<longleftrightarrow>
     (\<exists>b g. en_book env log = Some b \<and> grants_access b ctx cl scope write g
        \<and> t = \<lparr>gt_grant_id = og_id g, gt_class = cl, gt_revocation_epoch = gb_revocation_epoch b\<rparr>)"
  by (auto simp: composition_authorize_def owner_authorize_def grants_access_def result_simps)

end
