(* ===== verification/Control_Json.thy ===== *)
theory Control_Json
  imports Control_Types
begin

text \<open>
  The guard in front of every management body, \<open>JsonGuard\<close> and \<open>parse_json\<close> of
  \<open>context-service/src/demo/mod.rs\<close>. It walks the bytes once, bounds the nesting at 32
  and the length of an array at 256, and refuses a repeated key, before \<open>serde_json\<close> decodes the
  body. Decoding, of one string and of the whole body, is an argument. The mutual recursion runs
  on fuel; every value consumes a byte, so the fuel given by \<open>validate_json_shape\<close> is never spent.
\<close>

datatype 'a guarded = Guarded 'a bytes | Refused control_error | FuelSpent

fun guard_bind :: "'a guarded \<Rightarrow> ('a \<Rightarrow> bytes \<Rightarrow> 'b guarded) \<Rightarrow> 'b guarded" where
  "guard_bind (Guarded x r) f = f x r"
| "guard_bind (Refused e) f = Refused e"
| "guard_bind FuelSpent f = FuelSpent"

definition bad_json :: "string \<Rightarrow> control_error" where
  "bad_json message = control_error ''invalid_json'' message"

definition guard_space :: "bytes \<Rightarrow> bytes" where
  "guard_space r = dropWhile (\<lambda>c. ascii_whitespace (bv c)) r"

definition guard_take :: "char \<Rightarrow> bytes \<Rightarrow> bool \<times> bytes" where
  "guard_take expected r =
     (case r of c # r' \<Rightarrow> if c = expected then (True, r') else (False, r) | [] \<Rightarrow> (False, r))"

definition guard_primitive :: "bytes \<Rightarrow> unit guarded" where
  "guard_primitive r =
     (let r' = dropWhile (\<lambda>c. \<not> (ascii_whitespace (bv c) \<or> c \<in> {CHR '','', CHR '']'', CHR ''}''})) r
      in if length r' < length r then Guarded () r'
         else Refused (bad_json ''JSON value is incomplete''))"

text \<open>The loop of \<open>string\<close>; \<open>token\<close> is what has been read of it, the opening quote included.\<close>

fun guard_string_loop :: "(bytes \<Rightarrow> string option) \<Rightarrow> bool \<Rightarrow> bytes \<Rightarrow> bytes \<Rightarrow> string guarded" where
  "guard_string_loop decode escaped token [] =
     Refused (bad_json ''JSON string is unterminated'')"
| "guard_string_loop decode escaped token (c # r) =
     (if escaped then guard_string_loop decode False (token @ [c]) r
      else if c = CHR 0x5C then guard_string_loop decode True (token @ [c]) r
      else if c = CHR 0x22 then
        (case decode (token @ [c]) of
           Some s \<Rightarrow> Guarded s r
         | None \<Rightarrow> Refused (bad_json ''JSON string is invalid''))
      else guard_string_loop decode False (token @ [c]) r)"

definition guard_string :: "(bytes \<Rightarrow> string option) \<Rightarrow> bytes \<Rightarrow> string guarded" where
  "guard_string decode r =
     (let (quoted, r') = guard_take (CHR 0x22) r
      in if quoted then guard_string_loop decode False [CHR 0x22] r'
         else Refused (bad_json ''JSON string is missing''))"

fun guard_value :: "(bytes \<Rightarrow> string option) \<Rightarrow> nat \<Rightarrow> nat \<Rightarrow> bytes \<Rightarrow> unit guarded"
  and guard_members :: "(bytes \<Rightarrow> string option) \<Rightarrow> nat \<Rightarrow> nat \<Rightarrow> string list \<Rightarrow> bytes \<Rightarrow> unit guarded"
  and guard_elements :: "(bytes \<Rightarrow> string option) \<Rightarrow> nat \<Rightarrow> nat \<Rightarrow> nat \<Rightarrow> bytes \<Rightarrow> unit guarded" where
  "guard_value decode 0 d r = FuelSpent"
| "guard_value decode (Suc n) d r0 =
     (if d > 32 then Refused (control_error ''json_depth'' ''management JSON is too deeply nested'')
      else let r = guard_space r0
      in case r of
        [] \<Rightarrow> Refused (bad_json ''management JSON is incomplete'')
      | c # r1 \<Rightarrow>
          if c = CHR ''{'' then
            (let (closed, r2) = guard_take (CHR ''}'') (guard_space r1)
             in if closed then Guarded () r2 else guard_members decode n (d + 1) [] r2)
          else if c = CHR ''['' then
            (let (closed, r2) = guard_take (CHR '']'') (guard_space r1)
             in if closed then Guarded () r2 else guard_elements decode n (d + 1) 0 r2)
          else if c = CHR 0x22 then guard_bind (guard_string decode r) (\<lambda>_. Guarded ())
          else guard_primitive r)"
| "guard_members decode 0 d seen r = FuelSpent"
| "guard_members decode (Suc n) d seen r0 =
     guard_bind (guard_string decode (guard_space r0)) (\<lambda>key r1.
       if key \<in> set seen
       then Refused (control_error ''duplicate_json_key'' ''duplicate JSON keys are rejected'')
       else let (colon, r2) = guard_take (CHR '':'') (guard_space r1)
            in if \<not> colon then Refused (bad_json ''object member separator is missing'')
               else guard_bind (guard_value decode n d r2) (\<lambda>_ r3.
                 let (closed, r4) = guard_take (CHR ''}'') (guard_space r3)
                 in if closed then Guarded () r4
                    else let (comma, r5) = guard_take (CHR '','') r4
                         in if comma then guard_members decode n d (key # seen) r5
                            else Refused (bad_json ''object delimiter is missing'')))"
| "guard_elements decode 0 d k r = FuelSpent"
| "guard_elements decode (Suc n) d k r0 =
     (if k + 1 > 256
      then Refused (control_error ''json_items'' ''management JSON array is too large'')
      else guard_bind (guard_value decode n d r0) (\<lambda>_ r1.
        let (closed, r2) = guard_take (CHR '']'') (guard_space r1)
        in if closed then Guarded () r2
           else let (comma, r3) = guard_take (CHR '','') r2
                in if comma then guard_elements decode n d (k + 1) r3
                   else Refused (bad_json ''array delimiter is missing'')))"

definition validate_json_shape :: "(bytes \<Rightarrow> string option) \<Rightarrow> bytes \<Rightarrow> control_error + unit" where
  "validate_json_shape decode body =
     (case guard_value decode (2 * length body + 1) 0 body of
        Guarded _ r \<Rightarrow>
          ensure (guard_space r = []) (bad_json ''management JSON has trailing data'')
      | Refused e \<Rightarrow> Inl e
      | FuelSpent \<Rightarrow> Inl (bad_json ''''))"

definition parse_control_json ::
  "(bytes \<Rightarrow> string option) \<Rightarrow> (bytes \<Rightarrow> 'a option) \<Rightarrow> bytes \<Rightarrow> control_error + 'a" where
  "parse_control_json decode from_slice body =
     and_then (ensure (\<not> (body = [] \<or> length body > 16 * 1024))
       (control_error ''body_too_large'' ''management body exceeds its bound'')) (\<lambda>_.
     and_then (validate_json_shape decode body) (\<lambda>_.
     ok_or (from_slice body) (bad_json ''management JSON is invalid'')))"

subsection \<open>The fuel is enough\<close>

lemma guard_space_length: "length (guard_space r) \<le> length r"
  by (simp add: guard_space_def length_dropWhile_le)

lemma guard_take_length: "guard_take c r = (b, r') \<Longrightarrow> length r' \<le> length r"
  by (auto simp: guard_take_def split: list.splits if_splits)

lemma guard_take_True: "guard_take c r = (True, r') \<Longrightarrow> length r' < length r"
  by (auto simp: guard_take_def split: list.splits if_splits)

lemma guard_take_space:
  "guard_take c (guard_space r) = (b, r') \<Longrightarrow> length r' + of_bool b \<le> length r"
  using guard_take_length [of c "guard_space r" b r'] guard_take_True [of c "guard_space r" r']
    guard_space_length [of r] by (cases b) auto

text \<open>A walk that is not out of fuel, and leaves less than it was given.\<close>

fun walks :: "'a guarded \<Rightarrow> bytes \<Rightarrow> bool" where
  "walks (Guarded x r') r \<longleftrightarrow> length r' < length r"
| "walks (Refused e) r \<longleftrightarrow> True"
| "walks FuelSpent r \<longleftrightarrow> False"

lemma walks_mono: "walks m r \<Longrightarrow> length r \<le> length s \<Longrightarrow> walks m s"
  by (cases m) auto

lemma walks_bind:
  "walks m s \<Longrightarrow> length s \<le> length r \<Longrightarrow> (\<And>x q. length q < length s \<Longrightarrow> walks (f x q) r)
     \<Longrightarrow> walks (guard_bind m f) r"
  by (cases m) auto

lemma walks_string_loop: "walks (guard_string_loop decode escaped token r) r"
proof (induction r arbitrary: escaped token)
  case (Cons c r)
  have "walks (guard_string_loop decode escaped' token' r) (c # r)" for escaped' token'
    using Cons.IH by (rule walks_mono) simp
  then show ?case by (auto split: option.splits)
qed simp

lemma walks_string: "walks (guard_string decode r) r"
  by (auto simp: guard_string_def split: prod.splits
      intro: walks_mono [OF walks_string_loop] dest: guard_take_length)

lemma walks_primitive: "walks (guard_primitive r) r"
  by (simp add: guard_primitive_def Let_def)

lemma walks_fuel:
  "(\<forall>d r. 2 * length r < n \<longrightarrow> walks (guard_value decode n d r) r)
   \<and> (\<forall>d seen r. 2 * length r + 1 < n \<longrightarrow> walks (guard_members decode n d seen r) r)
   \<and> (\<forall>d k r. 2 * length r + 1 < n \<longrightarrow> walks (guard_elements decode n d k r) r)"
proof (induction n)
  case (Suc n)
  have V: "walks (guard_value decode n d r) r" if "2 * length r < n" for d r
    using Suc.IH that by blast
  have M: "walks (guard_members decode n d seen r) s"
    if "2 * length r + 1 < n" "length r \<le> length s" for d seen r s
    using Suc.IH that by (blast intro: walks_mono)
  have E: "walks (guard_elements decode n d k r) s"
    if "2 * length r + 1 < n" "length r \<le> length s" for d k r s
    using Suc.IH that by (blast intro: walks_mono)
  have val: "walks (guard_value decode (Suc n) d r) r" if len: "2 * length r < Suc n" for d r
  proof (cases "guard_space r")
    case (Cons c r1)
    have r1: "length r1 < length r"
      using guard_space_length [of r] Cons by simp
    show ?thesis
      using Cons len r1
      by (auto simp: Let_def split: prod.splits
          intro!: M E walks_bind [OF walks_string] walks_mono [OF walks_primitive]
          dest!: guard_take_space)
  qed simp
  have members: "walks (guard_members decode (Suc n) d seen r) r"
    if "2 * length r + 1 < Suc n" for d seen r
    using that guard_space_length [of r]
    by (auto simp: Let_def split: prod.splits intro!: walks_bind [OF walks_string]
        walks_bind [OF V] M dest!: guard_take_space)
      (fastforce dest: guard_take_True)+
  have elements: "walks (guard_elements decode (Suc n) d k r) r"
    if "2 * length r + 1 < Suc n" for d k r
    using that by (auto simp: Let_def split: prod.splits intro!: walks_bind [OF V] E dest!: guard_take_space)
      (fastforce dest: guard_take_True)+
  show ?case using val members elements by blast
qed simp

lemma guard_fuel_is_enough: "guard_value decode (2 * length body + 1) d body \<noteq> FuelSpent"
proof -
  have "walks (guard_value decode (2 * length body + 1) d body) body"
    using walks_fuel [of "2 * length body + 1" decode] by simp
  then show ?thesis by auto
qed

lemma parse_control_json_Inr:
  "parse_control_json decode from_slice body = Inr x
     \<Longrightarrow> body \<noteq> [] \<and> length body \<le> 16 * 1024 \<and> validate_json_shape decode body = Inr ()
         \<and> from_slice body = Some x"
  by (auto simp: parse_control_json_def result_simps)

end
