(* ===== verification/Memory_Route.thy ===== *)
theory Memory_Route
  imports Owner_Delivery Control_Json
begin

text \<open>
  The memory route (\<open>MemoryRoute\<close> of \<open>context-service/src/memory.rs\<close>): its composition, the local
  fixture, and the attached route that forwards an operation to the owner under a grant, a query
  only after a fresh capability proof. Decoding by \<open>serde_json\<close> is the codec; encoding of the
  small command structs is written out. Field prefixes: \<open>mr_\<close> route, \<open>co_\<close> composition, \<open>gc_\<close>
  generation, \<open>rv_\<close> review, \<open>sx_\<close> selection, \<open>cd_\<close> codec.
\<close>

definition MEMORY_QUERY_SCHEMA :: string where
  "MEMORY_QUERY_SCHEMA = ''ascension.context-memory.query.v1''"
definition MAX_MEMORY_QUERY_BYTES :: nat where "MAX_MEMORY_QUERY_BYTES = 4 * 1024"
definition MAX_MEMORY_BODY_BYTES :: nat where "MAX_MEMORY_BODY_BYTES = 16 * 1024"

datatype memory_error =
  MemMethodNotAllowed | MemBodyTooLarge | MemInvalidRequest | MemPermissionDenied | MemUnsupported
  | MemUnavailable | MemEffectiveLimit unavailable_reason

record memory_generation =
  gc_idempotency_key :: string
  gc_proposal_id :: string

datatype review_decision = Admit | Reject

record memory_review =
  rv_idempotency_key :: string
  rv_proposal_id :: string
  rv_decision :: review_decision

record memory_selection =
  sx_idempotency_key :: string
  sx_selection_id :: string

record route_codec = session_codec +
  cd_string :: "bytes \<Rightarrow> string option"
  cd_query_of :: "bytes \<Rightarrow> memory_query option"
  cd_generation_of :: "bytes \<Rightarrow> memory_generation option"
  cd_review_of :: "bytes \<Rightarrow> memory_review option"
  cd_selection_of :: "bytes \<Rightarrow> memory_selection option"

record owner_composition =
  co_trust :: capability_trust

record memory_route =
  mr_scope :: memory_scope
  mr_enabled :: bool
  mr_search_principals :: "string list"
  mr_review_principals :: "string list"
  mr_owner :: "owner_composition option"
  mr_capability_version :: capability_version

subsection \<open>Composition\<close>

definition memory_route_new :: "memory_scope \<Rightarrow> bool \<Rightarrow> memory_route" where
  "memory_route_new scope enabled =
     \<lparr>mr_scope = scope, mr_enabled = enabled, mr_search_principals = [], mr_review_principals = [],
      mr_owner = None, mr_capability_version = CapabilityV3\<rparr>"

definition memory_route_attached :: "memory_scope \<Rightarrow> owner_composition \<Rightarrow> memory_route" where
  "memory_route_attached scope composition =
     \<lparr>mr_scope = scope, mr_enabled = True, mr_search_principals = [], mr_review_principals = [],
      mr_owner = Some composition, mr_capability_version = CapabilityV3\<rparr>"

definition grant_search :: "string \<Rightarrow> memory_route \<Rightarrow> memory_route" where
  "grant_search user m =
     (if user \<noteq> [] \<and> user \<notin> set (mr_search_principals m)
      then m\<lparr>mr_search_principals := mr_search_principals m @ [user]\<rparr> else m)"

definition grant_review :: "string \<Rightarrow> memory_route \<Rightarrow> memory_route" where
  "grant_review user m =
     (if user \<noteq> [] \<and> user \<notin> set (mr_review_principals m)
      then m\<lparr>mr_review_principals := mr_review_principals m @ [user]\<rparr> else m)"

definition with_capability_version :: "capability_version \<Rightarrow> memory_route \<Rightarrow> memory_route" where
  "with_capability_version version m = m\<lparr>mr_capability_version := version\<rparr>"

definition memory_route_capabilities :: "'a memory_codec_scheme \<Rightarrow> memory_route \<Rightarrow> memory_capabilities" where
  "memory_route_capabilities cd m = memory_target_capabilities cd (mr_scope m) (mr_enabled m)"

subsection \<open>Requests\<close>

definition validate_query :: "memory_query \<Rightarrow> memory_scope \<Rightarrow> memory_error + unit" where
  "validate_query q scope =
     ensure (\<not> (mq_schema q \<noteq> MEMORY_QUERY_SCHEMA
       \<or> mq_scope q \<noteq> scope
       \<or> \<not> owner_valid_id (mq_branch_id q)
       \<or> mq_query q = []
       \<or> length (mq_query q) > MAX_MEMORY_QUERY_BYTES
       \<or> mq_cutoff q > MAX_SAFE_INTEGER
       \<or> mq_corpus_generation q = 0
       \<or> mq_corpus_generation q > MAX_SAFE_INTEGER
       \<or> \<not> owner_valid_id (mq_ranker_version q)
       \<or> mq_limit q = 0
       \<or> mq_limit q > 16
       \<or> mq_max_candidates q = 0
       \<or> mq_max_candidates q > 64
       \<or> mq_effect_class q \<noteq> ''local_read_no_inference'')) MemInvalidRequest"

abbreviation jnum :: "u64 \<Rightarrow> jvalue" where
  "jnum n \<equiv> VNumber (PosInt n)"

definition memory_scope_value :: "memory_scope \<Rightarrow> jvalue" where
  "memory_scope_value s = object_of
     [(''project_id'', VString (ms_project_id s)), (''run_id'', VString (ms_run_id s)),
      (''episode_id'', VString (ms_episode_id s)), (''agent_id'', VString (ms_agent_id s))]"

definition query_value :: "memory_query \<Rightarrow> jvalue" where
  "query_value q = object_of
     [(''schema'', VString (mq_schema q)), (''scope'', memory_scope_value (mq_scope q)),
      (''branch_id'', VString (mq_branch_id q)), (''query'', VString (mq_query q)),
      (''cutoff'', jnum (mq_cutoff q)), (''corpus_generation'', jnum (mq_corpus_generation q)),
      (''ranker_version'', VString (mq_ranker_version q)), (''limit'', jnum (mq_limit q)),
      (''max_candidates'', jnum (mq_max_candidates q)), (''effect_class'', VString (mq_effect_class q))]"

definition memory_operation :: "string \<Rightarrow> string \<Rightarrow> string \<Rightarrow> memory_error + owner_operation" where
  "memory_operation method path expected_run_id =
     (let direct =
        (if method = ''GET'' \<and> path = ''/v3/memory/capabilities'' then Some MemoryCapabilities
         else if method = ''GET'' \<and> path = ''/v3/memory/status'' then Some MemoryStatus
         else if method = ''POST'' \<and> path = ''/v3/memory/search'' then Some MemoryQuery
         else if method = ''POST'' \<and> path = ''/v3/memory/generate'' then Some MemoryGeneration
         else if method = ''POST'' \<and> path = ''/v3/memory/review'' then Some MemoryReview
         else if method = ''POST'' \<and> path \<in> {''/v3/memory/select'', ''/v3/memory/selection''}
         then Some MemorySelection
         else None)
      in case direct of
        Some op \<Rightarrow> Inr op
      | None \<Rightarrow>
          (case filter (\<lambda>s. s \<noteq> []) (split_on (CHR ''/'') path) of
             [a, b, c, d, e] \<Rightarrow>
               if a = ''v3'' \<and> b = ''runs'' \<and> d = ''context-memory'' \<and> c \<noteq> expected_run_id
               then Inl MemPermissionDenied
               else if a \<noteq> ''v3'' \<or> b \<noteq> ''runs'' \<or> c \<noteq> expected_run_id \<or> d \<noteq> ''context-memory''
               then Inl (if method = ''GET'' then MemUnsupported else MemMethodNotAllowed)
               else if method = ''GET'' \<and> e = ''capabilities'' then Inr MemoryCapabilities
               else if method = ''GET'' \<and> e = ''status'' then Inr MemoryStatus
               else if method = ''POST'' \<and> e = ''search'' then Inr MemoryQuery
               else if method = ''POST'' \<and> e = ''summary-jobs'' then Inr MemoryGeneration
               else if method = ''POST'' \<and> e = ''reviews'' then Inr MemoryReview
               else if method = ''POST'' \<and> e = ''selections'' then Inr MemorySelection
               else if method = ''GET'' then Inl MemUnsupported
               else Inl MemMethodNotAllowed
           | _ \<Rightarrow> Inl (if method = ''GET'' then MemUnsupported else MemMethodNotAllowed)))"

fun decision_as_str :: "review_decision \<Rightarrow> string" where
  "decision_as_str Admit = ''admit''"
| "decision_as_str Reject = ''reject''"

text \<open>\<open>parse_typed_owner_command\<close>: decode, check, encode, and check the public value.\<close>

definition parse_typed_command ::
  "'a route_codec_scheme \<Rightarrow> (bytes \<Rightarrow> 'c option) \<Rightarrow> ('c \<Rightarrow> bool) \<Rightarrow> ('c \<Rightarrow> jvalue) \<Rightarrow> bytes
     \<Rightarrow> memory_error + jvalue" where
  "parse_typed_command cd from_slice valid to_value body =
     and_then (map_err (\<lambda>_. MemInvalidRequest) (parse_control_json (cd_string cd) from_slice body)) (\<lambda>command.
     and_then (ensure (valid command) MemInvalidRequest) (\<lambda>_.
     (let v = to_value command
      in and_then (map_err (\<lambda>_. MemInvalidRequest) (validate_public_value cd v)) (\<lambda>_. Inr v))))"

definition parse_owner_command ::
  "'a route_codec_scheme \<Rightarrow> owner_operation \<Rightarrow> bytes \<Rightarrow> memory_error + jvalue" where
  "parse_owner_command cd op body =
     and_then (ensure (body \<noteq> []) MemInvalidRequest) (\<lambda>_.
     (case op of
        MemoryGeneration \<Rightarrow>
          parse_typed_command cd (cd_generation_of cd)
            (\<lambda>c. owner_valid_id (gc_idempotency_key c) \<and> owner_valid_id (gc_proposal_id c))
            (\<lambda>c. object_of [(''idempotency_key'', VString (gc_idempotency_key c)),
                            (''proposal_id'', VString (gc_proposal_id c))]) body
      | MemoryReview \<Rightarrow>
          parse_typed_command cd (cd_review_of cd)
            (\<lambda>c. owner_valid_id (rv_idempotency_key c) \<and> owner_valid_id (rv_proposal_id c))
            (\<lambda>c. object_of [(''idempotency_key'', VString (rv_idempotency_key c)),
                            (''proposal_id'', VString (rv_proposal_id c)),
                            (''decision'', VString (decision_as_str (rv_decision c)))]) body
      | MemorySelection \<Rightarrow>
          parse_typed_command cd (cd_selection_of cd)
            (\<lambda>c. owner_valid_id (sx_idempotency_key c) \<and> owner_valid_id (sx_selection_id c))
            (\<lambda>c. object_of [(''idempotency_key'', VString (sx_idempotency_key c)),
                            (''selection_id'', VString (sx_selection_id c))]) body
      | _ \<Rightarrow> Inl MemUnsupported))"

definition owner_result_value :: "owner_operation \<Rightarrow> u64 \<Rightarrow> owner_reply \<Rightarrow> jvalue" where
  "owner_result_value op revocation_epoch p =
     (let r = rp_receipt p
      in object_of
        [(''schema'', VString ''ascension.context-memory.owner-result.v1''),
         (''operation'', VString (operation_as_str op)),
         (''source'', VString (re_source r)),
         (''owner_epoch'', jnum (re_owner_epoch r)),
         (''revocation_epoch'', jnum revocation_epoch),
         (''evidence'', VString (re_evidence r)),
         (''outcome'', VString (outcome_as_str (re_outcome r))),
         (''effect_class'', VString (if operation_read_only op then ''local_read_no_inference''
           else ''owner_delegated'')),
         (''receipt'', receipt_value r),
         (''value'', case rp_value p of Some v \<Rightarrow> v | None \<Rightarrow> VNull)])"

subsection \<open>The local route\<close>

definition permitted :: "string list \<Rightarrow> string \<Rightarrow> memory_error + unit" where
  "permitted users user = ensure (list_ex (\<lambda>u. u = user) users) MemPermissionDenied"

definition retrieval_value ::
  "'a owner_codec_scheme \<Rightarrow> memory_scope \<Rightarrow> memory_query \<Rightarrow> string \<Rightarrow> jvalue \<Rightarrow> jvalue" where
  "retrieval_value cd scope q query_id generation = object_of
     [(''schema'', VString ''ascension.context-memory.retrieval.v1''),
      (''query_id'', VString query_id),
      (''scope'', memory_scope_value scope),
      (''branch_id'', VString (mq_branch_id q)),
      (''query_sha256'', VString (codec_digest cd (mq_query q))),
      (''cutoff'', jnum (mq_cutoff q)),
      (''corpus_generation'', jnum (mq_corpus_generation q)),
      (''projection_generation'', generation),
      (''revocation_epoch'', generation),
      (''ranker_version'', VString (mq_ranker_version q)),
      (''results'', VArray []),
      (''coverage'', VString ''projection_unavailable''),
      (''inference_calls'', jnum 0)]"

definition memory_handle_local ::
  "'a route_codec_scheme \<Rightarrow> memory_route \<Rightarrow> string \<Rightarrow> string \<Rightarrow> string \<Rightarrow> bytes \<Rightarrow> memory_error + jvalue" where
  "memory_handle_local cd m method path user body =
     (if length body > MAX_MEMORY_BODY_BYTES then Inl MemBodyTooLarge
      else if method = ''GET'' \<and> path = ''/v3/memory/capabilities'' then
        and_then (permitted (mr_search_principals m) user) (\<lambda>_.
        (let c = memory_route_capabilities cd m
         in and_then (map_err MemEffectiveLimit (memory_validate_descriptor cd c)) (\<lambda>_.
            ok_or (case mr_capability_version m of
                CapabilityV3 \<Rightarrow> cd_memory_value cd c
              | CapabilityV1 \<Rightarrow> cd_memory_v1_value cd (into_v1 c)) MemUnsupported)))
      else if method = ''GET'' \<and> path = ''/v3/memory/status'' then
        and_then (permitted (mr_search_principals m) user) (\<lambda>_.
        Inr (object_of
          [(''schema'', VString ''ascension.context-memory.status.v1''),
           (''enabled'', VBool (mr_enabled m)),
           (''corpus_generation'', VNull),
           (''projection_generation'', VNull),
           (''revocation_epoch'', VNull),
           (''inference_calls'', jnum 0),
           (''effect_class'', VString ''local_read_no_inference'')]))
      else if method = ''POST'' \<and> path = ''/v3/memory/search'' then
        and_then (permitted (mr_search_principals m) user) (\<lambda>_.
        and_then (map_err (\<lambda>_. MemInvalidRequest)
            (parse_control_json (cd_string cd) (cd_query_of cd) body)) (\<lambda>q.
        and_then (validate_query q (mr_scope m)) (\<lambda>_.
        Inr (if \<not> mr_enabled m then retrieval_value cd (mr_scope m) q ''disabled'' VNull
             else retrieval_value cd (mr_scope m) q ''pending-harness-query'' (jnum 0)))))
      else if method = ''POST'' \<and> path \<in> {''/v3/memory/generate'', ''/v3/memory/review''} then
        and_then (permitted (mr_review_principals m) user) (\<lambda>_. Inl MemUnsupported)
      else if method \<in> {''GET'', ''POST''} then Inl MemUnsupported
      else Inl MemMethodNotAllowed)"

subsection \<open>The attached route\<close>

text \<open>The capability proof that a \<open>v3\<close> query needs: a fresh publication, presented and admitted.\<close>

definition query_proof ::
  "string \<Rightarrow> 'a route_codec_scheme \<Rightarrow> owner_env \<Rightarrow> capability_trust \<Rightarrow> owner_scope \<Rightarrow> grant_receipt
     \<Rightarrow> memory_query \<Rightarrow> (memory_error, unit) handler" where
  "query_proof producer cd env t scope grant q =
     log_then (pure_result (map_err (\<lambda>_. MemInvalidRequest)
       (make_call cd MemoryCapabilities scope None (object_of []) grant))) (\<lambda>call.
     log_then (\<lambda>log. apfst (map_err (\<lambda>_. MemUnavailable)) (send_request env (OwnerCalled call) log)) (\<lambda>p.
     log_then (pure_result (map_err (\<lambda>_. MemUnsupported) (validate_for cd MemoryCapabilities p))) (\<lambda>_.
     log_then (pure_result (map_err MemEffectiveLimit
       (trust_present producer cd t MemoryCapabilities scope CapabilityV3 p))) (\<lambda>p'.
     pure_result (map_err MemEffectiveLimit (admit_memory_query producer t scope p' q))))))"

definition memory_payload ::
  "string \<Rightarrow> 'a route_codec_scheme \<Rightarrow> owner_env \<Rightarrow> memory_route \<Rightarrow> capability_trust \<Rightarrow> owner_scope
     \<Rightarrow> grant_receipt \<Rightarrow> owner_operation \<Rightarrow> bytes \<Rightarrow> (memory_error, jvalue) handler" where
  "memory_payload producer cd env m t scope grant op body =
     (if op = MemoryCapabilities \<or> op = MemoryStatus then
        pure_result (and_then (ensure (body = []) MemInvalidRequest) (\<lambda>_. Inr (object_of [])))
      else if op = MemoryQuery then
        log_then (pure_result (map_err (\<lambda>_. MemInvalidRequest)
          (parse_control_json (cd_string cd) (cd_query_of cd) body))) (\<lambda>q.
        log_then (pure_result (validate_query q (mr_scope m))) (\<lambda>_.
        log_then (if mr_capability_version m = CapabilityV3
            then query_proof producer cd env t scope grant q
            else pure_result (Inr ())) (\<lambda>_.
        pure_result (Inr (query_value q)))))
      else if op \<in> {MemoryGeneration, MemoryReview, MemorySelection} then
        pure_result (parse_owner_command cd op body)
      else pure_result (Inl MemUnsupported))"

text \<open>What follows the payload: the call, its exchange, and the presentation of the reply.\<close>

definition memory_exchange ::
  "string \<Rightarrow> 'a route_codec_scheme \<Rightarrow> owner_env \<Rightarrow> memory_route \<Rightarrow> capability_trust
     \<Rightarrow> owner_operation \<Rightarrow> owner_scope \<Rightarrow> grant_receipt \<Rightarrow> jvalue \<Rightarrow> (memory_error, jvalue) handler" where
  "memory_exchange producer cd env m t op scope grant payload =
     log_then (pure_result (map_err (\<lambda>_. MemInvalidRequest)
       (make_call cd op scope None payload grant))) (\<lambda>call.
     log_then (deliver cd env MemUnavailable MemUnsupported MemUnsupported call) (\<lambda>p.
     log_then (pure_result (map_err (\<lambda>_. MemUnsupported) (validate_for cd op p))) (\<lambda>_.
     log_then (pure_result (map_err MemEffectiveLimit
       (trust_present producer cd t op scope (mr_capability_version m) p))) (\<lambda>p'.
     pure_result (Inr (owner_result_value op (gt_revocation_epoch grant) p'))))))"

definition memory_handle_attached ::
  "string \<Rightarrow> 'a route_codec_scheme \<Rightarrow> owner_env \<Rightarrow> memory_route \<Rightarrow> string \<Rightarrow> string \<Rightarrow> request_context
     \<Rightarrow> bytes \<Rightarrow> (memory_error, jvalue) handler" where
  "memory_handle_attached producer cd env m method path ctx body =
     log_then (pure_result (ensure (\<not> length body > MAX_MEMORY_BODY_BYTES) MemBodyTooLarge)) (\<lambda>_.
     log_then (pure_result (memory_operation method path (ms_run_id (mr_scope m)))) (\<lambda>op.
     let write = \<not> operation_read_only op; scope = scope_of_memory (mr_scope m) in
     log_then (pure_result (ok_or (mr_owner m) MemUnsupported)) (\<lambda>composition.
     let t = co_trust composition in
     log_then (authorize_now env ctx (operation_grant_class op) scope write MemPermissionDenied) (\<lambda>grant0.
     log_then (memory_payload producer cd env m t scope grant0 op body) (\<lambda>payload.
     log_then (if op = MemoryQuery \<and> mr_capability_version m = CapabilityV3
         then authorize_now env ctx (operation_grant_class op) scope write MemPermissionDenied
         else pure_result (Inr grant0)) (\<lambda>grant.
     memory_exchange producer cd env m t op scope grant payload))))))"

definition memory_handle ::
  "'a route_codec_scheme \<Rightarrow> memory_route \<Rightarrow> string \<Rightarrow> string \<Rightarrow> string \<Rightarrow> bytes \<Rightarrow> memory_error + jvalue" where
  "memory_handle cd m method path user body =
     (if mr_owner m \<noteq> None then Inl MemPermissionDenied
      else memory_handle_local cd m method path user body)"

definition memory_handle_with_context ::
  "string \<Rightarrow> 'a route_codec_scheme \<Rightarrow> owner_env \<Rightarrow> memory_route \<Rightarrow> string \<Rightarrow> string \<Rightarrow> request_context
     \<Rightarrow> bytes \<Rightarrow> (memory_error, jvalue) handler" where
  "memory_handle_with_context producer cd env m method path ctx body =
     (if mr_owner m \<noteq> None then memory_handle_attached producer cd env m method path ctx body
      else pure_result (memory_handle_local cd m method path (rq_principal ctx) body))"

end
