(* ===== verification/Session_Registry.thy ===== *)
theory Session_Registry
  imports Memory_Route Clock
begin

text \<open>
  The local provider-session registry (\<open>ProviderSessionRoute\<close> of
  \<open>context-service/src/provider_session\<close> without an owner): candidates, plans and operations with
  their idempotency records, and the route that reaches them (\<open>handle_local\<close> of \<open>route.rs\<close>, the
  mutations of \<open>service.rs\<close>, the helpers of \<open>support.rs\<close>). The wall clock is an argument. Field
  prefixes: \<open>sv_\<close> scope, \<open>bd_\<close> binding, \<open>so_\<close> operation, \<open>ir_\<close> idempotency record, \<open>rt_\<close> route.
\<close>

definition SESSION_API_SCHEMA :: string where
  "SESSION_API_SCHEMA = ''ascension.provider-session.api-result.v1''"
definition MAX_SESSION_BODY_BYTES :: nat where "MAX_SESSION_BODY_BYTES = 16 * 1024"
definition MAX_BINDINGS :: nat where "MAX_BINDINGS = 128"
definition MAX_SESSION_OPERATIONS :: nat where "MAX_SESSION_OPERATIONS = 512"
definition MAX_CANDIDATES :: nat where "MAX_CANDIDATES = 4"
definition FIXTURE_EXPIRY_SECONDS :: u64 where "FIXTURE_EXPIRY_SECONDS = 900"

datatype session_error =
  SesBadRequest | SesUnauthorized | SesAuthNeeded | SesForbidden | SesNotFound | SesMethodNotAllowed
  | SesUnsupported | SesCapacity | SesConflict | SesStale | SesExpired | SesAmbiguous
  | SesUnavailable | SesMalformedPeer | SesEffectiveLimit unavailable_reason

datatype session_mode = SessionDisabled | FixtureOnly | InspectOnly | SessionEnabled

subsection \<open>The registry\<close>

record session_scope =
  sv_project_id :: string
  sv_run_id :: string
  sv_episode_id :: string
  sv_agent_id :: string

record session_binding_view =
  bd_schema :: string
  bd_binding_id :: string
  bd_scope :: session_scope
  bd_branch_id :: string
  bd_credential_realm_ref :: string
  bd_profile_sha256 :: string
  bd_owner_epoch :: u64
  bd_session_epoch :: u64
  bd_run_id :: string
  bd_state :: string
  bd_purpose :: string
  bd_native_thread_ref :: string
  bd_dependency_ids :: "string list"
  bd_continuity_sha256 :: string
  bd_history_coverage :: string
  bd_history_epoch :: u64
  bd_compaction_epoch :: u64
  bd_dependency_count :: nat
  bd_game_dispatch_capability :: bool
  bd_expires_at :: string

record session_operation_view =
  so_schema :: string
  so_operation_id :: string
  so_scope :: session_scope
  so_binding_id :: string
  so_kind :: string
  so_idempotency_key :: string
  so_request_sha256 :: string
  so_state :: string
  so_owner_epoch :: u64
  so_session_epoch :: u64
  so_generation_permission :: bool
  so_generation_class :: bool
  so_automatic_retry :: bool
  so_auto_resume :: bool
  so_game_effects :: u64
  so_terminal_evidence_ref :: "string option"

record idempotency_record =
  ir_request_sha256 :: string
  ir_operation_id :: string
  ir_binding_id :: string

record session_route =
  rt_user :: string
  rt_mode :: session_mode
  rt_capabilities :: session_capabilities
  rt_bindings :: "(string, session_binding_view) btree"
  rt_operations :: "(string, session_operation_view) btree"
  rt_idempotency :: "(string, idempotency_record) btree"
  rt_next_id :: u64
  rt_owner :: "owner_composition option"
  rt_attached_scope :: "session_scope option"
  rt_attached_bindings :: "(string, session_scope) btree"
  rt_attached_operations :: "(string, session_scope) btree"
  rt_capability_version :: capability_version

subsection \<open>Construction\<close>

definition session_fixture :: "'a session_codec_scheme \<Rightarrow> string \<Rightarrow> session_route" where
  "session_fixture cd user =
     \<lparr>rt_user = user, rt_mode = FixtureOnly, rt_capabilities = fixture_session_capabilities cd,
      rt_bindings = bt_empty, rt_operations = bt_empty, rt_idempotency = bt_empty, rt_next_id = 1,
      rt_owner = None, rt_attached_scope = None, rt_attached_bindings = bt_empty,
      rt_attached_operations = bt_empty, rt_capability_version = CapabilityV3\<rparr>"

definition session_attached ::
  "'a session_codec_scheme \<Rightarrow> string \<Rightarrow> owner_composition \<Rightarrow> session_route" where
  "session_attached cd user composition =
     (session_fixture cd user)\<lparr>rt_mode := SessionEnabled, rt_owner := Some composition,
        rt_bindings := bt_empty, rt_operations := bt_empty, rt_idempotency := bt_empty\<rparr>"

definition session_attached_with_scope ::
  "'a session_codec_scheme \<Rightarrow> string \<Rightarrow> session_scope \<Rightarrow> owner_composition \<Rightarrow> session_route" where
  "session_attached_with_scope cd user scope composition =
     (session_attached cd user composition)\<lparr>rt_attached_scope := Some scope\<rparr>"

definition session_disabled :: "'a session_codec_scheme \<Rightarrow> string \<Rightarrow> session_route" where
  "session_disabled cd user = (session_fixture cd user)\<lparr>rt_mode := SessionDisabled\<rparr>"

definition session_inspect_only :: "'a session_codec_scheme \<Rightarrow> string \<Rightarrow> session_route" where
  "session_inspect_only cd user = (session_fixture cd user)\<lparr>rt_mode := InspectOnly\<rparr>"

definition scope_for_run :: "string \<Rightarrow> session_scope" where
  "scope_for_run run =
     \<lparr>sv_project_id = ''project-fixture'', sv_run_id = run, sv_episode_id = ''episode-fixture'',
      sv_agent_id = ''agent-fixture''\<rparr>"

definition fixture_expiry :: "u64 \<Rightarrow> string" where
  "fixture_expiry now = format_time (sat_add now FIXTURE_EXPIRY_SECONDS)"

subsection \<open>Documents\<close>

definition session_scope_value :: "session_scope \<Rightarrow> jvalue" where
  "session_scope_value s = object_of
     [(''project_id'', VString (sv_project_id s)), (''run_id'', VString (sv_run_id s)),
      (''episode_id'', VString (sv_episode_id s)), (''agent_id'', VString (sv_agent_id s))]"

definition binding_view_value :: "session_binding_view \<Rightarrow> jvalue" where
  "binding_view_value b = object_of
     [(''schema'', VString (bd_schema b)), (''binding_id'', VString (bd_binding_id b)),
      (''scope'', session_scope_value (bd_scope b)), (''branch_id'', VString (bd_branch_id b)),
      (''credential_realm_ref'', VString (bd_credential_realm_ref b)),
      (''profile_sha256'', VString (bd_profile_sha256 b)),
      (''owner_epoch'', jnum (bd_owner_epoch b)), (''session_epoch'', jnum (bd_session_epoch b)),
      (''state'', VString (bd_state b)), (''purpose'', VString (bd_purpose b)),
      (''native_thread_ref'', VString (bd_native_thread_ref b)),
      (''dependency_ids'', VArray (map VString (bd_dependency_ids b))),
      (''continuity_sha256'', VString (bd_continuity_sha256 b)),
      (''history_coverage'', VString (bd_history_coverage b)),
      (''history_epoch'', jnum (bd_history_epoch b)),
      (''compaction_epoch'', jnum (bd_compaction_epoch b)),
      (''game_dispatch_capability'', VBool (bd_game_dispatch_capability b)),
      (''expires_at'', VString (bd_expires_at b))]"

definition operation_view_value :: "session_operation_view \<Rightarrow> jvalue" where
  "operation_view_value o' = object_of
     [(''schema'', VString (so_schema o')), (''operation_id'', VString (so_operation_id o')),
      (''scope'', session_scope_value (so_scope o')), (''binding_id'', VString (so_binding_id o')),
      (''kind'', VString (so_kind o')), (''idempotency_key'', VString (so_idempotency_key o')),
      (''request_sha256'', VString (so_request_sha256 o')), (''state'', VString (so_state o')),
      (''owner_epoch'', jnum (so_owner_epoch o')), (''session_epoch'', jnum (so_session_epoch o')),
      (''generation_permission'', VBool (so_generation_permission o')),
      (''generation_class'', VBool (so_generation_class o')),
      (''automatic_retry'', VBool (so_automatic_retry o')),
      (''auto_resume'', VBool (so_auto_resume o')), (''game_effects'', jnum (so_game_effects o')),
      (''terminal_evidence_ref'',
        case so_terminal_evidence_ref o' of Some s \<Rightarrow> VString s | None \<Rightarrow> VNull)]"

definition session_envelope :: "string \<Rightarrow> jvalue \<Rightarrow> jvalue" where
  "session_envelope op v = object_of
     [(''schema'', VString SESSION_API_SCHEMA), (''operation'', VString op), (''value'', v),
      (''effect_class'', VString ''local_metadata_only''), (''inference_calls'', jnum 0),
      (''game_effects'', jnum 0)]"

definition accepted_operation :: "string \<Rightarrow> string \<Rightarrow> jvalue" where
  "accepted_operation operation_id binding_id = session_envelope ''accepted'' (object_of
     [(''operation_id'', VString operation_id), (''binding_id'', VString binding_id),
      (''status'', VString ''intent_persisted''), (''native_calls'', jnum 0),
      (''game_effects'', jnum 0)])"

definition accepted_plan :: "string \<Rightarrow> string \<Rightarrow> string \<Rightarrow> jvalue" where
  "accepted_plan plan_id binding_id kind = session_envelope ''plan'' (object_of
     [(''plan_id'', VString plan_id), (''binding_id'', VString binding_id), (''kind'', VString kind),
      (''status'', VString ''planned''), (''inference_calls'', jnum 0), (''game_effects'', jnum 0)])"

subsection \<open>Commands\<close>

type_synonym object_fields = "(string \<times> jvalue) list"

definition require_id :: "object_fields \<Rightarrow> string \<Rightarrow> session_error + unit" where
  "require_id kvs name =
     (case Option.bind (object_get kvs name) value_str of
        Some s \<Rightarrow> ensure (owner_valid_id s) SesBadRequest
      | None \<Rightarrow> Inl SesBadRequest)"

definition require_u64 :: "object_fields \<Rightarrow> string \<Rightarrow> session_error + unit" where
  "require_u64 kvs name =
     ensure (Option.bind (object_get kvs name) value_u64 \<noteq> None) SesBadRequest"

fun require_all :: "('a \<Rightarrow> session_error + unit) \<Rightarrow> 'a list \<Rightarrow> session_error + unit" where
  "require_all check [] = Inr ()"
| "require_all check (x # xs) = and_then (check x) (\<lambda>_. require_all check xs)"

text \<open>The body's object and its idempotency key; every caller passes one list as both lists of keys.\<close>

definition parse_command ::
  "'a route_codec_scheme \<Rightarrow> bytes \<Rightarrow> string list \<Rightarrow> string list \<Rightarrow> session_error + object_fields \<times> string"
  where
  "parse_command cd body required allowed =
     and_then (ensure (body \<noteq> []) SesBadRequest) (\<lambda>_.
     and_then (map_err (\<lambda>_. SesBadRequest)
       (parse_control_json (cd_string cd) (cd_from_slice cd) body)) (\<lambda>v.
     (case v of
        VObject kvs \<Rightarrow>
          and_then (ensure (\<not> list_ex (\<lambda>(k, _). k \<notin> set allowed) kvs) SesBadRequest) (\<lambda>_.
          and_then (ensure (\<not> list_ex (\<lambda>k. object_get kvs k = None) required) SesBadRequest) (\<lambda>_.
          and_then (ok_or (Option.bind (object_get kvs ''idempotency_key'') value_str) SesBadRequest) (\<lambda>key.
          and_then (ensure (owner_valid_id key) SesBadRequest) (\<lambda>_. Inr (kvs, key)))))
      | _ \<Rightarrow> Inl SesBadRequest)))"

definition field_str :: "object_fields \<Rightarrow> string \<Rightarrow> string option" where
  "field_str kvs name = Option.bind (object_get kvs name) value_str"

text \<open>The checks of \<open>mutate_candidate\<close> on its body.\<close>

definition candidate_request ::
  "'a route_codec_scheme \<Rightarrow> bytes \<Rightarrow> session_error + object_fields \<times> string" where
  "candidate_request cd body =
     (let names = [''idempotency_key'', ''expected_control_generation'', ''approved_policy_ref'',
                   ''profile_ref'', ''purpose'']
      in and_then (parse_command cd body names names) (\<lambda>(kvs, key).
         and_then (require_u64 kvs ''expected_control_generation'') (\<lambda>_.
         and_then (require_id kvs ''approved_policy_ref'') (\<lambda>_.
         and_then (require_id kvs ''profile_ref'') (\<lambda>_.
         and_then (ensure (field_str kvs ''purpose'' \<in> {Some ''executable_candidate'', Some ''evaluation''})
           SesBadRequest) (\<lambda>_. Inr (kvs, key)))))))"

definition plan_names :: "string \<Rightarrow> session_error + string list" where
  "plan_names kind =
     (let epochs = [''idempotency_key'', ''expected_control_generation'', ''expected_session_epoch'',
                    ''expected_history_epoch'']
      in if kind = ''fork-plans'' then Inr (epochs @ [''cutoff_turn_ref'', ''operation'', ''purpose''])
         else if kind = ''compaction-plans'' then Inr (epochs @ [''requested_policy''])
         else if kind = ''prepared-bindings'' then
           Inr (epochs @ [''phase2_draft_ref'', ''phase3_selection_ref''])
         else Inl SesUnsupported)"

text \<open>The checks of \<open>accept_plan\<close> on its body.\<close>

definition plan_request ::
  "'a route_codec_scheme \<Rightarrow> string \<Rightarrow> bytes \<Rightarrow> session_error + object_fields \<times> string" where
  "plan_request cd kind body =
     and_then (plan_names kind) (\<lambda>names.
     and_then (parse_command cd body names names) (\<lambda>(kvs, key).
     and_then (require_all (require_u64 kvs)
       [''expected_control_generation'', ''expected_session_epoch'', ''expected_history_epoch'']) (\<lambda>_.
     and_then
       (if kind = ''fork-plans'' then
          and_then (require_id kvs ''cutoff_turn_ref'') (\<lambda>_.
          ensure (\<not> (field_str kvs ''operation'' \<notin> {Some ''native_fork'', Some ''clean_rehydration''}
            \<or> field_str kvs ''purpose'' \<noteq> Some ''evaluation'')) SesBadRequest)
        else if kind = ''compaction-plans'' then
          ensure (field_str kvs ''requested_policy'' \<in> {Some ''strict_reviewed'', Some ''observed_persistent''})
            SesBadRequest
        else if kind = ''prepared-bindings'' then
          and_then (require_id kvs ''phase2_draft_ref'') (\<lambda>_. require_id kvs ''phase3_selection_ref'')
        else Inl SesUnsupported) (\<lambda>_. Inr (kvs, key)))))"

definition operation_names :: "string \<Rightarrow> session_error + string list" where
  "operation_names kind =
     (let base = [''idempotency_key'', ''expected_control_generation'']
      in if kind = ''refresh'' then Inr (base @ [''expected_session_epoch'', ''expected_history_epoch''])
         else if kind = ''reconnect'' then Inr (base @ [''expected_session_epoch''])
         else if kind = ''fork'' then Inr (base @ [''approved_fork_plan_ref''])
         else if kind = ''compact'' then
           Inr (base @ [''approved_compaction_plan_ref'', ''spend_authorization_ref''])
         else if kind = ''retire'' then Inr (base @ [''expected_session_epoch'', ''reason''])
         else if kind = ''cleanup'' then
           Inr (base @ [''retirement_ref'', ''erase_authorization_ref'', ''expected_session_epoch''])
         else Inl SesUnsupported)"

definition if_present ::
  "(object_fields \<Rightarrow> string \<Rightarrow> session_error + unit) \<Rightarrow> object_fields \<Rightarrow> string \<Rightarrow> session_error + unit" where
  "if_present check kvs name = (if object_get kvs name \<noteq> None then check kvs name else Inr ())"

text \<open>The checks of \<open>accept_operation\<close> on its body.\<close>

definition operation_request ::
  "'a route_codec_scheme \<Rightarrow> string \<Rightarrow> bytes \<Rightarrow> session_error + object_fields \<times> string" where
  "operation_request cd kind body =
     and_then (operation_names kind) (\<lambda>names.
     and_then (parse_command cd body names names) (\<lambda>(kvs, key).
     and_then (require_all (if_present require_u64 kvs)
       [''expected_control_generation'', ''expected_session_epoch'', ''expected_history_epoch'']) (\<lambda>_.
     and_then (require_all (if_present require_id kvs)
       [''approved_fork_plan_ref'', ''approved_compaction_plan_ref'', ''spend_authorization_ref'',
        ''retirement_ref'', ''erase_authorization_ref'']) (\<lambda>_.
     and_then (ensure (\<not> (kind = ''retire'' \<and> field_str kvs ''reason'' \<notin>
         {Some ''operator_request'', Some ''source_removed'', Some ''continuity_lost'',
          Some ''scope_ended'', Some ''capacity_rotation''})) SesBadRequest) (\<lambda>_.
     and_then (ensure (\<not> (kind = ''compact'' \<and> object_get kvs ''spend_authorization_ref'' = None))
       SesBadRequest) (\<lambda>_. Inr (kvs, key)))))))"

subsection \<open>Mutations\<close>

definition dash_numbered :: "string \<Rightarrow> u64 \<Rightarrow> string" where
  "dash_numbered prefix n = prefix @ ''-'' @ dec (unat n)"

definition candidate_count :: "string \<Rightarrow> session_route \<Rightarrow> nat" where
  "candidate_count run rt =
     length (filter (\<lambda>b. bd_state b = ''candidate'' \<or> bd_purpose b = ''evaluation'')
       (filter (\<lambda>b. sv_run_id (bd_scope b) = run) (bt_values (rt_bindings rt))))"

definition candidate_binding ::
  "'a owner_codec_scheme \<Rightarrow> u64 \<Rightarrow> string \<Rightarrow> string \<Rightarrow> string \<Rightarrow> session_binding_view" where
  "candidate_binding cd now run binding_id purpose =
     \<lparr>bd_schema = ''ascension.provider-session.binding.v1'', bd_binding_id = binding_id,
      bd_scope = scope_for_run run, bd_branch_id = ''branch-fixture'',
      bd_credential_realm_ref = ''fixture-realm'',
      bd_profile_sha256 = codec_digest cd ''codex-app-server-fixture-v1'',
      bd_owner_epoch = 1, bd_session_epoch = 1, bd_run_id = run, bd_state = ''candidate'',
      bd_purpose = purpose, bd_native_thread_ref = ''pending-'' @ binding_id, bd_dependency_ids = [],
      bd_continuity_sha256 = codec_digest cd ''empty-provider-history'',
      bd_history_coverage = ''unknown'', bd_history_epoch = 0, bd_compaction_epoch = 0,
      bd_dependency_count = 0, bd_game_dispatch_capability = False,
      bd_expires_at = fixture_expiry now\<rparr>"

definition operation_view ::
  "string \<Rightarrow> session_scope \<Rightarrow> string \<Rightarrow> string \<Rightarrow> string \<Rightarrow> string \<Rightarrow> string \<Rightarrow> u64 \<Rightarrow> bool
     \<Rightarrow> session_operation_view" where
  "operation_view operation_id scope binding_id kind key sha st session_epoch generation =
     \<lparr>so_schema = ''ascension.provider-session.operation.v1'', so_operation_id = operation_id,
      so_scope = scope, so_binding_id = binding_id, so_kind = kind, so_idempotency_key = key,
      so_request_sha256 = sha, so_state = st, so_owner_epoch = 1, so_session_epoch = session_epoch,
      so_generation_permission = generation, so_generation_class = generation,
      so_automatic_retry = False, so_auto_resume = False, so_game_effects = 0,
      so_terminal_evidence_ref = None\<rparr>"

definition candidate_dedupe_key :: "string \<Rightarrow> string \<Rightarrow> string" where
  "candidate_dedupe_key run key = ''candidate:'' @ run @ '':'' @ key"

definition mutate_candidate ::
  "'a route_codec_scheme \<Rightarrow> u64 \<Rightarrow> string \<Rightarrow> string \<Rightarrow> bytes \<Rightarrow> session_route
     \<Rightarrow> (session_error + jvalue) \<times> session_route" where
  "mutate_candidate cd now method run body rt =
     (if method \<noteq> ''POST'' then (Inl SesMethodNotAllowed, rt)
      else if length body > MAX_SESSION_BODY_BYTES then (Inl SesCapacity, rt)
      else case candidate_request cd body of
        Inl e \<Rightarrow> (Inl e, rt)
      | Inr (kvs, key) \<Rightarrow>
          (let sha = canonical_digest cd (VObject kvs); dedupe = candidate_dedupe_key run key
           in case bt_get (rt_idempotency rt) dedupe of
             Some existing \<Rightarrow>
               if ir_request_sha256 existing \<noteq> sha then (Inl SesConflict, rt)
               else (Inr (accepted_operation (ir_operation_id existing) (ir_binding_id existing)), rt)
           | None \<Rightarrow>
               if bt_len (rt_bindings rt) \<ge> MAX_BINDINGS then (Inl SesCapacity, rt)
               else if candidate_count run rt \<ge> MAX_CANDIDATES then (Inl SesCapacity, rt)
               else (let binding_id = dash_numbered ''binding'' (rt_next_id rt);
                         operation_id = dash_numbered ''operation'' (rt_next_id rt);
                         purpose = (if field_str kvs ''purpose'' = Some ''evaluation''
                           then ''evaluation'' else ''executable'')
                     in (Inr (accepted_operation operation_id binding_id),
                         rt\<lparr>rt_next_id := sat_add (rt_next_id rt) 1,
                            rt_bindings := bt_insert binding_id
                              (candidate_binding cd now run binding_id purpose) (rt_bindings rt),
                            rt_operations := bt_insert operation_id
                              (operation_view operation_id (scope_for_run run) binding_id
                                ''create_candidate'' key sha ''intent_persisted'' 1 False)
                              (rt_operations rt),
                            rt_idempotency := bt_insert dedupe
                              \<lparr>ir_request_sha256 = sha, ir_operation_id = operation_id,
                               ir_binding_id = binding_id\<rparr> (rt_idempotency rt)\<rparr>))))"

definition plan_dedupe_key :: "string \<Rightarrow> string \<Rightarrow> string \<Rightarrow> string" where
  "plan_dedupe_key kind binding_id key = ''plan:'' @ kind @ '':'' @ binding_id @ '':'' @ key"

text \<open>
  A plan for a fork or a compaction is also an operation; one for prepared bindings is only an
  idempotency record. The counter is raised before the binding is looked up.
\<close>

definition accept_plan ::
  "'a route_codec_scheme \<Rightarrow> string \<Rightarrow> string \<Rightarrow> bytes \<Rightarrow> session_route
     \<Rightarrow> (session_error + jvalue) \<times> session_route" where
  "accept_plan cd binding_id kind body rt =
     (if length body > MAX_SESSION_BODY_BYTES then (Inl SesCapacity, rt)
      else case plan_request cd kind body of
        Inl e \<Rightarrow> (Inl e, rt)
      | Inr (kvs, key) \<Rightarrow>
          (let sha = canonical_digest cd (VObject kvs); dedupe = plan_dedupe_key kind binding_id key
           in case bt_get (rt_idempotency rt) dedupe of
             Some existing \<Rightarrow>
               if ir_request_sha256 existing \<noteq> sha then (Inl SesConflict, rt)
               else (Inr (accepted_plan (ir_operation_id existing) (ir_binding_id existing) kind), rt)
           | None \<Rightarrow>
               if bt_len (rt_operations rt) \<ge> MAX_SESSION_OPERATIONS then (Inl SesCapacity, rt)
               else if bt_len (rt_idempotency rt) \<ge> MAX_SESSION_OPERATIONS then (Inl SesCapacity, rt)
               else (let plan_id = dash_numbered ''plan'' (rt_next_id rt);
                         rt1 = rt\<lparr>rt_next_id := sat_add (rt_next_id rt) 1\<rparr>;
                         planned = (if kind \<in> {''fork-plans'', ''compaction-plans''}
                           then (case bt_get (rt_bindings rt1) binding_id of
                               Some b \<Rightarrow> Some (rt1\<lparr>rt_operations := bt_insert plan_id
                                 (operation_view plan_id (bd_scope b) binding_id
                                   (if kind = ''fork-plans'' then ''fork'' else ''compact'') key sha
                                   ''planned'' (bd_session_epoch b) (kind = ''compaction-plans''))
                                 (rt_operations rt1)\<rparr>)
                             | None \<Rightarrow> None)
                           else Some rt1)
                     in case planned of
                       None \<Rightarrow> (Inl SesNotFound, rt1)
                     | Some rt2 \<Rightarrow>
                         (Inr (accepted_plan plan_id binding_id kind),
                          rt2\<lparr>rt_idempotency := bt_insert dedupe
                            \<lparr>ir_request_sha256 = sha, ir_operation_id = plan_id,
                             ir_binding_id = binding_id\<rparr> (rt_idempotency rt2)\<rparr>))))"

definition operation_dedupe_key :: "string \<Rightarrow> string \<Rightarrow> string \<Rightarrow> string" where
  "operation_dedupe_key kind binding_id key = kind @ '':'' @ binding_id @ '':'' @ key"

definition accept_operation ::
  "'a route_codec_scheme \<Rightarrow> string \<Rightarrow> string \<Rightarrow> bool \<Rightarrow> bytes \<Rightarrow> session_route
     \<Rightarrow> (session_error + jvalue) \<times> session_route" where
  "accept_operation cd binding_id kind generation body rt =
     (if length body > MAX_SESSION_BODY_BYTES then (Inl SesCapacity, rt)
      else case operation_request cd kind body of
        Inl e \<Rightarrow> (Inl e, rt)
      | Inr (kvs, key) \<Rightarrow>
          (let sha = canonical_digest cd (VObject kvs); dedupe = operation_dedupe_key kind binding_id key
           in case bt_get (rt_idempotency rt) dedupe of
             Some existing \<Rightarrow>
               if ir_request_sha256 existing \<noteq> sha then (Inl SesConflict, rt)
               else (Inr (accepted_operation (ir_operation_id existing) (ir_binding_id existing)), rt)
           | None \<Rightarrow>
               if bt_len (rt_operations rt) \<ge> MAX_SESSION_OPERATIONS then (Inl SesCapacity, rt)
               else case bt_get (rt_bindings rt) binding_id of
                 None \<Rightarrow> (Inl SesNotFound, rt)
               | Some b \<Rightarrow>
                   (let operation_id = dash_numbered ''operation'' (rt_next_id rt)
                    in (Inr (accepted_operation operation_id binding_id),
                        rt\<lparr>rt_next_id := sat_add (rt_next_id rt) 1,
                           rt_operations := bt_insert operation_id
                             (operation_view operation_id (bd_scope b) binding_id kind key sha
                               ''intent_persisted'' (bd_session_epoch b) generation)
                             (rt_operations rt),
                           rt_idempotency := bt_insert dedupe
                             \<lparr>ir_request_sha256 = sha, ir_operation_id = operation_id,
                              ir_binding_id = binding_id\<rparr> (rt_idempotency rt)\<rparr>))))"

subsection \<open>The local route\<close>

definition session_path_refused :: "string \<Rightarrow> bytes \<Rightarrow> bool" where
  "session_path_refused path body \<longleftrightarrow>
     length body > MAX_SESSION_BODY_BYTES \<or> str_contains path ''..'' \<or> CHR 0x5C \<in> set path
     \<or> CHR ''%'' \<in> set path"

definition session_segments :: "string \<Rightarrow> session_error + string list" where
  "session_segments path =
     (let segments = filter (\<lambda>s. s \<noteq> []) (split_on (CHR ''/'') path)
      in if length segments < 4 \<or> segments ! 0 \<noteq> ''v1'' \<or> segments ! 1 \<noteq> ''runs''
            \<or> segments ! 3 \<notin> {''provider-sessions'', ''provider-session-operations'',
                  ''provider-session-events''}
         then Inl SesNotFound
         else and_then (ensure (owner_valid_id (segments ! 2)) SesBadRequest) (\<lambda>_. Inr segments))"

definition empty_events :: "string \<Rightarrow> jvalue" where
  "empty_events run = session_envelope ''events'' (object_of
     [(''run_id'', VString run), (''events'', VArray []), (''next_cursor'', VNull)])"

definition session_list :: "string \<Rightarrow> session_route \<Rightarrow> jvalue" where
  "session_list run rt = session_envelope ''list'' (object_of
     [(''run_id'', VString run),
      (''bindings'', VArray (map binding_view_value
        (filter (\<lambda>b. sv_run_id (bd_scope b) = run) (bt_values (rt_bindings rt))))),
      (''operations'', VArray (map operation_view_value
        (filter (\<lambda>o'. sv_run_id (so_scope o') = run) (bt_values (rt_operations rt))))),
      (''next_cursor'', VNull)])"

definition session_history :: "string \<Rightarrow> session_binding_view \<Rightarrow> jvalue" where
  "session_history binding_id b = session_envelope ''history'' (object_of
     [(''schema'', VString ''ascension.provider-session.history.v1''),
      (''view_id'', VString (''history-view-'' @ binding_id)), (''binding_id'', VString binding_id),
      (''scope'', session_scope_value (bd_scope b)), (''history_epoch'', jnum (bd_history_epoch b)),
      (''watermark'', jnum 0), (''coverage'', VString (bd_history_coverage b)),
      (''effective_context_coverage'', VString ''unknown''), (''items'', VArray []),
      (''known_total_items'', jnum 0), (''next_cursor'', VNull), (''read_started_turn'', VBool False),
      (''expires_at'', VString (bd_expires_at b))])"

definition capabilities_reply ::
  "'a session_codec_scheme \<Rightarrow> session_route \<Rightarrow> session_error + jvalue" where
  "capabilities_reply cd rt =
     and_then (map_err SesEffectiveLimit (session_validate_descriptor cd (rt_capabilities rt))) (\<lambda>_.
     and_then (ok_or (case rt_capability_version rt of
         CapabilityV3 \<Rightarrow> cd_session_value cd (rt_capabilities rt)
       | CapabilityV1 \<Rightarrow> cd_session_v1_value cd (session_to_v1 (rt_capabilities rt))) SesBadRequest) (\<lambda>v.
     Inr (session_envelope ''capabilities'' v)))"

definition get_only :: "string \<Rightarrow> session_error + jvalue \<Rightarrow> session_error + jvalue" where
  "get_only method r = (if method = ''GET'' then r else Inl SesMethodNotAllowed)"

fun job_kind :: "string \<Rightarrow> string option" where
  "job_kind segment =
     (if segment = ''reconnect'' then Some ''reconnect''
      else if segment = ''history-refresh'' then Some ''refresh''
      else if segment = ''fork-jobs'' then Some ''fork''
      else if segment = ''compaction-jobs'' then Some ''compact''
      else if segment = ''retire'' then Some ''retire''
      else if segment = ''cleanup'' then Some ''cleanup''
      else None)"

definition binding_subroute ::
  "'a route_codec_scheme \<Rightarrow> string \<Rightarrow> string \<Rightarrow> string list \<Rightarrow> session_binding_view \<Rightarrow> bytes
     \<Rightarrow> session_route \<Rightarrow> (session_error + jvalue) \<times> session_route" where
  "binding_subroute cd method binding_id segments b body rt =
     (if length segments \<noteq> 6 then (Inl SesNotFound, rt)
      else let last_segment = segments ! 5 in
        if last_segment = ''history'' then
          (if method = ''GET'' then (Inr (session_history binding_id b), rt)
           else if method = ''POST'' then accept_operation cd binding_id ''refresh'' False body rt
           else (Inl SesMethodNotAllowed, rt))
        else if last_segment \<in> {''fork-plans'', ''compaction-plans'', ''prepared-bindings''} then
          (if method = ''POST'' then accept_plan cd binding_id last_segment body rt
           else (Inl SesMethodNotAllowed, rt))
        else case job_kind last_segment of
          None \<Rightarrow> (Inl SesNotFound, rt)
        | Some kind \<Rightarrow>
            if method = ''POST''
            then accept_operation cd binding_id kind (kind = ''compact'') body rt
            else (Inl SesMethodNotAllowed, rt))"

definition session_handle_local ::
  "'a route_codec_scheme \<Rightarrow> u64 \<Rightarrow> string \<Rightarrow> string \<Rightarrow> string \<Rightarrow> bytes \<Rightarrow> session_route
     \<Rightarrow> (session_error + jvalue) \<times> session_route" where
  "session_handle_local cd now method path user body rt =
     (if user \<noteq> rt_user rt \<or> user = [] then (Inl SesUnauthorized, rt)
      else if session_path_refused path body then (Inl SesBadRequest, rt)
      else if method = ''GET'' \<and> body \<noteq> [] then (Inl SesBadRequest, rt)
      else case session_segments path of
        Inl e \<Rightarrow> (Inl e, rt)
      | Inr segments \<Rightarrow>
          (let run = segments ! 2; family = segments ! 3; n = length segments;
               sub = (\<lambda>name. n = 5 \<and> family = ''provider-sessions'' \<and> segments ! 4 = name)
           in if rt_mode rt = SessionDisabled then (Inl SesUnsupported, rt)
              else if rt_mode rt = InspectOnly \<and> method \<noteq> ''GET'' then (Inl SesUnsupported, rt)
              else if sub ''capabilities'' then (get_only method (capabilities_reply cd rt), rt)
              else if n = 4 \<and> family = ''provider-sessions'' then
                (get_only method (Inr (session_list run rt)), rt)
              else if sub ''candidates'' then mutate_candidate cd now method run body rt
              else if n = 4 \<and> family = ''provider-session-events'' \<or> sub ''events'' then
                (get_only method (Inr (empty_events run)), rt)
              else if family = ''provider-session-operations'' then
                (if n \<noteq> 5 \<or> method \<noteq> ''GET'' then Inl SesMethodNotAllowed
                 else case bt_get (rt_operations rt) (segments ! 4) of
                   None \<Rightarrow> Inl SesNotFound
                 | Some o' \<Rightarrow>
                     if sv_run_id (so_scope o') \<noteq> run then Inl SesNotFound
                     else Inr (session_envelope ''operation'' (operation_view_value o')), rt)
              else if family \<noteq> ''provider-sessions'' then (Inl SesNotFound, rt)
              else case bt_get (rt_bindings rt) (segments ! 4) of
                None \<Rightarrow> (Inl SesNotFound, rt)
              | Some b \<Rightarrow>
                  if sv_run_id (bd_scope b) \<noteq> run then (Inl SesNotFound, rt)
                  else if n = 5 then
                    (get_only method (Inr (session_envelope ''binding'' (binding_view_value b))), rt)
                  else binding_subroute cd method (segments ! 4) segments b body rt))"

end
