(* ===== verification/Session_Route.thy ===== *)
theory Session_Route
  imports Session_Registry
begin

text \<open>
  The attached provider-session route (\<open>handle_attached\<close>, \<open>delegate_attached\<close> and the reference
  table of \<open>context-service/src/provider_session/service.rs\<close>, the typed payloads of \<open>support.rs\<close>):
  a path is resolved against the references that the owner has published, the body is decoded as
  the closed command of its operation, and the operation is forwarded under a grant. Field
  prefixes: \<open>ka_\<close> to \<open>kj_\<close> the ten commands, \<open>cd_\<close> codec.
\<close>

subsection \<open>Commands\<close>

datatype candidate_purpose = ExecutableCandidate | CandidateEvaluation
datatype fork_operation = NativeFork | CleanRehydration
datatype fork_purpose = ForkEvaluation
datatype compaction_policy = StrictReviewed | ObservedPersistent
datatype retire_reason = OperatorRequest | SourceRemoved | ContinuityLost | ScopeEnded | CapacityRotation

fun candidate_purpose_as_str :: "candidate_purpose \<Rightarrow> string" where
  "candidate_purpose_as_str ExecutableCandidate = ''executable_candidate''"
| "candidate_purpose_as_str CandidateEvaluation = ''evaluation''"

fun fork_operation_as_str :: "fork_operation \<Rightarrow> string" where
  "fork_operation_as_str NativeFork = ''native_fork''"
| "fork_operation_as_str CleanRehydration = ''clean_rehydration''"

fun fork_purpose_as_str :: "fork_purpose \<Rightarrow> string" where
  "fork_purpose_as_str ForkEvaluation = ''evaluation''"

fun compaction_policy_as_str :: "compaction_policy \<Rightarrow> string" where
  "compaction_policy_as_str StrictReviewed = ''strict_reviewed''"
| "compaction_policy_as_str ObservedPersistent = ''observed_persistent''"

fun retire_reason_as_str :: "retire_reason \<Rightarrow> string" where
  "retire_reason_as_str OperatorRequest = ''operator_request''"
| "retire_reason_as_str SourceRemoved = ''source_removed''"
| "retire_reason_as_str ContinuityLost = ''continuity_lost''"
| "retire_reason_as_str ScopeEnded = ''scope_ended''"
| "retire_reason_as_str CapacityRotation = ''capacity_rotation''"

record candidate_command =
  ka_idempotency_key :: string
  ka_expected_control_generation :: u64
  ka_approved_policy_ref :: string
  ka_profile_ref :: string
  ka_purpose :: candidate_purpose

record history_refresh_command =
  kb_idempotency_key :: string
  kb_expected_control_generation :: u64
  kb_expected_session_epoch :: u64
  kb_expected_history_epoch :: u64

record reconnect_command =
  kc_idempotency_key :: string
  kc_expected_control_generation :: u64
  kc_expected_session_epoch :: u64

record fork_plan_command =
  kd_idempotency_key :: string
  kd_expected_control_generation :: u64
  kd_expected_session_epoch :: u64
  kd_expected_history_epoch :: u64
  kd_cutoff_turn_ref :: string
  kd_operation :: fork_operation
  kd_purpose :: fork_purpose

record compaction_plan_command =
  ke_idempotency_key :: string
  ke_expected_control_generation :: u64
  ke_expected_session_epoch :: u64
  ke_expected_history_epoch :: u64
  ke_requested_policy :: compaction_policy

record prepared_binding_command =
  kf_idempotency_key :: string
  kf_expected_control_generation :: u64
  kf_expected_session_epoch :: u64
  kf_expected_history_epoch :: u64
  kf_phase2_draft_ref :: string
  kf_phase3_selection_ref :: string

record fork_command =
  kg_idempotency_key :: string
  kg_expected_control_generation :: u64
  kg_approved_fork_plan_ref :: string

record compaction_command =
  kh_idempotency_key :: string
  kh_expected_control_generation :: u64
  kh_approved_compaction_plan_ref :: string
  kh_spend_authorization_ref :: string

record retire_command =
  ki_idempotency_key :: string
  ki_expected_control_generation :: u64
  ki_expected_session_epoch :: u64
  ki_reason :: retire_reason

record cleanup_command =
  kj_idempotency_key :: string
  kj_expected_control_generation :: u64
  kj_retirement_ref :: string
  kj_erase_authorization_ref :: string
  kj_expected_session_epoch :: u64

record session_route_codec = route_codec +
  cd_candidate_of :: "bytes \<Rightarrow> candidate_command option"
  cd_history_refresh_of :: "bytes \<Rightarrow> history_refresh_command option"
  cd_reconnect_of :: "bytes \<Rightarrow> reconnect_command option"
  cd_fork_plan_of :: "bytes \<Rightarrow> fork_plan_command option"
  cd_compaction_plan_of :: "bytes \<Rightarrow> compaction_plan_command option"
  cd_prepared_binding_of :: "bytes \<Rightarrow> prepared_binding_command option"
  cd_fork_of :: "bytes \<Rightarrow> fork_command option"
  cd_compaction_of :: "bytes \<Rightarrow> compaction_command option"
  cd_retire_of :: "bytes \<Rightarrow> retire_command option"
  cd_cleanup_of :: "bytes \<Rightarrow> cleanup_command option"

definition safe_generation :: "u64 \<Rightarrow> bool" where
  "safe_generation n \<longleftrightarrow> n \<le> MAX_SAFE_INTEGER"

text \<open>\<open>parse_typed_session_command\<close>: decode, check, encode, and check the public value.\<close>

definition typed_session_command ::
  "'a session_route_codec_scheme \<Rightarrow> (bytes \<Rightarrow> 'c option) \<Rightarrow> ('c \<Rightarrow> bool) \<Rightarrow> ('c \<Rightarrow> jvalue) \<Rightarrow> bytes
     \<Rightarrow> session_error + jvalue" where
  "typed_session_command cd from_slice valid to_value body =
     and_then (ensure (body \<noteq> []) SesBadRequest) (\<lambda>_.
     and_then (map_err (\<lambda>_. SesBadRequest) (parse_control_json (cd_string cd) from_slice body)) (\<lambda>command.
     and_then (ensure (valid command) SesBadRequest) (\<lambda>_.
     (let v = to_value command
      in and_then (map_err (\<lambda>_. SesBadRequest) (validate_public_value cd v)) (\<lambda>_. Inr v)))))"

definition candidate_payload :: "'a session_route_codec_scheme \<Rightarrow> bytes \<Rightarrow> session_error + jvalue" where
  "candidate_payload cd body =
     typed_session_command cd (cd_candidate_of cd)
       (\<lambda>c. owner_valid_id (ka_idempotency_key c)
          \<and> safe_generation (ka_expected_control_generation c)
          \<and> owner_valid_id (ka_approved_policy_ref c)
          \<and> owner_valid_id (ka_profile_ref c))
       (\<lambda>c. object_of
         [(''idempotency_key'', VString (ka_idempotency_key c)),
          (''expected_control_generation'', jnum (ka_expected_control_generation c)),
          (''approved_policy_ref'', VString (ka_approved_policy_ref c)),
          (''profile_ref'', VString (ka_profile_ref c)),
          (''purpose'', VString (candidate_purpose_as_str (ka_purpose c)))]) body"

definition history_refresh_payload :: "'a session_route_codec_scheme \<Rightarrow> bytes \<Rightarrow> session_error + jvalue" where
  "history_refresh_payload cd body =
     typed_session_command cd (cd_history_refresh_of cd)
       (\<lambda>c. owner_valid_id (kb_idempotency_key c)
          \<and> safe_generation (kb_expected_control_generation c)
          \<and> safe_generation (kb_expected_session_epoch c)
          \<and> safe_generation (kb_expected_history_epoch c))
       (\<lambda>c. object_of
         [(''idempotency_key'', VString (kb_idempotency_key c)),
          (''expected_control_generation'', jnum (kb_expected_control_generation c)),
          (''expected_session_epoch'', jnum (kb_expected_session_epoch c)),
          (''expected_history_epoch'', jnum (kb_expected_history_epoch c))]) body"

definition reconnect_payload :: "'a session_route_codec_scheme \<Rightarrow> bytes \<Rightarrow> session_error + jvalue" where
  "reconnect_payload cd body =
     typed_session_command cd (cd_reconnect_of cd)
       (\<lambda>c. owner_valid_id (kc_idempotency_key c)
          \<and> safe_generation (kc_expected_control_generation c)
          \<and> safe_generation (kc_expected_session_epoch c))
       (\<lambda>c. object_of
         [(''idempotency_key'', VString (kc_idempotency_key c)),
          (''expected_control_generation'', jnum (kc_expected_control_generation c)),
          (''expected_session_epoch'', jnum (kc_expected_session_epoch c))]) body"

definition fork_plan_payload :: "'a session_route_codec_scheme \<Rightarrow> bytes \<Rightarrow> session_error + jvalue" where
  "fork_plan_payload cd body =
     typed_session_command cd (cd_fork_plan_of cd)
       (\<lambda>c. owner_valid_id (kd_idempotency_key c)
          \<and> safe_generation (kd_expected_control_generation c)
          \<and> safe_generation (kd_expected_session_epoch c)
          \<and> safe_generation (kd_expected_history_epoch c)
          \<and> owner_valid_id (kd_cutoff_turn_ref c))
       (\<lambda>c. object_of
         [(''idempotency_key'', VString (kd_idempotency_key c)),
          (''expected_control_generation'', jnum (kd_expected_control_generation c)),
          (''expected_session_epoch'', jnum (kd_expected_session_epoch c)),
          (''expected_history_epoch'', jnum (kd_expected_history_epoch c)),
          (''cutoff_turn_ref'', VString (kd_cutoff_turn_ref c)),
          (''operation'', VString (fork_operation_as_str (kd_operation c))),
          (''purpose'', VString (fork_purpose_as_str (kd_purpose c)))]) body"

definition compaction_plan_payload :: "'a session_route_codec_scheme \<Rightarrow> bytes \<Rightarrow> session_error + jvalue" where
  "compaction_plan_payload cd body =
     typed_session_command cd (cd_compaction_plan_of cd)
       (\<lambda>c. owner_valid_id (ke_idempotency_key c)
          \<and> safe_generation (ke_expected_control_generation c)
          \<and> safe_generation (ke_expected_session_epoch c)
          \<and> safe_generation (ke_expected_history_epoch c))
       (\<lambda>c. object_of
         [(''idempotency_key'', VString (ke_idempotency_key c)),
          (''expected_control_generation'', jnum (ke_expected_control_generation c)),
          (''expected_session_epoch'', jnum (ke_expected_session_epoch c)),
          (''expected_history_epoch'', jnum (ke_expected_history_epoch c)),
          (''requested_policy'', VString (compaction_policy_as_str (ke_requested_policy c)))]) body"

definition prepared_binding_payload :: "'a session_route_codec_scheme \<Rightarrow> bytes \<Rightarrow> session_error + jvalue" where
  "prepared_binding_payload cd body =
     typed_session_command cd (cd_prepared_binding_of cd)
       (\<lambda>c. owner_valid_id (kf_idempotency_key c)
          \<and> safe_generation (kf_expected_control_generation c)
          \<and> safe_generation (kf_expected_session_epoch c)
          \<and> safe_generation (kf_expected_history_epoch c)
          \<and> owner_valid_id (kf_phase2_draft_ref c)
          \<and> owner_valid_id (kf_phase3_selection_ref c))
       (\<lambda>c. object_of
         [(''idempotency_key'', VString (kf_idempotency_key c)),
          (''expected_control_generation'', jnum (kf_expected_control_generation c)),
          (''expected_session_epoch'', jnum (kf_expected_session_epoch c)),
          (''expected_history_epoch'', jnum (kf_expected_history_epoch c)),
          (''phase2_draft_ref'', VString (kf_phase2_draft_ref c)),
          (''phase3_selection_ref'', VString (kf_phase3_selection_ref c))]) body"

definition fork_payload :: "'a session_route_codec_scheme \<Rightarrow> bytes \<Rightarrow> session_error + jvalue" where
  "fork_payload cd body =
     typed_session_command cd (cd_fork_of cd)
       (\<lambda>c. owner_valid_id (kg_idempotency_key c)
          \<and> safe_generation (kg_expected_control_generation c)
          \<and> owner_valid_id (kg_approved_fork_plan_ref c))
       (\<lambda>c. object_of
         [(''idempotency_key'', VString (kg_idempotency_key c)),
          (''expected_control_generation'', jnum (kg_expected_control_generation c)),
          (''approved_fork_plan_ref'', VString (kg_approved_fork_plan_ref c))]) body"

definition compaction_payload :: "'a session_route_codec_scheme \<Rightarrow> bytes \<Rightarrow> session_error + jvalue" where
  "compaction_payload cd body =
     typed_session_command cd (cd_compaction_of cd)
       (\<lambda>c. owner_valid_id (kh_idempotency_key c)
          \<and> safe_generation (kh_expected_control_generation c)
          \<and> owner_valid_id (kh_approved_compaction_plan_ref c)
          \<and> owner_valid_id (kh_spend_authorization_ref c))
       (\<lambda>c. object_of
         [(''idempotency_key'', VString (kh_idempotency_key c)),
          (''expected_control_generation'', jnum (kh_expected_control_generation c)),
          (''approved_compaction_plan_ref'', VString (kh_approved_compaction_plan_ref c)),
          (''spend_authorization_ref'', VString (kh_spend_authorization_ref c))]) body"

definition retire_payload :: "'a session_route_codec_scheme \<Rightarrow> bytes \<Rightarrow> session_error + jvalue" where
  "retire_payload cd body =
     typed_session_command cd (cd_retire_of cd)
       (\<lambda>c. owner_valid_id (ki_idempotency_key c)
          \<and> safe_generation (ki_expected_control_generation c)
          \<and> safe_generation (ki_expected_session_epoch c))
       (\<lambda>c. object_of
         [(''idempotency_key'', VString (ki_idempotency_key c)),
          (''expected_control_generation'', jnum (ki_expected_control_generation c)),
          (''expected_session_epoch'', jnum (ki_expected_session_epoch c)),
          (''reason'', VString (retire_reason_as_str (ki_reason c)))]) body"

definition cleanup_payload :: "'a session_route_codec_scheme \<Rightarrow> bytes \<Rightarrow> session_error + jvalue" where
  "cleanup_payload cd body =
     typed_session_command cd (cd_cleanup_of cd)
       (\<lambda>c. owner_valid_id (kj_idempotency_key c)
          \<and> safe_generation (kj_expected_control_generation c)
          \<and> owner_valid_id (kj_retirement_ref c)
          \<and> owner_valid_id (kj_erase_authorization_ref c)
          \<and> safe_generation (kj_expected_session_epoch c))
       (\<lambda>c. object_of
         [(''idempotency_key'', VString (kj_idempotency_key c)),
          (''expected_control_generation'', jnum (kj_expected_control_generation c)),
          (''retirement_ref'', VString (kj_retirement_ref c)),
          (''erase_authorization_ref'', VString (kj_erase_authorization_ref c)),
          (''expected_session_epoch'', jnum (kj_expected_session_epoch c))]) body"

definition owner_session_payload ::
  "'a session_route_codec_scheme \<Rightarrow> owner_operation \<Rightarrow> string \<Rightarrow> bytes \<Rightarrow> session_error + jvalue" where
  "owner_session_payload cd op method body =
     (if operation_read_only op then
        if method \<noteq> ''GET'' \<or> body \<noteq> []
        then Inl (if method = ''GET'' then SesBadRequest else SesMethodNotAllowed)
        else Inr (object_of [])
      else if method \<noteq> ''POST'' then Inl SesMethodNotAllowed
      else case op of
        SessionCandidate \<Rightarrow> candidate_payload cd body
      | SessionHistoryRefresh \<Rightarrow> history_refresh_payload cd body
      | SessionReconnect \<Rightarrow> reconnect_payload cd body
      | SessionForkPlan \<Rightarrow> fork_plan_payload cd body
      | SessionCompactionPlan \<Rightarrow> compaction_plan_payload cd body
      | SessionPreparedBinding \<Rightarrow> prepared_binding_payload cd body
      | SessionFork \<Rightarrow> fork_payload cd body
      | SessionCompaction \<Rightarrow> compaction_payload cd body
      | SessionRetire \<Rightarrow> retire_payload cd body
      | SessionCleanup \<Rightarrow> cleanup_payload cd body
      | _ \<Rightarrow> Inl SesUnsupported)"

subsection \<open>The references that the owner has published\<close>

definition expected_attached_scope :: "session_route \<Rightarrow> string \<Rightarrow> session_scope" where
  "expected_attached_scope rt run =
     (case rt_attached_scope rt of Some scope \<Rightarrow> scope | None \<Rightarrow> scope_for_run run)"

definition register_attached_binding ::
  "string \<Rightarrow> session_scope \<Rightarrow> session_route \<Rightarrow> (session_error + unit) \<times> session_route" where
  "register_attached_binding binding_id scope rt =
     (if \<not> owner_valid_id binding_id then (Inl SesBadRequest, rt)
      else if expected_attached_scope rt (sv_run_id scope) \<noteq> scope then (Inl SesNotFound, rt)
      else if \<not> bt_contains (rt_attached_bindings rt) binding_id
              \<and> bt_len (rt_attached_bindings rt) \<ge> MAX_BINDINGS then (Inl SesCapacity, rt)
      else (Inr (), rt\<lparr>rt_attached_bindings := bt_insert binding_id scope (rt_attached_bindings rt)\<rparr>))"

definition register_attached_operation ::
  "string \<Rightarrow> session_scope \<Rightarrow> session_route \<Rightarrow> (session_error + unit) \<times> session_route" where
  "register_attached_operation operation_id scope rt =
     (if \<not> owner_valid_id operation_id then (Inl SesBadRequest, rt)
      else if expected_attached_scope rt (sv_run_id scope) \<noteq> scope then (Inl SesNotFound, rt)
      else if \<not> bt_contains (rt_attached_operations rt) operation_id
              \<and> bt_len (rt_attached_operations rt) \<ge> MAX_SESSION_OPERATIONS then (Inl SesCapacity, rt)
      else (Inr (), rt\<lparr>rt_attached_operations :=
                       bt_insert operation_id scope (rt_attached_operations rt)\<rparr>))"

definition ensure_attached_capacity :: "session_route \<Rightarrow> owner_operation \<Rightarrow> session_error + unit" where
  "ensure_attached_capacity rt op =
     (let creates_binding = op \<in> {SessionCandidate, SessionPreparedBinding};
          creates_operation = op \<in> {SessionCandidate, SessionHistoryRefresh, SessionReconnect,
            SessionForkPlan, SessionCompactionPlan, SessionPreparedBinding, SessionFork,
            SessionCompaction, SessionRetire, SessionCleanup}
      in and_then (ensure (\<not> (creates_binding \<and> bt_len (rt_attached_bindings rt) \<ge> MAX_BINDINGS))
           SesCapacity) (\<lambda>_.
         ensure (\<not> (creates_operation \<and> bt_len (rt_attached_operations rt) \<ge> MAX_SESSION_OPERATIONS))
           SesCapacity))"

definition view_of_scope :: "owner_scope \<Rightarrow> session_scope" where
  "view_of_scope s =
     \<lparr>sv_project_id = os_project_id s, sv_run_id = os_run_id s, sv_episode_id = os_episode_id s,
      sv_agent_id = os_agent_id s\<rparr>"

definition scope_of_view :: "session_scope \<Rightarrow> owner_scope" where
  "scope_of_view s = make_scope (sv_project_id s) (sv_run_id s) (sv_episode_id s) (sv_agent_id s)"

definition valid_field_id :: "object_fields \<Rightarrow> string \<Rightarrow> string option" where
  "valid_field_id kvs name =
     (case field_str kvs name of
        Some s \<Rightarrow> if owner_valid_id s then Some s else None
      | None \<Rightarrow> None)"

text \<open>The loop that collects the operation ids of a reply that are not yet known.\<close>

fun new_operation_ids ::
  "(string, session_scope) btree \<Rightarrow> object_fields \<Rightarrow> string list \<Rightarrow> string list \<Rightarrow> string list" where
  "new_operation_ids known kvs acc [] = acc"
| "new_operation_ids known kvs acc (name # names) =
     new_operation_ids known kvs
       (case valid_field_id kvs name of
          Some s \<Rightarrow> if \<not> bt_contains known s \<and> s \<notin> set acc then acc @ [s] else acc
        | None \<Rightarrow> acc) names"

definition insert_references ::
  "session_scope \<Rightarrow> string list \<Rightarrow> (string, session_scope) btree \<Rightarrow> (string, session_scope) btree" where
  "insert_references scope ids known = foldl (\<lambda>m i. bt_insert i scope m) known ids"

definition record_attached_references ::
  "owner_scope \<Rightarrow> jvalue option \<Rightarrow> session_route \<Rightarrow> (session_error + unit) \<times> session_route" where
  "record_attached_references scope value rt =
     (case value of
        Some (VObject kvs) \<Rightarrow>
          (let binding_id = valid_field_id kvs ''binding_id'';
               known = rt_attached_operations rt;
               fresh = new_operation_ids known kvs [] [''operation_id'', ''plan_id''];
               view = view_of_scope scope
           in if (case binding_id of
                    Some b \<Rightarrow> \<not> bt_contains (rt_attached_bindings rt) b
                      \<and> bt_len (rt_attached_bindings rt) \<ge> MAX_BINDINGS
                  | None \<Rightarrow> False)
              then (Inl SesCapacity, rt)
              else if bt_len known + length fresh > MAX_SESSION_OPERATIONS then (Inl SesCapacity, rt)
              else (Inr (), rt\<lparr>rt_attached_bindings :=
                      (case binding_id of
                         Some b \<Rightarrow> bt_insert b view (rt_attached_bindings rt)
                       | None \<Rightarrow> rt_attached_bindings rt),
                    rt_attached_operations := insert_references view fresh known\<rparr>))
      | _ \<Rightarrow> (Inr (), rt))"

subsection \<open>Resolution of a path\<close>

definition resolve_binding_route ::
  "string \<Rightarrow> string \<Rightarrow> string list \<Rightarrow> session_error + owner_operation \<times> string option \<times> bool" where
  "resolve_binding_route method binding_id segments =
     (let n = length segments; reference = Some binding_id
      in if n = 5 then
           (if method \<noteq> ''GET'' then Inl SesMethodNotAllowed else Inr (SessionBinding, reference, False))
         else if n \<noteq> 6 then Inl SesNotFound
         else if segments ! 5 = ''history'' then
           (if method = ''GET'' then Inr (SessionHistory, reference, False)
            else if method = ''POST'' then Inr (SessionHistoryRefresh, reference, True)
            else Inl SesMethodNotAllowed)
         else if segments ! 5 = ''fork-plans'' then Inr (SessionForkPlan, reference, True)
         else if segments ! 5 = ''compaction-plans'' then Inr (SessionCompactionPlan, reference, True)
         else if segments ! 5 = ''prepared-bindings'' then Inr (SessionPreparedBinding, reference, True)
         else if segments ! 5 = ''reconnect'' then Inr (SessionReconnect, reference, True)
         else if segments ! 5 = ''history-refresh'' then Inr (SessionHistoryRefresh, reference, True)
         else if segments ! 5 = ''fork-jobs'' then Inr (SessionFork, reference, True)
         else if segments ! 5 = ''compaction-jobs'' then Inr (SessionCompaction, reference, True)
         else if segments ! 5 = ''retire'' then Inr (SessionRetire, reference, True)
         else if segments ! 5 = ''cleanup'' then Inr (SessionCleanup, reference, True)
         else Inl SesNotFound)"

definition resolve_attached ::
  "session_route \<Rightarrow> string \<Rightarrow> string \<Rightarrow> string list
     \<Rightarrow> session_error + owner_operation \<times> string option \<times> bool" where
  "resolve_attached rt method run segments =
     (let n = length segments; family = segments ! 3;
          sub = (\<lambda>name. n = 5 \<and> family = ''provider-sessions'' \<and> segments ! 4 = name)
      in if sub ''capabilities'' then Inr (SessionCapabilities, None, False)
         else if sub ''status'' then Inr (SessionStatus, None, False)
         else if n = 4 \<and> family = ''provider-sessions'' then Inr (SessionList, None, False)
         else if sub ''candidates'' then Inr (SessionCandidate, None, True)
         else if n = 4 \<and> family = ''provider-session-events'' \<or> sub ''events''
         then Inr (SessionEvents, None, False)
         else if n = 5 \<and> family = ''provider-session-operations'' then
           (let operation_id = segments ! 4
            in if \<not> owner_valid_id operation_id
                  \<or> (case bt_get (rt_attached_operations rt) operation_id of
                       None \<Rightarrow> True | Some scope \<Rightarrow> sv_run_id scope \<noteq> run)
               then Inl SesNotFound
               else Inr (SessionOperation, Some operation_id, False))
         else if family = ''provider-sessions'' \<and> n \<ge> 5 then
           (case bt_get (rt_attached_bindings rt) (segments ! 4) of
              None \<Rightarrow> Inl SesNotFound
            | Some scope \<Rightarrow>
                if sv_run_id scope \<noteq> run \<or> \<not> owner_valid_id (segments ! 4) then Inl SesNotFound
                else resolve_binding_route method (segments ! 4) segments)
         else Inl SesNotFound)"

subsection \<open>Delegation\<close>

definition owner_session_result :: "owner_operation \<Rightarrow> u64 \<Rightarrow> owner_reply \<Rightarrow> jvalue" where
  "owner_session_result op revocation_epoch p =
     (let r = rp_receipt p
      in object_of
        [(''schema'', VString SESSION_API_SCHEMA),
         (''operation'', VString (operation_as_str op)),
         (''source'', VString (re_source r)),
         (''owner_epoch'', jnum (re_owner_epoch r)),
         (''revocation_epoch'', jnum revocation_epoch),
         (''evidence'', VString (re_evidence r)),
         (''outcome'', VString (outcome_as_str (re_outcome r))),
         (''effect_class'', VString (if operation_read_only op then ''local_read_no_inference''
           else ''owner_delegated'')),
         (''receipt'', receipt_value r),
         (''owner_receipt'', receipt_value r),
         (''value'', case rp_value p of Some v \<Rightarrow> v | None \<Rightarrow> VNull)])"

text \<open>The part of \<open>delegate_attached\<close> before the reference table changes: the reply and the epoch.\<close>

definition delegate_reply ::
  "string \<Rightarrow> 'a session_route_codec_scheme \<Rightarrow> owner_env \<Rightarrow> session_route \<Rightarrow> owner_operation
     \<Rightarrow> owner_scope \<Rightarrow> string option \<Rightarrow> jvalue \<Rightarrow> request_context \<Rightarrow> bool
     \<Rightarrow> (session_error, owner_reply \<times> u64) handler" where
  "delegate_reply producer cd env rt op scope reference payload ctx write =
     log_then (pure_result (ok_or (rt_owner rt) SesUnavailable)) (\<lambda>composition.
     log_then (authorize_now env ctx (operation_grant_class op) scope write SesForbidden) (\<lambda>grant.
     log_then (pure_result (ensure_attached_capacity rt op)) (\<lambda>_.
     log_then (pure_result (map_err (\<lambda>_. SesBadRequest)
       (make_call cd op scope reference payload grant))) (\<lambda>call.
     log_then (deliver cd env SesUnavailable SesMalformedPeer SesUnavailable call) (\<lambda>p.
     log_then (pure_result (map_err (\<lambda>_. SesMalformedPeer) (validate_for cd op p))) (\<lambda>_.
     log_then (pure_result (map_err SesEffectiveLimit
       (trust_present producer cd (co_trust composition) op scope (rt_capability_version rt) p))) (\<lambda>p'.
     pure_result (Inr (p', gt_revocation_epoch grant)))))))))"

definition delegate_attached ::
  "string \<Rightarrow> 'a session_route_codec_scheme \<Rightarrow> owner_env \<Rightarrow> owner_operation \<Rightarrow> owner_scope
     \<Rightarrow> string option \<Rightarrow> jvalue \<Rightarrow> request_context \<Rightarrow> bool \<Rightarrow> session_route \<Rightarrow> owner_log
     \<Rightarrow> (session_error + jvalue) \<times> session_route \<times> owner_log" where
  "delegate_attached producer cd env op scope reference payload ctx write rt log =
     (case delegate_reply producer cd env rt op scope reference payload ctx write log of
        (Inl e, log') \<Rightarrow> (Inl e, rt, log')
      | (Inr (p, epoch), log') \<Rightarrow>
          (case record_attached_references scope (rp_value p) rt of
             (Inl e, rt') \<Rightarrow> (Inl e, rt', log')
           | (Inr _, rt') \<Rightarrow> (Inr (owner_session_result op epoch p), rt', log')))"

definition session_handle_attached ::
  "string \<Rightarrow> 'a session_route_codec_scheme \<Rightarrow> owner_env \<Rightarrow> string \<Rightarrow> string \<Rightarrow> request_context \<Rightarrow> bytes
     \<Rightarrow> session_route \<Rightarrow> owner_log \<Rightarrow> (session_error + jvalue) \<times> session_route \<times> owner_log" where
  "session_handle_attached producer cd env method path ctx body rt log =
     (let resolved =
        and_then (ensure (\<not> session_path_refused path body) SesBadRequest) (\<lambda>_.
        and_then (ensure (\<not> (method = ''GET'' \<and> body \<noteq> [])) SesBadRequest) (\<lambda>_.
        and_then (session_segments path) (\<lambda>segments.
        let run = segments ! 2; view = expected_attached_scope rt run in
        and_then (ensure (\<not> (rt_attached_scope rt \<noteq> None \<and> sv_run_id view \<noteq> run)) SesNotFound) (\<lambda>_.
        and_then (resolve_attached rt method run segments) (\<lambda>(op, reference, write).
        and_then (owner_session_payload cd op method body) (\<lambda>payload.
        Inr (op, scope_of_view view, reference, payload, write)))))))
      in case resolved of
           Inl e \<Rightarrow> (Inl e, rt, log)
         | Inr (op, scope, reference, payload, write) \<Rightarrow>
             delegate_attached producer cd env op scope reference payload ctx write rt log)"

definition session_handle ::
  "'a route_codec_scheme \<Rightarrow> u64 \<Rightarrow> string \<Rightarrow> string \<Rightarrow> string \<Rightarrow> bytes \<Rightarrow> session_route
     \<Rightarrow> (session_error + jvalue) \<times> session_route" where
  "session_handle cd now method path user body rt =
     (if rt_owner rt \<noteq> None then (Inl SesUnauthorized, rt)
      else session_handle_local cd now method path user body rt)"

definition session_handle_with_context ::
  "string \<Rightarrow> 'a session_route_codec_scheme \<Rightarrow> owner_env \<Rightarrow> u64 \<Rightarrow> string \<Rightarrow> string \<Rightarrow> request_context
     \<Rightarrow> bytes \<Rightarrow> session_route \<Rightarrow> owner_log \<Rightarrow> (session_error + jvalue) \<times> session_route \<times> owner_log" where
  "session_handle_with_context producer cd env now method path ctx body rt log =
     (if rt_owner rt \<noteq> None then session_handle_attached producer cd env method path ctx body rt log
      else (case session_handle_local cd now method path (rq_principal ctx) body rt of
              (r, rt') \<Rightarrow> (r, rt', log)))"

end
