(* ===== verification/Limit_Facts.thy ===== *)
theory Limit_Facts
  imports Session_Route
begin

text \<open>
  What the validation of a descriptor says of its limits: each selected limit is positive and at
  most the ceiling that the pinned schema fixes for it, which is what the local descriptor selects.
\<close>

lemma record_validate_rows:
  assumes "record_validate r = Inr u" "row \<in> set (er_rows r)"
  shows "row_validate row = Inr ()"
  using assms by (auto simp: record_validate_def validate_rows_Inr_iff result_simps)

lemma row_validate_bounds:
  assumes "row_validate row = Inr u"
  shows "0 < lr_executable_ceiling row \<and> lr_executable_ceiling row \<le> lr_capabilities_schema_ceiling row"
  using row_validate_InrD(1,2) [OF assms] by blast

lemma admit_authorized_Inr_iff [result_simps]:
  "admit_authorized r trusted name n = Inr u \<longleftrightarrow>
     r = trusted \<and> record_validate trusted = Inr () \<and> er_enabled trusted
     \<and> (\<exists>row\<in>set (er_rows trusted). lr_field row = name \<and> n \<le> lr_executable_ceiling row)"
proof -
  have "(\<exists>row. find_row trusted name = Some row \<and> n \<le> lr_executable_ceiling row) \<longleftrightarrow>
      (\<exists>row\<in>set (er_rows trusted). lr_field row = name \<and> n \<le> lr_executable_ceiling row)"
    if "record_validate trusted = Inr ()"
  proof
    assume "\<exists>row. find_row trusted name = Some row \<and> n \<le> lr_executable_ceiling row"
    then show "\<exists>row\<in>set (er_rows trusted). lr_field row = name \<and> n \<le> lr_executable_ceiling row"
      by (auto simp: find_row_def find_Some_iff)
  next
    assume "\<exists>row\<in>set (er_rows trusted). lr_field row = name \<and> n \<le> lr_executable_ceiling row"
    then show "\<exists>row. find_row trusted name = Some row \<and> n \<le> lr_executable_ceiling row"
      using find_row_unique [OF that] by blast
  qed
  then show ?thesis
    by (auto simp: admit_authorized_def result_simps)
qed

text \<open>The ceilings of the schemas, as the local descriptors select them.\<close>

definition within_ceilings :: "limit_row list \<Rightarrow> limit_row list \<Rightarrow> bool" where
  "within_ceilings rows pins \<longleftrightarrow>
     list_all2 (\<lambda>row pin. lr_field row = lr_field pin \<and> 0 < lr_executable_ceiling row
       \<and> lr_executable_ceiling row \<le> lr_executable_ceiling pin) rows pins"

lemmas limit_row_defs = policy_row_def profile_selected_def runtime_guard_def limit_row_new_def

lemma within_ceilingsI:
  assumes "list_all2 (\<lambda>row pin. lr_field row = lr_field pin
      \<and> lr_capabilities_schema_ceiling row = lr_executable_ceiling pin) rows pins"
    and "\<And>row. row \<in> set rows \<Longrightarrow> 0 < lr_executable_ceiling row
      \<and> lr_executable_ceiling row \<le> lr_capabilities_schema_ceiling row"
  shows "within_ceilings rows pins"
  using assms(1) assms(2) [OF nth_mem] unfolding within_ceilings_def list_all2_conv_all_nth by metis

lemma memory_limits_within:
  assumes "memory_validate_descriptor cd c = Inr u"
  shows "within_ceilings (memory_limit_rows (mc_effective_limits c)) (memory_limit_rows fixture_effective_limits)"
proof (rule within_ceilingsI)
  show "list_all2 (\<lambda>row pin. lr_field row = lr_field pin
      \<and> lr_capabilities_schema_ceiling row = lr_executable_ceiling pin)
      (memory_limit_rows (mc_effective_limits c)) (memory_limit_rows fixture_effective_limits)"
    by (simp add: memory_limit_rows_def limit_row_defs fixture_effective_limits_def)
  have "record_validate (memory_limit_record c) = Inr ()"
    using assms by (auto simp: memory_validate_descriptor_def result_simps)
  then show "0 < lr_executable_ceiling row \<and> lr_executable_ceiling row \<le> lr_capabilities_schema_ceiling row"
    if "row \<in> set (memory_limit_rows (mc_effective_limits c))" for row
    using row_validate_bounds [OF record_validate_rows] that by (simp add: memory_limit_record_def)
qed

lemma session_limits_within:
  assumes "session_validate_descriptor cd c = Inr u"
  shows "within_ceilings (session_limit_rows (sc_effective_limits c)) (session_limit_rows fixture_session_limits)"
proof (rule within_ceilingsI)
  show "list_all2 (\<lambda>row pin. lr_field row = lr_field pin
      \<and> lr_capabilities_schema_ceiling row = lr_executable_ceiling pin)
      (session_limit_rows (sc_effective_limits c)) (session_limit_rows fixture_session_limits)"
    by (simp add: session_limit_rows_def limit_row_defs fixture_session_limits_def)
  have "record_validate (session_limit_record c) = Inr ()"
    using assms by (auto simp: session_validate_descriptor_def result_simps)
  then show "0 < lr_executable_ceiling row \<and> lr_executable_ceiling row \<le> lr_capabilities_schema_ceiling row"
    if "row \<in> set (session_limit_rows (sc_effective_limits c))" for row
    using row_validate_bounds [OF record_validate_rows] that by (simp add: session_limit_record_def)
qed

lemma memory_admit_Inr_iff:
  "memory_admit_authorized_record c r name n = Inr () \<longleftrightarrow>
     r = memory_limit_record c \<and> record_validate (memory_limit_record c) = Inr () \<and> mc_enabled c
     \<and> (\<exists>row\<in>set (memory_limit_rows (mc_effective_limits c)).
          lr_field row = name \<and> n \<le> lr_executable_ceiling row)"
  by (auto simp: memory_admit_authorized_record_def result_simps) (auto simp: memory_limit_record_def)

lemma session_admit_Inr_iff:
  "session_admit_authorized_record c r name n = Inr () \<longleftrightarrow>
     r = session_limit_record c \<and> record_validate (session_limit_record c) = Inr ()
     \<and> sc_enabled_methods c \<noteq> []
     \<and> (\<exists>row\<in>set (session_limit_rows (sc_effective_limits c)).
          lr_field row = name \<and> n \<le> lr_executable_ceiling row)"
  by (auto simp: session_admit_authorized_record_def result_simps) (auto simp: session_limit_record_def)

text \<open>The three limits of a query, by the names of their rows.\<close>

lemma find_memory_rows:
  "find_row (memory_limit_record c) ''max_results'' =
     Some (policy_row ''max_results'' 16 16 (ml_max_results (mc_effective_limits c))
       ''MemoryPolicy::validate_schema+validate_against_capabilities'')"
  "find_row (memory_limit_record c) ''max_candidates'' =
     Some (policy_row ''max_candidates'' 64 64 (ml_max_candidates (mc_effective_limits c))
       ''MemoryPolicy::validate_schema+validate_against_capabilities'')"
  "find_row (memory_limit_record c) ''max_query_bytes'' =
     Some (runtime_guard ''max_query_bytes'' 4096 (ml_max_query_bytes (mc_effective_limits c))
       ''MemoryQuery validation'')"
  by (simp_all add: find_row_def memory_limit_record_def memory_limit_rows_def limit_row_defs)

end
