(* ===== verification/Delegation_Facts.thy ===== *)
theory Delegation_Facts
  imports Limit_Facts
begin

text \<open>
  What the attached routes send: the shape of every run of a handler, as the log shows it.
\<close>

subsection \<open>Forwarding\<close>

text \<open>
  \<open>forwarded\<close>: one exchange of the operation, under the grant that the book holds for the bearer
  at the moment of the call. \<open>silent\<close>: nothing was sent and the request was refused.
\<close>

definition forwarded ::
  "owner_env \<Rightarrow> request_context \<Rightarrow> owner_operation \<Rightarrow> owner_scope \<Rightarrow> owner_call \<Rightarrow> owner_log \<Rightarrow> owner_log
     \<Rightarrow> bool" where
  "forwarded env ctx op scope call log log' \<longleftrightarrow>
     cl_operation call = op \<and> cl_scope call = scope \<and> exchanged env call log log'
     \<and> (\<exists>b g. en_book env log = Some b
          \<and> grants_access b ctx (operation_grant_class op) scope (\<not> operation_read_only op) g
          \<and> cl_grant call = \<lparr>gt_grant_id = og_id g, gt_class = operation_grant_class op,
                gt_revocation_epoch = gb_revocation_epoch b\<rparr>)"

lemma make_call_Inr_iff:
  "make_call cd op scope reference payload grant = Inr call \<longleftrightarrow>
     scope_is_valid scope \<and> validate_public_value cd payload = Inr ()
     \<and> call = \<lparr>cl_operation = op, cl_scope = scope, cl_reference = reference, cl_payload = payload,
          cl_request_sha256 = canonical_digest cd payload, cl_grant = grant\<rparr>"
  by (auto simp: make_call_def result_simps)

lemma forwardedI:
  assumes "composition_authorize env ctx (operation_grant_class op) scope (\<not> operation_read_only op) log = Inr grant"
    and "make_call cd op scope reference payload grant = Inr call"
    and "deliver cd env unavailable malformed lost call log = (r, log')"
  shows "\<exists>call. forwarded env ctx op scope call log log' \<and> cl_reference call = reference
    \<and> cl_payload call = payload"
  using assms(1,2) deliver_exchanged [OF assms(3)]
  by (intro exI [of _ call]) (auto simp: forwarded_def make_call_Inr_iff composition_authorize_Inr_iff)

text \<open>A chain of handlers ends where its first error is, or in its last handler.\<close>

lemma log_then_cases:
  assumes "log_then m f log = (r, log'')"
  obtains (stop) e where "m log = (Inl e, log'')" "r = Inl e"
    | (onward) x log' where "m log = (Inr x, log')" "f x log' = (r, log'')"
  using assms by (auto simp: log_then_def split: prod.splits sum.splits)

lemma pure_then_iff:
  "log_then (pure_result m) f log = (r, log'') \<longleftrightarrow>
     (\<exists>e. m = Inl e \<and> r = Inl e \<and> log'' = log) \<or> (\<exists>x. m = Inr x \<and> f x log = (r, log''))"
  by (cases m) (auto simp: log_then_def pure_result_def)

lemma authorize_then_iff:
  "log_then (authorize_now env ctx cl scope write denied) f log = (r, log'') \<longleftrightarrow>
     (\<exists>e. composition_authorize env ctx cl scope write log = Inl e \<and> r = Inl denied \<and> log'' = log)
     \<or> (\<exists>g. composition_authorize env ctx cl scope write log = Inr g \<and> f g log = (r, log''))"
  by (cases "composition_authorize env ctx cl scope write log") (auto simp: log_then_def authorize_now_def)

lemmas chain_simps = pure_then_iff authorize_then_iff pure_result_iff

subsection \<open>The session route\<close>

lemma resolve_attached_write:
  "resolve_attached rt method run segments = Inr (op, reference, write) \<Longrightarrow> write = (\<not> operation_read_only op)"
  by (auto simp: resolve_attached_def resolve_binding_route_def operation_read_only_def Let_def
      split: if_splits option.splits)

lemma delegate_reply_cases:
  assumes "delegate_reply producer cd env rt op scope reference payload ctx (\<not> operation_read_only op) log
    = (r, log')"
  shows "(log' = log \<and> (\<exists>e. r = Inl e)) \<or> (\<exists>call. forwarded env ctx op scope call log log'
    \<and> cl_reference call = reference \<and> cl_payload call = payload)"
proof -
  define tail where "tail grant composition p =
     log_then (pure_result (map_err (\<lambda>_. SesMalformedPeer) (validate_for cd op p))) (\<lambda>_.
     log_then (pure_result (map_err SesEffectiveLimit
       (trust_present producer cd (co_trust composition) op scope (rt_capability_version rt) p))) (\<lambda>p'.
     pure_result (Inr (p', gt_revocation_epoch grant))))" for grant composition p
  have tail: "tail grant composition p l = (x, l') \<Longrightarrow> l' = l" for grant composition p l x l'
    by (auto simp: tail_def chain_simps)
  show ?thesis
    using assms unfolding delegate_reply_def tail_def [symmetric] chain_simps
    by (auto simp: result_simps elim!: log_then_cases dest!: tail dest: forwardedI)
qed

text \<open>A resolved reference is one that the owner has published for this run.\<close>

lemma resolve_attached_reference:
  assumes "resolve_attached rt method run segments = Inr (op, Some i, write)"
  shows "owner_valid_id i \<and> (\<exists>scope. sv_run_id scope = run
    \<and> (bt_get (rt_attached_bindings rt) i = Some scope \<or> bt_get (rt_attached_operations rt) i = Some scope))"
  using assms
  by (auto simp: resolve_attached_def resolve_binding_route_def Let_def split: if_splits option.splits)

lemma delegate_attached_cases:
  assumes "delegate_attached producer cd env op scope reference payload ctx (\<not> operation_read_only op) rt log
    = (r, rt', log')"
  shows "(log' = log \<and> rt' = rt \<and> (\<exists>e. r = Inl e)) \<or> (\<exists>call. forwarded env ctx op scope call log log'
    \<and> cl_reference call = reference \<and> cl_payload call = payload)"
proof -
  obtain x log1 where d: "delegate_reply producer cd env rt op scope reference payload ctx
      (\<not> operation_read_only op) log = (x, log1)"
    by fastforce
  with assms have "log1 = log'" "\<exists>e. x = Inl e \<Longrightarrow> rt' = rt \<and> (\<exists>e. r = Inl e)"
    by (auto simp: delegate_attached_def split: sum.splits prod.splits)
  with delegate_reply_cases [OF d] show ?thesis by blast
qed

definition session_request_scope :: "session_route \<Rightarrow> string \<Rightarrow> owner_scope" where
  "session_request_scope rt run = scope_of_view (expected_attached_scope rt run)"

lemma session_attached_cases:
  assumes "session_handle_attached producer cd env method path ctx body rt log = (r, rt', log')"
  shows "(log' = log \<and> rt' = rt \<and> (\<exists>e. r = Inl e))
    \<or> (\<exists>run op call. forwarded env ctx op (session_request_scope rt run) call log log'
        \<and> owner_session_payload cd op method body = Inr (cl_payload call)
        \<and> (\<forall>i. cl_reference call = Some i \<longrightarrow> owner_valid_id i \<and> (\<exists>scope. sv_run_id scope = run
            \<and> (bt_get (rt_attached_bindings rt) i = Some scope
               \<or> bt_get (rt_attached_operations rt) i = Some scope))))"
proof -
  consider "log' = log" "rt' = rt" "\<exists>e. r = Inl e"
    | segments op reference payload wr where
      "resolve_attached rt method (segments ! 2) segments = Inr (op, reference, wr)"
      "owner_session_payload cd op method body = Inr payload"
      "delegate_attached producer cd env op (session_request_scope rt (segments ! 2)) reference payload ctx
         wr rt log = (r, rt', log')"
    using assms unfolding session_handle_attached_def session_request_scope_def Let_def
    by (auto simp: result_simps split: sum.splits)
  then show ?thesis
  proof cases
    case (2 segments op reference payload wr)
    note w = resolve_attached_write [OF 2(1)]
    from delegate_attached_cases [OF 2(3) [unfolded w]]
    consider "log' = log" "rt' = rt" "\<exists>e. r = Inl e"
      | call where "forwarded env ctx op (session_request_scope rt (segments ! 2)) call log log'"
        "cl_reference call = reference" "cl_payload call = payload"
      by blast
    then show ?thesis
    proof cases
      case (2 call)
      then show ?thesis
        using resolve_attached_reference [of rt "method" "segments ! 2" segments op _ wr]
          \<open>resolve_attached rt method (segments ! 2) segments = Inr (op, reference, wr)\<close>
          \<open>owner_session_payload cd op method body = Inr payload\<close>
        by (intro disjI2 exI [of _ "segments ! 2"] exI [of _ op] exI [of _ call]) auto
    qed blast
  qed blast
qed

subsection \<open>The memory route\<close>

text \<open>
  The capability proof of a query: the newest answer is a publication of the trusted owner, in its
  scope and epoch, of exactly the limits that the trusted descriptor derives, the surface is
  enabled, and the query is within them.
\<close>

definition limits_proven :: "owner_env \<Rightarrow> capability_trust \<Rightarrow> owner_scope \<Rightarrow> memory_query \<Rightarrow> owner_log \<Rightarrow> bool"
  where
  "limits_proven env t scope q log \<longleftrightarrow>
     (\<exists>p m. en_reply env log = Inr p \<and> ot_memory t = Some m
        \<and> re_outcome (rp_receipt p) = OwnerAccepted
        \<and> scope = ob_scope (tm_owner m) \<and> re_source (rp_receipt p) = ob_source (tm_owner m)
        \<and> re_owner_epoch (rp_receipt p) = ob_epoch (tm_owner m)
        \<and> rp_effective_limits p = Some (memory_limit_record (tm_descriptor m))
        \<and> mc_enabled (tm_descriptor m)
        \<and> mq_limit q \<le> ml_max_results (mc_effective_limits (tm_descriptor m))
        \<and> mq_max_candidates q \<le> ml_max_candidates (mc_effective_limits (tm_descriptor m))
        \<and> of_nat (length (mq_query q)) \<le> ml_max_query_bytes (mc_effective_limits (tm_descriptor m)))"

lemma admitted_query:
  assumes "trust_present producer cd t MemoryCapabilities scope CapabilityV3 p = Inr p'"
    and "validate_for cd MemoryCapabilities p = Inr u"
    and "admit_memory_query producer t scope p' q = Inr v"
    and "en_reply env log = Inr p"
  shows "limits_proven env t scope q log"
proof -
  obtain m where m: "ot_memory t = Some m"
    "rp_effective_limits p' = Some (memory_limit_record (tm_descriptor m))"
    and a: "admit_value (memory_limit_record (tm_descriptor m)) ''max_results'' (mq_limit q) = Inr ()"
      "admit_value (memory_limit_record (tm_descriptor m)) ''max_candidates'' (mq_max_candidates q) = Inr ()"
      "admit_value (memory_limit_record (tm_descriptor m)) ''max_query_bytes'' (of_nat (length (mq_query q))) = Inr ()"
    by (rule admit_memory_query_InrD [OF assms(3)])
  have accepted: "re_outcome (rp_receipt p) = OwnerAccepted"
  proof (rule ccontr)
    assume "re_outcome (rp_receipt p) \<noteq> OwnerAccepted"
    with assms(1) validate_for_InrD(3) [OF assms(2)] have "rp_effective_limits p' = None"
      by (simp add: trust_present_def)
    with m show False by simp
  qed
  then have "memory_present producer cd m scope p = Inr p'"
    using assms(1) m(1) by (simp add: trust_present_def)
  note shown = memory_present_InrD [OF this]
  show ?thesis
    unfolding limits_proven_def
    using m(1) accepted shown(1,3-5) a assms(4)
    by (intro exI [of _ p] exI [of _ m])
      (simp add: admit_value_Inr_iff find_memory_rows limit_row_defs, simp add: memory_limit_record_def)
qed

lemma query_proof_cases:
  assumes "query_proof producer cd env t scope grant q log = (r, log')"
  shows "(log' = log \<and> (\<exists>e. r = Inl e))
    \<or> (\<exists>probe. make_call cd MemoryCapabilities scope None (object_of []) grant = Inr probe
        \<and> log' = OwnerCalled probe # log \<and> (r = Inr () \<longrightarrow> limits_proven env t scope q log'))"
  using assms unfolding query_proof_def chain_simps
  by (auto simp: result_simps send_request_def chain_simps elim!: log_then_cases
      dest: admitted_query)

lemma memory_payload_cases:
  assumes "memory_payload producer cd env m t scope grant op body log = (r, log')"
  obtains (quiet) "log' = log" "r = Inr payload \<Longrightarrow> op = MemoryQuery \<Longrightarrow> mr_capability_version m \<noteq> CapabilityV3"
  | (probed) q probe where "op = MemoryQuery" "mr_capability_version m = CapabilityV3"
      "make_call cd MemoryCapabilities scope None (object_of []) grant = Inr probe"
      "log' = OwnerCalled probe # log"
      "r = Inr payload \<Longrightarrow> payload = query_value q \<and> limits_proven env t scope q log'"
proof -
  show thesis
  proof (cases "op = MemoryQuery \<and> mr_capability_version m = CapabilityV3")
    case False
    have "log' = log"
      using assms False
      by (auto simp: memory_payload_def chain_simps result_simps split: if_splits)
    then show thesis using False by (intro quiet) auto
  next
    case True
    then have "(log' = log \<and> (\<exists>e. r = Inl e)) \<or> (\<exists>q x. query_proof producer cd env t scope grant q log = (x, log')
        \<and> (r = Inr payload \<longrightarrow> x = Inr () \<and> payload = query_value q) \<and> (\<forall>e. x = Inl e \<longrightarrow> r = Inl e))"
      using assms
      by (auto simp: memory_payload_def pure_then_iff pure_result_iff split: if_splits elim!: log_then_cases)
        (metis Inl_Inr_False)+
    then show thesis
    proof
      assume "log' = log \<and> (\<exists>e. r = Inl e)"
      then show thesis by (intro quiet) auto
    next
      assume "\<exists>q x. query_proof producer cd env t scope grant q log = (x, log')
        \<and> (r = Inr payload \<longrightarrow> x = Inr () \<and> payload = query_value q) \<and> (\<forall>e. x = Inl e \<longrightarrow> r = Inl e)"
      then obtain q x where q: "query_proof producer cd env t scope grant q log = (x, log')"
        "r = Inr payload \<Longrightarrow> x = Inr () \<and> payload = query_value q" "\<And>e. x = Inl e \<Longrightarrow> r = Inl e"
        by blast
      from query_proof_cases [OF q(1)] show thesis
      proof (elim disjE conjE exE)
        fix e assume "log' = log" "x = Inl e"
        then show thesis using q by (intro quiet) auto
      next
        fix probe assume "make_call cd MemoryCapabilities scope None (object_of []) grant = Inr probe"
          "log' = OwnerCalled probe # log" "x = Inr () \<longrightarrow> limits_proven env t scope q log'"
        then show thesis using True q by (intro probed [of probe q]) auto
      qed
    qed
  qed
qed

lemma memory_exchange_cases:
  assumes "memory_exchange producer cd env m t op scope grant payload log = (r, log')"
    and "composition_authorize env ctx (operation_grant_class op) scope (\<not> operation_read_only op) log = Inr grant"
  shows "(log' = log \<and> (\<exists>e. r = Inl e)) \<or> (\<exists>call. forwarded env ctx op scope call log log'
    \<and> cl_reference call = None \<and> cl_payload call = payload)"
proof -
  define tail where "tail p =
     log_then (pure_result (map_err (\<lambda>_. MemUnsupported) (validate_for cd op p))) (\<lambda>_.
     log_then (pure_result (map_err MemEffectiveLimit
       (trust_present producer cd t op scope (mr_capability_version m) p))) (\<lambda>p'.
     pure_result (Inr (owner_result_value op (gt_revocation_epoch grant) p'))))" for p
  have tail: "tail p l = (x, l') \<Longrightarrow> l' = l" for p l x l'
    by (auto simp: tail_def chain_simps)
  show ?thesis
    using assms unfolding memory_exchange_def tail_def [symmetric] chain_simps
    by (auto simp: result_simps elim!: log_then_cases dest!: tail dest: forwardedI)
qed

definition proving_query :: "memory_route \<Rightarrow> owner_operation \<Rightarrow> bool" where
  "proving_query m op \<longleftrightarrow> op = MemoryQuery \<and> mr_capability_version m = CapabilityV3"

lemma memory_attached_start:
  assumes "memory_handle_attached producer cd env m method path ctx body log = (r, log')"
  obtains (refused) "log' = log" "\<exists>e. r = Inl e"
  | (started) op composition grant0 where "mr_owner m = Some composition"
      "composition_authorize env ctx (operation_grant_class op) (scope_of_memory (mr_scope m))
         (\<not> operation_read_only op) log = Inr grant0"
      "log_then (memory_payload producer cd env m (co_trust composition) (scope_of_memory (mr_scope m)) grant0 op body)
         (\<lambda>payload. log_then (if proving_query m op
              then authorize_now env ctx (operation_grant_class op) (scope_of_memory (mr_scope m))
                (\<not> operation_read_only op) MemPermissionDenied
              else pure_result (Inr grant0))
            (\<lambda>grant. memory_exchange producer cd env m (co_trust composition) op
               (scope_of_memory (mr_scope m)) grant payload)) log = (r, log')"
proof -
  consider "log' = log" "\<exists>e. r = Inl e"
    | op where "memory_operation method path (ms_run_id (mr_scope m)) = Inr op"
    using assms unfolding memory_handle_attached_def Let_def
    by (cases "memory_operation method path (ms_run_id (mr_scope m))")
      (auto simp: pure_then_iff)
  then show thesis
  proof cases
    case (2 op)
    then show thesis
      using assms refused started [of _ op]
      unfolding memory_handle_attached_def Let_def proving_query_def
      by (simp only: pure_then_iff authorize_then_iff) (auto simp: result_simps)
  qed (rule refused)
qed

text \<open>
  A run of the memory route: refused without a word, one exchange, or for a \<open>v3\<close> query a probe of
  the capabilities, after which the query is sent only with its limits proven by the answer.
\<close>

lemma memory_attached_cases:
  assumes "memory_handle_attached producer cd env m method path ctx body log = (r, log')"
  defines "scope \<equiv> scope_of_memory (mr_scope m)"
  shows "(log' = log \<and> (\<exists>e. r = Inl e))
    \<or> (\<exists>op call. \<not> proving_query m op \<and> forwarded env ctx op scope call log log')
    \<or> (\<exists>probe. mr_capability_version m = CapabilityV3
        \<and> forwarded env ctx MemoryCapabilities scope probe log (OwnerCalled probe # log)
        \<and> ((log' = OwnerCalled probe # log \<and> (\<exists>e. r = Inl e))
           \<or> (\<exists>composition q call. mr_owner m = Some composition
                \<and> limits_proven env (co_trust composition) scope q (OwnerCalled probe # log)
                \<and> forwarded env ctx MemoryQuery scope call (OwnerCalled probe # log) log'
                \<and> cl_payload call = query_value q)))"
proof (rule memory_attached_start [OF assms(1)], goal_cases)
  case 1
  then show ?case by blast
next
  case (2 op composition grant0)
  note run = 2(3) [folded scope_def] and granted = 2(2) [folded scope_def]
  have probe: "forwarded env ctx MemoryCapabilities scope probe log (OwnerCalled probe # log)"
    if "make_call cd MemoryCapabilities scope None (object_of []) grant0 = Inr probe" "op = MemoryQuery" for probe
    using granted that
    by (auto simp: forwarded_def make_call_Inr_iff composition_authorize_Inr_iff exchanged_def
        operation_grant_class_def operation_read_only_def)
  obtain x log1 where p: "memory_payload producer cd env m (co_trust composition) scope grant0 op body log = (x, log1)"
    by fastforce
  show ?case
  proof (cases x)
    case (Inl e)
    with run p have "log' = log1" "r = Inl e"
      by (auto simp: log_then_def)
    from p show ?thesis
    proof (cases rule: memory_payload_cases [where payload = VNull])
      case quiet
      then show ?thesis using \<open>log' = log1\<close> \<open>r = Inl e\<close> by blast
    next
      case (probed q probe)
      then show ?thesis using probe [of probe] \<open>log' = log1\<close> \<open>r = Inl e\<close> by blast
    qed
  next
    case (Inr payload)
    with run p have run: "log_then (if proving_query m op
        then authorize_now env ctx (operation_grant_class op) scope (\<not> operation_read_only op) MemPermissionDenied
        else pure_result (Inr grant0))
      (\<lambda>grant. memory_exchange producer cd env m (co_trust composition) op scope grant payload) log1 = (r, log')"
      by (auto simp: log_then_def)
    from p show ?thesis
    proof (cases rule: memory_payload_cases [where payload = payload])
      case quiet
      with Inr have "\<not> proving_query m op" by (simp add: proving_query_def)
      then have "memory_exchange producer cd env m (co_trust composition) op scope grant0 payload log = (r, log')"
        using run quiet(1) by (simp add: log_then_def pure_result_def)
      with memory_exchange_cases [OF _ granted] \<open>\<not> proving_query m op\<close> show ?thesis by blast
    next
      case (probed q probe)
      then have q: "payload = query_value q" "limits_proven env (co_trust composition) scope q log1"
        using Inr by auto
      have "proving_query m op" using probed by (simp add: proving_query_def)
      with run consider "log' = log1" "\<exists>e. r = Inl e"
        | grant where "composition_authorize env ctx (operation_grant_class op) scope (\<not> operation_read_only op) log1
              = Inr grant"
          "memory_exchange producer cd env m (co_trust composition) op scope grant payload log1 = (r, log')"
        by (auto simp: authorize_then_iff)
      then show ?thesis
      proof cases
        case 1
        then show ?thesis using probe [of probe] probed by blast
      next
        case (2 grant)
        from memory_exchange_cases [OF 2(2) 2(1)] show ?thesis
          using probe [of probe] probed q \<open>mr_owner m = Some composition\<close> by blast
      qed
    qed
  qed
qed

end
