(* ===== verification/Registry_Facts.thy ===== *)
theory Registry_Facts
  imports Session_Route Transitions
begin

text \<open>
  The local session registry as a state machine: one step is any request. What an accepted mutation
  changes, the bounds that every reachable registry keeps, and what is written once.
\<close>

subsection \<open>Steps\<close>

inductive registry_step :: "'a route_codec_scheme \<Rightarrow> session_route \<Rightarrow> session_route \<Rightarrow> bool" for cd where
  request: "registry_step cd rt (snd (session_handle_local cd now method path user body rt))"

definition registry_start :: "'a route_codec_scheme \<Rightarrow> session_route \<Rightarrow> bool" where
  "registry_start cd rt \<longleftrightarrow>
     (\<exists>user mode version. rt = (session_fixture cd user)\<lparr>rt_mode := mode, rt_capability_version := version\<rparr>)"

abbreviation registry_reachable :: "'a route_codec_scheme \<Rightarrow> session_route \<Rightarrow> bool" where
  "registry_reachable cd \<equiv> reach (registry_start cd) (registry_step cd)"

abbreviation registry_steps :: "'a route_codec_scheme \<Rightarrow> session_route \<Rightarrow> session_route \<Rightarrow> bool" where
  "registry_steps cd \<equiv> (registry_step cd)\<^sup>*\<^sup>*"

text \<open>
  The changes of the registry: a candidate with its operation, an operation (a plan for a fork or
  a compaction is one), and a plan for prepared bindings, which is a record only.
\<close>

inductive registry_change :: "session_route \<Rightarrow> session_route \<Rightarrow> bool" where
  candidate: "bt_get (rt_idempotency rt) k = None \<Longrightarrow> bt_len (rt_bindings rt) < MAX_BINDINGS
    \<Longrightarrow> registry_change rt
     (rt\<lparr>rt_next_id := sat_add (rt_next_id rt) 1,
         rt_bindings := bt_insert (dash_numbered ''binding'' (rt_next_id rt)) b (rt_bindings rt),
         rt_operations := bt_insert (dash_numbered ''operation'' (rt_next_id rt)) o' (rt_operations rt),
         rt_idempotency := bt_insert k i (rt_idempotency rt)\<rparr>)"
| operation: "bt_get (rt_idempotency rt) k = None \<Longrightarrow> bt_len (rt_operations rt) < MAX_SESSION_OPERATIONS
    \<Longrightarrow> prefix \<in> {''operation'', ''plan''} \<Longrightarrow> registry_change rt
     (rt\<lparr>rt_next_id := sat_add (rt_next_id rt) 1,
         rt_operations := bt_insert (dash_numbered prefix (rt_next_id rt)) o' (rt_operations rt),
         rt_idempotency := bt_insert k i (rt_idempotency rt)\<rparr>)"
| prepared: "bt_get (rt_idempotency rt) k = None \<Longrightarrow> bt_len (rt_idempotency rt) < MAX_SESSION_OPERATIONS
    \<Longrightarrow> registry_change rt
     (rt\<lparr>rt_next_id := sat_add (rt_next_id rt) 1,
         rt_idempotency := bt_insert k i (rt_idempotency rt)\<rparr>)"

subsection \<open>The mutations\<close>

lemma mutate_candidate_cases:
  assumes "mutate_candidate cd now method run body rt = (r, rt')"
  shows "rt' = rt \<or> registry_change rt rt'"
  using assms
  by (auto simp: mutate_candidate_def Let_def not_le intro: registry_change.candidate
      split: if_splits sum.splits prod.splits option.splits)

lemma accept_operation_cases:
  assumes "accept_operation cd binding_id kind generation body rt = (r, rt')"
  shows "rt' = rt \<or> registry_change rt rt'"
  using assms
  by (auto simp: accept_operation_def Let_def not_le intro: registry_change.operation
      split: if_splits sum.splits prod.splits option.splits)

lemma accept_plan_cases:
  assumes "accept_plan cd binding_id kind body rt = (r, rt')" "bt_get (rt_bindings rt) binding_id = Some b"
  shows "rt' = rt \<or> registry_change rt rt'"
  using assms
  by (auto simp: accept_plan_def Let_def not_le intro: registry_change.operation registry_change.prepared
      split: if_splits sum.splits prod.splits option.splits)

lemma binding_subroute_cases:
  assumes "binding_subroute cd method binding_id segments b body rt = (r, rt')"
    "bt_get (rt_bindings rt) binding_id = Some b"
  shows "rt' = rt \<or> registry_change rt rt'"
  using assms
  by (auto simp: binding_subroute_def Let_def simp del: job_kind.simps split: if_splits option.splits
      dest: accept_operation_cases accept_plan_cases [OF _ assms(2)])

lemma session_local_cases:
  assumes "session_handle_local cd now method path user body rt = (r, rt')"
  shows "rt' = rt \<or> registry_change rt rt'"
  using assms
  by (auto simp: session_handle_local_def Let_def split: if_splits sum.splits option.splits
      dest: mutate_candidate_cases binding_subroute_cases)

lemma registry_step_cases:
  assumes "registry_step cd rt rt'"
  shows "rt' = rt \<or> registry_change rt rt'"
  using assms by cases (simp add: session_local_cases [OF prod.collapse [symmetric]])

subsection \<open>Bounds and fresh identifiers\<close>

lemma dash_numbered_inject [simp]: "dash_numbered p m = dash_numbered p n \<longleftrightarrow> m = n"
  by (simp add: dash_numbered_def word_unat_eq_iff)

lemma operation_is_no_plan [simp]:
  "dash_numbered ''operation'' m \<noteq> dash_numbered ''plan'' n"
  "dash_numbered ''plan'' m \<noteq> dash_numbered ''operation'' n"
  by (simp_all add: dash_numbered_def)

definition numbered_below :: "u64 \<Rightarrow> string set \<Rightarrow> string \<Rightarrow> bool" where
  "numbered_below n prefixes k \<longleftrightarrow> (\<exists>p\<in>prefixes. \<exists>m<n. k = dash_numbered p m)"

definition session_registry_ok :: "session_route \<Rightarrow> bool" where
  "session_registry_ok rt \<longleftrightarrow>
     unat (rt_next_id rt) = Suc (bt_len (rt_idempotency rt))
     \<and> bt_len (rt_bindings rt) \<le> MAX_BINDINGS
     \<and> bt_len (rt_operations rt) \<le> MAX_SESSION_OPERATIONS + bt_len (rt_bindings rt)
     \<and> bt_len (rt_idempotency rt) \<le> MAX_SESSION_OPERATIONS + bt_len (rt_operations rt)
     \<and> (\<forall>k b. bt_get (rt_bindings rt) k = Some b \<longrightarrow> numbered_below (rt_next_id rt) {''binding''} k)
     \<and> (\<forall>k o'. bt_get (rt_operations rt) k = Some o' \<longrightarrow>
          numbered_below (rt_next_id rt) {''operation'', ''plan''} k)"

lemma numbered_below_next:
  "numbered_below n ps k \<Longrightarrow> n \<le> m \<Longrightarrow> numbered_below m ps k"
  "p \<in> ps \<Longrightarrow> n < m \<Longrightarrow> numbered_below m ps (dash_numbered p n)"
  by (auto simp: numbered_below_def intro: order_less_le_trans)

lemma not_below_itself:
  "\<not> numbered_below n {''binding''} (dash_numbered ''binding'' n)"
  "p \<in> {''operation'', ''plan''} \<Longrightarrow> \<not> numbered_below n {''operation'', ''plan''} (dash_numbered p n)"
  by (auto simp: numbered_below_def)

lemma session_registry_ok_fresh:
  assumes "session_registry_ok rt"
  shows "bt_get (rt_bindings rt) (dash_numbered ''binding'' (rt_next_id rt)) = None"
    and "p \<in> {''operation'', ''plan''} \<Longrightarrow> bt_get (rt_operations rt) (dash_numbered p (rt_next_id rt)) = None"
proof -
  show "bt_get (rt_bindings rt) (dash_numbered ''binding'' (rt_next_id rt)) = None"
    using assms not_below_itself(1) unfolding session_registry_ok_def by (meson not_None_eq)
  show "bt_get (rt_operations rt) (dash_numbered p (rt_next_id rt)) = None" if "p \<in> {''operation'', ''plan''}"
    using assms not_below_itself(2) [OF that] unfolding session_registry_ok_def by (meson not_None_eq)
qed

lemma session_registry_ok_next:
  assumes "session_registry_ok rt"
  shows "unat (sat_add (rt_next_id rt) 1) = Suc (unat (rt_next_id rt))"
    and "rt_next_id rt < sat_add (rt_next_id rt) 1"
proof -
  have "unat (rt_next_id rt) \<le> 1153"
    using assms by (simp add: session_registry_ok_def MAX_BINDINGS_def MAX_SESSION_OPERATIONS_def)
  then show "unat (sat_add (rt_next_id rt) 1) = Suc (unat (rt_next_id rt))"
    by (simp add: unat_sat_add)
  then show "rt_next_id rt < sat_add (rt_next_id rt) 1"
    by (simp add: word_less_nat_alt)
qed

lemma registry_change_ok:
  assumes "registry_change rt rt'" "session_registry_ok rt"
  shows "session_registry_ok rt'"
proof -
  note up = numbered_below_next(1) [OF _ order_less_imp_le [OF session_registry_ok_next(2) [OF assms(2)]]]
  show ?thesis
  using assms(1)
proof cases
  case (candidate k b o' i)
  note fresh = session_registry_ok_fresh(1) [OF assms(2)] session_registry_ok_fresh(2) [OF assms(2), of "''operation''"]
  show ?thesis
    using assms(2) fresh session_registry_ok_next [OF assms(2)] candidate
    unfolding session_registry_ok_def
    by (auto simp: bt_len_insert bt_contains_get split: if_splits
        intro: numbered_below_next(2)) ((blast intro: up)+)?
next
  case (operation k p o' i)
  note fresh = session_registry_ok_fresh(2) [OF assms(2) operation(4)]
  show ?thesis
    using assms(2) fresh session_registry_ok_next [OF assms(2)] operation
    unfolding session_registry_ok_def
    by (auto simp: bt_len_insert bt_contains_get split: if_splits
        intro: numbered_below_next(2)) ((blast intro: up)+)?
next
  case (prepared k i)
  show ?thesis
    using assms(2) session_registry_ok_next [OF assms(2)] prepared
    unfolding session_registry_ok_def
    by (auto simp: bt_len_insert bt_contains_get split: if_splits
        intro: numbered_below_next(2)) ((blast intro: up)+)?
qed
qed

lemma session_registry_ok_step: "session_registry_ok rt \<Longrightarrow> registry_step cd rt rt' \<Longrightarrow> session_registry_ok rt'"
  using registry_step_cases [of cd rt rt'] registry_change_ok by auto

lemma session_registry_ok_start: "registry_start cd rt \<Longrightarrow> session_registry_ok rt"
  by (auto simp: registry_start_def session_registry_ok_def session_fixture_def)

interpretation registry_kept: invariant "registry_start cd" "registry_step cd" session_registry_ok for cd
  by unfold_locales (rule session_registry_ok_start, assumption, rule session_registry_ok_step)

subsection \<open>What is written once\<close>

lemma registry_frame:
  assumes "registry_change rt rt'"
  shows "rt_user rt' = rt_user rt" "rt_mode rt' = rt_mode rt"
    "rt_capabilities rt' = rt_capabilities rt" "rt_capability_version rt' = rt_capability_version rt"
  using assms by (auto elim!: registry_change.cases)

lemma registry_frame_step:
  assumes "registry_step cd rt rt'"
  shows "rt_user rt' = rt_user rt \<and> rt_mode rt' = rt_mode rt"
  using registry_step_cases [OF assms] registry_frame(1,2) [of rt rt'] by metis

lemma registry_frame_steps:
  assumes "registry_steps cd t u"
  shows "rt_user u = rt_user t \<and> rt_mode u = rt_mode t"
  using assms by (induction rule: rtranclp_induct) (simp_all add: registry_frame_step)

lemma registry_change_kept:
  assumes "registry_change rt rt'" "session_registry_ok rt"
  shows "(bt_get (rt_idempotency rt) k = Some i \<longrightarrow> bt_get (rt_idempotency rt') k = Some i)
    \<and> (bt_get (rt_bindings rt) k = Some b \<longrightarrow> bt_get (rt_bindings rt') k = Some b)
    \<and> (bt_get (rt_operations rt) k = Some o' \<longrightarrow> bt_get (rt_operations rt') k = Some o')"
  using assms(1)
proof cases
  case (candidate k' b' o'' i')
  then show ?thesis
    using session_registry_ok_fresh(1) [OF assms(2)] session_registry_ok_fresh(2) [OF assms(2), of "''operation''"] by auto
next
  case (operation k' p o'' i')
  then show ?thesis using session_registry_ok_fresh(2) [OF assms(2) operation(4)] by auto
next
  case (prepared k' i')
  then show ?thesis by auto
qed

lemma registry_step_kept:
  assumes "registry_reachable cd rt" "registry_step cd rt rt'"
  shows "bt_get (rt_idempotency rt) k = Some i \<Longrightarrow> bt_get (rt_idempotency rt') k = Some i"
    and "bt_get (rt_bindings rt) k = Some b \<Longrightarrow> bt_get (rt_bindings rt') k = Some b"
    and "bt_get (rt_operations rt) k = Some o' \<Longrightarrow> bt_get (rt_operations rt') k = Some o'"
  using registry_step_cases [OF assms(2)] registry_change_kept [OF _ registry_kept.holds [OF assms(1)], of rt' k i b o']
  by metis+

interpretation remembered: write_once "registry_start cd" "registry_step cd" "\<lambda>rt. bt_get (rt_idempotency rt)"
  for cd
  by unfold_locales (rule registry_step_kept(1))

interpretation bound: write_once "registry_start cd" "registry_step cd" "\<lambda>rt. bt_get (rt_bindings rt)" for cd
  by unfold_locales (rule registry_step_kept(2))

interpretation performed: write_once "registry_start cd" "registry_step cd" "\<lambda>rt. bt_get (rt_operations rt)" for cd
  by unfold_locales (rule registry_step_kept(3))

subsection \<open>Repeated commands\<close>

text \<open>What a repeated command is answered from: the record under its key, with its digest.\<close>

definition recalled :: "string \<Rightarrow> string \<Rightarrow> (idempotency_record \<Rightarrow> jvalue) \<Rightarrow> jvalue \<Rightarrow> session_route \<Rightarrow> bool" where
  "recalled k sha reply v rt \<longleftrightarrow>
     (\<exists>i. bt_get (rt_idempotency rt) k = Some i \<and> ir_request_sha256 i = sha \<and> v = reply i)"

lemma recalled_later:
  assumes "recalled k sha reply v t" "registry_steps cd t u" "registry_reachable cd t"
  shows "recalled k sha reply v u"
  using assms(1) remembered.cell.kept_steps [OF assms(2,3)] by (auto simp: recalled_def)

lemma candidate_recalled:
  fixes run :: string
  assumes "candidate_request cd body = Inr (kvs, key)"
  defines "k \<equiv> candidate_dedupe_key run key" and "sha \<equiv> canonical_digest cd (VObject kvs)"
    and "reply \<equiv> \<lambda>i. accepted_operation (ir_operation_id i) (ir_binding_id i)"
  shows "mutate_candidate cd now ''POST'' run body rt = (Inr v, t) \<Longrightarrow> recalled k sha reply v t"
    and "length body \<le> MAX_SESSION_BODY_BYTES \<Longrightarrow> recalled k sha reply v u
      \<Longrightarrow> mutate_candidate cd now ''POST'' run body u = (Inr v, u)"
  using assms
  by (auto simp: mutate_candidate_def recalled_def Let_def split: if_splits option.splits)

lemma operation_recalled:
  fixes binding_id :: string
  assumes "operation_request cd kind body = Inr (kvs, key)"
  defines "k \<equiv> operation_dedupe_key kind binding_id key" and "sha \<equiv> canonical_digest cd (VObject kvs)"
    and "reply \<equiv> \<lambda>i. accepted_operation (ir_operation_id i) (ir_binding_id i)"
  shows "accept_operation cd binding_id kind generation body rt = (Inr v, t) \<Longrightarrow> recalled k sha reply v t"
    and "length body \<le> MAX_SESSION_BODY_BYTES \<Longrightarrow> recalled k sha reply v u
      \<Longrightarrow> accept_operation cd binding_id kind generation body u = (Inr v, u)"
  using assms
  by (auto simp: accept_operation_def recalled_def Let_def split: if_splits option.splits)

lemma plan_recalled:
  fixes binding_id :: string
  assumes "plan_request cd kind body = Inr (kvs, key)"
  defines "k \<equiv> plan_dedupe_key kind binding_id key" and "sha \<equiv> canonical_digest cd (VObject kvs)"
    and "reply \<equiv> \<lambda>i. accepted_plan (ir_operation_id i) (ir_binding_id i) kind"
  shows "accept_plan cd binding_id kind body rt = (Inr v, t) \<Longrightarrow> recalled k sha reply v t"
    and "length body \<le> MAX_SESSION_BODY_BYTES \<Longrightarrow> recalled k sha reply v u
      \<Longrightarrow> accept_plan cd binding_id kind body u = (Inr v, u)"
  using assms
  by (simp_all add: accept_plan_def recalled_def Let_def del: insert_iff split: if_split_asm option.splits)
    force+

lemma mutations_repeat:
  assumes "registry_reachable cd t" "registry_steps cd t u"
  shows "mutate_candidate cd now ''POST'' run body rt = (Inr v, t)
      \<Longrightarrow> mutate_candidate cd now' ''POST'' run body u = (Inr v, u)"
    and "accept_operation cd binding_id kind generation body rt = (Inr v, t)
      \<Longrightarrow> accept_operation cd binding_id kind generation body u = (Inr v, u)"
    and "accept_plan cd binding_id kind body rt = (Inr v, t)
      \<Longrightarrow> accept_plan cd binding_id kind body u = (Inr v, u)"
proof -
  note later = recalled_later [OF _ assms(2,1)]
  show "mutate_candidate cd now' ''POST'' run body u = (Inr v, u)"
    if run: "mutate_candidate cd now ''POST'' run body rt = (Inr v, t)"
  proof -
    obtain kvs key where q: "candidate_request cd body = Inr (kvs, key)" and "length body \<le> MAX_SESSION_BODY_BYTES"
      using run by (auto simp: mutate_candidate_def Let_def split: if_splits sum.splits)
    then show ?thesis using candidate_recalled [OF q] later run by blast
  qed
  show "accept_operation cd binding_id kind generation body u = (Inr v, u)"
    if run: "accept_operation cd binding_id kind generation body rt = (Inr v, t)"
  proof -
    obtain kvs key where q: "operation_request cd kind body = Inr (kvs, key)" and "length body \<le> MAX_SESSION_BODY_BYTES"
      using run by (auto simp: accept_operation_def Let_def split: if_splits sum.splits)
    then show ?thesis using operation_recalled [OF q] later run by blast
  qed
  show "accept_plan cd binding_id kind body u = (Inr v, u)"
    if run: "accept_plan cd binding_id kind body rt = (Inr v, t)"
  proof -
    obtain kvs key where q: "plan_request cd kind body = Inr (kvs, key)" and "length body \<le> MAX_SESSION_BODY_BYTES"
      using run by (auto simp: accept_plan_def Let_def split: if_splits sum.splits)
    then show ?thesis using plan_recalled [OF q] later run by blast
  qed
qed

lemma subroute_repeats:
  assumes "registry_reachable cd t" "registry_steps cd t u"
    and "binding_subroute cd ''POST'' binding_id segments b body rt = (Inr v, t)"
  shows "binding_subroute cd ''POST'' binding_id segments b body u = (Inr v, u)"
  using assms(3)
  by (auto simp: binding_subroute_def Let_def simp del: job_kind.simps split: if_splits option.splits
      dest: mutations_repeat(2,3) [OF assms(1,2)])

lemma posts_repeat:
  assumes "registry_reachable cd rt" "registry_steps cd t u"
    and "session_handle_local cd now ''POST'' path user body rt = (Inr v, t)"
  shows "session_handle_local cd now' ''POST'' path user body u = (Inr v, u)"
proof -
  have step: "registry_step cd rt t"
    using registry_step.request [of cd rt now "''POST''" path user body] assms(3) by simp
  have t: "registry_reachable cd t" by (rule reach.step [OF assms(1) step])
  have steps: "registry_steps cd rt u"
    using step assms(2) by (rule converse_rtranclp_into_rtranclp)
  note frame = registry_frame_steps [OF steps]
  have kept: "bt_get (rt_bindings u) k = Some b" if "bt_get (rt_bindings rt) k = Some b" for k b
    using bound.cell.kept_steps [OF steps assms(1)] that by simp
  show ?thesis
    using assms(3) frame
    by (auto simp: session_handle_local_def Let_def get_only_def kept split: if_splits sum.splits option.splits
        dest: mutations_repeat(1) [OF t assms(2)] subroute_repeats [OF t assms(2)] kept)
qed

subsection \<open>Two flaws of the bookkeeping\<close>

text \<open>
  An identifier may contain a colon, so the keys of two runs can be one: a command of the run
  \<open>a:b\<close> conflicts with one of the run \<open>a\<close>.
\<close>

lemma candidate_keys_collide:
  assumes "candidate_request cd body = Inr (kvs, ''b:c'')" "candidate_request cd body' = Inr (kvs', ''c'')"
    and "canonical_digest cd (VObject kvs) \<noteq> canonical_digest cd (VObject kvs')"
    and "length body' \<le> MAX_SESSION_BODY_BYTES"
    and "mutate_candidate cd now ''POST'' ''a'' body rt = (Inr v, t)"
  shows "mutate_candidate cd now' ''POST'' ''a:b'' body' t = (Inl SesConflict, t)"
  using candidate_recalled(1) [OF assms(1,5)] assms(2-4)
  by (auto simp: mutate_candidate_def recalled_def candidate_dedupe_key_def)

text \<open>A candidate is also an operation, but the bound of the operations is not checked for it.\<close>

lemma candidates_pass_the_operation_bound:
  assumes "candidate_request cd body = Inr (kvs, key)" "length body \<le> MAX_SESSION_BODY_BYTES"
    and "bt_get (rt_idempotency rt) (candidate_dedupe_key run key) = None"
    and "bt_len (rt_bindings rt) < MAX_BINDINGS" "candidate_count run rt < MAX_CANDIDATES"
    and "session_registry_ok rt"
  shows "\<exists>v t. mutate_candidate cd now ''POST'' run body rt = (Inr v, t)
    \<and> bt_len (rt_operations t) = Suc (bt_len (rt_operations rt))"
  using assms session_registry_ok_fresh(2) [OF assms(6), of "''operation''"]
  by (auto simp: mutate_candidate_def Let_def bt_len_insert bt_contains_get)

end
