(* ===== verification/Delegation_Runs.thy ===== *)
theory Delegation_Runs
  imports Delegation_Facts Registry_Facts
begin

text \<open>
  Concrete runs of the owner routes: a codec whose digest pads to 32 bytes and whose decoders
  know one document each, an owner, a grant book and a route of either surface.
\<close>

definition toy_query :: memory_query where
  "toy_query =
     \<lparr>mq_schema = MEMORY_QUERY_SCHEMA,
      mq_scope = \<lparr>ms_project_id = ''p'', ms_run_id = ''r'', ms_episode_id = ''e'', ms_agent_id = ''a''\<rparr>,
      mq_branch_id = ''main'', mq_query = ''hp'', mq_cutoff = 10, mq_corpus_generation = 1,
      mq_ranker_version = ''v1'', mq_limit = 8, mq_max_candidates = 64,
      mq_effect_class = ''local_read_no_inference''\<rparr>"

definition toy_retire :: retire_command where
  "toy_retire =
     \<lparr>ki_idempotency_key = ''k1'', ki_expected_control_generation = 1, ki_expected_session_epoch = 1,
      ki_reason = OperatorRequest\<rparr>"

definition candidate_object :: object_fields where
  "candidate_object =
     [(''approved_policy_ref'', VString ''p1''), (''expected_control_generation'', jnum 1),
      (''idempotency_key'', VString ''k1''), (''profile_ref'', VString ''f1''),
      (''purpose'', VString ''evaluation'')]"

text \<open>The codec without the memory descriptor, which is built with its digest.\<close>

definition base_codec :: session_route_codec where
  "base_codec =
     \<lparr>oc_sha = (\<lambda>_. replicate 32 (CHR 0x00)), oc_value_bytes = (\<lambda>_. Some []), oc_record_bytes = (\<lambda>_. Some []),
      cd_from_slice = (\<lambda>bs. Some (VObject (if bs = ''{}'' then candidate_object
        else [(''schema'', VString MEMORY_CAPABILITIES_SCHEMA)]))),
      cd_memory_of = (\<lambda>_. None), cd_memory_v1_of = (\<lambda>_. None), cd_memory_value = (\<lambda>_. Some VNull),
      cd_memory_v1_value = (\<lambda>_. Some VNull), cd_memory_bytes = (\<lambda>_. Some []),
      cd_session_of = (\<lambda>_. None), cd_session_v3_of = (\<lambda>_. None), cd_session_v1_of = (\<lambda>_. None),
      cd_session_value = (\<lambda>_. Some VNull), cd_session_v1_value = (\<lambda>_. Some VNull),
      cd_session_bytes = (\<lambda>_. Some []),
      cd_string = Some, cd_query_of = (\<lambda>_. Some toy_query), cd_generation_of = (\<lambda>_. None),
      cd_review_of = (\<lambda>_. None), cd_selection_of = (\<lambda>_. None),
      cd_candidate_of = (\<lambda>_. None), cd_history_refresh_of = (\<lambda>_. None), cd_reconnect_of = (\<lambda>_. None),
      cd_fork_plan_of = (\<lambda>_. None), cd_compaction_plan_of = (\<lambda>_. None),
      cd_prepared_binding_of = (\<lambda>_. None), cd_fork_of = (\<lambda>_. None), cd_compaction_of = (\<lambda>_. None),
      cd_retire_of = (\<lambda>_. Some toy_retire), cd_cleanup_of = (\<lambda>_. None)\<rparr>"

definition toy_descriptor :: memory_capabilities where
  "toy_descriptor = memory_target_capabilities base_codec (mq_scope toy_query) True"

definition toy_codec :: session_route_codec where
  "toy_codec = base_codec\<lparr>cd_memory_of := (\<lambda>_. Some toy_descriptor)\<rparr>"


lemma not_blank [simp]: "ascii_string s \<Longrightarrow> \<not> white_space (of_char (hd s)) \<Longrightarrow> s \<noteq> [] \<Longrightarrow> \<not> blank s"
  by (cases s) (simp_all add: blank_def chars_ascii)

lemmas row_simps = limit_row_defs row_validate_def valid_limit_token_def token_byte_def ascii_defs

lemma memory_rows_valid: "validate_rows (memory_limit_rows fixture_effective_limits) = Inr ()"
  by (simp add: memory_limit_rows_def fixture_effective_limits_def row_simps MEMORY_POLICY_SCHEMA_MAX_OPTIONAL_BYTES_def
      ascii_string_def white_space_def)

lemma session_rows_valid: "validate_rows (session_limit_rows fixture_session_limits) = Inr ()"
  by (simp add: session_limit_rows_def fixture_session_limits_def row_simps
      SESSION_POLICY_SCHEMA_MAX_COMPLETED_TURNS_def SESSION_POLICY_SCHEMA_MAX_HISTORY_TTL_SECONDS_def
      ascii_string_def white_space_def)

lemma memory_fields_distinct: "length (remdups (map lr_field (memory_limit_rows l))) = 20"
  by (simp add: memory_limit_rows_def row_simps)
lemma session_fields_distinct: "length (remdups (map lr_field (session_limit_rows l))) = 16"
  by (simp add: session_limit_rows_def row_simps)
lemma hex2_zero: "hex2 (CHR 0x00) = [CHR ''0'', CHR ''0'']"
  by code_simp

lemma hex_zeros: "hex_bytes (replicate n (CHR 0x00)) = replicate (2 * n) (CHR ''0'')"
  by (induction n) (simp_all add: hex_bytes_def hex2_zero)

lemma toy_digest: "codec_digest base_codec bs = replicate 64 (CHR ''0'')" "codec_digest toy_codec bs = replicate 64 (CHR ''0'')"
  by (simp_all add: codec_digest_def base_codec_def toy_codec_def hex_zeros)

lemma toy_descriptor_digests:
  "memory_descriptor_digest base_codec c = Inr (replicate 64 (CHR ''0''))"
  "memory_descriptor_digest toy_codec c = Inr (replicate 64 (CHR ''0''))"
  "session_descriptor_digest toy_codec d = Inr (replicate 64 (CHR ''0''))"
  unfolding memory_descriptor_digest_def session_descriptor_digest_def Let_def toy_digest
  by (simp_all add: base_codec_def toy_codec_def)

lemma digest_hash: "valid_sha256 (replicate 64 (CHR ''0''))" "capability_hash (replicate 64 (CHR ''0''))"
  by (simp_all add: valid_sha256_def capability_hash_def ascii_defs list_all_iff)

lemma toy_descriptor_fields:
  "mc_effective_limits toy_descriptor = fixture_effective_limits"
  "mc_schema toy_descriptor = MEMORY_CAPABILITIES_SCHEMA" "mc_enabled toy_descriptor"
  "mb_owner (mc_binding toy_descriptor) = ''sts2-harness''"
  "mb_owner_revision (mc_binding toy_descriptor) = ''harness-context-memory-v3''"
  "mb_descriptor_sha256 (mc_binding toy_descriptor) = replicate 64 (CHR ''0'')"
  "mc_scope toy_descriptor = mq_scope toy_query"
  by (simp_all add: toy_descriptor_def memory_target_capabilities_def toy_descriptor_digests fixture_binding_def)

lemmas token_simps = valid_limit_token_def token_byte_def ascii_defs

lemma toy_record_valid: "record_validate (memory_limit_record toy_descriptor) = Inr ()"
  unfolding record_validate_def memory_limit_record_def toy_descriptor_fields
  by (simp add: memory_fields_distinct memory_rows_valid digest_hash token_simps
      EFFECTIVE_LIMIT_RECORD_SCHEMA_def MEMORY_CAPABILITIES_SCHEMA_def)
    (simp add: memory_limit_rows_def)

lemma toy_descriptor_accepted: "\<not> memory_descriptor_refused toy_codec toy_descriptor"
  unfolding memory_descriptor_refused_def Let_def toy_descriptor_fields toy_digest
  by (simp add: toy_descriptor_def memory_target_capabilities_def toy_descriptor_digests fixture_binding_def
      toy_digest digest_hash capability_token_def capability_status_def token_simps toy_query_def
      fixture_effective_limits_def MEMORY_OPERATION_NAMES_def)

lemma toy_descriptor_valid: "memory_validate_descriptor toy_codec toy_descriptor = Inr ()"
  by (simp add: memory_validate_descriptor_def toy_descriptor_accepted toy_record_valid
      toy_descriptor_digests toy_descriptor_fields)

definition toy_session_descriptor :: session_capabilities where
  "toy_session_descriptor = fixture_session_capabilities toy_codec"

lemma toy_session_fields:
  "sc_effective_limits toy_session_descriptor = fixture_session_limits"
  "sc_schema toy_session_descriptor = SESSION_CAPABILITIES_SCHEMA"
  "sc_enabled_methods toy_session_descriptor \<noteq> []"
  "sb_owner (sc_binding toy_session_descriptor) = ''sts2-harness''"
  "sb_owner_revision (sc_binding toy_session_descriptor) = ''harness-provider-session-v4''"
  "sb_descriptor_sha256 (sc_binding toy_session_descriptor) = replicate 64 (CHR ''0'')"
  by (simp_all add: toy_session_descriptor_def fixture_session_capabilities_def toy_descriptor_digests
      fixture_session_binding_def SESSION_CAPABILITIES_OWNER_REVISION_def)

lemma toy_session_record_valid: "record_validate (session_limit_record toy_session_descriptor) = Inr ()"
  unfolding record_validate_def session_limit_record_def toy_session_fields
  by (simp add: session_fields_distinct session_rows_valid digest_hash token_simps
      EFFECTIVE_LIMIT_RECORD_SCHEMA_def SESSION_CAPABILITIES_SCHEMA_def)
    (simp add: session_limit_rows_def)

lemma toy_session_accepted: "\<not> session_descriptor_refused toy_session_descriptor"
  unfolding session_descriptor_refused_def Let_def toy_session_fields
  by (simp add: toy_session_descriptor_def fixture_session_capabilities_def toy_descriptor_digests
      fixture_session_binding_def toy_digest digest_hash capability_token_def method_byte_def token_simps
      fixture_session_limits_def SESSION_CAPABILITIES_OWNER_REVISION_def)

lemma toy_session_valid: "session_validate_descriptor toy_codec toy_session_descriptor = Inr ()"
  by (simp add: session_validate_descriptor_def toy_session_accepted toy_session_record_valid
      toy_descriptor_digests toy_session_fields)

end
