(* ===== verification/Memory_Runs.thy ===== *)
theory Memory_Runs
  imports Delegation_Runs
begin

text \<open>
  A query that is proven and sent, and the answer of an owner that publishes the trusted limits.
\<close>

subsection \<open>The owner of the run\<close>

definition toy_scope :: owner_scope where
  "toy_scope = make_scope ''p'' ''r'' ''e'' ''a''"

definition toy_grant :: "owner_grant_class \<Rightarrow> string option \<Rightarrow> owner_grant" where
  "toy_grant cl csrf =
     \<lparr>og_id = ''g1'', og_class = cl, og_scope = toy_scope, og_expires_at = 100, og_host = ''h'',
      og_origin = None, og_csrf_token = csrf, og_revoked = False\<rparr>"

definition toy_book :: "owner_grant_class \<Rightarrow> string option \<Rightarrow> grant_book" where
  "toy_book cl csrf = snd (insert_grant (toy_grant cl csrf) empty_book)"

definition toy_context :: "string option \<Rightarrow> request_context" where
  "toy_context csrf =
     \<lparr>rq_principal = ''g1'', rq_host = ''h'', rq_origin = None, rq_csrf_token = csrf, rq_now = 5\<rparr>"

definition toy_receipt :: "owner_operation \<Rightarrow> owner_receipt" where
  "toy_receipt op =
     \<lparr>re_schema = OWNER_RECEIPT_SCHEMA, re_receipt_id = ''r1'', re_operation_id = ''o1'',
      re_operation = operation_as_str op, re_source = ''owner1'', re_owner_epoch = 7,
      re_evidence = ''published'', re_outcome = OwnerAccepted, re_effect_applied = False\<rparr>"

definition publication :: owner_reply where
  "publication = \<lparr>rp_receipt = toy_receipt MemoryCapabilities, rp_value = Some VNull,
     rp_effective_limits = Some (memory_limit_record toy_descriptor)\<rparr>"

definition query_reply :: owner_reply where
  "query_reply = \<lparr>rp_receipt = toy_receipt MemoryQuery, rp_value = Some VNull, rp_effective_limits = None\<rparr>"

definition memory_env :: owner_env where
  "memory_env =
     \<lparr>en_reply = (\<lambda>log. Inr (if length log = 1 then publication else query_reply)),
      en_book = (\<lambda>_. Some (toy_book ReadSearch None))\<rparr>"

definition toy_memory_trust :: memory_trust where
  "toy_memory_trust =
     \<lparr>tm_owner = \<lparr>ob_scope = toy_scope, ob_source = ''owner1'', ob_epoch = 7\<rparr>,
      tm_descriptor = toy_descriptor\<rparr>"

definition toy_trust :: capability_trust where
  "toy_trust = \<lparr>ot_memory = Some toy_memory_trust, ot_session = None\<rparr>"

definition toy_memory_route :: memory_route where
  "toy_memory_route = memory_route_attached (mq_scope toy_query) \<lparr>co_trust = toy_trust\<rparr>"

lemma toy_trust_configured:
  "memory_trust_new toy_codec toy_descriptor ''owner1'' 7 = Inr toy_memory_trust"
  by (simp add: memory_trust_new_def toy_descriptor_valid owner_binding_new_def toy_memory_trust_def
      toy_descriptor_fields scope_of_memory_def toy_scope_def toy_query_def make_scope_def scope_is_valid_def
      owner_valid_id_def id_char_def ascii_defs)

subsection \<open>The run\<close>

definition toy_grant_receipt :: grant_receipt where
  "toy_grant_receipt = \<lparr>gt_grant_id = ''g1'', gt_class = ReadSearch, gt_revocation_epoch = 0\<rparr>"

lemma memory_authorized:
  "composition_authorize memory_env (toy_context None) ReadSearch toy_scope False log = Inr toy_grant_receipt"
  by (simp add: composition_authorize_Inr_iff memory_env_def toy_book_def insert_grant_def empty_book_def
      bt_contains_get grants_access_def toy_context_def toy_grant_def toy_grant_receipt_def)

lemma toy_scope_valid: "scope_is_valid toy_scope"
  by (simp add: toy_scope_def make_scope_def scope_is_valid_def owner_valid_id_def id_char_def ascii_defs)

lemma toy_values: "oc_value_bytes toy_codec v = Some []" "oc_record_bytes toy_codec r = Some []"
  by (simp_all add: toy_codec_def base_codec_def)

lemma toy_query_parsed: "parse_control_json (cd_string toy_codec) (cd_query_of toy_codec) ''{}'' = Inr toy_query"
  by code_simp

lemma toy_query_valid: "validate_query toy_query (mq_scope toy_query) = Inr ()"
  by code_simp

lemma admit_rows_Inr:
  assumes "record_validate trusted = Inr ()" "er_enabled trusted" "set rows \<subseteq> set (er_rows trusted)"
    and "List.find (\<lambda>e. cf_surface e = surface) (cn_surfaces pin) = Some entry"
    and "cf_effective_limits_advertised entry" "cf_advertised_capability_schema entry = Some (er_capability_schema trusted)"
    and "cn_repository pin = CONSUMER_REPOSITORY" "cn_adoption pin = Aligned"
  shows "admit_rows pin surface trusted trusted rows = Inr ()"
  using assms(3)
  by (induction rows) (auto simp: admit_consumer_def assms result_simps find_row_unique [OF assms(1)])

lemma toy_rows_admitted:
  "admit_rows (console_pin producer) ''context-memory'' (memory_limit_record toy_descriptor)
     (memory_limit_record toy_descriptor) (er_rows (memory_limit_record toy_descriptor)) = Inr ()"
  by (rule admit_rows_Inr [OF toy_record_valid])
    (auto simp: memory_limit_record_def toy_descriptor_fields console_pin_def consumer_pin_for_def Let_def)

lemma toy_read: "read_memory_capabilities toy_codec [] = Inr (AdvertisedV3 toy_descriptor)"
  by (simp add: read_memory_capabilities_def toy_codec_def base_codec_def value_get_def object_get_def
      MEMORY_CAPABILITIES_SCHEMA_def MEMORY_CAPABILITIES_SCHEMA_V1_def)

lemma publication_presented:
  "trust_present producer toy_codec toy_trust MemoryCapabilities toy_scope CapabilityV3 publication = Inr publication"
  by (simp add: trust_present_def publication_def toy_receipt_def toy_trust_def memory_present_def
      toy_memory_trust_def owner_binding_check_def authenticate_def toy_record_valid toy_values toy_read
      toy_rows_admitted toy_descriptor_valid Let_def) (simp add: toy_codec_def base_codec_def)

lemma toy_metadata: "safe_metadata_id ''owner1''" "safe_metadata_id ''published''"
  by code_simp+

lemma toy_receipt_valid:
  "validate_receipt (toy_receipt MemoryCapabilities) = Inr ()" "validate_receipt (toy_receipt MemoryQuery) = Inr ()"
  by (simp_all add: validate_receipt_def toy_receipt_def toy_metadata owner_valid_id_def id_char_def token_byte_def
      ascii_defs)

lemma null_is_public: "validate_public_value toy_codec VNull = Inr ()"
  by (simp add: validate_public_value_def toy_values)

lemma publication_valid: "validate_for toy_codec MemoryCapabilities publication = Inr ()"
proof -
  have "length (er_rows (memory_limit_record toy_descriptor)) \<le> 64"
    "\<not> list_ex (\<lambda>row. length (lr_field row) > 128 \<or> length (lr_validator row) > 256)
        (er_rows (memory_limit_record toy_descriptor))"
    by (simp_all add: memory_limit_record_def memory_limit_rows_def limit_row_defs)
  moreover have "\<not> list_ex (\<lambda>s. length s > 128)
      [er_schema (memory_limit_record toy_descriptor), er_surface (memory_limit_record toy_descriptor),
       er_owner (memory_limit_record toy_descriptor), er_owner_revision (memory_limit_record toy_descriptor),
       er_capability_schema (memory_limit_record toy_descriptor),
       er_capability_descriptor_sha256 (memory_limit_record toy_descriptor)]"
    by (simp add: memory_limit_record_def toy_descriptor_fields EFFECTIVE_LIMIT_RECORD_SCHEMA_def
        MEMORY_CAPABILITIES_SCHEMA_def)
  ultimately have "validate_limit_sidecar toy_codec publication = Inr ()"
    unfolding validate_limit_sidecar_def
    by (simp add: publication_def toy_values) (simp add: toy_receipt_def)
  then show ?thesis
    by (simp add: validate_for_def publication_def toy_receipt_valid null_is_public)
      (simp add: toy_receipt_def)
qed

lemma query_reply_valid: "validate_for toy_codec MemoryQuery query_reply = Inr ()"
  by (simp add: validate_for_def validate_limit_sidecar_def query_reply_def toy_receipt_valid null_is_public)
    (simp add: toy_receipt_def)

definition probe_call :: owner_call where
  "probe_call =
     \<lparr>cl_operation = MemoryCapabilities, cl_scope = toy_scope, cl_reference = None, cl_payload = object_of [],
      cl_request_sha256 = canonical_digest toy_codec (object_of []), cl_grant = toy_grant_receipt\<rparr>"

definition query_call :: owner_call where
  "query_call =
     \<lparr>cl_operation = MemoryQuery, cl_scope = toy_scope, cl_reference = None, cl_payload = query_value toy_query,
      cl_request_sha256 = canonical_digest toy_codec (query_value toy_query), cl_grant = toy_grant_receipt\<rparr>"

lemma probe_made:
  "make_call toy_codec MemoryCapabilities toy_scope None (object_of []) toy_grant_receipt = Inr probe_call"
  by (simp add: make_call_Inr_iff probe_call_def toy_scope_valid validate_public_value_def toy_values object_of_def)

declare validate_inner.simps [simp del]

lemma validate_fields_Inr:
  "list_all (\<lambda>(k, v). \<not> forbidden_field k v \<and> validate_inner v d = Inr ()) kvs \<Longrightarrow> validate_fields kvs d = Inr ()"
  by (induction kvs) auto

lemma set_list_put: "set (list_put k v m) \<subseteq> insert (k, v) (set m)"
  by (induction k v m rule: list_put.induct) auto

lemma set_foldl_put: "set (foldl (\<lambda>m (k, v). list_put k v m) m kvs) \<subseteq> set m \<union> set kvs"
proof (induction kvs arbitrary: m)
  case (Cons x kvs)
  show ?case using Cons [of "list_put (fst x) (snd x) m"] set_list_put [of "fst x" "snd x" m]
    by (auto split: prod.splits simp: case_prod_beta)
qed simp

lemma object_is_public:
  assumes "list_all (\<lambda>(k, v). \<not> forbidden_field k v \<and> validate_inner v (d + 1) = Inr ()) kvs"
    and "d \<le> OWNER_MAX_RESPONSE_DEPTH"
  shows "validate_inner (object_of kvs) d = Inr ()"
proof -
  have "validate_fields (foldl (\<lambda>m (k, v). list_put k v m) [] kvs) (d + 1) = Inr ()"
    using assms(1) set_foldl_put [of "[]" kvs]
    by (intro validate_fields_Inr) (auto simp: list_all_iff)
  then show ?thesis using assms(2) by (simp add: object_of_def not_less validate_inner.simps [of "VObject _"])
qed

lemma query_public: "validate_inner (query_value toy_query) 0 = Inr ()"
proof -
  have scope: "validate_inner (memory_scope_value (mq_scope toy_query)) 1 = Inr ()"
    unfolding memory_scope_value_def
    by (rule object_is_public) (code_simp, simp add: OWNER_MAX_RESPONSE_DEPTH_def)
  show ?thesis
    unfolding query_value_def
    by (rule object_is_public) (simp add: scope, code_simp, simp add: OWNER_MAX_RESPONSE_DEPTH_def)
qed

lemma query_made:
  "make_call toy_codec MemoryQuery toy_scope None (query_value toy_query) toy_grant_receipt = Inr query_call"
  by (simp add: make_call_Inr_iff query_call_def toy_scope_valid validate_public_value_def toy_values query_public)

lemma toy_query_admitted: "admit_memory_query producer toy_trust toy_scope publication toy_query = Inr ()"
  by (simp add: admit_memory_query_def toy_trust_def toy_memory_trust_def publication_def owner_binding_check_def
      toy_receipt_def Let_def admit_consumer_def console_pin_def consumer_pin_for_def result_simps
      toy_record_valid find_memory_rows limit_row_defs)
    (simp add: memory_limit_record_def toy_descriptor_fields toy_query_def fixture_effective_limits_def)

lemma query_is_proven:
  "query_proof producer toy_codec memory_env toy_trust toy_scope toy_grant_receipt toy_query []
     = (Inr (), [OwnerCalled probe_call])"
  by (simp add: query_proof_def log_then_def pure_result_def probe_made send_request_def memory_env_def
      publication_valid publication_presented toy_query_admitted)

lemma toy_route_fields:
  "mr_scope toy_memory_route = mq_scope toy_query" "mr_owner toy_memory_route = Some \<lparr>co_trust = toy_trust\<rparr>"
  "mr_capability_version toy_memory_route = CapabilityV3"
  by (simp_all add: toy_memory_route_def memory_route_attached_def)

lemma toy_scope_of_route: "scope_of_memory (mq_scope toy_query) = toy_scope" "ms_run_id (mq_scope toy_query) = ''r''"
  by (simp_all add: scope_of_memory_def toy_scope_def toy_query_def)

lemma memory_run:
  "memory_handle_attached producer toy_codec memory_env toy_memory_route ''POST'' ''/v3/memory/search''
     (toy_context None) ''{}'' []
     = (Inr (owner_result_value MemoryQuery 0 query_reply), [OwnerCalled query_call, OwnerCalled probe_call])"
proof -
  have op: "memory_operation ''POST'' ''/v3/memory/search'' ''r'' = Inr MemoryQuery"
    by (simp add: memory_operation_def)
  have lane: "operation_grant_class MemoryQuery = ReadSearch" "operation_read_only MemoryQuery"
    by (simp_all add: operation_grant_class_def operation_read_only_def)
  have payload: "memory_payload producer toy_codec memory_env toy_memory_route toy_trust toy_scope
      toy_grant_receipt MemoryQuery ''{}'' [] = (Inr (query_value toy_query), [OwnerCalled probe_call])"
    by (simp add: memory_payload_def log_then_def pure_result_def toy_query_parsed toy_query_valid
        toy_route_fields query_is_proven)
  have fields: "gt_revocation_epoch toy_grant_receipt = 0" "cl_operation query_call = MemoryQuery"
    by (simp_all add: toy_grant_receipt_def query_call_def)
  have exchange: "memory_exchange producer toy_codec memory_env toy_memory_route toy_trust MemoryQuery toy_scope
      toy_grant_receipt (query_value toy_query) [OwnerCalled probe_call]
      = (Inr (owner_result_value MemoryQuery 0 query_reply), [OwnerCalled query_call, OwnerCalled probe_call])"
    by (simp add: memory_exchange_def log_then_def pure_result_def query_made deliver_def send_request_def
        memory_env_def query_reply_valid trust_present_other fields Let_def)
  show ?thesis
    by (simp add: memory_handle_attached_def log_then_def pure_result_def authorize_now_def Let_def
        MAX_MEMORY_BODY_BYTES_def toy_route_fields toy_scope_of_route op lane memory_authorized payload exchange)
qed

subsection \<open>A reply that is lost\<close>

definition retire_path :: string where
  "retire_path = ''/v1/runs/r/provider-sessions/b1/retire''"

definition session_env :: owner_env where
  "session_env =
     \<lparr>en_reply = (\<lambda>log. Inl (if length log = 1 then LostReply ''r1'' else UnknownReceipt)),
      en_book = (\<lambda>_. Some (toy_book ControlLane (Some ''c1'')))\<rparr>"

definition toy_session_route :: session_route where
  "toy_session_route = snd (register_attached_binding ''b1'' (view_of_scope toy_scope)
     (session_attached_with_scope toy_codec ''u1'' (view_of_scope toy_scope) \<lparr>co_trust = toy_trust\<rparr>))"

definition retire_call :: owner_call where
  "retire_call =
     (let payload = object_of
        [(''idempotency_key'', VString ''k1''), (''expected_control_generation'', jnum 1),
         (''expected_session_epoch'', jnum 1), (''reason'', VString ''operator_request'')]
      in \<lparr>cl_operation = SessionRetire, cl_scope = toy_scope, cl_reference = Some ''b1'', cl_payload = payload,
          cl_request_sha256 = canonical_digest toy_codec payload,
          cl_grant = \<lparr>gt_grant_id = ''g1'', gt_class = ControlLane, gt_revocation_epoch = 0\<rparr>\<rparr>)"

definition retire_lookup :: receipt_lookup where
  "retire_lookup = \<lparr>lk_operation = SessionRetire, lk_scope = toy_scope, lk_reference = Some ''b1'',
     lk_receipt_id = ''r1''\<rparr>"

lemma retire_public: "validate_inner (cl_payload retire_call) 0 = Inr ()"
  unfolding retire_call_def Let_def owner_call.simps
  by (rule object_is_public) (code_simp, simp add: OWNER_MAX_RESPONSE_DEPTH_def)

lemma retire_body_read:
  "owner_session_payload toy_codec SessionRetire ''POST'' ''{}'' = Inr (cl_payload retire_call)"
proof -
  have "parse_control_json (cd_string toy_codec) (cd_retire_of toy_codec) ''{}'' = Inr toy_retire"
    by code_simp
  then show ?thesis
    using retire_public
    by (simp add: owner_session_payload_def operation_read_only_def retire_payload_def typed_session_command_def
        validate_public_value_def toy_values toy_retire_def safe_generation_def MAX_SAFE_INTEGER_def
        owner_valid_id_def id_char_def ascii_defs Let_def)
      (simp add: retire_call_def Let_def)
qed

definition lost_reply :: owner_reply where
  "lost_reply = \<lparr>rp_receipt = \<lparr>re_schema = OWNER_RECEIPT_SCHEMA, re_receipt_id = ''r1'',
     re_operation_id = ''unknown-provider_session-retire'', re_operation = ''provider_session.retire'',
     re_source = ''harness'', re_owner_epoch = 0, re_evidence = ''receipt_lookup_unavailable'',
     re_outcome = OwnerUnknown, re_effect_applied = False\<rparr>, rp_value = None, rp_effective_limits = None\<rparr>"

lemma lost_metadata: "safe_metadata_id ''harness''" "safe_metadata_id ''receipt_lookup_unavailable''"
  by code_simp+

lemma lost_receipt_valid: "validate_receipt (rp_receipt lost_reply) = Inr ()"
  by (simp add: validate_receipt_def lost_reply_def lost_metadata owner_valid_id_def id_char_def token_byte_def
      ascii_defs)

lemma lost_reply_made:
  "unknown_reply toy_codec ''r1'' (unknown_operation_id SessionRetire) SessionRetire ''harness'' 0
     ''receipt_lookup_unavailable'' = Inr lost_reply"
proof -
  have "unknown_operation_id SessionRetire = ''unknown-provider_session-retire''"
    by (simp add: unknown_operation_id_def)
  then show ?thesis
    using lost_receipt_valid
    by (simp add: unknown_reply_def new_receipt_def new_reply_def lost_reply_def)
qed

lemma session_authorized:
  "composition_authorize session_env (toy_context (Some ''c1'')) ControlLane toy_scope True log
     = Inr (cl_grant retire_call)"
  by (simp add: composition_authorize_Inr_iff session_env_def toy_book_def insert_grant_def empty_book_def
      bt_contains_get grants_access_def toy_context_def toy_grant_def retire_call_def Let_def)

lemma toy_session_fields_of_route:
  "rt_owner toy_session_route = Some \<lparr>co_trust = toy_trust\<rparr>"
  "rt_attached_scope toy_session_route = Some (view_of_scope toy_scope)"
  "rt_attached_bindings toy_session_route = bt_insert ''b1'' (view_of_scope toy_scope) bt_empty"
  "rt_attached_operations toy_session_route = bt_empty"
  "rt_capability_version toy_session_route = CapabilityV3"
  by (simp_all add: toy_session_route_def register_attached_binding_def expected_attached_scope_def
      session_attached_with_scope_def session_attached_def session_fixture_def owner_valid_id_def id_char_def
      ascii_defs bt_contains_get MAX_BINDINGS_def)

lemma retire_path_segments: "session_segments retire_path = Inr [''v1'', ''runs'', ''r'', ''provider-sessions'', ''b1'', ''retire'']"
  by (simp add: session_segments_def retire_path_def owner_valid_id_def id_char_def ascii_defs Let_def)

lemma no_char_no_needle:
  assumes "c \<notin> set s"
  shows "\<not> str_contains s (c # needle)"
  using assms in_set_takeD [of c _ "drop _ s"] in_set_dropD [of c _ s]
  by (auto simp: str_contains_def list_ex_iff) (metis list.set_intros(1))

lemma retire_path_allowed: "\<not> session_path_refused retire_path ''{}''"
  by (simp add: session_path_refused_def MAX_SESSION_BODY_BYTES_def retire_path_def no_char_no_needle)

lemma retire_made:
  "make_call toy_codec SessionRetire toy_scope (Some ''b1'') (cl_payload retire_call) (cl_grant retire_call)
     = Inr retire_call"
  by (simp add: make_call_Inr_iff toy_scope_valid validate_public_value_def toy_values retire_public)
    (simp add: retire_call_def Let_def)

lemma retire_delivered:
  "deliver toy_codec session_env SesUnavailable SesMalformedPeer SesUnavailable retire_call []
     = (Inr lost_reply, [OwnerLookedUp retire_lookup, OwnerCalled retire_call])"
proof -
  have "cl_operation retire_call = SessionRetire" "cl_scope retire_call = toy_scope"
    "cl_reference retire_call = Some ''b1''"
    by (simp_all add: retire_call_def Let_def)
  then show ?thesis
    by (simp add: deliver_def send_request_def session_env_def lookup_reply_def lost_reply_made retire_lookup_def
        owner_valid_id_def id_char_def ascii_defs Let_def)
qed

lemma session_run:
  "session_handle_attached producer toy_codec session_env ''POST'' retire_path (toy_context (Some ''c1'')) ''{}''
     toy_session_route []
     = (Inr (owner_session_result SessionRetire 0 lost_reply), toy_session_route,
        [OwnerLookedUp retire_lookup, OwnerCalled retire_call])"
proof -
  have lane: "operation_grant_class SessionRetire = ControlLane" "\<not> operation_read_only SessionRetire"
    by (simp_all add: operation_grant_class_def operation_read_only_def)
  have run: "sv_run_id (view_of_scope toy_scope) = ''r''" "scope_of_view (view_of_scope toy_scope) = toy_scope"
    by (simp_all add: view_of_scope_def scope_of_view_def toy_scope_def make_scope_def)
  have resolved: "resolve_attached toy_session_route ''POST'' ''r''
      [''v1'', ''runs'', ''r'', ''provider-sessions'', ''b1'', ''retire''] = Inr (SessionRetire, Some ''b1'', True)"
    by (simp add: resolve_attached_def resolve_binding_route_def toy_session_fields_of_route run Let_def
        owner_valid_id_def id_char_def ascii_defs)
  have valid: "validate_for toy_codec SessionRetire lost_reply = Inr ()"
    by (simp add: validate_for_def lost_receipt_valid validate_limit_sidecar_def lane)
      (simp add: lost_reply_def)
  have epoch: "gt_revocation_epoch (cl_grant retire_call) = 0" "rp_value lost_reply = None"
    by (simp_all add: retire_call_def lost_reply_def Let_def)
  have reply: "delegate_reply producer toy_codec session_env toy_session_route SessionRetire toy_scope (Some ''b1'')
      (cl_payload retire_call) (toy_context (Some ''c1'')) True []
      = (Inr (lost_reply, 0), [OwnerLookedUp retire_lookup, OwnerCalled retire_call])"
    by (simp add: delegate_reply_def log_then_def pure_result_def authorize_now_def toy_session_fields_of_route
        session_authorized lane ensure_attached_capacity_def retire_made retire_delivered valid epoch
        trust_present_other MAX_SESSION_OPERATIONS_def)
  show ?thesis
    by (simp add: session_handle_attached_def retire_path_allowed retire_path_segments resolved Let_def
        toy_session_fields_of_route expected_attached_scope_def run retire_body_read delegate_attached_def reply
        record_attached_references_def epoch)
qed

subsection \<open>A candidate of the local registry\<close>

definition candidates_path :: string where
  "candidates_path = ''/v1/runs/r/provider-sessions/candidates''"

definition after_candidate :: session_route where
  "after_candidate = snd (session_handle_local toy_codec 5 ''POST'' candidates_path ''u1'' ''{}''
     (session_fixture toy_codec ''u1''))"

lemma candidates_path_segments:
  "session_segments candidates_path = Inr [''v1'', ''runs'', ''r'', ''provider-sessions'', ''candidates'']"
  by (simp add: session_segments_def candidates_path_def owner_valid_id_def id_char_def ascii_defs Let_def)

lemma candidates_path_allowed: "\<not> session_path_refused candidates_path ''{}''"
  by (simp add: session_path_refused_def MAX_SESSION_BODY_BYTES_def candidates_path_def no_char_no_needle)

lemma candidate_read: "candidate_request toy_codec ''{}'' = Inr (candidate_object, ''k1'')"
  by code_simp

lemma dec_one: "dec (Suc 0) = ''1''"
  by code_simp

lemma candidate_run:
  "session_handle_local toy_codec 5 ''POST'' candidates_path ''u1'' ''{}'' (session_fixture toy_codec ''u1'')
     = (Inr (accepted_operation ''operation-1'' ''binding-1''), after_candidate)"
  unfolding after_candidate_def
  by (simp add: session_handle_local_def candidates_path_segments candidates_path_allowed Let_def
      mutate_candidate_def candidate_read session_fixture_def MAX_SESSION_BODY_BYTES_def MAX_BINDINGS_def
      MAX_CANDIDATES_def candidate_count_def dash_numbered_def dec_one)

lemma fixture_starts: "registry_start toy_codec (session_fixture toy_codec ''u1'')"
  unfolding registry_start_def
  by (intro exI [of _ "''u1''"] exI [of _ "rt_mode (session_fixture toy_codec ''u1'')"]
      exI [of _ "rt_capability_version (session_fixture toy_codec ''u1'')"]) simp

lemma after_candidate_reached: "registry_reachable toy_codec after_candidate"
proof -
  have "registry_step toy_codec (session_fixture toy_codec ''u1'') after_candidate"
    unfolding after_candidate_def by (rule registry_step.request)
  with reach.start [where start = "registry_start toy_codec", OF fixture_starts] show ?thesis
    by (rule reach.step)
qed

end
