(* ===== verification/Delegation_Guarantees.thy ===== *)
theory Delegation_Guarantees
  imports Memory_Runs
begin

text \<open>
  What the owner surfaces guarantee: a value is admitted only under an executable limit within the
  pinned ceiling, a request is sent to the owner at most once and only under the grant of its
  bearer, a query only after its limits are proven, and the local registry repeats its answers and
  stays bounded.
\<close>

subsection \<open>Effective limits\<close>

text \<open>
  C36. A descriptor that validates selects, for every limit of its surface, a positive value of at
  most the ceiling of the pinned schema; and a value is admitted under it exactly when the
  presented record is the one that the descriptor derives, the surface is enabled, and the value is
  at most the selected limit of that name.
\<close>

theorem admitted_values_are_executable:
  assumes "memory_validate_descriptor cd c = Inr ()" "session_validate_descriptor cd d = Inr ()"
  shows "within_ceilings (memory_limit_rows (mc_effective_limits c)) (memory_limit_rows fixture_effective_limits)
    \<and> within_ceilings (session_limit_rows (sc_effective_limits d)) (session_limit_rows fixture_session_limits)
    \<and> (memory_admit_authorized_record c r name n = Inr () \<longleftrightarrow>
         r = memory_limit_record c \<and> mc_enabled c
         \<and> (\<exists>row\<in>set (memory_limit_rows (mc_effective_limits c)).
              lr_field row = name \<and> n \<le> lr_executable_ceiling row))
    \<and> (session_admit_authorized_record d r name n = Inr () \<longleftrightarrow>
         r = session_limit_record d \<and> sc_enabled_methods d \<noteq> []
         \<and> (\<exists>row\<in>set (session_limit_rows (sc_effective_limits d)).
              lr_field row = name \<and> n \<le> lr_executable_ceiling row))"
proof -
  have "record_validate (memory_limit_record c) = Inr ()" "record_validate (session_limit_record d) = Inr ()"
    using assms by (auto simp: memory_validate_descriptor_def session_validate_descriptor_def result_simps)
  then show ?thesis
    using memory_limits_within [OF assms(1)] session_limits_within [OF assms(2)]
    by (simp add: memory_admit_Inr_iff session_admit_Inr_iff)
qed

theorem admitted_values_are_executable_witness:
  "within_ceilings (memory_limit_rows (mc_effective_limits toy_descriptor))
      (memory_limit_rows fixture_effective_limits)
    \<and> memory_admit_authorized_record toy_descriptor (memory_limit_record toy_descriptor) ''max_results'' 16 = Inr ()
    \<and> session_admit_authorized_record toy_session_descriptor (memory_limit_record toy_descriptor)
        ''max_results'' 16 \<noteq> Inr ()"
  using admitted_values_are_executable [OF toy_descriptor_valid toy_session_valid,
      of "memory_limit_record toy_descriptor" "''max_results''" 16]
  by (simp add: toy_descriptor_fields)
    (simp add: memory_limit_rows_def fixture_effective_limits_def limit_row_defs memory_limit_record_def
      session_limit_record_def toy_descriptor_fields toy_session_fields)

subsection \<open>Delegation\<close>

text \<open>
  C37. A request on the attached session route is refused without a word to the owner and without a
  trace in the route, or is one exchange: a single call with the payload that its body decodes to,
  under a grant of the bearer that is live at that moment, with its class, scope, host, origin and,
  for a mutation, its CSRF token; followed at most by one lookup of a receipt that the owner named
  as lost. A reference in the call is one that the owner published for the run of the request.
\<close>

theorem session_delegation_is_at_most_once:
  assumes "session_handle_attached producer cd env method path ctx body rt log = (r, rt', log')"
  shows "(log' = log \<and> rt' = rt \<and> (\<exists>e. r = Inl e))
    \<or> (\<exists>run op call. forwarded env ctx op (session_request_scope rt run) call log log'
        \<and> owner_session_payload cd op method body = Inr (cl_payload call)
        \<and> (\<forall>i. cl_reference call = Some i \<longrightarrow> owner_valid_id i \<and> (\<exists>scope. sv_run_id scope = run
            \<and> (bt_get (rt_attached_bindings rt) i = Some scope
               \<or> bt_get (rt_attached_operations rt) i = Some scope))))"
  by (rule session_attached_cases [OF assms])

theorem session_delegation_is_at_most_once_witness:
  "\<exists>run op call. forwarded session_env (toy_context (Some ''c1'')) op
       (session_request_scope toy_session_route run) call [] [OwnerLookedUp retire_lookup, OwnerCalled retire_call]
     \<and> owner_session_payload toy_codec op ''POST'' ''{}'' = Inr (cl_payload call)"
  using session_delegation_is_at_most_once [OF session_run] by blast

text \<open>
  C38. A request on the attached memory route is refused without a word, or is one exchange as
  above, which is a search only where the route was rolled back to the first capability version
  (which publishes no limits), or, under the third version, starts with a probe of the owner's
  capabilities: the search itself is then sent only when the answer of the trusted owner, in its
  scope and epoch, is exactly the record that the trusted descriptor derives, the surface is enabled
  and the query is within its three limits, and again only under a live grant. So under the third
  version, the one of every new route, each search that is sent has been proven.
\<close>

theorem searches_are_proven_before_they_are_sent:
  assumes "memory_handle_attached producer cd env m method path ctx body log = (r, log')"
  defines "scope \<equiv> scope_of_memory (mr_scope m)"
  shows "(log' = log \<and> (\<exists>e. r = Inl e))
    \<or> (\<exists>op call. (op = MemoryQuery \<longrightarrow> mr_capability_version m = CapabilityV1)
        \<and> forwarded env ctx op scope call log log')
    \<or> (\<exists>probe. mr_capability_version m = CapabilityV3
        \<and> forwarded env ctx MemoryCapabilities scope probe log (OwnerCalled probe # log)
        \<and> ((log' = OwnerCalled probe # log \<and> (\<exists>e. r = Inl e))
           \<or> (\<exists>composition q call. mr_owner m = Some composition
                \<and> limits_proven env (co_trust composition) scope q (OwnerCalled probe # log)
                \<and> forwarded env ctx MemoryQuery scope call (OwnerCalled probe # log) log'
                \<and> cl_payload call = query_value q)))"
proof -
  have "(op = MemoryQuery \<longrightarrow> mr_capability_version m = CapabilityV1) \<longleftrightarrow> \<not> proving_query m op" for op
    by (cases "mr_capability_version m") (auto simp: proving_query_def)
  then show ?thesis
    unfolding scope_def by (simp only: memory_attached_cases [OF assms(1)])
qed

theorem searches_are_proven_before_they_are_sent_witness:
  "\<exists>q. limits_proven memory_env toy_trust toy_scope q [OwnerCalled probe_call]
     \<and> forwarded memory_env (toy_context None) MemoryQuery toy_scope query_call [OwnerCalled probe_call]
         [OwnerCalled query_call, OwnerCalled probe_call]
     \<and> cl_payload query_call = query_value q"
proof -
  have "cl_operation query_call = MemoryQuery"
    by (simp add: query_call_def)
  then show ?thesis
    using searches_are_proven_before_they_are_sent [OF memory_run]
    by (auto simp: toy_route_fields toy_scope_of_route forwarded_def exchanged_def memory_env_def
        split: if_splits)
qed

subsection \<open>The local registry\<close>

text \<open>
  C39. In every later state of the local session registry a repeated mutation is answered as the
  first time and changes nothing, whatever happened in between; and a reachable registry holds at
  most 128 bindings, 640 operations and 1152 idempotency records, of which the counter of the
  identifiers is exactly one ahead, so no identifier is given twice.
\<close>

theorem registry_repeats_and_is_bounded:
  assumes "registry_reachable cd rt" "registry_steps cd t u"
    and "session_handle_local cd now ''POST'' path user body rt = (Inr v, t)"
  shows "session_handle_local cd now' ''POST'' path user body u = (Inr v, u)
    \<and> bt_len (rt_bindings u) \<le> 128 \<and> bt_len (rt_operations u) \<le> 640
    \<and> bt_len (rt_idempotency u) \<le> 1152
    \<and> unat (rt_next_id u) = Suc (bt_len (rt_idempotency u))"
proof -
  have "registry_step cd rt t"
    using registry_step.request [of cd rt now "''POST''" path user body] assms(3) by simp
  then have "registry_reachable cd u"
    using reach.step [OF assms(1)] reach_steps [OF assms(2)] by blast
  from registry_kept.holds [OF this] show ?thesis
    using posts_repeat [OF assms, of now']
    by (simp add: session_registry_ok_def MAX_BINDINGS_def MAX_SESSION_OPERATIONS_def)
qed

theorem registry_repeats_and_is_bounded_witness:
  "session_handle_local toy_codec 9 ''POST'' candidates_path ''u1'' ''{}'' after_candidate
     = (Inr (accepted_operation ''operation-1'' ''binding-1''), after_candidate)
   \<and> bt_len (rt_operations after_candidate) \<le> 640"
proof -
  have "registry_reachable toy_codec (session_fixture toy_codec ''u1'')"
    by (rule reach.start) (rule fixture_starts)
  from registry_repeats_and_is_bounded [OF this rtranclp.rtrancl_refl candidate_run, of 9] show ?thesis
    by blast
qed

end
