(* ===== verification/Wire_Validation.thy ===== *)
theory Wire_Validation
  imports Rust_Text Btree_Map
begin

text \<open>
  The validation that all records of the Harness context-owner protocol share
  (\<open>context-service/src/harness_context_owner_wire/validation.rs\<close> and \<open>digest.rs\<close>): schemas,
  identifiers, correlation text, digests, the bounded shape of a JSON body, and the encoding and
  decoding of a record through it. An error names the field that it is about.
\<close>

definition MAX_HARNESS_JSON_BODY_BYTES :: nat where
  "MAX_HARNESS_JSON_BODY_BYTES = 1024 * 1024"
definition MAX_HARNESS_JSON_DEPTH :: nat where "MAX_HARNESS_JSON_DEPTH = 32"
definition MAX_HARNESS_ITEMS :: nat where "MAX_HARNESS_ITEMS = 64"
definition MAX_HARNESS_NOTES :: nat where "MAX_HARNESS_NOTES = 16"
definition MAX_HARNESS_CONTEXT_BYTES :: nat where "MAX_HARNESS_CONTEXT_BYTES = 128 * 1024"
definition MAX_HARNESS_NOTE_BYTES :: nat where "MAX_HARNESS_NOTE_BYTES = 4 * 1024"
definition MAX_HARNESS_OBJECTIVE_BYTES :: nat where "MAX_HARNESS_OBJECTIVE_BYTES = 512"
definition MAX_HARNESS_DRAFT_OPERATIONS :: nat where "MAX_HARNESS_DRAFT_OPERATIONS = 32"
definition MAX_HARNESS_PAGE_SIZE :: nat where "MAX_HARNESS_PAGE_SIZE = 50"
definition MAX_HARNESS_PUBLICATIONS :: nat where "MAX_HARNESS_PUBLICATIONS = 16"

datatype wire_error =
    UnsupportedSchema string | InvalidIdentifier string | InvalidDigest string
  | InvalidValue string | OutOfBounds string | CorrelationMismatch string
  | JsonEncoding | JsonDecoding

type_synonym wire_check = "wire_error + unit"

subsection \<open>Fields\<close>

definition wire_schema :: "string \<Rightarrow> string \<Rightarrow> wire_check" where
  "wire_schema actual expected = ensure (actual = expected) (UnsupportedSchema expected)"

definition wire_id_byte :: "nat \<Rightarrow> bool" where
  "wire_id_byte b \<longleftrightarrow> ascii_alphanumeric b \<or> b \<in> {46, 95, 58, 45}"

definition wire_identifier :: "string \<Rightarrow> string \<Rightarrow> wire_check" where
  "wire_identifier name s =
     ensure (\<not> (s = [] \<or> length s > 128 \<or> \<not> ascii_alphanumeric (bv (hd s))
       \<or> \<not> list_all (\<lambda>c. wire_id_byte (bv c)) s)) (InvalidIdentifier name)"

definition correlation_text :: "string \<Rightarrow> string \<Rightarrow> wire_check" where
  "correlation_text name s =
     ensure (\<not> (s = [] \<or> length s > 512 \<or> list_ex is_control (chars s))) (InvalidIdentifier name)"

definition wire_digest :: "string \<Rightarrow> string \<Rightarrow> wire_check" where
  "wire_digest name s =
     ensure (\<not> (length s \<noteq> 64
       \<or> \<not> list_all (\<lambda>c. ascii_digit (bv c) \<or> 97 \<le> bv c \<and> bv c \<le> 102) s)) (InvalidDigest name)"

text \<open>The loops \<open>for (field, value) in [...]\<close>: the first field that is refused is the error.\<close>

fun all_fields :: "(string \<Rightarrow> string \<Rightarrow> wire_check) \<Rightarrow> (string \<times> string) list \<Rightarrow> wire_check" where
  "all_fields check [] = Inr ()"
| "all_fields check ((name, s) # fs) = and_then (check name s) (\<lambda>_. all_fields check fs)"

text \<open>A loop that checks every element of a list in turn.\<close>

fun each :: "('a \<Rightarrow> wire_check) \<Rightarrow> 'a list \<Rightarrow> wire_check" where
  "each check [] = Inr ()"
| "each check (x # xs) = and_then (check x) (\<lambda>_. each check xs)"

text \<open>
  A loop that checks an element and then inserts its key in a \<open>BTreeSet\<close>, refusing a key that
  is there already; it returns the set of the keys.
\<close>

fun each_unique ::
  "('a \<Rightarrow> wire_check) \<Rightarrow> ('a \<Rightarrow> 'k) \<Rightarrow> wire_error \<Rightarrow> 'k list \<Rightarrow> 'a list \<Rightarrow> wire_error + 'k list" where
  "each_unique check key duplicate seen [] = Inr seen"
| "each_unique check key duplicate seen (x # xs) =
     and_then (check x) (\<lambda>_.
     and_then (ensure (key x \<notin> set seen) duplicate) (\<lambda>_.
     each_unique check key duplicate (key x # seen) xs))"

lemma all_fields_Inr_iff [result_simps]:
  "all_fields check fs = Inr u \<longleftrightarrow> (\<forall>(name, s)\<in>set fs. check name s = Inr ())"
  by (induction fs) (auto simp: result_simps)

lemma each_Inr_iff [result_simps]: "each check xs = Inr u \<longleftrightarrow> (\<forall>x\<in>set xs. check x = Inr ())"
  by (induction xs) (auto simp: result_simps)

lemma each_unique_Inr_iff [result_simps]:
  "each_unique check key e seen xs = Inr ks \<longleftrightarrow>
     (\<forall>x\<in>set xs. check x = Inr ()) \<and> distinct (map key xs) \<and> set (map key xs) \<inter> set seen = {}
     \<and> ks = rev (map key xs) @ seen"
  by (induction xs arbitrary: seen) (auto simp: result_simps)

subsection \<open>The shape of a JSON body\<close>

text \<open>
  What the streaming deserializer of \<open>serde_json\<close> meets, in its order: a scalar, a syntax error,
  or an array or object whose flag is false when a syntax error ends it after its last whole
  element. The keys of an object are decoded strings, duplicates included.
\<close>

datatype scanned =
    ScanScalar | ScanBroken
  | ScanSeq "scanned list" bool
  | ScanMap "(string \<times> scanned) list" bool

text \<open>
  The visitor. Its error is the failure that the budget recorded, or \<open>JsonDecoding\<close> for a syntax
  error; the state is the number of nodes entered so far.
\<close>

definition shape_enter :: "nat \<Rightarrow> nat \<Rightarrow> nat \<Rightarrow> wire_error + nat" where
  "shape_enter limit depth nodes =
     (if Suc nodes > limit \<or> depth > MAX_HARNESS_JSON_DEPTH then Inl (OutOfBounds ''json_shape'')
      else Inr (Suc nodes))"

fun shape_visit :: "nat \<Rightarrow> nat \<Rightarrow> scanned \<Rightarrow> nat \<Rightarrow> wire_error + nat"
and shape_seq :: "nat \<Rightarrow> nat \<Rightarrow> scanned list \<Rightarrow> bool \<Rightarrow> nat \<Rightarrow> wire_error + nat"
and shape_map :: "nat \<Rightarrow> nat \<Rightarrow> string list \<Rightarrow> (string \<times> scanned) list \<Rightarrow> bool \<Rightarrow> nat \<Rightarrow> wire_error + nat" where
  "shape_visit limit depth t nodes =
     and_then (shape_enter limit depth nodes) (\<lambda>n.
     (case t of
        ScanScalar \<Rightarrow> Inr n
      | ScanBroken \<Rightarrow> Inl JsonDecoding
      | ScanSeq ts closed \<Rightarrow> shape_seq limit (Suc depth) ts closed n
      | ScanMap kvs closed \<Rightarrow> shape_map limit (Suc depth) [] kvs closed n))"
| "shape_seq limit depth [] closed nodes = (if closed then Inr nodes else Inl JsonDecoding)"
| "shape_seq limit depth (t # ts) closed nodes =
     and_then (shape_visit limit depth t nodes) (shape_seq limit depth ts closed)"
| "shape_map limit depth keys [] closed nodes = (if closed then Inr nodes else Inl JsonDecoding)"
| "shape_map limit depth keys ((k, t) # kvs) closed nodes =
     (if k \<in> set keys then Inl JsonDecoding
      else and_then (shape_visit limit depth t nodes) (shape_map limit depth (k # keys) kvs closed))"

text \<open>\<open>scan\<close> stands for \<open>serde_json\<close>: the document, and whether only white space follows it.\<close>

definition wire_json_shape :: "(bytes \<Rightarrow> scanned \<times> bool) \<Rightarrow> bytes \<Rightarrow> wire_check" where
  "wire_json_shape scan bs =
     (if length bs > MAX_HARNESS_JSON_BODY_BYTES then Inl (OutOfBounds ''json_body'')
      else and_then (shape_visit (Suc (length bs)) 1 (fst (scan bs)) 0) (\<lambda>_.
           ensure (snd (scan bs)) JsonDecoding))"

subsection \<open>Bodies\<close>

text \<open>\<open>to_vec\<close> and \<open>from_slice\<close> are the encoder and the decoder of one record.\<close>

definition bounded_json_bytes ::
  "(bytes \<Rightarrow> scanned \<times> bool) \<Rightarrow> ('a \<Rightarrow> bytes option) \<Rightarrow> 'a \<Rightarrow> wire_error + bytes" where
  "bounded_json_bytes scan to_vec x =
     and_then (ok_or (to_vec x) JsonEncoding) (\<lambda>bs.
     and_then (map_err (\<lambda>e. if e = JsonDecoding then JsonEncoding else e) (wire_json_shape scan bs)) (\<lambda>_.
     Inr bs))"

definition decode_bounded_json ::
  "(bytes \<Rightarrow> scanned \<times> bool) \<Rightarrow> (bytes \<Rightarrow> 'a option) \<Rightarrow> bytes \<Rightarrow> wire_error + 'a" where
  "decode_bounded_json scan from_slice bs =
     and_then (wire_json_shape scan bs) (\<lambda>_. ok_or (from_slice bs) JsonDecoding)"

datatype digest_error = DigestInvalid | DigestRequest

definition serialized_request_digest ::
  "(bytes \<Rightarrow> bytes) \<Rightarrow> (bytes \<Rightarrow> scanned \<times> bool) \<Rightarrow> ('a \<Rightarrow> bytes option) \<Rightarrow> 'a \<Rightarrow> digest_error + string" where
  "serialized_request_digest sha scan to_vec x =
     and_then (map_err (\<lambda>_. DigestRequest) (bounded_json_bytes scan to_vec x)) (\<lambda>bs. Inr (hex_bytes (sha bs)))"

subsection \<open>Facts\<close>

lemma bounded_body:
  assumes "bounded_json_bytes scan to_vec x = Inr bs"
  shows "to_vec x = Some bs" "length bs \<le> MAX_HARNESS_JSON_BODY_BYTES"
  using assms by (auto simp: bounded_json_bytes_def wire_json_shape_def result_simps split: if_splits)

end
