(* ===== verification/Wire_Records.thy ===== *)
theory Wire_Records
  imports Wire_Validation
begin

text \<open>
  The records of the Harness context-owner protocol that requests and responses are made of
  (\<open>context-service/src/harness_context_owner_wire/boundary.rs\<close>, \<open>identity.rs\<close> and
  \<open>drafts/records.rs\<close>), each with its validation.
  Field prefixes: \<open>wb_\<close> boundary, \<open>ws_\<close> source, \<open>wl_\<close> limits, \<open>wk_\<close> continuity, \<open>wg_\<close> grants,
  \<open>wn_\<close> owner binding, \<open>wa_\<close> association view, \<open>wv_\<close> limits view, \<open>wo_\<close> console identity,
  \<open>wp_\<close> console scope, \<open>wh_\<close> harness identity, \<open>wi_\<close> correlation, \<open>wr_\<close> item reference, \<open>we_\<close> item,
  \<open>wt_\<close> note, \<open>wd_\<close> draft.
\<close>

subsection \<open>The boundary\<close>

record wire_boundary =
  wb_run_id :: string
  wb_episode_id :: string
  wb_agent_id :: string
  wb_state_id :: string
  wb_generation :: u64
  wb_observation_sha256 :: string
  wb_catalog_sha256 :: string
  wb_adapter_revision :: string
  wb_model_revision :: string
  wb_configuration_sha256 :: string
  wb_output_schema_sha256 :: string
  wb_controller_epoch :: u64
  wb_gate_epoch :: u64
  wb_control_version :: u64

definition boundary_validate :: "wire_boundary \<Rightarrow> wire_check" where
  "boundary_validate b =
     and_then (all_fields wire_identifier
       [(''boundary_run_id'', wb_run_id b), (''boundary_episode_id'', wb_episode_id b),
        (''boundary_agent_id'', wb_agent_id b), (''boundary_state_id'', wb_state_id b),
        (''boundary_adapter_revision'', wb_adapter_revision b),
        (''boundary_model_revision'', wb_model_revision b)]) (\<lambda>_.
     and_then (all_fields wire_digest
       [(''boundary_observation_sha256'', wb_observation_sha256 b),
        (''boundary_catalog_sha256'', wb_catalog_sha256 b),
        (''boundary_configuration_sha256'', wb_configuration_sha256 b),
        (''boundary_output_schema_sha256'', wb_output_schema_sha256 b)]) (\<lambda>_.
     ensure (\<not> (wb_generation b = 0 \<or> wb_controller_epoch b = 0 \<or> wb_gate_epoch b = 0
       \<or> wb_control_version b = 0)) (InvalidValue ''boundary_epoch'')))"

subsection \<open>The owner binding\<close>

datatype binding_state =
  BindingAvailable | BindingDisabled | BindingUnattached | BindingDenied | BindingStale | BindingUnsupported

record binding_source =
  ws_source_id :: string
  ws_version :: u64
  ws_digest :: string

definition source_validate :: "binding_source \<Rightarrow> wire_check" where
  "source_validate s =
     and_then (wire_identifier ''binding_source_id'' (ws_source_id s)) (\<lambda>_.
     and_then (wire_digest ''binding_source_digest'' (ws_digest s)) (\<lambda>_.
     ensure (ws_version s \<noteq> 0) (InvalidValue ''binding_source_version'')))"

record wire_limits =
  wl_max_items :: u64
  wl_max_notes :: u64
  wl_max_context_bytes :: u64
  wl_max_objective_bytes :: u64
  wl_max_control_events :: u64
  wl_output_reserve_bytes :: "u64 option"

definition limits_validate :: "wire_limits \<Rightarrow> wire_check" where
  "limits_validate l =
     ensure (\<not> (wl_max_items l = 0 \<or> wl_max_items l > of_nat MAX_HARNESS_ITEMS
       \<or> wl_max_notes l > of_nat MAX_HARNESS_NOTES
       \<or> wl_max_context_bytes l = 0 \<or> wl_max_context_bytes l > of_nat MAX_HARNESS_CONTEXT_BYTES
       \<or> wl_max_objective_bytes l = 0 \<or> wl_max_objective_bytes l > of_nat MAX_HARNESS_OBJECTIVE_BYTES
       \<or> wl_max_control_events l = 0 \<or> wl_output_reserve_bytes l = Some 0))
       (OutOfBounds ''effective_limits'')"

record binding_continuity =
  wk_survives_controller_restart :: bool
  wk_receipt_recovery :: bool
  wk_provider_session_continuity :: bool

record binding_grants =
  wg_metadata_read :: bool
  wg_content_read :: bool
  wg_edit :: bool
  wg_control :: bool

definition grants_validate :: "binding_grants \<Rightarrow> wire_check" where
  "grants_validate g =
     ensure (\<not> (wg_content_read g \<and> \<not> wg_metadata_read g \<or> wg_edit g \<and> \<not> wg_content_read g
       \<or> wg_control g \<and> \<not> wg_metadata_read g)) (InvalidValue ''binding_grants'')"

definition CONTEXT_OWNER_BINDING_SCHEMA_V1 :: string where
  "CONTEXT_OWNER_BINDING_SCHEMA_V1 = ''ascension.context-control.owner-binding.v1''"

record wire_binding =
  wn_schema_version :: string
  wn_owner_id :: string
  wn_owner_version :: string
  wn_invocation_id :: string
  wn_binding_id :: string
  wn_binding_version :: u64
  wn_binding_digest :: string
  wn_context_ref :: string
  wn_instance_id :: string
  wn_node_kind :: string
  wn_state :: binding_state
  wn_workflow_run_id :: string
  wn_definition_digest :: string
  wn_graph_id :: string
  wn_node_id :: string
  wn_node_execution_id :: string
  wn_boundary :: wire_boundary
  wn_lease_epoch :: u64
  wn_snapshot_id :: string
  wn_approved_revision_id :: string
  wn_plan_epoch :: u64
  wn_grants :: binding_grants
  wn_continuity :: binding_continuity

definition binding_validate :: "wire_binding \<Rightarrow> wire_check" where
  "binding_validate n =
     and_then (wire_schema (wn_schema_version n) CONTEXT_OWNER_BINDING_SCHEMA_V1) (\<lambda>_.
     and_then (all_fields wire_identifier
       [(''binding_owner_id'', wn_owner_id n), (''binding_owner_version'', wn_owner_version n),
        (''binding_invocation_id'', wn_invocation_id n), (''binding_id'', wn_binding_id n),
        (''binding_context_ref'', wn_context_ref n), (''binding_instance_id'', wn_instance_id n),
        (''binding_node_kind'', wn_node_kind n), (''binding_run_id'', wn_workflow_run_id n),
        (''binding_graph_id'', wn_graph_id n), (''binding_node_id'', wn_node_id n),
        (''binding_node_execution_id'', wn_node_execution_id n),
        (''binding_snapshot_id'', wn_snapshot_id n),
        (''binding_approved_revision_id'', wn_approved_revision_id n)]) (\<lambda>_.
     and_then (wire_digest ''binding_digest'' (wn_binding_digest n)) (\<lambda>_.
     and_then (wire_digest ''binding_definition_digest'' (wn_definition_digest n)) (\<lambda>_.
     and_then (boundary_validate (wn_boundary n)) (\<lambda>_.
     and_then (grants_validate (wn_grants n)) (\<lambda>_.
     ensure (\<not> (wn_binding_version n = 0 \<or> wn_lease_epoch n = 0 \<or> wn_plan_epoch n = 0
       \<or> wn_workflow_run_id n \<noteq> wb_run_id (wn_boundary n)
       \<or> wn_state n = BindingAvailable \<and> \<not> wg_metadata_read (wn_grants n)))
       (InvalidValue ''owner_binding'')))))))"

definition CONTEXT_OWNER_ASSOCIATION_VIEW_SCHEMA_V1 :: string where
  "CONTEXT_OWNER_ASSOCIATION_VIEW_SCHEMA_V1 = ''ascension.harness.context-owner-association-view.v1''"
definition CONTEXT_OWNER_EFFECTIVE_LIMITS_VIEW_SCHEMA_V1 :: string where
  "CONTEXT_OWNER_EFFECTIVE_LIMITS_VIEW_SCHEMA_V1 =
     ''ascension.harness.context-owner-effective-limits-view.v1''"

record association_view =
  wa_schema_version :: string
  wa_binding :: wire_binding

definition association_view_validate :: "association_view \<Rightarrow> wire_check" where
  "association_view_validate v =
     and_then (wire_schema (wa_schema_version v) CONTEXT_OWNER_ASSOCIATION_VIEW_SCHEMA_V1) (\<lambda>_.
     binding_validate (wa_binding v))"

record limits_view =
  wv_schema_version :: string
  wv_owner_id :: string
  wv_owner_version :: string
  wv_catalog_digest :: string
  wv_binding_id :: string
  wv_binding_version :: u64
  wv_binding_digest :: string
  wv_context_ref :: string
  wv_node_kind :: string
  wv_adapter_revision :: string
  wv_model_revision :: string
  wv_effective_limits :: wire_limits

definition limits_view_validate :: "limits_view \<Rightarrow> wire_check" where
  "limits_view_validate v =
     and_then (wire_schema (wv_schema_version v) CONTEXT_OWNER_EFFECTIVE_LIMITS_VIEW_SCHEMA_V1) (\<lambda>_.
     and_then (all_fields wire_identifier
       [(''limits_owner_id'', wv_owner_id v), (''limits_owner_version'', wv_owner_version v),
        (''limits_binding_id'', wv_binding_id v), (''limits_context_ref'', wv_context_ref v),
        (''limits_node_kind'', wv_node_kind v), (''limits_adapter_revision'', wv_adapter_revision v),
        (''limits_model_revision'', wv_model_revision v)]) (\<lambda>_.
     and_then (wire_digest ''limits_catalog_digest'' (wv_catalog_digest v)) (\<lambda>_.
     and_then (wire_digest ''limits_binding_digest'' (wv_binding_digest v)) (\<lambda>_.
     and_then (limits_validate (wv_effective_limits v)) (\<lambda>_.
     ensure (wv_binding_version v \<noteq> 0) (InvalidValue ''limits_binding_version''))))))"

subsection \<open>Identities\<close>

record console_identity =
  wo_issuer :: string
  wo_subject :: string
  wo_audience :: string
  wo_credential_id :: string
  wo_grant_id :: string
  wo_grant_generation :: u64
  wo_grant_expires_at :: u64

definition console_identity_validate :: "console_identity \<Rightarrow> wire_check" where
  "console_identity_validate c =
     and_then (all_fields correlation_text
       [(''console_issuer'', wo_issuer c), (''console_audience'', wo_audience c),
        (''console_credential_id'', wo_credential_id c)]) (\<lambda>_.
     and_then (all_fields wire_identifier
       [(''console_subject'', wo_subject c), (''console_grant_id'', wo_grant_id c)]) (\<lambda>_.
     ensure (wo_grant_expires_at c \<noteq> 0) (InvalidValue ''console_grant_lifetime'')))"

record console_scope =
  wp_project_id :: string
  wp_run_id :: string
  wp_episode_id :: string
  wp_agent_id :: string

definition console_scope_validate :: "console_scope \<Rightarrow> wire_check" where
  "console_scope_validate s = all_fields wire_identifier
     [(''console_project_id'', wp_project_id s), (''console_run_id'', wp_run_id s),
      (''console_episode_id'', wp_episode_id s), (''console_agent_id'', wp_agent_id s)]"

record harness_identity =
  wh_actor_subject :: string
  wh_owner_id :: string
  wh_workflow_run_id :: string
  wh_credential_reference_id :: string
  wh_credential_expires_at :: u64

definition harness_identity_validate :: "harness_identity \<Rightarrow> wire_check" where
  "harness_identity_validate h =
     and_then (all_fields wire_identifier
       [(''harness_actor_subject'', wh_actor_subject h), (''harness_owner_id'', wh_owner_id h),
        (''harness_workflow_run_id'', wh_workflow_run_id h)]) (\<lambda>_.
     and_then (correlation_text ''harness_credential_reference_id'' (wh_credential_reference_id h)) (\<lambda>_.
     ensure (wh_credential_expires_at h \<noteq> 0) (InvalidValue ''harness_credential_expiry'')))"

record identity_correlation =
  wi_console :: console_identity
  wi_console_scope :: console_scope
  wi_harness :: harness_identity

definition identity_validate :: "identity_correlation \<Rightarrow> wire_check" where
  "identity_validate i =
     and_then (console_identity_validate (wi_console i)) (\<lambda>_.
     and_then (console_scope_validate (wi_console_scope i)) (\<lambda>_.
     and_then (harness_identity_validate (wi_harness i)) (\<lambda>_.
     and_then (ensure (wo_subject (wi_console i) = wh_actor_subject (wi_harness i))
       (CorrelationMismatch ''actor_subject'')) (\<lambda>_.
     ensure (wp_run_id (wi_console_scope i) = wh_workflow_run_id (wi_harness i))
       (CorrelationMismatch ''workflow_run_id'')))))"

subsection \<open>Items, notes and drafts\<close>

record wire_item_ref =
  wr_item_id :: string
  wr_version :: u64
  wr_sha256 :: string

definition wire_ref_validate :: "wire_item_ref \<Rightarrow> wire_check" where
  "wire_ref_validate r =
     and_then (wire_identifier ''item_id'' (wr_item_id r)) (\<lambda>_.
     and_then (wire_digest ''item_sha256'' (wr_sha256 r)) (\<lambda>_.
     ensure (wr_version r \<noteq> 0) (InvalidValue ''item_version'')))"

record wire_item =
  we_reference :: wire_item_ref
  we_kind :: string
  we_bytes :: bytes
  we_protected :: bool
  we_expires_at :: u64

definition wire_item_validate :: "wire_item \<Rightarrow> wire_check" where
  "wire_item_validate e =
     and_then (wire_ref_validate (we_reference e)) (\<lambda>_.
     and_then (wire_identifier ''item_kind'' (we_kind e)) (\<lambda>_.
     and_then (ensure (\<not> (we_bytes e = [] \<or> length (we_bytes e) > MAX_HARNESS_CONTEXT_BYTES))
       (OutOfBounds ''item_bytes'')) (\<lambda>_.
     ensure (we_expires_at e \<noteq> 0) (InvalidValue ''item_expiry''))))"

record wire_note =
  wt_reference :: wire_item_ref
  wt_attributed_to :: string

definition wire_note_validate :: "wire_note \<Rightarrow> wire_check" where
  "wire_note_validate t =
     and_then (wire_ref_validate (wt_reference t)) (\<lambda>_.
     wire_identifier ''note_author'' (wt_attributed_to t))"

record wire_draft =
  wd_schema :: string
  wd_draft_id :: string
  wd_version :: u64
  wd_base_revision_id :: string
  wd_selected_items :: "wire_item_ref list"
  wd_pinned_item_ids :: "string list"
  wd_notes :: "wire_note list"
  wd_objective :: "wire_item_ref option"
  wd_author_ref :: string

definition wire_draft_validate :: "wire_draft \<Rightarrow> wire_check" where
  "wire_draft_validate d =
     and_then (wire_schema (wd_schema d) ''ascension.context-control.draft.v1'') (\<lambda>_.
     and_then (wire_identifier ''draft_id'' (wd_draft_id d)) (\<lambda>_.
     and_then (wire_identifier ''draft_base_revision_id'' (wd_base_revision_id d)) (\<lambda>_.
     and_then (wire_identifier ''draft_author_ref'' (wd_author_ref d)) (\<lambda>_.
     and_then (ensure (\<not> (wd_version d = 0 \<or> length (wd_selected_items d) > MAX_HARNESS_ITEMS
       \<or> length (wd_pinned_item_ids d) > MAX_HARNESS_ITEMS
       \<or> length (wd_notes d) > MAX_HARNESS_NOTES)) (OutOfBounds ''draft'')) (\<lambda>_.
     and_then (each_unique wire_ref_validate (\<lambda>r. (wr_item_id r, wr_version r))
       (InvalidValue ''duplicate_selected_item'') [] (wd_selected_items d)) (\<lambda>_.
     and_then (each_unique (wire_identifier ''pinned_item_id'') (\<lambda>i. i)
       (InvalidValue ''duplicate_pinned_item'') [] (wd_pinned_item_ids d)) (\<lambda>_.
     and_then (each_unique wire_note_validate (\<lambda>t. wr_item_id (wt_reference t))
       (InvalidValue ''duplicate_note'') [] (wd_notes d)) (\<lambda>_.
     (case wd_objective d of Some r \<Rightarrow> wire_ref_validate r | None \<Rightarrow> Inr ())))))))))"

end
