(* ===== verification/Wire_Views.thy ===== *)
theory Wire_Views
  imports Wire_Records
begin

text \<open>
  The views that the Harness owner answers with
  (\<open>context-service/src/harness_context_owner_wire/drafts/views.rs\<close> and \<open>source.rs\<close>), and the
  source documents that are uploaded to it.
  Field prefixes: \<open>vi_\<close> item view, \<open>vs_\<close> items view, \<open>vd_\<close> draft envelope, \<open>vr_\<close> revision envelope,
  \<open>vp_\<close> preview envelope, \<open>vl_\<close> draft list, \<open>vg_\<close> revision page, \<open>xd_\<close> source document, \<open>xu_\<close> upload,
  \<open>xa_\<close> adoption, \<open>xp_\<close> publication of a source, \<open>xc_\<close> active source, \<open>xs_\<close> source status.
\<close>

definition CONTEXT_OWNER_DRAFT_SCHEMA_V1 :: string where
  "CONTEXT_OWNER_DRAFT_SCHEMA_V1 = ''ascension.harness.context-owner-draft.v1''"
definition CONTEXT_OWNER_REVISION_SCHEMA_V1 :: string where
  "CONTEXT_OWNER_REVISION_SCHEMA_V1 = ''ascension.harness.context-owner-revision.v1''"
definition CONTEXT_OWNER_PREVIEW_SCHEMA_V1 :: string where
  "CONTEXT_OWNER_PREVIEW_SCHEMA_V1 = ''ascension.harness.context-owner-preview.v1''"
definition CONTEXT_OWNER_ITEMS_SCHEMA_V1 :: string where
  "CONTEXT_OWNER_ITEMS_SCHEMA_V1 = ''ascension.harness.context-owner-items.v1''"

subsection \<open>Items\<close>

record item_view =
  vi_reference :: wire_item_ref
  vi_kind :: string
  vi_byte_length :: u64
  vi_protected :: bool
  vi_expires_at :: u64
  vi_source_id :: string
  vi_source_version :: u64
  vi_source_digest :: string
  vi_content :: "bytes option"

record items_view =
  vs_schema_version :: string
  vs_owner_id :: string
  vs_workflow_run_id :: string
  vs_binding_id :: string
  vs_binding_digest :: string
  vs_boundary :: wire_boundary
  vs_items :: "item_view list"

definition item_view_fields :: "item_view \<Rightarrow> wire_check" where
  "item_view_fields i =
     and_then (wire_ref_validate (vi_reference i)) (\<lambda>_.
     and_then (wire_identifier ''item_kind'' (vi_kind i)) (\<lambda>_.
     and_then (wire_identifier ''item_source_id'' (vi_source_id i)) (\<lambda>_.
     wire_digest ''item_source_digest'' (vi_source_digest i))))"

text \<open>The loop over the items, with the keys it has seen and the sum of the content bytes.\<close>

fun item_views_loop :: "(string \<times> u64) list \<Rightarrow> nat \<Rightarrow> item_view list \<Rightarrow> wire_error + nat" where
  "item_views_loop seen tot [] = Inr tot"
| "item_views_loop seen tot (i # is) =
     and_then (item_view_fields i) (\<lambda>_.
     (let key = (wr_item_id (vi_reference i), wr_version (vi_reference i))
      in and_then (ensure (\<not> (vi_source_version i = 0 \<or> vi_byte_length i = 0
           \<or> vi_byte_length i > of_nat MAX_HARNESS_CONTEXT_BYTES
           \<or> (case vi_content i of
                Some content \<Rightarrow> of_nat (length content) \<noteq> vi_byte_length i
                  \<or> length content > MAX_HARNESS_CONTEXT_BYTES
              | None \<Rightarrow> False)
           \<or> key \<in> set seen)) (InvalidValue ''items_view_entry'')) (\<lambda>_.
         item_views_loop (key # seen)
           (tot + (case vi_content i of Some content \<Rightarrow> length content | None \<Rightarrow> 0)) is)))"

text \<open>
  The sum does not overflow a \<open>usize\<close>: at most 64 contents of at most 128 KiB reach it.
\<close>

definition items_view_validate :: "items_view \<Rightarrow> wire_check" where
  "items_view_validate v =
     and_then (wire_schema (vs_schema_version v) CONTEXT_OWNER_ITEMS_SCHEMA_V1) (\<lambda>_.
     and_then (wire_identifier ''items_owner_id'' (vs_owner_id v)) (\<lambda>_.
     and_then (wire_identifier ''items_workflow_run_id'' (vs_workflow_run_id v)) (\<lambda>_.
     and_then (wire_identifier ''items_binding_id'' (vs_binding_id v)) (\<lambda>_.
     and_then (wire_digest ''items_binding_digest'' (vs_binding_digest v)) (\<lambda>_.
     and_then (boundary_validate (vs_boundary v)) (\<lambda>_.
     and_then (ensure (\<not> (length (vs_items v) > MAX_HARNESS_ITEMS
       \<or> vs_workflow_run_id v \<noteq> wb_run_id (vs_boundary v))) (OutOfBounds ''items_view'')) (\<lambda>_.
     and_then (item_views_loop [] 0 (vs_items v)) (\<lambda>tot.
     ensure (\<not> tot > MAX_HARNESS_CONTEXT_BYTES) (OutOfBounds ''items_content'')))))))))"

subsection \<open>Drafts, revisions and previews\<close>

record draft_envelope =
  vd_schema_version :: string
  vd_actor_subject :: string
  vd_binding :: wire_binding
  vd_created_at :: u64
  vd_updated_at :: u64
  vd_retention_expires_at :: "u64 option"
  vd_draft :: wire_draft

definition bad_retention :: "u64 option \<Rightarrow> u64 \<Rightarrow> bool" where
  "bad_retention expiry created_at =
     (case expiry of Some expires \<Rightarrow> expires \<le> created_at \<or> expires = u64_max | None \<Rightarrow> False)"

definition draft_envelope_validate :: "draft_envelope \<Rightarrow> wire_check" where
  "draft_envelope_validate v =
     and_then (wire_schema (vd_schema_version v) CONTEXT_OWNER_DRAFT_SCHEMA_V1) (\<lambda>_.
     and_then (wire_identifier ''draft_actor_subject'' (vd_actor_subject v)) (\<lambda>_.
     and_then (binding_validate (vd_binding v)) (\<lambda>_.
     and_then (wire_draft_validate (vd_draft v)) (\<lambda>_.
     ensure (\<not> (vd_created_at v = 0 \<or> vd_updated_at v < vd_created_at v
       \<or> bad_retention (vd_retention_expires_at v) (vd_created_at v)
       \<or> wd_base_revision_id (vd_draft v) \<noteq> wn_approved_revision_id (vd_binding v)))
       (InvalidValue ''draft_envelope'')))))"

record revision_envelope =
  vr_schema_version :: string
  vr_revision_id :: string
  vr_actor_subject :: string
  vr_binding :: wire_binding
  vr_created_at :: u64
  vr_retention_expires_at :: "u64 option"
  vr_draft :: wire_draft

definition revision_envelope_validate :: "revision_envelope \<Rightarrow> wire_check" where
  "revision_envelope_validate v =
     and_then (wire_schema (vr_schema_version v) CONTEXT_OWNER_REVISION_SCHEMA_V1) (\<lambda>_.
     and_then (wire_identifier ''revision_id'' (vr_revision_id v)) (\<lambda>_.
     and_then (wire_identifier ''revision_actor_subject'' (vr_actor_subject v)) (\<lambda>_.
     and_then (binding_validate (vr_binding v)) (\<lambda>_.
     and_then (wire_draft_validate (vr_draft v)) (\<lambda>_.
     ensure (\<not> (vr_created_at v = 0 \<or> bad_retention (vr_retention_expires_at v) (vr_created_at v)))
       (InvalidValue ''revision_envelope''))))))"

record preview_envelope =
  vp_schema_version :: string
  vp_preview_id :: string
  vp_actor_subject :: string
  vp_binding :: wire_binding
  vp_provider_config_digest :: string
  vp_draft_id :: string
  vp_draft_version :: u64
  vp_base_revision_id :: string
  vp_manifest_digest :: string
  vp_effect_class :: string
  vp_blockers :: "string list"
  vp_created_at :: u64
  vp_expires_at :: u64

definition preview_envelope_validate :: "preview_envelope \<Rightarrow> wire_check" where
  "preview_envelope_validate v =
     and_then (wire_schema (vp_schema_version v) CONTEXT_OWNER_PREVIEW_SCHEMA_V1) (\<lambda>_.
     and_then (all_fields wire_identifier
       [(''preview_id'', vp_preview_id v), (''preview_actor_subject'', vp_actor_subject v),
        (''preview_draft_id'', vp_draft_id v), (''preview_base_revision_id'', vp_base_revision_id v),
        (''preview_effect_class'', vp_effect_class v)]) (\<lambda>_.
     and_then (binding_validate (vp_binding v)) (\<lambda>_.
     and_then (wire_digest ''preview_provider_config_digest'' (vp_provider_config_digest v)) (\<lambda>_.
     and_then (wire_digest ''preview_manifest_digest'' (vp_manifest_digest v)) (\<lambda>_.
     and_then (ensure (\<not> (vp_draft_version v = 0 \<or> vp_created_at v = 0
       \<or> vp_expires_at v \<le> vp_created_at v \<or> vp_expires_at v = u64_max
       \<or> length (vp_blockers v) > MAX_HARNESS_DRAFT_OPERATIONS)) (InvalidValue ''preview_envelope'')) (\<lambda>_.
     each (wire_identifier ''preview_blocker'') (vp_blockers v)))))))"

record draft_list_view =
  vl_schema_version :: string
  vl_owner_id :: string
  vl_workflow_run_id :: string
  vl_drafts :: "draft_envelope list"

fun draft_list_loop :: "draft_list_view \<Rightarrow> string list \<Rightarrow> draft_envelope list \<Rightarrow> wire_check" where
  "draft_list_loop v ids [] = Inr ()"
| "draft_list_loop v ids (d # ds) =
     and_then (draft_envelope_validate d) (\<lambda>_.
     and_then (ensure (\<not> (wn_owner_id (vd_binding d) \<noteq> vl_owner_id v
       \<or> wn_workflow_run_id (vd_binding d) \<noteq> vl_workflow_run_id v
       \<or> wd_draft_id (vd_draft d) \<in> set ids)) (CorrelationMismatch ''draft_list'')) (\<lambda>_.
     draft_list_loop v (wd_draft_id (vd_draft d) # ids) ds))"

definition draft_list_validate :: "draft_list_view \<Rightarrow> wire_check" where
  "draft_list_validate v =
     and_then (wire_schema (vl_schema_version v) CONTEXT_OWNER_DRAFT_SCHEMA_V1) (\<lambda>_.
     and_then (wire_identifier ''draft_list_owner_id'' (vl_owner_id v)) (\<lambda>_.
     and_then (wire_identifier ''draft_list_run_id'' (vl_workflow_run_id v)) (\<lambda>_.
     and_then (ensure (\<not> length (vl_drafts v) > MAX_HARNESS_PUBLICATIONS) (OutOfBounds ''draft_list'')) (\<lambda>_.
     draft_list_loop v [] (vl_drafts v)))))"

record revision_page =
  vg_schema_version :: string
  vg_owner_id :: string
  vg_workflow_run_id :: string
  vg_revisions :: "revision_envelope list"
  vg_next_after_revision_id :: "string option"

definition revision_page_validate :: "revision_page \<Rightarrow> wire_check" where
  "revision_page_validate v =
     and_then (wire_schema (vg_schema_version v) CONTEXT_OWNER_REVISION_SCHEMA_V1) (\<lambda>_.
     and_then (wire_identifier ''revision_page_owner_id'' (vg_owner_id v)) (\<lambda>_.
     and_then (wire_identifier ''revision_page_run_id'' (vg_workflow_run_id v)) (\<lambda>_.
     and_then (ensure (\<not> length (vg_revisions v) > MAX_HARNESS_PAGE_SIZE) (OutOfBounds ''revision_page'')) (\<lambda>_.
     and_then (case vg_next_after_revision_id v of
         Some cursor \<Rightarrow> wire_identifier ''next_after_revision_id'' cursor | None \<Rightarrow> Inr ()) (\<lambda>_.
     each (\<lambda>r. and_then (revision_envelope_validate r) (\<lambda>_.
         ensure (\<not> (wn_owner_id (vr_binding r) \<noteq> vg_owner_id v
           \<or> wn_workflow_run_id (vr_binding r) \<noteq> vg_workflow_run_id v))
           (CorrelationMismatch ''revision_page''))) (vg_revisions v))))))"

subsection \<open>Sources\<close>

definition CONTEXT_SOURCE_UPLOAD_SCHEMA_V1 :: string where
  "CONTEXT_SOURCE_UPLOAD_SCHEMA_V1 = ''ascension.context-owner.context-source-upload.v1''"
definition CONTEXT_SOURCE_ADOPTION_SCHEMA_V1 :: string where
  "CONTEXT_SOURCE_ADOPTION_SCHEMA_V1 = ''ascension.context-owner.context-source-adoption.v1''"
definition CONTEXT_OWNER_SOURCE_STATUS_SCHEMA_V1 :: string where
  "CONTEXT_OWNER_SOURCE_STATUS_SCHEMA_V1 = ''ascension.context-owner.source-status.v1''"

record source_document =
  xd_draft :: wire_draft
  xd_items :: "(string, wire_item) btree"

text \<open>The loop over the items; the sum of at most 64 times 128 KiB does not overflow.\<close>

fun document_items_loop :: "nat \<Rightarrow> (string \<times> wire_item) list \<Rightarrow> wire_error + nat" where
  "document_items_loop tot [] = Inr tot"
| "document_items_loop tot ((k, e) # es) =
     and_then (wire_identifier ''source_item_key'' k) (\<lambda>_.
     and_then (wire_item_validate e) (\<lambda>_.
     and_then (ensure (k = wr_item_id (we_reference e)) (CorrelationMismatch ''source_item_key'')) (\<lambda>_.
     document_items_loop (tot + length (we_bytes e)) es)))"

definition document_validate :: "source_document \<Rightarrow> wire_check" where
  "document_validate x =
     and_then (wire_draft_validate (xd_draft x)) (\<lambda>_.
     and_then (ensure (\<not> bt_len (xd_items x) > MAX_HARNESS_ITEMS) (OutOfBounds ''source_items'')) (\<lambda>_.
     and_then (document_items_loop 0 (bt_entries (xd_items x))) (\<lambda>tot.
     ensure (\<not> tot > MAX_HARNESS_CONTEXT_BYTES) (OutOfBounds ''source_content''))))"

record source_upload =
  xu_schema_version :: string
  xu_document :: source_document

definition upload_validate :: "source_upload \<Rightarrow> wire_check" where
  "upload_validate u =
     and_then (wire_schema (xu_schema_version u) CONTEXT_SOURCE_UPLOAD_SCHEMA_V1) (\<lambda>_.
     document_validate (xu_document u))"

record source_adoption =
  xa_schema_version :: string
  xa_idempotency_key :: string
  xa_expected_control_version :: u64
  xa_expected_revision_id :: string
  xa_expected_boundary :: wire_boundary

definition adoption_validate :: "source_adoption \<Rightarrow> wire_check" where
  "adoption_validate a =
     and_then (wire_schema (xa_schema_version a) CONTEXT_SOURCE_ADOPTION_SCHEMA_V1) (\<lambda>_.
     and_then (wire_identifier ''source_adoption_idempotency_key'' (xa_idempotency_key a)) (\<lambda>_.
     and_then (wire_identifier ''source_adoption_revision_id'' (xa_expected_revision_id a)) (\<lambda>_.
     and_then (boundary_validate (xa_expected_boundary a)) (\<lambda>_.
     ensure (\<not> (xa_expected_control_version a = 0
       \<or> xa_expected_control_version a \<noteq> wb_control_version (xa_expected_boundary a)))
       (InvalidValue ''source_adoption_control_version'')))))"

record source_publication =
  xp_schema_version :: string
  xp_source :: binding_source

definition source_publication_validate :: "source_publication \<Rightarrow> wire_check" where
  "source_publication_validate p =
     and_then (wire_schema (xp_schema_version p) CONTEXT_SOURCE_UPLOAD_SCHEMA_V1) (\<lambda>_.
     source_validate (xp_source p))"

record active_source =
  xc_source_id :: string
  xc_version :: u64
  xc_digest :: string
  xc_active_revision_id :: string

definition active_source_validate :: "active_source \<Rightarrow> wire_check" where
  "active_source_validate c =
     and_then (wire_identifier ''active_source_id'' (xc_source_id c)) (\<lambda>_.
     and_then (wire_identifier ''active_revision_id'' (xc_active_revision_id c)) (\<lambda>_.
     and_then (wire_digest ''active_source_digest'' (xc_digest c)) (\<lambda>_.
     ensure (xc_version c \<noteq> 0) (InvalidValue ''active_source_version''))))"

record source_status =
  xs_schema_version :: string
  xs_owner_id :: string
  xs_owner_version :: string
  xs_workflow_run_id :: string
  xs_definition_digest :: string
  xs_instance_id :: string
  xs_boundary :: wire_boundary
  xs_active_revision_id :: string
  xs_active_source :: "active_source option"

definition source_status_validate :: "source_status \<Rightarrow> string \<Rightarrow> wire_check" where
  "source_status_validate s expected_run =
     and_then (wire_schema (xs_schema_version s) CONTEXT_OWNER_SOURCE_STATUS_SCHEMA_V1) (\<lambda>_.
     and_then (all_fields wire_identifier
       [(''source_status_owner_id'', xs_owner_id s), (''source_status_owner_version'', xs_owner_version s),
        (''source_status_run_id'', xs_workflow_run_id s), (''source_status_instance_id'', xs_instance_id s),
        (''source_status_active_revision_id'', xs_active_revision_id s)]) (\<lambda>_.
     and_then (wire_digest ''source_status_definition_digest'' (xs_definition_digest s)) (\<lambda>_.
     and_then (boundary_validate (xs_boundary s)) (\<lambda>_.
     and_then (ensure (\<not> (xs_workflow_run_id s \<noteq> expected_run
       \<or> xs_workflow_run_id s \<noteq> wb_run_id (xs_boundary s))) (CorrelationMismatch ''source_status_run'')) (\<lambda>_.
     (case xs_active_source s of
        Some c \<Rightarrow> and_then (active_source_validate c) (\<lambda>_.
          ensure (xc_active_revision_id c = xs_active_revision_id s)
            (CorrelationMismatch ''source_status_revision''))
      | None \<Rightarrow> Inr ()))))))"

end
