(* ===== verification/Wire_Requests.thy ===== *)
theory Wire_Requests
  imports Wire_Views
begin

text \<open>
  The requests of the Harness context-owner protocol and the receipts that answer them
  (\<open>context-service/src/harness_context_owner_wire/drafts/mutations.rs\<close>, \<open>publication.rs\<close>,
  \<open>control.rs\<close> and \<open>control/adoption.rs\<close>).
  Field prefixes: \<open>qc_\<close> draft creation, \<open>qp_\<close> patch, \<open>qv_\<close> preview, \<open>ql_\<close> mutation lookup, \<open>qr_\<close>
  mutation receipt, \<open>qu_\<close> publication request, \<open>qt_\<close> publication receipt, \<open>qs_\<close> published
  sources, \<open>qk_\<close> publication lookup, \<open>qo_\<close> control receipt.
\<close>

definition CONTEXT_OWNER_MUTATION_RECEIPT_SCHEMA_V1 :: string where
  "CONTEXT_OWNER_MUTATION_RECEIPT_SCHEMA_V1 = ''ascension.harness.context-owner-mutation-receipt.v1''"
definition CONTEXT_OWNER_DRAFT_REQUEST_SCHEMA_V1 :: string where
  "CONTEXT_OWNER_DRAFT_REQUEST_SCHEMA_V1 = ''ascension.harness.context-owner-draft-request.v1''"
definition CONTEXT_OWNER_DRAFT_PATCH_SCHEMA_V1 :: string where
  "CONTEXT_OWNER_DRAFT_PATCH_SCHEMA_V1 = ''ascension.harness.context-owner-draft-patch.v1''"
definition CONTEXT_OWNER_PREVIEW_REQUEST_SCHEMA_V1 :: string where
  "CONTEXT_OWNER_PREVIEW_REQUEST_SCHEMA_V1 = ''ascension.harness.context-owner-preview-request.v1''"
definition CONTEXT_OWNER_MUTATION_LOOKUP_SCHEMA_V1 :: string where
  "CONTEXT_OWNER_MUTATION_LOOKUP_SCHEMA_V1 = ''ascension.harness.context-owner-mutation-lookup.v1''"

subsection \<open>Draft mutations\<close>

record draft_create =
  qc_schema_version :: string
  qc_request_id :: string
  qc_draft_id :: string
  qc_base_revision_id :: string
  qc_expected_boundary :: wire_boundary

definition draft_create_validate :: "draft_create \<Rightarrow> wire_check" where
  "draft_create_validate q =
     and_then (wire_schema (qc_schema_version q) CONTEXT_OWNER_DRAFT_REQUEST_SCHEMA_V1) (\<lambda>_.
     and_then (wire_identifier ''request_id'' (qc_request_id q)) (\<lambda>_.
     and_then (wire_identifier ''draft_id'' (qc_draft_id q)) (\<lambda>_.
     and_then (wire_identifier ''base_revision_id'' (qc_base_revision_id q)) (\<lambda>_.
     boundary_validate (qc_expected_boundary q)))))"

datatype draft_operation =
    IncludeWireItem wire_item_ref | ExcludeWireItem wire_item_ref | PinWireItem string | UnpinWireItem string
  | PutWireNote string string | RemoveWireNote string | SetWireObjective string | RemoveWireObjective

definition bad_text :: "string \<Rightarrow> nat \<Rightarrow> bool" where
  "bad_text s bound \<longleftrightarrow> s = [] \<or> length s > bound \<or> CHR 0x00 \<in> set s"

fun draft_operation_validate :: "draft_operation \<Rightarrow> wire_check" where
  "draft_operation_validate (IncludeWireItem r) = wire_ref_validate r"
| "draft_operation_validate (ExcludeWireItem r) = wire_ref_validate r"
| "draft_operation_validate (PinWireItem i) = wire_identifier ''operation_item_id'' i"
| "draft_operation_validate (UnpinWireItem i) = wire_identifier ''operation_item_id'' i"
| "draft_operation_validate (PutWireNote i s) =
     and_then (wire_identifier ''note_id'' i) (\<lambda>_.
     ensure (\<not> bad_text s MAX_HARNESS_NOTE_BYTES) (OutOfBounds ''note_text''))"
| "draft_operation_validate (RemoveWireNote i) = wire_identifier ''note_id'' i"
| "draft_operation_validate (SetWireObjective s) =
     ensure (\<not> bad_text s MAX_HARNESS_OBJECTIVE_BYTES) (OutOfBounds ''objective_text'')"
| "draft_operation_validate RemoveWireObjective = Inr ()"

record draft_patch =
  qp_schema_version :: string
  qp_request_id :: string
  qp_draft_id :: string
  qp_expected_version :: u64
  qp_expected_boundary :: wire_boundary
  qp_operations :: "draft_operation list"

definition draft_patch_validate :: "draft_patch \<Rightarrow> wire_check" where
  "draft_patch_validate q =
     and_then (wire_schema (qp_schema_version q) CONTEXT_OWNER_DRAFT_PATCH_SCHEMA_V1) (\<lambda>_.
     and_then (wire_identifier ''request_id'' (qp_request_id q)) (\<lambda>_.
     and_then (wire_identifier ''draft_id'' (qp_draft_id q)) (\<lambda>_.
     and_then (boundary_validate (qp_expected_boundary q)) (\<lambda>_.
     and_then (ensure (\<not> (qp_expected_version q = 0 \<or> qp_operations q = []
       \<or> length (qp_operations q) > MAX_HARNESS_DRAFT_OPERATIONS)) (OutOfBounds ''patch_request'')) (\<lambda>_.
     each draft_operation_validate (qp_operations q))))))"

record preview_request =
  qv_schema_version :: string
  qv_request_id :: string
  qv_draft_id :: string
  qv_expected_version :: u64
  qv_expected_boundary :: wire_boundary

definition preview_request_validate :: "preview_request \<Rightarrow> wire_check" where
  "preview_request_validate q =
     and_then (wire_schema (qv_schema_version q) CONTEXT_OWNER_PREVIEW_REQUEST_SCHEMA_V1) (\<lambda>_.
     and_then (wire_identifier ''request_id'' (qv_request_id q)) (\<lambda>_.
     and_then (wire_identifier ''draft_id'' (qv_draft_id q)) (\<lambda>_.
     and_then (boundary_validate (qv_expected_boundary q)) (\<lambda>_.
     ensure (qv_expected_version q \<noteq> 0) (InvalidValue ''preview_expected_version'')))))"

datatype mutation_request = CreateDraft draft_create | PatchDraft draft_patch | CreatePreview preview_request

fun mutation_request_id :: "mutation_request \<Rightarrow> string" where
  "mutation_request_id (CreateDraft q) = qc_request_id q"
| "mutation_request_id (PatchDraft q) = qp_request_id q"
| "mutation_request_id (CreatePreview q) = qv_request_id q"

fun mutation_request_validate :: "mutation_request \<Rightarrow> wire_check" where
  "mutation_request_validate (CreateDraft q) = draft_create_validate q"
| "mutation_request_validate (PatchDraft q) = draft_patch_validate q"
| "mutation_request_validate (CreatePreview q) = preview_request_validate q"

text \<open>
  The part of the codec that digests need: SHA-256, the scan of \<open>serde_json\<close>, and the encoders
  of the requests that are hashed.
\<close>

record digest_codec =
  jc_sha :: "bytes \<Rightarrow> bytes"
  jc_scan :: "bytes \<Rightarrow> scanned \<times> bool"
  jc_create_vec :: "draft_create \<Rightarrow> bytes option"
  jc_patch_vec :: "draft_patch \<Rightarrow> bytes option"
  jc_preview_vec :: "preview_request \<Rightarrow> bytes option"
  jc_document_vec :: "source_document \<Rightarrow> bytes option"

fun mutation_payload_digest :: "'a digest_codec_scheme \<Rightarrow> mutation_request \<Rightarrow> digest_error + string" where
  "mutation_payload_digest jc (CreateDraft q) =
     serialized_request_digest (jc_sha jc) (jc_scan jc) (jc_create_vec jc) q"
| "mutation_payload_digest jc (PatchDraft q) =
     serialized_request_digest (jc_sha jc) (jc_scan jc) (jc_patch_vec jc) q"
| "mutation_payload_digest jc (CreatePreview q) =
     serialized_request_digest (jc_sha jc) (jc_scan jc) (jc_preview_vec jc) q"

definition document_digest :: "'a digest_codec_scheme \<Rightarrow> source_upload \<Rightarrow> wire_error + string" where
  "document_digest jc u =
     and_then (bounded_json_bytes (jc_scan jc) (jc_document_vec jc) (xu_document u)) (\<lambda>bs.
     Inr (hex_bytes (jc_sha jc bs)))"

fun mutation_draft_id :: "mutation_request \<Rightarrow> string" where
  "mutation_draft_id (CreateDraft q) = qc_draft_id q"
| "mutation_draft_id (PatchDraft q) = qp_draft_id q"
| "mutation_draft_id (CreatePreview q) = qv_draft_id q"

fun mutation_boundary :: "mutation_request \<Rightarrow> wire_boundary" where
  "mutation_boundary (CreateDraft q) = qc_expected_boundary q"
| "mutation_boundary (PatchDraft q) = qp_expected_boundary q"
| "mutation_boundary (CreatePreview q) = qv_expected_boundary q"

datatype mutation_result = DraftResult draft_envelope | PreviewResult preview_envelope

record mutation_receipt =
  qr_schema_version :: string
  qr_owner_id :: string
  qr_workflow_run_id :: string
  qr_actor_subject :: string
  qr_binding_id :: string
  qr_binding_digest :: string
  qr_invocation_id :: string
  qr_boundary :: wire_boundary
  qr_operation :: string
  qr_request_id :: string
  qr_payload_digest :: string
  qr_result :: mutation_result
  qr_created_at :: u64

definition mutation_receipt_fields :: "mutation_receipt \<Rightarrow> wire_check" where
  "mutation_receipt_fields r =
     and_then (wire_schema (qr_schema_version r) CONTEXT_OWNER_MUTATION_RECEIPT_SCHEMA_V1) (\<lambda>_.
     and_then (all_fields wire_identifier
       [(''mutation_owner_id'', qr_owner_id r), (''mutation_workflow_run_id'', qr_workflow_run_id r),
        (''mutation_actor_subject'', qr_actor_subject r), (''mutation_binding_id'', qr_binding_id r),
        (''mutation_invocation_id'', qr_invocation_id r), (''mutation_operation'', qr_operation r),
        (''mutation_request_id'', qr_request_id r)]) (\<lambda>_.
     and_then (wire_digest ''mutation_binding_digest'' (qr_binding_digest r)) (\<lambda>_.
     and_then (wire_digest ''mutation_payload_digest'' (qr_payload_digest r)) (\<lambda>_.
     boundary_validate (qr_boundary r)))))"

text \<open>The operation that a receipt names, and whether its result is a preview.\<close>

fun mutation_kind :: "mutation_request \<Rightarrow> string \<times> bool" where
  "mutation_kind (CreateDraft _) = (''create_draft'', False)"
| "mutation_kind (PatchDraft _) = (''patch_draft'', False)"
| "mutation_kind (CreatePreview _) = (''create_preview'', True)"

definition mutation_receipt_validate_for ::
  "'a digest_codec_scheme \<Rightarrow> mutation_receipt \<Rightarrow> mutation_request \<Rightarrow> wire_binding \<Rightarrow> wire_check" where
  "mutation_receipt_validate_for jc r q n =
     and_then (mutation_receipt_fields r) (\<lambda>_.
     and_then (binding_validate n) (\<lambda>_.
     and_then (mutation_request_validate q) (\<lambda>_.
     and_then (map_err (\<lambda>_. JsonEncoding) (mutation_payload_digest jc q)) (\<lambda>expected_digest.
     and_then (ensure (\<not> (qr_owner_id r \<noteq> wn_owner_id n
       \<or> qr_workflow_run_id r \<noteq> wn_workflow_run_id n \<or> qr_actor_subject r = []
       \<or> qr_binding_id r \<noteq> wn_binding_id n \<or> qr_binding_digest r \<noteq> wn_binding_digest n
       \<or> qr_invocation_id r \<noteq> wn_invocation_id n \<or> qr_boundary r \<noteq> wn_boundary n
       \<or> qr_operation r \<noteq> fst (mutation_kind q) \<or> qr_request_id r \<noteq> mutation_request_id q
       \<or> qr_payload_digest r \<noteq> expected_digest \<or> qr_created_at r = 0))
       (CorrelationMismatch ''mutation_receipt'')) (\<lambda>_.
     and_then (wire_digest ''mutation_payload_digest'' (qr_payload_digest r)) (\<lambda>_.
     (case (qr_result r, snd (mutation_kind q)) of
        (DraftResult d, False) \<Rightarrow>
          and_then (draft_envelope_validate d) (\<lambda>_.
          ensure (\<not> (vd_actor_subject d \<noteq> qr_actor_subject r \<or> vd_binding d \<noteq> n
            \<or> wd_draft_id (vd_draft d) \<noteq> mutation_draft_id q)) (CorrelationMismatch ''mutation_draft_result''))
      | (PreviewResult p, True) \<Rightarrow>
          and_then (preview_envelope_validate p) (\<lambda>_.
          ensure (\<not> (vp_actor_subject p \<noteq> qr_actor_subject r \<or> vp_binding p \<noteq> n
            \<or> vp_draft_id p \<noteq> mutation_draft_id q)) (CorrelationMismatch ''mutation_preview_result''))
      | _ \<Rightarrow> Inl (CorrelationMismatch ''mutation_result_kind'')))))))) "

record mutation_lookup =
  ql_schema_version :: string
  ql_request :: mutation_request

definition mutation_lookup_validate :: "mutation_lookup \<Rightarrow> wire_check" where
  "mutation_lookup_validate l =
     and_then (wire_schema (ql_schema_version l) CONTEXT_OWNER_MUTATION_LOOKUP_SCHEMA_V1) (\<lambda>_.
     mutation_request_validate (ql_request l))"

subsection \<open>Publications\<close>

definition CONTEXT_OWNER_PUBLICATION_REQUEST_SCHEMA_V1 :: string where
  "CONTEXT_OWNER_PUBLICATION_REQUEST_SCHEMA_V1 =
     ''ascension.harness.context-owner-draft-publication-request.v1''"
definition CONTEXT_OWNER_PUBLICATION_RECEIPT_SCHEMA_V1 :: string where
  "CONTEXT_OWNER_PUBLICATION_RECEIPT_SCHEMA_V1 =
     ''ascension.harness.context-owner-draft-publication-receipt.v1''"
definition CONTEXT_OWNER_PUBLICATION_LOOKUP_SCHEMA_V1 :: string where
  "CONTEXT_OWNER_PUBLICATION_LOOKUP_SCHEMA_V1 =
     ''ascension.harness.context-owner-draft-publication-lookup.v1''"
definition CONTEXT_OWNER_PUBLISHED_SOURCES_SCHEMA_V1 :: string where
  "CONTEXT_OWNER_PUBLISHED_SOURCES_SCHEMA_V1 = ''ascension.harness.context-owner-published-sources.v1''"
definition PUBLICATION_DIGEST_DOMAIN :: bytes where
  "PUBLICATION_DIGEST_DOMAIN =
     ''ascension.context-control.draft-publication.request-digest.v1'' @ [CHR 0x00]"

record publication_request =
  qu_schema_version :: string
  qu_request_id :: string
  qu_draft_id :: string
  qu_expected_draft_version :: u64
  qu_expected_owner_state_version :: u64
  qu_expected_base_revision_id :: string
  qu_expected_binding_id :: string
  qu_expected_binding_digest :: string
  qu_expected_boundary :: wire_boundary

definition publication_request_validate :: "publication_request \<Rightarrow> wire_check" where
  "publication_request_validate q =
     and_then (wire_schema (qu_schema_version q) CONTEXT_OWNER_PUBLICATION_REQUEST_SCHEMA_V1) (\<lambda>_.
     and_then (wire_identifier ''publication_request_id'' (qu_request_id q)) (\<lambda>_.
     and_then (wire_identifier ''publication_draft_id'' (qu_draft_id q)) (\<lambda>_.
     and_then (wire_identifier ''publication_base_revision_id'' (qu_expected_base_revision_id q)) (\<lambda>_.
     and_then (wire_identifier ''publication_binding_id'' (qu_expected_binding_id q)) (\<lambda>_.
     and_then (wire_digest ''publication_binding_digest'' (qu_expected_binding_digest q)) (\<lambda>_.
     and_then (boundary_validate (qu_expected_boundary q)) (\<lambda>_.
     ensure (\<not> (qu_expected_draft_version q = 0 \<or> qu_expected_owner_state_version q = 0))
       (InvalidValue ''publication_versions''))))))))"

text \<open>The frame of the digest: every field as a piece, appended in order.\<close>

datatype frame_piece = LengthPrefixed string | Number u64 | DigestBytes string

definition wire_be_bytes :: "u64 \<Rightarrow> bytes" where
  "wire_be_bytes n = map (\<lambda>i. char_of (unat n div 256 ^ i)) (rev [0..<8])"

definition lower_hex_value :: "char \<Rightarrow> nat" where
  "lower_hex_value c = (if bv c \<le> 57 then bv c - 48 else bv c - 87)"

fun hex_pairs :: "string \<Rightarrow> bytes" where
  "hex_pairs (a # b # cs) = char_of (16 * lower_hex_value a + lower_hex_value b) # hex_pairs cs"
| "hex_pairs _ = []"

fun frame_bytes :: "frame_piece \<Rightarrow> wire_error + bytes" where
  "frame_bytes (LengthPrefixed s) = Inr (wire_be_bytes (of_nat (length s)) @ s)"
| "frame_bytes (Number n) = Inr (wire_be_bytes n)"
| "frame_bytes (DigestBytes s) =
     and_then (wire_digest ''publication_digest_field'' s) (\<lambda>_. Inr (hex_pairs s))"

definition publication_frame :: "publication_request \<Rightarrow> frame_piece list" where
  "publication_frame q =
     (let b = qu_expected_boundary q
      in [LengthPrefixed (qu_schema_version q), LengthPrefixed (qu_request_id q),
          LengthPrefixed (qu_draft_id q), Number (qu_expected_draft_version q),
          Number (qu_expected_owner_state_version q),
          LengthPrefixed (qu_expected_base_revision_id q), LengthPrefixed (qu_expected_binding_id q),
          DigestBytes (qu_expected_binding_digest q), LengthPrefixed (wb_run_id b),
          LengthPrefixed (wb_episode_id b), LengthPrefixed (wb_agent_id b),
          LengthPrefixed (wb_state_id b), Number (wb_generation b),
          DigestBytes (wb_observation_sha256 b), DigestBytes (wb_catalog_sha256 b),
          LengthPrefixed (wb_adapter_revision b), LengthPrefixed (wb_model_revision b),
          DigestBytes (wb_configuration_sha256 b), DigestBytes (wb_output_schema_sha256 b),
          Number (wb_controller_epoch b), Number (wb_gate_epoch b), Number (wb_control_version b)])"

definition publication_request_digest :: "(bytes \<Rightarrow> bytes) \<Rightarrow> publication_request \<Rightarrow> wire_error + string" where
  "publication_request_digest sha q =
     and_then (publication_request_validate q) (\<lambda>_.
     and_then (collect_results frame_bytes (publication_frame q)) (\<lambda>pieces.
     Inr (hex_bytes (sha (PUBLICATION_DIGEST_DOMAIN @ concat pieces)))))"

record publication_receipt =
  qt_schema_version :: string
  qt_owner_id :: string
  qt_workflow_run_id :: string
  qt_actor_subject :: string
  qt_binding :: wire_binding
  qt_boundary :: wire_boundary
  qt_request_id :: string
  qt_request_digest :: string
  qt_draft_id :: string
  qt_draft_version :: u64
  qt_base_revision_id :: string
  qt_expected_owner_state_version :: u64
  qt_resulting_owner_state_version :: u64
  qt_source_id :: string
  qt_source_version :: u64
  qt_source_digest :: string
  qt_published_at :: u64
  qt_expires_at :: u64

text \<open>
  The digest is computed only when the four comparisons before it agree; as its one error is
  the failed validation of the request, which has been validated before, the order is not visible.
\<close>

definition publication_receipt_validate_for ::
  "(bytes \<Rightarrow> bytes) \<Rightarrow> publication_receipt \<Rightarrow> publication_request \<Rightarrow> string \<Rightarrow> string \<Rightarrow> wire_check" where
  "publication_receipt_validate_for sha t q actor run =
     and_then (wire_schema (qt_schema_version t) CONTEXT_OWNER_PUBLICATION_RECEIPT_SCHEMA_V1) (\<lambda>_.
     and_then (publication_request_validate q) (\<lambda>_.
     and_then (binding_validate (qt_binding t)) (\<lambda>_.
     and_then (all_fields wire_identifier
       [(''publication_owner_id'', qt_owner_id t), (''publication_run_id'', qt_workflow_run_id t),
        (''publication_actor_subject'', qt_actor_subject t), (''publication_request_id'', qt_request_id t),
        (''publication_draft_id'', qt_draft_id t),
        (''publication_base_revision_id'', qt_base_revision_id t),
        (''publication_source_id'', qt_source_id t)]) (\<lambda>_.
     and_then (wire_digest ''publication_request_digest'' (qt_request_digest t)) (\<lambda>_.
     and_then (wire_digest ''publication_source_digest'' (qt_source_digest t)) (\<lambda>_.
     and_then (ok_or (checked_add (qu_expected_owner_state_version q) 1)
       (OutOfBounds ''publication_owner_state_version'')) (\<lambda>resulting.
     and_then (publication_request_digest sha q) (\<lambda>request_digest.
     ensure (\<not> (qt_actor_subject t \<noteq> actor \<or> qt_workflow_run_id t \<noteq> run
       \<or> qt_workflow_run_id t \<noteq> wb_run_id (qu_expected_boundary q)
       \<or> qt_request_id t \<noteq> qu_request_id q \<or> qt_request_digest t \<noteq> request_digest
       \<or> qt_draft_id t \<noteq> qu_draft_id q \<or> qt_draft_version t \<noteq> qu_expected_draft_version q
       \<or> qt_base_revision_id t \<noteq> qu_expected_base_revision_id q
       \<or> qt_expected_owner_state_version t \<noteq> qu_expected_owner_state_version q
       \<or> qt_resulting_owner_state_version t \<noteq> resulting \<or> qt_source_version t \<noteq> 1
       \<or> qt_boundary t \<noteq> qu_expected_boundary q \<or> wn_owner_id (qt_binding t) \<noteq> qt_owner_id t
       \<or> wn_workflow_run_id (qt_binding t) \<noteq> qt_workflow_run_id t
       \<or> wn_binding_id (qt_binding t) \<noteq> qu_expected_binding_id q
       \<or> wn_binding_digest (qt_binding t) \<noteq> qu_expected_binding_digest q
       \<or> wn_boundary (qt_binding t) \<noteq> qt_boundary t \<or> qt_published_at t = 0
       \<or> qt_expires_at t \<le> qt_published_at t \<or> qt_expires_at t = u64_max))
       (CorrelationMismatch ''publication_receipt'')))))))))"

record published_sources =
  qs_schema_version :: string
  qs_owner_id :: string
  qs_workflow_run_id :: string
  qs_definition_digest :: string
  qs_instance_id :: string
  qs_binding :: wire_binding
  qs_boundary :: wire_boundary
  qs_owner_state_version :: u64
  qs_active_source :: "binding_source option"
  qs_publications :: "binding_source list"

definition published_sources_validate :: "published_sources \<Rightarrow> wire_check" where
  "published_sources_validate v =
     and_then (wire_schema (qs_schema_version v) CONTEXT_OWNER_PUBLISHED_SOURCES_SCHEMA_V1) (\<lambda>_.
     and_then (wire_identifier ''published_owner_id'' (qs_owner_id v)) (\<lambda>_.
     and_then (wire_identifier ''published_workflow_run_id'' (qs_workflow_run_id v)) (\<lambda>_.
     and_then (wire_identifier ''published_instance_id'' (qs_instance_id v)) (\<lambda>_.
     and_then (wire_digest ''published_definition_digest'' (qs_definition_digest v)) (\<lambda>_.
     and_then (binding_validate (qs_binding v)) (\<lambda>_.
     and_then (boundary_validate (qs_boundary v)) (\<lambda>_.
     and_then (ensure (\<not> (qs_owner_state_version v = 0 \<or> wn_owner_id (qs_binding v) \<noteq> qs_owner_id v
       \<or> wn_workflow_run_id (qs_binding v) \<noteq> qs_workflow_run_id v
       \<or> wn_instance_id (qs_binding v) \<noteq> qs_instance_id v
       \<or> wn_definition_digest (qs_binding v) \<noteq> qs_definition_digest v
       \<or> wn_boundary (qs_binding v) \<noteq> qs_boundary v
       \<or> length (qs_publications v) > MAX_HARNESS_PUBLICATIONS))
       (CorrelationMismatch ''published_sources_view'')) (\<lambda>_.
     and_then (each_unique source_validate (\<lambda>s. (ws_source_id s, ws_version s))
       (InvalidValue ''duplicate_publication'') [] (qs_publications v)) (\<lambda>identities.
     (case qs_active_source v of
        Some active \<Rightarrow> and_then (source_validate active) (\<lambda>_.
          ensure ((ws_source_id active, ws_version active) \<in> set identities)
            (CorrelationMismatch ''active_source''))
      | None \<Rightarrow> Inr ())))))))))) "

record publication_lookup =
  qk_schema_version :: string
  qk_request :: publication_request

definition publication_lookup_validate :: "publication_lookup \<Rightarrow> wire_check" where
  "publication_lookup_validate l =
     and_then (wire_schema (qk_schema_version l) CONTEXT_OWNER_PUBLICATION_LOOKUP_SCHEMA_V1) (\<lambda>_.
     publication_request_validate (qk_request l))"

subsection \<open>Control\<close>

definition CONTEXT_OWNER_CONTROL_RECEIPT_SCHEMA_V2 :: string where
  "CONTEXT_OWNER_CONTROL_RECEIPT_SCHEMA_V2 = ''ascension.context-control.owner-receipt.v2''"

datatype command_kind = PauseKind | CommitKind | ResumeKind

text \<open>The fields of a command are in the order of the source.\<close>

datatype wire_command =
    WirePause string u64
  | WireCommit string u64 string wire_boundary string string
  | WireResume string u64 wire_boundary

fun wire_command_kind :: "wire_command \<Rightarrow> command_kind" where
  "wire_command_kind (WirePause _ _) = PauseKind"
| "wire_command_kind (WireCommit _ _ _ _ _ _) = CommitKind"
| "wire_command_kind (WireResume _ _ _) = ResumeKind"

fun wire_command_key :: "wire_command \<Rightarrow> string" where
  "wire_command_key (WirePause key _) = key"
| "wire_command_key (WireCommit key _ _ _ _ _) = key"
| "wire_command_key (WireResume key _ _) = key"

fun wire_command_matches :: "wire_binding \<Rightarrow> wire_command \<Rightarrow> wire_check" where
  "wire_command_matches n (WirePause key version) =
     ensure (version = wb_control_version (wn_boundary n)) (CorrelationMismatch ''control_expected_version'')"
| "wire_command_matches n (WireCommit key version revision boundary preview approved) =
     and_then (wire_identifier ''control_expected_revision_id'' revision) (\<lambda>_.
     and_then (wire_digest ''control_preview_manifest'' preview) (\<lambda>_.
     and_then (wire_digest ''control_approved_manifest'' approved) (\<lambda>_.
     and_then (boundary_validate boundary) (\<lambda>_.
     ensure (\<not> (version \<noteq> wb_control_version (wn_boundary n) \<or> boundary \<noteq> wn_boundary n
       \<or> preview \<noteq> approved)) (CorrelationMismatch ''control_commit'')))))"
| "wire_command_matches n (WireResume key version boundary) =
     and_then (boundary_validate boundary) (\<lambda>_.
     ensure (\<not> (version \<noteq> wb_control_version (wn_boundary n) \<or> boundary \<noteq> wn_boundary n))
       (CorrelationMismatch ''control_resume''))"

definition wire_command_validate :: "wire_command \<Rightarrow> wire_binding \<Rightarrow> wire_check" where
  "wire_command_validate c n =
     and_then (binding_validate n) (\<lambda>_.
     and_then (wire_identifier ''control_idempotency_key'' (wire_command_key c)) (\<lambda>_.
     wire_command_matches n c))"

record control_receipt =
  qo_schema_version :: string
  qo_owner_id :: string
  qo_invocation_id :: string
  qo_binding_id :: string
  qo_binding_digest :: string
  qo_command :: command_kind
  qo_command_id :: string
  qo_idempotency_key :: string
  qo_effect :: string
  qo_control_version :: u64
  qo_plan_epoch :: u64
  qo_controller_epoch :: u64
  qo_gate_epoch :: u64
  qo_boundary :: wire_boundary
  qo_revision_id :: "string option"
  qo_preview_manifest_digest :: "string option"
  qo_approved_manifest_digest :: "string option"

fun command_boundary :: "wire_binding \<Rightarrow> wire_command \<Rightarrow> wire_boundary" where
  "command_boundary n (WireCommit _ _ _ boundary _ _) = boundary"
| "command_boundary n (WireResume _ _ boundary) = boundary"
| "command_boundary n (WirePause _ _) = wn_boundary n"

definition resulting_boundary :: "wire_binding \<Rightarrow> wire_command \<Rightarrow> wire_error + wire_boundary" where
  "resulting_boundary n c =
     (let result = command_boundary n c
      in and_then (ok_or (checked_add (wb_control_version result) 1) (OutOfBounds ''control_version'')) (\<lambda>version.
         (let result' = result\<lparr>wb_control_version := version\<rparr>
          in if wire_command_kind c = CommitKind then Inr result'
             else and_then (ok_or (checked_add (wb_gate_epoch result') 1) (OutOfBounds ''gate_epoch'')) (\<lambda>epoch.
                  Inr (result'\<lparr>wb_gate_epoch := epoch\<rparr>)))))"

fun command_effect :: "command_kind \<Rightarrow> string" where
  "command_effect PauseKind = ''pause_requested''"
| "command_effect CommitKind = ''revision_committed''"
| "command_effect ResumeKind = ''resume_accepted''"

definition expected_plan_epoch :: "wire_binding \<Rightarrow> wire_command \<Rightarrow> wire_error + u64" where
  "expected_plan_epoch n c =
     (if wire_command_kind c = CommitKind
      then ok_or (checked_add (wn_plan_epoch n) 1) (OutOfBounds ''plan_epoch'')
      else Inr (wn_plan_epoch n))"

fun receipt_result_fields :: "control_receipt \<Rightarrow> wire_command \<Rightarrow> wire_check" where
  "receipt_result_fields r (WireCommit key version expected boundary preview approved) =
     and_then (ok_or (qo_revision_id r) (CorrelationMismatch ''commit_revision'')) (\<lambda>revision.
     and_then (wire_identifier ''control_result_revision_id'' revision) (\<lambda>_.
     ensure (\<not> (revision = expected \<or> qo_preview_manifest_digest r \<noteq> Some preview
       \<or> qo_approved_manifest_digest r \<noteq> Some approved)) (CorrelationMismatch ''commit_result'')))"
| "receipt_result_fields r c =
     ensure (\<not> (qo_revision_id r \<noteq> None \<or> qo_preview_manifest_digest r \<noteq> None
       \<or> qo_approved_manifest_digest r \<noteq> None)) (CorrelationMismatch ''non_commit_fields'')"

definition control_receipt_validate_for ::
  "control_receipt \<Rightarrow> wire_binding \<Rightarrow> wire_command \<Rightarrow> wire_check" where
  "control_receipt_validate_for r n c =
     and_then (wire_schema (qo_schema_version r) CONTEXT_OWNER_CONTROL_RECEIPT_SCHEMA_V2) (\<lambda>_.
     and_then (binding_validate n) (\<lambda>_.
     and_then (wire_command_validate c n) (\<lambda>_.
     and_then (all_fields wire_identifier
       [(''control_receipt_owner_id'', qo_owner_id r), (''control_receipt_invocation_id'', qo_invocation_id r),
        (''control_receipt_binding_id'', qo_binding_id r), (''control_receipt_command_id'', qo_command_id r),
        (''control_receipt_idempotency_key'', qo_idempotency_key r),
        (''control_receipt_effect'', qo_effect r)]) (\<lambda>_.
     and_then (wire_digest ''control_receipt_binding_digest'' (qo_binding_digest r)) (\<lambda>_.
     and_then (boundary_validate (qo_boundary r)) (\<lambda>_.
     and_then (resulting_boundary n c) (\<lambda>expected.
     and_then (expected_plan_epoch n c) (\<lambda>plan_epoch.
     and_then (ensure (\<not> (qo_owner_id r \<noteq> wn_owner_id n \<or> qo_invocation_id r \<noteq> wn_invocation_id n
       \<or> qo_binding_id r \<noteq> wn_binding_id n \<or> qo_binding_digest r \<noteq> wn_binding_digest n
       \<or> qo_command r \<noteq> wire_command_kind c \<or> qo_idempotency_key r \<noteq> wire_command_key c
       \<or> qo_effect r \<noteq> command_effect (wire_command_kind c) \<or> qo_boundary r \<noteq> expected
       \<or> qo_controller_epoch r \<noteq> wb_controller_epoch expected
       \<or> qo_gate_epoch r \<noteq> wb_gate_epoch expected
       \<or> qo_control_version r \<noteq> wb_control_version expected
       \<or> qo_plan_epoch r \<noteq> plan_epoch)) (CorrelationMismatch ''control_receipt'')) (\<lambda>_.
     receipt_result_fields r c)))))))))"

text \<open>
  The receipt of an adoption: every field that the request can witness is checked, and then the
  receipt is refused, since the request carries no witness of the source that was adopted.
\<close>

definition adoption_fields :: "control_receipt \<Rightarrow> wire_check" where
  "adoption_fields r =
     and_then (all_fields wire_identifier
       [(''adoption_receipt_owner_id'', qo_owner_id r), (''adoption_receipt_invocation_id'', qo_invocation_id r),
        (''adoption_receipt_binding_id'', qo_binding_id r), (''adoption_receipt_command_id'', qo_command_id r),
        (''adoption_receipt_idempotency_key'', qo_idempotency_key r),
        (''adoption_receipt_effect'', qo_effect r)]) (\<lambda>_.
     wire_digest ''adoption_receipt_binding_digest'' (qo_binding_digest r))"

definition adoption_receipt_validate :: "control_receipt \<Rightarrow> wire_binding \<Rightarrow> source_adoption \<Rightarrow> wire_check" where
  "adoption_receipt_validate r n a =
     and_then (wire_schema (qo_schema_version r) CONTEXT_OWNER_CONTROL_RECEIPT_SCHEMA_V2) (\<lambda>_.
     and_then (binding_validate n) (\<lambda>_.
     and_then (adoption_validate a) (\<lambda>_.
     and_then (ensure (\<not> (xa_expected_control_version a \<noteq> wb_control_version (wn_boundary n)
       \<or> xa_expected_boundary a \<noteq> wn_boundary n \<or> xa_expected_revision_id a \<noteq> wn_approved_revision_id n))
       (CorrelationMismatch ''adoption_precondition'')) (\<lambda>_.
     and_then (adoption_fields r) (\<lambda>_.
     and_then (ok_or (checked_add (wb_control_version (xa_expected_boundary a)) 1)
       (OutOfBounds ''control_version'')) (\<lambda>version.
     and_then (ok_or (checked_add (wn_plan_epoch n) 1) (OutOfBounds ''plan_epoch'')) (\<lambda>plan_epoch.
     let expected = (xa_expected_boundary a)\<lparr>wb_control_version := version\<rparr> in
     and_then (boundary_validate expected) (\<lambda>_.
     and_then (ensure (\<not> (qo_owner_id r \<noteq> wn_owner_id n \<or> qo_invocation_id r \<noteq> wn_invocation_id n
       \<or> qo_binding_id r \<noteq> wn_binding_id n \<or> qo_binding_digest r \<noteq> wn_binding_digest n
       \<or> qo_command r \<noteq> CommitKind \<or> qo_idempotency_key r \<noteq> xa_idempotency_key a
       \<or> qo_effect r \<noteq> ''revision_committed'' \<or> qo_control_version r \<noteq> version
       \<or> qo_plan_epoch r \<noteq> plan_epoch \<or> qo_boundary r \<noteq> expected
       \<or> qo_controller_epoch r \<noteq> wb_controller_epoch expected
       \<or> qo_gate_epoch r \<noteq> wb_gate_epoch expected)) (CorrelationMismatch ''adoption_receipt'')) (\<lambda>_.
     and_then (ok_or (qo_revision_id r) (CorrelationMismatch ''adoption_revision'')) (\<lambda>revision.
     and_then (wire_identifier ''adoption_result_revision_id'' revision) (\<lambda>_.
     and_then (ensure (revision = ''revision-'' @ dec (unat plan_epoch)) (CorrelationMismatch ''adoption_revision'')) (\<lambda>_.
     and_then (ok_or (qo_preview_manifest_digest r) (CorrelationMismatch ''adoption_source_digest'')) (\<lambda>preview.
     and_then (ok_or (qo_approved_manifest_digest r) (CorrelationMismatch ''adoption_source_digest'')) (\<lambda>approved.
     and_then (wire_digest ''adoption_preview_manifest'' preview) (\<lambda>_.
     and_then (wire_digest ''adoption_approved_manifest'' approved) (\<lambda>_.
     and_then (ensure (preview = approved) (CorrelationMismatch ''adoption_source_digest'')) (\<lambda>_.
     Inl (CorrelationMismatch ''adoption_source_witness_required''))))))))))))))))))"

end
