(* ===== verification/Wire_Invocation.thy ===== *)
theory Wire_Invocation
  imports Wire_Requests
begin

text \<open>
  An invocation of the Harness owner
  (\<open>context-service/src/harness_context_owner_wire/operations/\<close>): its twenty operations, their
  validation against the expected binding, the route and the body that each is sent with, and the
  decoding of the response, which is correlated with the whole invocation.
  Field prefixes: \<open>iq_\<close> items query, \<open>rq_\<close> revision query, \<open>ep_\<close> endpoint, \<open>iv_\<close> invocation.
\<close>

subsection \<open>Queries and routes\<close>

datatype http_method = HttpGet | HttpPost | HttpPatch | HttpPut

fun http_method_as_str :: "http_method \<Rightarrow> string" where
  "http_method_as_str HttpGet = ''GET''"
| "http_method_as_str HttpPost = ''POST''"
| "http_method_as_str HttpPatch = ''PATCH''"
| "http_method_as_str HttpPut = ''PUT''"

text \<open>A \<open>HarnessQuery\<close> is its name and its value.\<close>

record endpoint =
  ep_method :: http_method
  ep_path :: string
  ep_query :: "(string \<times> string) list"

record items_query =
  iq_draft_id :: "string option"
  iq_include_content :: "bool option"

definition items_query_validate :: "items_query \<Rightarrow> wire_check" where
  "items_query_validate q =
     (case iq_draft_id q of Some i \<Rightarrow> wire_identifier ''items_query_draft_id'' i | None \<Rightarrow> Inr ())"

definition items_query_pairs :: "items_query \<Rightarrow> (string \<times> string) list" where
  "items_query_pairs q =
     (case iq_draft_id q of Some i \<Rightarrow> [(''draft_id'', i)] | None \<Rightarrow> [])
     @ (case iq_include_content q of
          Some b \<Rightarrow> [(''include_content'', if b then ''true'' else ''false'')] | None \<Rightarrow> [])"

record revision_query =
  rq_after_revision_id :: "string option"
  rq_limit :: "u64 option"

definition revision_query_validate :: "revision_query \<Rightarrow> wire_check" where
  "revision_query_validate q =
     and_then (case rq_after_revision_id q of
         Some cursor \<Rightarrow> wire_identifier ''revision_cursor'' cursor | None \<Rightarrow> Inr ()) (\<lambda>_.
     ensure (\<not> (case rq_limit q of
         Some limit \<Rightarrow> \<not> (1 \<le> limit \<and> limit \<le> of_nat MAX_HARNESS_PAGE_SIZE) | None \<Rightarrow> False))
       (OutOfBounds ''revision_page_limit''))"

definition revision_query_pairs :: "revision_query \<Rightarrow> (string \<times> string) list" where
  "revision_query_pairs q =
     (case rq_after_revision_id q of Some cursor \<Rightarrow> [(''after_revision_id'', cursor)] | None \<Rightarrow> [])
     @ (case rq_limit q of Some limit \<Rightarrow> [(''limit'', dec (unat limit))] | None \<Rightarrow> [])"

subsection \<open>Operations\<close>

text \<open>The first argument of every operation is its workflow run.\<close>

datatype wire_operation =
    CurrentAssociation string
  | CurrentSourceStatus string
  | CurrentEffectiveLimits string
  | EligibleItems string items_query
  | DraftList string
  | GetDraft string string
  | CreateDraftOp string draft_create
  | PatchDraftOp string string draft_patch
  | CreatePreviewOp string string preview_request
  | RevisionPage string revision_query
  | GetRevision string string
  | GetPreview string string
  | LookupMutation string mutation_lookup
  | PublishedSources string
  | PublishDraft string string publication_request
  | LookupPublication string publication_lookup
  | UploadSource string string source_upload
  | AdoptSource string string source_adoption
  | SubmitControl string wire_command
  | LookupControl string wire_command

fun operation_run :: "wire_operation \<Rightarrow> string" where
  "operation_run (CurrentAssociation run) = run"
| "operation_run (CurrentSourceStatus run) = run"
| "operation_run (CurrentEffectiveLimits run) = run"
| "operation_run (EligibleItems run _) = run"
| "operation_run (DraftList run) = run"
| "operation_run (GetDraft run _) = run"
| "operation_run (CreateDraftOp run _) = run"
| "operation_run (PatchDraftOp run _ _) = run"
| "operation_run (CreatePreviewOp run _ _) = run"
| "operation_run (RevisionPage run _) = run"
| "operation_run (GetRevision run _) = run"
| "operation_run (GetPreview run _) = run"
| "operation_run (LookupMutation run _) = run"
| "operation_run (PublishedSources run) = run"
| "operation_run (PublishDraft run _ _) = run"
| "operation_run (LookupPublication run _) = run"
| "operation_run (UploadSource run _ _) = run"
| "operation_run (AdoptSource run _ _) = run"
| "operation_run (SubmitControl run _) = run"
| "operation_run (LookupControl run _) = run"

definition need_binding :: "wire_binding option \<Rightarrow> wire_error + wire_binding" where
  "need_binding n = ok_or n (InvalidValue ''expected_binding'')"

definition request_binding_validate :: "string \<Rightarrow> wire_boundary \<Rightarrow> wire_binding option \<Rightarrow> wire_check" where
  "request_binding_validate run b n =
     and_then (boundary_validate b) (\<lambda>_.
     and_then (ensure (wb_run_id b = run) (CorrelationMismatch ''request_boundary_run'')) (\<lambda>_.
     and_then (need_binding n) (\<lambda>binding.
     ensure (b = wn_boundary binding) (CorrelationMismatch ''request_boundary''))))"

definition control_operation_validate :: "string \<Rightarrow> wire_command \<Rightarrow> wire_binding option \<Rightarrow> wire_check" where
  "control_operation_validate run c n =
     and_then (need_binding n) (\<lambda>binding.
     and_then (ensure (wn_workflow_run_id binding = run) (CorrelationMismatch ''control_run_id'')) (\<lambda>_.
     wire_command_validate c binding))"

fun operation_validate_arm :: "wire_operation \<Rightarrow> wire_binding option \<Rightarrow> wire_check" where
  "operation_validate_arm (CurrentAssociation run) n = Inr ()"
| "operation_validate_arm (CurrentSourceStatus run) n = Inr ()"
| "operation_validate_arm (DraftList run) n = Inr ()"
| "operation_validate_arm (PublishedSources run) n = Inr ()"
| "operation_validate_arm (CurrentEffectiveLimits run) n = and_then (need_binding n) (\<lambda>_. Inr ())"
| "operation_validate_arm (EligibleItems run q) n = items_query_validate q"
| "operation_validate_arm (GetDraft run i) n = wire_identifier ''operation_object_id'' i"
| "operation_validate_arm (GetPreview run i) n = wire_identifier ''operation_object_id'' i"
| "operation_validate_arm (GetRevision run i) n = wire_identifier ''operation_object_id'' i"
| "operation_validate_arm (CreateDraftOp run q) n =
     and_then (draft_create_validate q) (\<lambda>_. request_binding_validate run (qc_expected_boundary q) n)"
| "operation_validate_arm (PatchDraftOp run i q) n =
     and_then (wire_identifier ''patch_path_draft_id'' i) (\<lambda>_.
     and_then (draft_patch_validate q) (\<lambda>_.
     and_then (ensure (qp_draft_id q = i) (CorrelationMismatch ''patch_path_draft_id'')) (\<lambda>_.
     request_binding_validate run (qp_expected_boundary q) n)))"
| "operation_validate_arm (CreatePreviewOp run i q) n =
     and_then (wire_identifier ''preview_path_draft_id'' i) (\<lambda>_.
     and_then (preview_request_validate q) (\<lambda>_.
     and_then (ensure (qv_draft_id q = i) (CorrelationMismatch ''preview_path_draft_id'')) (\<lambda>_.
     request_binding_validate run (qv_expected_boundary q) n)))"
| "operation_validate_arm (RevisionPage run q) n = revision_query_validate q"
| "operation_validate_arm (LookupMutation run l) n =
     and_then (mutation_lookup_validate l) (\<lambda>_.
     request_binding_validate run (mutation_boundary (ql_request l)) n)"
| "operation_validate_arm (PublishDraft run i q) n =
     and_then (wire_identifier ''publish_path_draft_id'' i) (\<lambda>_.
     and_then (publication_request_validate q) (\<lambda>_.
     and_then (ensure (qu_draft_id q = i) (CorrelationMismatch ''publish_path_draft_id'')) (\<lambda>_.
     and_then (request_binding_validate run (qu_expected_boundary q) n) (\<lambda>_.
     and_then (need_binding n) (\<lambda>binding.
     ensure (\<not> (qu_expected_binding_id q \<noteq> wn_binding_id binding
       \<or> qu_expected_binding_digest q \<noteq> wn_binding_digest binding))
       (CorrelationMismatch ''publication_binding''))))))"
| "operation_validate_arm (LookupPublication run l) n =
     and_then (publication_lookup_validate l) (\<lambda>_.
     request_binding_validate run (qu_expected_boundary (qk_request l)) n)"
| "operation_validate_arm (UploadSource run i u) n =
     and_then (wire_identifier ''upload_path_source_id'' i) (\<lambda>_.
     and_then (upload_validate u) (\<lambda>_.
     and_then (need_binding n) (\<lambda>binding.
     ensure (wn_workflow_run_id binding = run) (CorrelationMismatch ''upload_run_id''))))"
| "operation_validate_arm (AdoptSource run i a) n =
     and_then (wire_identifier ''adopt_path_source_id'' i) (\<lambda>_.
     and_then (adoption_validate a) (\<lambda>_.
     request_binding_validate run (xa_expected_boundary a) n))"
| "operation_validate_arm (SubmitControl run c) n = control_operation_validate run c n"
| "operation_validate_arm (LookupControl run c) n = control_operation_validate run c n"

definition operation_validate :: "wire_operation \<Rightarrow> wire_binding option \<Rightarrow> wire_check" where
  "operation_validate op n =
     and_then (wire_identifier ''operation_workflow_run_id'' (operation_run op)) (\<lambda>_.
     and_then (operation_validate_arm op n) (\<lambda>_.
     ensure (\<not> (case n of Some binding \<Rightarrow> wn_workflow_run_id binding \<noteq> operation_run op | None \<Rightarrow> False))
       (CorrelationMismatch ''binding_run_id'')))"

fun operation_route :: "wire_operation \<Rightarrow> http_method \<times> string \<times> (string \<times> string) list" where
  "operation_route (CurrentAssociation _) = (HttpGet, ''/context-owner-association'', [])"
| "operation_route (CurrentSourceStatus _) = (HttpGet, ''/context-owner-source-status'', [])"
| "operation_route (CurrentEffectiveLimits _) = (HttpGet, ''/context-owner-effective-limits'', [])"
| "operation_route (EligibleItems _ q) = (HttpGet, ''/context-owner-items'', items_query_pairs q)"
| "operation_route (DraftList _) = (HttpGet, ''/context-owner-drafts'', [])"
| "operation_route (GetDraft _ i) = (HttpGet, ''/context-owner-drafts/'' @ i, [])"
| "operation_route (CreateDraftOp _ _) = (HttpPost, ''/context-owner-drafts'', [])"
| "operation_route (PatchDraftOp _ i _) = (HttpPatch, ''/context-owner-drafts/'' @ i, [])"
| "operation_route (CreatePreviewOp _ i _) = (HttpPost, ''/context-owner-drafts/'' @ i @ ''/previews'', [])"
| "operation_route (RevisionPage _ q) = (HttpGet, ''/context-owner-revisions'', revision_query_pairs q)"
| "operation_route (GetRevision _ i) = (HttpGet, ''/context-owner-revisions/'' @ i, [])"
| "operation_route (GetPreview _ i) = (HttpGet, ''/context-owner-previews/'' @ i, [])"
| "operation_route (LookupMutation _ _) = (HttpPost, ''/context-owner-mutation-receipts/lookup'', [])"
| "operation_route (PublishedSources _) = (HttpGet, ''/context-owner-published-sources'', [])"
| "operation_route (PublishDraft _ i _) = (HttpPost, ''/context-owner-drafts/'' @ i @ ''/publications'', [])"
| "operation_route (LookupPublication _ _) =
     (HttpPost, ''/context-owner-draft-publication-receipts/lookup'', [])"
| "operation_route (UploadSource _ i _) = (HttpPut, ''/context-sources/'' @ i, [])"
| "operation_route (AdoptSource _ i _) = (HttpPost, ''/context-sources/'' @ i @ ''/adopt'', [])"
| "operation_route (SubmitControl _ _) = (HttpPost, ''/context-control-commands'', [])"
| "operation_route (LookupControl _ _) = (HttpPost, ''/context-control-receipts/lookup'', [])"

text \<open>A missing binding does not matter for the route; every other refusal does.\<close>

definition operation_endpoint :: "wire_operation \<Rightarrow> wire_error + endpoint" where
  "operation_endpoint op =
     and_then (case operation_validate op None of
         Inl e \<Rightarrow> if e = InvalidValue ''expected_binding'' then Inr () else Inl e
       | Inr u \<Rightarrow> Inr u) (\<lambda>_.
     (case operation_route op of (m, path, query) \<Rightarrow>
        Inr \<lparr>ep_method = m, ep_path = ''/v1/workflow-runs/'' @ operation_run op @ path, ep_query = query\<rparr>))"

subsection \<open>Responses\<close>

datatype wire_response =
    AssociationResponse association_view
  | SourceStatusResponse source_status
  | EffectiveLimitsResponse limits_view
  | ItemsResponse items_view
  | DraftListResponse draft_list_view
  | DraftResponse draft_envelope
  | MutationReceiptResponse mutation_receipt
  | MutationLookupResponse "mutation_receipt option"
  | PreviewResponse preview_envelope
  | RevisionPageResponse revision_page
  | RevisionResponse revision_envelope
  | PublishedSourcesResponse published_sources
  | PublicationReceiptResponse publication_receipt
  | PublicationLookupResponse "publication_receipt option"
  | SourcePublicationResponse source_publication
  | ControlReceiptResponse control_receipt

text \<open>The encoders of the other bodies, and the decoder of every response.\<close>

record wire_codec = digest_codec +
  jc_mutation_lookup_vec :: "mutation_lookup \<Rightarrow> bytes option"
  jc_publication_vec :: "publication_request \<Rightarrow> bytes option"
  jc_publication_lookup_vec :: "publication_lookup \<Rightarrow> bytes option"
  jc_upload_vec :: "source_upload \<Rightarrow> bytes option"
  jc_adoption_vec :: "source_adoption \<Rightarrow> bytes option"
  jc_command_vec :: "wire_command \<Rightarrow> bytes option"
  jc_association_of :: "bytes \<Rightarrow> association_view option"
  jc_source_status_of :: "bytes \<Rightarrow> source_status option"
  jc_limits_of :: "bytes \<Rightarrow> limits_view option"
  jc_items_of :: "bytes \<Rightarrow> items_view option"
  jc_draft_list_of :: "bytes \<Rightarrow> draft_list_view option"
  jc_draft_of :: "bytes \<Rightarrow> draft_envelope option"
  jc_mutation_receipt_of :: "bytes \<Rightarrow> mutation_receipt option"
  jc_mutation_lookup_of :: "bytes \<Rightarrow> mutation_receipt option option"
  jc_preview_of :: "bytes \<Rightarrow> preview_envelope option"
  jc_revision_page_of :: "bytes \<Rightarrow> revision_page option"
  jc_revision_of :: "bytes \<Rightarrow> revision_envelope option"
  jc_published_sources_of :: "bytes \<Rightarrow> published_sources option"
  jc_publication_receipt_of :: "bytes \<Rightarrow> publication_receipt option"
  jc_publication_lookup_of :: "bytes \<Rightarrow> publication_receipt option option"
  jc_source_publication_of :: "bytes \<Rightarrow> source_publication option"
  jc_control_receipt_of :: "bytes \<Rightarrow> control_receipt option"

subsection \<open>Bodies\<close>

abbreviation body_of ::
  "'c wire_codec_scheme \<Rightarrow> ('a \<Rightarrow> bytes option) \<Rightarrow> 'a \<Rightarrow> wire_error + bytes option" where
  "body_of jc to_vec x \<equiv> and_then (bounded_json_bytes (jc_scan jc) to_vec x) (\<lambda>bs. Inr (Some bs))"

fun operation_body :: "'c wire_codec_scheme \<Rightarrow> wire_operation \<Rightarrow> wire_error + bytes option" where
  "operation_body jc (CreateDraftOp _ q) = body_of jc (jc_create_vec jc) q"
| "operation_body jc (PatchDraftOp _ _ q) = body_of jc (jc_patch_vec jc) q"
| "operation_body jc (CreatePreviewOp _ _ q) = body_of jc (jc_preview_vec jc) q"
| "operation_body jc (LookupMutation _ l) = body_of jc (jc_mutation_lookup_vec jc) l"
| "operation_body jc (PublishDraft _ _ q) = body_of jc (jc_publication_vec jc) q"
| "operation_body jc (LookupPublication _ l) = body_of jc (jc_publication_lookup_vec jc) l"
| "operation_body jc (UploadSource _ _ u) = body_of jc (jc_upload_vec jc) u"
| "operation_body jc (AdoptSource _ _ a) = body_of jc (jc_adoption_vec jc) a"
| "operation_body jc (SubmitControl _ c) = body_of jc (jc_command_vec jc) c"
| "operation_body jc (LookupControl _ c) = body_of jc (jc_command_vec jc) c"
| "operation_body jc op = Inr None"

fun operation_request_digest :: "'c wire_codec_scheme \<Rightarrow> wire_operation \<Rightarrow> wire_error + string option" where
  "operation_request_digest jc (CreateDraftOp _ q) =
     and_then (map_err (\<lambda>_. JsonEncoding) (mutation_payload_digest jc (CreateDraft q))) (\<lambda>s. Inr (Some s))"
| "operation_request_digest jc (PatchDraftOp _ _ q) =
     and_then (map_err (\<lambda>_. JsonEncoding) (mutation_payload_digest jc (PatchDraft q))) (\<lambda>s. Inr (Some s))"
| "operation_request_digest jc (CreatePreviewOp _ _ q) =
     and_then (map_err (\<lambda>_. JsonEncoding) (mutation_payload_digest jc (CreatePreview q))) (\<lambda>s. Inr (Some s))"
| "operation_request_digest jc (PublishDraft _ _ q) =
     and_then (publication_request_digest (jc_sha jc) q) (\<lambda>s. Inr (Some s))"
| "operation_request_digest jc op = Inr None"

subsection \<open>The invocation\<close>

definition CONSOLE_CONTEXT_OWNER_INVOCATION_SCHEMA_V2 :: string where
  "CONSOLE_CONTEXT_OWNER_INVOCATION_SCHEMA_V2 = ''ascension.console.context-owner-invocation.v2''"

record invocation =
  iv_schema_version :: string
  iv_identity :: identity_correlation
  iv_expected_binding :: "wire_binding option"
  iv_operation :: wire_operation

definition check_owner_scope :: "string \<Rightarrow> string \<Rightarrow> identity_correlation \<Rightarrow> wire_check" where
  "check_owner_scope owner_id run i =
     ensure (\<not> (owner_id \<noteq> wh_owner_id (wi_harness i) \<or> run \<noteq> wh_workflow_run_id (wi_harness i)))
       (CorrelationMismatch ''owner_scope'')"

definition check_boundary_scope :: "wire_boundary \<Rightarrow> identity_correlation \<Rightarrow> wire_check" where
  "check_boundary_scope b i =
     ensure (\<not> (wb_run_id b \<noteq> wp_run_id (wi_console_scope i)
       \<or> wb_episode_id b \<noteq> wp_episode_id (wi_console_scope i)
       \<or> wb_agent_id b \<noteq> wp_agent_id (wi_console_scope i))) (CorrelationMismatch ''console_scope_boundary'')"

definition check_binding_scope :: "wire_binding \<Rightarrow> string \<Rightarrow> identity_correlation \<Rightarrow> wire_check" where
  "check_binding_scope n run i =
     and_then (binding_validate n) (\<lambda>_.
     and_then (check_owner_scope (wn_owner_id n) run i) (\<lambda>_.
     check_boundary_scope (wn_boundary n) i))"

definition check_actor :: "string \<Rightarrow> identity_correlation \<Rightarrow> wire_check" where
  "check_actor actor i =
     ensure (\<not> (actor \<noteq> wh_actor_subject (wi_harness i) \<or> actor \<noteq> wo_subject (wi_console i)))
       (CorrelationMismatch ''receipt_actor'')"

definition check_limits_binding :: "limits_view \<Rightarrow> wire_binding \<Rightarrow> wire_check" where
  "check_limits_binding v n =
     ensure (\<not> (wv_owner_id v \<noteq> wn_owner_id n \<or> wv_owner_version v \<noteq> wn_owner_version n
       \<or> wv_binding_id v \<noteq> wn_binding_id n \<or> wv_binding_version v \<noteq> wn_binding_version n
       \<or> wv_binding_digest v \<noteq> wn_binding_digest n \<or> wv_context_ref v \<noteq> wn_context_ref n
       \<or> wv_node_kind v \<noteq> wn_node_kind n
       \<or> wv_adapter_revision v \<noteq> wb_adapter_revision (wn_boundary n)
       \<or> wv_model_revision v \<noteq> wb_model_revision (wn_boundary n)))
       (CorrelationMismatch ''effective_limits_binding'')"

definition invocation_validate :: "'c wire_codec_scheme \<Rightarrow> invocation \<Rightarrow> wire_check" where
  "invocation_validate jc iv =
     and_then (wire_schema (iv_schema_version iv) CONSOLE_CONTEXT_OWNER_INVOCATION_SCHEMA_V2) (\<lambda>_.
     and_then (identity_validate (iv_identity iv)) (\<lambda>_.
     and_then (case iv_expected_binding iv of
         Some n \<Rightarrow>
           and_then (binding_validate n) (\<lambda>_.
           and_then (ensure (\<not> (wn_owner_id n \<noteq> wh_owner_id (wi_harness (iv_identity iv))
             \<or> wn_workflow_run_id n \<noteq> wh_workflow_run_id (wi_harness (iv_identity iv))
             \<or> wn_workflow_run_id n \<noteq> wp_run_id (wi_console_scope (iv_identity iv))))
             (CorrelationMismatch ''expected_binding'')) (\<lambda>_.
           check_boundary_scope (wn_boundary n) (iv_identity iv)))
       | None \<Rightarrow> Inr ()) (\<lambda>_.
     and_then (operation_validate (iv_operation iv) (iv_expected_binding iv)) (\<lambda>_.
     and_then (ensure (operation_run (iv_operation iv) = wp_run_id (wi_console_scope (iv_identity iv)))
       (CorrelationMismatch ''operation_scope'')) (\<lambda>_.
     and_then (operation_body jc (iv_operation iv)) (\<lambda>_. Inr ()))))))"

definition invocation_endpoint :: "'c wire_codec_scheme \<Rightarrow> invocation \<Rightarrow> wire_error + endpoint" where
  "invocation_endpoint jc iv = and_then (invocation_validate jc iv) (\<lambda>_. operation_endpoint (iv_operation iv))"

definition harness_body :: "'c wire_codec_scheme \<Rightarrow> invocation \<Rightarrow> wire_error + bytes option" where
  "harness_body jc iv = and_then (invocation_validate jc iv) (\<lambda>_. operation_body jc (iv_operation iv))"

subsection \<open>Decoding a response\<close>

abbreviation decoded ::
  "'c wire_codec_scheme \<Rightarrow> (bytes \<Rightarrow> 'a option) \<Rightarrow> bytes \<Rightarrow> ('a \<Rightarrow> wire_error + 'b) \<Rightarrow> wire_error + 'b" where
  "decoded jc from_slice bs f \<equiv> and_then (decode_bounded_json (jc_scan jc) from_slice bs) f"

definition decode_mutation ::
  "'c wire_codec_scheme \<Rightarrow> invocation \<Rightarrow> mutation_request \<Rightarrow> bytes \<Rightarrow> wire_error + wire_response" where
  "decode_mutation jc iv q bs =
     decoded jc (jc_mutation_receipt_of jc) bs (\<lambda>r.
     and_then (and_then (need_binding (iv_expected_binding iv)) (mutation_receipt_validate_for jc r q)) (\<lambda>_.
     and_then (check_actor (qr_actor_subject r) (iv_identity iv)) (\<lambda>_.
     Inr (MutationReceiptResponse r))))"

definition decode_control ::
  "'c wire_codec_scheme \<Rightarrow> invocation \<Rightarrow> wire_command \<Rightarrow> bytes \<Rightarrow> wire_error + wire_response" where
  "decode_control jc iv c bs =
     decoded jc (jc_control_receipt_of jc) bs (\<lambda>r.
     and_then (and_then (need_binding (iv_expected_binding iv)) (\<lambda>n. control_receipt_validate_for r n c)) (\<lambda>_.
     Inr (ControlReceiptResponse r)))"

fun decode_operation ::
  "'c wire_codec_scheme \<Rightarrow> invocation \<Rightarrow> bytes \<Rightarrow> wire_operation \<Rightarrow> wire_error + wire_response" where
  "decode_operation jc iv bs (CurrentAssociation _) =
     decoded jc (jc_association_of jc) bs (\<lambda>v.
     and_then (association_view_validate v) (\<lambda>_.
     and_then (check_binding_scope (wa_binding v) (wp_run_id (wi_console_scope (iv_identity iv))) (iv_identity iv)) (\<lambda>_.
     Inr (AssociationResponse v))))"
| "decode_operation jc iv bs (CurrentSourceStatus _) =
     decoded jc (jc_source_status_of jc) bs (\<lambda>v.
     and_then (source_status_validate v (wp_run_id (wi_console_scope (iv_identity iv)))) (\<lambda>_.
     and_then (check_owner_scope (xs_owner_id v) (wp_run_id (wi_console_scope (iv_identity iv))) (iv_identity iv)) (\<lambda>_.
     and_then (check_boundary_scope (xs_boundary v) (iv_identity iv)) (\<lambda>_.
     Inr (SourceStatusResponse v)))))"
| "decode_operation jc iv bs (CurrentEffectiveLimits _) =
     decoded jc (jc_limits_of jc) bs (\<lambda>v.
     and_then (limits_view_validate v) (\<lambda>_.
     and_then (need_binding (iv_expected_binding iv)) (\<lambda>n.
     and_then (check_owner_scope (wv_owner_id v) (wp_run_id (wi_console_scope (iv_identity iv))) (iv_identity iv)) (\<lambda>_.
     and_then (check_limits_binding v n) (\<lambda>_.
     Inr (EffectiveLimitsResponse v))))))"
| "decode_operation jc iv bs (EligibleItems _ q) =
     decoded jc (jc_items_of jc) bs (\<lambda>v.
     and_then (items_view_validate v) (\<lambda>_.
     and_then (ensure (\<not> (iq_include_content q \<noteq> Some True
       \<and> list_ex (\<lambda>i. vi_content i \<noteq> None) (vs_items v))) (CorrelationMismatch ''items_content_selection'')) (\<lambda>_.
     and_then (check_owner_scope (vs_owner_id v) (wp_run_id (wi_console_scope (iv_identity iv))) (iv_identity iv)) (\<lambda>_.
     and_then (check_boundary_scope (vs_boundary v) (iv_identity iv)) (\<lambda>_.
     and_then (ensure (\<not> (case iv_expected_binding iv of
         Some n \<Rightarrow> vs_binding_id v \<noteq> wn_binding_id n \<or> vs_binding_digest v \<noteq> wn_binding_digest n
           \<or> vs_boundary v \<noteq> wn_boundary n
       | None \<Rightarrow> False)) (CorrelationMismatch ''items_binding'')) (\<lambda>_.
     Inr (ItemsResponse v)))))))"
| "decode_operation jc iv bs (DraftList _) =
     decoded jc (jc_draft_list_of jc) bs (\<lambda>v.
     and_then (draft_list_validate v) (\<lambda>_.
     and_then (check_owner_scope (vl_owner_id v) (vl_workflow_run_id v) (iv_identity iv)) (\<lambda>_.
     and_then (ensure (vl_workflow_run_id v = wp_run_id (wi_console_scope (iv_identity iv)))
       (CorrelationMismatch ''draft_list_run'')) (\<lambda>_.
     and_then (each (\<lambda>d.
         and_then (check_binding_scope (vd_binding d) (wp_run_id (wi_console_scope (iv_identity iv))) (iv_identity iv)) (\<lambda>_.
         check_actor (vd_actor_subject d) (iv_identity iv))) (vl_drafts v)) (\<lambda>_.
     Inr (DraftListResponse v))))))"
| "decode_operation jc iv bs (GetDraft _ i) =
     decoded jc (jc_draft_of jc) bs (\<lambda>v.
     and_then (draft_envelope_validate v) (\<lambda>_.
     and_then (check_binding_scope (vd_binding v) (wp_run_id (wi_console_scope (iv_identity iv))) (iv_identity iv)) (\<lambda>_.
     and_then (check_actor (vd_actor_subject v) (iv_identity iv)) (\<lambda>_.
     and_then (ensure (wd_draft_id (vd_draft v) = i) (CorrelationMismatch ''draft_id'')) (\<lambda>_.
     Inr (DraftResponse v))))))"
| "decode_operation jc iv bs (CreateDraftOp _ q) = decode_mutation jc iv (CreateDraft q) bs"
| "decode_operation jc iv bs (PatchDraftOp _ _ q) = decode_mutation jc iv (PatchDraft q) bs"
| "decode_operation jc iv bs (CreatePreviewOp _ _ q) = decode_mutation jc iv (CreatePreview q) bs"
| "decode_operation jc iv bs (RevisionPage _ _) =
     decoded jc (jc_revision_page_of jc) bs (\<lambda>v.
     and_then (revision_page_validate v) (\<lambda>_.
     and_then (check_owner_scope (vg_owner_id v) (vg_workflow_run_id v) (iv_identity iv)) (\<lambda>_.
     and_then (ensure (vg_workflow_run_id v = wp_run_id (wi_console_scope (iv_identity iv)))
       (CorrelationMismatch ''revision_page_run'')) (\<lambda>_.
     and_then (each (\<lambda>r.
         and_then (check_binding_scope (vr_binding r) (wp_run_id (wi_console_scope (iv_identity iv))) (iv_identity iv)) (\<lambda>_.
         check_actor (vr_actor_subject r) (iv_identity iv))) (vg_revisions v)) (\<lambda>_.
     Inr (RevisionPageResponse v))))))"
| "decode_operation jc iv bs (GetRevision _ i) =
     decoded jc (jc_revision_of jc) bs (\<lambda>v.
     and_then (revision_envelope_validate v) (\<lambda>_.
     and_then (check_binding_scope (vr_binding v) (wp_run_id (wi_console_scope (iv_identity iv))) (iv_identity iv)) (\<lambda>_.
     and_then (check_actor (vr_actor_subject v) (iv_identity iv)) (\<lambda>_.
     and_then (ensure (vr_revision_id v = i) (CorrelationMismatch ''revision_id'')) (\<lambda>_.
     Inr (RevisionResponse v))))))"
| "decode_operation jc iv bs (GetPreview _ i) =
     decoded jc (jc_preview_of jc) bs (\<lambda>v.
     and_then (preview_envelope_validate v) (\<lambda>_.
     and_then (check_binding_scope (vp_binding v) (wp_run_id (wi_console_scope (iv_identity iv))) (iv_identity iv)) (\<lambda>_.
     and_then (check_actor (vp_actor_subject v) (iv_identity iv)) (\<lambda>_.
     and_then (ensure (vp_preview_id v = i) (CorrelationMismatch ''preview_id'')) (\<lambda>_.
     Inr (PreviewResponse v))))))"
| "decode_operation jc iv bs (LookupMutation _ l) =
     decoded jc (jc_mutation_lookup_of jc) bs (\<lambda>v.
     and_then (case v of
         Some r \<Rightarrow>
           and_then (and_then (need_binding (iv_expected_binding iv))
             (mutation_receipt_validate_for jc r (ql_request l))) (\<lambda>_.
           check_actor (qr_actor_subject r) (iv_identity iv))
       | None \<Rightarrow> Inr ()) (\<lambda>_.
     Inr (MutationLookupResponse v)))"
| "decode_operation jc iv bs (PublishedSources _) =
     decoded jc (jc_published_sources_of jc) bs (\<lambda>v.
     and_then (published_sources_validate v) (\<lambda>_.
     and_then (check_binding_scope (qs_binding v) (wp_run_id (wi_console_scope (iv_identity iv))) (iv_identity iv)) (\<lambda>_.
     Inr (PublishedSourcesResponse v))))"
| "decode_operation jc iv bs (PublishDraft _ _ q) =
     decoded jc (jc_publication_receipt_of jc) bs (\<lambda>v.
     and_then (publication_receipt_validate_for (jc_sha jc) v q (wo_subject (wi_console (iv_identity iv)))
       (wp_run_id (wi_console_scope (iv_identity iv)))) (\<lambda>_.
     Inr (PublicationReceiptResponse v)))"
| "decode_operation jc iv bs (LookupPublication _ l) =
     decoded jc (jc_publication_lookup_of jc) bs (\<lambda>v.
     and_then (case v of
         Some r \<Rightarrow> publication_receipt_validate_for (jc_sha jc) r (qk_request l)
           (wo_subject (wi_console (iv_identity iv))) (wp_run_id (wi_console_scope (iv_identity iv)))
       | None \<Rightarrow> Inr ()) (\<lambda>_.
     Inr (PublicationLookupResponse v)))"
| "decode_operation jc iv bs (UploadSource _ i u) =
     decoded jc (jc_source_publication_of jc) bs (\<lambda>v.
     and_then (source_publication_validate v) (\<lambda>_.
     and_then (if ws_source_id (xp_source v) \<noteq> i then Inl (CorrelationMismatch ''uploaded_source_id'')
       else and_then (document_digest jc u) (\<lambda>d.
         ensure (ws_digest (xp_source v) = d) (CorrelationMismatch ''uploaded_source_id''))) (\<lambda>_.
     Inr (SourcePublicationResponse v))))"
| "decode_operation jc iv bs (AdoptSource _ _ a) =
     decoded jc (jc_control_receipt_of jc) bs (\<lambda>r.
     and_then (and_then (need_binding (iv_expected_binding iv)) (\<lambda>n. adoption_receipt_validate r n a)) (\<lambda>_.
     Inr (ControlReceiptResponse r)))"
| "decode_operation jc iv bs (SubmitControl _ c) = decode_control jc iv c bs"
| "decode_operation jc iv bs (LookupControl _ c) = decode_control jc iv c bs"

definition decode_response :: "'c wire_codec_scheme \<Rightarrow> invocation \<Rightarrow> bytes \<Rightarrow> wire_error + wire_response" where
  "decode_response jc iv bs =
     and_then (invocation_validate jc iv) (\<lambda>_. decode_operation jc iv bs (iv_operation iv))"

end
