(* ===== verification/Invocation_Records.thy ===== *)
theory Invocation_Records
  imports Control_Types Wire_Invocation
begin

text \<open>
  The records of the owner invocation store and the authority behind them
  (\<open>context-service/src/owner_invocation_store/record.rs\<close> and \<open>operations.rs\<close>,
  \<open>protected_owner_credentials.rs\<close>, and the permissions and grants of \<open>harness_facade.rs\<close>,
  \<open>subject_grants.rs\<close> and \<open>authenticated_ingress.rs\<close> that they read).
  Field prefixes: \<open>vpr_\<close> verified principal, \<open>asg_\<close> admitted grant, \<open>ocd_\<close> credential descriptor,
  \<open>roc_\<close> resolved credential, \<open>lc_\<close> stable locator, \<open>gsn_\<close> grant snapshot, \<open>asn_\<close> admission
  snapshot, \<open>att_\<close> attempt, \<open>irc_\<close> invocation record, \<open>tad_\<close> trusted admission.
\<close>

subsection \<open>Permissions\<close>

datatype facade_permission =
    MetadataRead | ContentRead | ContentWrite | EditDrafts | EditObjective
  | CommitRevision | PauseAgent | ResumeAgent

text \<open>The derived order is the order of declaration.\<close>

fun permission_index :: "facade_permission \<Rightarrow> nat" where
  "permission_index MetadataRead = 0"
| "permission_index ContentRead = 1"
| "permission_index ContentWrite = 2"
| "permission_index EditDrafts = 3"
| "permission_index EditObjective = 4"
| "permission_index CommitRevision = 5"
| "permission_index PauseAgent = 6"
| "permission_index ResumeAgent = 7"

lemma permission_index_inject [simp]: "permission_index p = permission_index q \<longleftrightarrow> p = q"
  by (cases p; cases q) auto

instantiation facade_permission :: linorder
begin

definition less_eq_facade_permission :: "facade_permission \<Rightarrow> facade_permission \<Rightarrow> bool" where
  "p \<le> q \<longleftrightarrow> permission_index p \<le> permission_index q"
definition less_facade_permission :: "facade_permission \<Rightarrow> facade_permission \<Rightarrow> bool" where
  "p < q \<longleftrightarrow> permission_index p < permission_index q"

instance
  by standard (auto simp: less_eq_facade_permission_def less_facade_permission_def)

end

fun permission_as_str :: "facade_permission \<Rightarrow> string" where
  "permission_as_str MetadataRead = ''context.metadata.read''"
| "permission_as_str ContentRead = ''context.content.read''"
| "permission_as_str ContentWrite = ''context.content.write''"
| "permission_as_str EditDrafts = ''context.edit''"
| "permission_as_str EditObjective = ''context.objective.edit''"
| "permission_as_str CommitRevision = ''context.commit''"
| "permission_as_str PauseAgent = ''context.pause''"
| "permission_as_str ResumeAgent = ''context.resume''"

fun harness_scope_for :: "facade_permission \<Rightarrow> string" where
  "harness_scope_for MetadataRead = ''workflow:read''"
| "harness_scope_for ContentRead = ''workflow:context:content:read''"
| "harness_scope_for ContentWrite = ''workflow:content:write''"
| "harness_scope_for EditDrafts = ''workflow:context:edit''"
| "harness_scope_for EditObjective = ''workflow:context:objective:edit''"
| "harness_scope_for CommitRevision = ''workflow:control''"
| "harness_scope_for PauseAgent = ''workflow:control''"
| "harness_scope_for ResumeAgent = ''workflow:control''"

subsection \<open>Principals, grants and credentials\<close>

record verified_principal =
  vpr_issuer :: string
  vpr_subject :: string
  vpr_audience :: string
  vpr_credential_id :: string
  vpr_expires_at :: u64

record admitted_grant =
  asg_grant_id :: string
  asg_issuer :: string
  asg_subject :: string
  asg_permission :: facade_permission
  asg_scope :: scope
  asg_not_before :: u64
  asg_expires_at :: u64
  asg_revocation_generation :: u64

definition MAX_PRINCIPAL_CLAIM_BYTES :: nat where "MAX_PRINCIPAL_CLAIM_BYTES = 128"
definition MAX_FACADE_ID_BYTES :: nat where "MAX_FACADE_ID_BYTES = 128"

definition facade_valid_id :: "string \<Rightarrow> bool" where
  "facade_valid_id s \<longleftrightarrow>
     s \<noteq> [] \<and> length s \<le> MAX_FACADE_ID_BYTES
     \<and> list_all (\<lambda>(index, c). ascii_alphanumeric (bv c)
          \<or> 0 < index \<and> bv c \<in> {46, 95, 58, 45}) (enumerate 0 s)"

text \<open>The set of scopes is the list of its elements.\<close>

record owner_credential =
  ocd_console_issuer :: string
  ocd_console_subject :: string
  ocd_harness_subject :: string
  ocd_scope :: scope
  ocd_exact_scopes :: "string list"
  ocd_expires_at :: u64

definition MAX_DESCRIPTOR_SCOPES :: nat where "MAX_DESCRIPTOR_SCOPES = 6"

definition KNOWN_HARNESS_SCOPES :: "string list" where
  "KNOWN_HARNESS_SCOPES =
     [''workflow:read'', ''workflow:context:content:read'', ''workflow:content:write'',
      ''workflow:context:edit'', ''workflow:context:objective:edit'', ''workflow:control'']"

definition valid_identity_text :: "string \<Rightarrow> bool" where
  "valid_identity_text s \<longleftrightarrow>
     s \<noteq> [] \<and> length s \<le> MAX_PRINCIPAL_CLAIM_BYTES \<and> CHR 0x00 \<notin> set s
     \<and> list_all (\<lambda>c. 33 \<le> bv c \<and> bv c \<le> 126) s"

definition credential_scope_valid :: "scope \<Rightarrow> bool" where
  "credential_scope_valid sc \<longleftrightarrow>
     list_all facade_valid_id [sc_project_id sc, sc_run_id sc, sc_episode_id sc, sc_agent_id sc]"

definition credential_is_valid :: "owner_credential \<Rightarrow> bool" where
  "credential_is_valid d \<longleftrightarrow>
     valid_identity_text (ocd_console_issuer d) \<and> facade_valid_id (ocd_console_subject d)
     \<and> facade_valid_id (ocd_harness_subject d) \<and> valid_identity_text (ocd_harness_subject d)
     \<and> credential_scope_valid (ocd_scope d) \<and> ocd_expires_at d > 0
     \<and> ocd_exact_scopes d \<noteq> []
     \<and> length (remdups (ocd_exact_scopes d)) \<le> MAX_DESCRIPTOR_SCOPES
     \<and> list_all (\<lambda>s. s \<in> set KNOWN_HARNESS_SCOPES) (ocd_exact_scopes d)"

definition permits_exact_scope :: "owner_credential \<Rightarrow> string \<Rightarrow> bool" where
  "permits_exact_scope d s \<longleftrightarrow> s \<in> set (ocd_exact_scopes d)"

text \<open>A protected reference is its text.\<close>

record resolved_credential =
  roc_reference :: string
  roc_descriptor :: owner_credential

subsection \<open>Stored records\<close>

datatype entry_state =
    EntryPrepared | EntryWriteClaimed | EntryDefinitelyNotSent
  | EntryLookupClaimed | EntryUnknown | EntryCompleted

fun entry_code :: "entry_state \<Rightarrow> int" where
  "entry_code EntryPrepared = 0"
| "entry_code EntryWriteClaimed = 1"
| "entry_code EntryDefinitelyNotSent = 2"
| "entry_code EntryLookupClaimed = 3"
| "entry_code EntryUnknown = 4"
| "entry_code EntryCompleted = 5"

definition entry_from_sql :: "int \<Rightarrow> entry_state option" where
  "entry_from_sql n =
     (if n = 0 then Some EntryPrepared else if n = 1 then Some EntryWriteClaimed
      else if n = 2 then Some EntryDefinitelyNotSent else if n = 3 then Some EntryLookupClaimed
      else if n = 4 then Some EntryUnknown else if n = 5 then Some EntryCompleted else None)"

lemma entry_from_sql_code [simp]: "entry_from_sql (entry_code st) = Some st"
  by (cases st) (simp_all add: entry_from_sql_def)

lemma entry_from_sql_Some: "entry_from_sql n = Some st \<longleftrightarrow> n = entry_code st"
  by (cases st) (auto simp: entry_from_sql_def split: if_splits)

datatype lookup_family = FamilyMutation | FamilyControl | FamilyPublication | FamilySourceUpload

fun family_as_str :: "lookup_family \<Rightarrow> string" where
  "family_as_str FamilyMutation = ''mutation''"
| "family_as_str FamilyControl = ''control''"
| "family_as_str FamilyPublication = ''publication''"
| "family_as_str FamilySourceUpload = ''source_upload''"

fun has_exact_lookup :: "lookup_family \<Rightarrow> bool" where
  "has_exact_lookup FamilyMutation = True"
| "has_exact_lookup FamilyControl = True"
| "has_exact_lookup FamilyPublication = True"
| "has_exact_lookup FamilySourceUpload = False"

record stable_locator =
  lc_family :: lookup_family
  lc_stable_key :: string
  lc_issuer :: string
  lc_subject :: string
  lc_audience :: string
  lc_scope :: scope

record grant_snapshot =
  gsn_grant_id :: string
  gsn_issuer :: string
  gsn_subject :: string
  gsn_permission :: string
  gsn_project_id :: string
  gsn_run_id :: string
  gsn_episode_id :: string
  gsn_agent_id :: string
  gsn_not_before :: u64
  gsn_expires_at :: u64
  gsn_revocation_generation :: u64

record admission_snapshot =
  asn_issuer :: string
  asn_subject :: string
  asn_audience :: string
  asn_console_credential_id :: string
  asn_principal_expires_at :: u64
  asn_scope :: scope
  asn_harness_actor :: string
  asn_harness_owner :: string
  asn_harness_workflow_run :: string
  asn_binding :: "wire_binding option"
  asn_required_permissions :: "string list"
  asn_harness_scopes :: "string list"
  asn_grants :: "grant_snapshot list"
  asn_credential_reference_id :: string
  asn_credential_expires_at :: u64

datatype attempt_kind = AttemptWrite | AttemptLookup

record attempt_snapshot =
  att_kind :: attempt_kind
  att_console_credential_id :: string
  att_principal_expires_at :: u64
  att_grants :: "grant_snapshot list"
  att_required_permissions :: "string list"
  att_harness_scopes :: "string list"
  att_credential_reference_id :: string
  att_credential_expires_at :: u64

record invocation_record =
  irc_schema_version :: "16 word"
  irc_state :: entry_state
  irc_sequence :: u64
  irc_data_key_id :: string
  irc_origin :: admission_snapshot
  irc_invocation :: invocation
  irc_endpoint :: endpoint
  irc_canonical_body :: bytes
  irc_attempts :: "attempt_snapshot list"
  irc_response :: "wire_response option"
  irc_created_at :: u64
  irc_updated_at :: u64

definition RECORD_SCHEMA_VERSION :: "16 word" where "RECORD_SCHEMA_VERSION = 1"
definition MAX_ATTEMPTS :: nat where "MAX_ATTEMPTS = 16"
definition MAX_AUTH_GRANTS :: nat where "MAX_AUTH_GRANTS = 8"

datatype admission_use = UseWrite | UseExactLookup | UseCachedRead | UseReadOnly

datatype admission_error = AdmissionDenied | AdmissionUnsupported

text \<open>\<open>StoreError\<close> of \<open>owner_invocation_store.rs\<close>\<close>

datatype store_error =
    StoreInvalid | StoreDenied | StoreConflict | StoreUnsupportedOperation | StoreKeyUnavailable
  | StoreIndexRotation | StoreCorrupt | StoreStorageLimit | StoreCapacity | StoreUnavailable
  | StoreCryptoUnavailable | StoreUnsupportedPlatform | StoreRecoveryRequired
  | StoreAmbiguousWithoutExactLookup | StoreAttemptLimit | StoreInvalidOwnerResponse

fun map_admission_error :: "admission_error \<Rightarrow> store_error" where
  "map_admission_error AdmissionDenied = StoreDenied"
| "map_admission_error AdmissionUnsupported = StoreUnsupportedOperation"

subsection \<open>What an operation needs\<close>

fun write_operation :: "wire_operation \<Rightarrow> bool" where
  "write_operation (CreateDraftOp _ _) = True"
| "write_operation (PatchDraftOp _ _ _) = True"
| "write_operation (CreatePreviewOp _ _ _) = True"
| "write_operation (PublishDraft _ _ _) = True"
| "write_operation (UploadSource _ _ _) = True"
| "write_operation (SubmitControl _ _) = True"
| "write_operation _ = False"

fun lookup_operation :: "wire_operation \<Rightarrow> bool" where
  "lookup_operation (CreateDraftOp _ _) = True"
| "lookup_operation (PatchDraftOp _ _ _) = True"
| "lookup_operation (CreatePreviewOp _ _ _) = True"
| "lookup_operation (PublishDraft _ _ _) = True"
| "lookup_operation (SubmitControl _ _) = True"
| "lookup_operation _ = False"

fun read_operation :: "wire_operation \<Rightarrow> bool" where
  "read_operation (CurrentAssociation _) = True"
| "read_operation (CurrentSourceStatus _) = True"
| "read_operation (CurrentEffectiveLimits _) = True"
| "read_operation (EligibleItems _ _) = True"
| "read_operation (DraftList _) = True"
| "read_operation (GetDraft _ _) = True"
| "read_operation (RevisionPage _ _) = True"
| "read_operation (GetRevision _ _) = True"
| "read_operation (GetPreview _ _) = True"
| "read_operation (PublishedSources _) = True"
| "read_operation _ = False"

fun operation_supports_use :: "wire_operation \<Rightarrow> admission_use \<Rightarrow> bool" where
  "operation_supports_use op UseWrite = write_operation op"
| "operation_supports_use op UseCachedRead = write_operation op"
| "operation_supports_use op UseExactLookup = lookup_operation op"
| "operation_supports_use op UseReadOnly = read_operation op"

definition scope_of_identity :: "identity_correlation \<Rightarrow> scope" where
  "scope_of_identity i =
     \<lparr>sc_project_id = wp_project_id (wi_console_scope i), sc_run_id = wp_run_id (wi_console_scope i),
      sc_episode_id = wp_episode_id (wi_console_scope i), sc_agent_id = wp_agent_id (wi_console_scope i)\<rparr>"

fun locator_key :: "wire_operation \<Rightarrow> admission_error + (lookup_family \<times> string)" where
  "locator_key (CreateDraftOp _ q) = Inr (FamilyMutation, qc_request_id q)"
| "locator_key (PatchDraftOp _ _ q) = Inr (FamilyMutation, qp_request_id q)"
| "locator_key (CreatePreviewOp _ _ q) = Inr (FamilyMutation, qv_request_id q)"
| "locator_key (SubmitControl _ c) = Inr (FamilyControl, wire_command_key c)"
| "locator_key (PublishDraft _ _ q) = Inr (FamilyPublication, qu_request_id q)"
| "locator_key (UploadSource _ i _) = Inr (FamilySourceUpload, i)"
| "locator_key _ = Inl AdmissionUnsupported"

definition stable_locator_of :: "invocation \<Rightarrow> admission_error + stable_locator" where
  "stable_locator_of iv =
     and_then (locator_key (iv_operation iv)) (\<lambda>(family, key).
     Inr \<lparr>lc_family = family, lc_stable_key = key,
          lc_issuer = wo_issuer (wi_console (iv_identity iv)),
          lc_subject = wo_subject (wi_console (iv_identity iv)),
          lc_audience = wo_audience (wi_console (iv_identity iv)),
          lc_scope = scope_of_identity (iv_identity iv)\<rparr>)"

text \<open>
  Two invocations are the same call when they agree in all but the credential and the grant that
  admit them.
\<close>

definition same_call :: "invocation \<Rightarrow> invocation \<Rightarrow> bool" where
  "same_call stored current \<longleftrightarrow>
     (let old = iv_identity stored; new = iv_identity current;
          console = (wi_console new)
            \<lparr>wo_credential_id := wo_credential_id (wi_console old),
             wo_grant_id := wo_grant_id (wi_console old),
             wo_grant_generation := wo_grant_generation (wi_console old),
             wo_grant_expires_at := wo_grant_expires_at (wi_console old)\<rparr>;
          harness = (wi_harness new)
            \<lparr>wh_credential_reference_id := wh_credential_reference_id (wi_harness old),
             wh_credential_expires_at := wh_credential_expires_at (wi_harness old)\<rparr>
      in current\<lparr>iv_identity := new\<lparr>wi_console := console, wi_harness := harness\<rparr>\<rparr> = stored)"

definition admission_matches :: "admission_snapshot \<Rightarrow> admission_snapshot \<Rightarrow> bool" where
  "admission_matches original current \<longleftrightarrow>
     asn_issuer original = asn_issuer current \<and> asn_subject original = asn_subject current
     \<and> asn_audience original = asn_audience current \<and> asn_scope original = asn_scope current
     \<and> asn_harness_actor original = asn_harness_actor current
     \<and> asn_harness_owner original = asn_harness_owner current
     \<and> asn_harness_workflow_run original = asn_harness_workflow_run current
     \<and> asn_binding original = asn_binding current"

definition mutation_lookup_op :: "string \<Rightarrow> mutation_request \<Rightarrow> wire_operation" where
  "mutation_lookup_op run q =
     LookupMutation run \<lparr>ql_schema_version = CONTEXT_OWNER_MUTATION_LOOKUP_SCHEMA_V1, ql_request = q\<rparr>"

fun lookup_operation_of :: "wire_operation \<Rightarrow> admission_error + wire_operation" where
  "lookup_operation_of (CreateDraftOp run q) = Inr (mutation_lookup_op run (CreateDraft q))"
| "lookup_operation_of (PatchDraftOp run _ q) = Inr (mutation_lookup_op run (PatchDraft q))"
| "lookup_operation_of (CreatePreviewOp run _ q) = Inr (mutation_lookup_op run (CreatePreview q))"
| "lookup_operation_of (SubmitControl run c) = Inr (LookupControl run c)"
| "lookup_operation_of (PublishDraft run _ q) =
     Inr (LookupPublication run
       \<lparr>qk_schema_version = CONTEXT_OWNER_PUBLICATION_LOOKUP_SCHEMA_V1, qk_request = q\<rparr>)"
| "lookup_operation_of _ = Inl AdmissionUnsupported"

definition lookup_invocation ::
  "'c wire_codec_scheme \<Rightarrow> invocation \<Rightarrow> invocation \<Rightarrow> admission_error + invocation" where
  "lookup_invocation jc original current =
     and_then (ensure (same_call original current) AdmissionDenied) (\<lambda>_.
     and_then (lookup_operation_of (iv_operation original)) (\<lambda>op.
     (let lookup = current\<lparr>iv_operation := op\<rparr>
      in and_then (map_err (\<lambda>_. AdmissionDenied) (invocation_validate jc lookup)) (\<lambda>_. Inr lookup))))"

fun changes_objective :: "draft_operation \<Rightarrow> bool" where
  "changes_objective (SetWireObjective _) = True"
| "changes_objective RemoveWireObjective = True"
| "changes_objective _ = False"

text \<open>A patch of the objective needs a permission of its own.\<close>

fun patches_objective :: "wire_operation \<Rightarrow> bool" where
  "patches_objective (PatchDraftOp _ _ q) = list_ex changes_objective (qp_operations q)"
| "patches_objective _ = False"

fun reads_content :: "wire_operation \<Rightarrow> bool" where
  "reads_content (EligibleItems _ q) \<longleftrightarrow> iq_include_content q = Some True"
| "reads_content _ \<longleftrightarrow> False"

fun command_permission :: "wire_command \<Rightarrow> facade_permission" where
  "command_permission (WirePause _ _) = PauseAgent"
| "command_permission (WireCommit _ _ _ _ _ _) = CommitRevision"
| "command_permission (WireResume _ _ _) = ResumeAgent"

fun write_permissions :: "wire_operation \<Rightarrow> admission_error + facade_permission list" where
  "write_permissions (CreateDraftOp _ _) = Inr [EditDrafts]"
| "write_permissions (PatchDraftOp _ _ _) = Inr [EditDrafts]"
| "write_permissions (CreatePreviewOp _ _ _) = Inr [EditDrafts]"
| "write_permissions (PublishDraft _ _ _) = Inr [ContentWrite]"
| "write_permissions (UploadSource _ _ _) = Inr [ContentWrite]"
| "write_permissions (SubmitControl _ c) = Inr [command_permission c]"
| "write_permissions _ = Inl AdmissionUnsupported"

definition required_console_permissions ::
  "wire_operation \<Rightarrow> admission_use \<Rightarrow> admission_error + facade_permission list" where
  "required_console_permissions op use =
     and_then (ensure (operation_supports_use op use) AdmissionUnsupported) (\<lambda>_.
     (if use = UseExactLookup \<or> use = UseCachedRead then Inr [MetadataRead]
      else if use = UseReadOnly then Inr (if reads_content op then [MetadataRead, ContentRead] else [MetadataRead])
      else and_then (write_permissions op) (\<lambda>ps.
           Inr (remdups_adj (sort (ps @ (if patches_objective op then [EditObjective] else [])))))))"

fun write_scopes :: "wire_operation \<Rightarrow> admission_error + string list" where
  "write_scopes (CreateDraftOp _ _) = Inr [''workflow:context:edit'']"
| "write_scopes (PatchDraftOp _ _ _) = Inr [''workflow:context:edit'']"
| "write_scopes (CreatePreviewOp _ _ _) = Inr [''workflow:context:edit'']"
| "write_scopes (PublishDraft _ _ _) = Inr [''workflow:content:write'']"
| "write_scopes (UploadSource _ _ _) = Inr [''workflow:content:write'']"
| "write_scopes (SubmitControl _ _) = Inr [''workflow:control'']"
| "write_scopes _ = Inl AdmissionUnsupported"

definition required_harness_scopes ::
  "wire_operation \<Rightarrow> admission_use \<Rightarrow> admission_error + string list" where
  "required_harness_scopes op use =
     and_then (ensure (operation_supports_use op use) AdmissionUnsupported) (\<lambda>_.
     (if use = UseExactLookup \<or> use = UseCachedRead then Inr [''workflow:read'']
      else if use = UseReadOnly
      then Inr (if reads_content op then [''workflow:read'', ''workflow:context:content:read'']
                else [''workflow:read''])
      else and_then (write_scopes op) (\<lambda>ss.
           Inr (remdups_adj (sort (ss @ (if patches_objective op
             then [''workflow:context:objective:edit''] else [])))))))"

definition grant_snapshot_of :: "admitted_grant \<Rightarrow> grant_snapshot" where
  "grant_snapshot_of g =
     \<lparr>gsn_grant_id = asg_grant_id g, gsn_issuer = asg_issuer g, gsn_subject = asg_subject g,
      gsn_permission = permission_as_str (asg_permission g),
      gsn_project_id = sc_project_id (asg_scope g), gsn_run_id = sc_run_id (asg_scope g),
      gsn_episode_id = sc_episode_id (asg_scope g), gsn_agent_id = sc_agent_id (asg_scope g),
      gsn_not_before = asg_not_before g, gsn_expires_at = asg_expires_at g,
      gsn_revocation_generation = asg_revocation_generation g\<rparr>"

definition lookup_mutation :: "wire_response \<Rightarrow> admission_error + wire_response option" where
  "lookup_mutation response =
     (case response of
        MutationLookupResponse r \<Rightarrow> Inr (map_option MutationReceiptResponse r)
      | _ \<Rightarrow> Inl AdmissionDenied)"

definition response_from_lookup ::
  "wire_operation \<Rightarrow> wire_response \<Rightarrow> admission_error + wire_response option" where
  "response_from_lookup original response =
     (case original of
        CreateDraftOp _ _ \<Rightarrow> lookup_mutation response
      | PatchDraftOp _ _ _ \<Rightarrow> lookup_mutation response
      | CreatePreviewOp _ _ _ \<Rightarrow> lookup_mutation response
      | PublishDraft _ _ _ \<Rightarrow>
          (case response of
             PublicationLookupResponse r \<Rightarrow> Inr (map_option PublicationReceiptResponse r)
           | _ \<Rightarrow> Inl AdmissionDenied)
      | SubmitControl _ _ \<Rightarrow>
          (case response of
             ControlReceiptResponse r \<Rightarrow> Inr (Some (ControlReceiptResponse r))
           | _ \<Rightarrow> Inl AdmissionDenied)
      | _ \<Rightarrow> Inl AdmissionDenied)"

definition required_permission_names ::
  "wire_operation \<Rightarrow> admission_use \<Rightarrow> admission_error + string list" where
  "required_permission_names op use =
     and_then (required_console_permissions op use) (\<lambda>ps. Inr (map permission_as_str ps))"

subsection \<open>Trusted admissions\<close>

text \<open>
  An \<open>Instant\<close> is its nanoseconds; adding whole seconds fails when the sum of the seconds leaves
  an \<open>i64\<close>.
\<close>

type_synonym instant = nat

definition instant_add :: "instant \<Rightarrow> u64 \<Rightarrow> instant option" where
  "instant_add i secs =
     (if i div 1000000000 + unat secs < 2 ^ 63 then Some (i + unat secs * 1000000000) else None)"

record trusted_admission =
  tad_snapshot :: admission_snapshot
  tad_reference :: string
  tad_invocation :: invocation
  tad_use_kind :: admission_use
  tad_deadline :: instant

definition admission_identity_mismatch ::
  "verified_principal \<Rightarrow> resolved_credential \<Rightarrow> invocation \<Rightarrow> u64 \<Rightarrow> bool" where
  "admission_identity_mismatch p c iv now \<longleftrightarrow>
     (let i = iv_identity iv; d = roc_descriptor c
      in \<not> credential_is_valid d \<or> vpr_expires_at p \<le> now \<or> ocd_expires_at d \<le> now
       \<or> ocd_expires_at d > vpr_expires_at p \<or> vpr_issuer p \<noteq> wo_issuer (wi_console i)
       \<or> vpr_subject p \<noteq> wo_subject (wi_console i) \<or> vpr_audience p \<noteq> wo_audience (wi_console i)
       \<or> vpr_credential_id p \<noteq> wo_credential_id (wi_console i)
       \<or> ocd_console_issuer d \<noteq> vpr_issuer p \<or> ocd_console_subject d \<noteq> vpr_subject p
       \<or> ocd_harness_subject d \<noteq> wh_actor_subject (wi_harness i)
       \<or> ocd_scope d \<noteq> scope_of_identity i
       \<or> ocd_expires_at d \<noteq> wh_credential_expires_at (wi_harness i)
       \<or> roc_reference c \<noteq> wh_credential_reference_id (wi_harness i)
       \<or> wh_workflow_run_id (wi_harness i) \<noteq> wp_run_id (wi_console_scope i))"

text \<open>The loop over the grants: the permissions it has seen, and the earliest expiry.\<close>

fun admit_grants ::
  "verified_principal \<Rightarrow> owner_credential \<Rightarrow> u64 \<Rightarrow> string list \<Rightarrow> u64 \<Rightarrow> admitted_grant list
     \<Rightarrow> admission_error + (string list \<times> u64)" where
  "admit_grants p d now seen earliest [] = Inr (seen, earliest)"
| "admit_grants p d now seen earliest (g # gs) =
     and_then (ensure (\<not> (asg_issuer g \<noteq> vpr_issuer p \<or> asg_subject g \<noteq> vpr_subject p
       \<or> asg_scope g \<noteq> ocd_scope d \<or> asg_not_before g > now \<or> asg_expires_at g \<le> now
       \<or> permission_as_str (asg_permission g) \<in> set seen
       \<or> \<not> permits_exact_scope d (harness_scope_for (asg_permission g)))) AdmissionDenied) (\<lambda>_.
     admit_grants p d now (permission_as_str (asg_permission g) # seen) (min earliest (asg_expires_at g)) gs)"

definition remaining_seconds :: "u64 \<Rightarrow> u64 \<Rightarrow> u64 option" where
  "remaining_seconds earliest now =
     (if now \<le> earliest \<and> 1 \<le> earliest - now \<and> earliest - now - 1 > 0
      then Some (earliest - now - 1) else None)"

definition from_verified_ingress ::
  "'c wire_codec_scheme \<Rightarrow> instant \<Rightarrow> instant \<Rightarrow> verified_principal \<Rightarrow> admitted_grant list
     \<Rightarrow> resolved_credential \<Rightarrow> invocation \<Rightarrow> admission_use \<Rightarrow> u64 \<Rightarrow> admission_error + trusted_admission" where
  "from_verified_ingress jc started instant_now p gs c iv use now =
     (let i = iv_identity iv; d = roc_descriptor c
      in and_then (map_err (\<lambda>_. AdmissionDenied) (invocation_validate jc iv)) (\<lambda>_.
         and_then (ensure (\<not> admission_identity_mismatch p c iv now) AdmissionDenied) (\<lambda>_.
         and_then (required_console_permissions (iv_operation iv) use) (\<lambda>required.
         and_then (ensure (\<not> (gs = [] \<or> length gs > MAX_AUTH_GRANTS)) AdmissionDenied) (\<lambda>_.
         and_then (admit_grants p d now [] (min (vpr_expires_at p) (ocd_expires_at d)) gs) (\<lambda>(seen, earliest).
         and_then (ensure (\<not> (length seen \<noteq> length required
           \<or> list_ex (\<lambda>q. permission_as_str q \<notin> set seen) required
           \<or> \<not> list_ex (\<lambda>g. asg_grant_id g = wo_grant_id (wi_console i)
                \<and> asg_revocation_generation g = wo_grant_generation (wi_console i)
                \<and> asg_expires_at g = wo_grant_expires_at (wi_console i)) gs)) AdmissionDenied) (\<lambda>_.
         and_then (required_harness_scopes (iv_operation iv) use) (\<lambda>scopes.
         and_then (ensure (list_all (permits_exact_scope d) scopes) AdmissionDenied) (\<lambda>_.
         and_then (ok_or (remaining_seconds earliest now) AdmissionDenied) (\<lambda>remaining.
         and_then (ensure (\<not> started > instant_now) AdmissionDenied) (\<lambda>_.
         and_then (ok_or (instant_add started remaining) AdmissionDenied) (\<lambda>deadline.
         Inr \<lparr>tad_snapshot =
                \<lparr>asn_issuer = vpr_issuer p, asn_subject = vpr_subject p, asn_audience = vpr_audience p,
                 asn_console_credential_id = vpr_credential_id p,
                 asn_principal_expires_at = vpr_expires_at p, asn_scope = ocd_scope d,
                 asn_harness_actor = wh_actor_subject (wi_harness i),
                 asn_harness_owner = wh_owner_id (wi_harness i),
                 asn_harness_workflow_run = wh_workflow_run_id (wi_harness i),
                 asn_binding = iv_expected_binding iv,
                 asn_required_permissions = map permission_as_str required,
                 asn_harness_scopes = remdups_adj (sort scopes),
                 asn_grants = map grant_snapshot_of gs,
                 asn_credential_reference_id = roc_reference c,
                 asn_credential_expires_at = ocd_expires_at d\<rparr>,
              tad_reference = roc_reference c, tad_invocation = iv, tad_use_kind = use,
              tad_deadline = deadline\<rparr>))))))))))))"

definition admission_valid_at :: "trusted_admission \<Rightarrow> u64 \<Rightarrow> admission_use \<Rightarrow> instant \<Rightarrow> bool" where
  "admission_valid_at a now use instant_now \<longleftrightarrow>
     tad_use_kind a = use \<and> instant_now < tad_deadline a
     \<and> asn_principal_expires_at (tad_snapshot a) > now
     \<and> asn_credential_expires_at (tad_snapshot a) > now
     \<and> list_all (\<lambda>g. gsn_not_before g \<le> now \<and> gsn_expires_at g > now) (asn_grants (tad_snapshot a))"

definition deadline_for ::
  "trusted_admission \<Rightarrow> invocation \<Rightarrow> admission_use \<Rightarrow> u64 \<Rightarrow> instant \<Rightarrow> admission_error + instant" where
  "deadline_for a iv use now instant_now =
     (if admission_valid_at a now use instant_now \<and> tad_invocation a = iv then Inr (tad_deadline a)
      else Inl AdmissionDenied)"

definition admission_validate_for ::
  "trusted_admission \<Rightarrow> invocation \<Rightarrow> admission_use \<Rightarrow> u64 \<Rightarrow> instant \<Rightarrow> admission_error + unit" where
  "admission_validate_for a iv use now instant_now =
     and_then (deadline_for a iv use now instant_now) (\<lambda>_. Inr ())"

definition attempt_of :: "trusted_admission \<Rightarrow> attempt_kind \<Rightarrow> attempt_snapshot" where
  "attempt_of a kind =
     (let s = tad_snapshot a
      in \<lparr>att_kind = kind, att_console_credential_id = asn_console_credential_id s,
          att_principal_expires_at = asn_principal_expires_at s, att_grants = asn_grants s,
          att_required_permissions = asn_required_permissions s,
          att_harness_scopes = asn_harness_scopes s,
          att_credential_reference_id = asn_credential_reference_id s,
          att_credential_expires_at = asn_credential_expires_at s\<rparr>)"

subsection \<open>Facts\<close>

lemma same_call_fields:
  assumes "same_call stored current"
  shows "iv_operation stored = iv_operation current"
    and "iv_expected_binding stored = iv_expected_binding current"
    and "wo_issuer (wi_console (iv_identity stored)) = wo_issuer (wi_console (iv_identity current))"
    and "wo_subject (wi_console (iv_identity stored)) = wo_subject (wi_console (iv_identity current))"
    and "wo_audience (wi_console (iv_identity stored)) = wo_audience (wi_console (iv_identity current))"
    and "wi_console_scope (iv_identity stored) = wi_console_scope (iv_identity current)"
  using arg_cong [OF assms [unfolded same_call_def Let_def], of iv_operation]
    arg_cong [OF assms [unfolded same_call_def Let_def], of iv_expected_binding]
    arg_cong [OF assms [unfolded same_call_def Let_def], of "\<lambda>iv. wo_issuer (wi_console (iv_identity iv))"]
    arg_cong [OF assms [unfolded same_call_def Let_def], of "\<lambda>iv. wo_subject (wi_console (iv_identity iv))"]
    arg_cong [OF assms [unfolded same_call_def Let_def], of "\<lambda>iv. wo_audience (wi_console (iv_identity iv))"]
    arg_cong [OF assms [unfolded same_call_def Let_def], of "\<lambda>iv. wi_console_scope (iv_identity iv)"]
  by simp_all

lemma same_call_locator: "same_call stored current \<Longrightarrow> stable_locator_of stored = stable_locator_of current"
  by (simp add: stable_locator_of_def scope_of_identity_def same_call_fields)

lemma instant_add_Some: "instant_add i s = Some d \<Longrightarrow> d = i + unat s * 1000000000"
  by (auto simp: instant_add_def split: if_splits)

end
