(* ===== verification/Invocation_Schema.thy ===== *)
theory Invocation_Schema
  imports Invocation_Records
begin

text \<open>
  The schema that the owner invocation store insists on
  (\<open>context-service/src/owner_invocation_store/storage/schema.rs\<close>): exactly the two tables, with
  the text of their declarations up to white space and case, the two automatic indexes and the
  columns in order. What the queries on \<open>sqlite_schema\<close> yield is the record of prefix \<open>svw_\<close>.
\<close>

subsection \<open>The text of a declaration\<close>

text \<open>\<open>char::is_whitespace\<close> on a code point.\<close>

definition unicode_whitespace :: "nat \<Rightarrow> bool" where
  "unicode_whitespace c \<longleftrightarrow>
     9 \<le> c \<and> c \<le> 13 \<or> c \<in> {0x20, 0x85, 0xA0, 0x1680, 0x2028, 0x2029, 0x202F, 0x205F, 0x3000}
     \<or> 0x2000 \<le> c \<and> c \<le> 0x200A"

fun split_whitespace :: "nat list \<Rightarrow> nat list \<Rightarrow> nat list list" where
  "split_whitespace w [] = (if w = [] then [] else [rev w])"
| "split_whitespace w (c # cs) =
     (if unicode_whitespace c
      then (if w = [] then split_whitespace [] cs else rev w # split_whitespace [] cs)
      else split_whitespace (c # w) cs)"

fun join_words :: "nat list list \<Rightarrow> nat list" where
  "join_words [] = []"
| "join_words [w] = w"
| "join_words (w # v # ws) = w @ [0x20] @ join_words (v # ws)"

text \<open>The compact text, as its code points.\<close>

definition compact_sql :: "string \<Rightarrow> nat list" where
  "compact_sql s =
     map (\<lambda>c. if 65 \<le> c \<and> c \<le> 90 then c + 32 else c) (join_words (split_whitespace [] (chars s)))"

fun sql_lines :: "string list \<Rightarrow> string" where
  "sql_lines [] = []"
| "sql_lines [l] = l"
| "sql_lines (l # k # ls) = l @ [CHR 0x0A] @ sql_lines (k # ls)"

definition META_TABLE_SQL :: string where
  "META_TABLE_SQL = sql_lines
     [''CREATE TABLE owner_invocation_meta ('',
      ''    singleton INTEGER PRIMARY KEY NOT NULL CHECK (singleton = 1),'',
      ''    schema_version INTEGER NOT NULL CHECK (schema_version = 2),'',
      ''    index_key_id TEXT NOT NULL CHECK (length(CAST(index_key_id AS BLOB)) BETWEEN 1 AND 64),'',
      ''    index_key_check BLOB NOT NULL CHECK (length(index_key_check) = 32)'',
      '')'']"

definition INVOCATION_TABLE_SQL :: string where
  "INVOCATION_TABLE_SQL = sql_lines
     [''CREATE TABLE owner_invocations ('',
      ''    lookup_tag BLOB PRIMARY KEY NOT NULL CHECK (length(lookup_tag) = 32),'',
      ''    entry_id BLOB UNIQUE NOT NULL CHECK (length(entry_id) = 16),'',
      ''    state INTEGER NOT NULL CHECK (state BETWEEN 0 AND 5),'',
      ''    sequence INTEGER NOT NULL CHECK (sequence > 0),'',
      ''    data_key_id TEXT NOT NULL CHECK (length(CAST(data_key_id AS BLOB)) BETWEEN 1 AND 64),'',
      ''    nonce BLOB NOT NULL CHECK (length(nonce) = 24),'',
      ''    ciphertext BLOB NOT NULL CHECK (length(ciphertext) BETWEEN 16 AND 6291456)'',
      '')'']"

subsection \<open>The check\<close>

record schema_view =
  svw_tables :: "store_error + (string \<times> string) list"
  svw_objects :: "int option"
  svw_extra_objects :: "int option"
  svw_unexpected_indexes :: "int option"
  svw_automatic_indexes :: "int option"
  svw_columns :: "string \<Rightarrow> store_error + string list"

definition validate_columns :: "schema_view \<Rightarrow> string \<Rightarrow> string list \<Rightarrow> store_error + unit" where
  "validate_columns v table expected =
     and_then (svw_columns v table) (\<lambda>columns. ensure (columns = expected) StoreCorrupt)"

text \<open>Whether the tables exist; the rows are checked by the caller when they do.\<close>

definition validate_structure :: "schema_view \<Rightarrow> store_error + bool" where
  "validate_structure v =
     and_then (svw_tables v) (\<lambda>tables.
     (if tables = []
      then and_then (ok_or (svw_objects v) StoreUnavailable) (\<lambda>objects.
           if objects = 0 then Inr False else Inl StoreCorrupt)
      else and_then (ensure (\<not> (length tables \<noteq> 2
             \<or> fst (tables ! 0) \<noteq> ''owner_invocation_meta''
             \<or> compact_sql (snd (tables ! 0)) \<noteq> compact_sql META_TABLE_SQL
             \<or> fst (tables ! 1) \<noteq> ''owner_invocations''
             \<or> compact_sql (snd (tables ! 1)) \<noteq> compact_sql INVOCATION_TABLE_SQL)) StoreCorrupt) (\<lambda>_.
           and_then (ok_or (svw_extra_objects v) StoreUnavailable) (\<lambda>extra_objects.
           and_then (ensure (\<not> extra_objects \<noteq> 0) StoreCorrupt) (\<lambda>_.
           and_then (ok_or (svw_unexpected_indexes v) StoreUnavailable) (\<lambda>unexpected.
           and_then (ok_or (svw_automatic_indexes v) StoreUnavailable) (\<lambda>automatic.
           and_then (ensure (\<not> (unexpected \<noteq> 0 \<or> automatic \<noteq> 2)) StoreCorrupt) (\<lambda>_.
           and_then (validate_columns v ''owner_invocation_meta''
             [''singleton'', ''schema_version'', ''index_key_id'', ''index_key_check'']) (\<lambda>_.
           and_then (validate_columns v ''owner_invocations''
             [''lookup_tag'', ''entry_id'', ''state'', ''sequence'', ''data_key_id'', ''nonce'', ''ciphertext'']) (\<lambda>_.
           Inr True))))))))))"

end
