(* ===== verification/Invocation_Store.thy ===== *)
theory Invocation_Store
  imports Invocation_Schema
begin

text \<open>
  The encrypted journal of owner invocations
  (\<open>context-service/src/owner_invocation_store/\<close>: \<open>crypto.rs\<close>, \<open>record_codec.rs\<close>,
  \<open>engine_helpers.rs\<close>, \<open>engine.rs\<close>, \<open>transitions.rs\<close> and \<open>storage/\<close>). A row of the database is
  found by the blind tag of its operation and holds the state, the sequence number and the
  ciphertext of its record; every operation is one immediate transaction, so a refusal before the
  commit leaves the store as it was. HMAC, the AEAD cipher and \<open>serde_json\<close> are the codec argument;
  what the database, the clocks and the random source answer is the argument \<open>io\<close> of each operation.
  Field prefixes: \<open>km_\<close> key material, \<open>xk_\<close> codec, \<open>srw_\<close> stored row, \<open>rrw_\<close> raw row, \<open>mrw_\<close> meta
  row, \<open>dsk_\<close> disk, \<open>sio_\<close> answers, \<open>ist_\<close> store, \<open>xrv_\<close> reservation, \<open>osp_\<close> send permit, \<open>olp_\<close>
  lookup permit.
\<close>

subsection \<open>Keys and cryptography\<close>

record key_material =
  km_index_key_id :: string
  km_index_key :: bytes
  km_current_data_key_id :: string
  km_data_keys :: "(string, bytes) btree"

definition valid_key_id :: "string \<Rightarrow> bool" where
  "valid_key_id s \<longleftrightarrow> s \<noteq> [] \<and> length s \<le> 64 \<and> list_all (\<lambda>c. wire_id_byte (bv c)) s"

definition key_material_new ::
  "string \<Rightarrow> bytes \<Rightarrow> string \<Rightarrow> (string, bytes) btree \<Rightarrow> store_error + key_material" where
  "key_material_new index_id index_key current data =
     (if \<not> valid_key_id index_id \<or> \<not> valid_key_id current \<or> bt_len data = 0 \<or> bt_len data > 8
         \<or> \<not> bt_contains data current
         \<or> list_ex (\<lambda>(k, _). \<not> valid_key_id k) (bt_entries data)
         \<or> list_ex (\<lambda>key. key = index_key) (bt_values data) \<or> \<not> distinct (bt_values data)
      then Inl StoreKeyUnavailable
      else Inr \<lparr>km_index_key_id = index_id, km_index_key = index_key,
                km_current_data_key_id = current, km_data_keys = data\<rparr>)"

definition same_index_material :: "key_material \<Rightarrow> key_material \<Rightarrow> bool" where
  "same_index_material a b \<longleftrightarrow> km_index_key_id a = km_index_key_id b \<and> km_index_key a = km_index_key b"

definition retains_data_keys :: "key_material \<Rightarrow> key_material \<Rightarrow> bool" where
  "retains_data_keys old new \<longleftrightarrow>
     list_all (\<lambda>(k, key). bt_get (km_data_keys new) k = Some key) (bt_entries (km_data_keys old))"

text \<open>
  The cipher takes the key, the nonce, the associated data and the text. The encoder of the
  record and of the receipts, and the decoder of the record, are those of \<open>serde_json\<close>.
\<close>

record store_codec = wire_codec +
  xk_mac :: "bytes \<Rightarrow> bytes \<Rightarrow> bytes"
  xk_encrypt :: "bytes \<Rightarrow> bytes \<Rightarrow> bytes \<Rightarrow> bytes \<Rightarrow> bytes option"
  xk_decrypt :: "bytes \<Rightarrow> bytes \<Rightarrow> bytes \<Rightarrow> bytes \<Rightarrow> bytes option"
  xk_record_vec :: "invocation_record \<Rightarrow> bytes option"
  xk_record_of :: "bytes \<Rightarrow> invocation_record option"
  xk_response_vec :: "wire_response \<Rightarrow> bytes option"
  xk_mutation_receipt_vec :: "mutation_receipt \<Rightarrow> bytes option"
  xk_publication_receipt_vec :: "publication_receipt \<Rightarrow> bytes option"
  xk_source_publication_vec :: "source_publication \<Rightarrow> bytes option"
  xk_control_receipt_vec :: "control_receipt \<Rightarrow> bytes option"

definition AAD_DOMAIN :: bytes where
  "AAD_DOMAIN = ''ascension.console18.owner-invocation-store.v1'' @ [CHR 0x00]"
definition INDEX_DOMAIN :: bytes where
  "INDEX_DOMAIN = ''ascension.console18.owner-invocation-index.v1'' @ [CHR 0x00]"
definition INDEX_KEY_CHECK_DOMAIN :: bytes where
  "INDEX_KEY_CHECK_DOMAIN = ''ascension.console18.owner-invocation-index-key-check.v2'' @ [CHR 0x00]"

text \<open>The updates of the MAC are its input, concatenated.\<close>

definition mac_field :: "bytes \<Rightarrow> bytes" where
  "mac_field bs = wire_be_bytes (of_nat (length bs)) @ bs"

definition lookup_tag :: "'c store_codec_scheme \<Rightarrow> bytes \<Rightarrow> stable_locator \<Rightarrow> bytes" where
  "lookup_tag kx key l =
     xk_mac kx key (INDEX_DOMAIN @ concat (map mac_field
       [lc_issuer l, lc_subject l, lc_audience l, sc_project_id (lc_scope l), sc_run_id (lc_scope l),
        sc_episode_id (lc_scope l), sc_agent_id (lc_scope l), family_as_str (lc_family l),
        lc_stable_key l]))"

definition index_key_verifier :: "'c store_codec_scheme \<Rightarrow> bytes \<Rightarrow> string \<Rightarrow> bytes" where
  "index_key_verifier kx key key_id =
     xk_mac kx key (INDEX_KEY_CHECK_DOMAIN @ [CHR 0x00, CHR 0x02] @ mac_field key_id)"

definition verify_index_key ::
  "'c store_codec_scheme \<Rightarrow> bytes \<Rightarrow> string \<Rightarrow> bytes \<Rightarrow> store_error + unit" where
  "verify_index_key kx key key_id verifier =
     and_then (ensure (length verifier = 32) StoreCorrupt) (\<lambda>_.
     ensure (verifier = index_key_verifier kx key key_id) StoreKeyUnavailable)"

definition aad_field :: "bytes \<Rightarrow> store_error + bytes" where
  "aad_field bs =
     (if length bs < 2 ^ 32
      then Inr (map (\<lambda>i. char_of (length bs div 256 ^ i)) (rev [0..<4]) @ bs) else Inl StoreInvalid)"

definition associated_data ::
  "string \<Rightarrow> bytes \<Rightarrow> bytes \<Rightarrow> entry_state \<Rightarrow> u64 \<Rightarrow> string \<Rightarrow> store_error + bytes" where
  "associated_data index_key_id tag entry_id st sequence key_id =
     and_then (aad_field index_key_id) (\<lambda>index_field.
     and_then (aad_field key_id) (\<lambda>key_field.
     Inr (AAD_DOMAIN @ [CHR 0x00, CHR 0x01] @ index_field @ tag @ entry_id
          @ [char_of (nat (entry_code st))] @ wire_be_bytes sequence @ key_field)))"

text \<open>Encryption draws a nonce; the result is the nonce and the ciphertext.\<close>

definition encrypt_row ::
  "'c store_codec_scheme \<Rightarrow> bytes option \<Rightarrow> key_material \<Rightarrow> bytes \<Rightarrow> bytes \<Rightarrow> entry_state \<Rightarrow> u64 \<Rightarrow> bytes
     \<Rightarrow> store_error + bytes \<times> bytes" where
  "encrypt_row kx random km tag entry_id st sequence plaintext =
     (let key_id = km_current_data_key_id km
      in and_then (ok_or (bt_get (km_data_keys km) key_id) StoreKeyUnavailable) (\<lambda>key.
         and_then (ok_or random StoreCryptoUnavailable) (\<lambda>nonce.
         and_then (associated_data (km_index_key_id km) tag entry_id st sequence key_id) (\<lambda>aad.
         and_then (ok_or (xk_encrypt kx key nonce aad plaintext) StoreCryptoUnavailable) (\<lambda>ciphertext.
         Inr (nonce, ciphertext))))))"

record stored_row =
  srw_tag :: bytes
  srw_entry_id :: bytes
  srw_state :: entry_state
  srw_sequence :: u64
  srw_data_key_id :: string
  srw_nonce :: bytes
  srw_ciphertext :: bytes

definition decrypt_row ::
  "'c store_codec_scheme \<Rightarrow> key_material \<Rightarrow> string \<Rightarrow> stored_row \<Rightarrow> store_error + bytes" where
  "decrypt_row kx km index_key_id row =
     and_then (ensure (\<not> (index_key_id \<noteq> km_index_key_id km \<or> srw_ciphertext row = [])) StoreCorrupt) (\<lambda>_.
     and_then (ok_or (bt_get (km_data_keys km) (srw_data_key_id row)) StoreKeyUnavailable) (\<lambda>key.
     and_then (associated_data index_key_id (srw_tag row) (srw_entry_id row) (srw_state row)
       (srw_sequence row) (srw_data_key_id row)) (\<lambda>aad.
     ok_or (xk_decrypt kx key (srw_nonce row) aad (srw_ciphertext row)) StoreCorrupt)))"

subsection \<open>The record and its codec\<close>

definition push_attempt :: "attempt_snapshot \<Rightarrow> invocation_record \<Rightarrow> store_error + invocation_record" where
  "push_attempt a r =
     and_then (ensure (\<not> length (irc_attempts r) \<ge> MAX_ATTEMPTS) StoreAttemptLimit) (\<lambda>_.
     Inr (r\<lparr>irc_attempts := irc_attempts r @ [a]\<rparr>))"

fun advance_allowed :: "entry_state \<Rightarrow> entry_state \<Rightarrow> bool" where
  "advance_allowed EntryPrepared EntryWriteClaimed = True"
| "advance_allowed EntryWriteClaimed EntryCompleted = True"
| "advance_allowed EntryWriteClaimed EntryUnknown = True"
| "advance_allowed EntryWriteClaimed EntryLookupClaimed = True"
| "advance_allowed EntryUnknown EntryLookupClaimed = True"
| "advance_allowed EntryLookupClaimed EntryLookupClaimed = True"
| "advance_allowed EntryLookupClaimed EntryCompleted = True"
| "advance_allowed EntryLookupClaimed EntryUnknown = True"
| "advance_allowed _ _ = False"

definition advance :: "entry_state \<Rightarrow> u64 \<Rightarrow> invocation_record \<Rightarrow> store_error + invocation_record" where
  "advance st now r =
     and_then (ensure (advance_allowed (irc_state r) st) StoreRecoveryRequired) (\<lambda>_.
     and_then (ok_or (checked_add (irc_sequence r) 1) StoreStorageLimit) (\<lambda>sequence.
     Inr (r\<lparr>irc_sequence := sequence, irc_state := st, irc_updated_at := max now (irc_created_at r)\<rparr>)))"

definition MAX_CIPHERTEXT_BYTES :: nat where "MAX_CIPHERTEXT_BYTES = 6 * 1024 * 1024"
definition MAX_ROWS :: nat where "MAX_ROWS = 16"

text \<open>The two sums do not overflow a \<open>usize\<close>, since no vector is longer than \<open>isize::MAX\<close>.\<close>

definition ensure_response_headroom ::
  "'c store_codec_scheme \<Rightarrow> invocation_record \<Rightarrow> store_error + unit" where
  "ensure_response_headroom kx r =
     and_then (ok_or (xk_record_vec kx r) StoreUnavailable) (\<lambda>current.
     ensure (\<not> length current + MAX_HARNESS_JSON_BODY_BYTES + 4096 > MAX_CIPHERTEXT_BYTES) StoreStorageLimit)"

definition origin_matches_invocation :: "admission_snapshot \<Rightarrow> invocation \<Rightarrow> bool" where
  "origin_matches_invocation s iv \<longleftrightarrow>
     (let i = iv_identity iv
      in asn_issuer s = wo_issuer (wi_console i) \<and> asn_subject s = wo_subject (wi_console i)
       \<and> asn_audience s = wo_audience (wi_console i)
       \<and> asn_console_credential_id s = wo_credential_id (wi_console i)
       \<and> list_ex (\<lambda>g. gsn_grant_id g = wo_grant_id (wi_console i)
            \<and> gsn_revocation_generation g = wo_grant_generation (wi_console i)
            \<and> gsn_expires_at g = wo_grant_expires_at (wi_console i)) (asn_grants s)
       \<and> asn_scope s = scope_of_identity i
       \<and> asn_harness_actor s = wh_actor_subject (wi_harness i)
       \<and> asn_harness_owner s = wh_owner_id (wi_harness i)
       \<and> asn_harness_workflow_run s = wh_workflow_run_id (wi_harness i)
       \<and> asn_binding s = iv_expected_binding iv
       \<and> asn_credential_reference_id s = wh_credential_reference_id (wi_harness i)
       \<and> asn_credential_expires_at s = wh_credential_expires_at (wi_harness i))"

definition last_attempt :: "invocation_record \<Rightarrow> attempt_kind option" where
  "last_attempt r = (if irc_attempts r = [] then None else Some (att_kind (last (irc_attempts r))))"

definition valid_state_history :: "invocation_record \<Rightarrow> bool" where
  "valid_state_history r =
     (case irc_state r of
        EntryPrepared \<Rightarrow> irc_attempts r = []
      | EntryWriteClaimed \<Rightarrow> last_attempt r = Some AttemptWrite
      | EntryDefinitelyNotSent \<Rightarrow> last_attempt r = Some AttemptWrite
      | EntryLookupClaimed \<Rightarrow> last_attempt r = Some AttemptLookup
      | EntryUnknown \<Rightarrow> last_attempt r \<noteq> None
      | EntryCompleted \<Rightarrow> last_attempt r \<noteq> None)"

definition snapshot_matches :: "scope \<Rightarrow> string \<Rightarrow> string \<Rightarrow> string list \<Rightarrow> grant_snapshot \<Rightarrow> bool" where
  "snapshot_matches sc issuer subject seen g \<longleftrightarrow>
     gsn_grant_id g \<noteq> [] \<and> gsn_issuer g = issuer \<and> gsn_subject g = subject
     \<and> length (gsn_issuer g) \<le> MAX_PRINCIPAL_CLAIM_BYTES
     \<and> length (gsn_subject g) \<le> MAX_PRINCIPAL_CLAIM_BYTES
     \<and> gsn_issuer g \<noteq> [] \<and> gsn_subject g \<noteq> [] \<and> length (gsn_permission g) \<le> 64
     \<and> gsn_permission g \<notin> set seen
     \<and> gsn_project_id g = sc_project_id sc \<and> gsn_run_id g = sc_run_id sc
     \<and> gsn_episode_id g = sc_episode_id sc \<and> gsn_agent_id g = sc_agent_id sc
     \<and> gsn_expires_at g > gsn_not_before g"

text \<open>The loop over the grants: it returns the permissions it has seen, or stops.\<close>

fun seen_permissions ::
  "scope \<Rightarrow> string \<Rightarrow> string \<Rightarrow> string list \<Rightarrow> grant_snapshot list \<Rightarrow> string list option" where
  "seen_permissions sc issuer subject seen [] = Some seen"
| "seen_permissions sc issuer subject seen (g # gs) =
     (if snapshot_matches sc issuer subject seen g
      then seen_permissions sc issuer subject (gsn_permission g # seen) gs else None)"

definition valid_grant_snapshots ::
  "grant_snapshot list \<Rightarrow> scope \<Rightarrow> string \<Rightarrow> string \<Rightarrow> string list \<Rightarrow> bool" where
  "valid_grant_snapshots gs sc issuer subject required \<longleftrightarrow>
     (case seen_permissions sc issuer subject [] gs of
        Some seen \<Rightarrow> list_all (\<lambda>q. q \<in> set seen) required | None \<Rightarrow> False)"

text \<open>The body of a receipt alone, as the owner sends it.\<close>

fun receipt_payload :: "'c store_codec_scheme \<Rightarrow> wire_response \<Rightarrow> bytes option" where
  "receipt_payload kx (MutationReceiptResponse r) = xk_mutation_receipt_vec kx r"
| "receipt_payload kx (PublicationReceiptResponse r) = xk_publication_receipt_vec kx r"
| "receipt_payload kx (SourcePublicationResponse r) = xk_source_publication_vec kx r"
| "receipt_payload kx (ControlReceiptResponse r) = xk_control_receipt_vec kx r"
| "receipt_payload kx _ = None"

definition validate_response ::
  "'c store_codec_scheme \<Rightarrow> invocation_record \<Rightarrow> wire_response \<Rightarrow> store_error + unit" where
  "validate_response kx r response =
     and_then (ok_or (xk_response_vec kx response) StoreCorrupt) (\<lambda>tagged.
     and_then (ok_or (receipt_payload kx response) StoreCorrupt) (\<lambda>payload.
     and_then (ensure (\<not> (length tagged > MAX_HARNESS_JSON_BODY_BYTES
       \<or> length payload > MAX_HARNESS_JSON_BODY_BYTES)) StoreCorrupt) (\<lambda>_.
     and_then (map_err (\<lambda>_. StoreCorrupt) (decode_response kx (irc_invocation r) payload)) (\<lambda>decoded_response.
     ensure (decoded_response = response) StoreCorrupt))))"

fun use_of_attempt :: "attempt_kind \<Rightarrow> admission_use" where
  "use_of_attempt AttemptWrite = UseWrite"
| "use_of_attempt AttemptLookup = UseExactLookup"

definition validate_attempt :: "invocation_record \<Rightarrow> attempt_snapshot \<Rightarrow> store_error + unit" where
  "validate_attempt r a =
     and_then (map_err (\<lambda>_. StoreCorrupt)
       (required_permission_names (iv_operation (irc_invocation r)) (use_of_attempt (att_kind a)))) (\<lambda>expected.
     and_then (map_err (\<lambda>_. StoreCorrupt)
       (required_harness_scopes (iv_operation (irc_invocation r)) (use_of_attempt (att_kind a)))) (\<lambda>scopes.
     ensure (\<not> (att_grants a = [] \<or> length (att_grants a) > MAX_AUTH_GRANTS
       \<or> att_console_credential_id a = [] \<or> att_principal_expires_at a = 0
       \<or> att_required_permissions a \<noteq> expected \<or> att_harness_scopes a \<noteq> scopes
       \<or> att_credential_reference_id a = [] \<or> att_credential_expires_at a = 0
       \<or> att_credential_expires_at a > att_principal_expires_at a
       \<or> \<not> valid_grant_snapshots (att_grants a) (asn_scope (irc_origin r)) (asn_issuer (irc_origin r))
            (asn_subject (irc_origin r)) (att_required_permissions a))) StoreCorrupt))"

fun validate_attempts :: "invocation_record \<Rightarrow> attempt_snapshot list \<Rightarrow> store_error + unit" where
  "validate_attempts r [] = Inr ()"
| "validate_attempts r (a # as) = and_then (validate_attempt r a) (\<lambda>_. validate_attempts r as)"

definition record_header_valid :: "invocation_record \<Rightarrow> bool" where
  "record_header_valid r \<longleftrightarrow>
     \<not> (irc_schema_version r \<noteq> RECORD_SCHEMA_VERSION \<or> irc_sequence r = 0
       \<or> length (irc_attempts r) > MAX_ATTEMPTS
       \<or> asn_grants (irc_origin r) = [] \<or> length (asn_grants (irc_origin r)) > MAX_AUTH_GRANTS
       \<or> asn_required_permissions (irc_origin r) = []
       \<or> irc_created_at r = 0 \<or> irc_updated_at r < irc_created_at r \<or> \<not> valid_state_history r
       \<or> irc_state r \<noteq> EntryCompleted \<and> irc_response r \<noteq> None
       \<or> irc_state r = EntryCompleted \<and> irc_response r = None)"

definition validate_record :: "'c store_codec_scheme \<Rightarrow> invocation_record \<Rightarrow> store_error + unit" where
  "validate_record kx r =
     (let iv = irc_invocation r; origin = irc_origin r
      in and_then (ensure (record_header_valid r) StoreCorrupt) (\<lambda>_.
         and_then (map_err (\<lambda>_. StoreCorrupt) (invocation_validate kx iv)) (\<lambda>_.
         and_then (map_err (\<lambda>_. StoreCorrupt) (invocation_endpoint kx iv)) (\<lambda>ep.
         and_then (map_err (\<lambda>_. StoreCorrupt) (harness_body kx iv)) (\<lambda>body_option.
         and_then (ok_or body_option StoreCorrupt) (\<lambda>body.
         and_then (map_err (\<lambda>_. StoreCorrupt)
           (required_permission_names (iv_operation iv) UseWrite)) (\<lambda>permissions.
         and_then (map_err (\<lambda>_. StoreCorrupt) (required_harness_scopes (iv_operation iv) UseWrite)) (\<lambda>scopes.
         and_then (ensure (\<not> (ep \<noteq> irc_endpoint r \<or> body \<noteq> irc_canonical_body r
           \<or> length body > MAX_HARNESS_JSON_BODY_BYTES \<or> \<not> origin_matches_invocation origin iv
           \<or> asn_required_permissions origin \<noteq> permissions \<or> asn_harness_scopes origin \<noteq> scopes
           \<or> asn_principal_expires_at origin \<le> irc_created_at r
           \<or> asn_credential_expires_at origin \<le> irc_created_at r
           \<or> \<not> valid_grant_snapshots (asn_grants origin) (asn_scope origin) (asn_issuer origin)
                (asn_subject origin) (asn_required_permissions origin))) StoreCorrupt) (\<lambda>_.
         and_then (case irc_response r of
             Some response \<Rightarrow> validate_response kx r response | None \<Rightarrow> Inr ()) (\<lambda>_.
         validate_attempts r (irc_attempts r)))))))))))"

definition open_record ::
  "'c store_codec_scheme \<Rightarrow> key_material \<Rightarrow> stored_row \<Rightarrow> store_error + invocation_record" where
  "open_record kx km row =
     and_then (decrypt_row kx km (km_index_key_id km) row) (\<lambda>plaintext.
     and_then (ok_or (xk_record_of kx plaintext) StoreCorrupt) (\<lambda>r.
     and_then (ensure (\<not> (irc_state r \<noteq> srw_state row \<or> irc_sequence r \<noteq> srw_sequence row
       \<or> irc_data_key_id r \<noteq> srw_data_key_id row)) StoreCorrupt) (\<lambda>_.
     and_then (validate_record kx r) (\<lambda>_.
     and_then (map_err map_admission_error (stable_locator_of (irc_invocation r))) (\<lambda>l.
     and_then (ensure (lookup_tag kx (km_index_key km) l = srw_tag row) StoreCorrupt) (\<lambda>_.
     Inr r))))))"

text \<open>The record is returned with the key that seals it.\<close>

definition seal_record ::
  "'c store_codec_scheme \<Rightarrow> bytes option \<Rightarrow> key_material \<Rightarrow> invocation_record \<Rightarrow> bytes \<Rightarrow> bytes
     \<Rightarrow> store_error + stored_row" where
  "seal_record kx random km record tag entry_id =
     (let r = record\<lparr>irc_data_key_id := km_current_data_key_id km\<rparr>
      in and_then (validate_record kx r) (\<lambda>_.
         and_then (ok_or (xk_record_vec kx r) StoreUnavailable) (\<lambda>plaintext.
         and_then (ensure (\<not> length plaintext > MAX_CIPHERTEXT_BYTES) StoreStorageLimit) (\<lambda>_.
         and_then (encrypt_row kx random km tag entry_id (irc_state r) (irc_sequence r) plaintext)
           (\<lambda>(nonce, ciphertext).
         and_then (ensure (\<not> length ciphertext > MAX_CIPHERTEXT_BYTES) StoreStorageLimit) (\<lambda>_.
         Inr \<lparr>srw_tag = tag, srw_entry_id = entry_id, srw_state = irc_state r,
              srw_sequence = irc_sequence r, srw_data_key_id = irc_data_key_id r,
              srw_nonce = nonce, srw_ciphertext = ciphertext\<rparr>))))))"

definition check_exact_match ::
  "invocation_record \<Rightarrow> invocation \<Rightarrow> trusted_admission \<Rightarrow> store_error + unit" where
  "check_exact_match r iv a =
     ensure (\<not> (irc_schema_version r \<noteq> RECORD_SCHEMA_VERSION \<or> \<not> same_call (irc_invocation r) iv
       \<or> \<not> same_call iv (tad_invocation a) \<or> \<not> admission_matches (irc_origin r) (tad_snapshot a)))
       StoreConflict"

subsection \<open>The database\<close>

text \<open>A file beside the database, as \<open>symlink_metadata\<close> and the check of its owner and mode see it.\<close>

datatype file_status = FileMissing | FileUnreadable | FileSpecial | FileSized u64 bool

fun bounded_size :: "file_status \<Rightarrow> u64 \<Rightarrow> store_error + u64" where
  "bounded_size FileMissing limit = Inr 0"
| "bounded_size FileUnreadable limit = Inl StoreUnavailable"
| "bounded_size FileSpecial limit = Inl StoreUnavailable"
| "bounded_size (FileSized n private) limit =
     (if n > limit then Inl StoreStorageLimit else if \<not> private then Inl StoreInvalid else Inr n)"

record disk =
  dsk_pages :: "u32 option"
  dsk_database :: file_status
  dsk_wal :: file_status
  dsk_shm :: file_status
  dsk_journal :: file_status

definition MAX_DATABASE_PAGES :: u32 where "MAX_DATABASE_PAGES = 16384"
definition MAX_DATABASE_BYTES :: u64 where "MAX_DATABASE_BYTES = 64 * 1024 * 1024"
definition MAX_WAL_BYTES :: u64 where "MAX_WAL_BYTES = 16 * 1024 * 1024"
definition MAX_AUXILIARY_BYTES :: u64 where "MAX_AUXILIARY_BYTES = 1024 * 1024"
definition MAX_TOTAL_STORE_BYTES :: u64 where
  "MAX_TOTAL_STORE_BYTES = MAX_DATABASE_BYTES + MAX_WAL_BYTES + 2 * MAX_AUXILIARY_BYTES"
definition MAX_SINGLE_WRITE_GROWTH_BYTES :: u64 where
  "MAX_SINGLE_WRITE_GROWTH_BYTES = 8 * 1024 * 1024"

definition check_storage_bounds :: "disk \<Rightarrow> store_error + unit" where
  "check_storage_bounds d =
     and_then (ok_or (dsk_pages d) StoreUnavailable) (\<lambda>pages.
     and_then (ensure (\<not> pages > MAX_DATABASE_PAGES) StoreStorageLimit) (\<lambda>_.
     and_then (bounded_size (dsk_database d) MAX_DATABASE_BYTES) (\<lambda>database_bytes.
     and_then (bounded_size (dsk_wal d) MAX_WAL_BYTES) (\<lambda>wal_bytes.
     and_then (bounded_size (dsk_shm d) MAX_AUXILIARY_BYTES) (\<lambda>shm_bytes.
     and_then (bounded_size (dsk_journal d) MAX_AUXILIARY_BYTES) (\<lambda>journal_bytes.
     and_then (ok_or (checked_add database_bytes wal_bytes) StoreStorageLimit) (\<lambda>two.
     and_then (ok_or (checked_add two shm_bytes) StoreStorageLimit) (\<lambda>three.
     and_then (ok_or (checked_add three journal_bytes) StoreStorageLimit) (\<lambda>four.
     ensure (\<not> four > MAX_TOTAL_STORE_BYTES) StoreStorageLimit)))))))))"

text \<open>Both subtractions of constants saturate nowhere. The sizes are read twice.\<close>

definition check_write_headroom :: "disk \<Rightarrow> disk \<Rightarrow> store_error + unit" where
  "check_write_headroom d d' =
     and_then (check_storage_bounds d) (\<lambda>_.
     and_then (bounded_size (dsk_database d') MAX_DATABASE_BYTES) (\<lambda>database.
     and_then (bounded_size (dsk_wal d') MAX_WAL_BYTES) (\<lambda>wal.
     ensure (\<not> (database > MAX_DATABASE_BYTES - MAX_SINGLE_WRITE_GROWTH_BYTES
       \<or> wal > MAX_WAL_BYTES - MAX_SINGLE_WRITE_GROWTH_BYTES)) StoreStorageLimit)))"

text \<open>A failure of the database, as \<open>map_sql_error\<close> sorts it.\<close>

datatype sql_failure = DiskFull | DatabaseBusy | OtherSqlFailure

fun map_sql_error :: "sql_failure \<Rightarrow> store_error" where
  "map_sql_error DiskFull = StoreStorageLimit"
| "map_sql_error DatabaseBusy = StoreUnavailable"
| "map_sql_error OtherSqlFailure = StoreUnavailable"

definition sql :: "sql_failure option \<Rightarrow> store_error + unit" where
  "sql failure = (case failure of Some e \<Rightarrow> Inl (map_sql_error e) | None \<Rightarrow> Inr ())"

text \<open>
  What the columns of a row hold. SQLite integers are signed 64-bit numbers; the type of the key
  column is the flag. The columns of the table have the constraints of \<open>row_constraints\<close>.
\<close>

record raw_row =
  rrw_entry_id :: bytes
  rrw_state :: int
  rrw_sequence :: int
  rrw_data_key_id :: string
  rrw_key_is_text :: bool
  rrw_nonce :: bytes
  rrw_ciphertext :: bytes

definition row_constraints :: "bytes \<Rightarrow> raw_row \<Rightarrow> bool" where
  "row_constraints tag w \<longleftrightarrow>
     length tag = 32 \<and> length (rrw_entry_id w) = 16 \<and> 0 \<le> rrw_state w \<and> rrw_state w \<le> 5
     \<and> rrw_sequence w > 0 \<and> 1 \<le> length (rrw_data_key_id w) \<and> length (rrw_data_key_id w) \<le> 64
     \<and> length (rrw_nonce w) = 24
     \<and> 16 \<le> length (rrw_ciphertext w) \<and> length (rrw_ciphertext w) \<le> 6291456"

type_synonym rows = "(bytes, raw_row) btree"

datatype read_failure = PrepareFailed | QueryFailed

fun map_read_failure :: "read_failure \<Rightarrow> store_error" where
  "map_read_failure PrepareFailed = StoreUnavailable"
| "map_read_failure QueryFailed = StoreCorrupt"

definition read_row :: "read_failure option \<Rightarrow> bytes \<Rightarrow> rows \<Rightarrow> store_error + stored_row option" where
  "read_row failure tag db =
     (case failure of Some e \<Rightarrow> Inl (map_read_failure e) | None \<Rightarrow>
     (case bt_get db tag of None \<Rightarrow> Inr None | Some w \<Rightarrow>
       and_then (ensure (\<not> (length tag \<noteq> 32 \<or> length (rrw_entry_id w) \<noteq> 16
         \<or> entry_from_sql (rrw_state w) = None \<or> rrw_sequence w < 1 \<or> \<not> rrw_key_is_text w
         \<or> \<not> (1 \<le> length (rrw_data_key_id w) \<and> length (rrw_data_key_id w) \<le> 64)
         \<or> length (rrw_nonce w) \<noteq> 24
         \<or> \<not> (16 \<le> length (rrw_ciphertext w) \<and> length (rrw_ciphertext w) \<le> MAX_CIPHERTEXT_BYTES)))
         StoreCorrupt) (\<lambda>_.
       and_then (ok_or (entry_from_sql (rrw_state w)) StoreCorrupt) (\<lambda>st.
       Inr (Some \<lparr>srw_tag = tag, srw_entry_id = rrw_entry_id w, srw_state = st,
                 srw_sequence = of_int (rrw_sequence w), srw_data_key_id = rrw_data_key_id w,
                 srw_nonce = rrw_nonce w, srw_ciphertext = rrw_ciphertext w\<rparr>)))))"

definition sqlite_sequence :: "u64 \<Rightarrow> store_error + int" where
  "sqlite_sequence n = (if unat n < 2 ^ 63 then Inr (int (unat n)) else Inl StoreStorageLimit)"

definition raw_of_stored :: "stored_row \<Rightarrow> int \<Rightarrow> raw_row" where
  "raw_of_stored row sequence =
     \<lparr>rrw_entry_id = srw_entry_id row, rrw_state = entry_code (srw_state row), rrw_sequence = sequence,
      rrw_data_key_id = srw_data_key_id row, rrw_key_is_text = True, rrw_nonce = srw_nonce row,
      rrw_ciphertext = srw_ciphertext row\<rparr>"

text \<open>The tag is the primary key, the entry identifier is unique.\<close>

definition insert_row :: "sql_failure option \<Rightarrow> stored_row \<Rightarrow> rows \<Rightarrow> store_error + rows" where
  "insert_row failure row db =
     and_then (sqlite_sequence (srw_sequence row)) (\<lambda>sequence.
     and_then (sql failure) (\<lambda>_.
     (let w = raw_of_stored row sequence
      in and_then (ensure (row_constraints (srw_tag row) w \<and> \<not> bt_contains db (srw_tag row)
           \<and> \<not> list_ex (\<lambda>v. rrw_entry_id v = srw_entry_id row) (bt_values db))
           (map_sql_error OtherSqlFailure)) (\<lambda>_.
         Inr (bt_insert (srw_tag row) w db)))))"

definition update_row :: "sql_failure option \<Rightarrow> stored_row \<Rightarrow> rows \<Rightarrow> store_error + rows" where
  "update_row failure row db =
     and_then (sqlite_sequence (srw_sequence row)) (\<lambda>sequence.
     and_then (sql failure) (\<lambda>_.
     (case bt_get db (srw_tag row) of
        Some v \<Rightarrow>
          if rrw_entry_id v = srw_entry_id row
          then and_then (ensure (row_constraints (srw_tag row) (raw_of_stored row sequence))
                 (map_sql_error OtherSqlFailure)) (\<lambda>_.
               Inr (bt_insert (srw_tag row) (raw_of_stored row sequence) db))
          else Inl StoreCorrupt
      | None \<Rightarrow> Inl StoreCorrupt)))"

text \<open>
  The answers of the environment to one operation: the readings of both clocks in order (the wall
  clock is before the epoch when there is none), the transaction, the files, the random source.
\<close>

type_synonym clock_reading = "u64 option \<times> instant"

record store_io =
  sio_clock :: "nat \<Rightarrow> clock_reading"
  sio_begin :: "sql_failure option"
  sio_headroom :: "disk \<times> disk"
  sio_tags :: "read_failure option"
  sio_read :: "nat \<Rightarrow> read_failure option"
  sio_count :: bool
  sio_entry_id :: "bytes option"
  sio_nonce :: "nat \<Rightarrow> bytes option"
  sio_write :: "nat \<Rightarrow> sql_failure option"
  sio_after :: disk
  sio_commit :: "sql_failure option"
  sio_schema :: schema_view

record meta_row =
  mrw_schema_version :: int
  mrw_index_key_id :: string
  mrw_key_is_text :: bool
  mrw_check :: bytes
  mrw_check_is_blob :: bool

record inv_store =
  ist_meta :: "meta_row list"
  ist_rows :: rows
  ist_keys :: key_material

definition row_count :: "store_io \<Rightarrow> rows \<Rightarrow> store_error + nat" where
  "row_count io db = (if sio_count io then Inr (bt_len db) else Inl StoreCorrupt)"

definition headroom :: "store_io \<Rightarrow> store_error + unit" where
  "headroom io = check_write_headroom (fst (sio_headroom io)) (snd (sio_headroom io))"

definition validate_admission_current ::
  "trusted_admission \<Rightarrow> invocation \<Rightarrow> admission_use \<Rightarrow> u64 \<Rightarrow> clock_reading \<Rightarrow> store_error + u64" where
  "validate_admission_current a iv use minimum_now reading =
     and_then (ok_or (fst reading) StoreDenied) (\<lambda>wall_now.
     (let now = max minimum_now wall_now
      in and_then (map_err map_admission_error (admission_validate_for a iv use now (snd reading))) (\<lambda>_.
         Inr now)))"

subsection \<open>Transactions\<close>

text \<open>
  A transaction returns its result and the rows it wrote. A refusal, of the transaction or of its
  commit, leaves the store; what is checked after the commit can only withhold the result.
\<close>

definition in_transaction ::
  "store_io \<Rightarrow> inv_store \<Rightarrow> store_error + ('a \<times> rows) \<Rightarrow> ('a \<Rightarrow> store_error + 'b)
     \<Rightarrow> (store_error + 'b) \<times> inv_store" where
  "in_transaction io s body after =
     (case body of
        Inl e \<Rightarrow> (Inl e, s)
      | Inr (x, db) \<Rightarrow>
          (case sql (sio_commit io) of
             Inl e \<Rightarrow> (Inl e, s)
           | Inr _ \<Rightarrow> (after x, s\<lparr>ist_rows := db\<rparr>)))"

definition find_stored :: "store_io \<Rightarrow> bytes \<Rightarrow> bytes \<Rightarrow> rows \<Rightarrow> store_error + stored_row" where
  "find_stored io tag entry_id db =
     and_then (read_row (sio_read io 0) tag db) (\<lambda>row_option.
     and_then (ok_or row_option StoreCorrupt) (\<lambda>row.
     and_then (ensure (srw_entry_id row = entry_id) StoreCorrupt) (\<lambda>_. Inr row)))"

text \<open>The last steps of every transition: the record is sealed, written and bounded.\<close>

definition write_record ::
  "'c store_codec_scheme \<Rightarrow> store_io \<Rightarrow> key_material \<Rightarrow> stored_row \<Rightarrow> invocation_record \<Rightarrow> rows
     \<Rightarrow> store_error + rows" where
  "write_record kx io km row r db =
     and_then (seal_record kx (sio_nonce io 0) km r (srw_tag row) (srw_entry_id row)) (\<lambda>sealed.
     and_then (update_row (sio_write io 0) sealed db) (\<lambda>db'.
     and_then (check_storage_bounds (sio_after io)) (\<lambda>_.
     Inr db')))"

subsection \<open>Reservation\<close>

record reservation =
  xrv_tag :: bytes
  xrv_entry_id :: bytes
  xrv_family :: lookup_family

datatype reservation_outcome = Ready reservation | LookupRequired reservation | Cached wire_response

definition reservation_of :: "bytes \<Rightarrow> bytes \<Rightarrow> lookup_family \<Rightarrow> reservation" where
  "reservation_of tag entry_id family = \<lparr>xrv_tag = tag, xrv_entry_id = entry_id, xrv_family = family\<rparr>"

text \<open>What a reservation of an operation that the journal holds already is told.\<close>

definition existing_outcome ::
  "invocation_record \<Rightarrow> reservation \<Rightarrow> admission_use \<Rightarrow> store_error + reservation_outcome" where
  "existing_outcome r rv use =
     (case irc_state r of
        EntryCompleted \<Rightarrow>
          if use = UseCachedRead then and_then (ok_or (irc_response r) StoreCorrupt) (\<lambda>x. Inr (Cached x))
          else Inl StoreDenied
      | EntryPrepared \<Rightarrow> if use = UseWrite then Inr (Ready rv) else Inl StoreDenied
      | EntryDefinitelyNotSent \<Rightarrow> Inl StoreRecoveryRequired
      | _ \<Rightarrow>
          if has_exact_lookup (xrv_family rv) \<and> use = UseExactLookup then Inr (LookupRequired rv)
          else Inl (if has_exact_lookup (xrv_family rv) then StoreDenied
                    else StoreAmbiguousWithoutExactLookup))"

definition prepared_record ::
  "key_material \<Rightarrow> trusted_admission \<Rightarrow> invocation \<Rightarrow> endpoint \<Rightarrow> bytes \<Rightarrow> u64 \<Rightarrow> invocation_record" where
  "prepared_record km a iv ep body now =
     \<lparr>irc_schema_version = RECORD_SCHEMA_VERSION, irc_state = EntryPrepared, irc_sequence = 1,
      irc_data_key_id = km_current_data_key_id km, irc_origin = tad_snapshot a, irc_invocation = iv,
      irc_endpoint = ep, irc_canonical_body = body, irc_attempts = [], irc_response = None,
      irc_created_at = now, irc_updated_at = now\<rparr>"

definition utf8_valid :: "bytes \<Rightarrow> bool" where
  "utf8_valid bs \<longleftrightarrow> utf8_decode (map bv bs) \<noteq> None"

text \<open>A new row: the admission must allow the write, and the journal must have room.\<close>

definition reserve_new ::
  "'c store_codec_scheme \<Rightarrow> store_io \<Rightarrow> invocation \<Rightarrow> trusted_admission \<Rightarrow> u64 \<Rightarrow> u64 \<Rightarrow> bytes
     \<Rightarrow> lookup_family \<Rightarrow> inv_store \<Rightarrow> store_error + (reservation_outcome \<times> rows)" where
  "reserve_new kx io iv a now locked_now tag family s =
     and_then (validate_admission_current a (tad_invocation a) UseWrite now (sio_clock io 2)) (\<lambda>write_now.
     and_then (row_count io (ist_rows s)) (\<lambda>count.
     and_then (ensure (\<not> count \<ge> MAX_ROWS) StoreCapacity) (\<lambda>_.
     and_then (map_err (\<lambda>_. StoreInvalid) (invocation_endpoint kx iv)) (\<lambda>ep.
     and_then (map_err (\<lambda>_. StoreInvalid) (harness_body kx iv)) (\<lambda>body_option.
     and_then (ok_or body_option StoreInvalid) (\<lambda>body.
     and_then (ensure (\<not> length body > MAX_HARNESS_JSON_BODY_BYTES) StoreStorageLimit) (\<lambda>_.
     and_then (ok_or (sio_entry_id io) StoreCryptoUnavailable) (\<lambda>entry_id.
     and_then (ensure (utf8_valid body) StoreInvalid) (\<lambda>_.
     (let r = prepared_record (ist_keys s) a iv ep body (max write_now locked_now)
      in and_then (validate_record kx r) (\<lambda>_.
         and_then (seal_record kx (sio_nonce io 0) (ist_keys s) r tag entry_id) (\<lambda>sealed.
         and_then (ensure_response_headroom kx r) (\<lambda>_.
         and_then (insert_row (sio_write io 0) sealed (ist_rows s)) (\<lambda>db.
         and_then (check_storage_bounds (sio_after io)) (\<lambda>_.
         and_then (validate_admission_current a iv UseWrite now (sio_clock io 3)) (\<lambda>_.
         Inr (Ready (reservation_of tag entry_id family), db)))))))))))))))))"

text \<open>
  The whole reservation. The result of the transaction carries the use under which the admission
  is checked again after the commit.
\<close>

definition reserve_in_transaction ::
  "'c store_codec_scheme \<Rightarrow> store_io \<Rightarrow> invocation \<Rightarrow> trusted_admission \<Rightarrow> u64 \<Rightarrow> bytes
     \<Rightarrow> lookup_family \<Rightarrow> inv_store \<Rightarrow> store_error + ((reservation_outcome \<times> admission_use) \<times> rows)" where
  "reserve_in_transaction kx io iv a now tag family s =
     and_then (sql (sio_begin io)) (\<lambda>_.
     and_then (validate_admission_current a iv (tad_use_kind a) now (sio_clock io 1)) (\<lambda>locked_now.
     and_then (headroom io) (\<lambda>_.
     and_then (read_row (sio_read io 0) tag (ist_rows s)) (\<lambda>row_option.
     (case row_option of
        Some row \<Rightarrow>
          and_then (open_record kx (ist_keys s) row) (\<lambda>r.
          and_then (check_exact_match r iv a) (\<lambda>_.
          and_then (existing_outcome r (reservation_of tag (srw_entry_id row) family) (tad_use_kind a)) (\<lambda>outcome.
          and_then (validate_admission_current a iv (tad_use_kind a) now (sio_clock io 2)) (\<lambda>_.
          Inr ((outcome, tad_use_kind a), ist_rows s)))))
      | None \<Rightarrow>
          and_then (reserve_new kx io iv a now locked_now tag family s) (\<lambda>(outcome, db).
          Inr ((outcome, UseWrite), db)))))))"

definition reserve ::
  "'c store_codec_scheme \<Rightarrow> store_io \<Rightarrow> invocation \<Rightarrow> trusted_admission \<Rightarrow> u64 \<Rightarrow> inv_store
     \<Rightarrow> (store_error + reservation_outcome) \<times> inv_store" where
  "reserve kx io iv a now s =
     (case and_then (map_err (\<lambda>_. StoreInvalid) (invocation_validate kx iv)) (\<lambda>_.
           and_then (validate_admission_current a iv (tad_use_kind a) now (sio_clock io 0)) (\<lambda>_.
           map_err map_admission_error (stable_locator_of iv))) of
        Inl e \<Rightarrow> (Inl e, s)
      | Inr l \<Rightarrow>
          in_transaction io s
            (reserve_in_transaction kx io iv a now (lookup_tag kx (km_index_key (ist_keys s)) l)
               (lc_family l) s)
            (\<lambda>(outcome, use).
               and_then (validate_admission_current a iv use now (sio_clock io 4)) (\<lambda>_. Inr outcome)))"

subsection \<open>Claims\<close>

record send_permit =
  osp_tag :: bytes
  osp_entry_id :: bytes
  osp_sequence :: u64
  osp_invocation :: invocation
  osp_endpoint :: endpoint
  osp_body :: bytes
  osp_reference :: string

record lookup_permit =
  olp_tag :: bytes
  olp_entry_id :: bytes
  olp_sequence :: u64
  olp_original :: invocation
  olp_invocation :: invocation
  olp_endpoint :: endpoint
  olp_body :: bytes
  olp_reference :: string

text \<open>The refusal of a row that is not prepared.\<close>

fun not_prepared :: "entry_state \<Rightarrow> store_error" where
  "not_prepared EntryCompleted = StoreConflict"
| "not_prepared EntryWriteClaimed = StoreRecoveryRequired"
| "not_prepared EntryLookupClaimed = StoreRecoveryRequired"
| "not_prepared EntryUnknown = StoreRecoveryRequired"
| "not_prepared EntryDefinitelyNotSent = StoreRecoveryRequired"
| "not_prepared EntryPrepared = StoreCorrupt"

definition claim_send_body ::
  "'c store_codec_scheme \<Rightarrow> store_io \<Rightarrow> reservation \<Rightarrow> trusted_admission \<Rightarrow> u64 \<Rightarrow> inv_store
     \<Rightarrow> store_error + (send_permit \<times> rows)" where
  "claim_send_body kx io rv a now s =
     and_then (sql (sio_begin io)) (\<lambda>_.
     and_then (validate_admission_current a (tad_invocation a) UseWrite now (sio_clock io 1)) (\<lambda>claim_now.
     and_then (headroom io) (\<lambda>_.
     and_then (find_stored io (xrv_tag rv) (xrv_entry_id rv) (ist_rows s)) (\<lambda>row.
     and_then (open_record kx (ist_keys s) row) (\<lambda>r.
     and_then (check_exact_match r (tad_invocation a) a) (\<lambda>_.
     and_then (ensure (irc_state r = EntryPrepared) (not_prepared (irc_state r))) (\<lambda>_.
     and_then (push_attempt (attempt_of a AttemptWrite) r) (\<lambda>pushed.
     and_then (ensure_response_headroom kx pushed) (\<lambda>_.
     and_then (advance EntryWriteClaimed claim_now pushed) (\<lambda>advanced.
     and_then (write_record kx io (ist_keys s) row advanced (ist_rows s)) (\<lambda>db.
     and_then (validate_admission_current a (tad_invocation a) UseWrite now (sio_clock io 2)) (\<lambda>_.
     Inr (\<lparr>osp_tag = srw_tag row, osp_entry_id = srw_entry_id row, osp_sequence = irc_sequence advanced,
           osp_invocation = tad_invocation a, osp_endpoint = irc_endpoint advanced,
           osp_body = irc_canonical_body advanced, osp_reference = tad_reference a\<rparr>, db)))))))))))))"

definition claim_send ::
  "'c store_codec_scheme \<Rightarrow> store_io \<Rightarrow> reservation \<Rightarrow> trusted_admission \<Rightarrow> u64 \<Rightarrow> inv_store
     \<Rightarrow> (store_error + send_permit) \<times> inv_store" where
  "claim_send kx io rv a now s =
     (case validate_admission_current a (tad_invocation a) UseWrite now (sio_clock io 0) of
        Inl e \<Rightarrow> (Inl e, s)
      | Inr _ \<Rightarrow>
          in_transaction io s (claim_send_body kx io rv a now s) (\<lambda>permit.
            and_then (validate_admission_current a (tad_invocation a) UseWrite now (sio_clock io 3)) (\<lambda>_.
            Inr permit)))"

definition lookup_claimable :: "entry_state \<Rightarrow> bool" where
  "lookup_claimable st \<longleftrightarrow> st = EntryWriteClaimed \<or> st = EntryLookupClaimed \<or> st = EntryUnknown"

definition claim_lookup_body ::
  "'c store_codec_scheme \<Rightarrow> store_io \<Rightarrow> reservation \<Rightarrow> invocation \<Rightarrow> trusted_admission \<Rightarrow> u64
     \<Rightarrow> inv_store \<Rightarrow> store_error + (lookup_permit \<times> rows)" where
  "claim_lookup_body kx io rv current a now s =
     and_then (sql (sio_begin io)) (\<lambda>_.
     and_then (validate_admission_current a current UseExactLookup now (sio_clock io 1)) (\<lambda>claim_now.
     and_then (headroom io) (\<lambda>_.
     and_then (find_stored io (xrv_tag rv) (xrv_entry_id rv) (ist_rows s)) (\<lambda>row.
     and_then (open_record kx (ist_keys s) row) (\<lambda>r.
     and_then (check_exact_match r current a) (\<lambda>_.
     and_then (ensure (has_exact_lookup (xrv_family rv)) StoreAmbiguousWithoutExactLookup) (\<lambda>_.
     and_then (ensure (lookup_claimable (irc_state r)) StoreRecoveryRequired) (\<lambda>_.
     and_then (map_err (\<lambda>_. StoreDenied) (lookup_invocation kx (irc_invocation r) current)) (\<lambda>lookup.
     and_then (map_err (\<lambda>_. StoreInvalid) (invocation_endpoint kx lookup)) (\<lambda>ep.
     and_then (map_err (\<lambda>_. StoreInvalid) (harness_body kx lookup)) (\<lambda>body_option.
     and_then (ok_or body_option StoreInvalid) (\<lambda>body.
     and_then (ensure (\<not> length body > MAX_HARNESS_JSON_BODY_BYTES) StoreStorageLimit) (\<lambda>_.
     and_then (push_attempt (attempt_of a AttemptLookup) r) (\<lambda>pushed.
     and_then (ensure_response_headroom kx pushed) (\<lambda>_.
     and_then (advance EntryLookupClaimed claim_now pushed) (\<lambda>advanced.
     and_then (write_record kx io (ist_keys s) row advanced (ist_rows s)) (\<lambda>db.
     and_then (validate_admission_current a current UseExactLookup now (sio_clock io 2)) (\<lambda>_.
     Inr (\<lparr>olp_tag = srw_tag row, olp_entry_id = srw_entry_id row, olp_sequence = irc_sequence advanced,
           olp_original = current, olp_invocation = lookup, olp_endpoint = ep, olp_body = body,
           olp_reference = tad_reference a\<rparr>, db)))))))))))))))))))"

definition claim_exact_lookup ::
  "'c store_codec_scheme \<Rightarrow> store_io \<Rightarrow> reservation \<Rightarrow> invocation \<Rightarrow> trusted_admission \<Rightarrow> u64
     \<Rightarrow> inv_store \<Rightarrow> (store_error + lookup_permit) \<times> inv_store" where
  "claim_exact_lookup kx io rv current a now s =
     (case validate_admission_current a current UseExactLookup now (sio_clock io 0) of
        Inl e \<Rightarrow> (Inl e, s)
      | Inr _ \<Rightarrow>
          in_transaction io s (claim_lookup_body kx io rv current a now s) (\<lambda>permit.
            and_then (validate_admission_current a current UseExactLookup now (sio_clock io 3)) (\<lambda>_.
            Inr permit)))"

subsection \<open>Outcomes\<close>

text \<open>
  The transaction that records an outcome: the row is still as the permit left it, and the record
  moves to the state of the outcome with the response.
\<close>

definition settle_body ::
  "'c store_codec_scheme \<Rightarrow> store_io \<Rightarrow> bytes \<Rightarrow> bytes \<Rightarrow> u64 \<Rightarrow> entry_state \<Rightarrow> invocation
     \<Rightarrow> wire_response option \<Rightarrow> entry_state \<Rightarrow> u64 \<Rightarrow> inv_store \<Rightarrow> store_error + (unit \<times> rows)" where
  "settle_body kx io tag entry_id sequence claimed iv response st now s =
     and_then (sql (sio_begin io)) (\<lambda>_.
     and_then (headroom io) (\<lambda>_.
     and_then (read_row (sio_read io 0) tag (ist_rows s)) (\<lambda>row_option.
     and_then (ok_or row_option StoreCorrupt) (\<lambda>row.
     and_then (ensure (\<not> (srw_entry_id row \<noteq> entry_id \<or> srw_sequence row \<noteq> sequence)) StoreCorrupt) (\<lambda>_.
     and_then (open_record kx (ist_keys s) row) (\<lambda>r.
     and_then (ensure (\<not> (irc_state r \<noteq> claimed \<or> \<not> same_call (irc_invocation r) iv)) StoreRecoveryRequired) (\<lambda>_.
     and_then (advance st now (r\<lparr>irc_response := response\<rparr>)) (\<lambda>advanced.
     and_then (write_record kx io (ist_keys s) row advanced (ist_rows s)) (\<lambda>db.
     Inr ((), db))))))))))"

definition mark_send_unknown ::
  "'c store_codec_scheme \<Rightarrow> store_io \<Rightarrow> send_permit \<Rightarrow> u64 \<Rightarrow> inv_store \<Rightarrow> (store_error + unit) \<times> inv_store" where
  "mark_send_unknown kx io p now s =
     in_transaction io s
       (settle_body kx io (osp_tag p) (osp_entry_id p) (osp_sequence p) EntryWriteClaimed
          (osp_invocation p) None EntryUnknown now s) Inr"

definition mark_lookup_unknown ::
  "'c store_codec_scheme \<Rightarrow> store_io \<Rightarrow> lookup_permit \<Rightarrow> u64 \<Rightarrow> inv_store \<Rightarrow> (store_error + unit) \<times> inv_store" where
  "mark_lookup_unknown kx io p now s =
     in_transaction io s
       (settle_body kx io (olp_tag p) (olp_entry_id p) (olp_sequence p) EntryLookupClaimed
          (olp_original p) None EntryUnknown now s) Inr"

text \<open>A response that is refused is recorded as unknown first.\<close>

definition refuse_response ::
  "(store_error + unit) \<times> inv_store \<Rightarrow> (store_error + 'a) \<times> inv_store" where
  "refuse_response marked =
     (and_then (fst marked) (\<lambda>_. Inl StoreInvalidOwnerResponse), snd marked)"

definition complete_send ::
  "'c store_codec_scheme \<Rightarrow> store_io \<Rightarrow> send_permit \<Rightarrow> bytes \<Rightarrow> u64 \<Rightarrow> inv_store
     \<Rightarrow> (store_error + wire_response) \<times> inv_store" where
  "complete_send kx io p response_bytes now s =
     (let refused = refuse_response (mark_send_unknown kx io p now s)
      in if length response_bytes > MAX_HARNESS_JSON_BODY_BYTES then refused
         else (case decode_response kx (osp_invocation p) response_bytes of
                 Inl _ \<Rightarrow> refused
               | Inr response \<Rightarrow>
                   (case xk_response_vec kx response of
                      None \<Rightarrow> (Inl StoreInvalidOwnerResponse, s)
                    | Some encoded \<Rightarrow>
                        if length encoded > MAX_HARNESS_JSON_BODY_BYTES then refused
                        else in_transaction io s
                               (settle_body kx io (osp_tag p) (osp_entry_id p) (osp_sequence p)
                                  EntryWriteClaimed (osp_invocation p) (Some response) EntryCompleted now s)
                               (\<lambda>_. Inr response))))"

definition complete_lookup ::
  "'c store_codec_scheme \<Rightarrow> store_io \<Rightarrow> lookup_permit \<Rightarrow> bytes \<Rightarrow> u64 \<Rightarrow> inv_store
     \<Rightarrow> (store_error + wire_response option) \<times> inv_store" where
  "complete_lookup kx io p response_bytes now s =
     (let refused = refuse_response (mark_lookup_unknown kx io p now s)
      in if length response_bytes > MAX_HARNESS_JSON_BODY_BYTES then refused
         else (case decode_response kx (olp_invocation p) response_bytes of
                 Inl _ \<Rightarrow> refused
               | Inr response \<Rightarrow>
                   (case response_from_lookup (iv_operation (olp_original p)) response of
                      Inl _ \<Rightarrow> refused
                    | Inr cached \<Rightarrow>
                        in_transaction io s
                          (settle_body kx io (olp_tag p) (olp_entry_id p) (olp_sequence p)
                             EntryLookupClaimed (olp_original p) cached
                             (if cached \<noteq> None then EntryCompleted else EntryUnknown) now s)
                          (\<lambda>_. Inr cached))))"

subsection \<open>Validation, rotation and opening\<close>

text \<open>The constraints of the meta table, and the check of the schema and of every row.\<close>

definition meta_constraints :: "meta_row \<Rightarrow> bool" where
  "meta_constraints m \<longleftrightarrow>
     mrw_schema_version m = 2 \<and> 1 \<le> length (mrw_index_key_id m) \<and> length (mrw_index_key_id m) \<le> 64
     \<and> length (mrw_check m) = 32"

definition validate_journal_rows :: "meta_row list \<Rightarrow> rows \<Rightarrow> store_error + unit" where
  "validate_journal_rows meta db =
     and_then (ensure (\<not> (list_ex (\<lambda>(tag, w). \<not> row_constraints tag w \<or> \<not> rrw_key_is_text w)
         (bt_entries db) \<or> bt_len db > MAX_ROWS)) StoreCorrupt) (\<lambda>_.
     and_then (ensure (\<not> length meta > 1) StoreCorrupt) (\<lambda>_.
     ensure (\<not> list_ex (\<lambda>m. \<not> meta_constraints m \<or> \<not> mrw_key_is_text m \<or> \<not> mrw_check_is_blob m)
       meta) StoreCorrupt))"

definition validate_schema :: "store_io \<Rightarrow> meta_row list \<Rightarrow> rows \<Rightarrow> store_error + bool" where
  "validate_schema io meta db =
     and_then (validate_structure (sio_schema io)) (\<lambda>exists.
     if exists
     then and_then (ensure (sio_count io) StoreCorrupt) (\<lambda>_.
          and_then (validate_journal_rows meta db) (\<lambda>_. Inr True))
     else Inr False)"

text \<open>Rows are read in the order of their tags; the number counts the reads of the operation.\<close>

fun validate_rows_loop ::
  "'c store_codec_scheme \<Rightarrow> store_io \<Rightarrow> key_material \<Rightarrow> rows \<Rightarrow> nat \<Rightarrow> bytes list \<Rightarrow> store_error + unit" where
  "validate_rows_loop kx io km db n [] = Inr ()"
| "validate_rows_loop kx io km db n (tag # tags) =
     and_then (ensure (length tag = 32) StoreCorrupt) (\<lambda>_.
     and_then (read_row (sio_read io n) tag db) (\<lambda>row_option.
     and_then (ok_or row_option StoreCorrupt) (\<lambda>row.
     and_then (open_record kx km row) (\<lambda>_.
     validate_rows_loop kx io km db (Suc n) tags))))"

definition validate_all_rows ::
  "'c store_codec_scheme \<Rightarrow> store_io \<Rightarrow> inv_store \<Rightarrow> store_error + unit" where
  "validate_all_rows kx io s =
     and_then (validate_schema io (ist_meta s) (ist_rows s)) (\<lambda>_.
     (case sio_tags io of
        Some e \<Rightarrow> Inl (map_read_failure e)
      | None \<Rightarrow> validate_rows_loop kx io (ist_keys s) (ist_rows s) 0 (map fst (bt_entries (ist_rows s)))))"

definition reseal_row ::
  "'c store_codec_scheme \<Rightarrow> bytes option \<Rightarrow> key_material \<Rightarrow> key_material \<Rightarrow> stored_row \<Rightarrow> store_error + stored_row" where
  "reseal_row kx random old new row =
     and_then (open_record kx old row) (\<lambda>r.
     and_then (ok_or (xk_record_vec kx (r\<lparr>irc_data_key_id := km_current_data_key_id new\<rparr>)) StoreUnavailable)
       (\<lambda>plaintext.
     and_then (ensure (\<not> length plaintext > MAX_CIPHERTEXT_BYTES) StoreStorageLimit) (\<lambda>_.
     and_then (encrypt_row kx random new (srw_tag row) (srw_entry_id row) (srw_state row)
       (srw_sequence row) plaintext) (\<lambda>(nonce, ciphertext).
     and_then (ensure (\<not> length ciphertext > MAX_CIPHERTEXT_BYTES) StoreStorageLimit) (\<lambda>_.
     Inr (row\<lparr>srw_data_key_id := km_current_data_key_id new, srw_nonce := nonce,
              srw_ciphertext := ciphertext\<rparr>))))))"

fun reseal_rows ::
  "'c store_codec_scheme \<Rightarrow> store_io \<Rightarrow> key_material \<Rightarrow> key_material \<Rightarrow> rows \<Rightarrow> nat \<Rightarrow> bytes list
     \<Rightarrow> store_error + stored_row list" where
  "reseal_rows kx io old new db n [] = Inr []"
| "reseal_rows kx io old new db n (tag # tags) =
     and_then (read_row (sio_read io n) tag db) (\<lambda>row_option.
     and_then (ok_or row_option StoreCorrupt) (\<lambda>row.
     and_then (reseal_row kx (sio_nonce io n) old new row) (\<lambda>sealed.
     and_then (reseal_rows kx io old new db (Suc n) tags) (\<lambda>more_rows.
     Inr (sealed # more_rows)))))"

fun update_rows :: "store_io \<Rightarrow> nat \<Rightarrow> stored_row list \<Rightarrow> rows \<Rightarrow> store_error + rows" where
  "update_rows io n [] db = Inr db"
| "update_rows io n (row # more_rows) db =
     and_then (update_row (sio_write io n) row db) (\<lambda>db'. update_rows io (Suc n) more_rows db')"

definition rotate_body ::
  "'c store_codec_scheme \<Rightarrow> store_io \<Rightarrow> key_material \<Rightarrow> inv_store \<Rightarrow> store_error + (unit \<times> rows)" where
  "rotate_body kx io new s =
     and_then (sql (sio_begin io)) (\<lambda>_.
     and_then (headroom io) (\<lambda>_.
     and_then (case sio_tags io of Some e \<Rightarrow> Inl (map_read_failure e) | None \<Rightarrow>
       (if list_all (\<lambda>tag. length tag = 32) (map fst (bt_entries (ist_rows s)))
        then Inr (map fst (bt_entries (ist_rows s))) else Inl StoreCorrupt)) (\<lambda>tags.
     and_then (reseal_rows kx io (ist_keys s) new (ist_rows s) 0 tags) (\<lambda>replacements.
     and_then (update_rows io 0 replacements (ist_rows s)) (\<lambda>db.
     and_then (check_storage_bounds (sio_after io)) (\<lambda>_.
     Inr ((), db)))))))"

text \<open>
  The keys change with the commit. The rows are validated under them once more, with answers of
  its own.
\<close>

definition rotate_data_keys ::
  "'c store_codec_scheme \<Rightarrow> store_io \<Rightarrow> store_io \<Rightarrow> store_error + key_material \<Rightarrow> inv_store
     \<Rightarrow> (store_error + unit) \<times> inv_store" where
  "rotate_data_keys kx io io' provider s =
     (case and_then provider (\<lambda>new.
           and_then (ensure (same_index_material (ist_keys s) new) StoreIndexRotation) (\<lambda>_.
           and_then (ensure (retains_data_keys (ist_keys s) new) StoreKeyUnavailable) (\<lambda>_. Inr new))) of
        Inl e \<Rightarrow> (Inl e, s)
      | Inr new \<Rightarrow>
          (case in_transaction io s (rotate_body kx io new s) Inr of
             (Inl e, s') \<Rightarrow> (Inl e, s')
           | (Inr _, s') \<Rightarrow>
               (validate_all_rows kx io' (s'\<lparr>ist_keys := new\<rparr>), s'\<lparr>ist_keys := new\<rparr>)))"

text \<open>A count that fails is the flag \<open>sio_count\<close>; the rows are counted only when there is no meta row.\<close>

definition initialize_index_id ::
  "'c store_codec_scheme \<Rightarrow> store_io \<Rightarrow> inv_store \<Rightarrow> store_error + meta_row list" where
  "initialize_index_id kx io s =
     and_then (sql (sio_begin io)) (\<lambda>_.
     and_then (headroom io) (\<lambda>_.
     and_then (row_count io (ist_rows s)) (\<lambda>row_total.
     and_then (case ist_meta s of
         [] \<Rightarrow>
           and_then (ensure (row_total = 0) StoreCorrupt) (\<lambda>_.
           (let m = \<lparr>mrw_schema_version = 2, mrw_index_key_id = km_index_key_id (ist_keys s),
                     mrw_key_is_text = True,
                     mrw_check = index_key_verifier kx (km_index_key (ist_keys s)) (km_index_key_id (ist_keys s)),
                     mrw_check_is_blob = True\<rparr>
            in and_then (sql (sio_write io 0)) (\<lambda>_.
               and_then (ensure (meta_constraints m) (map_sql_error OtherSqlFailure)) (\<lambda>_. Inr [m]))))
       | [m] \<Rightarrow>
           and_then (ensure (\<not> (mrw_schema_version m \<noteq> 2 \<or> \<not> mrw_key_is_text m
             \<or> \<not> (1 \<le> length (mrw_index_key_id m) \<and> length (mrw_index_key_id m) \<le> 64)
             \<or> \<not> mrw_check_is_blob m \<or> length (mrw_check m) \<noteq> 32)) StoreCorrupt) (\<lambda>_.
           and_then (ensure (\<not> (mrw_schema_version m \<noteq> 2
             \<or> mrw_index_key_id m \<noteq> km_index_key_id (ist_keys s))) StoreIndexRotation) (\<lambda>_.
           and_then (verify_index_key kx (km_index_key (ist_keys s)) (mrw_index_key_id m) (mrw_check m)) (\<lambda>_.
           Inr [m])))
       | _ \<Rightarrow> Inl StoreCorrupt) (\<lambda>meta.
     and_then (check_storage_bounds (sio_after io)) (\<lambda>_.
     and_then (sql (sio_commit io)) (\<lambda>_. Inr meta))))))"

text \<open>
  Opening a database that the operator's provider has keys for; \<open>found\<close> is what \<open>open_database\<close>
  yields. The last validation has answers of its own.
\<close>

definition open_store ::
  "'c store_codec_scheme \<Rightarrow> store_io \<Rightarrow> store_io \<Rightarrow> store_error + key_material
     \<Rightarrow> store_error + (meta_row list \<times> rows) \<Rightarrow> store_error + inv_store" where
  "open_store kx io io' provider found =
     and_then provider (\<lambda>km.
     and_then found (\<lambda>(meta, db).
     (let s = \<lparr>ist_meta = meta, ist_rows = db, ist_keys = km\<rparr>
      in and_then (initialize_index_id kx io s) (\<lambda>meta'.
         (let s' = s\<lparr>ist_meta := meta'\<rparr>
          in and_then (validate_schema io meta' db) (\<lambda>_.
             and_then (validate_all_rows kx io' s') (\<lambda>_.
             Inr s')))))))"

end
