(* ===== verification/Invocation_Facts.thy ===== *)
theory Invocation_Facts
  imports Invocation_Store
begin

text \<open>
  The abstract life of one row of the owner invocation store, and the lemma that every operation
  of the store is a step of it for every tag: a row is created prepared and is never deleted; it
  keeps its entry identifier; its state moves only along the transitions of \<open>advance\<close>, each of
  which counts the sequence number up by one. A claim of a send is the step out of the prepared
  state.
\<close>

subsection \<open>The abstract row\<close>

type_synonym row_state = "bytes \<times> int \<times> u64"

definition core_of :: "raw_row \<Rightarrow> row_state" where
  "core_of w = (rrw_entry_id w, rrw_state w, of_int (rrw_sequence w))"

definition row_view :: "rows \<Rightarrow> bytes \<Rightarrow> row_state option" where
  "row_view db tag = map_option core_of (bt_get db tag)"

inductive row_step :: "row_state option \<Rightarrow> row_state option \<Rightarrow> bool" where
  keep: "row_step c c"
| create: "row_step None (Some (entry_id, entry_code EntryPrepared, 1))"
| move: "advance_allowed st st' \<Longrightarrow> checked_add n 1 = Some n' \<Longrightarrow>
    row_step (Some (entry_id, entry_code st, n)) (Some (entry_id, entry_code st', n'))"

inductive_cases row_stepE [elim]: "row_step (Some c) c'"

definition rows_step :: "rows \<Rightarrow> rows \<Rightarrow> bool" where
  "rows_step db db' \<longleftrightarrow> (\<forall>tag. row_step (row_view db tag) (row_view db' tag))"

lemma rows_step_refl [simp]: "rows_step db db"
  by (simp add: rows_step_def row_step.keep)

lemma rows_stepD: "rows_step db db' \<Longrightarrow> row_step (row_view db tag) (row_view db' tag)"
  by (simp add: rows_step_def)

lemma advance_never_prepared: "advance_allowed st st' \<Longrightarrow> st' \<noteq> EntryPrepared"
  by (cases st; cases st') simp_all

lemma entry_code_inject [simp]: "entry_code a = entry_code b \<longleftrightarrow> a = b"
  by (cases a; cases b) simp_all

lemma entry_code_zero [simp]: "entry_code st = 0 \<longleftrightarrow> st = EntryPrepared" "0 = entry_code st \<longleftrightarrow> st = EntryPrepared"
  by (cases st; simp)+

text \<open>A row that has left the prepared state stays outside it.\<close>

definition claimed_tag :: "rows \<Rightarrow> bytes \<Rightarrow> bool" where
  "claimed_tag db tag \<longleftrightarrow> (\<exists>entry_id k n. row_view db tag = Some (entry_id, k, n) \<and> k \<noteq> entry_code EntryPrepared)"

lemma claimed_tag_step:
  assumes "rows_step db db'" "claimed_tag db tag"
  shows "claimed_tag db' tag"
proof -
  obtain entry_id k n where c: "row_view db tag = Some (entry_id, k, n)" "k \<noteq> entry_code EntryPrepared"
    using assms(2) by (auto simp: claimed_tag_def)
  have "row_step (Some (entry_id, k, n)) (row_view db' tag)"
    using rows_stepD [OF assms(1), of tag] c(1) by simp
  then show ?thesis
    by (cases rule: row_stepE) (use c(2) advance_never_prepared in \<open>auto simp: claimed_tag_def\<close>)
qed

subsection \<open>Rows\<close>

lemma bt_get_insert': "bt_get (bt_insert k v m) = (bt_get m)(k \<mapsto> v)"
  by transfer (rule map_of_list_put)

lemma read_row_Some:
  assumes "read_row f tag db = Inr (Some row)"
  shows "srw_tag row = tag"
    and "row_view db tag = Some (srw_entry_id row, entry_code (srw_state row), srw_sequence row)"
  using assms
  by (auto simp: read_row_def row_view_def core_of_def result_simps entry_from_sql_Some
      split: option.splits if_splits)

lemma read_row_None: "read_row f tag db = Inr None \<Longrightarrow> bt_get db tag = None"
  by (auto simp: read_row_def result_simps split: option.splits if_splits)

lemma sqlite_sequence_Inr: "sqlite_sequence n = Inr k \<Longrightarrow> (of_int k :: u64) = n"
  by (auto simp: sqlite_sequence_def split: if_splits)

lemma update_row_core:
  assumes "update_row f row db = Inr db'"
  shows "row_view db' = (row_view db)(srw_tag row \<mapsto>
           (srw_entry_id row, entry_code (srw_state row), srw_sequence row))"
    and "\<exists>k n. row_view db (srw_tag row) = Some (srw_entry_id row, k, n)"
  using assms
  by (auto simp: update_row_def row_view_def core_of_def raw_of_stored_def bt_get_insert' fun_eq_iff
      result_simps sqlite_sequence_Inr split: option.splits if_splits)

lemma insert_row_core:
  assumes "insert_row f row db = Inr db'"
  shows "row_view db' = (row_view db)(srw_tag row \<mapsto>
           (srw_entry_id row, entry_code (srw_state row), srw_sequence row))"
  using assms
  by (auto simp: insert_row_def row_view_def core_of_def raw_of_stored_def bt_get_insert' fun_eq_iff
      result_simps sqlite_sequence_Inr Let_def)

lemma seal_record_fields:
  assumes "seal_record kx random km r tag entry_id = Inr row"
  shows "srw_tag row = tag" "srw_entry_id row = entry_id" "srw_state row = irc_state r"
    "srw_sequence row = irc_sequence r"
  using assms by (auto simp: seal_record_def Let_def result_simps)

lemma open_record_fields:
  assumes "open_record kx km row = Inr r"
  shows "irc_state r = srw_state row" "irc_sequence r = srw_sequence row" "validate_record kx r = Inr ()"
    "\<exists>l. stable_locator_of (irc_invocation r) = Inr l \<and> lookup_tag kx (km_index_key km) l = srw_tag row"
  using assms by (auto simp: open_record_def result_simps)

lemma advance_Inr:
  assumes "advance st now r = Inr r'"
  shows "advance_allowed (irc_state r) st" "checked_add (irc_sequence r) 1 = Some (irc_sequence r')"
    "irc_state r' = st" "irc_canonical_body r' = irc_canonical_body r"
    "irc_endpoint r' = irc_endpoint r" "irc_invocation r' = irc_invocation r"
  using assms by (auto simp: advance_def result_simps)

lemma push_attempt_Inr:
  assumes "push_attempt a r = Inr r'"
  shows "irc_state r' = irc_state r" "irc_sequence r' = irc_sequence r"
    "irc_canonical_body r' = irc_canonical_body r" "irc_endpoint r' = irc_endpoint r"
    "irc_invocation r' = irc_invocation r"
  using assms by (auto simp: push_attempt_def result_simps)

lemma find_stored_Inr:
  assumes "find_stored io tag entry_id db = Inr row"
  shows "srw_tag row = tag"
    and "row_view db tag = Some (srw_entry_id row, entry_code (srw_state row), srw_sequence row)"
  using assms by (auto simp: find_stored_def result_simps dest: read_row_Some)

text \<open>The write of a record that \<open>advance\<close> moved is a step of its row.\<close>

lemma write_record_step:
  assumes "write_record kx io km row r' db = Inr db'" "advance st now r = Inr r'"
    and "row_view db (srw_tag row) = Some (srw_entry_id row, entry_code (irc_state r), irc_sequence r)"
  shows "rows_step db db'"
    and "row_view db' (srw_tag row) = Some (srw_entry_id row, entry_code st, irc_sequence r')"
proof -
  obtain sealed where s: "seal_record kx (sio_nonce io 0) km r' (srw_tag row) (srw_entry_id row) = Inr sealed"
    and u: "update_row (sio_write io 0) sealed db = Inr db'"
    using assms(1) by (auto simp: write_record_def result_simps)
  note a = advance_Inr [OF assms(2)]
  have db': "row_view db' = (row_view db)(srw_tag row \<mapsto> (srw_entry_id row, entry_code st, irc_sequence r'))"
    using update_row_core(1) [OF u] seal_record_fields [OF s] a(3) by simp
  then show "row_view db' (srw_tag row) = Some (srw_entry_id row, entry_code st, irc_sequence r')"
    by simp
  show "rows_step db db'"
    unfolding rows_step_def db' using assms(3) row_step.move [OF a(1) a(2)] by (auto intro: row_step.keep)
qed

subsection \<open>Every operation is a step\<close>

lemma in_transaction_step:
  assumes "\<And>x db. body = Inr (x, db) \<Longrightarrow> rows_step (ist_rows s) db"
  shows "rows_step (ist_rows s) (ist_rows (snd (in_transaction io s body after)))"
  using assms by (auto simp: in_transaction_def split: sum.splits prod.splits)

lemma in_transaction_keys [simp]: "ist_keys (snd (in_transaction io s body after)) = ist_keys s"
  by (auto simp: in_transaction_def split: sum.splits prod.splits)

lemma reserve_new_step:
  assumes "reserve_new kx io iv a now locked tag family s = Inr (x, db)" "bt_get (ist_rows s) tag = None"
  shows "rows_step (ist_rows s) db"
proof -
  obtain ep body n entry_id sealed where
    s: "seal_record kx (sio_nonce io 0) (ist_keys s) (prepared_record (ist_keys s) a iv ep body n) tag entry_id
          = Inr sealed"
    and i: "insert_row (sio_write io 0) sealed (ist_rows s) = Inr db"
    using assms(1) by (auto simp: reserve_new_def Let_def result_simps)
  have "row_view (ist_rows s) tag = None" using assms(2) by (simp add: row_view_def)
  then show ?thesis
    using insert_row_core [OF i] seal_record_fields [OF s] row_step.create
    by (auto simp: rows_step_def prepared_record_def intro: row_step.keep)
qed

lemma reserve_in_transaction_step:
  assumes "reserve_in_transaction kx io iv a now tag family s = Inr (x, db)"
  shows "rows_step (ist_rows s) db"
proof -
  obtain row_option locked_now where r: "read_row (sio_read io 0) tag (ist_rows s) = Inr row_option"
    and c: "(case row_option of
        Some row \<Rightarrow>
          and_then (open_record kx (ist_keys s) row) (\<lambda>r.
          and_then (check_exact_match r iv a) (\<lambda>_.
          and_then (existing_outcome r (reservation_of tag (srw_entry_id row) family) (tad_use_kind a)) (\<lambda>outcome.
          and_then (validate_admission_current a iv (tad_use_kind a) now (sio_clock io 2)) (\<lambda>_.
          Inr ((outcome, tad_use_kind a), ist_rows s)))))
      | None \<Rightarrow>
          and_then (reserve_new kx io iv a now locked_now tag family s) (\<lambda>(outcome, db).
          Inr ((outcome, UseWrite), db))) = Inr (x, db)"
    using assms unfolding reserve_in_transaction_def by (auto simp: result_simps)
  show ?thesis
  proof (cases row_option)
    case None
    then show ?thesis
      using c read_row_None [OF r [unfolded None]] by (auto simp: result_simps dest: reserve_new_step)
  next
    case (Some row)
    then show ?thesis using c by (auto simp: result_simps)
  qed
qed

lemma reserve_step: "rows_step (ist_rows s) (ist_rows (snd (reserve kx io iv a now s)))"
  unfolding reserve_def
  by (auto split: sum.splits intro!: in_transaction_step dest: reserve_in_transaction_step)

lemma claim_send_body_Inr:
  assumes "claim_send_body kx io rv a now s = Inr (p, db)"
  obtains row r where "find_stored io (xrv_tag rv) (xrv_entry_id rv) (ist_rows s) = Inr row"
    and "open_record kx (ist_keys s) row = Inr r" and "same_call (irc_invocation r) (tad_invocation a)"
    and "irc_state r = EntryPrepared" and "osp_tag p = srw_tag row"
    and "osp_invocation p = tad_invocation a" and "osp_endpoint p = irc_endpoint r"
    and "osp_body p = irc_canonical_body r" and "rows_step (ist_rows s) db"
    and "row_view (ist_rows s) (osp_tag p) = Some (osp_entry_id p, entry_code EntryPrepared, irc_sequence r)"
    and "row_view db (osp_tag p) = Some (osp_entry_id p, entry_code EntryWriteClaimed, osp_sequence p)"
proof -
  obtain row r pushed advanced claim_now where
    f: "find_stored io (xrv_tag rv) (xrv_entry_id rv) (ist_rows s) = Inr row"
    and o: "open_record kx (ist_keys s) row = Inr r"
    and c: "check_exact_match r (tad_invocation a) a = Inr ()" and st: "irc_state r = EntryPrepared"
    and pu: "push_attempt (attempt_of a AttemptWrite) r = Inr pushed"
    and ad: "advance EntryWriteClaimed claim_now pushed = Inr advanced"
    and w: "write_record kx io (ist_keys s) row advanced (ist_rows s) = Inr db"
    and p: "p = \<lparr>osp_tag = srw_tag row, osp_entry_id = srw_entry_id row,
           osp_sequence = irc_sequence advanced, osp_invocation = tad_invocation a,
           osp_endpoint = irc_endpoint advanced, osp_body = irc_canonical_body advanced,
           osp_reference = tad_reference a\<rparr>"
    using assms by (auto simp: claim_send_body_def result_simps)
  note fr = find_stored_Inr [OF f] and op = open_record_fields [OF o] and pr = push_attempt_Inr [OF pu]
  have core: "row_view (ist_rows s) (srw_tag row)
      = Some (srw_entry_id row, entry_code (irc_state pushed), irc_sequence pushed)"
    using fr op(1,2) pr(1,2) by simp
  show thesis
    using that [OF f o _ st] c p advance_Inr [OF ad] pr fr op(1,2) st
      write_record_step [OF w ad core] core
    by (auto simp: check_exact_match_def)
qed

lemma claim_send_step: "rows_step (ist_rows s) (ist_rows (snd (claim_send kx io rv a now s)))"
  unfolding claim_send_def
  by (auto split: sum.splits intro!: in_transaction_step elim: claim_send_body_Inr)

lemma claim_lookup_body_step:
  assumes "claim_lookup_body kx io rv current a now s = Inr (p, db)"
  shows "rows_step (ist_rows s) db"
proof -
  obtain row r pushed advanced claim_now where
    f: "find_stored io (xrv_tag rv) (xrv_entry_id rv) (ist_rows s) = Inr row"
    and o: "open_record kx (ist_keys s) row = Inr r"
    and pu: "push_attempt (attempt_of a AttemptLookup) r = Inr pushed"
    and ad: "advance EntryLookupClaimed claim_now pushed = Inr advanced"
    and w: "write_record kx io (ist_keys s) row advanced (ist_rows s) = Inr db"
    using assms by (auto simp: claim_lookup_body_def result_simps)
  show ?thesis
    using write_record_step(1) [OF w ad] find_stored_Inr [OF f] open_record_fields(1,2) [OF o]
      push_attempt_Inr(1,2) [OF pu] by simp
qed

lemma claim_exact_lookup_step:
  "rows_step (ist_rows s) (ist_rows (snd (claim_exact_lookup kx io rv current a now s)))"
  unfolding claim_exact_lookup_def
  by (auto split: sum.splits intro!: in_transaction_step dest: claim_lookup_body_step)

lemma settle_body_step:
  assumes "settle_body kx io tag entry_id sequence claimed iv response st now s = Inr (x, db)"
  shows "rows_step (ist_rows s) db"
proof -
  obtain row r advanced where
    f: "read_row (sio_read io 0) tag (ist_rows s) = Inr (Some row)"
    and o: "open_record kx (ist_keys s) row = Inr r"
    and ad: "advance st now (r\<lparr>irc_response := response\<rparr>) = Inr advanced"
    and w: "write_record kx io (ist_keys s) row advanced (ist_rows s) = Inr db"
    using assms by (auto simp: settle_body_def result_simps)
  show ?thesis
    using write_record_step(1) [OF w ad] read_row_Some [OF f] open_record_fields(1,2) [OF o] by simp
qed

lemma mark_send_unknown_step: "rows_step (ist_rows s) (ist_rows (snd (mark_send_unknown kx io p now s)))"
  unfolding mark_send_unknown_def by (rule in_transaction_step) (rule settle_body_step)

lemma mark_lookup_unknown_step:
  "rows_step (ist_rows s) (ist_rows (snd (mark_lookup_unknown kx io q now s)))"
  unfolding mark_lookup_unknown_def by (rule in_transaction_step) (rule settle_body_step)

lemma refuse_response_snd [simp]: "snd (refuse_response m) = snd m"
  by (simp add: refuse_response_def)

lemma complete_send_step:
  "rows_step (ist_rows s) (ist_rows (snd (complete_send kx io p bs now s)))"
  by (auto simp: complete_send_def Let_def mark_send_unknown_step split: sum.splits option.splits
      intro!: in_transaction_step dest: settle_body_step)

lemma complete_lookup_step:
  "rows_step (ist_rows s) (ist_rows (snd (complete_lookup kx io q bs now s)))"
  by (auto simp: complete_lookup_def Let_def mark_lookup_unknown_step split: sum.splits
      intro!: in_transaction_step dest: settle_body_step)

subsection \<open>Rotation keeps every row\<close>

lemma reseal_row_fields:
  assumes "reseal_row kx random old new row = Inr sealed"
  shows "srw_tag sealed = srw_tag row" "srw_entry_id sealed = srw_entry_id row"
    "srw_state sealed = srw_state row" "srw_sequence sealed = srw_sequence row"
  using assms by (auto simp: reseal_row_def result_simps)

lemma reseal_rows_core:
  assumes "reseal_rows kx io old new db n tags = Inr sealed" "row \<in> set sealed"
  shows "row_view db (srw_tag row) = Some (srw_entry_id row, entry_code (srw_state row), srw_sequence row)"
  using assms
proof (induction tags arbitrary: n sealed)
  case (Cons tag tags)
  obtain r sealed_row more_rows where r: "read_row (sio_read io n) tag db = Inr (Some r)"
    and s: "reseal_row kx (sio_nonce io n) old new r = Inr sealed_row"
    and m: "reseal_rows kx io old new db (Suc n) tags = Inr more_rows"
    and sealed: "sealed = sealed_row # more_rows"
    using Cons.prems(1) by (auto simp: result_simps)
  show ?case
  proof (cases "row = sealed_row")
    case True
    then show ?thesis using read_row_Some [OF r] reseal_row_fields [OF s] by simp
  next
    case False
    then show ?thesis using Cons.IH [OF m] Cons.prems(2) sealed by simp
  qed
qed simp

lemma update_rows_core:
  assumes "update_rows io n sealed db = Inr db'"
    and "\<And>row. row \<in> set sealed \<Longrightarrow>
      row_view db (srw_tag row) = Some (srw_entry_id row, entry_code (srw_state row), srw_sequence row)"
  shows "row_view db' = row_view db"
  using assms
proof (induction sealed arbitrary: n db)
  case (Cons row sealed)
  obtain db1 where u: "update_row (sio_write io n) row db = Inr db1"
    and r: "update_rows io (Suc n) sealed db1 = Inr db'"
    using Cons.prems(1) by (auto simp: result_simps)
  have "row_view db1 = row_view db"
    using update_row_core(1) [OF u] Cons.prems(2) [of row] by (auto simp: fun_eq_iff)
  then show ?case using Cons.IH [OF r] Cons.prems(2) by simp
qed simp

lemma rotate_body_core:
  assumes "rotate_body kx io new s = Inr (x, db)"
  shows "row_view db = row_view (ist_rows s)"
  using assms
  by (auto simp: rotate_body_def result_simps split: option.splits if_splits
      intro: update_rows_core dest: reseal_rows_core)

lemma rotate_step:
  "rows_step (ist_rows s) (ist_rows (snd (rotate_data_keys kx io io' provider s)))"
proof -
  have "rows_step (ist_rows s) (ist_rows (snd (in_transaction io s (rotate_body kx io new s) Inr)))" for new
    by (rule in_transaction_step) (simp add: rows_step_def rotate_body_core row_step.keep)
  then show ?thesis
    unfolding rotate_data_keys_def by (auto split: sum.splits prod.splits) (metis snd_conv)+
qed

lemma in_transaction_keysD: "in_transaction io s body after = (x, s') \<Longrightarrow> ist_keys s' = ist_keys s"
  using in_transaction_keys [of io s body after] by simp

lemma rotate_index_key:
  "km_index_key (ist_keys (snd (rotate_data_keys kx io io' provider s))) = km_index_key (ist_keys s)"
  unfolding rotate_data_keys_def
  by (auto simp: result_simps same_index_material_def in_transaction_keysD split: sum.splits prod.splits)

end
