(* ===== verification/Invocation_Samples.thy ===== *)
theory Invocation_Samples
  imports Invocation_Facts
begin

text \<open>
  A concrete use of the owner invocation store: a pause command, the admission that the ingress
  makes for it, a codec that tells the states of its record apart, and the records that the store
  holds before and after the claim.
\<close>

definition sample_hex :: string where "sample_hex = replicate 64 (CHR ''0'')"

definition sample_boundary :: wire_boundary where
  "sample_boundary =
     \<lparr>wb_run_id = ''r'', wb_episode_id = ''e'', wb_agent_id = ''a'', wb_state_id = ''s'',
      wb_generation = 1, wb_observation_sha256 = sample_hex, wb_catalog_sha256 = sample_hex,
      wb_adapter_revision = ''v'', wb_model_revision = ''m'', wb_configuration_sha256 = sample_hex,
      wb_output_schema_sha256 = sample_hex, wb_controller_epoch = 1, wb_gate_epoch = 1,
      wb_control_version = 1\<rparr>"

definition sample_binding :: wire_binding where
  "sample_binding =
     \<lparr>wn_schema_version = CONTEXT_OWNER_BINDING_SCHEMA_V1, wn_owner_id = ''o'', wn_owner_version = ''v'',
      wn_invocation_id = ''i'', wn_binding_id = ''b'', wn_binding_version = 1,
      wn_binding_digest = sample_hex, wn_context_ref = ''c'', wn_instance_id = ''i'',
      wn_node_kind = ''k'', wn_state = BindingAvailable, wn_workflow_run_id = ''r'',
      wn_definition_digest = sample_hex, wn_graph_id = ''g'', wn_node_id = ''n'',
      wn_node_execution_id = ''x'', wn_boundary = sample_boundary, wn_lease_epoch = 1,
      wn_snapshot_id = ''s'', wn_approved_revision_id = ''v'', wn_plan_epoch = 1,
      wn_grants = \<lparr>wg_metadata_read = True, wg_content_read = True, wg_edit = True, wg_control = True\<rparr>,
      wn_continuity = \<lparr>wk_survives_controller_restart = True, wk_receipt_recovery = True,
        wk_provider_session_continuity = False\<rparr>\<rparr>"

definition sample_identity :: identity_correlation where
  "sample_identity =
     \<lparr>wi_console = \<lparr>wo_issuer = ''i'', wo_subject = ''u'', wo_audience = ''d'', wo_credential_id = ''c'',
        wo_grant_id = ''g'', wo_grant_generation = 0, wo_grant_expires_at = 1000\<rparr>,
      wi_console_scope = \<lparr>wp_project_id = ''p'', wp_run_id = ''r'', wp_episode_id = ''e'', wp_agent_id = ''a''\<rparr>,
      wi_harness = \<lparr>wh_actor_subject = ''u'', wh_owner_id = ''o'', wh_workflow_run_id = ''r'',
        wh_credential_reference_id = ''f'', wh_credential_expires_at = 1000\<rparr>\<rparr>"

definition sample_command :: wire_command where "sample_command = WirePause ''key'' 1"

definition sample_operation :: wire_operation where
  "sample_operation = SubmitControl ''r'' sample_command"

definition sample_invocation :: invocation where
  "sample_invocation =
     \<lparr>iv_schema_version = CONSOLE_CONTEXT_OWNER_INVOCATION_SCHEMA_V2, iv_identity = sample_identity,
      iv_expected_binding = Some sample_binding, iv_operation = sample_operation\<rparr>"

definition sample_principal :: verified_principal where
  "sample_principal = \<lparr>vpr_issuer = ''i'', vpr_subject = ''u'', vpr_audience = ''d'',
     vpr_credential_id = ''c'', vpr_expires_at = 1000\<rparr>"

definition sample_scope :: scope where
  "sample_scope = \<lparr>sc_project_id = ''p'', sc_run_id = ''r'', sc_episode_id = ''e'', sc_agent_id = ''a''\<rparr>"

definition sample_grant :: admitted_grant where
  "sample_grant = \<lparr>asg_grant_id = ''g'', asg_issuer = ''i'', asg_subject = ''u'',
     asg_permission = PauseAgent, asg_scope = sample_scope, asg_not_before = 0, asg_expires_at = 1000,
     asg_revocation_generation = 0\<rparr>"

definition sample_credential :: resolved_credential where
  "sample_credential = \<lparr>roc_reference = ''f'', roc_descriptor =
     \<lparr>ocd_console_issuer = ''i'', ocd_console_subject = ''u'', ocd_harness_subject = ''u'',
      ocd_scope = sample_scope, ocd_exact_scopes = [''workflow:control''], ocd_expires_at = 1000\<rparr>\<rparr>"

definition sample_origin_of :: admission_snapshot where
  "sample_origin_of =
     \<lparr>asn_issuer = ''i'', asn_subject = ''u'', asn_audience = ''d'', asn_console_credential_id = ''c'',
      asn_principal_expires_at = 1000, asn_scope = sample_scope, asn_harness_actor = ''u'',
      asn_harness_owner = ''o'', asn_harness_workflow_run = ''r'', asn_binding = Some sample_binding,
      asn_required_permissions = [''context.pause''], asn_harness_scopes = [''workflow:control''],
      asn_grants = [grant_snapshot_of sample_grant], asn_credential_reference_id = ''f'',
      asn_credential_expires_at = 1000\<rparr>"

definition sample_admission :: trusted_admission where
  "sample_admission = \<lparr>tad_snapshot = sample_origin_of, tad_reference = ''f'',
     tad_invocation = sample_invocation, tad_use_kind = UseWrite, tad_deadline = 899000000000\<rparr>"

definition sample_endpoint :: endpoint where
  "sample_endpoint = \<lparr>ep_method = HttpPost,
     ep_path = ''/v1/workflow-runs/r/context-control-commands'', ep_query = []\<rparr>"

definition sample_keys :: key_material where
  "sample_keys = \<lparr>km_index_key_id = ''i'', km_index_key = ''I'', km_current_data_key_id = ''d'',
     km_data_keys = bt_insert ''d'' ''D'' bt_empty\<rparr>"

definition prepared_sample :: invocation_record where
  "prepared_sample = prepared_record sample_keys sample_admission sample_invocation sample_endpoint ''{}'' 100"

definition claimed_sample :: invocation_record where
  "claimed_sample = prepared_sample\<lparr>irc_attempts := [attempt_of sample_admission AttemptWrite],
     irc_sequence := 2, irc_state := EntryWriteClaimed, irc_updated_at := 100\<rparr>"

text \<open>The text of a record is a letter for its state; the cipher appends sixteen bytes.\<close>

definition sample_codec :: store_codec where
  "sample_codec =
     \<lparr>jc_sha = (\<lambda>_. []), jc_scan = (\<lambda>_. (ScanScalar, True)), jc_create_vec = (\<lambda>_. None),
      jc_patch_vec = (\<lambda>_. None), jc_preview_vec = (\<lambda>_. None), jc_document_vec = (\<lambda>_. None),
      jc_mutation_lookup_vec = (\<lambda>_. None), jc_publication_vec = (\<lambda>_. None),
      jc_publication_lookup_vec = (\<lambda>_. None), jc_upload_vec = (\<lambda>_. None), jc_adoption_vec = (\<lambda>_. None),
      jc_command_vec = (\<lambda>_. Some ''{}''), jc_association_of = (\<lambda>_. None),
      jc_source_status_of = (\<lambda>_. None), jc_limits_of = (\<lambda>_. None), jc_items_of = (\<lambda>_. None),
      jc_draft_list_of = (\<lambda>_. None), jc_draft_of = (\<lambda>_. None), jc_mutation_receipt_of = (\<lambda>_. None),
      jc_mutation_lookup_of = (\<lambda>_. None), jc_preview_of = (\<lambda>_. None), jc_revision_page_of = (\<lambda>_. None),
      jc_revision_of = (\<lambda>_. None), jc_published_sources_of = (\<lambda>_. None),
      jc_publication_receipt_of = (\<lambda>_. None), jc_publication_lookup_of = (\<lambda>_. None),
      jc_source_publication_of = (\<lambda>_. None), jc_control_receipt_of = (\<lambda>_. None),
      xk_mac = (\<lambda>_ _. replicate 32 (CHR ''t'')),
      xk_encrypt = (\<lambda>_ _ _ text. Some (text @ replicate 16 (CHR ''x''))),
      xk_decrypt = (\<lambda>_ _ _ text. Some (take 1 text)),
      xk_record_vec = (\<lambda>r. Some (if irc_state r = EntryPrepared then ''P'' else ''C'')),
      xk_record_of = (\<lambda>bs. Some (if bs = ''P'' then prepared_sample else claimed_sample)),
      xk_response_vec = (\<lambda>_. None), xk_mutation_receipt_vec = (\<lambda>_. None),
      xk_publication_receipt_vec = (\<lambda>_. None), xk_source_publication_vec = (\<lambda>_. None),
      xk_control_receipt_vec = (\<lambda>_. None)\<rparr>"

definition sample_disk :: disk where
  "sample_disk = \<lparr>dsk_pages = Some 1, dsk_database = FileSized 4096 True, dsk_wal = FileMissing,
     dsk_shm = FileMissing, dsk_journal = FileMissing\<rparr>"

definition sample_io :: store_io where
  "sample_io = \<lparr>sio_clock = (\<lambda>_. (Some 100, 0)), sio_begin = None, sio_headroom = (sample_disk, sample_disk),
     sio_tags = None, sio_read = (\<lambda>_. None), sio_count = True, sio_entry_id = Some (replicate 16 (CHR ''e'')),
     sio_nonce = (\<lambda>_. Some (replicate 24 (CHR ''n''))), sio_write = (\<lambda>_. None), sio_after = sample_disk,
     sio_commit = None,
     sio_schema = \<lparr>svw_tables = Inr [], svw_objects = None, svw_extra_objects = None,
       svw_unexpected_indexes = None, svw_automatic_indexes = None, svw_columns = (\<lambda>_. Inr [])\<rparr>\<rparr>"

definition sample_store :: inv_store where
  "sample_store = \<lparr>ist_meta = [], ist_rows = bt_empty, ist_keys = sample_keys\<rparr>"

definition sample_reservation :: reservation where
  "sample_reservation = reservation_of (replicate 32 (CHR ''t'')) (replicate 16 (CHR ''e'')) FamilyControl"

subsection \<open>The invocation and its admission\<close>

lemma sample_identity_valid: "identity_validate sample_identity = Inr ()"
  by code_simp

lemma sample_binding_valid: "binding_validate sample_binding = Inr ()"
  by code_simp

lemma sample_operation_valid: "operation_validate sample_operation (Some sample_binding) = Inr ()"
  by code_simp

lemma sample_endpoint_ok: "operation_endpoint sample_operation = Inr sample_endpoint"
  by code_simp

lemma sample_body: "operation_body sample_codec sample_operation = Inr (Some ''{}'')"
  by (simp add: sample_operation_def bounded_json_bytes_def wire_json_shape_def sample_codec_def
      shape_enter_def MAX_HARNESS_JSON_BODY_BYTES_def MAX_HARNESS_JSON_DEPTH_def)

lemma sample_scopes:
  "check_boundary_scope (wn_boundary sample_binding) sample_identity = Inr ()"
  "wn_owner_id sample_binding = ''o''" "wn_workflow_run_id sample_binding = ''r''"
  "wh_owner_id (wi_harness sample_identity) = ''o''"
  "wh_workflow_run_id (wi_harness sample_identity) = ''r''"
  "wp_run_id (wi_console_scope sample_identity) = ''r''"
  "operation_run sample_operation = ''r''"
  by code_simp+

lemma sample_invocation_valid: "invocation_validate sample_codec sample_invocation = Inr ()"
  by (simp add: invocation_validate_def sample_invocation_def wire_schema_def sample_identity_valid
      sample_binding_valid sample_operation_valid sample_body sample_scopes)

lemma sample_invocation_facts:
  "invocation_endpoint sample_codec sample_invocation = Inr sample_endpoint"
  "harness_body sample_codec sample_invocation = Inr (Some ''{}'')"
  "iv_operation sample_invocation = sample_operation"
  by (simp_all add: invocation_endpoint_def harness_body_def sample_invocation_valid)
    (simp_all add: sample_invocation_def sample_endpoint_ok sample_body)

lemma sample_needs:
  "required_console_permissions sample_operation UseWrite = Inr [PauseAgent]"
  "required_permission_names sample_operation UseWrite = Inr [''context.pause'']"
  "required_harness_scopes sample_operation UseWrite = Inr [''workflow:control'']"
  by (simp_all add: required_permission_names_def required_console_permissions_def
      required_harness_scopes_def sample_operation_def sample_command_def)

lemma sample_identity_matches:
  "\<not> admission_identity_mismatch sample_principal sample_credential sample_invocation 100"
  "admit_grants sample_principal (roc_descriptor sample_credential) 100 [] 1000 [sample_grant]
     = Inr ([''context.pause''], 1000)"
  by code_simp+

lemma sample_admitted:
  "from_verified_ingress sample_codec 0 0 sample_principal [sample_grant] sample_credential
     sample_invocation UseWrite 100 = Inr sample_admission"
proof -
  have m: "min (vpr_expires_at sample_principal) (ocd_expires_at (roc_descriptor sample_credential)) = 1000"
    by (simp add: sample_principal_def sample_credential_def)
  have r: "remaining_seconds 1000 100 = Some 899" by (simp add: remaining_seconds_def)
  show ?thesis
    unfolding from_verified_ingress_def Let_def
    by (simp add: sample_invocation_valid sample_identity_matches sample_invocation_facts(3) sample_needs
        m r MAX_AUTH_GRANTS_def instant_add_def)
      (simp add: sample_grant_def sample_invocation_def sample_identity_def sample_credential_def
        permits_exact_scope_def sample_admission_def sample_origin_of_def sample_principal_def r)
qed

subsection \<open>The records\<close>

lemma sample_grants_valid:
  "valid_grant_snapshots [grant_snapshot_of sample_grant] sample_scope ''i'' ''u'' [''context.pause'']"
  by code_simp

lemma sample_origin: "origin_matches_invocation sample_origin_of sample_invocation"
  by code_simp

lemma prepared_valid: "validate_record sample_codec prepared_sample = Inr ()"
proof -
  have h: "record_header_valid prepared_sample"
    by (simp add: record_header_valid_def prepared_sample_def prepared_record_def RECORD_SCHEMA_VERSION_def
        sample_admission_def sample_origin_of_def MAX_AUTH_GRANTS_def valid_state_history_def)
  show ?thesis
    unfolding validate_record_def Let_def
    by (simp add: h)
      (simp add: prepared_sample_def prepared_record_def sample_admission_def sample_invocation_valid
        sample_invocation_facts sample_needs sample_origin MAX_HARNESS_JSON_BODY_BYTES_def,
       simp add: sample_origin_of_def sample_grants_valid)
qed

lemma attempt_valid:
  "validate_attempt claimed_sample (attempt_of sample_admission AttemptWrite) = Inr ()"
  by (simp add: validate_attempt_def attempt_of_def Let_def claimed_sample_def prepared_sample_def
      prepared_record_def sample_admission_def sample_invocation_facts sample_needs sample_origin_of_def
      MAX_AUTH_GRANTS_def sample_grants_valid)

lemma claimed_valid: "validate_record sample_codec claimed_sample = Inr ()"
proof -
  have h: "record_header_valid claimed_sample"
    by (simp add: record_header_valid_def claimed_sample_def prepared_sample_def prepared_record_def
        RECORD_SCHEMA_VERSION_def sample_admission_def sample_origin_of_def MAX_AUTH_GRANTS_def
        MAX_ATTEMPTS_def valid_state_history_def last_attempt_def attempt_of_def Let_def)
  have a: "irc_attempts claimed_sample = [attempt_of sample_admission AttemptWrite]"
    by (simp add: claimed_sample_def)
  show ?thesis
    unfolding validate_record_def Let_def
    by (simp add: h a attempt_valid)
      (simp add: claimed_sample_def prepared_sample_def prepared_record_def sample_admission_def
        sample_invocation_valid sample_invocation_facts sample_needs sample_origin
        MAX_HARNESS_JSON_BODY_BYTES_def,
       simp add: sample_origin_of_def sample_grants_valid)
qed

subsection \<open>The run\<close>

lemma sample_current:
  "validate_admission_current sample_admission sample_invocation UseWrite 100 (Some 100, 0) = Inr 100"
  by (simp add: validate_admission_current_def admission_validate_for_def deadline_for_def
      admission_valid_at_def sample_admission_def sample_origin_of_def grant_snapshot_of_def sample_grant_def)

lemma sample_headroom: "headroom sample_io = Inr ()" "check_storage_bounds (sio_after sample_io) = Inr ()"
  by (simp_all add: headroom_def check_write_headroom_def check_storage_bounds_def sample_io_def
      sample_disk_def MAX_DATABASE_PAGES_def MAX_DATABASE_BYTES_def MAX_WAL_BYTES_def
      MAX_AUXILIARY_BYTES_def MAX_TOTAL_STORE_BYTES_def MAX_SINGLE_WRITE_GROWTH_BYTES_def checked_add_def)

lemma sample_locator: "\<exists>l. stable_locator_of sample_invocation = Inr l \<and> lc_family l = FamilyControl"
  by (simp add: stable_locator_of_def sample_invocation_facts(3) sample_operation_def)

lemma sample_tag: "lookup_tag sample_codec key l = replicate 32 (CHR ''t'')"
  by (simp add: lookup_tag_def sample_codec_def)

lemma sample_io_fields [simp]:
  "sio_clock sample_io n = (Some 100, 0)" "sio_begin sample_io = None" "sio_read sample_io n = None"
  "sio_count sample_io" "sio_entry_id sample_io = Some (replicate 16 (CHR ''e''))"
  "sio_nonce sample_io n = Some (replicate 24 (CHR ''n''))" "sio_write sample_io n = None"
  "sio_commit sample_io = None"
  by (simp_all add: sample_io_def)

lemma sql_None [simp]: "sql None = Inr ()"
  by (simp add: sql_def)

lemma sample_headroom_response:
  "ensure_response_headroom sample_codec r = Inr ()"
  by (simp add: ensure_response_headroom_def sample_codec_def MAX_HARNESS_JSON_BODY_BYTES_def
      MAX_CIPHERTEXT_BYTES_def)

lemma sample_aad: "\<exists>aad. associated_data ''i'' tag entry_id st n ''d'' = Inr aad"
  by (simp add: associated_data_def aad_field_def)

text \<open>Sealing under the sample codec writes the letter of the state.\<close>

definition sample_raw :: "entry_state \<Rightarrow> u64 \<Rightarrow> stored_row" where
  "sample_raw st n = \<lparr>srw_tag = replicate 32 (CHR ''t''), srw_entry_id = replicate 16 (CHR ''e''),
     srw_state = st, srw_sequence = n, srw_data_key_id = ''d'', srw_nonce = replicate 24 (CHR ''n''),
     srw_ciphertext = (if st = EntryPrepared then ''P'' else ''C'') @ replicate 16 (CHR ''x'')\<rparr>"

lemma sample_data_key [simp]:
  "bt_get (km_data_keys sample_keys) ''d'' = Some ''D''"
  "km_index_key_id sample_keys = ''i''" "km_current_data_key_id sample_keys = ''d''"
  by (simp_all add: sample_keys_def bt_get_insert')

lemma sample_seal:
  assumes "validate_record sample_codec r = Inr ()" "irc_data_key_id r = ''d''"
  shows "seal_record sample_codec (Some (replicate 24 (CHR ''n''))) sample_keys r
      (replicate 32 (CHR ''t'')) (replicate 16 (CHR ''e'')) = Inr (sample_raw (irc_state r) (irc_sequence r))"
proof -
  have r: "r\<lparr>irc_data_key_id := ''d''\<rparr> = r" using assms(2) by simp
  obtain aad where "associated_data ''i'' (replicate 32 (CHR ''t'')) (replicate 16 (CHR ''e''))
      (irc_state r) (irc_sequence r) ''d'' = Inr aad"
    using sample_aad by blast
  then show ?thesis
    using assms(1)
    by (simp add: seal_record_def Let_def r encrypt_row_def)
      (simp add: sample_codec_def MAX_CIPHERTEXT_BYTES_def sample_raw_def assms(2))
qed

definition sample_rows :: "entry_state \<Rightarrow> u64 \<Rightarrow> rows" where
  "sample_rows st n = bt_insert (replicate 32 (CHR ''t'')) (raw_of_stored (sample_raw st n) (int (unat n))) bt_empty"

lemma sample_read:
  "read_row None (replicate 32 (CHR ''t'')) (sample_rows EntryPrepared 1) = Inr (Some (sample_raw EntryPrepared 1))"
  "read_row None (replicate 32 (CHR ''t'')) (sample_rows EntryWriteClaimed 2)
     = Inr (Some (sample_raw EntryWriteClaimed 2))"
  by (simp_all add: read_row_def sample_rows_def bt_get_insert' raw_of_stored_def sample_raw_def
      MAX_CIPHERTEXT_BYTES_def entry_from_sql_def)

lemma sample_open:
  "open_record sample_codec sample_keys (sample_raw EntryPrepared 1) = Inr prepared_sample"
  "open_record sample_codec sample_keys (sample_raw EntryWriteClaimed 2) = Inr claimed_sample"
proof -
  obtain l where l: "stable_locator_of sample_invocation = Inr l" using sample_locator by blast
  obtain aad1 aad2 where aad:
    "associated_data ''i'' (replicate 32 (CHR ''t'')) (replicate 16 (CHR ''e'')) EntryPrepared 1 ''d'' = Inr aad1"
    "associated_data ''i'' (replicate 32 (CHR ''t'')) (replicate 16 (CHR ''e'')) EntryWriteClaimed 2 ''d'' = Inr aad2"
    using sample_aad by blast
  have d: "decrypt_row sample_codec sample_keys ''i'' (sample_raw EntryPrepared 1) = Inr ''P''"
    "decrypt_row sample_codec sample_keys ''i'' (sample_raw EntryWriteClaimed 2) = Inr ''C''"
    by (simp_all add: decrypt_row_def sample_raw_def aad) (simp_all add: sample_codec_def)
  have rec: "xk_record_of sample_codec ''P'' = Some prepared_sample"
    "xk_record_of sample_codec ''C'' = Some claimed_sample"
    by (simp_all add: sample_codec_def)
  have f: "irc_state prepared_sample = EntryPrepared" "irc_sequence prepared_sample = 1"
    "irc_data_key_id prepared_sample = ''d''" "irc_invocation prepared_sample = sample_invocation"
    "irc_state claimed_sample = EntryWriteClaimed" "irc_sequence claimed_sample = 2"
    "irc_data_key_id claimed_sample = ''d''" "irc_invocation claimed_sample = sample_invocation"
    by (simp_all add: prepared_sample_def claimed_sample_def prepared_record_def)
  show "open_record sample_codec sample_keys (sample_raw EntryPrepared 1) = Inr prepared_sample"
    "open_record sample_codec sample_keys (sample_raw EntryWriteClaimed 2) = Inr claimed_sample"
    by (simp_all add: open_record_def d rec f prepared_valid claimed_valid l sample_tag)
      (simp_all add: sample_raw_def)
qed

lemma sample_constraints:
  "row_constraints (replicate 32 (CHR ''t'')) (raw_of_stored (sample_raw EntryPrepared 1) 1)"
  "row_constraints (replicate 32 (CHR ''t'')) (raw_of_stored (sample_raw EntryWriteClaimed 2) 2)"
  "sqlite_sequence 1 = Inr 1" "sqlite_sequence 2 = Inr 2"
  by (simp_all add: row_constraints_def raw_of_stored_def sample_raw_def sqlite_sequence_def)

lemma sample_insert:
  "insert_row None (sample_raw EntryPrepared 1) bt_empty = Inr (sample_rows EntryPrepared 1)"
proof -
  have e: "bt_get bt_empty k = None" "bt_values (bt_empty :: rows) = []" for k :: bytes
    by (transfer, simp) (simp add: bt_values_def bt_empty.rep_eq)
  have t: "srw_tag (sample_raw st n) = replicate 32 (CHR ''t'')" for st n by (simp add: sample_raw_def)
  show ?thesis
    using sample_constraints
    by (simp add: insert_row_def Let_def t bt_contains_def e sample_rows_def)
      (simp add: sample_raw_def)
qed

lemma sample_update:
  "update_row None (sample_raw EntryWriteClaimed 2) (sample_rows EntryPrepared 1)
     = Inr (sample_rows EntryWriteClaimed 2)"
proof -
  have t: "srw_tag (sample_raw st n) = replicate 32 (CHR ''t'')"
    "rrw_entry_id (raw_of_stored (sample_raw st n) k) = srw_entry_id (sample_raw st' n')" for st n st' n' k
    by (simp_all add: sample_raw_def raw_of_stored_def)
  have i: "bt_insert k w (bt_insert k v (bt_empty :: rows)) = bt_insert k w bt_empty" for k v w
    by transfer simp
  show ?thesis
    using sample_constraints
    by (simp add: update_row_def t sample_rows_def bt_get_insert' i)
      (simp add: sample_raw_def)
qed

lemma sample_entry: "srw_entry_id (sample_raw st n) = replicate 16 (CHR ''e'')"
  "srw_tag (sample_raw st n) = replicate 32 (CHR ''t'')" "srw_state (sample_raw st n) = st"
  by (simp_all add: sample_raw_def)

lemma same_call_refl: "same_call iv iv"
  by (simp add: same_call_def Let_def)

lemma sample_reserved:
  "reserve sample_codec sample_io sample_invocation sample_admission 100 sample_store
     = (Inr (Ready sample_reservation), sample_store\<lparr>ist_rows := sample_rows EntryPrepared 1\<rparr>)"
proof -
  obtain l where l: "stable_locator_of sample_invocation = Inr l" "lc_family l = FamilyControl"
    using sample_locator by blast
  have a: "tad_use_kind sample_admission = UseWrite" "tad_invocation sample_admission = sample_invocation"
    by (simp_all add: sample_admission_def)
  have s: "ist_rows sample_store = bt_empty" "ist_keys sample_store = sample_keys"
    by (simp_all add: sample_store_def)
  have r: "read_row None tag bt_empty = Inr None" for tag
    by (simp add: read_row_def bt_get.rep_eq bt_empty.rep_eq)
  have c: "row_count sample_io bt_empty = Inr 0"
    by (simp add: row_count_def bt_len_def bt_empty.rep_eq)
  have f: "irc_data_key_id prepared_sample = ''d''" "irc_state prepared_sample = EntryPrepared"
    "irc_sequence prepared_sample = 1"
    by (simp_all add: prepared_sample_def prepared_record_def)
  have u: "utf8_valid ''{}''" by (simp add: utf8_valid_def)
  have n: "reserve_new sample_codec sample_io sample_invocation sample_admission 100 100
      (replicate 32 (CHR ''t'')) FamilyControl sample_store
      = Inr (Ready sample_reservation, sample_rows EntryPrepared 1)"
    unfolding reserve_new_def Let_def
    by (simp add: a s c sample_current sample_invocation_facts MAX_ROWS_def MAX_HARNESS_JSON_BODY_BYTES_def u
        flip: prepared_sample_def)
      (simp add: prepared_valid sample_seal f sample_headroom_response sample_insert sample_headroom
        sample_current sample_reservation_def)
  show ?thesis
    unfolding reserve_def
    by (simp add: sample_invocation_valid a sample_current l in_transaction_def reserve_in_transaction_def
        sample_headroom s sample_tag r n)
qed

definition sample_permit :: send_permit where
  "sample_permit = \<lparr>osp_tag = replicate 32 (CHR ''t''), osp_entry_id = replicate 16 (CHR ''e''),
     osp_sequence = 2, osp_invocation = sample_invocation, osp_endpoint = sample_endpoint,
     osp_body = ''{}'', osp_reference = ''f''\<rparr>"

definition claimed_store :: inv_store where
  "claimed_store = sample_store\<lparr>ist_rows := sample_rows EntryWriteClaimed 2\<rparr>"

lemma sample_find:
  "find_stored sample_io (xrv_tag sample_reservation) (xrv_entry_id sample_reservation) (sample_rows EntryPrepared 1)
     = Inr (sample_raw EntryPrepared 1)"
  "find_stored sample_io (xrv_tag sample_reservation) (xrv_entry_id sample_reservation) (sample_rows EntryWriteClaimed 2)
     = Inr (sample_raw EntryWriteClaimed 2)"
  using sample_read
  by (simp_all add: find_stored_def sample_reservation_def reservation_of_def sample_entry)

lemma sample_match:
  "check_exact_match prepared_sample sample_invocation sample_admission = Inr ()"
  "check_exact_match claimed_sample sample_invocation sample_admission = Inr ()"
  by (simp_all add: check_exact_match_def prepared_sample_def claimed_sample_def prepared_record_def
      sample_admission_def same_call_refl admission_matches_def)

lemma sample_claimed:
  "claim_send sample_codec sample_io sample_reservation sample_admission 100
     (sample_store\<lparr>ist_rows := sample_rows EntryPrepared 1\<rparr>) = (Inr sample_permit, claimed_store)"
proof -
  have a: "tad_invocation sample_admission = sample_invocation" "tad_reference sample_admission = ''f''"
    by (simp_all add: sample_admission_def)
  have f: "irc_state prepared_sample = EntryPrepared" by (simp add: prepared_sample_def prepared_record_def)
  have p: "push_attempt (attempt_of sample_admission AttemptWrite) prepared_sample
      = Inr (prepared_sample\<lparr>irc_attempts := [attempt_of sample_admission AttemptWrite]\<rparr>)"
    by (simp add: push_attempt_def prepared_sample_def prepared_record_def MAX_ATTEMPTS_def)
  have ad: "advance EntryWriteClaimed 100 (prepared_sample\<lparr>irc_attempts := [attempt_of sample_admission AttemptWrite]\<rparr>)
      = Inr claimed_sample"
    by (simp add: advance_def checked_add_def prepared_sample_def prepared_record_def claimed_sample_def)
  have g: "irc_state claimed_sample = EntryWriteClaimed" "irc_sequence claimed_sample = 2"
    "irc_data_key_id claimed_sample = ''d''" "irc_endpoint claimed_sample = sample_endpoint"
    "irc_canonical_body claimed_sample = ''{}''"
    by (simp_all add: claimed_sample_def prepared_sample_def prepared_record_def)
  have w: "write_record sample_codec sample_io sample_keys (sample_raw EntryPrepared 1) claimed_sample
      (sample_rows EntryPrepared 1) = Inr (sample_rows EntryWriteClaimed 2)"
    by (simp add: write_record_def sample_entry sample_seal claimed_valid g sample_update sample_headroom)
  have s: "ist_keys sample_store = sample_keys" by (simp add: sample_store_def)
  show ?thesis
    unfolding claim_send_def
    by (simp add: a sample_current in_transaction_def claim_send_body_def sample_headroom sample_find
        sample_open sample_match f p sample_headroom_response ad w g s sample_entry sample_permit_def
        claimed_store_def)
qed

text \<open>The second claim of the same reservation is refused.\<close>

lemma sample_claimed_again:
  "claim_send sample_codec sample_io sample_reservation sample_admission 100 claimed_store
     = (Inl StoreRecoveryRequired, claimed_store)"
proof -
  have a: "tad_invocation sample_admission = sample_invocation" by (simp add: sample_admission_def)
  have f: "irc_state claimed_sample = EntryWriteClaimed" by (simp add: claimed_sample_def)
  have s: "ist_keys claimed_store = sample_keys" "ist_rows claimed_store = sample_rows EntryWriteClaimed 2"
    by (simp_all add: sample_store_def claimed_store_def)
  show ?thesis
    unfolding claim_send_def
    by (simp add: a sample_current in_transaction_def claim_send_body_def sample_headroom sample_find
        sample_open sample_match f s)
qed

end
