(* ===== verification/Invocation_Guarantees.thy ===== *)
theory Invocation_Guarantees
  imports Invocation_Samples
begin

text \<open>
  Runs of the owner invocation store, by any number of callers, and what they guarantee: the owner
  is sent each call at most once.
\<close>

subsection \<open>Runs\<close>

text \<open>
  One call of the store, with the answers of its environment. The permits and reservations that
  the calls present are arbitrary, so that a caller may keep, repeat or invent them.
\<close>

datatype inv_event =
    ReserveEvent store_io invocation trusted_admission u64
  | ClaimSendEvent store_io reservation trusted_admission u64
  | ClaimLookupEvent store_io reservation invocation trusted_admission u64
  | CompleteSendEvent store_io send_permit bytes u64
  | SendUnknownEvent store_io send_permit u64
  | CompleteLookupEvent store_io lookup_permit bytes u64
  | LookupUnknownEvent store_io lookup_permit u64
  | RotateEvent store_io store_io "store_error + key_material"

fun permit_of :: "(store_error + send_permit) \<times> inv_store \<Rightarrow> send_permit list \<times> inv_store" where
  "permit_of (Inl e, s) = ([], s)"
| "permit_of (Inr p, s) = ([p], s)"

fun inv_step :: "'c store_codec_scheme \<Rightarrow> inv_event \<Rightarrow> inv_store \<Rightarrow> send_permit list \<times> inv_store" where
  "inv_step kx (ReserveEvent io iv a now) s = ([], snd (reserve kx io iv a now s))"
| "inv_step kx (ClaimSendEvent io rv a now) s = permit_of (claim_send kx io rv a now s)"
| "inv_step kx (ClaimLookupEvent io rv iv a now) s = ([], snd (claim_exact_lookup kx io rv iv a now s))"
| "inv_step kx (CompleteSendEvent io p bs now) s = ([], snd (complete_send kx io p bs now s))"
| "inv_step kx (SendUnknownEvent io p now) s = ([], snd (mark_send_unknown kx io p now s))"
| "inv_step kx (CompleteLookupEvent io q bs now) s = ([], snd (complete_lookup kx io q bs now s))"
| "inv_step kx (LookupUnknownEvent io q now) s = ([], snd (mark_lookup_unknown kx io q now s))"
| "inv_step kx (RotateEvent io io' provider) s = ([], snd (rotate_data_keys kx io io' provider s))"

text \<open>The permits that a run of steps hands out, in order.\<close>

fun run_permits :: "('e \<Rightarrow> 's \<Rightarrow> 'p list \<times> 's) \<Rightarrow> 'e list \<Rightarrow> 's \<Rightarrow> 'p list" where
  "run_permits perform [] s = []"
| "run_permits perform (e # es) s = fst (perform e s) @ run_permits perform es (snd (perform e s))"

definition send_permits :: "'c store_codec_scheme \<Rightarrow> inv_event list \<Rightarrow> inv_store \<Rightarrow> send_permit list" where
  "send_permits kx es s = run_permits (inv_step kx) es s"

subsection \<open>A journal that hands out permits\<close>

text \<open>
  What the operations of a journal share: a tag that is claimed stays claimed, a permit is handed
  out for a tag that was not and leaves it claimed, and it is good by a standard that no operation
  changes.
\<close>

locale permit_journal =
  fixes perform :: "'e \<Rightarrow> 's \<Rightarrow> 'p list \<times> 's"
    and claimed :: "'s \<Rightarrow> 't \<Rightarrow> bool" and tag_of :: "'p \<Rightarrow> 't" and good :: "'s \<Rightarrow> 'p \<Rightarrow> bool"
  assumes claimed_kept: "claimed s t \<Longrightarrow> claimed (snd (perform e s)) t"
    and good_kept: "good (snd (perform e s)) p = good s p"
    and handed_out: "p \<in> set (fst (perform e s)) \<Longrightarrow>
      fst (perform e s) = [p] \<and> good s p \<and> \<not> claimed s (tag_of p) \<and> claimed (snd (perform e s)) (tag_of p)"
begin

lemma permits_good: "p \<in> set (run_permits perform es s) \<Longrightarrow> good s p"
proof (induction es arbitrary: s)
  case (Cons e es)
  then show ?case using Cons.IH [of "snd (perform e s)"] good_kept [of e s p] handed_out [of p e s] by auto
qed simp

lemma permits_unclaimed: "p \<in> set (run_permits perform es s) \<Longrightarrow> \<not> claimed s (tag_of p)"
  by (induction es arbitrary: s) (auto dest: handed_out claimed_kept)

lemma permits_distinct: "distinct (map tag_of (run_permits perform es s))"
proof (induction es arbitrary: s)
  case (Cons e es)
  show ?case
  proof (cases "fst (perform e s)")
    case Nil
    then show ?thesis using Cons.IH by simp
  next
    case (Cons p ps)
    then have "fst (perform e s) = [p]" "claimed (snd (perform e s)) (tag_of p)"
      using handed_out [of p e s] by auto
    then show ?thesis using Cons.IH permits_unclaimed by auto
  qed
qed simp

text \<open>Where the tag is a function of a key that good permits have, the keys are distinct as well.\<close>

lemma permits_distinct_key:
  assumes "\<And>p. good s p \<Longrightarrow> \<exists>l. key p = Inr l \<and> h l = tag_of p"
  shows "distinct (map key (run_permits perform es s))"
proof (rule distinct_map [THEN iffD2], rule conjI)
  show "distinct (run_permits perform es s)"
    using permits_distinct [of es s] by (simp add: distinct_map)
  show "inj_on key (set (run_permits perform es s))"
  proof (rule inj_onI)
    fix p q assume p: "p \<in> set (run_permits perform es s)" "q \<in> set (run_permits perform es s)" "key p = key q"
    then have "tag_of p = tag_of q"
      using assms [OF permits_good [OF p(1)]] assms [OF permits_good [OF p(2)]] by auto
    then show "p = q"
      using permits_distinct [of es s] p(1,2) by (auto simp: distinct_map dest: inj_onD)
  qed
qed

end

subsection \<open>One step\<close>

lemma snd_permit_of [simp]: "snd (permit_of m) = snd m"
  by (cases m rule: permit_of.cases) simp_all

lemma inv_step_rows: "rows_step (ist_rows s) (ist_rows (snd (inv_step kx e s)))"
  by (cases e) (simp_all add: reserve_step claim_send_step claim_exact_lookup_step complete_send_step
      mark_send_unknown_step complete_lookup_step mark_lookup_unknown_step rotate_step)

lemma keys_case [simp]:
  "ist_keys (snd (reserve kx io iv a now s)) = ist_keys s"
  "ist_keys (snd (claim_send kx io rv a now s)) = ist_keys s"
  "ist_keys (snd (claim_exact_lookup kx io rv iv a now s)) = ist_keys s"
  "ist_keys (snd (mark_send_unknown kx io p now s)) = ist_keys s"
  "ist_keys (snd (mark_lookup_unknown kx io q now s)) = ist_keys s"
  by (simp_all add: reserve_def claim_send_def claim_exact_lookup_def mark_send_unknown_def
      mark_lookup_unknown_def split: sum.splits)

lemma keys_complete [simp]:
  "ist_keys (snd (complete_send kx io p bs now s)) = ist_keys s"
  "ist_keys (snd (complete_lookup kx io q bs now s)) = ist_keys s"
  by (simp_all add: complete_send_def complete_lookup_def Let_def split: sum.splits option.splits)

lemma inv_step_index_key: "km_index_key (ist_keys (snd (inv_step kx e s))) = km_index_key (ist_keys s)"
  by (cases e) (simp_all add: rotate_index_key)

text \<open>What a permit carries: the body and the endpoint of its invocation, under the tag of its call.\<close>

definition permit_sound :: "'c store_codec_scheme \<Rightarrow> bytes \<Rightarrow> send_permit \<Rightarrow> bool" where
  "permit_sound kx index_key p \<longleftrightarrow>
     operation_body kx (iv_operation (osp_invocation p)) = Inr (Some (osp_body p))
     \<and> operation_endpoint (iv_operation (osp_invocation p)) = Inr (osp_endpoint p)
     \<and> (\<exists>l. stable_locator_of (osp_invocation p) = Inr l \<and> lookup_tag kx index_key l = osp_tag p)"

lemma validate_record_body:
  assumes "validate_record kx r = Inr ()"
  shows "operation_body kx (iv_operation (irc_invocation r)) = Inr (Some (irc_canonical_body r))"
    and "operation_endpoint (iv_operation (irc_invocation r)) = Inr (irc_endpoint r)"
  using assms
  by (auto simp: validate_record_def Let_def result_simps harness_body_def invocation_endpoint_def)

lemma claim_send_permit:
  assumes "claim_send kx io rv a now s = (Inr p, s')"
  shows "permit_sound kx (km_index_key (ist_keys s)) p"
    and "\<not> claimed_tag (ist_rows s) (osp_tag p)" and "claimed_tag (ist_rows s') (osp_tag p)"
proof -
  obtain db where b: "claim_send_body kx io rv a now s = Inr (p, db)" and s': "ist_rows s' = db"
    using assms by (auto simp: claim_send_def in_transaction_def result_simps split: sum.splits)
  obtain row r where o: "open_record kx (ist_keys s) row = Inr r"
    and c: "same_call (irc_invocation r) (tad_invocation a)"
    and p: "osp_tag p = srw_tag row" "osp_invocation p = tad_invocation a"
      "osp_endpoint p = irc_endpoint r" "osp_body p = irc_canonical_body r"
    and before: "row_view (ist_rows s) (osp_tag p) = Some (osp_entry_id p, entry_code EntryPrepared, irc_sequence r)"
    and after: "row_view db (osp_tag p) = Some (osp_entry_id p, entry_code EntryWriteClaimed, osp_sequence p)"
    using claim_send_body_Inr [OF b] by metis
  note f = open_record_fields(3,4) [OF o]
  show "permit_sound kx (km_index_key (ist_keys s)) p"
    using validate_record_body [OF f(1)] f(2) p same_call_fields(1) [OF c] same_call_locator [OF c]
    by (simp add: permit_sound_def)
  show "\<not> claimed_tag (ist_rows s) (osp_tag p)" using before by (simp add: claimed_tag_def)
  show "claimed_tag (ist_rows s') (osp_tag p)" using after s' by (simp add: claimed_tag_def)
qed

lemma inv_step_permit:
  assumes "p \<in> set (fst (inv_step kx e s))"
  shows "fst (inv_step kx e s) = [p] \<and> permit_sound kx (km_index_key (ist_keys s)) p
    \<and> \<not> claimed_tag (ist_rows s) (osp_tag p) \<and> claimed_tag (ist_rows (snd (inv_step kx e s))) (osp_tag p)"
proof -
  obtain io rv a now where e: "e = ClaimSendEvent io rv a now"
    using assms by (cases e) auto
  have "fst (claim_send kx io rv a now s) = Inr p"
    using assms unfolding e
    by (cases "claim_send kx io rv a now s" rule: permit_of.cases) auto
  then have c: "claim_send kx io rv a now s = (Inr p, snd (claim_send kx io rv a now s))"
    by (simp add: prod_eq_iff)
  have f: "inv_step kx e s = ([p], snd (claim_send kx io rv a now s))"
    unfolding e inv_step.simps by (subst c) simp
  show ?thesis using claim_send_permit [OF c] f by simp
qed

text \<open>The store is such a journal, under every codec.\<close>

interpretation sends: permit_journal "inv_step kx" "\<lambda>s. claimed_tag (ist_rows s)" osp_tag
    "\<lambda>s. permit_sound kx (km_index_key (ist_keys s))" for kx :: "'c store_codec_scheme"
  by unfold_locales
    (simp_all add: inv_step_index_key inv_step_permit claimed_tag_step [OF inv_step_rows])

subsection \<open>All runs\<close>

text \<open>
  C40. The owner is sent every call at most once: whatever the callers present, whatever the
  database, the clocks and the random source answer, and even if distinct calls have the same tag,
  the send permits of a run are for distinct calls (the stable locator is the principal, the scope,
  the family and the idempotency key of the call); and each permit carries the body and the route
  of its own invocation, as the wire format has them.
\<close>

theorem one_send_permit_for_each_call:
  "distinct (map (\<lambda>p. stable_locator_of (osp_invocation p)) (send_permits kx es s))
   \<and> list_all (\<lambda>p. operation_body kx (iv_operation (osp_invocation p)) = Inr (Some (osp_body p))
        \<and> operation_endpoint (iv_operation (osp_invocation p)) = Inr (osp_endpoint p))
      (send_permits kx es s)"
proof
  show "distinct (map (\<lambda>p. stable_locator_of (osp_invocation p)) (send_permits kx es s))"
    unfolding send_permits_def
    by (rule sends.permits_distinct_key [where h = "lookup_tag kx (km_index_key (ist_keys s))"])
      (auto simp: permit_sound_def)
  show "list_all (\<lambda>p. operation_body kx (iv_operation (osp_invocation p)) = Inr (Some (osp_body p))
        \<and> operation_endpoint (iv_operation (osp_invocation p)) = Inr (osp_endpoint p))
      (send_permits kx es s)"
    using sends.permits_good [of _ kx es s] by (auto simp: list_all_iff permit_sound_def send_permits_def)
qed

text \<open>
  The sample run: the call is reserved, claimed, and claimed once more. It hands out one permit,
  although the second claim presents the same reservation.
\<close>

lemma sample_permits:
  "send_permits sample_codec
     [ReserveEvent sample_io sample_invocation sample_admission 100,
      ClaimSendEvent sample_io sample_reservation sample_admission 100,
      ClaimSendEvent sample_io sample_reservation sample_admission 100] sample_store = [sample_permit]"
  by (simp add: send_permits_def sample_reserved sample_claimed sample_claimed_again)

theorem one_send_permit_for_each_call_witness:
  "send_permits sample_codec
     [ReserveEvent sample_io sample_invocation sample_admission 100,
      ClaimSendEvent sample_io sample_reservation sample_admission 100,
      ClaimSendEvent sample_io sample_reservation sample_admission 100] sample_store = [sample_permit]
   \<and> operation_body sample_codec (iv_operation (osp_invocation sample_permit)) = Inr (Some ''{}'')"
  using one_send_permit_for_each_call [of sample_codec
     "[ReserveEvent sample_io sample_invocation sample_admission 100,
      ClaimSendEvent sample_io sample_reservation sample_admission 100,
      ClaimSendEvent sample_io sample_reservation sample_admission 100]" sample_store]
  by (simp add: sample_permits) (simp add: sample_permit_def)

end
