(* ===== verification/Spec2Isabelle.thy ===== *)
theory Spec2Isabelle
  imports Reader_Guarantees Control_Guarantees Store_Guarantees Delegation_Guarantees
    Invocation_Guarantees
begin

text \<open>
  \<^bold>\<open>Context Console: a verification library.\<close>

  The console captures the context that an agent run was given, keeps it in bounded stores,
  serves it to authorised readers, and lets an operator hold a run, edit its context and release
  it. This library translates the Rust code of that core into executable definitions and proves
  what its components promise. The sources are under \<open>src/crates\<close>; a component's theory names
  the files it models, and a definition has the name of its Rust function, with a prefix
  where a name would clash. The fields of a struct carry a short prefix that the theory lists.

  \<^bold>\<open>Parts, in the order of the imports.\<close>

  \<^item> \<open>Prelude\<close>, \<open>Rust_Text\<close>, \<open>Btree_Map\<close>, \<open>Transitions\<close>: what all components share. \<open>Result\<close> is
    a sum (\<open>Inl\<close> the error) with the chaining of \<open>?\<close>; a Rust \<open>str\<close> is a list of bytes as
    characters; \<open>u8\<close> to \<open>u64\<close> are words of their width, a \<open>usize\<close> is a \<open>u64\<close> where it
    can overflow and a natural number where a length bounds it; a \<open>BTreeMap\<close> is the subtype of
    the sorted association lists. \<open>Transitions\<close> holds the locales for state machines: \<open>invariant\<close>,
    \<open>relative_invariant\<close>, \<open>stable\<close> (what holds from some point on), \<open>write_once\<close> (a cell that
    is never replaced) and \<open>simulation\<close> (a refinement of an abstract machine).
  \<^item> Readers (\<open>crates/context-reader\<close>): \<open>Json_Parser\<close> (\<open>json/parser.rs\<close>), \<open>Json_Access\<close>
    (\<open>json/access.rs\<close>), \<open>Snapshot_Reader\<close> (\<open>snapshot/*.rs\<close>), \<open>Event_Reader\<close> (\<open>event/*.rs\<close>),
    \<open>Association_Reader\<close> (\<open>association.rs\<close>). \<open>Json_Roundtrip\<close> has the printer that the parser inverts,
    \<open>Reader_Samples\<close> concrete documents, \<open>Reader_Guarantees\<close> the claims C1 to C4 and C6 to C10.
    The language of identifiers that \<open>Json_Access\<close> spells out is shared by all components: C5, at
    the end of this theory.
  \<^item> Control plane (\<open>crates/context-service/src/control\<close>): \<open>Clock\<close> (\<open>state/time.rs\<close>), \<open>Control_Types\<close>
    (\<open>types.rs\<close>), \<open>Control_Render\<close> (\<open>render.rs\<close>), \<open>Control_Plane\<close> (\<open>state/mod.rs\<close>, \<open>drafting.rs\<close>,
    \<open>models.rs\<close>, \<open>records.rs\<close>), \<open>Control_Lifecycle\<close> (\<open>lifecycle.rs\<close>). \<open>Control_Steps\<close> makes every
    mutating method one step of a machine; \<open>Control_Invariants\<close>, \<open>Control_History\<close> and
    \<open>Control_Commands\<close> interpret the locales on it; \<open>Control_Journal\<close> treats export and recovery;
    \<open>Control_Runs\<close> is a concrete run; \<open>Control_Guarantees\<close> states C11 to C26.
  \<^item> Context store (\<open>crates/context-service/src/store\<close>): \<open>Context_Store\<close> models every operation;
    \<open>Store_Steps\<close>, \<open>Store_Invariants\<close>, \<open>Store_Reads\<close>, \<open>Store_Views\<close> and \<open>Store_Archive\<close> hold
    the machine, its invariants, what is kept for good, what a grant shows, and the archive
    that the store refines; \<open>Store_Runs\<close> is a concrete run; \<open>Store_Guarantees\<close> states C27 to C35.
  \<^item> Owner surfaces (\<open>crates/context-service/src\<close>): \<open>Effective_Limits\<close> (\<open>effective_limits.rs\<close>),
    \<open>Control_Json\<close> (\<open>parse_json\<close> and \<open>JsonGuard\<close> of \<open>demo/mod.rs\<close>), \<open>Owner_Port\<close> and \<open>Owner_Delivery\<close>
    (\<open>owner.rs\<close>: grants, calls, receipts, replies, one exchange), \<open>Memory_Capabilities\<close> and
    \<open>Session_Capabilities\<close> (the descriptors of \<open>memory.rs\<close> and \<open>provider_session\<close>, with
    \<open>capability_validation.rs\<close>), \<open>Capability_Admission\<close> (\<open>capability_admission.rs\<close>), \<open>Memory_Route\<close>
    (\<open>memory.rs\<close>), \<open>Session_Registry\<close> and \<open>Session_Route\<close> (\<open>provider_session/*.rs\<close>, local and
    attached). \<open>Limit_Facts\<close>, \<open>Delegation_Facts\<close> and \<open>Registry_Facts\<close> hold what admission, delegation
    and the registry do, \<open>Delegation_Runs\<close> and \<open>Memory_Runs\<close> concrete runs, and
    \<open>Delegation_Guarantees\<close> states C36 to C39.
  \<^item> Harness wire (\<open>crates/context-service/src/harness_context_owner_wire\<close>): \<open>Wire_Validation\<close>
    (\<open>validation.rs\<close>, \<open>digest.rs\<close>), \<open>Wire_Records\<close> (\<open>boundary.rs\<close>, \<open>identity.rs\<close>, \<open>drafts/records.rs\<close>),
    \<open>Wire_Views\<close> (\<open>drafts/views.rs\<close>, \<open>source.rs\<close>), \<open>Wire_Requests\<close> (\<open>drafts/mutations.rs\<close>,
    \<open>publication.rs\<close>, \<open>control.rs\<close>), \<open>Wire_Invocation\<close> (\<open>operations/*.rs\<close>): the records of the owner
    protocol, the validation of each, the route and the body of an invocation, and the decoding
    of its response.
  \<^item> Owner invocation store (\<open>crates/context-service/src/owner_invocation_store\<close>):
    \<open>Invocation_Records\<close> (\<open>record.rs\<close>, \<open>operations.rs\<close>, and the credentials and grants they read),
    \<open>Invocation_Schema\<close> (\<open>storage/schema.rs\<close>), \<open>Invocation_Store\<close> (\<open>crypto.rs\<close>, \<open>record_codec.rs\<close>,
    \<open>engine.rs\<close>, \<open>transitions.rs\<close>, \<open>storage/core.rs\<close>). \<open>Invocation_Facts\<close> has the abstract life of a
    row, of which every operation is a step for every tag, \<open>Invocation_Samples\<close> a concrete use, and
    \<open>Invocation_Guarantees\<close> the locale \<open>permit_journal\<close>, its interpretation, and C40.

  \<^bold>\<open>How the parts meet.\<close> The store parses what it ingests with the readers, so its invariant
  rests on \<open>accepted_snapshot_is_well_formed\<close> (C6). The control plane formats its times with \<open>Clock\<close>
  and prepares its provider input with \<open>Control_Render\<close>; a command is answered from the
  idempotency table, or checked, executed and stored there. The memory and session routes delegate
  to an owner through \<open>Owner_Delivery\<close>: a handler threads the log of the requests that were sent, and
  the owner is a function of that log, so that every interleaving of its answers is covered. The
  invocation store keeps the invocations of the wire: a permit carries the route and the body that
  \<open>Wire_Invocation\<close> derives, and a response is journalled only when it decodes for its invocation.

  \<^bold>\<open>Bounds and fuel.\<close> The mutual recursion of the JSON reader runs on fuel, twice the length of
  the input and one more; every nesting consumes a byte, so the fuel is never spent (C2). Its
  string loop runs on one more than the bytes left, and every turn consumes one: this fuel is
  never spent either (C2). The JSON guard of the control bodies runs on
  fuel in the same way, and \<open>guard_fuel_is_enough\<close> shows that it is never spent. The other loops are
  structural on lists.

  \<^bold>\<open>Parameters.\<close> SHA-256 is an argument, of which the injectivity on the two inputs that a
  claim compares is the only thing ever assumed; \<open>serde_json::to_vec\<close> and the journal codec
  are arguments, with decoding after encoding as the only law (the owner surfaces assume
  nothing of their codecs); the owner, and the grant book as it is when a request arrives, are arguments; a \<open>SystemTime\<close> is the
  number of its nanoseconds and is passed to the call that reads the clock. The invocation store
  takes HMAC, the cipher and its codec as one argument and assumes nothing of them, and it takes
  the answers of SQLite, the file system, the clocks and the random source with each call, so that
  every failure of theirs is a case of its theorems; a transaction that is refused changes nothing.

  \<^bold>\<open>Not modelled.\<close> The durable control store, the private store and the subject grants keep their
  state in SQLite and encrypted files; the creation of the database file of the invocation store,
  the capture buffer, and the routing of the harness facade are left out. Sockets, HTTP framing, the command line, the demo,
  telemetry and the \<open>Debug\<close> output are input and output only.
\<close>

subsection \<open>Identifiers across the components\<close>

text \<open>
  C5. The five identifier tests of the program, of the reader and the context store on characters and
  of the control plane, the owner port and the facade on bytes, accept one language of texts: an
  ASCII letter or digit, followed by at most 127 ASCII letters, digits, dots, underscores, colons
  and hyphens. So a name that one component accepts is never refused as malformed by another.
\<close>

theorem identifiers_are_one_language:
  assumes "is_utf8 s"
  shows "(is_identifier s \<longleftrightarrow> id_bytes s) \<and> (store_valid_id s \<longleftrightarrow> id_bytes s)
    \<and> (valid_id s \<longleftrightarrow> id_bytes s) \<and> (owner_valid_id s \<longleftrightarrow> id_bytes s)
    \<and> (facade_valid_id s \<longleftrightarrow> id_bytes s)"
proof (intro conjI)
  show reader: "is_identifier s \<longleftrightarrow> id_bytes s" by (rule identifier_bytes [OF assms])
  then show "store_valid_id s \<longleftrightarrow> id_bytes s" by (simp only: store_valid_id_def is_identifier_def)
  show "valid_id s \<longleftrightarrow> id_bytes s" by (rule valid_id_bytes)
  show "owner_valid_id s \<longleftrightarrow> id_bytes s" by (simp only: owner_valid_id_def id_bytes_scan)
  show "facade_valid_id s \<longleftrightarrow> id_bytes s"
    by (simp only: facade_valid_id_def id_bytes_scan id_char_def MAX_FACADE_ID_BYTES_def)
qed

theorem identifiers_are_one_language_witness:
  "is_identifier ''run-1'' \<and> valid_id ''run-1'' \<and> facade_valid_id ''run-1''
    \<and> \<not> is_identifier ''run/1'' \<and> \<not> store_valid_id ''-run'' \<and> \<not> owner_valid_id ''run/1''"
proof -
  have "is_utf8 ''run-1''" "is_utf8 ''run/1''" "is_utf8 ''-run''" by code_simp+
  note this [THEN identifiers_are_one_language]
  then show ?thesis by (simp add: id_alphabet_def)
qed

end
